(* ===== verification/Syntax.thy ===== *)
theory Syntax
  imports Prelude
begin

text \<open>
  The data that the front end passes between its stages: source positions and tokens
  (\<open>src/src/token.rs\<close>), compile errors (\<open>src/src/error.rs\<close>) and the abstract syntax tree
  (\<open>src/src/ast.rs\<close>). The recursive part of the tree (expressions, blocks, statements and
  the structs they contain) is one family of mutually recursive datatypes whose selectors
  carry the field names of the Rust structs; the flat declarations are records.

  The message of a compile error is kept as a constructor with the values that the code
  formats into its text, one constructor per message.
\<close>

section \<open>Tokens\<close>

datatype span = Span (sp_line: nat) (sp_column: nat)

datatype (plugins only: code size) token_kind =
    TkFn | TkFnBang | TkLet | TkMut | TkStruct | TkEnum | TkIf | TkElse | TkWhile | TkFor | TkIn
  | TkMatch | TkReturn | TkTry | TkExtern | TkAs | TkAnd | TkOr | TkNot | TkTrue | TkFalse
  | TkBreak | TkContinue | TkUse | TkDefer | TkArena
  | TkIntLit int
  | TkFloatLit f64
  | TkStringLit rstring
  | TkInterpStringStart rstring
  | TkInterpStringMiddle rstring
  | TkInterpStringEnd rstring
  | TkIdent string
  | TkPlus | TkMinus | TkStar | TkSlash | TkPercent
  | TkPlusEq | TkMinusEq | TkStarEq | TkSlashEq | TkPercentEq
  | TkEqEq | TkBangEq | TkLt | TkGt | TkLtEq | TkGtEq | TkEq | TkFatArrow
  | TkLBrace | TkRBrace | TkLParen | TkRParen | TkLBracket | TkRBracket
  | TkComma | TkColon | TkSemicolon | TkDot | TkDotDot | TkArrow | TkColonColon | TkUnderscore
  | TkEof

record token =
  tk_kind :: token_kind
  tk_span :: span

section \<open>The syntax tree\<close>

datatype binop =
    OpAdd | OpSub | OpMul | OpDiv | OpMod | OpEq | OpNeq | OpLt | OpGt | OpLtEq | OpGtEq
  | OpAnd | OpOr

datatype unop = OpNeg | OpNot

datatype primitive_type =
    PrimI32 | PrimI64 | PrimF64 | PrimBool | PrimStr | PrimUnit | PrimHandle | PrimMap
  | PrimMapStrI32 | PrimMapStrI64 | PrimMapStrF64 | PrimMapI32Str | PrimMapI32I32

datatype (plugins only: code size) ast_type =
    TyPrimitive primitive_type span
  | TyFixedArray ast_type int span
  | TyDynamicArray ast_type span
  | TyResult ast_type ast_type span
  | TyNamed string span
  | TyFnPtr "ast_type list" ast_type bool span

fun type_span :: "ast_type \<Rightarrow> span" where
  "type_span (TyPrimitive _ s) = s"
| "type_span (TyFixedArray _ _ s) = s"
| "type_span (TyDynamicArray _ s) = s"
| "type_span (TyResult _ _ s) = s"
| "type_span (TyNamed _ s) = s"
| "type_span (TyFnPtr _ _ _ s) = s"

datatype (plugins only: code size) pattern =
    PWildcard span
  | PIdent string span
  | PIntLit int span
  | PFloatLit f64 span
  | PStringLit rstring span
  | PBoolLit bool span
  | PEnum string string "pattern list" span

datatype (plugins only: code size) expr =
    EIntLit int span
  | EFloatLit f64 span
  | EStringLit rstring span
  | EInterpolatedString "interp_part list" span
  | EBoolLit bool span
  | EIdent string span
  | EBinaryOp binop expr expr span
  | EUnaryOp unop expr span
  | ECast expr ast_type span
  | ECall expr "expr list" span
  | EFieldAccess expr string span
  | EIndex expr expr span
  | EBlock block
  | EIf expr block "expr option" span
  | EMatch expr "match_arm list" span
  | ETry expr span
  | EArrayLit "expr list" span
  | EStructLit string "field_init list" span
  | EEnumConstructor string string "expr list" span
  | EArena block span
and interp_part = IText rstring | IExpr expr
and match_arm = MatchArm pattern expr span
and field_init = FieldInit string expr span
and block = Block (b_stmts: "stmt list") (b_tail_expr: "expr option") (b_span: span)
and stmt =
    SLet string bool ast_type expr span
  | SAssign place expr span
  | SCompoundAssign place binop expr span
  | SExpr expr span
  | SWhile expr block span
  | SFor string expr expr block span
  | SForIn string expr block span
  | SReturn "expr option" span
  | SDefer expr span
  | SBreak span
  | SContinue span
and place = Place (pl_name: string) (pl_accessors: "place_accessor list") (pl_span: span)
and place_accessor = AccField string | AccIndex expr

fun expr_span :: "expr \<Rightarrow> span" where
  "expr_span (EIntLit _ s) = s"
| "expr_span (EFloatLit _ s) = s"
| "expr_span (EStringLit _ s) = s"
| "expr_span (EBoolLit _ s) = s"
| "expr_span (EIdent _ s) = s"
| "expr_span (EBinaryOp _ _ _ s) = s"
| "expr_span (EUnaryOp _ _ s) = s"
| "expr_span (ECast _ _ s) = s"
| "expr_span (ECall _ _ s) = s"
| "expr_span (EFieldAccess _ _ s) = s"
| "expr_span (EIndex _ _ s) = s"
| "expr_span (EInterpolatedString _ s) = s"
| "expr_span (EIf _ _ _ s) = s"
| "expr_span (EMatch _ _ s) = s"
| "expr_span (ETry _ s) = s"
| "expr_span (EArrayLit _ s) = s"
| "expr_span (EStructLit _ _ s) = s"
| "expr_span (EEnumConstructor _ _ _ s) = s"
| "expr_span (EArena _ s) = s"
| "expr_span (EBlock b) = b_span b"

record param =
  p_name :: string
  p_ty :: ast_type
  p_span :: span

record fn_decl =
  fn_name :: string
  fn_params :: "param list"
  fn_return_type :: "ast_type option"
  fn_body :: block
  fn_is_pure :: bool
  fn_span :: span

record field_decl =
  f_name :: string
  f_ty :: ast_type
  f_span :: span

record struct_decl =
  s_name :: string
  s_fields :: "field_decl list"
  s_span :: span

record variant_decl =
  v_name :: string
  v_payload_types :: "ast_type list"
  v_span :: span

record enum_decl =
  e_name :: string
  e_variants :: "variant_decl list"
  e_span :: span

record let_decl =
  l_name :: string
  l_ty :: ast_type
  l_value :: expr
  l_span :: span

record extern_fn_decl =
  ef_name :: string
  ef_params :: "param list"
  ef_return_type :: "ast_type option"
  ef_span :: span

record extern_block =
  eb_decls :: "extern_fn_decl list"
  eb_span :: span

datatype (plugins only: code size) top_decl =
    DFn fn_decl
  | DStruct struct_decl
  | DEnum enum_decl
  | DLet let_decl
  | DExtern extern_block
  | DUse rstring "string option"

record program =
  decls :: "top_decl list"

end
