(* ===== verification/SourceMap.thy ===== *)
theory SourceMap
  imports Syntax
begin

text \<open>
  The map from the lines of the flattened source to the files they come from,
  \<open>src/src/debuginfo.rs\<close>. Paths are the scalars of their text; \<open>windows\<close> says for which
  platform the compiler is built.
\<close>

datatype debug_info = DebugNone | LineTables

fun debug_enabled :: "debug_info \<Rightarrow> bool" where
  "debug_enabled DebugNone = False"
| "debug_enabled LineTables = True"

text \<open>An unknown level is an error that names it.\<close>

definition debug_from_str :: "rstring \<Rightarrow> rstring + debug_info" where
  "debug_from_str v =
     (if v = ustr ''none'' then Inr DebugNone
      else if v = ustr ''line-tables'' then Inr LineTables
      else Inl v)"

type_synonym source_file_id = nat

record source_line =
  sl_file :: source_file_id
  sl_line :: nat

record source_location =
  loc_file :: source_file_id
  loc_line :: nat
  loc_column :: nat

record source_map =
  sm_files :: "rstring list"
  sm_lines :: "source_line option list"

record source_map_builder =
  smb_files :: "rstring list"
  smb_file_ids :: "rstring \<rightharpoonup> source_file_id"

definition builder_new :: source_map_builder where
  "builder_new = \<lparr>smb_files = [], smb_file_ids = Map.empty\<rparr>"

abbreviation u32_max :: nat where
  "u32_max \<equiv> 4294967295"

text \<open>
  \<open>checked_sub\<close> and \<open>get\<close>: line 0 and lines past the end have no location. A column is at
  least 1 and is capped at the greatest \<open>u32\<close>.
\<close>

definition location :: "source_map \<Rightarrow> span \<Rightarrow> source_location option" where
  "location m sp =
     (case sp of
        Span line column \<Rightarrow>
          if line = 0 \<or> line - 1 \<ge> length (sm_lines m) then None
          else
            (case sm_lines m ! (line - 1) of
               None \<Rightarrow> None
             | Some origin \<Rightarrow>
                 Some \<lparr>loc_file = sl_file origin, loc_line = sl_line origin,
                       loc_column = (if max column 1 \<le> u32_max then max column 1 else u32_max)\<rparr>))"

text \<open>\<open>None\<close> stands for the panic of an index out of range.\<close>

definition file_path :: "source_map \<Rightarrow> source_file_id \<Rightarrow> rstring option" where
  "file_path m file = (if file < length (sm_files m) then Some (sm_files m ! file) else None)"

definition primary_path :: "source_map \<Rightarrow> rstring option" where
  "primary_path m = (case sm_files m of [] \<Rightarrow> None | f # _ \<Rightarrow> Some f)"

fun strip_text :: "rstring \<Rightarrow> rstring \<Rightarrow> rstring option" where
  "strip_text [] s = Some s"
| "strip_text (p # ps) [] = None"
| "strip_text (p # ps) (c # cs) = (if p = c then strip_text ps cs else None)"

lemma strip_text_eq_Some: "strip_text p s = Some r \<longleftrightarrow> s = p @ r"
  by (induction p s rule: strip_text.induct) auto

text \<open>Two backslashes, a question mark and a backslash.\<close>

abbreviation verbatim_prefix :: rstring where
  "verbatim_prefix \<equiv> [92, 92, 63, 92]"

definition debugger_path :: "bool \<Rightarrow> rstring \<Rightarrow> rstring" where
  "debugger_path windows path =
     (if \<not> windows then path
      else
        (case strip_text (verbatim_prefix @ ustr ''UNC'' @ [92]) path of
           Some rest \<Rightarrow> [92, 92] @ rest
         | None \<Rightarrow> (case strip_text verbatim_prefix path of Some rest \<Rightarrow> rest | None \<Rightarrow> path)))"

text \<open>\<open>None\<close> stands for the panic when there are more than \<open>u32::MAX\<close> files.\<close>

definition intern_file ::
  "bool \<Rightarrow> rstring \<Rightarrow> source_map_builder \<Rightarrow> (source_file_id \<times> source_map_builder) option" where
  "intern_file windows path b =
     (let path = debugger_path windows path in
      case smb_file_ids b path of
        Some fid \<Rightarrow> Some (fid, b)
      | None \<Rightarrow>
          let fid = length (smb_files b) in
          if fid > u32_max then None
          else Some (fid, \<lparr>smb_files = smb_files b @ [path], smb_file_ids = (smb_file_ids b)(path \<mapsto> fid)\<rparr>))"

definition builder_finish :: "source_map_builder \<Rightarrow> source_line option list \<Rightarrow> source_map" where
  "builder_finish b ls = \<lparr>sm_files = smb_files b, sm_lines = ls\<rparr>"

section \<open>Interned files\<close>

text \<open>The table of ids is the inverse of the list of files, which has no duplicates.\<close>

definition wf_builder :: "source_map_builder \<Rightarrow> bool" where
  "wf_builder b \<longleftrightarrow>
     distinct (smb_files b) \<and>
     (\<forall>path fid. smb_file_ids b path = Some fid \<longleftrightarrow> fid < length (smb_files b) \<and> smb_files b ! fid = path)"

lemma wf_builder_new: "wf_builder builder_new"
  by (simp add: wf_builder_def builder_new_def)

lemma intern_file_wf:
  assumes "wf_builder b" "intern_file windows path b = Some (fid, b')"
  shows "wf_builder b'" "fid < length (smb_files b')" "smb_files b' ! fid = debugger_path windows path"
    "\<exists>more. smb_files b' = smb_files b @ more"
proof -
  let ?p = "debugger_path windows path"
  let ?n = "length (smb_files b)"
  note ids = assms(1) [unfolded wf_builder_def, THEN conjunct2, rule_format]
  have "wf_builder b' \<and> fid < length (smb_files b') \<and> smb_files b' ! fid = ?p \<and>
      (\<exists>more. smb_files b' = smb_files b @ more)"
  proof (cases "smb_file_ids b ?p")
    case (Some n)
    with assms have "fid = n" "b' = b" by (simp_all add: intern_file_def)
    with Some ids [of ?p n] assms(1) show ?thesis by simp
  next
    case None
    with assms(2) have b': "b' = \<lparr>smb_files = smb_files b @ [?p], smb_file_ids = (smb_file_ids b)(?p \<mapsto> ?n)\<rparr>"
      and "fid = ?n"
      by (auto simp: intern_file_def Let_def split: if_splits)
    have fresh: "?p \<notin> set (smb_files b)"
      using ids [of ?p] None by (auto simp: in_set_conv_nth)
    have "((smb_file_ids b)(?p \<mapsto> ?n)) q = Some k \<longleftrightarrow> k < Suc ?n \<and> (smb_files b @ [?p]) ! k = q" for q k
      using ids [of q k] fresh None by (cases "k = ?n") (auto simp: nth_append)
    with fresh assms(1) b' \<open>fid = ?n\<close> show ?thesis by (simp add: wf_builder_def)
  qed
  then show "wf_builder b'" "fid < length (smb_files b')" "smb_files b' ! fid = ?p"
    "\<exists>more. smb_files b' = smb_files b @ more" by blast+
qed

end
