(* ===== verification/Types.thy ===== *)
theory Types
  imports Prelude
begin

text \<open>
  The semantic types of \<open>src/src/types.rs\<close>: the type language, the compatibility relation
  (a pure function pointer may stand where an impure one of the same signature is
  expected), the join used for the branches of \<open>if\<close> and \<open>match\<close>, the types that may leave
  an arena block, and the tables that the semantic analysis hands to the back ends.

  The lemmas show that compatibility is a partial order and that the join computes an upper
  bound of its arguments, the least one when no expected type is given. The locale
  \<open>joinable\<close> states what a fold over the arms of a \<open>match\<close> needs of the two.
\<close>

section \<open>The type language\<close>

datatype (plugins only: code size) bc_type =
    BcI32 | BcI64 | BcF64 | BcBool | BcStr | BcUnit | BcHandle | BcMap
  | BcMapStrI32 | BcMapStrI64 | BcMapStrF64 | BcMapI32Str | BcMapI32I32
  | BcStruct string
  | BcEnum string
  | BcArray bc_type
  | BcFixedArray bc_type int
  | BcResult bc_type bc_type
  | BcFnPtr "bc_type list" bc_type bool

definition is_compatible_with :: "bc_type \<Rightarrow> bc_type \<Rightarrow> bool" where
  "is_compatible_with self expected =
     (if self = expected then True
      else (case (self, expected) of
              (BcFnPtr actual_params actual_ret True, BcFnPtr expected_params expected_ret False) \<Rightarrow>
                actual_params = expected_params \<and> actual_ret = expected_ret
            | _ \<Rightarrow> False))"

definition compatible_join :: "bc_type \<Rightarrow> bc_type \<Rightarrow> bc_type option \<Rightarrow> bc_type option" where
  "compatible_join self other expected =
     (if self = other then Some self
      else
        (case (case expected of
                 Some e \<Rightarrow> if is_compatible_with self e \<and> is_compatible_with other e
                           then Some e else None
               | None \<Rightarrow> None) of
           Some e \<Rightarrow> Some e
         | None \<Rightarrow>
             if is_compatible_with self other then Some other
             else if is_compatible_with other self then Some self
             else None))"

fun is_arena_safe :: "bc_type \<Rightarrow> bool" where
  "is_arena_safe BcI32 = True"
| "is_arena_safe BcI64 = True"
| "is_arena_safe BcF64 = True"
| "is_arena_safe BcBool = True"
| "is_arena_safe BcUnit = True"
| "is_arena_safe BcHandle = True"
| "is_arena_safe (BcFnPtr _ _ _) = True"
| "is_arena_safe _ = False"

section \<open>The printed form of a type\<close>

fun join_with :: "string \<Rightarrow> string list \<Rightarrow> string" where
  "join_with sep [] = []"
| "join_with sep [x] = x"
| "join_with sep (x # y # ys) = x @ sep @ join_with sep (y # ys)"

fun display_bc_type :: "bc_type \<Rightarrow> string" where
  "display_bc_type BcI32 = ''i32''"
| "display_bc_type BcI64 = ''i64''"
| "display_bc_type BcF64 = ''f64''"
| "display_bc_type BcBool = ''bool''"
| "display_bc_type BcStr = ''str''"
| "display_bc_type BcUnit = ''unit''"
| "display_bc_type BcHandle = ''handle''"
| "display_bc_type BcMap = ''map''"
| "display_bc_type BcMapStrI32 = ''map_str_i32''"
| "display_bc_type BcMapStrI64 = ''map_str_i64''"
| "display_bc_type BcMapStrF64 = ''map_str_f64''"
| "display_bc_type BcMapI32Str = ''map_i32_str''"
| "display_bc_type BcMapI32I32 = ''map_i32_i32''"
| "display_bc_type (BcStruct name) = name"
| "display_bc_type (BcEnum name) = name"
| "display_bc_type (BcArray elem) = ''['' @ display_bc_type elem @ '']''"
| "display_bc_type (BcFixedArray elem sz) =
     ''['' @ display_bc_type elem @ ''; '' @ show_int sz @ '']''"
| "display_bc_type (BcResult ok err) =
     ''Result<'' @ display_bc_type ok @ '', '' @ display_bc_type err @ ''>''"
| "display_bc_type (BcFnPtr params ret is_pure) =
     (if is_pure then ''fn'' else ''fn!'') @ ''('' @
     join_with '', '' (map display_bc_type params) @ '') -> '' @ display_bc_type ret"

section \<open>The tables of the semantic analysis\<close>

record struct_info =
  si_fields :: "(string \<times> bc_type) list"

record enum_info =
  ei_variants :: "(string \<times> bc_type list) list"

record function_info =
  fi_params :: "(string \<times> bc_type) list"
  fi_return_type :: bc_type
  fi_is_pure :: bool
  fi_is_extern :: bool

record const_info =
  ci_ty :: bc_type

record semantic_info =
  sem_structs :: "string \<rightharpoonup> struct_info"
  sem_enums :: "string \<rightharpoonup> enum_info"
  sem_functions :: "string \<rightharpoonup> function_info"
  sem_constants :: "string \<rightharpoonup> const_info"

section \<open>Compatibility is a partial order\<close>

lemma is_compatible_with_iff:
  "is_compatible_with a e \<longleftrightarrow>
     a = e \<or> (\<exists>ps r. a = BcFnPtr ps r True \<and> e = BcFnPtr ps r False)"
  by (auto simp: is_compatible_with_def split: bc_type.splits bool.splits)

lemma is_compatible_with_refl [simp]: "is_compatible_with a a"
  by (simp add: is_compatible_with_iff)

lemma is_compatible_with_antisym:
  "is_compatible_with a b \<Longrightarrow> is_compatible_with b a \<Longrightarrow> a = b"
  by (auto simp: is_compatible_with_iff)

lemma is_compatible_with_trans:
  "is_compatible_with a b \<Longrightarrow> is_compatible_with b c \<Longrightarrow> is_compatible_with a c"
  by (auto simp: is_compatible_with_iff)

lemma compatible_join_same [simp]: "compatible_join a a e = Some a"
  by (simp add: compatible_join_def)

lemma compatible_join_upper:
  "compatible_join a b e = Some c \<Longrightarrow> is_compatible_with a c \<and> is_compatible_with b c"
  by (auto simp: compatible_join_def split: if_splits option.splits)

lemma compatible_join_least:
  assumes "compatible_join a b None = Some c" "is_compatible_with a d" "is_compatible_with b d"
  shows "is_compatible_with c d"
  using assms by (auto simp: compatible_join_def split: if_splits)

lemma compatible_join_complete:
  assumes "is_compatible_with a d" "is_compatible_with b d"
  shows "compatible_join a b e \<noteq> None"
  using assms by (auto simp: compatible_join_def is_compatible_with_iff split: if_splits option.splits)

section \<open>Folding a join over the arms of a match\<close>

fun join_all :: "('t \<Rightarrow> 't \<Rightarrow> 't option) \<Rightarrow> 't \<Rightarrow> 't list \<Rightarrow> 't option" where
  "join_all join r [] = Some r"
| "join_all join r (t # ts) = (case join r t of None \<Rightarrow> None | Some r' \<Rightarrow> join_all join r' ts)"

locale joinable =
  fixes le :: "'t \<Rightarrow> 't \<Rightarrow> bool"
    and join :: "'t \<Rightarrow> 't \<Rightarrow> 't option"
  assumes le_refl: "le a a"
    and le_trans: "le a b \<Longrightarrow> le b c \<Longrightarrow> le a c"
    and join_upper: "join a b = Some c \<Longrightarrow> le a c \<and> le b c"
begin

lemma join_all_upper: "join_all join r ts = Some c \<Longrightarrow> le r c \<and> (\<forall>t \<in> set ts. le t c)"
proof (induction ts arbitrary: r)
  case Nil
  then show ?case by (simp add: le_refl)
next
  case (Cons t ts)
  then obtain r' where r': "join r t = Some r'" and rest: "join_all join r' ts = Some c"
    by (auto split: option.splits)
  from join_upper [OF r'] Cons.IH [OF rest] show ?case
    by (auto intro: le_trans)
qed

end

interpretation cj: joinable is_compatible_with "\<lambda>a b. compatible_join a b e" for e
  by unfold_locales
    (simp, blast intro: is_compatible_with_trans, blast dest: compatible_join_upper)

section \<open>The join is a least upper bound\<close>

text \<open>
  C34. Effect compatibility: without an expected type \<open>compatible_join\<close> answers exactly with
  the least type that both branches may be used as, and it fails only when there is none.
\<close>

theorem compatible_join_lub:
  "compatible_join a b None = Some c \<longleftrightarrow>
     is_compatible_with a c \<and> is_compatible_with b c \<and>
     (\<forall>d. is_compatible_with a d \<and> is_compatible_with b d \<longrightarrow> is_compatible_with c d)"
proof
  assume "compatible_join a b None = Some c"
  then show "is_compatible_with a c \<and> is_compatible_with b c \<and>
     (\<forall>d. is_compatible_with a d \<and> is_compatible_with b d \<longrightarrow> is_compatible_with c d)"
    using compatible_join_upper compatible_join_least by blast
next
  assume lub: "is_compatible_with a c \<and> is_compatible_with b c \<and>
     (\<forall>d. is_compatible_with a d \<and> is_compatible_with b d \<longrightarrow> is_compatible_with c d)"
  then obtain c' where c': "compatible_join a b None = Some c'"
    using compatible_join_complete [of a c b None] by auto
  have "c' = c"
    using compatible_join_upper [OF c'] compatible_join_least [OF c'] lub
    by (blast intro: is_compatible_with_antisym)
  with c' show "compatible_join a b None = Some c" by simp
qed

lemma compatible_join_lub_witness:
  "compatible_join (BcFnPtr [BcI32] BcI32 True) (BcFnPtr [BcI32] BcI32 False) None =
     Some (BcFnPtr [BcI32] BcI32 False)"
  unfolding compatible_join_lub by (auto simp: is_compatible_with_iff)

end
