(* ===== verification/Errors.thy ===== *)
theory Errors
  imports Syntax Types
begin

text \<open>
  Compile errors (\<open>src/src/error.rs\<close>). The text of a message is kept as a constructor that
  carries the values the code formats into it, one constructor per message, grouped by the
  stage that raises it. \<open>failure\<close> adds to the code's own errors the two outcomes that the
  development proves absent: a panic of the Rust code and the exhaustion of a fuel bound of
  the model.
\<close>

datatype (plugins only: code size) lex_message =
    UnterminatedBlockComment
  | InvalidEscape rchar
  | UnterminatedString
  | SingleClosingBrace
  | LeadingZeros
  | InvalidFloat rstring
  | InvalidInteger rstring
  | UnexpectedCharacter rchar

datatype (plugins only: code size) parse_message =
    ExpectedToken token_kind token_kind
  | ExpectedIdentifier token_kind
  | ExpectedTopDecl token_kind
  | ExpectedIdentifierAfterAs token_kind
  | ExpectedStringAfterUse token_kind
  | ExpectedFn token_kind
  | ExpectedType token_kind
  | ExpectedArraySize token_kind
  | ExpectedFnPtr token_kind
  | ExpectedSemicolonOrBrace token_kind
  | ExpectedExpression token_kind
  | UnterminatedInterpolation
  | ExpectedPattern token_kind
  | ExpectedNumericPattern token_kind

datatype (plugins only: code size) decl_message =
    HandleInStructField
  | HandleInEnumPayload
  | HandleInArray
  | DuplicateStruct string
  | DuplicateEnum string
  | DuplicateFunction string
  | DuplicateExternFunction string
  | DuplicateConstant string
  | DuplicateParameter string
  | ConstantMismatch string bc_type bc_type
  | FunctionReturnMismatch string bc_type bc_type
  | UndefinedType string
  | ShadowsBinding string
  | ReservedCollectionName string

datatype (plugins only: code size) stmt_message =
    LetMismatch string bc_type bc_type
  | UndefinedAssignTarget string
  | AssignImmutable string
  | AssignStringIndex
  | AssignMismatch bc_type bc_type
  | WhileCondition bc_type
  | ForStart bc_type
  | ForEnd bc_type
  | ForInArray bc_type
  | BreakOutsideLoop
  | ContinueOutsideLoop
  | ReturnMismatch bc_type bc_type
  | ReturnWithoutValue bc_type
  | DeferInPure
  | DeferNotCall
  | CompoundUnsupported binop

datatype (plugins only: code size) expr_message =
    IntegerOutOfRange
  | InterpolationType bc_type
  | PureInterpolation
  | InterpolationImpureCall string
  | ExternAsValue string
  | UndefinedVariable string
  | BinaryMismatch bc_type bc_type
  | ArithmeticUnsupported bc_type
  | ModuloMismatch bc_type bc_type
  | ModuloUnsupported bc_type
  | EqualityMismatch bc_type bc_type
  | ComparisonMismatch bc_type bc_type
  | ComparisonUnsupported bc_type
  | LogicalOperand bc_type
  | NegationUnsupported bc_type
  | NotOperand bc_type
  | InvalidCast bc_type bc_type
  | ArenaInPure
  | ArenaEscape bc_type
  | IfCondition bc_type
  | IfElseMismatch bc_type bc_type
  | IfWithoutElse
  | TryErrorMismatch bc_type bc_type
  | TryOutsideResult
  | TryNotResult bc_type
  | EmptyArrayElement
  | ArrayElementMismatch bc_type bc_type
  | IndexNotI32 bc_type
  | IndexNonArray bc_type
  | FieldNonStruct bc_type

datatype (plugins only: code size) aggregate_message =
    UndefinedStruct string
  | DuplicateField string
  | NoSuchField string string
  | FieldMismatch string bc_type bc_type
  | MissingFields "string list"
  | UndefinedEnum string
  | NoSuchVariant string string
  | ConstructorArity string string nat nat
  | ConstructorArgument bc_type bc_type
  | ResultOkArity
  | ResultOkMismatch bc_type bc_type
  | ResultNoErrorType
  | ResultErrArity
  | ResultErrMismatch bc_type bc_type
  | ResultNoOkType
  | ResultNoVariant string

datatype (plugins only: code size) call_message =
    ExpectedFunctionName
  | LenArity
  | LenType bc_type
  | PurePush
  | PushArity
  | PushType bc_type
  | PushElement bc_type bc_type
  | PurePop
  | PopArity
  | PopType bc_type
  | FnPtrArity string nat nat
  | ArgumentMismatch nat string bc_type bc_type
  | PureCallsImpurePointer string
  | NotAFunction string
  | UndefinedFunction string
  | PureCallsImpure string
  | CallArity string nat nat
  | CollectionNotArray string bc_type
  | CollectionNotDynamic string bc_type
  | CollectionArrayOf string bc_type bc_type
  | ExtendSource string bc_type
  | ExtendElement string bc_type bc_type
  | CompareElement string
  | NeedsMutableBinding string
  | ImmutableCollectionBinding string string

datatype (plugins only: code size) match_message =
    NonExhaustiveEnum string "string list"
  | NonExhaustiveResult
  | ArmMismatch bc_type bc_type
  | IntegerPattern bc_type
  | FloatPattern bc_type
  | StringPattern bc_type
  | BoolPattern bc_type
  | ResultPatternArity string
  | ResultPatternNoVariant string
  | ResultPatternOnNonResult
  | PatternEnumMismatch string string
  | PatternUndefinedEnum string
  | PatternNoVariant string string
  | PatternArity string string nat nat
  | EnumPatternOnNonEnum bc_type

datatype (plugins only: code size) message =
    LexMessage lex_message
  | ParseMessage parse_message
  | DeclMessage decl_message
  | StmtMessage stmt_message
  | ExprMessage expr_message
  | AggregateMessage aggregate_message
  | CallMessage call_message
  | MatchMessage match_message

record compile_error =
  ce_span :: span
  ce_message :: message
  ce_file :: "rstring option"

definition compile_error_new :: "span \<Rightarrow> message \<Rightarrow> compile_error" where
  "compile_error_new sp m = \<lparr>ce_span = sp, ce_message = m, ce_file = None\<rparr>"

definition with_file :: "rstring \<Rightarrow> compile_error \<Rightarrow> compile_error" where
  "with_file f e = e\<lparr>ce_file := Some f\<rparr>"

datatype failure =
    Rejected compile_error
  | Panicked
  | OutOfFuel

abbreviation reject :: "span \<Rightarrow> message \<Rightarrow> failure + 'a" where
  "reject sp m \<equiv> Inl (Rejected (compile_error_new sp m))"

text \<open>An outcome that the code itself can produce.\<close>

definition graceful :: "failure + 'a \<Rightarrow> bool" where
  "graceful r \<longleftrightarrow> r \<noteq> Inl Panicked \<and> r \<noteq> Inl OutOfFuel"

lemma graceful_simps [simp]:
  "graceful (Inr x)"
  "graceful (Inl (Rejected e))"
  "\<not> graceful (Inl Panicked)"
  "\<not> graceful (Inl OutOfFuel)"
  by (simp_all add: graceful_def)

lemma graceful_cases:
  assumes "graceful r"
  obtains (ok) x where "r = Inr x" | (rejected) e where "r = Inl (Rejected e)"
  using assms by (cases r) (auto simp: graceful_def intro: failure.exhaust)

lemma graceful_and_then [intro]:
  "graceful m \<Longrightarrow> (\<And>x. m = Inr x \<Longrightarrow> graceful (f x)) \<Longrightarrow> graceful (and_then m f)"
  by (erule graceful_cases) auto

end
