(* ===== verification/Imports.thy ===== *)
theory Imports
  imports SourceMap Errors
begin

text \<open>
  Imports and namespaces, \<open>resolve_imports\<close> and its helpers in \<open>src/src/main.rs\<close>: before
  lexing, every \<open>use "file"\<close> line is replaced by the text of the file, and a
  \<open>use "file" as ns\<close> line by its text with the top-level names prefixed. The text is scanned
  as the bytes of its UTF-8 form, and each byte that is kept becomes one character.

  The file system is a parameter: \<open>canonicalize\<close> and \<open>read_to_string\<close> of the standard
  library, with the text of their errors. Paths are those of Unix.
\<close>

section \<open>Text\<close>

fun utf8_char :: "rchar \<Rightarrow> nat list" where
  "utf8_char c =
     (if c < 128 then [c]
      else if c < 2048 then [192 + c div 64, 128 + c mod 64]
      else if c < 65536 then [224 + c div 4096, 128 + c div 64 mod 64, 128 + c mod 64]
      else [240 + c div 262144, 128 + c div 4096 mod 64, 128 + c div 64 mod 64, 128 + c mod 64])"

definition as_bytes :: "rstring \<Rightarrow> nat list" where
  "as_bytes s = concat (map utf8_char s)"

text \<open>\<open>char::is_whitespace\<close>: the Unicode property \<open>White_Space\<close>.\<close>

definition is_whitespace :: "rchar \<Rightarrow> bool" where
  "is_whitespace c \<longleftrightarrow>
     9 \<le> c \<and> c \<le> 13 \<or> c = 32 \<or> c = 133 \<or> c = 160 \<or> c = 5760 \<or> 8192 \<le> c \<and> c \<le> 8202 \<or>
     c = 8232 \<or> c = 8233 \<or> c = 8239 \<or> c = 8287 \<or> c = 12288"

definition trim_end :: "rstring \<Rightarrow> rstring" where
  "trim_end s = rev (dropWhile is_whitespace (rev s))"

definition trim :: "rstring \<Rightarrow> rstring" where
  "trim s = trim_end (dropWhile is_whitespace s)"

text \<open>\<open>str::lines\<close>: a line ends at a line feed, which it loses with a carriage return before it.\<close>

definition strip_cr :: "rstring \<Rightarrow> rstring" where
  "strip_cr l = (if l \<noteq> [] \<and> last l = 13 then butlast l else l)"

fun lines_from :: "rstring \<Rightarrow> rstring \<Rightarrow> rstring list" where
  "lines_from acc [] = (if acc = [] then [] else [acc])"
| "lines_from acc (c # cs) = (if c = 10 then strip_cr acc # lines_from [] cs else lines_from (acc @ [c]) cs)"

definition text_lines :: "rstring \<Rightarrow> rstring list" where
  "text_lines s = lines_from [] s"

fun find_index :: "rchar \<Rightarrow> rstring \<Rightarrow> nat option" where
  "find_index c [] = None"
| "find_index c (x # xs) = (if x = c then Some 0 else map_option Suc (find_index c xs))"

section \<open>Renaming words\<close>

definition is_ident_char :: "nat \<Rightarrow> bool" where
  "is_ident_char b \<longleftrightarrow> is_ascii_alphanumeric b \<or> b = 95"

text \<open>
  \<open>None\<close> stands for a loop that does not end, which an empty word would cause at a position
  between two characters that are not part of an identifier.
\<close>

partial_function (option) replace_from :: "nat list \<Rightarrow> nat list \<Rightarrow> rstring \<Rightarrow> nat \<Rightarrow> rstring option" where
  "replace_from bytes word replacement i =
     (if i < length bytes then
        if i + length word \<le> length bytes \<and> take (length word) (drop i bytes) = word \<and>
           (i = 0 \<or> \<not> is_ident_char (bytes ! (i - 1))) \<and>
           (i + length word \<ge> length bytes \<or> \<not> is_ident_char (bytes ! (i + length word)))
        then Option.bind (replace_from bytes word replacement (i + length word)) (\<lambda>r. Some (replacement @ r))
        else Option.bind (replace_from bytes word replacement (i + 1)) (\<lambda>r. Some (bytes ! i # r))
      else Some [])"

declare replace_from.simps [code]

definition replace_word_boundary :: "rstring \<Rightarrow> rstring \<Rightarrow> rstring \<Rightarrow> rstring option" where
  "replace_word_boundary source word replacement =
     replace_from (as_bytes source) (as_bytes word) replacement 0"

text \<open>The keywords in the order in which they are tried; the first that matches ends the search.\<close>

definition declaration_keywords :: "rstring list" where
  "declaration_keywords = map ustr [''fn '', ''fn! '', ''struct '', ''enum '', ''let '']"

fun declared_name :: "rstring list \<Rightarrow> rstring \<Rightarrow> rstring option" where
  "declared_name [] line = None"
| "declared_name (kw # kws) line =
     (case strip_text kw line of
        Some rest \<Rightarrow>
          (let name = takeWhile (\<lambda>c. is_ascii_alphanumeric c \<or> c = 95) rest in
           if name \<noteq> [] then Some name else None)
      | None \<Rightarrow> declared_name kws line)"

definition find_top_level_names :: "rstring \<Rightarrow> rstring list" where
  "find_top_level_names source = List.map_filter (declared_name declaration_keywords) (text_lines source)"

definition bind_option :: "('x \<Rightarrow> 's \<Rightarrow> 's option) \<Rightarrow> 'x list \<Rightarrow> 's \<Rightarrow> 's option" where
  "bind_option f xs s = fold (\<lambda>x acc. Option.bind acc (f x)) xs (Some s)"

text \<open>Names are sorted by the number of their bytes, longest first, by a stable sort.\<close>

definition mangle_top_level_names :: "rstring \<Rightarrow> rstring \<Rightarrow> rstring option" where
  "mangle_top_level_names source ns =
     bind_option (\<lambda>name text. replace_word_boundary text name (ns @ ustr ''_'' @ name))
       (sort_key (\<lambda>name. - int (length (as_bytes name))) (find_top_level_names source)) source"

function replace_dots :: "nat list \<Rightarrow> nat list \<Rightarrow> rstring \<Rightarrow> nat \<Rightarrow> rstring" where
  "replace_dots bytes ns ns_under i =
     (if i < length bytes then
        if i + length (ns @ [46]) < length bytes \<and>
           take (length (ns @ [46])) (drop i bytes) = ns @ [46] \<and>
           (i = 0 \<or> \<not> is_ident_char (bytes ! (i - 1))) \<and>
           (is_ascii_alphabetic (bytes ! (i + length (ns @ [46]))) \<or> bytes ! (i + length (ns @ [46])) = 95)
        then ns_under @ replace_dots bytes ns ns_under (i + length (ns @ [46]))
        else bytes ! i # replace_dots bytes ns ns_under (i + 1)
      else [])"
  by pat_completeness auto
termination
  by (relation "measure (\<lambda>(bytes, ns, u, i). length bytes - i)") auto

declare replace_dots.simps [simp del]

definition replace_ns_dot :: "rstring \<Rightarrow> rstring \<Rightarrow> rstring" where
  "replace_ns_dot source ns = replace_dots (as_bytes source) (as_bytes ns) (ns @ ustr ''_'') 0"

definition parse_as_clause :: "rstring \<Rightarrow> rstring option" where
  "parse_as_clause after_quote =
     (case strip_text (ustr ''as '') after_quote of
        None \<Rightarrow> None
      | Some s \<Rightarrow>
          (let ns = trim s in
           if ns \<noteq> [] \<and> (is_ascii_alphabetic (hd ns) \<or> hd ns = 95) \<and>
              list_all (\<lambda>c. is_ascii_alphanumeric c \<or> c = 95) ns
           then Some ns else None))"

section \<open>Flattening the imports\<close>

record file_system =
  fs_canonicalize :: "rstring \<Rightarrow> rstring + rstring"
  fs_read :: "rstring \<Rightarrow> rstring + rstring"

text \<open>\<open>Path::parent\<close> and \<open>Path::join\<close> for absolute canonical paths of Unix.\<close>

definition path_parent :: "rstring \<Rightarrow> rstring" where
  "path_parent p =
     (let d = rev (dropWhile (\<lambda>c. c \<noteq> 47) (rev p)) in
      if p = ustr ''/'' then ustr ''.''
      else if d = ustr ''/'' then d
      else butlast d)"

definition path_join :: "rstring \<Rightarrow> rstring \<Rightarrow> rstring" where
  "path_join base p =
     (if p \<noteq> [] \<and> hd p = 47 then p
      else if base = [] \<or> last base = 47 then base @ p
      else base @ ustr ''/'' @ p)"

record resolved_source =
  rs_text :: rstring
  rs_lines :: "source_line option list"

definition rs_empty :: resolved_source where
  "rs_empty = \<lparr>rs_text = [], rs_lines = []\<rparr>"

definition rs_append :: "resolved_source \<Rightarrow> resolved_source \<Rightarrow> resolved_source" where
  "rs_append a b = \<lparr>rs_text = rs_text a @ rs_text b, rs_lines = rs_lines a @ rs_lines b\<rparr>"

definition push_line :: "rstring \<Rightarrow> source_line option \<Rightarrow> resolved_source \<Rightarrow> resolved_source" where
  "push_line text origin r =
     \<lparr>rs_text = rs_text r @ text @ [10], rs_lines = rs_lines r @ [origin]\<rparr>"

datatype import_failure =
    CannotResolve rstring rstring
  | CannotRead rstring rstring
  | ImportPanicked
  | ImportOutOfFuel

record import_state =
  im_visited :: "rstring set"
  im_namespaces :: "rstring list"
  im_files :: source_map_builder

type_synonym 'a importing = "import_failure + ('a \<times> import_state)"

text \<open>A line that starts an import: the path between the quotes and what follows them.\<close>

definition import_clause :: "rstring \<Rightarrow> (rstring \<times> rstring) option" where
  "import_clause line =
     (case strip_text (ustr ''use '' @ [34]) (trim line) of
        None \<Rightarrow> None
      | Some rest \<Rightarrow>
          (case find_index 34 rest of
             None \<Rightarrow> None
           | Some e \<Rightarrow> Some (take e rest, trim (drop (e + 1) rest))))"

definition import_line ::
  "(rstring \<Rightarrow> import_state \<Rightarrow> resolved_source importing) \<Rightarrow> rstring \<Rightarrow> source_file_id \<Rightarrow> nat \<times> rstring \<Rightarrow>
     resolved_source \<times> import_state \<Rightarrow> import_failure + (resolved_source \<times> import_state)" where
  "import_line resolve base_dir file_id il rst =
     (case (il, rst) of
        ((line_index, line), (result, st)) \<Rightarrow>
          (case import_clause line of
             Some (import_path, after_quote) \<Rightarrow>
               (let full_path = path_join base_dir import_path in
                case parse_as_clause after_quote of
                  Some ns \<Rightarrow>
                    and_then (resolve full_path (st\<lparr>im_namespaces := []\<rparr>)) (\<lambda>(imported, st').
                    and_then (ok_or (mangle_top_level_names (rs_text imported) ns) ImportOutOfFuel) (\<lambda>text.
                    Inr (push_line [] None (rs_append result (imported\<lparr>rs_text := text\<rparr>)),
                         st\<lparr>im_namespaces := im_namespaces st @ [ns] @ im_namespaces st',
                            im_files := im_files st'\<rparr>)))
                | None \<Rightarrow>
                    and_then (resolve full_path st) (\<lambda>(imported, st').
                    Inr (push_line [] None (rs_append result imported), st')))
           | None \<Rightarrow>
               if line_index + 1 > u32_max then Inl ImportPanicked
               else Inr (push_line line (Some \<lparr>sl_file = file_id, sl_line = line_index + 1\<rparr>) result, st)))"

definition resolve_with ::
  "(rstring \<Rightarrow> import_state \<Rightarrow> resolved_source importing) \<Rightarrow> bool \<Rightarrow> file_system \<Rightarrow> rstring \<Rightarrow> import_state \<Rightarrow>
     resolved_source importing" where
  "resolve_with resolve windows fs path st =
     (case fs_canonicalize fs path of
        Inl e \<Rightarrow> Inl (CannotResolve path e)
      | Inr canonical \<Rightarrow>
          if canonical \<in> im_visited st then Inr (rs_empty, st)
          else
            (case intern_file windows canonical (im_files st) of
               None \<Rightarrow> Inl ImportPanicked
             | Some (file_id, files) \<Rightarrow>
                 (case fs_read fs canonical of
                    Inl e \<Rightarrow> Inl (CannotRead path e)
                  | Inr source \<Rightarrow>
                      each (import_line resolve (path_parent canonical) file_id)
                        (List.enumerate 0 (text_lines source))
                        (rs_empty, st\<lparr>im_visited := insert canonical (im_visited st), im_files := files\<rparr>))))"

primrec resolve_imports :: "nat \<Rightarrow> bool \<Rightarrow> file_system \<Rightarrow> rstring \<Rightarrow> import_state \<Rightarrow> resolved_source importing" where
  "resolve_imports 0 windows fs path st = Inl ImportOutOfFuel"
| "resolve_imports (Suc n) windows fs path st =
     resolve_with (resolve_imports n windows fs) windows fs path st"

text \<open>What the driver makes of a file: the flattened text and the map of its lines.\<close>

definition flatten :: "nat \<Rightarrow> bool \<Rightarrow> file_system \<Rightarrow> rstring \<Rightarrow> import_failure + (rstring \<times> source_map)" where
  "flatten n windows fs path =
     and_then
       (resolve_imports n windows fs path
          \<lparr>im_visited = {}, im_namespaces = [], im_files = builder_new\<rparr>)
       (\<lambda>(resolved, st).
        Inr (fold (\<lambda>ns text. replace_ns_dot text ns) (im_namespaces st) (rs_text resolved),
             builder_finish (im_files st) (rs_lines resolved)))"

end
