(* ===== verification/Backend.thy ===== *)
theory Backend
  imports Imports
begin

text \<open>
  The choice of a code generator: \<open>src/src/backend/select.rs\<close>, the contract of packaged builds
  of \<open>src/src/backend/distribution_contract.rs\<close> with the stamps that \<open>src/build.rs\<close> makes of it,
  the targets of \<open>src/src/backend/target.rs\<close> and the runtime profiles of
  \<open>src/src/backend/link/capability.rs\<close>. The compile-time constants (the enabled features and the
  stamps) are arguments.
\<close>

section \<open>Back ends\<close>

datatype backend = Llvm | Cranelift | CBackend

definition all_backends :: "backend list" where
  "all_backends = [Llvm, Cranelift, CBackend]"

fun backend_str :: "backend \<Rightarrow> string" where
  "backend_str Llvm = ''llvm''"
| "backend_str Cranelift = ''cranelift''"
| "backend_str CBackend = ''c''"

definition backend_parse :: "rstring \<Rightarrow> backend option" where
  "backend_parse v = find (\<lambda>b. ustr (backend_str b) = v) all_backends"

text \<open>The second component reports the deprecated spelling.\<close>

definition parse_cli :: "rstring \<Rightarrow> (backend \<times> bool) option" where
  "parse_cli v =
     (if v = ustr ''native'' then Some (Cranelift, True)
      else map_option (\<lambda>b. (b, False)) (backend_parse v))"

fun artifact_suffix :: "backend \<Rightarrow> string" where
  "artifact_suffix Llvm = ''-llvm''"
| "artifact_suffix Cranelift = ''-cranelift''"
| "artifact_suffix CBackend = ''-c''"

record availability =
  av_llvm :: bool
  av_cranelift :: bool
  av_c :: bool

fun has_backend :: "availability \<Rightarrow> backend \<Rightarrow> bool" where
  "has_backend a Llvm = av_llvm a"
| "has_backend a Cranelift = av_cranelift a"
| "has_backend a CBackend = av_c a"

definition available_list :: "availability \<Rightarrow> backend list" where
  "available_list a = filter (has_backend a) all_backends"

definition first_available :: "availability \<Rightarrow> backend option" where
  "first_available a = (case available_list a of [] \<Rightarrow> None | b # _ \<Rightarrow> Some b)"

record selection_inputs =
  in_c_source_output :: bool
  in_llvm_ir_output :: bool
  in_c_cross_target :: bool
  in_native_target_requested :: bool
  in_native_host_supported :: bool
  in_llvm_available :: bool

definition resolve_backend_with ::
  "backend option \<Rightarrow> selection_inputs \<Rightarrow> backend option \<Rightarrow> availability \<Rightarrow> backend" where
  "resolve_backend_with explicit inputs configured_default available =
     (case explicit of
        Some b \<Rightarrow> b
      | None \<Rightarrow>
          if in_c_source_output inputs \<or> in_c_cross_target inputs then CBackend
          else if in_llvm_ir_output inputs then Llvm
          else
            (case configured_default of
               Some b \<Rightarrow> b
             | None \<Rightarrow>
                 if in_native_target_requested inputs \<and> has_backend available Cranelift then Cranelift
                 else if in_native_target_requested inputs \<and> has_backend available Llvm then Llvm
                 else if in_llvm_available inputs \<and> in_native_host_supported inputs \<and> has_backend available Llvm
                 then Llvm
                 else if in_native_host_supported inputs \<and> has_backend available Cranelift then Cranelift
                 else if has_backend available CBackend then CBackend
                 else (case first_available available of Some b \<Rightarrow> b | None \<Rightarrow> CBackend)))"

section \<open>Packaged builds\<close>

text \<open>\<open>str::to_ascii_lowercase\<close>.\<close>

definition ascii_lowercase :: "rstring \<Rightarrow> rstring" where
  "ascii_lowercase s = map (\<lambda>c. if 65 \<le> c \<and> c \<le> 90 then c + 32 else c) s"

definition normalize_distribution_stamp :: "rstring \<Rightarrow> rstring option" where
  "normalize_distribution_stamp raw =
     (let trimmed = ascii_lowercase (trim raw) in if trimmed = [] then None else Some trimmed)"

datatype config_error =
    NoBackendEnabled
  | InvalidBackendName string rstring
  | LegacyNotSingle rstring "rstring list"
  | ProfileConflict rstring rstring
  | DefaultConflict rstring rstring
  | DefaultNotEnabled rstring "rstring list"
  | InvalidProfile rstring
  | ProfileRequiresDefault rstring
  | FullMustEnableAll "rstring list"
  | FullMustDefaultLlvm rstring
  | SlimMustEnableOne rstring "rstring list"
  | SlimMustDefault rstring rstring

record distribution_config =
  dc_profile :: "rstring option"
  dc_default_backend :: "rstring option"

definition backend_names :: "rstring list" where
  "backend_names = map ustr [''llvm'', ''cranelift'', ''c'']"

definition profile_names :: "rstring list" where
  "profile_names = map ustr [''full'', ''llvm'', ''cranelift'', ''c'']"

definition validate_backend_name :: "rstring \<Rightarrow> string \<Rightarrow> config_error + unit" where
  "validate_backend_name v variable =
     (if v \<in> set backend_names then Inr () else Inl (InvalidBackendName variable v))"

text \<open>The legacy stamp fills in the profile and the default, or must agree with them.\<close>

definition merge_legacy ::
  "rstring option \<Rightarrow> rstring option \<Rightarrow> rstring option \<Rightarrow> rstring list \<Rightarrow>
     config_error + (rstring option \<times> rstring option)" where
  "merge_legacy profile default_backend legacy enabled =
     (case legacy of
        None \<Rightarrow> Inr (profile, default_backend)
      | Some l \<Rightarrow>
          and_then (validate_backend_name l ''OSCAN_DISTRIBUTION_BACKEND'') (\<lambda>_.
          if enabled \<noteq> [l] then Inl (LegacyNotSingle l enabled)
          else
            and_then
              (case profile of
                 Some c \<Rightarrow> if c \<noteq> l then Inl (ProfileConflict c l) else Inr (Some c)
               | None \<Rightarrow> Inr (Some l)) (\<lambda>profile.
            and_then
              (case default_backend of
                 Some c \<Rightarrow> if c \<noteq> l then Inl (DefaultConflict c l) else Inr (Some c)
               | None \<Rightarrow> Inr (Some l)) (\<lambda>default_backend.
            Inr (profile, default_backend)))))"

definition validate_profile ::
  "rstring \<Rightarrow> rstring option \<Rightarrow> rstring list \<Rightarrow> config_error + unit" where
  "validate_profile profile default_backend enabled =
     (if profile \<notin> set profile_names then Inl (InvalidProfile profile)
      else
        (case default_backend of
           None \<Rightarrow> Inl (ProfileRequiresDefault profile)
         | Some d \<Rightarrow>
             if profile = ustr ''full'' then
               if enabled \<noteq> backend_names then Inl (FullMustEnableAll enabled)
               else if d \<noteq> ustr ''llvm'' then Inl (FullMustDefaultLlvm d)
               else Inr ()
             else if enabled \<noteq> [profile] then Inl (SlimMustEnableOne profile enabled)
             else if d \<noteq> profile then Inl (SlimMustDefault profile d)
             else Inr ()))"

definition validate_distribution_config ::
  "rstring \<Rightarrow> rstring \<Rightarrow> rstring \<Rightarrow> rstring list \<Rightarrow> config_error + distribution_config" where
  "validate_distribution_config profile_raw default_raw legacy_backend_raw enabled =
     (if enabled = [] then Inl NoBackendEnabled
      else
        and_then
          (merge_legacy (normalize_distribution_stamp profile_raw) (normalize_distribution_stamp default_raw)
             (normalize_distribution_stamp legacy_backend_raw) enabled) (\<lambda>(profile, default_backend).
        and_then
          (case default_backend of
             None \<Rightarrow> Inr ()
           | Some d \<Rightarrow>
               and_then (validate_backend_name d ''OSCAN_DEFAULT_BACKEND'') (\<lambda>_.
               if d \<notin> set enabled then Inl (DefaultNotEnabled d enabled) else Inr ())) (\<lambda>_.
        case profile of
          None \<Rightarrow> Inr \<lparr>dc_profile = None, dc_default_backend = default_backend\<rparr>
        | Some p \<Rightarrow>
            and_then (validate_profile p default_backend enabled) (\<lambda>_.
            Inr \<lparr>dc_profile = profile, dc_default_backend = default_backend\<rparr>))))"

definition validate_distribution_stamp :: "rstring \<Rightarrow> rstring list \<Rightarrow> config_error + rstring option" where
  "validate_distribution_stamp raw enabled =
     and_then (validate_distribution_config [] [] raw enabled) (\<lambda>config. Inr (dc_profile config))"

text \<open>The build script: the enabled features in canonical order, and the three stamps.\<close>

definition enabled_names :: "availability \<Rightarrow> rstring list" where
  "enabled_names a = map (\<lambda>b. ustr (backend_str b)) (available_list a)"

record stamps =
  st_profile :: rstring
  st_default :: rstring
  st_backend :: rstring

definition stamp_distribution_config ::
  "rstring \<Rightarrow> rstring \<Rightarrow> rstring \<Rightarrow> availability \<Rightarrow> config_error + stamps" where
  "stamp_distribution_config profile_raw default_raw legacy_raw a =
     and_then (validate_distribution_config profile_raw default_raw legacy_raw (enabled_names a)) (\<lambda>config.
     let profile = (case dc_profile config of Some p \<Rightarrow> p | None \<Rightarrow> []) in
     Inr \<lparr>st_profile = profile,
          st_default = (case dc_default_backend config of Some d \<Rightarrow> d | None \<Rightarrow> []),
          st_backend = (if profile \<in> set backend_names then profile else [])\<rparr>)"

text \<open>The compile-time assertion of the compiler over the stamps and the features.\<close>

definition distribution_config_matches_features :: "stamps \<Rightarrow> availability \<Rightarrow> bool" where
  "distribution_config_matches_features s a =
     (let enabled = length (available_list a);
          default_enabled =
            (if st_default s = [] then True
             else if st_default s = ustr ''llvm'' then av_llvm a
             else if st_default s = ustr ''cranelift'' then av_cranelift a
             else if st_default s = ustr ''c'' then av_c a
             else False) in
      if enabled = 0 then False
      else if \<not> default_enabled then False
      else if st_profile s = [] then st_backend s = []
      else if st_profile s = ustr ''full'' then st_default s = ustr ''llvm'' \<and> st_backend s = [] \<and> enabled = 3
      else if st_profile s = ustr ''llvm'' then
        st_default s = ustr ''llvm'' \<and> st_backend s = ustr ''llvm'' \<and> av_llvm a \<and> enabled = 1
      else if st_profile s = ustr ''cranelift'' then
        st_default s = ustr ''cranelift'' \<and> st_backend s = ustr ''cranelift'' \<and> av_cranelift a \<and> enabled = 1
      else if st_profile s = ustr ''c'' then
        st_default s = ustr ''c'' \<and> st_backend s = ustr ''c'' \<and> av_c a \<and> enabled = 1
      else False)"

text \<open>\<open>None\<close> stands for the \<open>unreachable!\<close> of an invalid stamp.\<close>

definition configured_default_backend :: "stamps \<Rightarrow> backend option option" where
  "configured_default_backend s =
     (if st_default s = [] then Some None else map_option Some (backend_parse (st_default s)))"

definition distribution_profile :: "stamps \<Rightarrow> rstring option option" where
  "distribution_profile s =
     (if st_profile s = [] then Some None
      else if st_profile s \<in> set profile_names then Some (Some (st_profile s))
      else None)"

definition distribution_backend :: "stamps \<Rightarrow> backend option option" where
  "distribution_backend s =
     (if st_backend s = [] then Some None else map_option Some (backend_parse (st_backend s)))"

definition default_backend_label :: "backend option \<Rightarrow> availability \<Rightarrow> string" where
  "default_backend_label configured_default available =
     (case (configured_default, available_list available) of
        (Some b, _) \<Rightarrow> backend_str b
      | (None, [only]) \<Rightarrow> backend_str only
      | _ \<Rightarrow> ''auto'')"

section \<open>Targets\<close>

datatype native_target = WindowsX64 | LinuxX64 | LinuxAarch64 | LinuxRiscv64

text \<open>The error names the host.\<close>

definition detect :: "string \<Rightarrow> string \<Rightarrow> (string \<times> string) + native_target" where
  "detect os arch =
     (if os = ''windows'' \<and> arch = ''x86_64'' then Inr WindowsX64
      else if os = ''linux'' \<and> arch = ''x86_64'' then Inr LinuxX64
      else if os = ''linux'' \<and> arch = ''aarch64'' then Inr LinuxAarch64
      else if os = ''linux'' \<and> arch = ''riscv64'' then Inr LinuxRiscv64
      else Inl (os, arch))"

definition target_parse :: "string \<Rightarrow> string \<Rightarrow> string \<Rightarrow> native_target option" where
  "target_parse os arch s =
     (if s = ''host'' then (case detect os arch of Inr t \<Rightarrow> Some t | Inl _ \<Rightarrow> None)
      else if s = ''windows-x86_64'' then Some WindowsX64
      else if s = ''linux-x86_64'' then Some LinuxX64
      else if s = ''linux-aarch64'' then Some LinuxAarch64
      else if s = ''linux-riscv64'' then Some LinuxRiscv64
      else None)"

definition is_host :: "string \<Rightarrow> string \<Rightarrow> native_target \<Rightarrow> bool" where
  "is_host os arch t = (case detect os arch of Inr h \<Rightarrow> h = t | Inl _ \<Rightarrow> False)"

fun archive_tag :: "native_target \<Rightarrow> string" where
  "archive_tag WindowsX64 = ''windows-x86_64''"
| "archive_tag LinuxX64 = ''linux-x86_64''"
| "archive_tag LinuxAarch64 = ''linux-aarch64''"
| "archive_tag LinuxRiscv64 = ''linux-riscv64''"

fun exe_suffix :: "native_target \<Rightarrow> string" where
  "exe_suffix WindowsX64 = ''.exe''"
| "exe_suffix _ = ''''"

fun obj_suffix :: "native_target \<Rightarrow> string" where
  "obj_suffix WindowsX64 = ''.obj''"
| "obj_suffix _ = ''.o''"

datatype runtime_mode = Freestanding | Hosted

fun runtime_mode_str :: "runtime_mode \<Rightarrow> string" where
  "runtime_mode_str Freestanding = ''freestanding''"
| "runtime_mode_str Hosted = ''hosted''"

datatype optimization_profile = SizeProfile | SpeedProfile

definition optimization_parse :: "string \<Rightarrow> optimization_profile option" where
  "optimization_parse v =
     (if v = ''size'' then Some SizeProfile else if v = ''speed'' then Some SpeedProfile else None)"

fun optimization_str :: "optimization_profile \<Rightarrow> string" where
  "optimization_str SizeProfile = ''size''"
| "optimization_str SpeedProfile = ''speed''"

section \<open>Runtime archives\<close>

datatype freestanding_profile = FullProfile | GraphicsProfile | CoreProfile

fun build_mode_str :: "freestanding_profile \<Rightarrow> string" where
  "build_mode_str FullProfile = ''freestanding''"
| "build_mode_str GraphicsProfile = ''freestanding_gfx''"
| "build_mode_str CoreProfile = ''freestanding_core''"

definition starts_with :: "string \<Rightarrow> string \<Rightarrow> bool" where
  "starts_with name p = (strip_prefix p name \<noteq> None)"

fun profile_from :: "freestanding_profile \<Rightarrow> string list \<Rightarrow> freestanding_profile" where
  "profile_from profile [] = profile"
| "profile_from profile (name # names) =
     (if list_ex (starts_with name) [''osc_img_'', ''osc_svg_'', ''osc_tt_''] then FullProfile
      else if list_ex (starts_with name) [''osc_gfx_'', ''osc_canvas_'', ''osc_clipboard_'']
      then profile_from GraphicsProfile names
      else profile_from profile names)"

definition profile_for_undefined_symbols :: "string list \<Rightarrow> freestanding_profile" where
  "profile_for_undefined_symbols names = profile_from CoreProfile names"

text \<open>
  The libraries of Windows that an object needs. \<open>None\<close> stands for an object that cannot be
  read or parsed; otherwise the list holds the names of its undefined symbols.
\<close>

definition feature_libs :: "string list option \<Rightarrow> string list" where
  "feature_libs symbols =
     (case symbols of
        None \<Rightarrow> [''ws2_32'', ''user32'', ''gdi32'', ''secur32'', ''crypt32'']
      | Some names \<Rightarrow>
          (let tls = list_ex (\<lambda>n. starts_with n ''osc_tls_'') names;
               sockets = list_ex (\<lambda>n. starts_with n ''osc_socket_'' \<or> starts_with n ''osc_tls_'') names;
               windowing = list_ex (\<lambda>n. starts_with n ''osc_canvas_'' \<or> starts_with n ''osc_clipboard_'') names in
           (if sockets then [''ws2_32''] else []) @
           (if tls then [''secur32'', ''crypt32''] else []) @
           (if windowing then [''user32'', ''gdi32''] else [])))"

definition freestanding_profile_of :: "string list option \<Rightarrow> freestanding_profile" where
  "freestanding_profile_of symbols =
     (case symbols of None \<Rightarrow> FullProfile | Some names \<Rightarrow> profile_for_undefined_symbols names)"

section \<open>Symbols\<close>

definition c_reserved :: "string list" where
  "c_reserved =
     [''auto'', ''break'', ''case'', ''char'', ''const'', ''continue'', ''default'', ''do'', ''double'', ''else'',
      ''enum'', ''extern'', ''float'', ''for'', ''goto'', ''if'', ''int'', ''long'', ''register'', ''return'',
      ''short'', ''signed'', ''sizeof'', ''static'', ''struct'', ''switch'', ''typedef'', ''union'', ''unsigned'',
      ''void'', ''volatile'', ''while'', ''inline'', ''restrict'']"

definition mangle_c_name :: "string \<Rightarrow> string" where
  "mangle_c_name name = (if name \<in> set c_reserved then name @ ''_'' else name)"

definition user_fn_symbol :: "string \<Rightarrow> string" where
  "user_fn_symbol name = (if name = ''main'' then ''oscan_main'' else name)"

end
