(* ===== verification/Collection.thy ===== *)
theory Collection
  imports Types
begin

text \<open>
  The collection intrinsics of \<open>src/src/collection.rs\<close>: the family of array builtins
  whose names encode their operation and element types. The model has the resolution of a
  name to an intrinsic, the aliases, the canonical name of an intrinsic, and the tables of
  arity, purity, mutation, callback and runtime symbol that the later stages consult.

  \<open>unwrap()\<close> on a missing element type is a panic, here the result \<open>None\<close> of
  \<open>canonical_name\<close>, \<open>callback_type\<close> and \<open>runtime_symbol\<close> where the code would panic is
  kept apart from the code's own \<open>None\<close> by an outer option. The lemmas show that
  resolution and naming are inverse to one another on the well-formed intrinsics, which
  are the only ones that resolution yields, and that no \<open>unwrap\<close> fails on those.
\<close>

section \<open>Core element types\<close>

datatype core_type = CtBool | CtI32 | CtI64 | CtF64 | CtStr

definition core_type_all :: "core_type list" where
  "core_type_all = [CtBool, CtI32, CtI64, CtF64, CtStr]"

definition from_suffix :: "string \<Rightarrow> core_type option" where
  "from_suffix suffix =
     (if suffix = ''bool'' then Some CtBool
      else if suffix = ''i32'' then Some CtI32
      else if suffix = ''i64'' then Some CtI64
      else if suffix = ''f64'' then Some CtF64
      else if suffix = ''str'' then Some CtStr
      else None)"

fun core_suffix :: "core_type \<Rightarrow> string" where
  "core_suffix CtBool = ''bool''"
| "core_suffix CtI32 = ''i32''"
| "core_suffix CtI64 = ''i64''"
| "core_suffix CtF64 = ''f64''"
| "core_suffix CtStr = ''str''"

fun core_bc_type :: "core_type \<Rightarrow> bc_type" where
  "core_bc_type CtBool = BcBool"
| "core_bc_type CtI32 = BcI32"
| "core_bc_type CtI64 = BcI64"
| "core_bc_type CtF64 = BcF64"
| "core_bc_type CtStr = BcStr"

section \<open>Operations and intrinsics\<close>

datatype (plugins only: code size) collection_op =
    CoClone | CoRepeat | CoReverse | CoFill | CoSwap | CoClear | CoExtend | CoInsert
  | CoRemoveAt | CoSlice | CoContains | CoIndexOf | CoLastIndexOf | CoCount | CoCompare
  | CoSort | CoAny | CoAll | CoMap | CoFilter | CoFold | CoForEach

record collection_intrinsic =
  co_op :: collection_op
  co_source :: "core_type option"
  co_target :: "core_type option"

definition generic_op :: "string \<Rightarrow> collection_op option" where
  "generic_op name = map_of
     [(''array_clone'', CoClone),
      (''array_repeat'', CoRepeat),
      (''array_reverse'', CoReverse),
      (''array_fill'', CoFill),
      (''array_swap'', CoSwap),
      (''array_clear'', CoClear),
      (''array_extend'', CoExtend),
      (''array_insert'', CoInsert),
      (''array_remove_at'', CoRemoveAt),
      (''array_slice'', CoSlice)] name"

definition typed_prefixes :: "(string \<times> collection_op) list" where
  "typed_prefixes =
     [(''array_last_index_of_'', CoLastIndexOf),
      (''array_index_of_'', CoIndexOf),
      (''array_contains_'', CoContains),
      (''array_compare_'', CoCompare),
      (''array_for_each_'', CoForEach),
      (''array_filter_'', CoFilter),
      (''array_count_'', CoCount),
      (''array_sort_'', CoSort),
      (''array_fold_'', CoFold),
      (''array_any_'', CoAny),
      (''array_all_'', CoAll)]"

text \<open>\<open>find_map\<close> over the prefixes: the first one that the name starts with.\<close>

fun find_typed :: "(string \<times> collection_op) list \<Rightarrow> string \<Rightarrow> (collection_op \<times> string) option" where
  "find_typed [] name = None"
| "find_typed ((prefix, o') # ps) name =
     (case strip_prefix prefix name of
        Some suffix \<Rightarrow> Some (o', suffix)
      | None \<Rightarrow> find_typed ps name)"

definition resolve :: "string \<Rightarrow> collection_intrinsic option" where
  "resolve name =
     (case generic_op name of
        Some o' \<Rightarrow> Some \<lparr>co_op = o', co_source = None, co_target = None\<rparr>
      | None \<Rightarrow>
          (case strip_prefix ''array_map_'' name of
             Some rest \<Rightarrow>
               Option.bind (split_once ''_to_'' rest) (\<lambda>(src, tgt).
               Option.bind (from_suffix src) (\<lambda>s.
               Option.bind (from_suffix tgt) (\<lambda>t.
               Some \<lparr>co_op = CoMap, co_source = Some s, co_target = Some t\<rparr>)))
           | None \<Rightarrow>
               Option.bind (find_typed typed_prefixes name) (\<lambda>(o', suffix).
               Option.bind (from_suffix suffix) (\<lambda>s.
               Some \<lparr>co_op = o', co_source = Some s, co_target = None\<rparr>))))"

definition resolve_with_alias :: "string \<Rightarrow> collection_intrinsic option" where
  "resolve_with_alias name =
     (let canonical =
        (if name = ''sort_i32'' then ''array_sort_i32''
         else if name = ''sort_i64'' then ''array_sort_i64''
         else if name = ''sort_f64'' then ''array_sort_f64''
         else if name = ''sort_str'' then ''array_sort_str''
         else name)
      in resolve canonical)"

text \<open>\<open>None\<close> where an \<open>unwrap()\<close> of the code would panic.\<close>

definition typed_name :: "string \<Rightarrow> core_type option \<Rightarrow> string option" where
  "typed_name prefix ty = map_option (\<lambda>t. prefix @ core_suffix t) ty"

definition canonical_name :: "collection_intrinsic \<Rightarrow> string option" where
  "canonical_name i =
     (case co_op i of
        CoClone \<Rightarrow> Some ''array_clone''
      | CoRepeat \<Rightarrow> Some ''array_repeat''
      | CoReverse \<Rightarrow> Some ''array_reverse''
      | CoFill \<Rightarrow> Some ''array_fill''
      | CoSwap \<Rightarrow> Some ''array_swap''
      | CoClear \<Rightarrow> Some ''array_clear''
      | CoExtend \<Rightarrow> Some ''array_extend''
      | CoInsert \<Rightarrow> Some ''array_insert''
      | CoRemoveAt \<Rightarrow> Some ''array_remove_at''
      | CoSlice \<Rightarrow> Some ''array_slice''
      | CoContains \<Rightarrow> typed_name ''array_contains_'' (co_source i)
      | CoIndexOf \<Rightarrow> typed_name ''array_index_of_'' (co_source i)
      | CoLastIndexOf \<Rightarrow> typed_name ''array_last_index_of_'' (co_source i)
      | CoCount \<Rightarrow> typed_name ''array_count_'' (co_source i)
      | CoCompare \<Rightarrow> typed_name ''array_compare_'' (co_source i)
      | CoSort \<Rightarrow> typed_name ''array_sort_'' (co_source i)
      | CoAny \<Rightarrow> typed_name ''array_any_'' (co_source i)
      | CoAll \<Rightarrow> typed_name ''array_all_'' (co_source i)
      | CoMap \<Rightarrow>
          Option.bind (co_source i) (\<lambda>s. Option.bind (co_target i) (\<lambda>t.
            Some (''array_map_'' @ core_suffix s @ ''_to_'' @ core_suffix t)))
      | CoFilter \<Rightarrow> typed_name ''array_filter_'' (co_source i)
      | CoFold \<Rightarrow> typed_name ''array_fold_'' (co_source i)
      | CoForEach \<Rightarrow> typed_name ''array_for_each_'' (co_source i))"

definition arity :: "collection_intrinsic \<Rightarrow> nat" where
  "arity i =
     (case co_op i of
        CoClone \<Rightarrow> 1 | CoReverse \<Rightarrow> 1 | CoClear \<Rightarrow> 1 | CoSort \<Rightarrow> 1
      | CoRepeat \<Rightarrow> 2 | CoFill \<Rightarrow> 2 | CoExtend \<Rightarrow> 2 | CoRemoveAt \<Rightarrow> 2 | CoContains \<Rightarrow> 2
      | CoIndexOf \<Rightarrow> 2 | CoLastIndexOf \<Rightarrow> 2 | CoCount \<Rightarrow> 2 | CoCompare \<Rightarrow> 2 | CoAny \<Rightarrow> 2
      | CoAll \<Rightarrow> 2 | CoMap \<Rightarrow> 2 | CoFilter \<Rightarrow> 2 | CoForEach \<Rightarrow> 2
      | CoSwap \<Rightarrow> 3 | CoInsert \<Rightarrow> 3 | CoSlice \<Rightarrow> 3 | CoFold \<Rightarrow> 3)"

definition is_mutating :: "collection_intrinsic \<Rightarrow> bool" where
  "is_mutating i \<longleftrightarrow>
     co_op i \<in> {CoReverse, CoFill, CoSwap, CoClear, CoExtend, CoInsert, CoRemoveAt, CoSort}"

definition requires_dynamic_array :: "collection_intrinsic \<Rightarrow> bool" where
  "requires_dynamic_array i \<longleftrightarrow> co_op i \<in> {CoClear, CoExtend, CoInsert, CoRemoveAt}"

definition is_pure :: "collection_intrinsic \<Rightarrow> bool" where
  "is_pure i \<longleftrightarrow>
     co_op i \<in> {CoContains, CoIndexOf, CoLastIndexOf, CoCount, CoCompare, CoAny, CoAll, CoFold}"

definition is_higher_order :: "collection_intrinsic \<Rightarrow> bool" where
  "is_higher_order i \<longleftrightarrow> co_op i \<in> {CoAny, CoAll, CoMap, CoFilter, CoFold, CoForEach}"

text \<open>The outer \<open>None\<close> is the panic of \<open>expect("map target")\<close>.\<close>

definition callback_type :: "collection_intrinsic \<Rightarrow> bc_type option option" where
  "callback_type i =
     (case co_source i of
        None \<Rightarrow> Some None
      | Some src \<Rightarrow>
          (let s = core_bc_type src in
           (case co_op i of
              CoAny \<Rightarrow> Some (Some (BcFnPtr [s] BcBool True))
            | CoAll \<Rightarrow> Some (Some (BcFnPtr [s] BcBool True))
            | CoFilter \<Rightarrow> Some (Some (BcFnPtr [s] BcBool True))
            | CoMap \<Rightarrow>
                (case co_target i of
                   None \<Rightarrow> None
                 | Some t \<Rightarrow> Some (Some (BcFnPtr [s] (core_bc_type t) True)))
            | CoFold \<Rightarrow> Some (Some (BcFnPtr [s, s] s True))
            | CoForEach \<Rightarrow> Some (Some (BcFnPtr [s] BcUnit False))
            | _ \<Rightarrow> Some None)))"

definition callback_index :: "collection_intrinsic \<Rightarrow> nat option" where
  "callback_index i =
     (case co_op i of
        CoAny \<Rightarrow> Some 1 | CoAll \<Rightarrow> Some 1 | CoMap \<Rightarrow> Some 1 | CoFilter \<Rightarrow> Some 1
      | CoForEach \<Rightarrow> Some 1
      | CoFold \<Rightarrow> Some 2
      | _ \<Rightarrow> None)"

text \<open>The outer \<open>None\<close> is the panic of \<open>source.unwrap()\<close>.\<close>

definition typed_symbol :: "string \<Rightarrow> core_type option \<Rightarrow> string option option" where
  "typed_symbol o' ty =
     map_option (\<lambda>t. Some (''osc_array_'' @ o' @ ''_'' @ core_suffix t)) ty"

definition runtime_symbol :: "collection_intrinsic \<Rightarrow> string option option" where
  "runtime_symbol i =
     (case co_op i of
        CoClone \<Rightarrow> Some (Some ''osc_array_clone'')
      | CoRepeat \<Rightarrow> Some (Some ''osc_array_repeat'')
      | CoReverse \<Rightarrow> Some (Some ''osc_array_reverse'')
      | CoFill \<Rightarrow> Some (Some ''osc_array_fill'')
      | CoSwap \<Rightarrow> Some (Some ''osc_array_swap'')
      | CoClear \<Rightarrow> Some (Some ''osc_array_clear'')
      | CoExtend \<Rightarrow> Some (Some ''osc_array_extend'')
      | CoInsert \<Rightarrow> Some (Some ''osc_array_insert'')
      | CoRemoveAt \<Rightarrow> Some (Some ''osc_array_remove_at'')
      | CoSlice \<Rightarrow> Some (Some ''osc_array_slice'')
      | CoContains \<Rightarrow> typed_symbol ''contains'' (co_source i)
      | CoIndexOf \<Rightarrow> typed_symbol ''index_of'' (co_source i)
      | CoLastIndexOf \<Rightarrow> typed_symbol ''last_index_of'' (co_source i)
      | CoCount \<Rightarrow> typed_symbol ''count'' (co_source i)
      | CoCompare \<Rightarrow> typed_symbol ''compare'' (co_source i)
      | CoSort \<Rightarrow> typed_symbol ''sort'' (co_source i)
      | _ \<Rightarrow> Some None)"

fun array_element_type :: "bc_type \<Rightarrow> bc_type option" where
  "array_element_type (BcArray elem) = Some elem"
| "array_element_type (BcFixedArray elem _) = Some elem"
| "array_element_type _ = None"

section \<open>Well-formed intrinsics\<close>

text \<open>
  What a resolved intrinsic looks like: a generic operation has no element type, a map has
  a source and a target, every other typed operation has a source only.
\<close>

definition is_generic :: "collection_op \<Rightarrow> bool" where
  "is_generic o' \<longleftrightarrow>
     o' \<in> {CoClone, CoRepeat, CoReverse, CoFill, CoSwap, CoClear, CoExtend, CoInsert,
           CoRemoveAt, CoSlice}"

definition wf_intrinsic :: "collection_intrinsic \<Rightarrow> bool" where
  "wf_intrinsic i \<longleftrightarrow>
     (if is_generic (co_op i) then co_source i = None \<and> co_target i = None
      else if co_op i = CoMap then co_source i \<noteq> None \<and> co_target i \<noteq> None
      else co_source i \<noteq> None \<and> co_target i = None)"

lemma from_suffix_eq_Some: "from_suffix s = Some t \<longleftrightarrow> s = core_suffix t"
  by (cases t) (auto simp: from_suffix_def)

lemma from_suffix_core_suffix [simp]: "from_suffix (core_suffix t) = Some t"
  by (simp add: from_suffix_eq_Some)

lemma set_core_type_all: "set core_type_all = UNIV"
  by (auto simp: core_type_all_def intro: core_type.exhaust)

lemma generic_op_SomeD:
  "generic_op name = Some o' \<Longrightarrow>
     is_generic o' \<and> canonical_name \<lparr>co_op = o', co_source = None, co_target = None\<rparr> = Some name"
  by (auto simp: generic_op_def is_generic_def canonical_name_def split: if_splits)

lemma find_typed_SomeD:
  "find_typed ps name = Some (o', suffix) \<Longrightarrow> \<exists>prefix. (prefix, o') \<in> set ps \<and> name = prefix @ suffix"
  by (induction ps name rule: find_typed.induct) (auto simp: strip_prefix_eq_Some split: option.splits)

lemma typed_prefixes_name:
  "(prefix, o') \<in> set typed_prefixes \<Longrightarrow>
     canonical_name \<lparr>co_op = o', co_source = Some t, co_target = None\<rparr> = Some (prefix @ core_suffix t) \<and>
     \<not> is_generic o' \<and> o' \<noteq> CoMap"
  by (auto simp: typed_prefixes_def canonical_name_def typed_name_def is_generic_def)

lemma resolve_SomeD:
  assumes "resolve name = Some i"
  shows "wf_intrinsic i \<and> canonical_name i = Some name"
proof (cases "generic_op name")
  case (Some o')
  with assms show ?thesis
    by (auto simp: resolve_def wf_intrinsic_def dest: generic_op_SomeD)
next
  case None
  note generic = None
  show ?thesis
  proof (cases "strip_prefix ''array_map_'' name")
    case (Some rest)
    with assms generic show ?thesis
      by (auto simp: resolve_def wf_intrinsic_def is_generic_def canonical_name_def
          bind_eq_Some_conv from_suffix_eq_Some strip_prefix_eq_Some dest!: split_once_eq_Some)
  next
    case None
    with assms generic obtain o' suffix s where
      "find_typed typed_prefixes name = Some (o', suffix)" and s: "suffix = core_suffix s" and
      i: "i = \<lparr>co_op = o', co_source = Some s, co_target = None\<rparr>"
      by (auto simp: resolve_def bind_eq_Some_conv from_suffix_eq_Some)
    then obtain prefix where "(prefix, o') \<in> set typed_prefixes" "name = prefix @ suffix"
      by (auto dest: find_typed_SomeD)
    with s i show ?thesis
      by (auto simp: wf_intrinsic_def dest!: typed_prefixes_name [where t = s])
  qed
qed

lemma split_once_map_suffix: "split_once ''_to_'' (core_suffix s @ ''_to_'' @ r) = Some (core_suffix s, r)"
  by (cases s) simp_all

lemma resolve_generic:
  assumes "is_generic o'" "canonical_name \<lparr>co_op = o', co_source = None, co_target = None\<rparr> = Some name"
  shows "resolve name = Some \<lparr>co_op = o', co_source = None, co_target = None\<rparr>"
  using assms
  by (cases o') (auto simp: is_generic_def canonical_name_def resolve_def generic_op_def)

lemma resolve_map:
  "resolve (''array_map_'' @ core_suffix s @ ''_to_'' @ core_suffix t) =
     Some \<lparr>co_op = CoMap, co_source = Some s, co_target = Some t\<rparr>"
  using split_once_map_suffix [of s "core_suffix t"]
  by (simp add: resolve_def generic_op_def)

lemma resolve_typed:
  assumes "(prefix, o') \<in> set typed_prefixes"
  shows "resolve (prefix @ core_suffix t) = Some \<lparr>co_op = o', co_source = Some t, co_target = None\<rparr>"
proof -
  have "generic_op (prefix @ core_suffix t) = None"
    and "strip_prefix ''array_map_'' (prefix @ core_suffix t) = None"
    and "find_typed typed_prefixes (prefix @ core_suffix t) = Some (o', core_suffix t)"
    using assms by (auto simp: typed_prefixes_def generic_op_def)
  then show ?thesis by (simp add: resolve_def)
qed

lemma typed_op_prefix:
  assumes "\<not> is_generic o'" "o' \<noteq> CoMap"
  obtains prefix where "(prefix, o') \<in> set typed_prefixes"
  using assms by (cases o') (auto simp: typed_prefixes_def is_generic_def)

lemma resolve_canonical:
  assumes wf: "wf_intrinsic i" and name: "canonical_name i = Some name"
  shows "resolve name = Some i"
proof -
  obtain o' s t where i: "i = \<lparr>co_op = o', co_source = s, co_target = t\<rparr>"
    by (cases i) auto
  consider (gen) "is_generic o'" | (map) "o' = CoMap" | (typed) "\<not> is_generic o'" "o' \<noteq> CoMap"
    by blast
  then show ?thesis
  proof cases
    case gen
    with wf name i show ?thesis by (simp add: wf_intrinsic_def resolve_generic)
  next
    case map
    with wf i obtain s' t' where st: "s = Some s'" "t = Some t'"
      by (auto simp: wf_intrinsic_def is_generic_def)
    with name i map resolve_map [of s' t'] show ?thesis
      by (auto simp: canonical_name_def)
  next
    case typed
    with wf i obtain s' where st: "s = Some s'" "t = None"
      by (auto simp: wf_intrinsic_def)
    from typed obtain prefix where p: "(prefix, o') \<in> set typed_prefixes"
      by (rule typed_op_prefix)
    from typed_prefixes_name [OF p, of s'] resolve_typed [OF p, of s'] name i st show ?thesis
      by simp
  qed
qed

section \<open>No panic on a resolved intrinsic\<close>

lemma wf_canonical_name: "wf_intrinsic i \<Longrightarrow> canonical_name i \<noteq> None"
  by (cases "co_op i")
    (auto simp: wf_intrinsic_def is_generic_def canonical_name_def typed_name_def)

lemma wf_runtime_symbol: "wf_intrinsic i \<Longrightarrow> runtime_symbol i \<noteq> None"
  by (cases "co_op i")
    (auto simp: wf_intrinsic_def is_generic_def runtime_symbol_def typed_symbol_def)

lemma wf_callback_type:
  "wf_intrinsic i \<Longrightarrow>
     \<exists>c. callback_type i = Some c \<and> (c \<noteq> None \<longleftrightarrow> is_higher_order i)"
  by (cases "co_op i")
    (auto simp: wf_intrinsic_def is_generic_def callback_type_def is_higher_order_def Let_def)

lemma callback_index_arity:
  "callback_index i = Some n \<Longrightarrow> n < arity i"
  by (cases "co_op i") (auto simp: callback_index_def arity_def)

lemma arity_positive [simp]: "0 < arity i"
  by (cases "co_op i") (simp_all add: arity_def)

lemma is_mutating_not_pure: "is_mutating i \<Longrightarrow> \<not> is_pure i"
  by (auto simp: is_mutating_def is_pure_def)

lemma requires_dynamic_mutating: "requires_dynamic_array i \<Longrightarrow> is_mutating i"
  by (auto simp: requires_dynamic_array_def is_mutating_def)

lemma resolve_with_alias_wf: "resolve_with_alias name = Some i \<Longrightarrow> wf_intrinsic i"
  by (auto simp: resolve_with_alias_def Let_def dest: resolve_SomeD)

section \<open>Names and intrinsics\<close>

text \<open>
  C32. The name of a collection intrinsic determines it and the other way round: \<open>resolve\<close>
  accepts exactly the canonical names of well-formed intrinsics, and returns the intrinsic.
\<close>

theorem resolve_iff: "resolve name = Some i \<longleftrightarrow> wf_intrinsic i \<and> canonical_name i = Some name"
  using resolve_SomeD resolve_canonical by blast

text \<open>
  C33. None of the \<open>unwrap\<close>s and \<open>expect\<close>s of \<open>canonical_name\<close>, \<open>runtime_symbol\<close> and
  \<open>callback_type\<close> can fail on an intrinsic that \<open>resolve\<close> or \<open>resolve_with_alias\<close> returned;
  a callback is one of the arguments.
\<close>

theorem resolved_total:
  "resolve_with_alias name = Some i \<Longrightarrow>
     canonical_name i \<noteq> None \<and> runtime_symbol i \<noteq> None \<and> callback_type i \<noteq> None \<and>
     pred_option (\<lambda>k. k < arity i) (callback_index i)"
  by (drule resolve_with_alias_wf)
    (auto simp: wf_canonical_name wf_runtime_symbol callback_index_arity option.pred_set
      elim!: option.set_cases dest: wf_callback_type)

lemma resolved_total_witness:
  "canonical_name \<lparr>co_op = CoFold, co_source = Some CtI64, co_target = None\<rparr> \<noteq> None \<and>
   runtime_symbol \<lparr>co_op = CoFold, co_source = Some CtI64, co_target = None\<rparr> \<noteq> None \<and>
   callback_type \<lparr>co_op = CoFold, co_source = Some CtI64, co_target = None\<rparr> \<noteq> None \<and>
   pred_option (\<lambda>k. k < arity \<lparr>co_op = CoFold, co_source = Some CtI64, co_target = None\<rparr>)
     (callback_index \<lparr>co_op = CoFold, co_source = Some CtI64, co_target = None\<rparr>)"
  by (rule resolved_total [of "''array_fold_i64''"]) code_simp

end
