(* ===== verification/IR.thy ===== *)
theory IR
  imports Collection Syntax
begin

text \<open>
  The intermediate representation of \<open>src/src/ir.rs\<close>: the tree of expressions with their
  resolved types, and the verifier that the driver runs on it. The verifier collects messages
  in a vector; here each check returns the list of the errors that it appends, in order, with
  one constructor per message. The name of the declaration that is checked goes into the text
  of the message only, and so does the binary operator; both are kept.
\<close>

section \<open>The tree\<close>

datatype ident_kind = IkValue | IkFnRef

datatype callee =
    CalleeNamed string
  | CalleeVar string
  | CalleeCollection collection_intrinsic

datatype (plugins only: code size) ir_pattern =
    IpWildcard span
  | IpIdent string span
  | IpIntLit int span
  | IpFloatLit f64 span
  | IpStringLit rstring span
  | IpBoolLit bool span
  | IpEnum string string "ir_pattern list" span

datatype (plugins only: code size) ir_expr =
    IrIntLit int span
  | IrFloatLit f64 span
  | IrStringLit rstring span
  | IrInterpolatedString "ir_part list" span
  | IrBoolLit bool span
  | IrIdent string ident_kind bc_type span
  | IrBinaryOp binop ir_expr ir_expr bc_type span
  | IrUnaryOp unop ir_expr bc_type span
  | IrCast ir_expr bc_type span
  | IrCall callee "ir_expr list" bc_type span
  | IrFieldAccess ir_expr string bc_type span
  | IrIndex ir_expr ir_expr bc_type span
  | IrBlockExpr ir_block
  | IrIf ir_expr ir_block "ir_expr option" bc_type span
  | IrMatch ir_expr "ir_arm list" bc_type span
  | IrTry ir_expr bc_type span
  | IrArrayLit "ir_expr list" bc_type bc_type span
  | IrStructLit string "ir_init list" span
  | IrEnumConstructor string string "ir_expr list" bc_type span
  | IrArena ir_block span
and ir_part = IrText rstring | IrPart ir_expr
and ir_arm = IrArm ir_pattern ir_expr span
and ir_init = IrInit string ir_expr span
and ir_block = IrBlock "ir_stmt list" "ir_expr option" span
and ir_stmt =
    IrLet string bool bc_type ir_expr span
  | IrAssign ir_place ir_expr span
  | IrCompoundAssign ir_place binop ir_expr span
  | IrExpr ir_expr span
  | IrWhile ir_expr ir_block span
  | IrFor string ir_expr ir_expr ir_block span
  | IrForIn string ir_expr ir_block span
  | IrReturn "ir_expr option" span
  | IrDefer ir_expr span
  | IrBreak span
  | IrContinue span
and ir_place = IrPlace string "ir_accessor list" bc_type span
and ir_accessor = IrField string | IrIndexed ir_expr

fun ir_ty :: "ir_expr \<Rightarrow> bc_type"
and ir_block_ty :: "ir_block \<Rightarrow> bc_type" where
  "ir_ty (IrIntLit _ _) = BcI32"
| "ir_ty (IrFloatLit _ _) = BcF64"
| "ir_ty (IrStringLit _ _) = BcStr"
| "ir_ty (IrInterpolatedString _ _) = BcStr"
| "ir_ty (IrBoolLit _ _) = BcBool"
| "ir_ty (IrIdent _ _ ty _) = ty"
| "ir_ty (IrBinaryOp _ _ _ ty _) = ty"
| "ir_ty (IrUnaryOp _ _ ty _) = ty"
| "ir_ty (IrCast _ ty _) = ty"
| "ir_ty (IrCall _ _ ty _) = ty"
| "ir_ty (IrFieldAccess _ _ ty _) = ty"
| "ir_ty (IrIndex _ _ ty _) = ty"
| "ir_ty (IrBlockExpr block) = ir_block_ty block"
| "ir_ty (IrIf _ _ _ ty _) = ty"
| "ir_ty (IrMatch _ _ ty _) = ty"
| "ir_ty (IrTry _ ty _) = ty"
| "ir_ty (IrArrayLit _ _ ty _) = ty"
| "ir_ty (IrStructLit name _ _) = BcStruct name"
| "ir_ty (IrEnumConstructor _ _ _ ty _) = ty"
| "ir_ty (IrArena block _) = ir_block_ty block"
| "ir_block_ty (IrBlock _ tail _) = (case tail of Some e \<Rightarrow> ir_ty e | None \<Rightarrow> BcUnit)"

record ir_struct_def =
  isd_name :: string
  isd_fields :: "(string \<times> bc_type) list"
  isd_span :: span

record ir_enum_def =
  ied_name :: string
  ied_variants :: "(string \<times> bc_type list) list"
  ied_span :: span

record ir_extern_fn_def =
  ixf_name :: string
  ixf_params :: "(string \<times> bc_type) list"
  ixf_return_type :: bc_type
  ixf_span :: span

record ir_extern_block =
  ixb_decls :: "ir_extern_fn_def list"
  ixb_span :: span

record ir_const_def =
  icd_name :: string
  icd_ty :: bc_type
  icd_value :: ir_expr
  icd_span :: span

record ir_fn_def =
  ifd_name :: string
  ifd_params :: "(string \<times> bc_type) list"
  ifd_return_type :: bc_type
  ifd_body :: ir_block
  ifd_is_pure :: bool
  ifd_span :: span

record ir_program =
  ip_structs :: "string \<rightharpoonup> struct_info"
  ip_enums :: "string \<rightharpoonup> enum_info"
  ip_functions :: "string \<rightharpoonup> function_info"
  ip_constants :: "string \<rightharpoonup> const_info"
  ip_struct_defs :: "ir_struct_def list"
  ip_enum_defs :: "ir_enum_def list"
  ip_extern_blocks :: "ir_extern_block list"
  ip_const_defs :: "ir_const_def list"
  ip_fn_defs :: "ir_fn_def list"

end
