(* ===== verification/CText.thy ===== *)
theory CText
  imports Backend SourceMap IR Errors
begin

text \<open>
  The state of the C code generator of \<open>src/src/codegen.rs\<close> and what all of its parts use: the
  names of types, the escaping of strings, and the output of lines.

  Text is the sequence of the bytes of its UTF-8 form. \<open>format!\<close> is \<open>fmt\<close>, with the same
  templates as the code. An operation that emits text is a function of the generator; an
  operation that also returns the text of an expression is an \<open>emitter\<close>. A panic is the outcome
  \<open>Panicked\<close>.
\<close>

section \<open>Formatting\<close>

text \<open>The templates of \<open>format!\<close>: a pair of braces is a hole, a doubled brace stands for itself.\<close>

fun fmt :: "string \<Rightarrow> string list \<Rightarrow> string" where
  "fmt [] args = []"
| "fmt [c] args = [c]"
| "fmt (c # d # cs) args =
     (if c = CHR ''{'' \<and> d = CHR ''}'' then
        (case args of [] \<Rightarrow> fmt cs [] | a # args' \<Rightarrow> a @ fmt cs args')
      else if c = CHR ''{'' \<and> d = CHR ''{'' then CHR ''{'' # fmt cs args
      else if c = CHR ''}'' \<and> d = CHR ''}'' then CHR ''}'' # fmt cs args
      else c # fmt (d # cs) args)"

text \<open>The bytes of scalars; ASCII names are their own bytes.\<close>

definition byte_text :: "rstring \<Rightarrow> string" where
  "byte_text s = map char_of (as_bytes s)"

definition lower_char :: "char \<Rightarrow> char" where
  "lower_char c =
     (let n = of_char c :: nat in if 65 \<le> n \<and> n \<le> 90 then char_of (n + 32) else c)"

text \<open>\<open>str::to_lowercase\<close> on an ASCII name.\<close>

definition to_lowercase :: "string \<Rightarrow> string" where
  "to_lowercase s = map lower_char s"

text \<open>Backslash, double quote, line feed, carriage return and tabulator.\<close>

definition escape_c_char :: "rchar \<Rightarrow> string" where
  "escape_c_char c =
     (if c = 10 then [CHR 0x5C, CHR ''n'']
      else if c = 9 then [CHR 0x5C, CHR ''t'']
      else if c = 13 then [CHR 0x5C, CHR ''r'']
      else if c = 92 then [CHR 0x5C, CHR 0x5C]
      else if c = 34 then [CHR 0x5C, CHR 0x22]
      else if c = 0 then [CHR 0x5C, CHR ''0'']
      else map char_of (utf8_char c))"

definition escape_c_string :: "rstring \<Rightarrow> string" where
  "escape_c_string s = concat (map escape_c_char s)"

section \<open>Names of types\<close>

fun type_tag :: "bc_type \<Rightarrow> string" where
  "type_tag BcI32 = ''i32''"
| "type_tag BcI64 = ''i64''"
| "type_tag BcF64 = ''f64''"
| "type_tag BcBool = ''bool''"
| "type_tag BcStr = ''str''"
| "type_tag BcUnit = ''unit''"
| "type_tag BcHandle = ''handle''"
| "type_tag BcMap = ''map''"
| "type_tag BcMapStrI32 = ''map_str_i32''"
| "type_tag BcMapStrI64 = ''map_str_i64''"
| "type_tag BcMapStrF64 = ''map_str_f64''"
| "type_tag BcMapI32Str = ''map_i32_str''"
| "type_tag BcMapI32I32 = ''map_i32_i32''"
| "type_tag (BcStruct name) = to_lowercase name"
| "type_tag (BcEnum name) = to_lowercase name"
| "type_tag (BcArray e) = ''arr_'' @ type_tag e"
| "type_tag (BcFixedArray e n) = ''arr_'' @ type_tag e @ ''_'' @ show_int n"
| "type_tag (BcResult o' e) = ''result_'' @ type_tag o' @ ''_'' @ type_tag e"
| "type_tag (BcFnPtr params ret _) =
     ''fnptr_'' @ join_with ''_'' (map (\<lambda>t. type_tag t) params) @ ''_'' @ type_tag ret"

definition result_type_name :: "bc_type \<Rightarrow> bc_type \<Rightarrow> string" where
  "result_type_name ok err = fmt ''osc_result_{}_{}'' [type_tag ok, type_tag err]"

definition fn_ptr_typedef_name :: "bc_type \<Rightarrow> string" where
  "fn_ptr_typedef_name ty = fmt ''osc_{}'' [type_tag ty]"

fun type_to_c :: "bc_type \<Rightarrow> string" where
  "type_to_c BcI32 = ''int32_t''"
| "type_to_c BcI64 = ''int64_t''"
| "type_to_c BcF64 = ''double''"
| "type_to_c BcBool = ''uint8_t''"
| "type_to_c BcStr = ''osc_str''"
| "type_to_c BcUnit = ''void''"
| "type_to_c BcHandle = ''uintptr_t''"
| "type_to_c (BcStruct name) = name"
| "type_to_c (BcEnum name) = name"
| "type_to_c (BcArray _) = ''osc_array*''"
| "type_to_c (BcFixedArray _ _) = ''osc_array*''"
| "type_to_c (BcResult ok err) = result_type_name ok err"
| "type_to_c (BcFnPtr params ret p) = fn_ptr_typedef_name (BcFnPtr params ret p)"
| "type_to_c _ = ''osc_map*''"

fun c_sizeof :: "bc_type \<Rightarrow> string" where
  "c_sizeof BcI32 = ''sizeof(int32_t)''"
| "c_sizeof BcI64 = ''sizeof(int64_t)''"
| "c_sizeof BcF64 = ''sizeof(double)''"
| "c_sizeof BcBool = ''sizeof(uint8_t)''"
| "c_sizeof BcStr = ''sizeof(osc_str)''"
| "c_sizeof (BcStruct name) = fmt ''sizeof({})'' [name]"
| "c_sizeof (BcEnum name) = fmt ''sizeof({})'' [name]"
| "c_sizeof (BcArray _) = ''sizeof(osc_array*)''"
| "c_sizeof (BcFixedArray _ _) = ''sizeof(osc_array*)''"
| "c_sizeof (BcResult ok err) = fmt ''sizeof({})'' [result_type_name ok err]"
| "c_sizeof (BcFnPtr _ _ _) = ''sizeof(void*)''"
| "c_sizeof BcUnit = ''1''"
| "c_sizeof BcHandle = ''sizeof(uintptr_t)''"
| "c_sizeof _ = ''sizeof(osc_map*)''"

section \<open>The state of the generator\<close>

text \<open>
  The fields of \<open>CodeGenerator\<close>, and three more for what the code takes from its surroundings:
  the platform the compiler is built for, and the \<open>Display\<close> and the \<open>Debug\<close> form of a
  64-bit float of the standard library.
\<close>

record code_generator =
  cg_out :: string
  cg_indent :: nat
  cg_temp_counter :: nat
  cg_enums :: "string \<rightharpoonup> enum_info"
  cg_functions :: "string \<rightharpoonup> function_info"
  cg_current_fn_return_type :: "bc_type option"
  cg_deferred_exprs :: "string list"
  cg_result_types :: "(bc_type \<times> bc_type) list"
  cg_fn_ptr_types :: "bc_type list"
  cg_freestanding :: bool
  cg_embed_runtime :: bool
  cg_debug_info :: debug_info
  cg_source_map :: source_map
  cg_current_source :: "source_location option"
  cg_windows :: bool
  cg_show_f64 :: "f64 \<Rightarrow> string"
  cg_debug_f64 :: "f64 \<Rightarrow> string"

type_synonym action = "code_generator \<Rightarrow> failure + code_generator"
type_synonym emitter = "code_generator \<Rightarrow> failure + (string \<times> code_generator)"

text \<open>An action followed by the rest; the value of an emitter used by the rest; a value.\<close>

definition do_then :: "action \<Rightarrow> (code_generator \<Rightarrow> failure + 'r) \<Rightarrow> code_generator \<Rightarrow> failure + 'r" where
  "do_then a k cg = and_then (a cg) k"

definition use ::
  "(code_generator \<Rightarrow> failure + ('v \<times> code_generator)) \<Rightarrow> ('v \<Rightarrow> code_generator \<Rightarrow> failure + 'r) \<Rightarrow>
     code_generator \<Rightarrow> failure + 'r" where
  "use m k cg = and_then (m cg) (\<lambda>(v, cg). k v cg)"

definition give :: "'v \<Rightarrow> code_generator \<Rightarrow> failure + ('v \<times> code_generator)" where
  "give v cg = Inr (v, cg)"

definition unwrap :: "'v option \<Rightarrow> ('v \<Rightarrow> code_generator \<Rightarrow> failure + 'r) \<Rightarrow> code_generator \<Rightarrow> failure + 'r" where
  "unwrap v k cg = (case v of None \<Rightarrow> Inl Panicked | Some x \<Rightarrow> k x cg)"

definition panic :: "code_generator \<Rightarrow> failure + 'r" where
  "panic cg = Inl Panicked"

primrec do_all :: "action list \<Rightarrow> action" where
  "do_all [] cg = Inr cg"
| "do_all (a # as) cg = and_then (a cg) (do_all as)"

definition reading :: "(code_generator \<Rightarrow> code_generator \<Rightarrow> failure + 'r) \<Rightarrow> code_generator \<Rightarrow> failure + 'r" where
  "reading f cg = f cg cg"

section \<open>Output\<close>

definition debug_line_char :: "bool \<Rightarrow> rchar \<Rightarrow> string" where
  "debug_line_char windows c =
     (if c = 92 then (if windows then ''/'' else [CHR 0x5C, CHR 0x5C])
      else if c = 34 then [CHR 0x5C, CHR 0x22]
      else if c = 10 then [CHR 0x5C, CHR ''n'']
      else if c = 13 then [CHR 0x5C, CHR ''r'']
      else if c = 9 then [CHR 0x5C, CHR ''t'']
      else map char_of (utf8_char c))"

definition debug_line_path :: "bool \<Rightarrow> rstring \<Rightarrow> string" where
  "debug_line_path windows path = concat (map (debug_line_char windows) path)"

abbreviation newline :: string where
  "newline \<equiv> [CHR 0x0A]"

abbreviation quoted :: "string \<Rightarrow> string" where
  "quoted s \<equiv> CHR 0x22 # s @ [CHR 0x22]"

definition push_out :: "string \<Rightarrow> action" where
  "push_out s cg = Inr (cg\<lparr>cg_out := cg_out cg @ s\<rparr>)"

definition line_directive :: action where
  "line_directive = reading (\<lambda>cg.
     if debug_enabled (cg_debug_info cg) then
       (case cg_current_source cg of
          Some loc \<Rightarrow>
            unwrap (file_path (cg_source_map cg) (loc_file loc)) (\<lambda>path.
              push_out (fmt ''#line {} {}''
                [show_nat (loc_line loc), quoted (debug_line_path (cg_windows cg) path)] @ newline))
        | None \<Rightarrow> push_out (''#line 1 '' @ quoted ''<oscan-generated>'' @ newline))
     else do_all [])"

definition c_line :: "string \<Rightarrow> action" where
  "c_line s = do_all
     [line_directive,
      reading (\<lambda>cg. push_out (concat (replicate (cg_indent cg) ''    ''))),
      push_out s,
      push_out newline]"

definition blank :: action where
  "blank = push_out newline"

definition indent_more :: action where
  "indent_more cg = Inr (cg\<lparr>cg_indent := cg_indent cg + 1\<rparr>)"

text \<open>The subtraction of a \<open>usize\<close>; below zero it panics in a debug build.\<close>

definition indent_less :: action where
  "indent_less cg = (if cg_indent cg = 0 then Inl Panicked else Inr (cg\<lparr>cg_indent := cg_indent cg - 1\<rparr>))"

definition indented :: "action list \<Rightarrow> action" where
  "indented as = do_all (indent_more # as @ [indent_less])"

definition fresh_tmp :: emitter where
  "fresh_tmp cg =
     Inr (fmt ''_tmp_{}'' [show_nat (cg_temp_counter cg)], cg\<lparr>cg_temp_counter := cg_temp_counter cg + 1\<rparr>)"

definition materialize_array_expr :: "string \<Rightarrow> emitter" where
  "materialize_array_expr expr =
     use fresh_tmp (\<lambda>tmp.
     do_then (c_line (fmt ''osc_array* {} = {};'' [tmp, expr]))
     (give tmp))"

text \<open>Saving the current source location around an operation.\<close>

definition set_source :: "source_location option \<Rightarrow> action" where
  "set_source loc cg = Inr (cg\<lparr>cg_current_source := loc\<rparr>)"

definition go_to_span :: "span \<Rightarrow> action" where
  "go_to_span sp = reading (\<lambda>cg. set_source (location (cg_source_map cg) sp))"

definition emit_at :: "span \<Rightarrow> emitter \<Rightarrow> emitter" where
  "emit_at sp m = reading (\<lambda>cg.
     do_then (set_source (location (cg_source_map cg) sp))
     (use m (\<lambda>v.
      do_then (set_source (cg_current_source cg))
      (give v))))"

definition act_at :: "span \<Rightarrow> action \<Rightarrow> action" where
  "act_at sp a = reading (\<lambda>cg.
     do_all [set_source (location (cg_source_map cg) sp), a, set_source (cg_current_source cg)])"

text \<open>The text of a unit value, which is not emitted as a statement.\<close>

abbreviation unit_c :: string where
  "unit_c \<equiv> ''(void)0''"

definition discard :: "string \<Rightarrow> action" where
  "discard v = (if v \<noteq> unit_c then c_line (fmt ''{};'' [v]) else do_all [])"

end
