(* ===== verification/CCalls.thy ===== *)
theory CCalls
  imports CText
begin

text \<open>
  Calls in the C code generator, \<open>emit_call\<close> of \<open>src/src/codegen.rs\<close> and the functions below it:
  the table of the built-in functions with the text that each call becomes, pushing, and the
  collection intrinsics. An argument is its type with the emitter of its text; indexing past the
  last argument is \<open>Panicked\<close>.
\<close>

section \<open>The built-in functions\<close>

text \<open>The name, the template, and the number of arguments that it indexes.\<close>

definition c_calls_values :: "(string \<times> string \<times> nat) list" where
  "c_calls_values =
     [(''print'', ''osc_print({})'', 1),
      (''println'', ''osc_println({})'', 1),
      (''print_i32'', ''osc_print_i32({})'', 1),
      (''print_i64'', ''osc_print_i64({})'', 1),
      (''print_f64'', ''osc_print_f64({})'', 1),
      (''print_bool'', ''osc_print_bool({})'', 1),
      (''read_line'', ''osc_read_line(_arena)'', 0),
      (''str_len'', ''osc_str_len({})'', 1),
      (''str_eq'', ''osc_str_eq({}, {})'', 2),
      (''str_concat'', ''osc_str_concat(_arena, {}, {})'', 2),
      (''str_to_cstr'', ''osc_str_to_cstr(_arena, {})'', 1),
      (''str_find'', ''osc_str_find({}, {})'', 2),
      (''str_from_i32'', ''osc_str_from_i32(_arena, {})'', 1),
      (''str_slice'', ''osc_str_slice(_arena, {}, {}, {})'', 3),
      (''abs_i32'', ''osc_abs_i32({})'', 1),
      (''abs_f64'', ''osc_abs_f64({})'', 1),
      (''mod_i32'', ''osc_mod_i32({}, {})'', 2),
      (''math_sin'', ''osc_math_sin({})'', 1),
      (''math_cos'', ''osc_math_cos({})'', 1),
      (''math_sqrt'', ''osc_math_sqrt({})'', 1),
      (''math_pow'', ''osc_math_pow({}, {})'', 2),
      (''math_exp'', ''osc_math_exp({})'', 1),
      (''math_log'', ''osc_math_log({})'', 1),
      (''math_atan2'', ''osc_math_atan2({}, {})'', 2),
      (''math_floor'', ''osc_math_floor({})'', 1),
      (''math_ceil'', ''osc_math_ceil({})'', 1),
      (''math_fmod'', ''osc_math_fmod({}, {})'', 2),
      (''math_abs'', ''osc_math_abs({})'', 1),
      (''math_pi'', ''osc_math_pi()'', 0),
      (''math_e'', ''osc_math_e()'', 0),
      (''math_ln2'', ''osc_math_ln2()'', 0),
      (''math_sqrt2'', ''osc_math_sqrt2()'', 0),
      (''band'', ''((int32_t)((uint32_t)({}) & (uint32_t)({})))'', 2),
      (''bor'', ''((int32_t)((uint32_t)({}) | (uint32_t)({})))'', 2),
      (''bxor'', ''((int32_t)((uint32_t)({}) ^ (uint32_t)({})))'', 2),
      (''bshl'', ''((int32_t)((uint32_t)({}) << ({})))'', 2),
      (''bshr'', ''((int32_t)((uint32_t)({}) >> ({})))'', 2),
      (''bnot'', ''((int32_t)(~(uint32_t)({})))'', 1),
      (''i32_to_str'', ''osc_i32_to_str(_arena, {})'', 1)]"

definition c_calls_io :: "(string \<times> string \<times> nat) list" where
  "c_calls_io =
     [(''file_open_read'', ''osc_file_open_read({})'', 1),
      (''file_open_write'', ''osc_file_open_write({})'', 1),
      (''read_byte'', ''osc_read_byte({})'', 1),
      (''write_byte'', ''osc_write_byte({}, {})'', 2),
      (''write_str'', ''osc_write_str({}, {})'', 2),
      (''file_close'', ''osc_file_close({})'', 1),
      (''file_delete'', ''osc_file_delete({})'', 1),
      (''socket_tcp'', ''osc_socket_tcp()'', 0),
      (''socket_connect'', ''osc_socket_connect({}, {}, {})'', 3),
      (''socket_bind'', ''osc_socket_bind({}, {}, {})'', 3),
      (''socket_listen'', ''osc_socket_listen({}, {})'', 2),
      (''socket_accept'', ''osc_socket_accept({})'', 1),
      (''socket_send'', ''osc_socket_send({}, {})'', 2),
      (''socket_recv'', ''osc_socket_recv(_arena, {}, {})'', 2),
      (''socket_close'', ''osc_socket_close({})'', 1),
      (''socket_unix_connect'', ''osc_socket_unix_connect({})'', 1),
      (''socket_udp'', ''osc_socket_udp()'', 0),
      (''socket_sendto'', ''osc_socket_sendto({}, {}, {}, {})'', 4),
      (''socket_recvfrom'', ''osc_socket_recvfrom(_arena, {}, {})'', 2),
      (''tls_connect'', ''osc_tls_connect({}, {})'', 2),
      (''tls_send'', ''osc_tls_send({}, {})'', 2),
      (''tls_recv'', ''osc_tls_recv(_arena, {}, {})'', 2),
      (''tls_recv_byte'', ''osc_tls_recv_byte({})'', 1),
      (''tls_close'', ''osc_tls_close({})'', 1),
      (''tls_cleanup'', ''osc_tls_cleanup()'', 0),
      (''arg_count'', ''osc_arg_count()'', 0),
      (''arg_get'', ''osc_arg_get(_arena, {})'', 1)]"

definition c_calls_system :: "(string \<times> string \<times> nat) list" where
  "c_calls_system =
     [(''char_is_alpha'', ''osc_char_is_alpha({})'', 1),
      (''char_is_digit'', ''osc_char_is_digit({})'', 1),
      (''char_is_alnum'', ''osc_char_is_alnum({})'', 1),
      (''char_is_space'', ''osc_char_is_space({})'', 1),
      (''char_is_upper'', ''osc_char_is_upper({})'', 1),
      (''char_is_lower'', ''osc_char_is_lower({})'', 1),
      (''char_is_print'', ''osc_char_is_print({})'', 1),
      (''char_is_xdigit'', ''osc_char_is_xdigit({})'', 1),
      (''char_to_upper'', ''osc_char_to_upper({})'', 1),
      (''char_to_lower'', ''osc_char_to_lower({})'', 1),
      (''abs_i64'', ''osc_abs_i64({})'', 1),
      (''parse_i32'', ''osc_parse_i32({})'', 1),
      (''parse_i64'', ''osc_parse_i64({})'', 1),
      (''str_from_i64'', ''osc_str_from_i64(_arena, {})'', 1),
      (''str_from_f64'', ''osc_str_from_f64(_arena, {})'', 1),
      (''str_from_bool'', ''osc_str_from_bool({})'', 1),
      (''rand_seed'', ''osc_rand_seed({})'', 1),
      (''rand_i32'', ''osc_rand_i32()'', 0),
      (''time_now'', ''osc_time_now()'', 0),
      (''sleep_ms'', ''osc_sleep_ms({})'', 1),
      (''exit'', ''osc_exit({})'', 1),
      (''env_get'', ''osc_env_get(_arena, {})'', 1),
      (''errno_get'', ''osc_errno_get()'', 0),
      (''errno_str'', ''osc_errno_str({})'', 1),
      (''file_rename'', ''osc_file_rename({}, {})'', 2),
      (''file_exists'', ''osc_file_exists({})'', 1),
      (''dir_create'', ''osc_dir_create({})'', 1),
      (''dir_remove'', ''osc_dir_remove({})'', 1),
      (''dir_current'', ''osc_dir_current(_arena)'', 0),
      (''dir_change'', ''osc_dir_change({})'', 1),
      (''file_open_append'', ''osc_file_open_append({})'', 1),
      (''file_size'', ''osc_file_size({})'', 1),
      (''path_join'', ''osc_path_join(_arena, {}, {})'', 2),
      (''path_ext'', ''osc_path_ext({})'', 1),
      (''path_exists'', ''osc_path_exists({})'', 1),
      (''path_is_dir'', ''osc_path_is_dir({})'', 1),
      (''str_contains'', ''osc_str_contains({}, {})'', 2),
      (''str_starts_with'', ''osc_str_starts_with({}, {})'', 2),
      (''str_ends_with'', ''osc_str_ends_with({}, {})'', 2),
      (''str_trim'', ''osc_str_trim(_arena, {})'', 1),
      (''str_split'', ''osc_str_split(_arena, {}, {})'', 2),
      (''str_to_upper'', ''osc_str_to_upper(_arena, {})'', 1),
      (''str_to_lower'', ''osc_str_to_lower(_arena, {})'', 1),
      (''str_replace'', ''osc_str_replace(_arena, {}, {}, {})'', 3),
      (''str_compare'', ''osc_str_compare({}, {})'', 2),
      (''dir_list'', ''osc_dir_list(_arena, {})'', 1),
      (''proc_run'', ''osc_proc_run({}, {})'', 2),
      (''fd_dup'', ''osc_fd_dup({})'', 1),
      (''fd_dup2'', ''osc_fd_dup2({}, {})'', 2),
      (''proc_spawn'', ''osc_proc_spawn({}, {})'', 2),
      (''proc_wait'', ''osc_proc_wait({})'', 1),
      (''pipe_create'', ''osc_pipe_create(_arena)'', 0),
      (''path_find_exec'', ''osc_path_find_exec(_arena, {})'', 1),
      (''term_width'', ''osc_term_width()'', 0),
      (''term_height'', ''osc_term_height()'', 0),
      (''term_raw'', ''osc_term_raw()'', 0),
      (''term_restore'', ''osc_term_restore()'', 0),
      (''read_nonblock'', ''osc_read_nonblock()'', 0),
      (''env_count'', ''osc_env_count()'', 0),
      (''env_key'', ''osc_env_key(_arena, {})'', 1),
      (''env_value'', ''osc_env_value(_arena, {})'', 1),
      (''str_from_i32_hex'', ''osc_str_from_i32_hex(_arena, {})'', 1),
      (''str_from_i64_hex'', ''osc_str_from_i64_hex(_arena, {})'', 1),
      (''time_format'', ''osc_time_format(_arena, {}, {})'', 2),
      (''time_utc_year'', ''osc_time_utc_year({})'', 1),
      (''time_utc_month'', ''osc_time_utc_month({})'', 1),
      (''time_utc_day'', ''osc_time_utc_day({})'', 1),
      (''time_utc_hour'', ''osc_time_utc_hour({})'', 1),
      (''time_utc_min'', ''osc_time_utc_min({})'', 1),
      (''time_utc_sec'', ''osc_time_utc_sec({})'', 1),
      (''glob_match'', ''osc_glob_match({}, {})'', 2),
      (''sha256'', ''osc_sha256(_arena, {})'', 1),
      (''is_tty'', ''osc_is_tty()'', 0),
      (''env_set'', ''osc_env_set({}, {})'', 2),
      (''env_delete'', ''osc_env_delete({})'', 1)]"

definition c_calls_graphics :: "(string \<times> string \<times> nat) list" where
  "c_calls_graphics =
     [(''canvas_open'', ''osc_canvas_open({}, {}, {})'', 3),
      (''canvas_close'', ''osc_canvas_close()'', 0),
      (''canvas_alive'', ''osc_canvas_alive()'', 0),
      (''canvas_flush'', ''osc_canvas_flush()'', 0),
      (''canvas_clear'', ''osc_canvas_clear({})'', 1),
      (''canvas_width'', ''osc_canvas_width()'', 0),
      (''canvas_height'', ''osc_canvas_height()'', 0),
      (''canvas_scale'', ''osc_canvas_scale()'', 0),
      (''canvas_resized'', ''osc_canvas_resized()'', 0),
      (''canvas_set_icon'', ''osc_canvas_set_icon({}, {}, {})'', 3),
      (''gfx_pixel'', ''osc_gfx_pixel({}, {}, {})'', 3),
      (''gfx_get_pixel'', ''osc_gfx_get_pixel({}, {})'', 2),
      (''gfx_line'', ''osc_gfx_line({}, {}, {}, {}, {})'', 5),
      (''gfx_rect'', ''osc_gfx_rect({}, {}, {}, {}, {})'', 5),
      (''gfx_fill_rect'', ''osc_gfx_fill_rect({}, {}, {}, {}, {})'', 5),
      (''gfx_circle'', ''osc_gfx_circle({}, {}, {}, {})'', 4),
      (''gfx_fill_circle'', ''osc_gfx_fill_circle({}, {}, {}, {})'', 4),
      (''gfx_draw_text'', ''osc_gfx_draw_text({}, {}, {}, {}, {})'', 5),
      (''gfx_draw_text_scaled'', ''osc_gfx_draw_text_scaled({}, {}, {}, {}, {}, {}, {})'', 7),
      (''gfx_text_width'', ''osc_gfx_text_width({}, {})'', 2),
      (''gfx_blit'', ''osc_gfx_blit({}, {}, {}, {}, {})'', 5),
      (''gfx_blit_alpha'', ''osc_gfx_blit_alpha({}, {}, {}, {}, {})'', 5),
      (''canvas_key'', ''osc_canvas_key()'', 0),
      (''canvas_mouse_x'', ''osc_canvas_mouse_x()'', 0),
      (''canvas_mouse_y'', ''osc_canvas_mouse_y()'', 0),
      (''canvas_mouse_btn'', ''osc_canvas_mouse_btn()'', 0),
      (''canvas_wheel'', ''osc_canvas_wheel()'', 0),
      (''clipboard_set'', ''osc_clipboard_set({})'', 1),
      (''clipboard_get'', ''osc_clipboard_get(_arena)'', 0),
      (''rgb'', ''osc_rgb({}, {}, {})'', 3),
      (''rgba'', ''osc_rgba({}, {}, {}, {})'', 4)]"

definition c_calls_maps :: "(string \<times> string \<times> nat) list" where
  "c_calls_maps =
     [(''sort_i32'', ''osc_sort_i32({})'', 1),
      (''sort_i64'', ''osc_sort_i64({})'', 1),
      (''sort_str'', ''osc_sort_str({})'', 1),
      (''sort_f64'', ''osc_sort_f64({})'', 1),
      (''map_new'', ''osc_map_new(_arena)'', 0),
      (''map_set'', ''osc_map_set(_arena, {}, {}, {})'', 3),
      (''map_get'', ''osc_map_get({}, {})'', 2),
      (''map_has'', ''osc_map_has({}, {})'', 2),
      (''map_delete'', ''osc_map_delete({}, {})'', 2),
      (''map_len'', ''osc_map_len({})'', 1),
      (''map_str_i32_new'', ''osc_map_str_i32_new(_arena)'', 0),
      (''map_str_i32_set'', ''osc_map_str_i32_set(_arena, {}, {}, {})'', 3),
      (''map_str_i32_get'', ''osc_map_str_i32_get({}, {})'', 2),
      (''map_str_i32_has'', ''osc_map_str_i32_has({}, {})'', 2),
      (''map_str_i32_delete'', ''osc_map_str_i32_delete({}, {})'', 2),
      (''map_str_i32_len'', ''osc_map_str_i32_len({})'', 1),
      (''map_str_i64_new'', ''osc_map_str_i64_new(_arena)'', 0),
      (''map_str_i64_set'', ''osc_map_str_i64_set(_arena, {}, {}, {})'', 3),
      (''map_str_i64_get'', ''osc_map_str_i64_get({}, {})'', 2),
      (''map_str_i64_has'', ''osc_map_str_i64_has({}, {})'', 2),
      (''map_str_i64_delete'', ''osc_map_str_i64_delete({}, {})'', 2),
      (''map_str_i64_len'', ''osc_map_str_i64_len({})'', 1),
      (''map_str_f64_new'', ''osc_map_str_f64_new(_arena)'', 0),
      (''map_str_f64_set'', ''osc_map_str_f64_set(_arena, {}, {}, {})'', 3),
      (''map_str_f64_get'', ''osc_map_str_f64_get({}, {})'', 2),
      (''map_str_f64_has'', ''osc_map_str_f64_has({}, {})'', 2),
      (''map_str_f64_delete'', ''osc_map_str_f64_delete({}, {})'', 2),
      (''map_str_f64_len'', ''osc_map_str_f64_len({})'', 1),
      (''map_i32_str_new'', ''osc_map_i32_str_new(_arena)'', 0),
      (''map_i32_str_set'', ''osc_map_i32_str_set(_arena, {}, {}, {})'', 3),
      (''map_i32_str_get'', ''osc_map_i32_str_get({}, {})'', 2),
      (''map_i32_str_has'', ''osc_map_i32_str_has({}, {})'', 2),
      (''map_i32_str_delete'', ''osc_map_i32_str_delete({}, {})'', 2),
      (''map_i32_str_len'', ''osc_map_i32_str_len({})'', 1),
      (''map_i32_i32_new'', ''osc_map_i32_i32_new(_arena)'', 0),
      (''map_i32_i32_set'', ''osc_map_i32_i32_set(_arena, {}, {}, {})'', 3),
      (''map_i32_i32_get'', ''osc_map_i32_i32_get({}, {})'', 2),
      (''map_i32_i32_has'', ''osc_map_i32_i32_has({}, {})'', 2),
      (''map_i32_i32_delete'', ''osc_map_i32_i32_delete({}, {})'', 2),
      (''map_i32_i32_len'', ''osc_map_i32_i32_len({})'', 1),
      (''len'', ''osc_array_len({})'', 1)]"

definition c_calls_files :: "(string \<times> string \<times> nat) list" where
  "c_calls_files =
     [(''read_file'', ''osc_read_file(_arena, {})'', 1),
      (''write_file'', ''osc_write_file({}, {})'', 2),
      (''min_i32'', ''osc_min_i32({}, {})'', 2),
      (''max_i32'', ''osc_max_i32({}, {})'', 2),
      (''clamp_i32'', ''osc_clamp_i32({}, {}, {})'', 3),
      (''min_i64'', ''osc_min_i64({}, {})'', 2),
      (''max_i64'', ''osc_max_i64({}, {})'', 2),
      (''clamp_i64'', ''osc_clamp_i64({}, {}, {})'', 3),
      (''min_f64'', ''osc_min_f64({}, {})'', 2),
      (''max_f64'', ''osc_max_f64({}, {})'', 2),
      (''clamp_f64'', ''osc_clamp_f64({}, {}, {})'', 3),
      (''str_join'', ''osc_str_join(_arena, {}, {})'', 2),
      (''path_basename'', ''osc_path_basename({})'', 1),
      (''path_dirname'', ''osc_path_dirname(_arena, {})'', 1),
      (''str_from_chars'', ''osc_str_from_chars(_arena, {})'', 1),
      (''str_to_chars'', ''osc_str_to_chars(_arena, {})'', 1),
      (''img_load'', ''osc_img_load(_arena, {})'', 1),
      (''svg_load'', ''osc_svg_load(_arena, {}, {}, {})'', 3),
      (''tt_load'', ''osc_tt_load(_arena, {})'', 1),
      (''tt_free'', ''osc_tt_free({})'', 1),
      (''tt_ascent'', ''osc_tt_ascent({}, {})'', 2),
      (''tt_descent'', ''osc_tt_descent({}, {})'', 2),
      (''tt_line_gap'', ''osc_tt_line_gap({}, {})'', 2),
      (''tt_line_height'', ''osc_tt_line_height({}, {})'', 2),
      (''tt_text_width'', ''osc_tt_text_width({}, {}, {})'', 3),
      (''tt_draw_text'', ''osc_tt_draw_text({}, {}, {}, {}, {}, {})'', 6)]"

definition c_calls :: "(string \<times> string \<times> nat) list" where
  "c_calls = c_calls_values @ c_calls_io @ c_calls_system @ c_calls_graphics @ c_calls_maps @ c_calls_files"

section \<open>Arguments\<close>

type_synonym argument = "bc_type \<times> emitter"

definition nth_arg ::
  "'a list \<Rightarrow> nat \<Rightarrow> ('a \<Rightarrow> code_generator \<Rightarrow> failure + 'r) \<Rightarrow> code_generator \<Rightarrow> failure + 'r" where
  "nth_arg args i k = (if i < length args then k (args ! i) else panic)"

primrec emit_all :: "emitter list \<Rightarrow> code_generator \<Rightarrow> failure + (string list \<times> code_generator)" where
  "emit_all [] = give []"
| "emit_all (m # ms) = use m (\<lambda>v. use (emit_all ms) (\<lambda>vs. give (v # vs)))"

definition c_array_element :: "bc_type \<Rightarrow> bc_type \<Rightarrow> bc_type" where
  "c_array_element otherwise ty = (case array_element_type ty of Some e \<Rightarrow> e | None \<Rightarrow> otherwise)"

text \<open>A value is kept in a new variable.\<close>

definition in_tmp :: "string \<Rightarrow> string \<Rightarrow> emitter" where
  "in_tmp c_ty v =
     use fresh_tmp (\<lambda>tmp.
     do_then (c_line (fmt ''{} {} = {};'' [c_ty, tmp, v]))
     (give tmp))"

definition check_arena_store :: "bc_type \<Rightarrow> string \<Rightarrow> action" where
  "check_arena_store elem_ty array =
     (if \<not> is_arena_safe elem_ty
      then c_line (fmt ''osc_array_check_arena_store(_arena, {});'' [array]) else do_all [])"

definition emit_array_push :: "argument list \<Rightarrow> emitter" where
  "emit_array_push args =
     nth_arg args 0 (\<lambda>(array_ty, array_em).
     use array_em (\<lambda>array_expr.
     use (materialize_array_expr array_expr) (\<lambda>array.
     let elem_ty = c_array_element BcI32 array_ty in
     nth_arg args 1 (\<lambda>(_, value_em).
     use value_em (\<lambda>v.
     use (in_tmp (type_to_c elem_ty) v) (\<lambda>value_tmp.
     do_then (check_arena_store elem_ty array)
     (give (fmt ''osc_array_push(_arena, {}, &{})'' [array, value_tmp]))))))))"

section \<open>Collection intrinsics\<close>

definition emit_array_argument :: "argument list \<Rightarrow> nat \<Rightarrow> (string \<Rightarrow> emitter) \<Rightarrow> emitter" where
  "emit_array_argument args i k = nth_arg args i (\<lambda>(_, em). use em k)"

text \<open>The operations without a callback; the first argument has been emitted already.\<close>

definition emit_collection_op ::
  "collection_intrinsic \<Rightarrow> string \<Rightarrow> argument list \<Rightarrow> bc_type \<Rightarrow> string \<Rightarrow> emitter" where
  "emit_collection_op i symbol args first_ty array =
     (let elem_ty = c_array_element BcUnit first_ty in
      case co_op i of
        CoClone \<Rightarrow> give (fmt ''{}(_arena, {})'' [symbol, array])
      | CoRepeat \<Rightarrow>
          use (in_tmp (type_to_c first_ty) array) (\<lambda>value_tmp.
          emit_array_argument args 1 (\<lambda>count.
          give (fmt ''{}(_arena, {}, &{}, {})'' [symbol, c_sizeof first_ty, value_tmp, count])))
      | CoReverse \<Rightarrow> give (fmt ''{}({})'' [symbol, array])
      | CoClear \<Rightarrow> give (fmt ''{}({})'' [symbol, array])
      | CoSort \<Rightarrow> give (fmt ''{}({})'' [symbol, array])
      | CoFill \<Rightarrow>
          emit_array_argument args 1 (\<lambda>v.
          use (in_tmp (type_to_c elem_ty) v) (\<lambda>value_tmp.
          do_then (check_arena_store elem_ty array)
          (give (fmt ''{}({}, &{})'' [symbol, array, value_tmp]))))
      | CoSwap \<Rightarrow>
          emit_array_argument args 1 (\<lambda>left.
          emit_array_argument args 2 (\<lambda>right.
          give (fmt ''{}({}, {}, {})'' [symbol, array, left, right])))
      | CoExtend \<Rightarrow>
          emit_array_argument args 1 (\<lambda>source.
          do_then (check_arena_store elem_ty array)
          (give (fmt ''{}(_arena, {}, {})'' [symbol, array, source])))
      | CoInsert \<Rightarrow>
          emit_array_argument args 1 (\<lambda>index.
          emit_array_argument args 2 (\<lambda>v.
          use (in_tmp (type_to_c elem_ty) v) (\<lambda>value_tmp.
          do_then (check_arena_store elem_ty array)
          (give (fmt ''{}(_arena, {}, {}, &{})'' [symbol, array, index, value_tmp])))))
      | CoRemoveAt \<Rightarrow>
          emit_array_argument args 1 (\<lambda>index.
          use fresh_tmp (\<lambda>result.
          do_then (do_all
            [c_line (fmt ''{} {};'' [type_to_c elem_ty, result]),
             c_line (fmt ''{}({}, {}, &{});'' [symbol, array, index, result])])
          (give result)))
      | CoSlice \<Rightarrow>
          emit_array_argument args 1 (\<lambda>start.
          emit_array_argument args 2 (\<lambda>stop.
          give (fmt ''{}(_arena, {}, {}, {})'' [symbol, array, start, stop])))
      | CoCompare \<Rightarrow>
          emit_array_argument args 1 (\<lambda>right.
          give (fmt ''{}({}, {})'' [symbol, array, right]))
      | op' \<Rightarrow>
          if op' \<in> {CoContains, CoIndexOf, CoLastIndexOf, CoCount} then
            unwrap (co_source i) (\<lambda>src.
            emit_array_argument args 1 (\<lambda>v.
            use (in_tmp (type_to_c (core_bc_type src)) v) (\<lambda>value_tmp.
            give (fmt ''{}({}, &{})'' [symbol, array, value_tmp]))))
          else panic)"

text \<open>The loop over the elements that all operations with a callback share.\<close>

definition emit_element_loop :: "string \<Rightarrow> string \<Rightarrow> string \<Rightarrow> string \<Rightarrow> string \<Rightarrow> action list \<Rightarrow> action" where
  "emit_element_loop source_c array_tmp index element len body =
     do_all
       [c_line (fmt ''for (int32_t {} = 0; {} < {}; {}++) {{'' [index, index, len, index]),
        indented
          (c_line (fmt ''{} {} = *({}*)osc_array_get({}, {});'' [source_c, element, source_c, array_tmp, index]) #
           body),
        c_line ''}'']"

definition emit_callback_loop ::
  "collection_intrinsic \<Rightarrow> string \<Rightarrow> bc_type \<Rightarrow> string option \<Rightarrow> string \<Rightarrow> string \<Rightarrow> string \<Rightarrow> string \<Rightarrow> string \<Rightarrow> emitter"
where
  "emit_callback_loop i source_c source_ty initial array_tmp callback_tmp index element len =
     (let loop = emit_element_loop source_c array_tmp index element len;
          condition = fmt ''{}(_arena, {})'' [callback_tmp, element] in
      case co_op i of
        CoAny \<Rightarrow>
          use fresh_tmp (\<lambda>result.
          do_then (do_all
            [c_line (fmt ''uint8_t {} = {};'' [result, ''0'']),
             loop [c_line (fmt ''if ({}) {{ {} = 1; break; }}'' [condition, result])]])
          (give result))
      | CoAll \<Rightarrow>
          use fresh_tmp (\<lambda>result.
          do_then (do_all
            [c_line (fmt ''uint8_t {} = {};'' [result, ''1'']),
             loop [c_line (fmt ''if (!({})) {{ {} = 0; break; }}'' [condition, result])]])
          (give result))
      | CoMap \<Rightarrow>
          unwrap (co_target i) (\<lambda>tgt.
          let target_ty = core_bc_type tgt in
          use fresh_tmp (\<lambda>result.
          do_then (do_all
            [c_line (fmt ''osc_array* {} = osc_array_new(_arena, {}, {});'' [result, c_sizeof target_ty, len]),
             loop
               [use fresh_tmp (\<lambda>mapped. do_all
                 [c_line (fmt ''{} {} = {}(_arena, {});'' [type_to_c target_ty, mapped, callback_tmp, element]),
                  c_line (fmt ''osc_array_push(_arena, {}, &{});'' [result, mapped])])]])
          (give result)))
      | CoFilter \<Rightarrow>
          use fresh_tmp (\<lambda>result.
          do_then (do_all
            [c_line (fmt ''osc_array* {} = osc_array_new(_arena, {}, {});'' [result, c_sizeof source_ty, len]),
             loop
               [c_line (fmt ''if ({}(_arena, {})) osc_array_push(_arena, {}, &{});''
                 [callback_tmp, element, result, element])]])
          (give result))
      | CoFold \<Rightarrow>
          unwrap initial (\<lambda>result.
          do_then (loop
            [c_line (fmt ''{} = {}(_arena, {}, {});'' [result, callback_tmp, result, element])])
          (give result))
      | CoForEach \<Rightarrow>
          do_then (loop [c_line (fmt ''{}(_arena, {});'' [callback_tmp, element])])
          (give unit_c)
      | _ \<Rightarrow> panic)"

definition emit_initial :: "collection_intrinsic \<Rightarrow> string \<Rightarrow> argument list \<Rightarrow> code_generator \<Rightarrow> failure + (string option \<times> code_generator)"
where
  "emit_initial i source_c args =
     (if co_op i = CoFold then
        nth_arg args 1 (\<lambda>(_, em).
        use em (\<lambda>v.
        use (in_tmp source_c v) (\<lambda>tmp. give (Some tmp))))
      else give None)"

definition emit_collection_higher_order :: "collection_intrinsic \<Rightarrow> argument list \<Rightarrow> emitter" where
  "emit_collection_higher_order i args =
     unwrap (co_source i) (\<lambda>src.
     let source_ty = core_bc_type src; source_c = type_to_c source_ty in
     emit_array_argument args 0 (\<lambda>array_value.
     use (in_tmp ''osc_array*'' array_value) (\<lambda>array_tmp.
     use (emit_initial i source_c args) (\<lambda>initial.
     unwrap (callback_index i) (\<lambda>callback_index.
     emit_array_argument args callback_index (\<lambda>callback_value.
     unwrap (Option.bind (callback_type i) (\<lambda>ty. ty)) (\<lambda>callback_ty.
     use (in_tmp (type_to_c callback_ty) callback_value) (\<lambda>callback_tmp.
     use fresh_tmp (\<lambda>index.
     use fresh_tmp (\<lambda>element.
     use fresh_tmp (\<lambda>len.
     do_then (c_line (fmt ''int32_t {} = osc_array_len({});'' [len, array_tmp]))
     (emit_callback_loop i source_c source_ty initial array_tmp callback_tmp index element len))))))))))))"

definition emit_collection_call :: "collection_intrinsic \<Rightarrow> argument list \<Rightarrow> emitter" where
  "emit_collection_call i args =
     (if is_higher_order i then emit_collection_higher_order i args
      else
        nth_arg args 0 (\<lambda>(first_ty, em).
        use em (\<lambda>first.
        use (if co_op i = CoRepeat then give first else materialize_array_expr first) (\<lambda>array.
        unwrap (Option.bind (runtime_symbol i) (\<lambda>s. s)) (\<lambda>symbol.
        emit_collection_op i symbol args first_ty array)))))"

section \<open>Calls\<close>

definition emit_pop :: "argument list \<Rightarrow> string list \<Rightarrow> emitter" where
  "emit_pop args arg_strs =
     nth_arg args 0 (\<lambda>(arr_ty, _).
     let elem_ty = (case arr_ty of BcArray e \<Rightarrow> e | _ \<Rightarrow> BcI32) in
     give (fmt ''(*({}*)osc_array_pop({}))'' [type_to_c elem_ty, hd arg_strs]))"

text \<open>A function of the program, declared extern or not, or a variable that holds one.\<close>

definition emit_user_call :: "bool \<Rightarrow> string \<Rightarrow> string list \<Rightarrow> emitter" where
  "emit_user_call variable name arg_strs =
     (let with_arena = join_with '', '' (''_arena'' # arg_strs) in
      if variable then give (fmt ''{}({})'' [name, with_arena])
      else
        reading (\<lambda>cg.
          case cg_functions cg name of
            Some info \<Rightarrow>
              if fi_is_extern info then give (fmt ''{}({})'' [mangle_c_name name, join_with '', '' arg_strs])
              else give (fmt ''{}({})'' [mangle_c_name name, with_arena])
          | None \<Rightarrow> give (fmt ''{}({})'' [mangle_c_name name, with_arena])))"

definition emit_named_call :: "bool \<Rightarrow> string \<Rightarrow> argument list \<Rightarrow> emitter" where
  "emit_named_call variable name args =
     (if name = ''push'' then emit_array_push args
      else
        use (emit_all (map snd args)) (\<lambda>arg_strs.
        case map_of c_calls name of
          Some (template, n) \<Rightarrow> if n \<le> length arg_strs then give (fmt template arg_strs) else panic
        | None \<Rightarrow>
            if name = ''pop'' then emit_pop args arg_strs
            else emit_user_call variable name arg_strs))"

definition emit_call :: "callee \<Rightarrow> argument list \<Rightarrow> emitter" where
  "emit_call c args =
     (case c of
        CalleeCollection i \<Rightarrow> emit_collection_call i args
      | CalleeNamed name \<Rightarrow> emit_named_call False name args
      | CalleeVar name \<Rightarrow> emit_named_call True name args)"

end
