(* ===== verification/CTypes.thy ===== *)
theory CTypes
  imports CText
begin

text \<open>
  The declarations that the C code generator of \<open>src/src/codegen.rs\<close> puts in front of the
  functions: the includes, the types in an order in which each one is declared before it is used,
  the prototypes. The \<open>Result\<close> types and the types of function pointers are collected from the
  program first.

  The code iterates over the values of the hash map of all functions; here \<open>fns\<close> is the list of
  these values in the order of the iteration, whatever it is.
\<close>

section \<open>Collection of \<open>Result\<close> types\<close>

text \<open>The set of what has been seen and the list of what is kept.\<close>

type_synonym result_seen = "(bc_type \<times> bc_type) set \<times> (bc_type \<times> bc_type) list"

fun collect_result_types_from_bctype :: "bc_type \<Rightarrow> result_seen \<Rightarrow> result_seen" where
  "collect_result_types_from_bctype (BcResult ok err) (seen, types) =
     collect_result_types_from_bctype err
       (collect_result_types_from_bctype ok
         (if (ok, err) \<in> seen then (seen, types) else (insert (ok, err) seen, types @ [(ok, err)])))"
| "collect_result_types_from_bctype (BcArray e) acc = collect_result_types_from_bctype e acc"
| "collect_result_types_from_bctype (BcFixedArray e _) acc = collect_result_types_from_bctype e acc"
| "collect_result_types_from_bctype (BcFnPtr params ret _) acc =
     collect_result_types_from_bctype ret (fold (\<lambda>p. collect_result_types_from_bctype p) params acc)"
| "collect_result_types_from_bctype _ acc = acc"

fun collect_result_types_block :: "ir_block \<Rightarrow> result_seen \<Rightarrow> result_seen"
and collect_result_types_stmt :: "ir_stmt \<Rightarrow> result_seen \<Rightarrow> result_seen" where
  "collect_result_types_block (IrBlock stmts _ _) acc = fold (\<lambda>s. collect_result_types_stmt s) stmts acc"
| "collect_result_types_stmt (IrLet _ _ ty _ _) acc = collect_result_types_from_bctype ty acc"
| "collect_result_types_stmt (IrFor _ _ _ body _) acc = collect_result_types_block body acc"
| "collect_result_types_stmt (IrForIn _ _ body _) acc = collect_result_types_block body acc"
| "collect_result_types_stmt (IrWhile _ body _) acc = collect_result_types_block body acc"
| "collect_result_types_stmt _ acc = acc"

definition collect_result_types :: "function_info list \<Rightarrow> ir_program \<Rightarrow> (bc_type \<times> bc_type) list" where
  "collect_result_types fns p =
     (let tys = collect_result_types_from_bctype;
          in_params = fold (\<lambda>(_, ty). tys ty);
          acc = ({}, []);
          acc = fold (\<lambda>f acc. collect_result_types_block (ifd_body f)
                  (in_params (ifd_params f) (tys (ifd_return_type f) acc))) (ip_fn_defs p) acc;
          acc = fold (\<lambda>c. tys (icd_ty c)) (ip_const_defs p) acc;
          acc = fold (\<lambda>s. in_params (isd_fields s)) (ip_struct_defs p) acc;
          acc = fold (\<lambda>e. fold (\<lambda>(_, payload). fold tys payload) (ied_variants e)) (ip_enum_defs p) acc;
          acc = fold (\<lambda>b. fold (\<lambda>f acc. tys (ixf_return_type f) (in_params (ixf_params f) acc)) (ixb_decls b))
                  (ip_extern_blocks p) acc;
          acc = fold (\<lambda>fi acc. tys (fi_return_type fi) (in_params (fi_params fi) acc)) fns acc
      in snd acc)"

section \<open>Collection of the types of function pointers\<close>

type_synonym fn_ptr_seen = "string set \<times> bc_type list"

fun collect_fn_ptr_from_bctype :: "bc_type \<Rightarrow> fn_ptr_seen \<Rightarrow> fn_ptr_seen" where
  "collect_fn_ptr_from_bctype (BcFnPtr params ret pr) (seen, types) =
     (let ty = BcFnPtr params ret pr;
          acc = (if type_tag ty \<in> seen then (seen, types) else (insert (type_tag ty) seen, types @ [ty]))
      in collect_fn_ptr_from_bctype ret (fold (\<lambda>p. collect_fn_ptr_from_bctype p) params acc))"
| "collect_fn_ptr_from_bctype _ acc = acc"

fun collect_fn_ptr_from_bctype_deep :: "bc_type \<Rightarrow> fn_ptr_seen \<Rightarrow> fn_ptr_seen" where
  "collect_fn_ptr_from_bctype_deep (BcFnPtr params ret pr) acc =
     collect_fn_ptr_from_bctype_deep ret
       (fold (\<lambda>p. collect_fn_ptr_from_bctype_deep p) params
         (collect_fn_ptr_from_bctype (BcFnPtr params ret pr) acc))"
| "collect_fn_ptr_from_bctype_deep (BcArray e) acc = collect_fn_ptr_from_bctype_deep e acc"
| "collect_fn_ptr_from_bctype_deep (BcFixedArray e _) acc = collect_fn_ptr_from_bctype_deep e acc"
| "collect_fn_ptr_from_bctype_deep (BcResult ok err) acc =
     collect_fn_ptr_from_bctype_deep err (collect_fn_ptr_from_bctype_deep ok acc)"
| "collect_fn_ptr_from_bctype_deep _ acc = acc"

fun collect_fn_ptr_from_block :: "ir_block \<Rightarrow> fn_ptr_seen \<Rightarrow> fn_ptr_seen"
and collect_fn_ptr_from_stmt :: "ir_stmt \<Rightarrow> fn_ptr_seen \<Rightarrow> fn_ptr_seen" where
  "collect_fn_ptr_from_block (IrBlock stmts _ _) acc = fold (\<lambda>s. collect_fn_ptr_from_stmt s) stmts acc"
| "collect_fn_ptr_from_stmt (IrLet _ _ ty _ _) acc = collect_fn_ptr_from_bctype_deep ty acc"
| "collect_fn_ptr_from_stmt (IrFor _ _ _ body _) acc = collect_fn_ptr_from_block body acc"
| "collect_fn_ptr_from_stmt (IrForIn _ _ body _) acc = collect_fn_ptr_from_block body acc"
| "collect_fn_ptr_from_stmt (IrWhile _ body _) acc = collect_fn_ptr_from_block body acc"
| "collect_fn_ptr_from_stmt _ acc = acc"

text \<open>The callbacks of the intrinsics, in the order of the loops of the code.\<close>

definition intrinsic_callbacks :: "collection_intrinsic list" where
  "intrinsic_callbacks =
     concat (map (\<lambda>s.
       map (\<lambda>op'. \<lparr>co_op = op', co_source = Some s, co_target = None\<rparr>)
         [CoAny, CoAll, CoFilter, CoFold, CoForEach] @
       map (\<lambda>t. \<lparr>co_op = CoMap, co_source = Some s, co_target = Some t\<rparr>) core_type_all) core_type_all)"

text \<open>\<open>None\<close> is the panic of \<open>callback_type().unwrap()\<close>.\<close>

definition callback_types :: "bc_type list option" where
  "callback_types = those (map (\<lambda>i. Option.bind (callback_type i) (\<lambda>ty. ty)) intrinsic_callbacks)"

definition collect_fn_ptr_types :: "function_info list \<Rightarrow> ir_program \<Rightarrow> bc_type list option" where
  "collect_fn_ptr_types fns p =
     (let tys = collect_fn_ptr_from_bctype_deep;
          in_params = fold (\<lambda>(_, ty). tys ty);
          acc = ({}, []);
          acc = fold (\<lambda>fi acc. tys (fi_return_type fi) (in_params (fi_params fi) acc)) fns acc;
          acc = fold (\<lambda>f acc. collect_fn_ptr_from_block (ifd_body f)
                  (tys (ifd_return_type f) (in_params (ifd_params f) acc))) (ip_fn_defs p) acc;
          acc = fold (\<lambda>c. tys (icd_ty c)) (ip_const_defs p) acc;
          acc = fold (\<lambda>s. in_params (isd_fields s)) (ip_struct_defs p) acc;
          acc = fold (\<lambda>e. fold (\<lambda>(_, payload). fold tys payload) (ied_variants e)) (ip_enum_defs p) acc;
          acc = fold (\<lambda>b. fold (\<lambda>f acc. tys (ixf_return_type f) (in_params (ixf_params f) acc)) (ixb_decls b))
                  (ip_extern_blocks p) acc
      in map_option (\<lambda>callbacks. snd (fold collect_fn_ptr_from_bctype callbacks acc)) callback_types)"

section \<open>The order of the declarations\<close>

datatype c_type_decl =
    DeclResult bc_type bc_type
  | DeclStruct string "(string \<times> bc_type) list"
  | DeclEnum string "(string \<times> bc_type list) list"
  | DeclFnPtr bc_type

definition is_runtime_result_type :: "string \<Rightarrow> bool" where
  "is_runtime_result_type name \<longleftrightarrow>
     name \<in> {''osc_result_str_str'', ''osc_result_i32_str'', ''osc_result_i64_str'',
             ''osc_result_arr_i32_str'', ''osc_result_handle_str''}"

fun type_decl_name :: "c_type_decl \<Rightarrow> string" where
  "type_decl_name (DeclResult ok err) = result_type_name ok err"
| "type_decl_name (DeclStruct name _) = name"
| "type_decl_name (DeclEnum name _) = name"
| "type_decl_name (DeclFnPtr ty) = fn_ptr_typedef_name ty"

fun c_type_is_available :: "bc_type \<Rightarrow> string set \<Rightarrow> bool" where
  "c_type_is_available (BcStruct name) available = (name \<in> available)"
| "c_type_is_available (BcEnum name) available = (name \<in> available)"
| "c_type_is_available (BcResult ok err) available =
     (let name = result_type_name ok err in is_runtime_result_type name \<or> name \<in> available)"
| "c_type_is_available (BcFnPtr params ret p) available =
     (fn_ptr_typedef_name (BcFnPtr params ret p) \<in> available)"
| "c_type_is_available _ available = True"

fun type_decl_is_ready :: "c_type_decl \<Rightarrow> string set \<Rightarrow> bool" where
  "type_decl_is_ready (DeclResult ok err) available =
     (c_type_is_available ok available \<and> c_type_is_available err available)"
| "type_decl_is_ready (DeclStruct _ members) available =
     list_all (\<lambda>(_, ty). c_type_is_available ty available) members"
| "type_decl_is_ready (DeclEnum _ variants) available =
     list_all (\<lambda>(_, payload). list_all (\<lambda>ty. c_type_is_available ty available) payload) variants"
| "type_decl_is_ready (DeclFnPtr (BcFnPtr params ret _)) available =
     (list_all (\<lambda>ty. c_type_is_available ty available) params \<and> c_type_is_available ret available)"
| "type_decl_is_ready (DeclFnPtr _) available = False"

text \<open>\<open>result_names.insert\<close> keeps the first of the types with one name.\<close>

fun result_decls :: "(bc_type \<times> bc_type) list \<Rightarrow> string set \<Rightarrow> c_type_decl list" where
  "result_decls [] result_names = []"
| "result_decls ((ok, err) # tys) result_names =
     (let name = result_type_name ok err in
      if \<not> is_runtime_result_type name \<and> name \<notin> result_names
      then DeclResult ok err # result_decls tys (insert name result_names)
      else result_decls tys result_names)"

definition pending_decls :: "code_generator \<Rightarrow> ir_program \<Rightarrow> c_type_decl list" where
  "pending_decls cg p =
     map (\<lambda>s. DeclStruct (isd_name s) (isd_fields s)) (ip_struct_defs p) @
     map (\<lambda>e. DeclEnum (ied_name e) (ied_variants e)) (ip_enum_defs p) @
     result_decls (cg_result_types cg) {} @
     map DeclFnPtr (cg_fn_ptr_types cg)"

text \<open>\<open>position\<close> and \<open>remove\<close>: the first declaration that is ready, and the others.\<close>

fun next_ready :: "c_type_decl list \<Rightarrow> string set \<Rightarrow> (c_type_decl \<times> c_type_decl list) option" where
  "next_ready [] available = None"
| "next_ready (d # pending) available =
     (if type_decl_is_ready d available then Some (d, pending)
      else map_option (\<lambda>(r, rest). (r, d # rest)) (next_ready pending available))"

section \<open>Emission of the declarations\<close>

definition emit_result_typedef :: "bc_type \<Rightarrow> bc_type \<Rightarrow> action" where
  "emit_result_typedef ok err =
     (let name = result_type_name ok err;
          ok_c_field = (if ok = BcUnit then ''uint8_t'' else type_to_c ok) in
      do_all [c_line (fmt ''OSC_RESULT_DECL({}, {}, {});'' [ok_c_field, type_to_c err, name]), blank])"

definition has_payload :: "(string \<times> bc_type list) list \<Rightarrow> bool" where
  "has_payload variants = list_ex (\<lambda>(_, tys). tys \<noteq> []) variants"

definition emit_enum_def :: "string \<Rightarrow> (string \<times> bc_type list) list \<Rightarrow> action" where
  "emit_enum_def name variants =
     do_all
       [do_all (map (\<lambda>(i, vname, _). c_line (fmt ''#define {}_TAG_{} {}'' [name, vname, show_nat i]))
          (List.enumerate 0 variants)),
        blank,
        if has_payload variants then
          do_all
            [c_line ''typedef struct {'',
             indented
               [c_line ''int tag;'',
                c_line ''union {'',
                indented (map (\<lambda>(vname, tys).
                  if tys \<noteq> [] then
                    do_all
                      [c_line ''struct {'',
                       indented (map (\<lambda>(i, pt). c_line (fmt ''{} _{};'' [type_to_c pt, show_nat i]))
                         (List.enumerate 0 tys)),
                       c_line (fmt ''}} {};'' [vname])]
                  else do_all []) variants),
                c_line ''} data;''],
             c_line (fmt ''}} {};'' [name])]
        else c_line (fmt ''typedef int {};'' [name]),
        blank]"

definition emit_struct_def :: "string \<Rightarrow> (string \<times> bc_type) list \<Rightarrow> action" where
  "emit_struct_def name members =
     do_all
       [c_line ''typedef struct {'',
        indented (map (\<lambda>(fname, fty). c_line (fmt ''{} {};'' [type_to_c fty, fname])) members),
        c_line (fmt ''}} {};'' [name]),
        blank]"

fun emit_fn_ptr_typedef :: "bc_type \<Rightarrow> action" where
  "emit_fn_ptr_typedef (BcFnPtr params ret p) =
     do_all
       [c_line (fmt ''typedef {} (*{})({});''
          [type_to_c ret, fn_ptr_typedef_name (BcFnPtr params ret p),
           join_with '', '' (''osc_arena*'' # map type_to_c params)]),
        blank]"
| "emit_fn_ptr_typedef _ = do_all []"

fun emit_type_decl :: "c_type_decl \<Rightarrow> action" where
  "emit_type_decl (DeclResult ok err) = emit_result_typedef ok err"
| "emit_type_decl (DeclStruct name members) = emit_struct_def name members"
| "emit_type_decl (DeclEnum name variants) = emit_enum_def name variants"
| "emit_type_decl (DeclFnPtr ty) = emit_fn_ptr_typedef ty"

text \<open>No declaration that is ready is the panic about cyclic declarations.\<close>

lemma next_ready_length: "next_ready pending available = Some (d, rest) \<Longrightarrow> length pending = Suc (length rest)"
  by (induction pending arbitrary: d rest) (auto split: if_splits)

function emit_pending :: "c_type_decl list \<Rightarrow> string set \<Rightarrow> action" where
  "emit_pending pending available =
     (if pending = [] then do_all []
      else
        (case next_ready pending available of
           None \<Rightarrow> panic
         | Some (d, rest) \<Rightarrow>
             do_then (emit_type_decl d) (emit_pending rest (insert (type_decl_name d) available))))"
  by pat_completeness auto
termination
  by (relation "measure (\<lambda>(pending, _). length pending)") (auto dest: next_ready_length)

declare emit_pending.simps [simp del]

definition emit_type_declarations :: "ir_program \<Rightarrow> action" where
  "emit_type_declarations p = reading (\<lambda>cg. emit_pending (pending_decls cg p) {})"

section \<open>Includes and prototypes\<close>

definition freestanding_includes :: "string list" where
  "freestanding_includes =
     [''#ifndef OSC_NOFREESTANDING'',
      ''#define OSC_FREESTANDING'',
      ''#define L_MAINFILE'',
      ''#define L_WITHSNPRINTF'',
      ''#define L_WITHSOCKETS'',
      ''#if defined(__x86_64__) || defined(_WIN32)'',
      ''#define L_MEMFUNCS_DONE'',
      ''#endif'',
      ''#ifndef __wasi__'',
      ''#define L_FONT_PROPORTIONAL'',
      ''#define L_FONT_LATIN1_SUPPLEMENT'',
      ''#define L_FONT_BOX_DRAWING'',
      ''#define L_UI_WITH_CUSTOM_FONT'',
      ''#include '' @ quoted ''l_gfx.h'',
      ''#define OSC_HAS_GFX'',
      ''#if defined(__x86_64__) || defined(_WIN32)'',
      ''#include '' @ quoted ''l_img.h'',
      ''#define OSC_HAS_IMG'',
      ''#include '' @ quoted ''l_svg.h'',
      ''#define OSC_HAS_SVG'',
      ''#include '' @ quoted ''l_tt.h'',
      ''#define OSC_HAS_TT'',
      ''#endif'',
      ''#else'',
      ''#include '' @ quoted ''l_os.h'',
      ''#endif'',
      ''#define OSC_HAS_SOCKETS'',
      ''#if defined(__x86_64__) || defined(_WIN32)'',
      ''#include '' @ quoted ''l_tls.h'',
      ''#define memcpy l_memcpy'',
      ''#define memcmp l_memcmp'',
      ''#define memmove l_memmove'',
      ''#define memset l_memset'',
      ''#define strlen l_strlen'',
      ''#endif'',
      ''#include '' @ quoted ''osc_runtime.h'',
      ''#include '' @ quoted ''osc_runtime.c'',
      ''#else'',
      ''#include <stdint.h>'',
      ''#include <stdio.h>'',
      ''#include <stdlib.h>'',
      ''#include <math.h>'',
      ''#include '' @ quoted ''osc_runtime.h'',
      ''#endif'']"

definition hosted_includes :: "string list" where
  "hosted_includes =
     [''#include <stdint.h>'',
      ''#include <stdio.h>'',
      ''#include <stdlib.h>'',
      ''#include <math.h>'',
      ''#include '' @ quoted ''osc_runtime.h'']"

definition emit_includes :: action where
  "emit_includes = reading (\<lambda>cg.
     do_all
       [do_all (map c_line
          (if \<not> cg_embed_runtime cg then
             (if cg_freestanding cg then [''#define OSC_FREESTANDING''] else []) @
             [''#include '' @ quoted ''osc_runtime.h'']
           else if cg_freestanding cg then freestanding_includes
           else hosted_includes)),
        blank])"

definition fn_params_c :: "ir_fn_def \<Rightarrow> string" where
  "fn_params_c f =
     join_with '', ''
       (''osc_arena* _arena'' # map (\<lambda>(name, ty). fmt ''{} {}'' [type_to_c ty, name]) (ifd_params f))"

definition emit_extern_prototype :: "ir_extern_fn_def \<Rightarrow> action" where
  "emit_extern_prototype ef =
     (let params = map (\<lambda>(name, ty). fmt ''{} {}'' [type_to_c ty, name]) (ixf_params ef);
          params_str = (if params = [] then ''void'' else join_with '', '' params) in
      c_line (fmt ''extern {} {}({});''
        [type_to_c (ixf_return_type ef), mangle_c_name (ixf_name ef), params_str]))"

definition emit_fn_prototype :: "ir_fn_def \<Rightarrow> action" where
  "emit_fn_prototype f =
     (let ret = type_to_c (ifd_return_type f) in
      if ifd_name f = ''main'' then c_line (fmt ''{} oscan_main({});'' [ret, fn_params_c f])
      else c_line (fmt ''{} {}({});'' [ret, mangle_c_name (ifd_name f), fn_params_c f]))"

definition emit_forward_decls :: "ir_program \<Rightarrow> action" where
  "emit_forward_decls p =
     do_all
       [do_all (map (\<lambda>eb. do_all (map emit_extern_prototype (ixb_decls eb))) (ip_extern_blocks p)),
        do_all (map emit_fn_prototype (ip_fn_defs p)),
        blank]"

end
