(* ===== verification/CEmit.thy ===== *)
theory CEmit
  imports CCalls CTypes
begin

text \<open>
  Expressions and statements in the C code generator, \<open>src/src/codegen.rs\<close>. Each part takes the
  emitters of the subexpressions and the actions of the statements below it; the last section
  closes the recursion over the intermediate representation.
\<close>

section \<open>Source positions of the tree\<close>

fun ir_block_span :: "ir_block \<Rightarrow> span" where
  "ir_block_span (IrBlock _ _ sp) = sp"

fun ir_span :: "ir_expr \<Rightarrow> span" where
  "ir_span (IrIntLit _ sp) = sp"
| "ir_span (IrFloatLit _ sp) = sp"
| "ir_span (IrStringLit _ sp) = sp"
| "ir_span (IrBoolLit _ sp) = sp"
| "ir_span (IrInterpolatedString _ sp) = sp"
| "ir_span (IrIdent _ _ _ sp) = sp"
| "ir_span (IrBinaryOp _ _ _ _ sp) = sp"
| "ir_span (IrUnaryOp _ _ _ sp) = sp"
| "ir_span (IrCast _ _ sp) = sp"
| "ir_span (IrCall _ _ _ sp) = sp"
| "ir_span (IrFieldAccess _ _ _ sp) = sp"
| "ir_span (IrIndex _ _ _ sp) = sp"
| "ir_span (IrIf _ _ _ _ sp) = sp"
| "ir_span (IrMatch _ _ _ sp) = sp"
| "ir_span (IrTry _ _ sp) = sp"
| "ir_span (IrArrayLit _ _ _ sp) = sp"
| "ir_span (IrStructLit _ _ sp) = sp"
| "ir_span (IrEnumConstructor _ _ _ _ sp) = sp"
| "ir_span (IrArena _ sp) = sp"
| "ir_span (IrBlockExpr block) = ir_block_span block"

fun ir_stmt_span :: "ir_stmt \<Rightarrow> span" where
  "ir_stmt_span (IrLet _ _ _ _ sp) = sp"
| "ir_stmt_span (IrAssign _ _ sp) = sp"
| "ir_stmt_span (IrCompoundAssign _ _ _ sp) = sp"
| "ir_stmt_span (IrExpr _ sp) = sp"
| "ir_stmt_span (IrWhile _ _ sp) = sp"
| "ir_stmt_span (IrFor _ _ _ _ sp) = sp"
| "ir_stmt_span (IrForIn _ _ _ sp) = sp"
| "ir_stmt_span (IrReturn _ sp) = sp"
| "ir_stmt_span (IrDefer _ sp) = sp"
| "ir_stmt_span (IrBreak sp) = sp"
| "ir_stmt_span (IrContinue sp) = sp"

section \<open>Blocks\<close>

text \<open>A block is the actions of its statements and its tail, with the position of the tail.\<close>

type_synonym body = "action list \<times> (span \<times> emitter) option"

text \<open>A block whose value is not used.\<close>

definition run_body :: "body \<Rightarrow> action" where
  "run_body b =
     (case b of (stmts, tail) \<Rightarrow>
        do_all (stmts @ (case tail of Some (_, em) \<Rightarrow> [use em discard] | None \<Rightarrow> [])))"

text \<open>A block whose value, if it has a tail, is assigned to a variable.\<close>

definition assign_body :: "string \<Rightarrow> body \<Rightarrow> action" where
  "assign_body tmp b =
     (case b of (stmts, tail) \<Rightarrow>
        do_all (stmts @
          (case tail of
             Some (_, em) \<Rightarrow> [use em (\<lambda>v. c_line (fmt ''{} = {};'' [tmp, v]))]
           | None \<Rightarrow> [])))"

definition emit_block_body :: "body \<Rightarrow> emitter" where
  "emit_block_body b =
     (case b of (stmts, tail) \<Rightarrow>
        do_then (do_all stmts)
          (case tail of Some (sp, em) \<Rightarrow> emit_at sp em | None \<Rightarrow> give unit_c))"

definition emit_block_expr :: "body \<Rightarrow> bc_type \<Rightarrow> emitter" where
  "emit_block_expr b ty =
     (if ty = BcUnit then
        do_then (do_all [c_line ''{'', indented [run_body b], c_line ''}''])
        (give unit_c)
      else
        use fresh_tmp (\<lambda>tmp.
        do_then (do_all
          [c_line (fmt ''{} {};'' [type_to_c ty, tmp]),
           c_line ''{'',
           indented [assign_body tmp b],
           c_line ''}''])
        (give tmp)))"

definition open_arena :: action where
  "open_arena = do_all
     [c_line ''osc_arena *_parent_arena = _arena;'',
      c_line ''osc_arena *_arena = osc_arena_create(0);'']"

definition close_arena :: action where
  "close_arena = do_all [c_line ''osc_arena_destroy(_arena);'', c_line ''_arena = _parent_arena;'']"

definition emit_arena :: "body \<Rightarrow> bc_type \<Rightarrow> emitter" where
  "emit_arena b ty =
     (if ty = BcUnit then
        do_then (do_all
          [c_line ''{'',
           indented [open_arena, use (emit_block_body b) discard, close_arena],
           c_line ''}''])
        (give unit_c)
      else
        use fresh_tmp (\<lambda>tmp.
        do_then (do_all
          [c_line (fmt ''{} {};'' [type_to_c ty, tmp]),
           c_line ''{'',
           indented [open_arena, assign_body tmp b, close_arena],
           c_line ''}''])
        (give tmp)))"

section \<open>Operators, literals and aggregates\<close>

fun binary_template :: "binop \<Rightarrow> bc_type \<Rightarrow> string option" where
  "binary_template OpAdd ty = Some
     (case ty of BcI32 \<Rightarrow> ''osc_add_i32({}, {})'' | BcI64 \<Rightarrow> ''osc_add_i64({}, {})''
      | BcStr \<Rightarrow> ''osc_str_concat(_arena, {}, {})'' | _ \<Rightarrow> ''({} + {})'')"
| "binary_template OpSub ty = Some
     (case ty of BcI32 \<Rightarrow> ''osc_sub_i32({}, {})'' | BcI64 \<Rightarrow> ''osc_sub_i64({}, {})'' | _ \<Rightarrow> ''({} - {})'')"
| "binary_template OpMul ty = Some
     (case ty of BcI32 \<Rightarrow> ''osc_mul_i32({}, {})'' | BcI64 \<Rightarrow> ''osc_mul_i64({}, {})'' | _ \<Rightarrow> ''({} * {})'')"
| "binary_template OpDiv ty = Some
     (case ty of BcI32 \<Rightarrow> ''osc_div_i32({}, {})'' | BcI64 \<Rightarrow> ''osc_div_i64({}, {})'' | _ \<Rightarrow> ''({} / {})'')"
| "binary_template OpMod ty = Some
     (case ty of BcI32 \<Rightarrow> ''osc_mod_i32({}, {})'' | BcI64 \<Rightarrow> ''osc_mod_i64({}, {})'' | _ \<Rightarrow> ''({} %% {})'')"
| "binary_template OpEq ty = Some
     (case ty of BcStr \<Rightarrow> ''osc_str_eq({}, {})'' | BcEnum _ \<Rightarrow> ''{}.tag == {}.tag'' | _ \<Rightarrow> ''{} == {}'')"
| "binary_template OpNeq ty = Some
     (case ty of BcStr \<Rightarrow> ''(!osc_str_eq({}, {}))'' | BcEnum _ \<Rightarrow> ''{}.tag != {}.tag'' | _ \<Rightarrow> ''{} != {}'')"
| "binary_template OpLt ty = Some
     (case ty of BcStr \<Rightarrow> ''(osc_str_compare({}, {}) < 0)'' | _ \<Rightarrow> ''{} < {}'')"
| "binary_template OpGt ty = Some
     (case ty of BcStr \<Rightarrow> ''(osc_str_compare({}, {}) > 0)'' | _ \<Rightarrow> ''{} > {}'')"
| "binary_template OpLtEq ty = Some
     (case ty of BcStr \<Rightarrow> ''(osc_str_compare({}, {}) <= 0)'' | _ \<Rightarrow> ''{} <= {}'')"
| "binary_template OpGtEq ty = Some
     (case ty of BcStr \<Rightarrow> ''(osc_str_compare({}, {}) >= 0)'' | _ \<Rightarrow> ''{} >= {}'')"
| "binary_template OpAnd ty = None"
| "binary_template OpOr ty = None"

definition emit_binary_op :: "binop \<Rightarrow> bc_type \<Rightarrow> emitter \<Rightarrow> emitter \<Rightarrow> emitter" where
  "emit_binary_op op' ty left right =
     use left (\<lambda>lv.
     if op' = OpAnd \<or> op' = OpOr then
       use fresh_tmp (\<lambda>result.
       let guard = (if op' = OpAnd then result else fmt ''!{}'' [result]) in
       do_then (do_all
         [c_line (fmt ''uint8_t {} = {};'' [result, lv]),
          c_line (fmt ''if ({}) {{'' [guard]),
          indented [use right (\<lambda>rv. c_line (fmt ''{} = {};'' [result, rv]))],
          c_line ''}''])
       (give result))
     else
       use right (\<lambda>rv.
       unwrap (binary_template op' ty) (\<lambda>template. give (fmt template [lv, rv]))))"

definition emit_unary_op :: "unop \<Rightarrow> bc_type \<Rightarrow> emitter \<Rightarrow> emitter" where
  "emit_unary_op op' ty operand =
     use operand (\<lambda>v.
     give (case op' of
       OpNot \<Rightarrow> fmt ''(!({}))'' [v]
     | OpNeg \<Rightarrow>
         (case ty of BcI32 \<Rightarrow> fmt ''osc_neg_i32({})'' [v] | BcI64 \<Rightarrow> fmt ''osc_neg_i64({})'' [v]
          | _ \<Rightarrow> fmt ''(-{})'' [v])))"

definition emit_cast :: "string \<Rightarrow> bc_type \<Rightarrow> bc_type \<Rightarrow> string" where
  "emit_cast v src to =
     (case (src, to) of
        (BcI32, BcI64) \<Rightarrow> fmt ''osc_i32_to_i64({})'' [v]
      | (BcI64, BcI32) \<Rightarrow> fmt ''osc_i64_to_i32({})'' [v]
      | (BcI32, BcF64) \<Rightarrow> fmt ''osc_i32_to_f64({})'' [v]
      | (BcI64, BcF64) \<Rightarrow> fmt ''osc_i64_to_f64({})'' [v]
      | (BcF64, BcI32) \<Rightarrow> fmt ''osc_f64_to_i32({})'' [v]
      | (BcF64, BcI64) \<Rightarrow> fmt ''osc_f64_to_i64({})'' [v]
      | (BcHandle, BcI64) \<Rightarrow> fmt ''((int64_t)({}))'' [v]
      | (BcI64, BcHandle) \<Rightarrow> fmt ''((uintptr_t)({}))'' [v]
      | _ \<Rightarrow> fmt ''(({}){})'' [type_to_c to, v])"

definition emit_float :: "f64 \<Rightarrow> emitter" where
  "emit_float v = reading (\<lambda>cg.
     let s = cg_show_f64 cg v in
     give (if CHR ''.'' \<in> set s \<or> CHR ''e'' \<in> set s \<or> CHR ''E'' \<in> set s then s else fmt ''{}.0'' [s]))"

definition str_literal :: "rstring \<Rightarrow> string" where
  "str_literal s = ''osc_str_from_cstr('' @ quoted (escape_c_string s) @ '')''"

definition bool_c :: "bool \<Rightarrow> string" where
  "bool_c b = (if b then ''1'' else ''0'')"

definition emit_interpolated_expr :: "bc_type \<Rightarrow> emitter \<Rightarrow> emitter" where
  "emit_interpolated_expr ty em =
     use em (\<lambda>v.
     case ty of
       BcStr \<Rightarrow> give v
     | BcI32 \<Rightarrow> give (fmt ''osc_str_from_i32(_arena, {})'' [v])
     | BcI64 \<Rightarrow> give (fmt ''osc_str_from_i64(_arena, {})'' [v])
     | BcF64 \<Rightarrow> give (fmt ''osc_str_from_f64(_arena, {})'' [v])
     | BcBool \<Rightarrow> give (fmt ''osc_str_from_bool({})'' [v])
     | _ \<Rightarrow> panic)"

text \<open>A part is the text, if it is one, or the emitter of an expression of a type.\<close>

definition rendered_parts :: "(rstring + bc_type \<times> emitter) list \<Rightarrow> emitter list" where
  "rendered_parts parts =
     concat (map (\<lambda>part. case part of
       Inl text' \<Rightarrow> if text' \<noteq> [] then [give (str_literal text')] else []
     | Inr (ty, em) \<Rightarrow> [emit_interpolated_expr ty em]) parts)"

definition emit_interpolated_string :: "(rstring + bc_type \<times> emitter) list \<Rightarrow> emitter" where
  "emit_interpolated_string parts =
     use (emit_all (rendered_parts parts)) (\<lambda>vs.
     give (case vs of
       [] \<Rightarrow> ''osc_str_from_cstr('' @ quoted [] @ '')''
     | v # vs \<Rightarrow> foldl (\<lambda>result part. fmt ''osc_str_concat(_arena, {}, {})'' [result, part]) v vs))"

definition emit_index :: "bc_type \<Rightarrow> emitter \<Rightarrow> emitter \<Rightarrow> emitter" where
  "emit_index arr_ty arr index =
     use arr (\<lambda>arr_c.
     use index (\<lambda>idx_c.
     give (case arr_ty of
       BcStr \<Rightarrow>
         fmt ''((int32_t)(unsigned char)(({}).data[osc_str_check_index({}, {})]))'' [arr_c, arr_c, idx_c]
     | _ \<Rightarrow>
         fmt ''(*({}*)osc_array_get({}, {}))'' [type_to_c (c_array_element BcI32 arr_ty), arr_c, idx_c])))"

definition emit_array_lit :: "bc_type \<Rightarrow> emitter list \<Rightarrow> emitter" where
  "emit_array_lit elem_ty elements =
     (if elements = [] then give (fmt ''osc_array_new(_arena, {}, 0)'' [c_sizeof elem_ty])
      else
        use fresh_tmp (\<lambda>tmp.
        do_then (do_all
          (c_line (fmt ''osc_array* {} = osc_array_new(_arena, {}, {});''
             [tmp, c_sizeof elem_ty, show_nat (length elements)]) #
           map (\<lambda>elem.
             use elem (\<lambda>v.
             use (in_tmp (type_to_c elem_ty) v) (\<lambda>push_tmp.
             c_line (fmt ''osc_array_push(_arena, {}, &{});'' [tmp, push_tmp])))) elements))
        (give tmp)))"

definition emit_struct_lit :: "string \<Rightarrow> (string \<times> emitter) list \<Rightarrow> emitter" where
  "emit_struct_lit name members =
     use (emit_all (map (\<lambda>(fname, em). use em (\<lambda>v. give (fmt ''.{} = {}'' [fname, v]))) members)) (\<lambda>parts.
     give (fmt ''({}){{ {} }}'' [name, join_with '', '' parts]))"

definition emit_result_constructor :: "string \<Rightarrow> bc_type \<Rightarrow> argument list \<Rightarrow> emitter" where
  "emit_result_constructor variant ty args =
     (let result_c_ty = type_to_c ty in
      if variant = ''Ok'' then
        emit_array_argument args 0 (\<lambda>v.
        let ok_ty = (case ty of BcResult o' _ \<Rightarrow> o' | _ \<Rightarrow> BcUnit) in
        if ok_ty = BcUnit then give (fmt ''({}){{ .is_ok = 1 }}'' [result_c_ty])
        else give (fmt ''({}){{ .is_ok = 1, .value = {{ .ok = {} }} }}'' [result_c_ty, v]))
      else if variant = ''Err'' then
        emit_array_argument args 0 (\<lambda>v.
        give (fmt ''({}){{ .is_ok = 0, .value = {{ .err = {} }} }}'' [result_c_ty, v]))
      else give ''0'')"

definition enum_carries :: "code_generator \<Rightarrow> string \<Rightarrow> bool" where
  "enum_carries cg ename =
     (case cg_enums cg ename of Some info \<Rightarrow> has_payload (ei_variants info) | None \<Rightarrow> False)"

definition emit_enum_constructor :: "string \<Rightarrow> string \<Rightarrow> bc_type \<Rightarrow> argument list \<Rightarrow> emitter" where
  "emit_enum_constructor enum_name variant ty args =
     (if enum_name = ''Result'' then emit_result_constructor variant ty args
      else reading (\<lambda>cg.
        if \<not> enum_carries cg enum_name then give (fmt ''{}_TAG_{}'' [enum_name, variant])
        else if args = [] then give (fmt ''({}){{ .tag = {}_TAG_{} }}'' [enum_name, enum_name, variant])
        else
          use (emit_all (map (\<lambda>(i, _, em). use em (\<lambda>v. give (fmt ''._{} = {}'' [show_nat i, v])))
                 (List.enumerate 0 args))) (\<lambda>payload_parts.
          give (fmt ''({}){{ .tag = {}_TAG_{}, .data.{} = {{ {} }} }}''
            [enum_name, enum_name, variant, variant, join_with '', '' payload_parts]))))"

definition emit_ident :: "string \<Rightarrow> ident_kind \<Rightarrow> emitter" where
  "emit_ident name kind =
     (case kind of
        IkFnRef \<Rightarrow> give (if name = ''main'' then ''oscan_main'' else mangle_c_name name)
      | IkValue \<Rightarrow> give name)"

section \<open>Branches\<close>

definition emit_if :: "emitter \<Rightarrow> body \<Rightarrow> emitter option \<Rightarrow> bc_type \<Rightarrow> emitter" where
  "emit_if condition then_block else_branch ty =
     use condition (\<lambda>cond.
     if ty = BcUnit then
       do_then (do_all
         [c_line (fmt ''if ({}) {{'' [cond]),
          indented [run_body then_block],
          (case else_branch of
             Some em \<Rightarrow> do_all [c_line ''} else {'', indented [use em discard], c_line ''}'']
           | None \<Rightarrow> c_line ''}'')])
       (give unit_c)
     else
       use fresh_tmp (\<lambda>tmp.
       do_then (do_all
         [c_line (fmt ''{} {};'' [type_to_c ty, tmp]),
          c_line (fmt ''if ({}) {{'' [cond]),
          indented [use (emit_block_body then_block) (\<lambda>v. c_line (fmt ''{} = {};'' [tmp, v]))],
          (case else_branch of
             Some em \<Rightarrow>
               do_all [c_line ''} else {'', indented [use em (\<lambda>v. c_line (fmt ''{} = {};'' [tmp, v]))]]
           | None \<Rightarrow> do_all []),
          c_line ''}''])
       (give tmp)))"

text \<open>An arm is its pattern and the emitter of its body; the value goes to a variable or nowhere.\<close>

type_synonym arm = "ir_pattern \<times> emitter"

definition deliver :: "string option \<Rightarrow> emitter \<Rightarrow> action" where
  "deliver target em =
     (case target of
        None \<Rightarrow> use em discard
      | Some tmp \<Rightarrow> use em (\<lambda>v. c_line (fmt ''{} = {};'' [tmp, v])))"

definition bind_payload_field :: "string \<Rightarrow> string \<Rightarrow> bc_type list \<Rightarrow> nat \<times> ir_pattern \<Rightarrow> action" where
  "bind_payload_field scrut_c variant payload_types ib =
     (case ib of
        (i, IpIdent name _) \<Rightarrow>
          if i < length payload_types then
            c_line (fmt ''{} {} = {}.data.{}._{};''
              [type_to_c (payload_types ! i), name, scrut_c, variant, show_nat i])
          else do_all []
      | _ \<Rightarrow> do_all [])"

definition bind_enum_payload :: "string \<Rightarrow> string \<Rightarrow> ir_pattern \<Rightarrow> action" where
  "bind_enum_payload scrut_c ename pat =
     (case pat of
        IpEnum _ variant bindings _ \<Rightarrow> reading (\<lambda>cg.
          unwrap (cg_enums cg ename) (\<lambda>info.
          case map_of (ei_variants info) variant of
            Some payload_types \<Rightarrow>
              do_all (map (bind_payload_field scrut_c variant payload_types) (List.enumerate 0 bindings))
          | None \<Rightarrow> do_all []))
      | _ \<Rightarrow> do_all [])"

definition case_label :: "string \<Rightarrow> ir_pattern \<Rightarrow> string" where
  "case_label ename pat =
     (case pat of IpEnum _ variant _ _ \<Rightarrow> fmt ''case {}_TAG_{}: {{'' [ename, variant] | _ \<Rightarrow> ''default: {'')"

definition emit_enum_arm_unit :: "string \<Rightarrow> string \<Rightarrow> arm \<Rightarrow> action" where
  "emit_enum_arm_unit scrut_c ename arm =
     (case arm of
        (IpIdent name _, em) \<Rightarrow>
          do_all
            [c_line ''default: {'',
             indented
               [c_line (fmt ''{} {} = {};'' [type_to_c (BcEnum ename), name, scrut_c]),
                use em discard],
             c_line ''    break;'',
             c_line ''}'']
      | (pat, em) \<Rightarrow>
          do_all
            [c_line (case_label ename pat),
             indented [bind_enum_payload scrut_c ename pat, use em discard, c_line ''break;''],
             c_line ''}''])"

definition emit_enum_arm_valued :: "string \<Rightarrow> string \<Rightarrow> string \<Rightarrow> arm \<Rightarrow> action" where
  "emit_enum_arm_valued tmp scrut_c ename arm =
     (case arm of (pat, em) \<Rightarrow>
        do_all
          [c_line (case_label ename pat),
           indented
             [bind_enum_payload scrut_c ename pat,
              use em (\<lambda>v. c_line (fmt ''{} = {};'' [tmp, v])),
              c_line ''break;''],
           c_line ''}''])"

text \<open>The last arm for \<open>Ok\<close>, the last one for \<open>Err\<close>, and the last one of the others.\<close>

definition result_arms :: "arm list \<Rightarrow> arm option \<times> arm option \<times> arm option" where
  "result_arms arms =
     foldl (\<lambda>(ok_arm, err_arm, wildcard_arm) arm.
       case fst arm of
         IpEnum _ variant _ _ \<Rightarrow>
           if variant = ''Ok'' then (Some arm, err_arm, wildcard_arm)
           else if variant = ''Err'' then (ok_arm, Some arm, wildcard_arm)
           else (ok_arm, err_arm, Some arm)
       | _ \<Rightarrow> (ok_arm, err_arm, Some arm)) (None, None, None) arms"

definition bind_result_payload :: "string \<Rightarrow> string \<Rightarrow> bc_type \<Rightarrow> ir_pattern \<Rightarrow> action" where
  "bind_result_payload scrut_c member payload_ty pat =
     (case pat of
        IpEnum _ _ (IpIdent name _ # _) _ \<Rightarrow>
          c_line (fmt ''{} {} = {}.value.{};'' [type_to_c payload_ty, name, scrut_c, member])
      | _ \<Rightarrow> do_all [])"

definition emit_result_side ::
  "string option \<Rightarrow> string \<Rightarrow> string \<Rightarrow> bc_type \<Rightarrow> arm option \<Rightarrow> arm option \<Rightarrow> action" where
  "emit_result_side target scrut_c member payload_ty arm wildcard_arm =
     (case arm of
        Some (pat, em) \<Rightarrow> do_all [bind_result_payload scrut_c member payload_ty pat, deliver target em]
      | None \<Rightarrow>
          (case wildcard_arm of Some (_, em) \<Rightarrow> deliver target em | None \<Rightarrow> do_all []))"

text \<open>\<open>emit_result_match_unit\<close> and \<open>emit_result_match_valued\<close>, which differ in the delivery.\<close>

definition emit_result_match :: "string option \<Rightarrow> string \<Rightarrow> bc_type \<Rightarrow> bc_type \<Rightarrow> arm list \<Rightarrow> action" where
  "emit_result_match target scrut_c ok_ty err_ty arms =
     (case result_arms arms of (ok_arm, err_arm, wildcard_arm) \<Rightarrow>
        do_all
          [c_line (fmt ''if ({}.is_ok) {{'' [scrut_c]),
           indented [emit_result_side target scrut_c ''ok'' ok_ty ok_arm wildcard_arm],
           c_line ''} else {'',
           indented [emit_result_side target scrut_c ''err'' err_ty err_arm wildcard_arm],
           c_line ''}''])"

definition pattern_to_c :: "code_generator \<Rightarrow> ir_pattern \<Rightarrow> string" where
  "pattern_to_c cg pat =
     (case pat of
        IpIntLit v _ \<Rightarrow> show_int v
      | IpFloatLit v _ \<Rightarrow> cg_show_f64 cg v
      | IpStringLit s _ \<Rightarrow> str_literal s
      | IpBoolLit b _ \<Rightarrow> bool_c b
      | _ \<Rightarrow> ''0'')"

definition emit_comparison :: "string \<Rightarrow> bc_type \<Rightarrow> string \<Rightarrow> string" where
  "emit_comparison lhs ty rhs =
     (case ty of BcStr \<Rightarrow> fmt ''osc_str_eq({}, {})'' [lhs, rhs] | _ \<Rightarrow> fmt ''{} == {}'' [lhs, rhs])"

text \<open>\<open>emit_literal_match_unit\<close> and \<open>emit_literal_match_valued\<close>, from the arm on that is next.\<close>

fun emit_literal_match :: "string option \<Rightarrow> string \<Rightarrow> bc_type \<Rightarrow> bool \<Rightarrow> arm list \<Rightarrow> action" where
  "emit_literal_match target scrut_c scrut_ty first [] = c_line ''}''"
| "emit_literal_match target scrut_c scrut_ty first ((pat, em) # arms) =
     (let otherwise = (\<lambda>binding. do_all
            [c_line (if first then ''{'' else ''} else {''),
             indented (binding @ [deliver target em]),
             c_line ''}'']) in
      case pat of
        IpWildcard _ \<Rightarrow> otherwise []
      | IpIdent name _ \<Rightarrow> otherwise [c_line (fmt ''{} {} = {};'' [type_to_c scrut_ty, name, scrut_c])]
      | _ \<Rightarrow> reading (\<lambda>cg.
          let cmp = emit_comparison scrut_c scrut_ty (pattern_to_c cg pat) in
          do_all
            [c_line (if first then fmt ''if ({}) {{'' [cmp] else fmt ''}} else if ({}) {{'' [cmp]),
             indented [deliver target em],
             emit_literal_match target scrut_c scrut_ty False arms]))"

text \<open>\<open>emit_match_unit\<close> and \<open>emit_match_valued\<close>.\<close>

definition emit_match_arms :: "string option \<Rightarrow> string \<Rightarrow> bc_type \<Rightarrow> arm list \<Rightarrow> action" where
  "emit_match_arms target scrut_c scrut_ty arms =
     (case scrut_ty of
        BcEnum ename \<Rightarrow> reading (\<lambda>cg.
          do_all
            [c_line (if enum_carries cg ename then fmt ''switch ({}.tag) {{'' [scrut_c]
                     else fmt ''switch ({}) {{'' [scrut_c]),
             indented (map (case target of
                              None \<Rightarrow> emit_enum_arm_unit scrut_c ename
                            | Some tmp \<Rightarrow> emit_enum_arm_valued tmp scrut_c ename) arms),
             c_line ''}''])
      | BcResult ok_ty err_ty \<Rightarrow> emit_result_match target scrut_c ok_ty err_ty arms
      | _ \<Rightarrow> emit_literal_match target scrut_c scrut_ty True arms)"

definition emit_match :: "emitter \<Rightarrow> bc_type \<Rightarrow> arm list \<Rightarrow> bc_type \<Rightarrow> emitter" where
  "emit_match scrutinee scrut_ty arms ty =
     use scrutinee (\<lambda>scrut_c.
     if ty = BcUnit then
       do_then (emit_match_arms None scrut_c scrut_ty arms)
       (give unit_c)
     else
       use fresh_tmp (\<lambda>tmp.
       do_then (do_all
         [c_line (fmt ''{} {};'' [type_to_c ty, tmp]),
          emit_match_arms (Some tmp) scrut_c scrut_ty arms])
       (give tmp)))"

definition fn_return_type :: "code_generator \<Rightarrow> bc_type" where
  "fn_return_type cg = (case cg_current_fn_return_type cg of Some ty \<Rightarrow> ty | None \<Rightarrow> BcUnit)"

definition emit_try :: "emitter \<Rightarrow> bc_type \<Rightarrow> emitter" where
  "emit_try call call_ty =
     use call (\<lambda>call_c.
     use (in_tmp (type_to_c call_ty) call_c) (\<lambda>call_tmp.
     reading (\<lambda>cg.
       do_then (do_all
         [c_line (fmt ''if (!{}.is_ok) {{'' [call_tmp]),
          indented
            [c_line (fmt ''{} _err_ret;'' [type_to_c (fn_return_type cg)]),
             c_line ''_err_ret.is_ok = 0;'',
             c_line (fmt ''_err_ret.value.err = {}.value.err;'' [call_tmp]),
             c_line ''return _err_ret;''],
          c_line ''}''])
       (give (fmt ''{}.value.ok'' [call_tmp])))))"

end
