(* ===== verification/CGenerate.thy ===== *)
theory CGenerate
  imports CEmit
begin

text \<open>
  Statements, functions, constants and the whole of \<open>CodeGenerator::generate\<close> of
  \<open>src/src/codegen.rs\<close>.
\<close>

section \<open>Deferred calls and returns\<close>

definition emit_deferred_calls :: action where
  "emit_deferred_calls = reading (\<lambda>cg.
     do_all (map (\<lambda>code. do_all [c_line ''{'', indented [push_out code], c_line ''}''])
       (rev (cg_deferred_exprs cg))))"

text \<open>The text that the expression emits is taken out of the output, with its value as a statement.\<close>

definition capture_deferred_expr :: "emitter \<Rightarrow> emitter" where
  "capture_deferred_expr em cg =
     (let outer = cg_out cg in
      use em (\<lambda>v. do_then (discard v) (\<lambda>cg.
        Inr (cg_out cg, cg\<lparr>cg_out := outer\<rparr>))) (cg\<lparr>cg_out := []\<rparr>))"

definition push_deferred :: "string \<Rightarrow> action" where
  "push_deferred code cg = Inr (cg\<lparr>cg_deferred_exprs := cg_deferred_exprs cg @ [code]\<rparr>)"

definition emit_deferred_before_return :: "string option \<Rightarrow> bc_type \<Rightarrow> action" where
  "emit_deferred_before_return val ret_type = reading (\<lambda>cg.
     if cg_deferred_exprs cg = [] then
       c_line (case val of Some v \<Rightarrow> fmt ''return {};'' [v] | None \<Rightarrow> ''return;'')
     else if val \<noteq> None \<and> ret_type \<noteq> BcUnit then
       use (in_tmp (type_to_c ret_type) (the val)) (\<lambda>tmp.
       do_all [emit_deferred_calls, c_line (fmt ''return {};'' [tmp])])
     else emit_deferred_calls)"

definition emit_return :: "emitter option \<Rightarrow> action" where
  "emit_return val = reading (\<lambda>cg.
     let fn_ret = fn_return_type cg in
     case val of
       Some em \<Rightarrow> use em (\<lambda>v. emit_deferred_before_return (Some v) fn_ret)
     | None \<Rightarrow>
         if cg_deferred_exprs cg = [] then c_line ''return;''
         else do_all [emit_deferred_calls, c_line ''return;''])"

section \<open>Statements\<close>

text \<open>The types whose constants are declared without a qualifier.\<close>

definition plain_declared :: "bc_type \<Rightarrow> bool" where
  "plain_declared ty =
     (case ty of
        BcStruct _ \<Rightarrow> True | BcEnum _ \<Rightarrow> True | BcArray _ \<Rightarrow> True | BcFixedArray _ _ \<Rightarrow> True
      | BcResult _ _ \<Rightarrow> True | BcMap \<Rightarrow> True | BcMapStrI32 \<Rightarrow> True | BcMapStrI64 \<Rightarrow> True
      | BcMapStrF64 \<Rightarrow> True | BcMapI32Str \<Rightarrow> True | BcMapI32I32 \<Rightarrow> True | _ \<Rightarrow> False)"

definition emit_let :: "string \<Rightarrow> bool \<Rightarrow> bc_type \<Rightarrow> emitter \<Rightarrow> action" where
  "emit_let name is_mut ty em =
     use em (\<lambda>v.
     c_line (fmt (if is_mut \<or> plain_declared ty then ''{} {} = {};'' else ''const {} {} = {};'')
       [type_to_c ty, name, v]))"

text \<open>An accessor of a place is a field or the emitter of an index.\<close>

type_synonym accessor = "string + emitter"

definition indexed_accessor :: "accessor \<Rightarrow> bool" where
  "indexed_accessor acc = (case acc of Inl _ \<Rightarrow> False | Inr _ \<Rightarrow> True)"

fun emit_accessors :: "bc_type \<Rightarrow> bc_type \<Rightarrow> accessor list \<Rightarrow> string \<Rightarrow> emitter" where
  "emit_accessors base_ty stored_ty [] s = give s"
| "emit_accessors base_ty stored_ty (Inl f # accs) s =
     emit_accessors base_ty stored_ty accs (fmt ''{}.{}'' [s, f])"
| "emit_accessors base_ty stored_ty (Inr em # accs) s =
     use em (\<lambda>idx_c.
     let elem_c = type_to_c (c_array_element BcI32 base_ty) in
     use (if \<not> list_ex indexed_accessor accs \<and> \<not> is_arena_safe stored_ty then
            use (materialize_array_expr s) (\<lambda>s.
            do_then (c_line (fmt ''osc_array_check_arena_store(_arena, {});'' [s])) (give s))
          else give s) (\<lambda>s.
     emit_accessors base_ty stored_ty accs (fmt ''(*({}*)osc_array_get({}, {}))'' [elem_c, s, idx_c])))"

text \<open>The name of the variable, its accessors and the cached type of its base.\<close>

type_synonym target = "string \<times> accessor list \<times> bc_type"

definition emit_target :: "target \<Rightarrow> bc_type \<Rightarrow> emitter" where
  "emit_target target stored_ty =
     (case target of (name, accs, base_ty) \<Rightarrow>
        if accs = [] then give name else emit_accessors base_ty stored_ty accs name)"

definition emit_assign :: "target \<Rightarrow> bc_type \<Rightarrow> emitter \<Rightarrow> action" where
  "emit_assign target value_ty em =
     use em (\<lambda>v.
     use (emit_target target value_ty) (\<lambda>target. c_line (fmt ''{} = {};'' [target, v])))"

fun compound_c_op :: "binop \<Rightarrow> string option" where
  "compound_c_op OpAdd = Some ''+=''"
| "compound_c_op OpSub = Some ''-=''"
| "compound_c_op OpMul = Some ''*=''"
| "compound_c_op OpDiv = Some ''/=''"
| "compound_c_op OpMod = Some ''%=''"
| "compound_c_op _ = None"

definition emit_compound_assign :: "target \<Rightarrow> binop \<Rightarrow> bc_type \<Rightarrow> emitter \<Rightarrow> action" where
  "emit_compound_assign target op' value_ty em =
     unwrap (compound_c_op op') (\<lambda>c_op.
     use em (\<lambda>v.
     use (emit_target target value_ty) (\<lambda>target. c_line (fmt ''{} {} {};'' [target, c_op, v]))))"

definition emit_expr_stmt :: "bc_type \<Rightarrow> emitter \<Rightarrow> action" where
  "emit_expr_stmt ty em =
     use em (\<lambda>v.
     if v \<noteq> unit_c then
       (if ty \<noteq> BcUnit then c_line (fmt ''(void)({});'' [v]) else c_line (fmt ''{};'' [v]))
     else do_all [])"

definition emit_while :: "emitter \<Rightarrow> body \<Rightarrow> action" where
  "emit_while condition b =
     do_all
       [c_line ''while (1) {'',
        indented [use condition (\<lambda>cond. c_line (fmt ''if (!({})) break;'' [cond])), run_body b],
        c_line ''}'']"

definition emit_for :: "string \<Rightarrow> emitter \<Rightarrow> emitter \<Rightarrow> body \<Rightarrow> action" where
  "emit_for var start_em end_em b =
     use start_em (\<lambda>start.
     use end_em (\<lambda>stop.
     do_all
       [c_line (fmt ''for (int32_t {} = {}; {} < {}; {}++) {{'' [var, start, var, stop, var]),
        indented [run_body b],
        c_line ''}'']))"

definition emit_for_in :: "string \<Rightarrow> bc_type \<Rightarrow> emitter \<Rightarrow> body \<Rightarrow> action" where
  "emit_for_in var arr_ty iterable b =
     use fresh_tmp (\<lambda>iter_idx.
     use iterable (\<lambda>arr_expr.
     let c_elem_ty = type_to_c (c_array_element BcI32 arr_ty);
         header = (case arr_ty of
           BcFixedArray _ fixed_size \<Rightarrow>
             [c_line (fmt ''for (int32_t {} = 0; {} < {}; {}++) {{''
                [iter_idx, iter_idx, show_int fixed_size, iter_idx]),
              indent_more,
              c_line (fmt ''const {} {} = {}[{}];'' [c_elem_ty, var, arr_expr, iter_idx])]
         | _ \<Rightarrow>
             [c_line (fmt ''for (int32_t {} = 0; {} < {}->len; {}++) {{''
                [iter_idx, iter_idx, arr_expr, iter_idx]),
              indent_more,
              c_line (fmt ''const {} {} = (({}*){}->data)[{}];''
                [c_elem_ty, var, c_elem_ty, arr_expr, iter_idx])]) in
     do_all (header @ [run_body b, indent_less, c_line ''}''])))"

definition emit_defer :: "emitter \<Rightarrow> action" where
  "emit_defer em = use (capture_deferred_expr em) push_deferred"

section \<open>The recursion over the tree\<close>

function emit_expr :: "ir_expr \<Rightarrow> emitter"
and emit_stmt :: "ir_stmt \<Rightarrow> action"
and emit_body :: "ir_block \<Rightarrow> body"
and emit_place :: "ir_place \<Rightarrow> target" where
  "emit_expr (IrIntLit v sp) = emit_at sp (give (show_int v))"
| "emit_expr (IrFloatLit v sp) = emit_at sp (emit_float v)"
| "emit_expr (IrStringLit s sp) = emit_at sp (give (str_literal s))"
| "emit_expr (IrInterpolatedString parts sp) =
     emit_at sp (emit_interpolated_string
       (map (\<lambda>part. case part of IrText s \<Rightarrow> Inl s | IrPart e \<Rightarrow> Inr (ir_ty e, emit_expr e)) parts))"
| "emit_expr (IrBoolLit b sp) = emit_at sp (give (bool_c b))"
| "emit_expr (IrIdent name kind ty sp) = emit_at sp (emit_ident name kind)"
| "emit_expr (IrBinaryOp op' l r ty sp) =
     emit_at sp (emit_binary_op op' (ir_ty l) (emit_expr l) (emit_expr r))"
| "emit_expr (IrUnaryOp op' e ty sp) = emit_at sp (emit_unary_op op' (ir_ty e) (emit_expr e))"
| "emit_expr (IrCast e ty sp) = emit_at sp (use (emit_expr e) (\<lambda>v. give (emit_cast v (ir_ty e) ty)))"
| "emit_expr (IrCall c args ty sp) = emit_at sp (emit_call c (map (\<lambda>a. (ir_ty a, emit_expr a)) args))"
| "emit_expr (IrFieldAccess e f ty sp) =
     emit_at sp (use (emit_expr e) (\<lambda>obj_c. give (fmt ''{}.{}'' [obj_c, f])))"
| "emit_expr (IrIndex e i ty sp) = emit_at sp (emit_index (ir_ty e) (emit_expr e) (emit_expr i))"
| "emit_expr (IrBlockExpr block) =
     emit_at (ir_block_span block) (emit_block_expr (emit_body block) (ir_block_ty block))"
| "emit_expr (IrIf c block els ty sp) =
     emit_at sp (emit_if (emit_expr c) (emit_body block) (map_option (\<lambda>e. emit_expr e) els) ty)"
| "emit_expr (IrMatch scrut arms ty sp) =
     emit_at sp (emit_match (emit_expr scrut) (ir_ty scrut)
       (map (\<lambda>arm. case arm of IrArm pat e _ \<Rightarrow> (pat, emit_expr e)) arms) ty)"
| "emit_expr (IrTry e ty sp) = emit_at sp (emit_try (emit_expr e) (ir_ty e))"
| "emit_expr (IrArrayLit es elem_ty ty sp) =
     emit_at sp (emit_array_lit elem_ty (map (\<lambda>e. emit_expr e) es))"
| "emit_expr (IrStructLit name inits sp) =
     emit_at sp (emit_struct_lit name (map (\<lambda>fi. case fi of IrInit f e _ \<Rightarrow> (f, emit_expr e)) inits))"
| "emit_expr (IrEnumConstructor en v args ty sp) =
     emit_at sp (emit_enum_constructor en v ty (map (\<lambda>a. (ir_ty a, emit_expr a)) args))"
| "emit_expr (IrArena block sp) = emit_at sp (emit_arena (emit_body block) (ir_block_ty block))"
| "emit_stmt (IrLet name m ty e sp) = act_at sp (emit_let name m ty (emit_expr e))"
| "emit_stmt (IrAssign place e sp) = act_at sp (emit_assign (emit_place place) (ir_ty e) (emit_expr e))"
| "emit_stmt (IrCompoundAssign place op' e sp) =
     act_at sp (emit_compound_assign (emit_place place) op' (ir_ty e) (emit_expr e))"
| "emit_stmt (IrExpr e sp) = act_at sp (emit_expr_stmt (ir_ty e) (emit_expr e))"
| "emit_stmt (IrWhile c body sp) = act_at sp (emit_while (emit_expr c) (emit_body body))"
| "emit_stmt (IrFor var a b body sp) =
     act_at sp (emit_for var (emit_expr a) (emit_expr b) (emit_body body))"
| "emit_stmt (IrForIn var it body sp) =
     act_at sp (emit_for_in var (ir_ty it) (emit_expr it) (emit_body body))"
| "emit_stmt (IrReturn val sp) = act_at sp (emit_return (map_option (\<lambda>e. emit_expr e) val))"
| "emit_stmt (IrDefer e sp) = act_at sp (emit_defer (emit_expr e))"
| "emit_stmt (IrBreak sp) = act_at sp (c_line ''break;'')"
| "emit_stmt (IrContinue sp) = act_at sp (c_line ''continue;'')"
| "emit_body (IrBlock stmts tail sp) =
     (map (\<lambda>s. emit_stmt s) stmts, map_option (\<lambda>e. (ir_span e, emit_expr e)) tail)"
| "emit_place (IrPlace name accs base_ty sp) =
     (name, map (\<lambda>acc. case acc of IrField f \<Rightarrow> Inl f | IrIndexed e \<Rightarrow> Inr (emit_expr e)) accs, base_ty)"
  by pat_completeness auto
termination by lexicographic_order

section \<open>Constants\<close>

text \<open>\<open>str::parse::<i64>\<close>: a sign, then digits, in range.\<close>

definition i64_range :: "int \<Rightarrow> bool" where
  "i64_range i \<longleftrightarrow> - 9223372036854775808 \<le> i \<and> i \<le> 9223372036854775807"

definition parse_i64_text :: "string \<Rightarrow> int option" where
  "parse_i64_text s =
     (let negative = (case s of c # _ \<Rightarrow> c = CHR ''-'' | [] \<Rightarrow> False);
          signed = (case s of c # _ \<Rightarrow> c = CHR ''-'' \<or> c = CHR ''+'' | [] \<Rightarrow> False);
          digits = ustr (if signed then tl s else s);
          v = (if negative then - int (digits_value 0 digits) else int (digits_value 0 digits)) in
      if digits \<noteq> [] \<and> list_all is_ascii_digit digits \<and> i64_range v then Some v else None)"

definition checked_i64 :: "int \<Rightarrow> string option" where
  "checked_i64 i = (if i64_range i then Some (show_int i) else None)"

text \<open>
  Division of \<open>i64\<close>: towards zero, and a panic when the quotient overflows, for the remainder
  as well. \<open>abs\<close> and \<open>sgn\<close> are those of the integers.
\<close>

definition divide_i64 :: "bool \<Rightarrow> int \<Rightarrow> int \<Rightarrow> failure + string option" where
  "divide_i64 remainder lv rv =
     (if rv = 0 then Inr None
      else if lv = - 9223372036854775808 \<and> rv = - 1 then Inl Panicked
      else
        (let q = sgn lv * sgn rv * (\<bar>lv\<bar> div \<bar>rv\<bar>) in
         Inr (Some (show_int (if remainder then lv - q * rv else q)))))"

definition const_binary :: "binop \<Rightarrow> int \<Rightarrow> int \<Rightarrow> failure + string option" where
  "const_binary op' lv rv =
     (case op' of
        OpAdd \<Rightarrow> Inr (checked_i64 (lv + rv))
      | OpSub \<Rightarrow> Inr (checked_i64 (lv - rv))
      | OpMul \<Rightarrow> Inr (checked_i64 (lv * rv))
      | OpDiv \<Rightarrow> divide_i64 False lv rv
      | OpMod \<Rightarrow> divide_i64 True lv rv
      | _ \<Rightarrow> Inr None)"

definition with_i64 :: "string option \<Rightarrow> (int \<Rightarrow> failure + string option) \<Rightarrow> failure + string option" where
  "with_i64 v k = (case Option.bind v parse_i64_text of Some i \<Rightarrow> k i | None \<Rightarrow> Inr None)"

definition unfolded_consts :: "ir_program \<Rightarrow> string list \<Rightarrow> nat" where
  "unfolded_consts p stack = length (filter (\<lambda>c. icd_name c \<notin> set stack) (ip_const_defs p))"

lemma unfolded_consts_less:
  "find (\<lambda>c. icd_name c = name) (ip_const_defs p) = Some c \<Longrightarrow> name \<notin> set stack \<Longrightarrow>
     unfolded_consts p (stack @ [name]) < unfolded_consts p stack"
proof -
  assume "find (\<lambda>c. icd_name c = name) (ip_const_defs p) = Some c" "name \<notin> set stack"
  then have "c \<in> set (filter (\<lambda>c. icd_name c \<notin> set stack) (ip_const_defs p))" "icd_name c = name"
    by (auto simp: find_Some_iff)
  from length_filter_less [of _ _ "\<lambda>c. icd_name c \<noteq> name", OF this(1)] this(2)
  show ?thesis by (simp add: unfolded_consts_def conj_commute)
qed

text \<open>The names of the constants that are being unfolded are on the stack.\<close>

function try_const_eval :: "(f64 \<Rightarrow> string) \<Rightarrow> ir_program \<Rightarrow> ir_expr \<Rightarrow> string list \<Rightarrow> failure + string option" where
  "try_const_eval dbg p ex stack =
     (case ex of
        IrIntLit v _ \<Rightarrow> Inr (Some (show_int v))
      | IrFloatLit v _ \<Rightarrow> Inr (Some (dbg v))
      | IrBoolLit b _ \<Rightarrow> Inr (Some (bool_c b))
      | IrIdent name kind _ _ \<Rightarrow>
          if kind = IkFnRef \<or> name \<in> set stack then Inr None
          else
            (case find (\<lambda>c. icd_name c = name) (ip_const_defs p) of
               Some c \<Rightarrow> try_const_eval dbg p (icd_value c) (stack @ [name])
             | None \<Rightarrow> Inr None)
      | IrBinaryOp op' l r _ _ \<Rightarrow>
          and_then (try_const_eval dbg p l stack) (\<lambda>lt.
          if lt = None then Inr None
          else
            and_then (try_const_eval dbg p r stack) (\<lambda>rt.
            with_i64 lt (\<lambda>lv. with_i64 rt (\<lambda>rv. const_binary op' lv rv))))
      | IrUnaryOp op' e _ _ \<Rightarrow>
          if op' = OpNeg then
            and_then (try_const_eval dbg p e stack) (\<lambda>v.
            with_i64 v (\<lambda>i. Inr (checked_i64 (- i))))
          else Inr None
      | _ \<Rightarrow> Inr None)"
  by pat_completeness auto
termination
  by (relation "measures [\<lambda>(_, p, _, stack). unfolded_consts p stack, \<lambda>(_, _, e, _). size e]")
    (auto dest: unfolded_consts_less)

declare try_const_eval.simps [simp del]

definition emit_constant :: "ir_program \<Rightarrow> ir_const_def \<Rightarrow> action" where
  "emit_constant p c =
     (let c_ty = type_to_c (icd_ty c) in
      case icd_value c of
        IrStringLit s _ \<Rightarrow>
          c_line (fmt ''static const osc_str {} = {{ {}, {} }};''
            [icd_name c, quoted (escape_c_string s), show_nat (length (as_bytes s))])
      | e \<Rightarrow> reading (\<lambda>cg0 cg.
          and_then (try_const_eval (cg_debug_f64 cg0) p e []) (\<lambda>folded.
          (case folded of
             Some const_val \<Rightarrow> c_line (fmt ''static const {} {} = {};'' [c_ty, icd_name c, const_val])
           | None \<Rightarrow> use (emit_expr e) (\<lambda>v. c_line (fmt ''static const {} {} = {};'' [c_ty, icd_name c, v]))) cg)))"

definition emit_top_level_constants :: "ir_program \<Rightarrow> action" where
  "emit_top_level_constants p = do_all [do_all (map (emit_constant p) (ip_const_defs p)), blank]"

section \<open>Functions and the program\<close>

definition set_return_type :: "bc_type option \<Rightarrow> action" where
  "set_return_type ty cg = Inr (cg\<lparr>cg_current_fn_return_type := ty\<rparr>)"

definition set_deferred :: "string list \<Rightarrow> action" where
  "set_deferred codes cg = Inr (cg\<lparr>cg_deferred_exprs := codes\<rparr>)"

definition emit_fn_end :: "bool \<Rightarrow> string \<Rightarrow> bc_type \<Rightarrow> action" where
  "emit_fn_end has_tail body_val fn_ret =
     (if has_tail then
        (if fn_ret \<noteq> BcUnit then emit_deferred_before_return (Some body_val) fn_ret
         else do_all [discard body_val, emit_deferred_calls])
      else emit_deferred_calls)"

definition emit_function :: "ir_fn_def \<Rightarrow> action" where
  "emit_function f = reading (\<lambda>cg.
     let name = (if ifd_name f = ''main'' then ''oscan_main'' else mangle_c_name (ifd_name f)) in
     case emit_body (ifd_body f) of (stmts, tail) \<Rightarrow>
     do_all
       [go_to_span (ifd_span f),
        set_return_type (Some (ifd_return_type f)),
        set_deferred [],
        c_line (fmt ''{} {}({}) {{'' [type_to_c (ifd_return_type f), name, fn_params_c f]),
        indented
          [use (emit_block_body (stmts, tail)) (\<lambda>body_val. do_all
            [(case tail of Some (sp, _) \<Rightarrow> go_to_span sp | None \<Rightarrow> do_all []),
             emit_fn_end (tail \<noteq> None) body_val (ifd_return_type f)])],
        c_line ''}'',
        blank,
        set_return_type None,
        set_deferred (cg_deferred_exprs cg),
        set_source (cg_current_source cg)])"

definition run_main :: "function_info option \<Rightarrow> action" where
  "run_main fi =
     (case map_option fi_return_type fi of
        Some (BcResult ok err) \<Rightarrow>
          do_all
            [c_line (fmt ''{} _result = oscan_main(_arena);'' [type_to_c (BcResult ok err)]),
             c_line ''osc_arena_destroy(_arena);'',
             c_line ''if (!_result.is_ok) {'',
             indented [c_line ''return 1;''],
             c_line ''}'',
             c_line ''return 0;'']
      | _ \<Rightarrow>
          do_all
            [c_line ''oscan_main(_arena);'',
             c_line ''osc_arena_destroy(_arena);'',
             c_line ''return 0;''])"

definition emit_main_wrapper :: action where
  "emit_main_wrapper = reading (\<lambda>cg.
     do_all
       [set_source None,
        c_line ''int main(int argc, char *argv[]) {'',
        indented
          [c_line ''osc_global_argc = argc;'',
           c_line ''osc_global_argv = argv;'',
           (if \<not> cg_freestanding cg then do_all []
            else if cg_embed_runtime cg then
              do_all
                [c_line ''#ifdef OSC_FREESTANDING'',
                 c_line ''l_getenv_init(argc, argv);'',
                 c_line ''#endif'']
            else c_line ''osc_freestanding_env_init(argc, argv);''),
           c_line ''osc_arena* _arena = osc_arena_create(1048576);'',
           c_line ''osc_global_arena = _arena;'',
           run_main (cg_functions cg ''main'')],
        c_line ''}''])"

text \<open>What the driver chooses: the mode of the runtime, the debug level, the map of the source.\<close>

record c_options =
  co_freestanding :: bool
  co_embed_runtime :: bool
  co_debug_info :: debug_info
  co_windows :: bool
  co_show_f64 :: "f64 \<Rightarrow> string"
  co_debug_f64 :: "f64 \<Rightarrow> string"

definition generator_new :: "c_options \<Rightarrow> source_map \<Rightarrow> ir_program \<Rightarrow> code_generator" where
  "generator_new opts m p =
     \<lparr>cg_out = [], cg_indent = 0, cg_temp_counter = 0, cg_enums = ip_enums p, cg_functions = ip_functions p,
      cg_current_fn_return_type = None, cg_deferred_exprs = [], cg_result_types = [], cg_fn_ptr_types = [],
      cg_freestanding = co_freestanding opts, cg_embed_runtime = co_embed_runtime opts,
      cg_debug_info = co_debug_info opts, cg_source_map = m, cg_current_source = None,
      cg_windows = co_windows opts, cg_show_f64 = co_show_f64 opts, cg_debug_f64 = co_debug_f64 opts\<rparr>"

definition collect_types :: "function_info list \<Rightarrow> ir_program \<Rightarrow> action" where
  "collect_types fns p =
     unwrap (collect_fn_ptr_types fns p) (\<lambda>fn_ptr_types cg.
       Inr (cg\<lparr>cg_result_types := collect_result_types fns p, cg_fn_ptr_types := fn_ptr_types\<rparr>))"

definition generate_with_runtime ::
  "function_info list \<Rightarrow> c_options \<Rightarrow> source_map \<Rightarrow> ir_program \<Rightarrow> failure + string" where
  "generate_with_runtime fns opts m p =
     and_then
       (do_all
         [collect_types fns p,
          emit_includes,
          emit_type_declarations p,
          emit_forward_decls p,
          emit_top_level_constants p,
          do_all (map emit_function (ip_fn_defs p)),
          emit_main_wrapper] (generator_new opts m p))
       (\<lambda>cg. Inr (cg_out cg))"

end
