(* ===== verification/CFrame.thy ===== *)
theory CFrame
  imports CGenerate
begin

text \<open>
  What emission does to the generator: it appends text, takes new names for temporaries and, in
  statements, adds deferred calls; the indentation and the position in the source are restored
  and the tables stay. \<open>emits\<close> is the contract of an emitter and \<open>acts\<close> the one of an action.
  The mode says whether the operation may panic: with \<open>None\<close> the contract is about the runs that
  return; with \<open>Some enums\<close> it promises that the operation returns when the generator has these
  enums and its positions lie in files of the source map.
\<close>

section \<open>The contract\<close>

definition appends :: "code_generator \<Rightarrow> code_generator \<Rightarrow> bool" where
  "appends cg cg' \<longleftrightarrow>
     (\<exists>s k ds. cg' = cg\<lparr>cg_out := cg_out cg @ s, cg_temp_counter := cg_temp_counter cg + k,
        cg_deferred_exprs := cg_deferred_exprs cg @ ds\<rparr>)"

lemma appends_refl [simp]: "appends cg cg"
  unfolding appends_def by (rule exI [of _ "[]"], rule exI [of _ 0], rule exI [of _ "[]"]) simp

lemma appendsI: "cg' = cg\<lparr>cg_out := cg_out cg @ s, cg_temp_counter := cg_temp_counter cg + k,
    cg_deferred_exprs := cg_deferred_exprs cg @ ds\<rparr> \<Longrightarrow> appends cg cg'"
  unfolding appends_def by blast

lemma appends_trans: "appends a b \<Longrightarrow> appends b c \<Longrightarrow> appends a c"
proof -
  assume "appends a b" "appends b c"
  then obtain t k ds t' k' ds' where
    "b = a\<lparr>cg_out := cg_out a @ t, cg_temp_counter := cg_temp_counter a + k,
        cg_deferred_exprs := cg_deferred_exprs a @ ds\<rparr>"
    "c = b\<lparr>cg_out := cg_out b @ t', cg_temp_counter := cg_temp_counter b + k',
        cg_deferred_exprs := cg_deferred_exprs b @ ds'\<rparr>"
    unfolding appends_def by blast
  then show ?thesis by (intro appendsI [where s = "t @ t'" and k = "k + k'" and ds = "ds @ ds'"]) simp
qed

definition files_known :: "source_map \<Rightarrow> bool" where
  "files_known m \<longleftrightarrow> (\<forall>sp loc. location m sp = Some loc \<longrightarrow> loc_file loc < length (sm_files m))"

type_synonym mode = "(string \<rightharpoonup> enum_info) option"

definition suited :: "mode \<Rightarrow> code_generator \<Rightarrow> bool" where
  "suited s cg \<longleftrightarrow>
     (\<forall>enums. s = Some enums \<longrightarrow>
        cg_enums cg = enums \<and> files_known (cg_source_map cg) \<and>
        (\<forall>loc. cg_current_source cg = Some loc \<longrightarrow> loc_file loc < length (sm_files (cg_source_map cg))))"

lemma suited_appends: "suited s cg \<Longrightarrow> appends cg cg' \<Longrightarrow> suited s cg'"
  by (auto simp: suited_def appends_def)

lemma suited_fields [simp]:
  "suited s (cg\<lparr>cg_out := out\<rparr>) = suited s cg"
  "suited s (cg\<lparr>cg_indent := n\<rparr>) = suited s cg"
  "suited s (cg\<lparr>cg_temp_counter := k\<rparr>) = suited s cg"
  "suited s (cg\<lparr>cg_deferred_exprs := ds\<rparr>) = suited s cg"
  "suited s (cg\<lparr>cg_current_fn_return_type := ty\<rparr>) = suited s cg"
  "suited s (cg\<lparr>cg_result_types := rs\<rparr>) = suited s cg"
  "suited s (cg\<lparr>cg_fn_ptr_types := fs\<rparr>) = suited s cg"
  by (simp_all add: suited_def)

definition emits_to :: "mode \<Rightarrow> ('v \<Rightarrow> bool) \<Rightarrow> (code_generator \<Rightarrow> failure + ('v \<times> code_generator)) \<Rightarrow> bool" where
  "emits_to s Q m \<longleftrightarrow>
     (\<forall>cg. suited s cg \<longrightarrow>
        (case m cg of Inl _ \<Rightarrow> s = None | Inr (v, cg') \<Rightarrow> appends cg cg' \<and> Q v))"

abbreviation emits :: "mode \<Rightarrow> (code_generator \<Rightarrow> failure + ('v \<times> code_generator)) \<Rightarrow> bool" where
  "emits s m \<equiv> emits_to s (\<lambda>_. True) m"

definition acts :: "mode \<Rightarrow> action \<Rightarrow> bool" where
  "acts s a \<longleftrightarrow>
     (\<forall>cg. suited s cg \<longrightarrow> (case a cg of Inl _ \<Rightarrow> s = None | Inr cg' \<Rightarrow> appends cg cg'))"

named_theorems emit_intros \<open>the contract of each operation\<close>

lemma actsD: "acts s a \<Longrightarrow> suited s cg \<Longrightarrow> a cg = Inr cg' \<Longrightarrow> appends cg cg'"
  by (auto simp: acts_def split: sum.splits)

lemma emitsD: "emits_to s Q m \<Longrightarrow> suited s cg \<Longrightarrow> m cg = Inr (v, cg') \<Longrightarrow> appends cg cg' \<and> Q v"
  by (auto simp: emits_to_def split: sum.splits)

lemma actsI:
  "(\<And>cg e. suited s cg \<Longrightarrow> a cg = Inl e \<Longrightarrow> s = None) \<Longrightarrow>
     (\<And>cg cg'. suited s cg \<Longrightarrow> a cg = Inr cg' \<Longrightarrow> appends cg cg') \<Longrightarrow> acts s a"
  by (auto simp: acts_def split: sum.splits)

lemma emitsI:
  "(\<And>cg e. suited s cg \<Longrightarrow> m cg = Inl e \<Longrightarrow> s = None) \<Longrightarrow>
     (\<And>cg v cg'. suited s cg \<Longrightarrow> m cg = Inr (v, cg') \<Longrightarrow> appends cg cg' \<and> Q v) \<Longrightarrow> emits_to s Q m"
  by (auto simp: emits_to_def split: sum.splits)

lemma acts_Inl: "acts s a \<Longrightarrow> suited s cg \<Longrightarrow> a cg = Inl e \<Longrightarrow> s = None"
  by (auto simp: acts_def split: sum.splits)

lemma emits_Inl: "emits_to s Q m \<Longrightarrow> suited s cg \<Longrightarrow> m cg = Inl e \<Longrightarrow> s = None"
  by (auto simp: emits_to_def split: sum.splits)

section \<open>The combinators keep the contract\<close>

lemma emits_give [emit_intros]: "Q v \<Longrightarrow> emits_to s Q (give v)"
  by (simp add: emits_to_def give_def)

lemma emits_panic [emit_intros]: "s = None \<Longrightarrow> emits_to s Q panic" and acts_panic [emit_intros]: "s = None \<Longrightarrow> acts s panic"
  by (simp_all add: emits_to_def acts_def panic_def)

lemma emits_use_post:
  assumes m: "emits_to s P m" and k: "\<And>v. P v \<Longrightarrow> emits_to s Q (k v)"
  shows "emits_to s Q (use m k)"
  unfolding emits_to_def
proof (intro allI impI)
  fix cg assume cg: "suited s cg"
  show "case use m k cg of Inl _ \<Rightarrow> s = None | Inr (v, cg') \<Rightarrow> appends cg cg' \<and> Q v"
  proof (cases "m cg")
    case (Inl e)
    with emits_Inl [OF m cg] show ?thesis by (simp add: use_def)
  next
    case (Inr r)
    then obtain v cg1 where run: "m cg = Inr (v, cg1)" by (cases r) simp
    from emitsD [OF m cg run] have one: "appends cg cg1" "P v" by auto
    with k suited_appends [OF cg] have "case k v cg1 of Inl _ \<Rightarrow> s = None | Inr (w, cg') \<Rightarrow> appends cg1 cg' \<and> Q w"
      by (simp add: emits_to_def)
    with run appends_trans [OF one(1)] show ?thesis by (auto simp: use_def split: sum.splits)
  qed
qed

lemma acts_use_post:
  assumes m: "emits_to s P m" and k: "\<And>v. P v \<Longrightarrow> acts s (k v)"
  shows "acts s (use m k)"
  unfolding acts_def
proof (intro allI impI)
  fix cg assume cg: "suited s cg"
  show "case use m k cg of Inl _ \<Rightarrow> s = None | Inr cg' \<Rightarrow> appends cg cg'"
  proof (cases "m cg")
    case (Inl e)
    with emits_Inl [OF m cg] show ?thesis by (simp add: use_def)
  next
    case (Inr r)
    then obtain v cg1 where run: "m cg = Inr (v, cg1)" by (cases r) simp
    from emitsD [OF m cg run] have one: "appends cg cg1" "P v" by auto
    with k suited_appends [OF cg] have "case k v cg1 of Inl _ \<Rightarrow> s = None | Inr cg' \<Rightarrow> appends cg1 cg'"
      by (simp add: acts_def)
    with run appends_trans [OF one(1)] show ?thesis by (auto simp: use_def split: sum.splits)
  qed
qed

text \<open>An action is an emitter of nothing.\<close>

definition quiet :: "action \<Rightarrow> code_generator \<Rightarrow> failure + (unit \<times> code_generator)" where
  "quiet a cg = and_then (a cg) (\<lambda>cg. Inr ((), cg))"

lemma quiet_iff: "emits s (quiet a) \<longleftrightarrow> acts s a"
  by (auto simp: emits_to_def acts_def quiet_def and_then_def split: sum.splits)

lemma do_then_use: "do_then a m = use (quiet a) (\<lambda>_. m)"
  by (rule ext) (simp add: do_then_def use_def quiet_def and_then_assoc)

lemma emits_use [emit_intros]: "emits s m \<Longrightarrow> (\<And>v. emits_to s Q (k v)) \<Longrightarrow> emits_to s Q (use m k)"
  by (rule emits_use_post [where P = "\<lambda>_. True"]) auto

lemma acts_use [emit_intros]: "emits s m \<Longrightarrow> (\<And>v. acts s (k v)) \<Longrightarrow> acts s (use m k)"
  by (rule acts_use_post [where P = "\<lambda>_. True"]) auto

lemma emits_do_then [emit_intros]: "acts s a \<Longrightarrow> emits_to s Q m \<Longrightarrow> emits_to s Q (do_then a m)"
  unfolding do_then_use by (rule emits_use) (simp_all add: quiet_iff)

lemma acts_do_then [emit_intros]: "acts s a \<Longrightarrow> acts s b \<Longrightarrow> acts s (do_then a b)"
  unfolding do_then_use by (rule acts_use) (simp_all add: quiet_iff)

lemma emits_unwrap [emit_intros]:
  "(\<And>enums. s = Some enums \<Longrightarrow> x \<noteq> None) \<Longrightarrow> (\<And>v. x = Some v \<Longrightarrow> emits_to s Q (k v)) \<Longrightarrow> emits_to s Q (unwrap x k)"
  by (cases x; cases s) (auto simp: emits_to_def unwrap_def)

lemma acts_unwrap [emit_intros]:
  "(\<And>enums. s = Some enums \<Longrightarrow> x \<noteq> None) \<Longrightarrow> (\<And>v. x = Some v \<Longrightarrow> acts s (k v)) \<Longrightarrow> acts s (unwrap x k)"
  by (cases x; cases s) (auto simp: acts_def unwrap_def)

lemma emits_reading [emit_intros]: "(\<And>cg. suited s cg \<Longrightarrow> emits_to s Q (f cg)) \<Longrightarrow> emits_to s Q (reading f)"
  by (auto simp: emits_to_def reading_def)

lemma acts_reading [emit_intros]: "(\<And>cg. suited s cg \<Longrightarrow> acts s (f cg)) \<Longrightarrow> acts s (reading f)"
  by (auto simp: acts_def reading_def)

lemma acts_do_all [emit_intros]: "(\<And>a. a \<in> set as \<Longrightarrow> acts s a) \<Longrightarrow> acts s (do_all as)"
proof (induction as)
  case Nil
  then show ?case by (simp add: acts_def)
next
  case (Cons a as)
  then have "acts s a" "acts s (do_all as)" by auto
  then have "acts s (do_then a (do_all as))" by (rule acts_do_then)
  moreover have "do_then a (do_all as) = do_all (a # as)" by (simp add: do_then_def fun_eq_iff)
  ultimately show ?case by (simp only:)
qed

lemma do_all_append: "do_all (as @ bs) cg = and_then (do_all as cg) (do_all bs)"
  by (induction as arbitrary: cg) (simp_all add: and_then_assoc cong: and_then_cong)

section \<open>Output\<close>

lemma acts_push_out [emit_intros]: "acts s (push_out t)"
  by (rule actsI) (auto simp: push_out_def intro!: appendsI [where s = t and k = 0 and ds = "[]"])

lemma emits_fresh_tmp [emit_intros]: "emits s fresh_tmp"
  by (rule emitsI) (auto simp: fresh_tmp_def intro!: appendsI [where s = "[]" and k = 1 and ds = "[]"])

lemma acts_push_deferred [emit_intros]: "acts s (push_deferred c)"
  by (rule actsI) (auto simp: push_deferred_def intro!: appendsI [where s = "[]" and k = 0 and ds = "[c]"])

lemma acts_line_directive [emit_intros]: "acts s line_directive"
  unfolding line_directive_def
  by (rule acts_reading) (auto intro!: emit_intros simp: suited_def file_path_def split: option.splits)

lemma acts_line [emit_intros]: "acts s (c_line t)"
  unfolding c_line_def by (auto intro!: emit_intros)

lemma acts_discard [emit_intros]: "acts s (discard v)"
  unfolding discard_def by (auto intro!: emit_intros)

lemma emits_materialize [emit_intros]: "emits s (materialize_array_expr e)"
  unfolding materialize_array_expr_def by (auto intro!: emit_intros)

lemma emits_in_tmp [emit_intros]: "emits s (in_tmp ty v)"
  unfolding in_tmp_def by (auto intro!: emit_intros)

text \<open>What is run with more indentation returns to the one before.\<close>

lemma acts_indented [emit_intros]:
  assumes "\<And>a. a \<in> set as \<Longrightarrow> acts s a"
  shows "acts s (indented as)"
proof (rule actsI)
  have as: "acts s (do_all as)" using assms by (rule acts_do_all)
  have within: "appends cg cg1 \<and> cg_indent cg1 = cg_indent cg"
    if "suited s cg" "do_all as cg = Inr cg1" for cg cg1
    using actsD [OF as that] by (auto simp: appends_def)
  show "s = None" if "suited s cg" "indented as cg = Inl e" for cg e
  proof (cases "do_all as (cg\<lparr>cg_indent := cg_indent cg + 1\<rparr>)")
    case (Inl e')
    with acts_Inl [OF as _ Inl] that(1) show ?thesis by simp
  next
    case (Inr cg1)
    with within [OF _ Inr] that show ?thesis
      by (simp add: indented_def indent_more_def indent_less_def do_all_append)
  qed
  show "appends cg cg'" if "suited s cg" "indented as cg = Inr cg'" for cg cg'
  proof -
    from that(2) obtain cg1 where cg1: "do_all as (cg\<lparr>cg_indent := cg_indent cg + 1\<rparr>) = Inr cg1"
      "cg' = cg1\<lparr>cg_indent := cg_indent cg1 - 1\<rparr>"
      by (auto simp: indented_def indent_more_def indent_less_def do_all_append and_then_eq_Inr split: if_splits)
    with within [OF _ cg1(1)] that(1) obtain t k ds where
      "cg' = cg\<lparr>cg_out := cg_out cg @ t, cg_temp_counter := cg_temp_counter cg + k,
        cg_deferred_exprs := cg_deferred_exprs cg @ ds\<rparr>"
      by (auto simp: appends_def)
    then show ?thesis by (rule appendsI)
  qed
qed

lemma emits_emit_at [emit_intros]: "emits_to s Q m \<Longrightarrow> emits_to s Q (emit_at sp m)"
proof (rule emitsI)
  assume m: "emits_to s Q m"
  let ?at = "\<lambda>cg. cg\<lparr>cg_current_source := location (cg_source_map cg) sp\<rparr>"
  have at: "suited s cg \<Longrightarrow> suited s (?at cg)" for cg
    by (auto simp: suited_def files_known_def)
  show "s = None" if "suited s cg" "emit_at sp m cg = Inl e" for cg e
    using that emits_Inl [OF m at]
    by (auto simp: emit_at_def reading_def do_then_def use_def give_def set_source_def and_then_eq_Inl)
  show "appends cg cg' \<and> Q v" if "suited s cg" "emit_at sp m cg = Inr (v, cg')" for cg v cg'
    using that emitsD [OF m at]
    by (fastforce simp: emit_at_def reading_def do_then_def use_def give_def set_source_def and_then_eq_Inr
      appends_def)
qed

lemma acts_act_at [emit_intros]: "acts s a \<Longrightarrow> acts s (act_at sp a)"
proof (rule actsI)
  assume a: "acts s a"
  let ?at = "\<lambda>cg. cg\<lparr>cg_current_source := location (cg_source_map cg) sp\<rparr>"
  have at: "suited s cg \<Longrightarrow> suited s (?at cg)" for cg
    by (auto simp: suited_def files_known_def)
  show "s = None" if "suited s cg" "act_at sp a cg = Inl e" for cg e
    using that acts_Inl [OF a at] by (auto simp: act_at_def reading_def set_source_def and_then_eq_Inl)
  show "appends cg cg'" if "suited s cg" "act_at sp a cg = Inr cg'" for cg cg'
    using that actsD [OF a at]
    by (fastforce simp: act_at_def reading_def set_source_def and_then_eq_Inr appends_def)
qed

text \<open>The text of a deferred expression is taken out of the output again.\<close>

lemma emits_capture [emit_intros]: "emits s m \<Longrightarrow> emits s (capture_deferred_expr m)"
proof (rule emitsI)
  assume m: "emits s m"
  show "s = None" if "suited s cg" "capture_deferred_expr m cg = Inl e" for cg e
  proof (cases "m (cg\<lparr>cg_out := []\<rparr>)")
    case (Inl e')
    with emits_Inl [OF m _ Inl] that(1) show ?thesis by simp
  next
    case (Inr r)
    then obtain w cg1 where run: "m (cg\<lparr>cg_out := []\<rparr>) = Inr (w, cg1)" by (cases r) simp
    from emitsD [OF m _ run] that(1) have "suited s cg1"
      using suited_appends [of s "cg\<lparr>cg_out := []\<rparr>"] by simp
    moreover from that(2) run obtain e' where "discard w cg1 = Inl e'"
      by (auto simp: capture_deferred_expr_def use_def do_then_def Let_def and_then_eq_Inl)
    ultimately show ?thesis by (rule acts_Inl [OF acts_discard])
  qed
  show "appends cg cg' \<and> True" if "suited s cg" "capture_deferred_expr m cg = Inr (v, cg')" for cg v cg'
  proof -
    from that(2) obtain w cg1 cg2 where run: "m (cg\<lparr>cg_out := []\<rparr>) = Inr (w, cg1)"
      "discard w cg1 = Inr cg2" "cg' = cg2\<lparr>cg_out := cg_out cg\<rparr>"
      by (auto simp: capture_deferred_expr_def use_def do_then_def Let_def and_then_eq_Inr)
    from that(1) run(1) m have one: "appends (cg\<lparr>cg_out := []\<rparr>) cg1" using emitsD by fastforce
    with that(1) have "suited s cg1" using suited_appends [of s "cg\<lparr>cg_out := []\<rparr>"] by simp
    from appends_trans [OF one actsD [OF acts_discard this run(2)]] run(3)
    obtain t k ds where "cg2 = cg\<lparr>cg_out := t, cg_temp_counter := cg_temp_counter cg + k,
        cg_deferred_exprs := cg_deferred_exprs cg @ ds\<rparr>"
      by (auto simp: appends_def)
    with run(3) show ?thesis
      by (auto intro!: appendsI [where s = "[]" and k = k and ds = ds])
  qed
qed

end
