(* ===== verification/Verify.thy ===== *)
theory Verify
  imports IR
begin

text \<open>The verifier of \<open>src/src/ir.rs\<close>.\<close>

datatype ir_fault =
    UndefinedStructRef string
  | UndefinedEnumRef string
  | StrayBreak
  | StrayContinue
  | BinaryOpCached binop bc_type bc_type
  | UnaryOpCached unop bc_type bc_type
  | CallArguments string nat nat
  | IfBranches bc_type bc_type
  | IfWithoutElseCached bc_type
  | MatchArmCached bc_type bc_type
  | TryPayload bc_type bc_type
  | TryNonResult bc_type
  | ElementCached bc_type bc_type
  | ArrayCached bc_type bc_type
  | FixedArrayCached bc_type int bc_type
  | FixedSizeCached int nat
  | NonArrayCached bc_type

text \<open>An error with the declaration that it is found in.\<close>

type_synonym ir_error = "string \<times> ir_fault"

fun verify_type :: "ir_program \<Rightarrow> string \<Rightarrow> bc_type \<Rightarrow> ir_error list" where
  "verify_type p ctx (BcStruct name) =
     (if ip_structs p name = None then [(ctx, UndefinedStructRef name)] else [])"
| "verify_type p ctx (BcEnum name) =
     (if ip_enums p name = None then [(ctx, UndefinedEnumRef name)] else [])"
| "verify_type p ctx (BcArray e) = verify_type p ctx e"
| "verify_type p ctx (BcFixedArray e _) = verify_type p ctx e"
| "verify_type p ctx (BcResult ok err) = verify_type p ctx ok @ verify_type p ctx err"
| "verify_type p ctx (BcFnPtr params ret _) =
     concat (map (verify_type p ctx) params) @ verify_type p ctx ret"
| "verify_type p ctx _ = []"

section \<open>The checks of one node\<close>

fun binary_cached :: "binop \<Rightarrow> bc_type \<Rightarrow> bc_type" where
  "binary_cached OpEq _ = BcBool"
| "binary_cached OpNeq _ = BcBool"
| "binary_cached OpLt _ = BcBool"
| "binary_cached OpGt _ = BcBool"
| "binary_cached OpLtEq _ = BcBool"
| "binary_cached OpGtEq _ = BcBool"
| "binary_cached OpAnd _ = BcBool"
| "binary_cached OpOr _ = BcBool"
| "binary_cached _ left_ty = left_ty"

fun unary_cached :: "unop \<Rightarrow> bc_type \<Rightarrow> bc_type" where
  "unary_cached OpNot _ = BcBool"
| "unary_cached OpNeg operand_ty = operand_ty"

definition verify_binary :: "string \<Rightarrow> binop \<Rightarrow> bc_type \<Rightarrow> bc_type \<Rightarrow> ir_error list" where
  "verify_binary ctx op' left_ty ty =
     (let expected_ty = binary_cached op' left_ty in
      if ty \<noteq> expected_ty then [(ctx, BinaryOpCached op' ty expected_ty)] else [])"

definition verify_unary :: "string \<Rightarrow> unop \<Rightarrow> bc_type \<Rightarrow> bc_type \<Rightarrow> ir_error list" where
  "verify_unary ctx op' operand_ty ty =
     (let expected_ty = unary_cached op' operand_ty in
      if ty \<noteq> expected_ty then [(ctx, UnaryOpCached op' ty expected_ty)] else [])"

definition verify_callee :: "ir_program \<Rightarrow> string \<Rightarrow> callee \<Rightarrow> nat \<Rightarrow> ir_error list" where
  "verify_callee p ctx c n =
     (case c of
        CalleeNamed name \<Rightarrow>
          (case ip_functions p name of
             Some fi \<Rightarrow>
               if length (fi_params fi) \<noteq> n
               then [(ctx, CallArguments name n (length (fi_params fi)))] else []
           | None \<Rightarrow> [])
      | _ \<Rightarrow> [])"

definition verify_branches :: "string \<Rightarrow> bc_type \<Rightarrow> bc_type option \<Rightarrow> bc_type \<Rightarrow> ir_error list" where
  "verify_branches ctx then_ty else_ty ty =
     (case else_ty of
        Some else_ty \<Rightarrow>
          if \<not> is_compatible_with then_ty ty \<or> \<not> is_compatible_with else_ty ty
          then [(ctx, IfBranches then_ty else_ty)] else []
      | None \<Rightarrow> if ty \<noteq> BcUnit then [(ctx, IfWithoutElseCached ty)] else [])"

definition verify_arm_type :: "string \<Rightarrow> bc_type \<Rightarrow> bc_type \<Rightarrow> ir_error list" where
  "verify_arm_type ctx arm_ty ty =
     (if \<not> is_compatible_with arm_ty ty then [(ctx, MatchArmCached arm_ty ty)] else [])"

definition verify_try :: "string \<Rightarrow> bc_type \<Rightarrow> bc_type \<Rightarrow> ir_error list" where
  "verify_try ctx call_ty ty =
     (case call_ty of
        BcResult ok _ \<Rightarrow> if ty \<noteq> ok then [(ctx, TryPayload ty ok)] else []
      | other \<Rightarrow> [(ctx, TryNonResult other)])"

definition verify_array :: "string \<Rightarrow> bc_type list \<Rightarrow> bc_type \<Rightarrow> bc_type \<Rightarrow> ir_error list" where
  "verify_array ctx element_tys elem_ty ty =
     (case element_tys of
        first_ty # _ \<Rightarrow>
          if first_ty \<noteq> elem_ty then [(ctx, ElementCached elem_ty first_ty)] else []
      | [] \<Rightarrow> []) @
     (case ty of
        BcArray inner \<Rightarrow> if inner \<noteq> elem_ty then [(ctx, ArrayCached inner elem_ty)] else []
      | BcFixedArray inner sz \<Rightarrow>
          (if inner \<noteq> elem_ty then [(ctx, FixedArrayCached inner sz elem_ty)] else []) @
          (if sz \<noteq> int (length element_tys) then [(ctx, FixedSizeCached sz (length element_tys))] else [])
      | other \<Rightarrow> [(ctx, NonArrayCached other)])"

section \<open>The walk over the tree\<close>

function verify_expr :: "ir_program \<Rightarrow> string \<Rightarrow> nat \<Rightarrow> ir_expr \<Rightarrow> ir_error list"
and verify_block :: "ir_program \<Rightarrow> string \<Rightarrow> nat \<Rightarrow> ir_block \<Rightarrow> ir_error list"
and verify_stmt :: "ir_program \<Rightarrow> string \<Rightarrow> nat \<Rightarrow> ir_stmt \<Rightarrow> ir_error list"
and verify_place :: "ir_program \<Rightarrow> string \<Rightarrow> nat \<Rightarrow> ir_place \<Rightarrow> ir_error list" where
  "verify_expr p ctx d (IrIntLit v sp) = verify_type p ctx (ir_ty (IrIntLit v sp))"
| "verify_expr p ctx d (IrFloatLit v sp) = verify_type p ctx (ir_ty (IrFloatLit v sp))"
| "verify_expr p ctx d (IrStringLit s sp) = verify_type p ctx (ir_ty (IrStringLit s sp))"
| "verify_expr p ctx d (IrBoolLit b sp) = verify_type p ctx (ir_ty (IrBoolLit b sp))"
| "verify_expr p ctx d (IrIdent n k ty sp) = verify_type p ctx ty"
| "verify_expr p ctx d (IrInterpolatedString parts sp) =
     verify_type p ctx BcStr @
     concat (map (\<lambda>part. case part of IrPart e \<Rightarrow> verify_expr p ctx d e | IrText _ \<Rightarrow> []) parts)"
| "verify_expr p ctx d (IrBinaryOp op' l r ty sp) =
     verify_type p ctx ty @ verify_expr p ctx d l @ verify_expr p ctx d r @ verify_binary ctx op' (ir_ty l) ty"
| "verify_expr p ctx d (IrUnaryOp op' e ty sp) =
     verify_type p ctx ty @ verify_expr p ctx d e @ verify_unary ctx op' (ir_ty e) ty"
| "verify_expr p ctx d (IrCast e ty sp) = verify_type p ctx ty @ verify_expr p ctx d e"
| "verify_expr p ctx d (IrCall c args ty sp) =
     verify_type p ctx ty @ verify_callee p ctx c (length args) @ concat (map (\<lambda>a. verify_expr p ctx d a) args)"
| "verify_expr p ctx d (IrFieldAccess e f ty sp) = verify_type p ctx ty @ verify_expr p ctx d e"
| "verify_expr p ctx d (IrIndex e i ty sp) =
     verify_type p ctx ty @ verify_expr p ctx d e @ verify_expr p ctx d i"
| "verify_expr p ctx d (IrBlockExpr block) =
     verify_type p ctx (ir_block_ty block) @ verify_block p ctx d block"
| "verify_expr p ctx d (IrIf c block els ty sp) =
     verify_type p ctx ty @ verify_expr p ctx d c @ verify_block p ctx d block @
     (case els of Some e \<Rightarrow> verify_expr p ctx d e | None \<Rightarrow> []) @
     verify_branches ctx (ir_block_ty block) (map_option ir_ty els) ty"
| "verify_expr p ctx d (IrMatch scrut arms ty sp) =
     verify_type p ctx ty @ verify_expr p ctx d scrut @
     concat (map (\<lambda>arm. case arm of
       IrArm _ body _ \<Rightarrow> verify_expr p ctx d body @ verify_arm_type ctx (ir_ty body) ty) arms)"
| "verify_expr p ctx d (IrTry e ty sp) =
     verify_type p ctx ty @ verify_expr p ctx d e @ verify_try ctx (ir_ty e) ty"
| "verify_expr p ctx d (IrArrayLit es elem_ty ty sp) =
     verify_type p ctx ty @ concat (map (\<lambda>e. verify_expr p ctx d e) es) @
     verify_array ctx (map ir_ty es) elem_ty ty"
| "verify_expr p ctx d (IrStructLit name inits sp) =
     verify_type p ctx (BcStruct name) @
     concat (map (\<lambda>fi. case fi of IrInit _ val _ \<Rightarrow> verify_expr p ctx d val) inits)"
| "verify_expr p ctx d (IrEnumConstructor en v args ty sp) =
     verify_type p ctx ty @ concat (map (\<lambda>a. verify_expr p ctx d a) args)"
| "verify_expr p ctx d (IrArena block sp) =
     verify_type p ctx (ir_block_ty block) @ verify_block p ctx d block"
| "verify_block p ctx d (IrBlock stmts tail sp) =
     concat (map (\<lambda>s. verify_stmt p ctx d s) stmts) @
     (case tail of Some e \<Rightarrow> verify_expr p ctx d e | None \<Rightarrow> [])"
| "verify_stmt p ctx d (IrLet name m ty val sp) = verify_type p ctx ty @ verify_expr p ctx d val"
| "verify_stmt p ctx d (IrAssign target val sp) = verify_place p ctx d target @ verify_expr p ctx d val"
| "verify_stmt p ctx d (IrCompoundAssign target op' val sp) =
     verify_place p ctx d target @ verify_expr p ctx d val"
| "verify_stmt p ctx d (IrExpr e sp) = verify_expr p ctx d e"
| "verify_stmt p ctx d (IrWhile c body sp) = verify_expr p ctx d c @ verify_block p ctx (d + 1) body"
| "verify_stmt p ctx d (IrFor var a b body sp) =
     verify_expr p ctx d a @ verify_expr p ctx d b @ verify_block p ctx (d + 1) body"
| "verify_stmt p ctx d (IrForIn var it body sp) = verify_expr p ctx d it @ verify_block p ctx (d + 1) body"
| "verify_stmt p ctx d (IrReturn val sp) =
     (case val of Some e \<Rightarrow> verify_expr p ctx d e | None \<Rightarrow> [])"
| "verify_stmt p ctx d (IrDefer e sp) = verify_expr p ctx d e"
| "verify_stmt p ctx d (IrBreak sp) = (if d = 0 then [(ctx, StrayBreak)] else [])"
| "verify_stmt p ctx d (IrContinue sp) = (if d = 0 then [(ctx, StrayContinue)] else [])"
| "verify_place p ctx d (IrPlace name accessors base_ty sp) =
     verify_type p ctx base_ty @
     concat (map (\<lambda>acc. case acc of IrIndexed e \<Rightarrow> verify_expr p ctx d e | IrField _ \<Rightarrow> []) accessors)"
  by pat_completeness auto
termination by lexicographic_order

section \<open>The verification of a program\<close>

definition verify_fn :: "ir_program \<Rightarrow> ir_fn_def \<Rightarrow> ir_error list" where
  "verify_fn p def =
     verify_type p (ifd_name def) (ifd_return_type def) @
     concat (map (\<lambda>(_, ty). verify_type p (ifd_name def) ty) (ifd_params def)) @
     verify_block p (ifd_name def) 0 (ifd_body def)"

definition verify_extern_fn :: "ir_program \<Rightarrow> ir_extern_fn_def \<Rightarrow> ir_error list" where
  "verify_extern_fn p def =
     concat (map (\<lambda>(_, ty). verify_type p (ixf_name def) ty) (ixf_params def)) @
     verify_type p (ixf_name def) (ixf_return_type def)"

definition verify_all :: "ir_program \<Rightarrow> ir_error list" where
  "verify_all p =
     concat (map (verify_fn p) (ip_fn_defs p)) @
     concat (map (\<lambda>def. concat (map (\<lambda>(_, ty). verify_type p (isd_name def) ty) (isd_fields def)))
       (ip_struct_defs p)) @
     concat (map (\<lambda>def.
       concat (map (\<lambda>(_, tys). concat (map (verify_type p (ied_name def)) tys)) (ied_variants def)))
       (ip_enum_defs p)) @
     concat (map (\<lambda>block. concat (map (verify_extern_fn p) (ixb_decls block))) (ip_extern_blocks p)) @
     concat (map (\<lambda>def. verify_type p (icd_name def) (icd_ty def) @ verify_expr p (icd_name def) 0 (icd_value def))
       (ip_const_defs p))"

definition verify :: "ir_program \<Rightarrow> ir_error list + unit" where
  "verify p = (let errors = verify_all p in if errors = [] then Inr () else Inl errors)"

end
