(* ===== verification/Reliance.thy ===== *)
theory Reliance
  imports Verify Collection
begin

text \<open>
  What the code generators rely on in a verified tree: besides the findings of the verifier, a call
  of an intrinsic or of \<open>push\<close> has its arguments, an interpolated value has a printed form, a
  constructor of \<open>Result\<close> has its value, and a compound assignment is arithmetic. The verifier
  does not look for these; they come from the checks of the analysis.
\<close>

definition has_printed_form :: "bc_type \<Rightarrow> bool" where
  "has_printed_form ty \<longleftrightarrow> ty \<in> {BcStr, BcI32, BcI64, BcF64, BcBool}"

definition rely_callee :: "ir_program \<Rightarrow> string \<Rightarrow> callee \<Rightarrow> nat \<Rightarrow> bool" where
  "rely_callee p ctx c n \<longleftrightarrow>
     verify_callee p ctx c n = [] \<and>
     (case c of
        CalleeCollection i \<Rightarrow> wf_intrinsic i \<and> n = arity i
      | CalleeNamed name \<Rightarrow>
          (name = ''len'' \<longrightarrow> n = 1) \<and> (name = ''push'' \<longrightarrow> n = 2) \<and> name \<noteq> ''pop''
      | CalleeVar name \<Rightarrow> True)"

function rely_expr :: "ir_program \<Rightarrow> string \<Rightarrow> nat \<Rightarrow> ir_expr \<Rightarrow> bool"
and rely_block :: "ir_program \<Rightarrow> string \<Rightarrow> nat \<Rightarrow> ir_block \<Rightarrow> bool"
and rely_stmt :: "ir_program \<Rightarrow> string \<Rightarrow> nat \<Rightarrow> ir_stmt \<Rightarrow> bool"
and rely_place :: "ir_program \<Rightarrow> string \<Rightarrow> nat \<Rightarrow> ir_place \<Rightarrow> bool" where
  "rely_expr p ctx d (IrIntLit v sp) = (verify_type p ctx (ir_ty (IrIntLit v sp)) = [])"
| "rely_expr p ctx d (IrFloatLit w sp) = (verify_type p ctx (ir_ty (IrFloatLit w sp)) = [])"
| "rely_expr p ctx d (IrStringLit s sp) = (verify_type p ctx (ir_ty (IrStringLit s sp)) = [])"
| "rely_expr p ctx d (IrBoolLit b sp) = (verify_type p ctx (ir_ty (IrBoolLit b sp)) = [])"
| "rely_expr p ctx d (IrIdent n k ty sp) = (verify_type p ctx ty = [])"
| "rely_expr p ctx d (IrInterpolatedString parts sp) =
     (\<forall>part \<in> set parts. case part of IrPart e \<Rightarrow> has_printed_form (ir_ty e) \<and> rely_expr p ctx d e | IrText _ \<Rightarrow> True)"
| "rely_expr p ctx d (IrBinaryOp op' l r ty sp) =
     (verify_type p ctx ty = [] \<and> rely_expr p ctx d l \<and> rely_expr p ctx d r \<and> verify_binary ctx op' (ir_ty l) ty = [])"
| "rely_expr p ctx d (IrUnaryOp op' e ty sp) =
     (verify_type p ctx ty = [] \<and> rely_expr p ctx d e \<and> verify_unary ctx op' (ir_ty e) ty = [])"
| "rely_expr p ctx d (IrCast e ty sp) = (verify_type p ctx ty = [] \<and> rely_expr p ctx d e)"
| "rely_expr p ctx d (IrCall c args ty sp) =
     (verify_type p ctx ty = [] \<and> rely_callee p ctx c (length args) \<and> (\<forall>a \<in> set args. rely_expr p ctx d a))"
| "rely_expr p ctx d (IrFieldAccess e f ty sp) = (verify_type p ctx ty = [] \<and> rely_expr p ctx d e)"
| "rely_expr p ctx d (IrIndex e i ty sp) =
     (verify_type p ctx ty = [] \<and> rely_expr p ctx d e \<and> rely_expr p ctx d i)"
| "rely_expr p ctx d (IrBlockExpr block) =
     (verify_type p ctx (ir_block_ty block) = [] \<and> rely_block p ctx d block)"
| "rely_expr p ctx d (IrIf c block els ty sp) =
     (verify_type p ctx ty = [] \<and> rely_expr p ctx d c \<and> rely_block p ctx d block \<and>
      pred_option (\<lambda>e. rely_expr p ctx d e) els \<and>
      verify_branches ctx (ir_block_ty block) (map_option ir_ty els) ty = [])"
| "rely_expr p ctx d (IrMatch scrut arms ty sp) =
     (verify_type p ctx ty = [] \<and> rely_expr p ctx d scrut \<and>
      (\<forall>arm \<in> set arms. case arm of
        IrArm _ body _ \<Rightarrow> rely_expr p ctx d body \<and> verify_arm_type ctx (ir_ty body) ty = []))"
| "rely_expr p ctx d (IrTry e ty sp) =
     (verify_type p ctx ty = [] \<and> rely_expr p ctx d e \<and> verify_try ctx (ir_ty e) ty = [])"
| "rely_expr p ctx d (IrArrayLit es elem_ty ty sp) =
     (verify_type p ctx ty = [] \<and> (\<forall>e \<in> set es. rely_expr p ctx d e) \<and>
      verify_array ctx (map ir_ty es) elem_ty ty = [])"
| "rely_expr p ctx d (IrStructLit name inits sp) =
     (verify_type p ctx (BcStruct name) = [] \<and>
      (\<forall>fi \<in> set inits. case fi of IrInit _ val _ \<Rightarrow> rely_expr p ctx d val))"
| "rely_expr p ctx d (IrEnumConstructor en v args ty sp) =
     (verify_type p ctx ty = [] \<and> (en = ''Result'' \<longrightarrow> args \<noteq> []) \<and> (\<forall>a \<in> set args. rely_expr p ctx d a))"
| "rely_expr p ctx d (IrArena block sp) =
     (verify_type p ctx (ir_block_ty block) = [] \<and> rely_block p ctx d block)"
| "rely_block p ctx d (IrBlock stmts tail sp) =
     ((\<forall>s \<in> set stmts. rely_stmt p ctx d s) \<and> pred_option (\<lambda>e. rely_expr p ctx d e) tail)"
| "rely_stmt p ctx d (IrLet name m ty val sp) = (verify_type p ctx ty = [] \<and> rely_expr p ctx d val)"
| "rely_stmt p ctx d (IrAssign target val sp) = (rely_place p ctx d target \<and> rely_expr p ctx d val)"
| "rely_stmt p ctx d (IrCompoundAssign target op' val sp) =
     (op' \<in> {OpAdd, OpSub, OpMul, OpDiv, OpMod} \<and> rely_place p ctx d target \<and> rely_expr p ctx d val)"
| "rely_stmt p ctx d (IrExpr e sp) = rely_expr p ctx d e"
| "rely_stmt p ctx d (IrWhile c body sp) = (rely_expr p ctx d c \<and> rely_block p ctx (d + 1) body)"
| "rely_stmt p ctx d (IrFor var a b body sp) =
     (rely_expr p ctx d a \<and> rely_expr p ctx d b \<and> rely_block p ctx (d + 1) body)"
| "rely_stmt p ctx d (IrForIn var it body sp) = (rely_expr p ctx d it \<and> rely_block p ctx (d + 1) body)"
| "rely_stmt p ctx d (IrReturn val sp) = pred_option (\<lambda>e. rely_expr p ctx d e) val"
| "rely_stmt p ctx d (IrDefer e sp) = rely_expr p ctx d e"
| "rely_stmt p ctx d (IrBreak sp) = (d \<noteq> 0)"
| "rely_stmt p ctx d (IrContinue sp) = (d \<noteq> 0)"
| "rely_place p ctx d (IrPlace name accessors base_ty sp) =
     (verify_type p ctx base_ty = [] \<and>
      (\<forall>acc \<in> set accessors. case acc of IrIndexed e \<Rightarrow> rely_expr p ctx d e | IrField _ \<Rightarrow> True))"
  by pat_completeness auto
termination by lexicographic_order

lemma rely_verifies:
  "rely_expr p ctx d e \<Longrightarrow> verify_expr p ctx d e = []"
  "rely_block p ctx d b \<Longrightarrow> verify_block p ctx d b = []"
  "rely_stmt p ctx d s \<Longrightarrow> verify_stmt p ctx d s = []"
  "rely_place p ctx d pl \<Longrightarrow> verify_place p ctx d pl = []"
  by (induction p ctx d e and p ctx d b and p ctx d s and p ctx d pl
      rule: rely_expr_rely_block_rely_stmt_rely_place.induct)
    (auto simp: pred_option_def rely_callee_def
      split: ir_part.splits ir_arm.splits ir_init.splits ir_accessor.splits option.splits)

text \<open>The type of a tree is verified.\<close>

lemma rely_type: "rely_expr p ctx d e \<Longrightarrow> verify_type p ctx (ir_ty e) = []"
  by (cases e) simp_all

end
