(* ===== verification/CEmitProps.thy ===== *)
theory CEmitProps
  imports CFrame Reliance
begin

text \<open>
  Every part of the emission of expressions and statements keeps the contract of \<open>CFrame\<close>, and
  so do \<open>emit_expr\<close> and \<open>emit_stmt\<close>. The generator panics at a few places; \<open>emittable\<close> is what
  they need of the tree.
\<close>

declare do_all.simps [simp del] fmt.simps [simp del]

section \<open>Lists of emitters\<close>

lemma emits_all [emit_intros]:
  "(\<And>m. m \<in> set ms \<Longrightarrow> emits s m) \<Longrightarrow> emits_to s (\<lambda>vs. length vs = length ms) (emit_all ms)"
proof (induction ms)
  case Nil
  then show ?case by (auto intro: emit_intros)
next
  case (Cons m ms)
  then have "emits s m" "emits_to s (\<lambda>vs. length vs = length ms) (emit_all ms)" by auto
  then show ?case by (auto intro!: emits_use emits_give emits_use_post)
qed

lemma emits_all_any [emit_intros]: "(\<And>m. m \<in> set ms \<Longrightarrow> emits s m) \<Longrightarrow> emits s (emit_all ms)"
  using emits_all [of ms s] by (fastforce simp: emits_to_def split: sum.splits)

lemma emits_nth_arg [emit_intros]:
  "(\<And>enums. s = Some enums \<Longrightarrow> i < length args) \<Longrightarrow> (i < length args \<Longrightarrow> emits_to s Q (k (args ! i))) \<Longrightarrow>
     emits_to s Q (nth_arg args i k)"
  by (cases s) (auto simp: nth_arg_def intro: emits_panic)

definition args_emit :: "mode \<Rightarrow> argument list \<Rightarrow> bool" where
  "args_emit s args \<longleftrightarrow> (\<forall>(ty, em) \<in> set args. emits s em)"

lemma args_emit_nth [emit_intros]: "args_emit s args \<Longrightarrow> i < length args \<Longrightarrow> emits s (snd (args ! i))"
  by (metis args_emit_def case_prod_beta nth_mem)

lemma args_emit_member: "args_emit s args \<Longrightarrow> m \<in> set (map snd args) \<Longrightarrow> emits s m"
  by (auto simp: args_emit_def)

lemma emits_array_argument [emit_intros]:
  "args_emit s args \<Longrightarrow> (\<And>enums. s = Some enums \<Longrightarrow> i < length args) \<Longrightarrow> (\<And>v. emits s (k v)) \<Longrightarrow>
     emits s (emit_array_argument args i k)"
  unfolding emit_array_argument_def case_prod_beta
  by (rule emits_nth_arg) (auto intro!: emits_use args_emit_nth)

lemma acts_check_arena_store [emit_intros]: "acts s (check_arena_store ty a)"
  unfolding check_arena_store_def by (auto intro!: emit_intros)

section \<open>Calls\<close>

fun callable :: "callee \<Rightarrow> nat \<Rightarrow> bool" where
  "callable (CalleeCollection i) n = (wf_intrinsic i \<and> arity i \<le> n)"
| "callable (CalleeNamed name) n =
     (if name = ''push'' then 2 \<le> n
      else case map_of c_calls name of Some (_, k) \<Rightarrow> k \<le> n | None \<Rightarrow> name = ''pop'' \<longrightarrow> 0 < n)"
| "callable (CalleeVar name) n =
     (if name = ''push'' then 2 \<le> n
      else case map_of c_calls name of Some (_, k) \<Rightarrow> k \<le> n | None \<Rightarrow> name = ''pop'' \<longrightarrow> 0 < n)"

lemma emits_array_push [emit_intros]:
  assumes "args_emit s args" "\<And>enums. s = Some enums \<Longrightarrow> 2 \<le> length args"
  shows "emits s (emit_array_push args)"
  unfolding emit_array_push_def Let_def case_prod_beta
  using assms(1)
  by (intro emit_intros) (auto dest: assms(2))

lemma emits_pop [emit_intros]:
  "(\<And>enums. s = Some enums \<Longrightarrow> 0 < length args) \<Longrightarrow> emits s (emit_pop args strs)"
  unfolding emit_pop_def Let_def case_prod_beta by (auto intro!: emit_intros)

lemma emits_user_call [emit_intros]: "emits s (emit_user_call var name strs)"
  unfolding emit_user_call_def Let_def by (auto intro!: emit_intros split: option.splits)

lemma emits_named_call [emit_intros]:
  assumes args: "args_emit s args" and callable: "\<And>enums. s = Some enums \<Longrightarrow> callable (CalleeNamed name) (length args)"
  shows "emits s (emit_named_call var name args)"
proof (cases "name = ''push''")
  case True
  with callable show ?thesis unfolding emit_named_call_def by (auto intro!: emits_array_push [OF args])
next
  case False
  let ?k = "\<lambda>strs. case map_of c_calls name of
      Some (template, n) \<Rightarrow> if n \<le> length strs then give (fmt template strs) else panic
    | None \<Rightarrow> if name = ''pop'' then emit_pop args strs else emit_user_call var name strs"
  have "emits s (?k strs)" if "length strs = length (map snd args)" for strs
    using that callable False
    by (cases s) (auto intro!: emits_give emits_panic emits_pop emits_user_call split: option.splits)
  then have "emits s (use (emit_all (map snd args)) ?k)"
    using args_emit_member [OF args] by (intro emits_use_post [OF emits_all]) auto
  with False show ?thesis by (simp add: emit_named_call_def)
qed

lemma acts_element_loop [emit_intros]:
  "(\<And>a. a \<in> set body \<Longrightarrow> acts s a) \<Longrightarrow> acts s (emit_element_loop sc arr i e l body)"
  unfolding emit_element_loop_def by (auto intro!: emit_intros)

lemma emits_initial:
  "args_emit s args \<Longrightarrow> (\<And>enums. s = Some enums \<Longrightarrow> arity i \<le> length args) \<Longrightarrow>
     emits_to s (\<lambda>v. co_op i = CoFold \<longrightarrow> v \<noteq> None) (emit_initial i sc args)"
  unfolding emit_initial_def case_prod_beta
  by (auto intro!: emit_intros simp: arity_def)

lemma emits_callback_loop:
  assumes "\<And>enums. s = Some enums \<Longrightarrow> wf_intrinsic i \<and> is_higher_order i" "co_op i = CoFold \<longrightarrow> initial \<noteq> None"
  shows "emits s (emit_callback_loop i sc sty initial arr cb index element len)"
  using assms unfolding emit_callback_loop_def Let_def
  by (cases "co_op i"; cases s)
    (auto intro!: emit_intros simp: wf_intrinsic_def is_generic_def is_higher_order_def)


lemma emits_collection_op:
  assumes "args_emit s args" "\<And>enums. s = Some enums \<Longrightarrow> wf_intrinsic i \<and> \<not> is_higher_order i \<and> arity i \<le> length args"
  shows "emits s (emit_collection_op i symbol args ty array)"
  using assms unfolding emit_collection_op_def Let_def
  by (cases "co_op i"; cases s)
    (auto intro!: emit_intros simp: wf_intrinsic_def is_generic_def is_higher_order_def arity_def)

lemma emits_collection_higher_order:
  assumes args: "args_emit s args"
    and wf: "\<And>enums. s = Some enums \<Longrightarrow> wf_intrinsic i \<and> is_higher_order i \<and> arity i \<le> length args"
  shows "emits s (emit_collection_higher_order i args)"
proof -
  have source: "co_source i \<noteq> None" and index: "callback_index i \<noteq> None"
    and callback: "Option.bind (callback_type i) (\<lambda>ty. ty) \<noteq> None"
    and bound: "callback_index i = Some n \<Longrightarrow> n < length args" and args0: "0 < length args"
    if "s = Some enums" for enums n
  proof -
    from wf [OF that] have i: "wf_intrinsic i" "is_higher_order i" "arity i \<le> length args" by auto
    from i(1,2) show "co_source i \<noteq> None" "callback_index i \<noteq> None"
      by (cases "co_op i"; simp add: wf_intrinsic_def is_generic_def is_higher_order_def callback_index_def)+
    show "Option.bind (callback_type i) (\<lambda>ty. ty) \<noteq> None" using wf_callback_type [OF i(1)] i(2) by auto
    show "n < length args" if "callback_index i = Some n" using callback_index_arity [OF that] i(3) by simp
    show "0 < length args" using i(3) arity_positive [of i] by (rule less_le_trans [rotated])
  qed
  show ?thesis
    unfolding emit_collection_higher_order_def Let_def
    using args wf
    by (intro emits_unwrap emits_array_argument emits_use emits_in_tmp emits_use_post [OF emits_initial]
        emits_fresh_tmp emits_do_then acts_line emits_callback_loop)
      (auto dest: source index callback bound args0)
qed

lemma emits_collection_call [emit_intros]:
  assumes args: "args_emit s args" and wf: "\<And>enums. s = Some enums \<Longrightarrow> wf_intrinsic i \<and> arity i \<le> length args"
  shows "emits s (emit_collection_call i args)"
proof (cases "is_higher_order i")
  case True
  with emits_collection_higher_order [OF args] wf show ?thesis by (simp add: emit_collection_call_def)
next
  case False
  have "0 < length args" and "Option.bind (runtime_symbol i) (\<lambda>s. s) \<noteq> None" if "s = Some enums" for enums
  proof -
    from wf [OF that] have i: "wf_intrinsic i" "arity i \<le> length args" by auto
    show "0 < length args" using i(2) arity_positive [of i] by (rule less_le_trans [rotated])
    show "Option.bind (runtime_symbol i) (\<lambda>s. s) \<noteq> None" using i(1) False
      by (cases "co_op i")
        (auto simp: wf_intrinsic_def is_generic_def runtime_symbol_def typed_symbol_def is_higher_order_def)
  qed
  with False wf args show ?thesis
    unfolding emit_collection_call_def case_prod_beta
    by (auto intro!: emit_intros emits_collection_op)
qed

lemma emits_call [emit_intros]:
  "args_emit s args \<Longrightarrow> (\<And>enums. s = Some enums \<Longrightarrow> callable c (length args)) \<Longrightarrow> emits s (emit_call c args)"
  by (cases c) (auto simp: emit_call_def intro!: emits_named_call emits_collection_call)

section \<open>Expressions\<close>

definition body_emits :: "mode \<Rightarrow> body \<Rightarrow> bool" where
  "body_emits s b \<longleftrightarrow>
     (\<forall>a \<in> set (fst b). acts s a) \<and> (\<forall>sp em. snd b = Some (sp, em) \<longrightarrow> emits s em)"

lemma acts_run_body [emit_intros]: "body_emits s b \<Longrightarrow> acts s (run_body b)"
  unfolding run_body_def body_emits_def by (auto intro!: emit_intros split: prod.splits option.splits)

lemma acts_assign_body [emit_intros]: "body_emits s b \<Longrightarrow> acts s (assign_body tmp b)"
  unfolding assign_body_def body_emits_def by (auto intro!: emit_intros split: prod.splits option.splits)

lemma emits_block_body [emit_intros]: "body_emits s b \<Longrightarrow> emits s (emit_block_body b)"
  unfolding emit_block_body_def body_emits_def by (auto intro!: emit_intros split: prod.splits option.splits)

lemma emits_block_expr [emit_intros]: "body_emits s b \<Longrightarrow> emits s (emit_block_expr b ty)"
  unfolding emit_block_expr_def by (auto intro!: emit_intros)

lemma emits_arena [emit_intros]: "body_emits s b \<Longrightarrow> emits s (emit_arena b ty)"
  unfolding emit_arena_def open_arena_def close_arena_def by (auto intro!: emit_intros)

lemma binary_template_Some: "op' \<noteq> OpAnd \<Longrightarrow> op' \<noteq> OpOr \<Longrightarrow> \<exists>t. binary_template op' ty = Some t"
  by (cases op') auto

lemma emits_binary [emit_intros]: "emits s l \<Longrightarrow> emits s r \<Longrightarrow> emits s (emit_binary_op op' ty l r)"
  unfolding emit_binary_op_def Let_def by (auto intro!: emit_intros simp: binary_template_Some)

lemma emits_unary [emit_intros]: "emits s m \<Longrightarrow> emits s (emit_unary_op op' ty m)"
  unfolding emit_unary_op_def by (auto intro!: emit_intros)

lemma emits_float [emit_intros]: "emits s (emit_float v)"
  unfolding emit_float_def Let_def by (auto intro!: emit_intros)

lemma emits_interpolated_expr:
  "emits s m \<Longrightarrow> (\<And>enums. s = Some enums \<Longrightarrow> has_printed_form ty) \<Longrightarrow> emits s (emit_interpolated_expr ty m)"
  unfolding emit_interpolated_expr_def by (cases s) (auto intro!: emit_intros simp: has_printed_form_def split: bc_type.splits)

lemma emits_interpolated_string [emit_intros]:
  assumes "\<And>ty em. Inr (ty, em) \<in> set parts \<Longrightarrow> emits s em \<and> (\<forall>enums. s = Some enums \<longrightarrow> has_printed_form ty)"
  shows "emits s (emit_interpolated_string parts)"
proof -
  have "emits s m" if "m \<in> set (rendered_parts parts)" for m
  proof -
    from that obtain part where part: "part \<in> set parts" "m \<in> set (case part of
        Inl text' \<Rightarrow> if text' \<noteq> [] then [give (str_literal text')] else []
      | Inr (ty, em) \<Rightarrow> [emit_interpolated_expr ty em])"
      by (auto simp: rendered_parts_def)
    show ?thesis
    proof (cases part)
      case (Inl t)
      with part(2) show ?thesis by (auto intro: emits_give split: if_splits)
    next
      case (Inr r)
      with part assms [of "fst r" "snd r"] show ?thesis by (cases r) (auto intro!: emits_interpolated_expr)
    qed
  qed
  then show ?thesis unfolding emit_interpolated_string_def by (auto intro!: emit_intros)
qed

lemma emits_index [emit_intros]: "emits s m \<Longrightarrow> emits s i \<Longrightarrow> emits s (emit_index ty m i)"
  unfolding emit_index_def by (auto intro!: emit_intros)

lemma emits_array_lit [emit_intros]: "(\<And>m. m \<in> set ms \<Longrightarrow> emits s m) \<Longrightarrow> emits s (emit_array_lit ty ms)"
  unfolding emit_array_lit_def by (auto intro!: emit_intros)

lemma emits_struct_lit [emit_intros]:
  "(\<And>f m. (f, m) \<in> set ms \<Longrightarrow> emits s m) \<Longrightarrow> emits s (emit_struct_lit name ms)"
  unfolding emit_struct_lit_def by (auto intro!: emit_intros)

lemma emits_result_constructor [emit_intros]:
  "args_emit s args \<Longrightarrow> (\<And>enums. s = Some enums \<Longrightarrow> variant = ''Ok'' \<or> variant = ''Err'' \<Longrightarrow> args \<noteq> []) \<Longrightarrow>
     emits s (emit_result_constructor variant ty args)"
  unfolding emit_result_constructor_def Let_def by (auto intro!: emit_intros)

lemma emits_enum_constructor [emit_intros]:
  assumes "args_emit s args"
    and "\<And>enums. s = Some enums \<Longrightarrow> en = ''Result'' \<Longrightarrow> variant = ''Ok'' \<or> variant = ''Err'' \<Longrightarrow> args \<noteq> []"
  shows "emits s (emit_enum_constructor en variant ty args)"
proof -
  have "emits s em" if "(i, aty, em) \<in> set (List.enumerate 0 args)" for i aty em
  proof -
    from that have "i < length args" "args ! i = (aty, em)" by (auto simp: in_set_enumerate_eq)
    with args_emit_nth [OF assms(1)] show ?thesis by force
  qed
  then show ?thesis
    unfolding emit_enum_constructor_def case_prod_beta using assms by (auto intro!: emit_intros)
qed

lemma emits_ident [emit_intros]: "emits s (emit_ident name kind)"
  by (cases kind) (auto simp: emit_ident_def intro: emits_give)

section \<open>Branches\<close>

lemma emits_if [emit_intros]:
  "emits s c \<Longrightarrow> body_emits s b \<Longrightarrow> (\<And>em. els = Some em \<Longrightarrow> emits s em) \<Longrightarrow> emits s (emit_if c b els ty)"
  unfolding emit_if_def by (auto intro!: emit_intros split: option.splits)

lemma acts_deliver [emit_intros]: "emits s em \<Longrightarrow> acts s (deliver target em)"
  unfolding deliver_def by (auto intro!: emit_intros split: option.splits)

lemma acts_bind_payload_field [emit_intros]: "acts s (bind_payload_field sc v tys ib)"
  unfolding bind_payload_field_def by (auto intro!: emit_intros split: prod.splits ir_pattern.splits)

lemma acts_bind_enum_payload [emit_intros]:
  "(\<And>enums. s = Some enums \<Longrightarrow> enums ename \<noteq> None) \<Longrightarrow> acts s (bind_enum_payload sc ename pat)"
  unfolding bind_enum_payload_def
  by (cases s) (auto intro!: emit_intros simp: suited_def split: ir_pattern.splits option.splits)

lemma acts_enum_arm [emit_intros]:
  assumes "emits s em" "\<And>enums. s = Some enums \<Longrightarrow> enums ename \<noteq> None"
  shows "acts s (emit_enum_arm_unit sc ename (pat, em))" "acts s (emit_enum_arm_valued tmp sc ename (pat, em))"
  using assms unfolding emit_enum_arm_unit_def emit_enum_arm_valued_def
  by (auto intro!: emit_intros split: ir_pattern.splits)

definition arms_emit :: "mode \<Rightarrow> arm list \<Rightarrow> bool" where
  "arms_emit s arms \<longleftrightarrow> (\<forall>a \<in> set arms. emits s (snd a))"

lemma arm_emits: "arms_emit s arms \<Longrightarrow> (pat, em) \<in> set arms \<Longrightarrow> emits s em"
  by (auto simp: arms_emit_def)

lemma result_arms_in:
  "result_arms arms = (ok_arm, err_arm, wild) \<Longrightarrow>
     set_option ok_arm \<union> set_option err_arm \<union> set_option wild \<subseteq> set arms"
proof (induction arms arbitrary: ok_arm err_arm wild rule: rev_induct)
  case Nil
  then show ?case by (simp add: result_arms_def)
next
  case (snoc a arms)
  obtain x y z where "result_arms arms = (x, y, z)" using prod_cases3 by blast
  with snoc show ?case
    by (fastforce simp: result_arms_def split: ir_pattern.splits if_splits)
qed

lemma acts_bind_result [emit_intros]: "acts s (bind_result_payload sc m ty pat)"
  unfolding bind_result_payload_def by (auto intro!: emit_intros split: ir_pattern.splits list.splits)

lemma acts_result_side:
  assumes "\<forall>a \<in> set_option arm \<union> set_option wild. emits s (snd a)"
  shows "acts s (emit_result_side target sc m ty arm wild)"
  using assms unfolding emit_result_side_def by (cases arm; cases wild) (auto intro!: emit_intros)

lemma acts_result_match [emit_intros]: "arms_emit s arms \<Longrightarrow> acts s (emit_result_match target sc ok_ty err_ty arms)"
proof -
  assume arms: "arms_emit s arms"
  obtain ok_arm err_arm wild where sides: "result_arms arms = (ok_arm, err_arm, wild)" using prod_cases3 by blast
  have "emits s (snd a)" if "a \<in> set_option ok_arm \<union> set_option err_arm \<union> set_option wild" for a
    using that result_arms_in [OF sides] arms by (auto simp: arms_emit_def)
  then have "acts s (emit_result_side target sc m ty ok_arm wild)" "acts s (emit_result_side target sc m ty err_arm wild)"
    for m ty by (blast intro: acts_result_side)+
  then show ?thesis unfolding emit_result_match_def sides by (auto intro!: emit_intros)
qed

lemma acts_literal_match [emit_intros]: "arms_emit s arms \<Longrightarrow> acts s (emit_literal_match target sc ty first arms)"
proof (induction target sc ty first arms rule: emit_literal_match.induct)
  case (2 target sc ty first pat em arms)
  then show ?case
    by (cases pat) (auto intro!: emit_intros simp: arms_emit_def Let_def)
qed (auto intro: emit_intros)

lemma acts_match_arms [emit_intros]:
  "arms_emit s arms \<Longrightarrow> (\<And>enums ename. s = Some enums \<Longrightarrow> ty = BcEnum ename \<Longrightarrow> enums ename \<noteq> None) \<Longrightarrow>
     acts s (emit_match_arms target sc ty arms)"
  unfolding emit_match_arms_def
  by (cases ty; cases target) (auto intro!: emit_intros arm_emits [of s arms])

lemma emits_match [emit_intros]:
  "emits s m \<Longrightarrow> arms_emit s arms \<Longrightarrow> (\<And>enums ename. s = Some enums \<Longrightarrow> sty = BcEnum ename \<Longrightarrow> enums ename \<noteq> None) \<Longrightarrow>
     emits s (emit_match m sty arms ty)"
  unfolding emit_match_def by (auto intro!: emit_intros)

lemma emits_try [emit_intros]: "emits s m \<Longrightarrow> emits s (emit_try m ty)"
  unfolding emit_try_def by (auto intro!: emit_intros)

section \<open>Statements\<close>

lemma acts_deferred_calls [emit_intros]: "acts s emit_deferred_calls"
  unfolding emit_deferred_calls_def by (auto intro!: emit_intros)

lemma acts_deferred_before_return [emit_intros]: "acts s (emit_deferred_before_return v ty)"
  unfolding emit_deferred_before_return_def by (auto intro!: emit_intros)

lemma acts_return [emit_intros]: "(\<And>em. v = Some em \<Longrightarrow> emits s em) \<Longrightarrow> acts s (emit_return v)"
  unfolding emit_return_def Let_def by (auto intro!: emit_intros split: option.splits)

lemma acts_let [emit_intros]: "emits s em \<Longrightarrow> acts s (emit_let name m ty em)"
  unfolding emit_let_def by (auto intro!: emit_intros)

definition target_emits :: "mode \<Rightarrow> target \<Rightarrow> bool" where
  "target_emits s t \<longleftrightarrow> (\<forall>em. Inr em \<in> set (fst (snd t)) \<longrightarrow> emits s em)"

lemma emits_accessors: "(\<And>em. Inr em \<in> set accs \<Longrightarrow> emits s em) \<Longrightarrow> emits s (emit_accessors bty sty accs t)"
  by (induction bty sty accs t rule: emit_accessors.induct) (auto intro!: emit_intros simp: Let_def)

lemma emits_target [emit_intros]: "target_emits s t \<Longrightarrow> emits s (emit_target t ty)"
  by (cases t) (auto simp: emit_target_def target_emits_def intro!: emits_accessors emits_give)

lemma acts_assign [emit_intros]: "target_emits s t \<Longrightarrow> emits s em \<Longrightarrow> acts s (emit_assign t ty em)"
  unfolding emit_assign_def by (auto intro!: emit_intros)

lemma acts_compound [emit_intros]:
  "target_emits s t \<Longrightarrow> emits s em \<Longrightarrow> (\<And>enums. s = Some enums \<Longrightarrow> compound_c_op op' \<noteq> None) \<Longrightarrow>
     acts s (emit_compound_assign t op' ty em)"
  unfolding emit_compound_assign_def by (auto intro!: emit_intros)

lemma acts_expr_stmt [emit_intros]: "emits s em \<Longrightarrow> acts s (emit_expr_stmt ty em)"
  unfolding emit_expr_stmt_def by (auto intro!: emit_intros)

lemma acts_while [emit_intros]: "emits s c \<Longrightarrow> body_emits s b \<Longrightarrow> acts s (emit_while c b)"
  unfolding emit_while_def by (auto intro!: emit_intros)

lemma acts_for [emit_intros]: "emits s m \<Longrightarrow> emits s n \<Longrightarrow> body_emits s b \<Longrightarrow> acts s (emit_for v m n b)"
  unfolding emit_for_def by (auto intro!: emit_intros)

lemma do_all_indented: "do_all ([h, indent_more, x] @ [r, indent_less, c]) = do_all [h, indented [x, r], c]"
  by (simp add: fun_eq_iff indented_def do_all.simps and_then_assoc do_all_append [symmetric] cong: and_then_cong)

lemma acts_for_in [emit_intros]:
  assumes "emits s it" "body_emits s b"
  shows "acts s (emit_for_in v ty it b)"
proof -
  have "acts s (do_all [h, indented [c_line x, run_body b], c_line y])" if "acts s h" for h x y
    using that assms(2) by (auto intro!: emit_intros)
  then have "acts s (do_all ((case ty of
      BcFixedArray _ n \<Rightarrow> [c_line (f n), indent_more, c_line x]
    | _ \<Rightarrow> [c_line g, indent_more, c_line y]) @ [run_body b, indent_less, c_line z]))" for f g x y z
    by (cases ty) (simp_all only: bc_type.case do_all_indented acts_line)
  with assms(1) show ?thesis unfolding emit_for_in_def Let_def by (intro acts_use emits_fresh_tmp)
qed

lemma acts_defer [emit_intros]: "emits s em \<Longrightarrow> acts s (emit_defer em)"
  unfolding emit_defer_def by (auto intro!: emit_intros)

section \<open>The whole tree\<close>

text \<open>
  What the generator relies on: interpolated values have a printed form, calls have the
  arguments that their templates name, a \<open>match\<close> is on a known enum, constructors of \<open>Result\<close>
  have an argument, and a compound assignment is arithmetic.
\<close>

definition known_enum :: "mode \<Rightarrow> bc_type \<Rightarrow> bool" where
  "known_enum s ty = (\<forall>enums ename. s = Some enums \<longrightarrow> ty = BcEnum ename \<longrightarrow> enums ename \<noteq> None)"

function emittable :: "mode \<Rightarrow> ir_expr \<Rightarrow> bool"
and emittable_stmt :: "mode \<Rightarrow> ir_stmt \<Rightarrow> bool"
and emittable_block :: "mode \<Rightarrow> ir_block \<Rightarrow> bool"
and emittable_place :: "mode \<Rightarrow> ir_place \<Rightarrow> bool" where
  "emittable s (IrIntLit v sp) = True"
| "emittable s (IrFloatLit v sp) = True"
| "emittable s (IrStringLit t sp) = True"
| "emittable s (IrInterpolatedString parts sp) =
     list_all (\<lambda>part. case part of IrText _ \<Rightarrow> True | IrPart e \<Rightarrow> (s \<noteq> None \<longrightarrow> has_printed_form (ir_ty e)) \<and> emittable s e) parts"
| "emittable s (IrBoolLit b sp) = True"
| "emittable s (IrIdent name kind ty sp) = True"
| "emittable s (IrBinaryOp op' l r ty sp) = (emittable s l \<and> emittable s r)"
| "emittable s (IrUnaryOp op' e ty sp) = emittable s e"
| "emittable s (IrCast e ty sp) = emittable s e"
| "emittable s (IrCall c args ty sp) =
     ((s \<noteq> None \<longrightarrow> callable c (length args)) \<and> list_all (\<lambda>a. emittable s a) args)"
| "emittable s (IrFieldAccess e f ty sp) = emittable s e"
| "emittable s (IrIndex e i ty sp) = (emittable s e \<and> emittable s i)"
| "emittable s (IrBlockExpr block) = emittable_block s block"
| "emittable s (IrIf c block els ty sp) =
     (emittable s c \<and> emittable_block s block \<and> pred_option (\<lambda>e. emittable s e) els)"
| "emittable s (IrMatch scrut arms ty sp) =
     (emittable s scrut \<and> known_enum s (ir_ty scrut) \<and>
      list_all (\<lambda>arm. case arm of IrArm _ e _ \<Rightarrow> emittable s e) arms)"
| "emittable s (IrTry e ty sp) = emittable s e"
| "emittable s (IrArrayLit es elem_ty ty sp) = list_all (\<lambda>e. emittable s e) es"
| "emittable s (IrStructLit name inits sp) =
     list_all (\<lambda>fi. case fi of IrInit _ e _ \<Rightarrow> emittable s e) inits"
| "emittable s (IrEnumConstructor en v args ty sp) =
     ((s \<noteq> None \<longrightarrow> en = ''Result'' \<longrightarrow> v \<in> {''Ok'', ''Err''} \<longrightarrow> args \<noteq> []) \<and> list_all (\<lambda>a. emittable s a) args)"
| "emittable s (IrArena block sp) = emittable_block s block"
| "emittable_stmt s (IrLet name m ty e sp) = emittable s e"
| "emittable_stmt s (IrAssign place e sp) = (emittable_place s place \<and> emittable s e)"
| "emittable_stmt s (IrCompoundAssign place op' e sp) =
     ((s \<noteq> None \<longrightarrow> compound_c_op op' \<noteq> None) \<and> emittable_place s place \<and> emittable s e)"
| "emittable_stmt s (IrExpr e sp) = emittable s e"
| "emittable_stmt s (IrWhile c body sp) = (emittable s c \<and> emittable_block s body)"
| "emittable_stmt s (IrFor var a b body sp) =
     (emittable s a \<and> emittable s b \<and> emittable_block s body)"
| "emittable_stmt s (IrForIn var it body sp) = (emittable s it \<and> emittable_block s body)"
| "emittable_stmt s (IrReturn val sp) = pred_option (\<lambda>e. emittable s e) val"
| "emittable_stmt s (IrDefer e sp) = emittable s e"
| "emittable_stmt s (IrBreak sp) = True"
| "emittable_stmt s (IrContinue sp) = True"
| "emittable_block s (IrBlock stmts tail sp) =
     (list_all (\<lambda>st. emittable_stmt s st) stmts \<and> pred_option (\<lambda>e. emittable s e) tail)"
| "emittable_place s (IrPlace name accs base_ty sp) =
     list_all (\<lambda>acc. case acc of IrField _ \<Rightarrow> True | IrIndexed e \<Rightarrow> emittable s e) accs"
  by pat_completeness auto
termination by lexicographic_order

text \<open>Without the promise nothing is needed.\<close>

lemma emittable_None [simp]:
  "emittable None e" "emittable_stmt None st" "emittable_block None b" "emittable_place None pl"
  by (induction e and st and b and pl rule: emit_expr_emit_stmt_emit_body_emit_place.induct)
    (auto simp: list_all_iff known_enum_def pred_option_def split: ir_part.splits ir_arm.splits ir_init.splits ir_accessor.splits)

lemma tree_emits:
  "emittable s e \<Longrightarrow> emits s (emit_expr e)"
  "emittable_stmt s st \<Longrightarrow> acts s (emit_stmt st)"
  "emittable_block s b \<Longrightarrow> body_emits s (emit_body b)"
  "emittable_place s pl \<Longrightarrow> target_emits s (emit_place pl)"
proof (induction e and st and b and pl rule: emit_expr_emit_stmt_emit_body_emit_place.induct)
  case (4 parts sp)
  have "emits s em \<and> (\<forall>enums. s = Some enums \<longrightarrow> has_printed_form ty)"
    if "Inr (ty, em) \<in> set (map (\<lambda>part. case part of IrText s \<Rightarrow> Inl s | IrPart e \<Rightarrow> Inr (ir_ty e, emit_expr e)) parts)"
    for ty em
  proof -
    from that obtain e where e: "IrPart e \<in> set parts" "ty = ir_ty e" "em = emit_expr e"
      by (auto split: ir_part.splits)
    with 4 show ?thesis by (fastforce simp: list_all_iff)
  qed
  then show ?case by (auto intro!: emits_emit_at emits_interpolated_string)
next
  case (10 c args ty sp)
  then have "args_emit s (map (\<lambda>a. (ir_ty a, emit_expr a)) args)"
    by (auto simp: args_emit_def list_all_iff)
  with 10 show ?case by (auto intro!: emits_emit_at emits_call)
next
  case (14 c block els ty sp)
  then show ?case by (auto intro!: emits_emit_at emits_if)
next
  case (19 en v args ty sp)
  then have "args_emit s (map (\<lambda>a. (ir_ty a, emit_expr a)) args)"
    by (auto simp: args_emit_def list_all_iff)
  with 19 show ?case by (auto intro!: emits_emit_at emits_enum_constructor)
next
  case (15 scrut arms ty sp)
  have "arms_emit s (map (\<lambda>arm. case arm of IrArm pat e _ \<Rightarrow> (pat, emit_expr e)) arms)"
    unfolding arms_emit_def using 15 by (fastforce simp: list_all_iff split: ir_arm.splits)
  with 15 show ?case by (auto intro!: emits_emit_at emits_match simp: known_enum_def)
next
  case (17 es elem_ty ty sp)
  then show ?case by (auto intro!: emits_emit_at emits_array_lit simp: list_all_iff)
next
  case (18 name inits sp)
  have "emits s m" if "(f, m) \<in> set (map (\<lambda>fi. case fi of IrInit f e _ \<Rightarrow> (f, emit_expr e)) inits)" for f m
    using that 18 by (fastforce simp: list_all_iff split: ir_init.splits)
  then show ?case by (auto intro!: emits_emit_at emits_struct_lit)
next
  case (28 val sp)
  then show ?case by (auto intro!: acts_act_at acts_return)
next
  case (32 stmts tail sp)
  then show ?case by (auto simp: body_emits_def list_all_iff)
next
  case (33 name accs base_ty sp)
  then show ?case by (fastforce simp: target_emits_def list_all_iff split: ir_accessor.splits)
qed (simp_all add: emits_emit_at acts_act_at emits_give emits_float emits_ident emits_binary emits_unary
  emits_use emits_index emits_block_expr emits_try emits_arena acts_let acts_assign acts_compound
  acts_expr_stmt acts_while acts_for acts_for_in acts_defer acts_line)

end
