(* ===== verification/Lower.thy ===== *)
theory Lower
  imports Verify Errors
begin

text \<open>
  The translation of an accepted syntax tree into the intermediate representation,
  \<open>src/src/lower.rs\<close>. The record \<open>lowering\<close> holds the mutable fields of the struct
  \<open>Lowering\<close>; its shared reference to the tables of the analysis is the argument \<open>info\<close>.
  Lowering reports no errors of its own: \<open>expect\<close>, \<open>unwrap\<close>, \<open>unreachable!\<close> and an index
  out of range are the outcome \<open>Panicked\<close>.

  As in the theory \<open>Analyzer\<close> the innermost scope comes first.
\<close>

record lowering =
  lw_scopes :: "(string \<rightharpoonup> bc_type) list"
  lw_current_fn_return_type :: "bc_type option"
  lw_expected_array_type :: "bc_type option"
  lw_expected_result_type :: "bc_type option"

type_synonym 'a lowered = "failure + ('a \<times> lowering)"

section \<open>Scopes and types\<close>

definition lw_push_scope :: "lowering \<Rightarrow> lowering" where
  "lw_push_scope lw = lw\<lparr>lw_scopes := Map.empty # lw_scopes lw\<rparr>"

definition lw_pop_scope :: "lowering \<Rightarrow> lowering" where
  "lw_pop_scope lw = lw\<lparr>lw_scopes := tl (lw_scopes lw)\<rparr>"

text \<open>\<open>self.scopes.last_mut().unwrap().insert(name, ty)\<close>\<close>

definition lw_insert :: "string \<Rightarrow> bc_type \<Rightarrow> lowering \<Rightarrow> failure + lowering" where
  "lw_insert name ty lw =
     (case lw_scopes lw of
        [] \<Rightarrow> Inl Panicked
      | s # ss \<Rightarrow> Inr (lw\<lparr>lw_scopes := s(name \<mapsto> ty) # ss\<rparr>))"

fun find_in_scopes :: "(string \<rightharpoonup> bc_type) list \<Rightarrow> string \<Rightarrow> bc_type option" where
  "find_in_scopes [] name = None"
| "find_in_scopes (s # ss) name = (case s name of Some ty \<Rightarrow> Some ty | None \<Rightarrow> find_in_scopes ss name)"

definition lookup_type :: "semantic_info \<Rightarrow> lowering \<Rightarrow> string \<Rightarrow> bc_type option" where
  "lookup_type info lw name =
     (case find_in_scopes (lw_scopes lw) name of
        Some ty \<Rightarrow> Some ty
      | None \<Rightarrow> map_option ci_ty (sem_constants info name))"

fun lower_primitive :: "primitive_type \<Rightarrow> bc_type" where
  "lower_primitive PrimI32 = BcI32"
| "lower_primitive PrimI64 = BcI64"
| "lower_primitive PrimF64 = BcF64"
| "lower_primitive PrimBool = BcBool"
| "lower_primitive PrimStr = BcStr"
| "lower_primitive PrimUnit = BcUnit"
| "lower_primitive PrimHandle = BcHandle"
| "lower_primitive PrimMap = BcMap"
| "lower_primitive PrimMapStrI32 = BcMapStrI32"
| "lower_primitive PrimMapStrI64 = BcMapStrI64"
| "lower_primitive PrimMapStrF64 = BcMapStrF64"
| "lower_primitive PrimMapI32Str = BcMapI32Str"
| "lower_primitive PrimMapI32I32 = BcMapI32I32"

fun lower_type :: "semantic_info \<Rightarrow> ast_type \<Rightarrow> bc_type" where
  "lower_type info (TyPrimitive p _) = lower_primitive p"
| "lower_type info (TyNamed name _) =
     (if sem_structs info name \<noteq> None then BcStruct name else BcEnum name)"
| "lower_type info (TyFixedArray elem sz _) = BcFixedArray (lower_type info elem) sz"
| "lower_type info (TyDynamicArray elem _) = BcArray (lower_type info elem)"
| "lower_type info (TyResult ok err _) = BcResult (lower_type info ok) (lower_type info err)"
| "lower_type info (TyFnPtr params ret pure _) =
     BcFnPtr (map (lower_type info) params) (lower_type info ret) pure"

definition lower_return_type :: "semantic_info \<Rightarrow> ast_type option \<Rightarrow> bc_type" where
  "lower_return_type info ty = (case ty of Some t \<Rightarrow> lower_type info t | None \<Rightarrow> BcUnit)"

definition lower_params :: "semantic_info \<Rightarrow> param list \<Rightarrow> (string \<times> bc_type) list" where
  "lower_params info ps = map (\<lambda>p. (p_name p, lower_type info (p_ty p))) ps"

section \<open>Callees\<close>

definition resolve_callee :: "semantic_info \<Rightarrow> lowering \<Rightarrow> string \<Rightarrow> callee" where
  "resolve_callee info lw name =
     (case resolve_with_alias name of
        Some intrinsic \<Rightarrow> CalleeCollection intrinsic
      | None \<Rightarrow>
          (case lookup_type info lw name of
             Some (BcFnPtr _ _ _) \<Rightarrow> CalleeVar name
           | _ \<Rightarrow> CalleeNamed name))"

definition callback_unwrap :: "collection_intrinsic \<Rightarrow> failure + bc_type" where
  "callback_unwrap i =
     (case callback_type i of Some (Some ty) \<Rightarrow> Inr ty | _ \<Rightarrow> Inl Panicked)"

text \<open>
  The parameters of a typed intrinsic; \<open>None\<close> is the \<open>return None\<close> of the remaining
  operations.
\<close>

definition intrinsic_params ::
  "collection_intrinsic \<Rightarrow> bc_type \<Rightarrow> failure + bc_type list option" where
  "intrinsic_params i source_ty =
     (let array_ty = BcArray source_ty in
      if co_op i \<in> {CoContains, CoIndexOf, CoLastIndexOf, CoCount} then Inr (Some [array_ty, source_ty])
      else if co_op i = CoCompare then Inr (Some [array_ty, array_ty])
      else if co_op i = CoSort then Inr (Some [array_ty])
      else if co_op i \<in> {CoAny, CoAll, CoMap, CoFilter, CoForEach} then
        and_then (callback_unwrap i) (\<lambda>cb. Inr (Some [array_ty, cb]))
      else if co_op i = CoFold then
        and_then (callback_unwrap i) (\<lambda>cb. Inr (Some [array_ty, source_ty, cb]))
      else Inr None)"

definition declared_params :: "semantic_info \<Rightarrow> lowering \<Rightarrow> string \<Rightarrow> bc_type list option" where
  "declared_params info lw name =
     (case lookup_type info lw name of
        Some (BcFnPtr params _ _) \<Rightarrow> Some params
      | _ \<Rightarrow> map_option (\<lambda>f. map snd (fi_params f)) (sem_functions info name))"

definition param_types_for ::
  "semantic_info \<Rightarrow> lowering \<Rightarrow> string \<Rightarrow> failure + bc_type list option" where
  "param_types_for info lw name =
     (case resolve_with_alias name of
        Some intrinsic \<Rightarrow>
          (case co_source intrinsic of
             Some src \<Rightarrow> intrinsic_params intrinsic (core_bc_type src)
           | None \<Rightarrow> Inr (declared_params info lw name))
      | None \<Rightarrow> Inr (declared_params info lw name))"

definition intrinsic_result :: "collection_intrinsic \<Rightarrow> bc_type list \<Rightarrow> failure + bc_type" where
  "intrinsic_result i arg_tys =
     (let first_ty = (case arg_tys of t # _ \<Rightarrow> t | [] \<Rightarrow> BcUnit);
          elem_ty = (case array_element_type first_ty of Some t \<Rightarrow> t | None \<Rightarrow> BcUnit) in
      case co_op i of
        CoClone \<Rightarrow> Inr first_ty
      | CoRepeat \<Rightarrow> Inr (BcArray first_ty)
      | CoRemoveAt \<Rightarrow> Inr elem_ty
      | CoFold \<Rightarrow> Inr elem_ty
      | CoSlice \<Rightarrow> Inr (BcArray elem_ty)
      | CoFilter \<Rightarrow> Inr (BcArray elem_ty)
      | CoMap \<Rightarrow>
          (case co_target i of Some t \<Rightarrow> Inr (BcArray (core_bc_type t)) | None \<Rightarrow> Inl Panicked)
      | CoContains \<Rightarrow> Inr BcBool
      | CoAny \<Rightarrow> Inr BcBool
      | CoAll \<Rightarrow> Inr BcBool
      | CoIndexOf \<Rightarrow> Inr BcI32
      | CoLastIndexOf \<Rightarrow> Inr BcI32
      | CoCount \<Rightarrow> Inr BcI32
      | CoCompare \<Rightarrow> Inr BcI32
      | _ \<Rightarrow> Inr BcUnit)"

definition call_result_type ::
  "semantic_info \<Rightarrow> lowering \<Rightarrow> string \<Rightarrow> bc_type list \<Rightarrow> failure + bc_type" where
  "call_result_type info lw name arg_tys =
     (case resolve_with_alias name of
        Some intrinsic \<Rightarrow> intrinsic_result intrinsic arg_tys
      | None \<Rightarrow>
          if name = ''len'' then Inr BcI32
          else if name = ''push'' then Inr BcUnit
          else
            (case lookup_type info lw name of
               Some (BcFnPtr _ ret _) \<Rightarrow> Inr ret
             | _ \<Rightarrow>
                 (case sem_functions info name of
                    Some f \<Rightarrow> Inr (fi_return_type f)
                  | None \<Rightarrow> Inr BcUnit)))"

section \<open>The expected type\<close>

definition push_expected_type :: "bc_type \<Rightarrow> lowering \<Rightarrow> lowering" where
  "push_expected_type ty lw =
     lw\<lparr>lw_expected_array_type := (case ty of BcArray _ \<Rightarrow> Some ty | BcFixedArray _ _ \<Rightarrow> Some ty | _ \<Rightarrow> None),
        lw_expected_result_type := (case ty of BcResult _ _ \<Rightarrow> Some ty | _ \<Rightarrow> None)\<rparr>"

text \<open>The saved pair is read from the state before the push.\<close>

definition pop_expected_type :: "lowering \<Rightarrow> lowering \<Rightarrow> lowering" where
  "pop_expected_type saved lw =
     lw\<lparr>lw_expected_array_type := lw_expected_array_type saved,
        lw_expected_result_type := lw_expected_result_type saved\<rparr>"

text \<open>Lower \<open>e\<close> by \<open>f\<close> under an expected type, if there is one.\<close>

definition with_expected ::
  "('e \<Rightarrow> lowering \<Rightarrow> 'a lowered) \<Rightarrow> bc_type option \<Rightarrow> 'e \<Rightarrow> lowering \<Rightarrow> 'a lowered" where
  "with_expected f expected e lw =
     (case expected of
        Some ty \<Rightarrow>
          and_then (f e (push_expected_type ty lw)) (\<lambda>(v, lw').
          Inr (v, pop_expected_type lw lw'))
      | None \<Rightarrow> f e lw)"

lemma with_expected_cong [fundef_cong]:
  "t = t' \<Longrightarrow> e = e' \<Longrightarrow> lw = lw' \<Longrightarrow> (\<And>s. f e' s = g e' s) \<Longrightarrow>
     with_expected f t e lw = with_expected g t' e' lw'"
  by (simp add: with_expected_def split: option.split)

text \<open>
  What \<open>lower_generic_collection_args\<close> expects of the arguments after the first one, whose
  element type is given; \<open>None\<close> is its \<open>unreachable!\<close>.
\<close>

definition generic_expected :: "collection_op \<Rightarrow> bc_type \<Rightarrow> bc_type list option" where
  "generic_expected o' elem_ty =
     (case o' of
        CoRepeat \<Rightarrow> Some [BcI32]
      | CoClone \<Rightarrow> Some []
      | CoReverse \<Rightarrow> Some []
      | CoClear \<Rightarrow> Some []
      | CoFill \<Rightarrow> Some [elem_ty]
      | CoSwap \<Rightarrow> Some [BcI32, BcI32]
      | CoExtend \<Rightarrow> Some [BcArray elem_ty]
      | CoInsert \<Rightarrow> Some [BcI32, elem_ty]
      | CoRemoveAt \<Rightarrow> Some [BcI32]
      | CoSlice \<Rightarrow> Some [BcI32, BcI32]
      | _ \<Rightarrow> None)"

section \<open>Types of fields, payloads and places\<close>

definition info_field :: "semantic_info \<Rightarrow> string \<Rightarrow> string \<Rightarrow> bc_type option" where
  "info_field info name field =
     Option.bind (sem_structs info name) (\<lambda>s. map_of (si_fields s) field)"

definition field_type_of :: "semantic_info \<Rightarrow> bc_type \<Rightarrow> string \<Rightarrow> bc_type" where
  "field_type_of info ty field =
     (case ty of
        BcStruct name \<Rightarrow> (case info_field info name field of Some t \<Rightarrow> t | None \<Rightarrow> BcUnit)
      | _ \<Rightarrow> BcUnit)"

definition index_type_of :: "bc_type \<Rightarrow> bc_type" where
  "index_type_of ty =
     (case ty of BcArray el \<Rightarrow> el | BcFixedArray el _ \<Rightarrow> el | BcStr \<Rightarrow> BcI32 | _ \<Rightarrow> BcUnit)"

fun accessors_type :: "semantic_info \<Rightarrow> bc_type \<Rightarrow> place_accessor list \<Rightarrow> bc_type" where
  "accessors_type info ty [] = ty"
| "accessors_type info ty (AccField field # as) =
     accessors_type info (field_type_of info ty field) as"
| "accessors_type info ty (AccIndex _ # as) =
     accessors_type info (case array_element_type ty of Some el \<Rightarrow> el | None \<Rightarrow> BcUnit) as"

definition place_base_type :: "semantic_info \<Rightarrow> lowering \<Rightarrow> string \<Rightarrow> bc_type" where
  "place_base_type info lw name =
     (case lookup_type info lw name of Some ty \<Rightarrow> ty | None \<Rightarrow> BcUnit)"

definition place_final_type :: "semantic_info \<Rightarrow> lowering \<Rightarrow> place \<Rightarrow> bc_type" where
  "place_final_type info lw target =
     accessors_type info (place_base_type info lw (pl_name target)) (pl_accessors target)"

definition iterated_type :: "bc_type \<Rightarrow> bc_type" where
  "iterated_type ty = (case ty of BcFixedArray e _ \<Rightarrow> e | BcArray e \<Rightarrow> e | _ \<Rightarrow> BcI32)"

section \<open>The types that lowering caches\<close>

definition lower_ident :: "semantic_info \<Rightarrow> lowering \<Rightarrow> string \<Rightarrow> span \<Rightarrow> ir_expr" where
  "lower_ident info lw name sp =
     (case lookup_type info lw name of
        Some ty \<Rightarrow> IrIdent name IkValue ty sp
      | None \<Rightarrow>
          (case sem_functions info name of
             Some fi \<Rightarrow>
               IrIdent name IkFnRef
                 (BcFnPtr (map snd (fi_params fi)) (fi_return_type fi) (fi_is_pure fi)) sp
           | None \<Rightarrow> IrIdent name IkValue BcUnit sp))"

fun lower_binary_type :: "binop \<Rightarrow> bc_type \<Rightarrow> bc_type" where
  "lower_binary_type OpEq _ = BcBool"
| "lower_binary_type OpNeq _ = BcBool"
| "lower_binary_type OpLt _ = BcBool"
| "lower_binary_type OpGt _ = BcBool"
| "lower_binary_type OpLtEq _ = BcBool"
| "lower_binary_type OpGtEq _ = BcBool"
| "lower_binary_type OpAnd _ = BcBool"
| "lower_binary_type OpOr _ = BcBool"
| "lower_binary_type _ left_ty = left_ty"

fun lower_unary_type :: "unop \<Rightarrow> bc_type \<Rightarrow> bc_type" where
  "lower_unary_type OpNot _ = BcBool"
| "lower_unary_type OpNeg operand_ty = operand_ty"

text \<open>\<open>expect\<close> on the join of the branches.\<close>

definition lower_if_type :: "bc_type \<Rightarrow> bc_type option \<Rightarrow> failure + bc_type" where
  "lower_if_type then_ty else_ty =
     (case else_ty of
        Some t \<Rightarrow> ok_or (compatible_join then_ty t None) Panicked
      | None \<Rightarrow> Inr BcUnit)"

definition lower_match_type :: "bc_type list \<Rightarrow> failure + bc_type" where
  "lower_match_type tys =
     (case tys of
        [] \<Rightarrow> Inr BcUnit
      | t # ts \<Rightarrow> ok_or (join_all (\<lambda>a b. compatible_join a b None) t ts) Panicked)"

definition lower_try_type :: "bc_type \<Rightarrow> bc_type" where
  "lower_try_type ty = (case ty of BcResult ok _ \<Rightarrow> ok | _ \<Rightarrow> BcUnit)"

definition empty_array :: "lowering \<Rightarrow> span \<Rightarrow> ir_expr" where
  "empty_array lw sp =
     (let elem_ty = (case Option.bind (lw_expected_array_type lw) array_element_type of
                       Some e \<Rightarrow> e | None \<Rightarrow> BcUnit) in
      IrArrayLit [] elem_ty (BcArray elem_ty) sp)"

definition filled_array :: "lowering \<Rightarrow> ir_expr list \<Rightarrow> span \<Rightarrow> ir_expr" where
  "filled_array lw lowered sp =
     (let elem_ty = ir_ty (hd lowered) in
      IrArrayLit lowered elem_ty
        (case lw_expected_array_type lw of
           Some (BcFixedArray exp_elem sz) \<Rightarrow>
             if exp_elem = elem_ty \<and> sz = int (length lowered) then BcFixedArray elem_ty sz
             else BcArray elem_ty
         | _ \<Rightarrow> BcArray elem_ty) sp)"

text \<open>The expected \<open>Result\<close>, or else what the function returns.\<close>

definition result_context :: "lowering \<Rightarrow> bc_type option" where
  "result_context lw =
     (case lw_expected_result_type lw of
        Some ty \<Rightarrow> Some ty
      | None \<Rightarrow> lw_current_fn_return_type lw)"

definition payload_types :: "semantic_info \<Rightarrow> lowering \<Rightarrow> string \<Rightarrow> string \<Rightarrow> bc_type list" where
  "payload_types info lw enum_name variant =
     (if enum_name = ''Result'' then
        (case result_context lw of
           Some (BcResult ok err) \<Rightarrow>
             if variant = ''Ok'' then [ok] else if variant = ''Err'' then [err] else []
         | _ \<Rightarrow> [])
      else
        (case Option.bind (sem_enums info enum_name) (\<lambda>i. map_of (ei_variants i) variant) of
           Some tys \<Rightarrow> tys
         | None \<Rightarrow> []))"

definition constructor_type :: "lowering \<Rightarrow> string \<Rightarrow> bc_type" where
  "constructor_type lw enum_name =
     (if enum_name = ''Result'' then (case result_context lw of Some ty \<Rightarrow> ty | None \<Rightarrow> BcUnit)
      else BcEnum enum_name)"

section \<open>Patterns\<close>

fun lower_pattern :: "pattern \<Rightarrow> ir_pattern" where
  "lower_pattern (PWildcard s) = IpWildcard s"
| "lower_pattern (PIdent n s) = IpIdent n s"
| "lower_pattern (PIntLit v s) = IpIntLit v s"
| "lower_pattern (PFloatLit v s) = IpFloatLit v s"
| "lower_pattern (PStringLit v s) = IpStringLit v s"
| "lower_pattern (PBoolLit v s) = IpBoolLit v s"
| "lower_pattern (PEnum enum_name variant bindings s) =
     IpEnum enum_name variant (map lower_pattern bindings) s"

fun lw_bind_payload :: "pattern list \<Rightarrow> bc_type list \<Rightarrow> lowering \<Rightarrow> failure + lowering" where
  "lw_bind_payload (PIdent name _ # ps) (t # ts) lw =
     and_then (lw_insert name t lw) (\<lambda>lw. lw_bind_payload ps ts lw)"
| "lw_bind_payload (p # ps) (t # ts) lw = lw_bind_payload ps ts lw"
| "lw_bind_payload ps ts lw = Inr lw"

text \<open>The variables that the head of \<open>lower_match_arm\<close> registers.\<close>

definition lower_arm_bindings ::
  "semantic_info \<Rightarrow> bc_type \<Rightarrow> pattern \<Rightarrow> lowering \<Rightarrow> failure + lowering" where
  "lower_arm_bindings info scrut_ty pat lw =
     (case pat of
        PEnum enum_name variant bindings _ \<Rightarrow>
          (case scrut_ty of
             BcEnum ename \<Rightarrow>
               (case Option.bind (sem_enums info (if enum_name = [] then ename else enum_name))
                       (\<lambda>i. map_of (ei_variants i) variant) of
                  Some payload \<Rightarrow> lw_bind_payload bindings payload lw
                | None \<Rightarrow> Inr lw)
           | BcResult ok_ty err_ty \<Rightarrow>
               if variant = ''Ok'' then lw_bind_payload (take 1 bindings) [ok_ty] lw
               else if variant = ''Err'' then lw_bind_payload (take 1 bindings) [err_ty] lw
               else Inr lw
           | _ \<Rightarrow> Inr lw)
      | PIdent name _ \<Rightarrow> lw_insert name scrut_ty lw
      | _ \<Rightarrow> Inr lw)"


section \<open>Expressions, statements and blocks\<close>

lemma size_list_take [termination_simp]: "size_list f (take n xs) \<le> size_list f xs"
  by (induction xs arbitrary: n) (auto simp: take_Cons split: nat.split)

function lower_expr :: "semantic_info \<Rightarrow> expr \<Rightarrow> lowering \<Rightarrow> ir_expr lowered"
and lower_args :: "semantic_info \<Rightarrow> bc_type list \<Rightarrow> expr list \<Rightarrow> lowering \<Rightarrow> ir_expr list lowered"
and lower_generic_collection_args ::
  "semantic_info \<Rightarrow> collection_intrinsic \<Rightarrow> expr list \<Rightarrow> lowering \<Rightarrow> ir_expr list lowered"
and lower_option :: "semantic_info \<Rightarrow> expr option \<Rightarrow> lowering \<Rightarrow> ir_expr option lowered"
and lower_parts :: "semantic_info \<Rightarrow> interp_part list \<Rightarrow> lowering \<Rightarrow> ir_part list lowered"
and lower_match_arm :: "semantic_info \<Rightarrow> bc_type \<Rightarrow> match_arm \<Rightarrow> lowering \<Rightarrow> ir_arm lowered"
and lower_arms :: "semantic_info \<Rightarrow> bc_type \<Rightarrow> match_arm list \<Rightarrow> lowering \<Rightarrow> ir_arm list lowered"
and lower_inits :: "semantic_info \<Rightarrow> string \<Rightarrow> field_init list \<Rightarrow> lowering \<Rightarrow> ir_init list lowered"
and lower_block :: "semantic_info \<Rightarrow> block \<Rightarrow> lowering \<Rightarrow> ir_block lowered"
and lower_stmts :: "semantic_info \<Rightarrow> stmt list \<Rightarrow> lowering \<Rightarrow> ir_stmt list lowered"
and lower_stmt :: "semantic_info \<Rightarrow> stmt \<Rightarrow> lowering \<Rightarrow> ir_stmt lowered"
and lower_accessors :: "semantic_info \<Rightarrow> place_accessor list \<Rightarrow> lowering \<Rightarrow> ir_accessor list lowered"
and lower_place :: "semantic_info \<Rightarrow> place \<Rightarrow> lowering \<Rightarrow> ir_place lowered" where
  "lower_expr info (EIntLit v s) lw = Inr (IrIntLit v s, lw)"
| "lower_expr info (EFloatLit v s) lw = Inr (IrFloatLit v s, lw)"
| "lower_expr info (EStringLit v s) lw = Inr (IrStringLit v s, lw)"
| "lower_expr info (EBoolLit v s) lw = Inr (IrBoolLit v s, lw)"
| "lower_expr info (EInterpolatedString parts s) lw =
     and_then (lower_parts info parts lw) (\<lambda>(ps, lw).
     Inr (IrInterpolatedString ps s, lw))"
| "lower_expr info (EIdent name s) lw = Inr (lower_ident info lw name s, lw)"
| "lower_expr info (EBinaryOp op' left right s) lw =
     and_then (lower_expr info left lw) (\<lambda>(l, lw).
     and_then (lower_expr info right lw) (\<lambda>(r, lw).
     Inr (IrBinaryOp op' l r (lower_binary_type op' (ir_ty l)) s, lw)))"
| "lower_expr info (EUnaryOp op' operand s) lw =
     and_then (lower_expr info operand lw) (\<lambda>(e, lw).
     Inr (IrUnaryOp op' e (lower_unary_type op' (ir_ty e)) s, lw))"
| "lower_expr info (ECast inner ty s) lw =
     and_then (lower_expr info inner lw) (\<lambda>(e, lw).
     Inr (IrCast e (lower_type info ty) s, lw))"
| "lower_expr info (ECall callee args s) lw =
     (let name = (case callee of EIdent n _ \<Rightarrow> n | _ \<Rightarrow> ''unknown'') in
      and_then
        (case resolve_with_alias name of
           Some intrinsic \<Rightarrow>
             if co_source intrinsic = None then lower_generic_collection_args info intrinsic args lw
             else and_then (param_types_for info lw name) (\<lambda>tys.
                  lower_args info (case tys of Some tys \<Rightarrow> tys | None \<Rightarrow> []) args lw)
         | None \<Rightarrow> and_then (param_types_for info lw name) (\<lambda>tys.
                  lower_args info (case tys of Some tys \<Rightarrow> tys | None \<Rightarrow> []) args lw))
        (\<lambda>(lowered_args, lw).
      and_then (call_result_type info lw name (map ir_ty lowered_args)) (\<lambda>ty.
      Inr (IrCall (resolve_callee info lw name) lowered_args ty s, lw))))"
| "lower_expr info (EFieldAccess inner field s) lw =
     and_then (lower_expr info inner lw) (\<lambda>(e, lw).
     Inr (IrFieldAccess e field (field_type_of info (ir_ty e) field) s, lw))"
| "lower_expr info (EIndex inner index s) lw =
     and_then (lower_expr info inner lw) (\<lambda>(e, lw).
     and_then (lower_expr info index lw) (\<lambda>(i, lw).
     Inr (IrIndex e i (index_type_of (ir_ty e)) s, lw)))"
| "lower_expr info (EBlock block) lw =
     and_then (lower_block info block (lw_push_scope lw)) (\<lambda>(b, lw).
     Inr (IrBlockExpr b, lw_pop_scope lw))"
| "lower_expr info (EIf condition then_block else_branch s) lw =
     and_then (lower_expr info condition lw) (\<lambda>(c, lw).
     and_then (lower_block info then_block (lw_push_scope lw)) (\<lambda>(b, lw).
     and_then (lower_option info else_branch (lw_pop_scope lw)) (\<lambda>(els, lw).
     and_then (lower_if_type (ir_block_ty b) (map_option ir_ty els)) (\<lambda>ty.
     Inr (IrIf c b els ty s, lw)))))"
| "lower_expr info (EMatch scrutinee arms s) lw =
     and_then (lower_expr info scrutinee lw) (\<lambda>(scrut, lw).
     and_then (lower_arms info (ir_ty scrut) arms lw) (\<lambda>(lowered, lw).
     and_then (lower_match_type (map (\<lambda>arm. case arm of IrArm _ body _ \<Rightarrow> ir_ty body) lowered)) (\<lambda>ty.
     Inr (IrMatch scrut lowered ty s, lw))))"
| "lower_expr info (ETry call s) lw =
     and_then (lower_expr info call lw) (\<lambda>(c, lw).
     Inr (IrTry c (lower_try_type (ir_ty c)) s, lw))"
| "lower_expr info (EArrayLit elements s) lw =
     (if elements = [] then Inr (empty_array lw s, lw)
      else
        and_then (lower_args info [] elements lw) (\<lambda>(lowered, lw).
        Inr (filled_array lw lowered s, lw)))"
| "lower_expr info (EStructLit name inits s) lw =
     and_then (lower_inits info name inits lw) (\<lambda>(lowered, lw).
     Inr (IrStructLit name lowered s, lw))"
| "lower_expr info (EEnumConstructor enum_name variant args s) lw =
     and_then (lower_args info (payload_types info lw enum_name variant) args lw) (\<lambda>(lowered, lw).
     Inr (IrEnumConstructor enum_name variant lowered (constructor_type lw enum_name) s, lw))"
| "lower_expr info (EArena body s) lw =
     and_then (lower_block info body (lw_push_scope lw)) (\<lambda>(b, lw).
     Inr (IrArena b s, lw_pop_scope lw))"
| "lower_args info tys [] lw = Inr ([], lw)"
| "lower_args info tys (a # as) lw =
     and_then
       (with_expected (\<lambda>e lw. lower_expr info e lw) (case tys of t # _ \<Rightarrow> Some t | [] \<Rightarrow> None) a lw)
       (\<lambda>(v, lw).
     and_then (lower_args info (tl tys) as lw) (\<lambda>(vs, lw).
     Inr (v # vs, lw)))"
| "lower_generic_collection_args info intrinsic [] lw = Inl Panicked"
| "lower_generic_collection_args info intrinsic (a # as) lw =
     and_then (lower_expr info a lw) (\<lambda>(v, lw).
     let elem_ty = (case array_element_type (ir_ty v) of Some t \<Rightarrow> t | None \<Rightarrow> BcUnit) in
     case generic_expected (co_op intrinsic) elem_ty of
       None \<Rightarrow> Inl Panicked
     | Some tys \<Rightarrow>
         if length as < length tys then Inl Panicked
         else and_then (lower_args info tys (take (length tys) as) lw) (\<lambda>(vs, lw).
           Inr (v # vs, lw)))"
| "lower_option info None lw = Inr (None, lw)"
| "lower_option info (Some e) lw =
     and_then (lower_expr info e lw) (\<lambda>(v, lw). Inr (Some v, lw))"
| "lower_parts info [] lw = Inr ([], lw)"
| "lower_parts info (IText t # ps) lw =
     and_then (lower_parts info ps lw) (\<lambda>(qs, lw). Inr (IrText t # qs, lw))"
| "lower_parts info (IExpr e # ps) lw =
     and_then (lower_expr info e lw) (\<lambda>(v, lw).
     and_then (lower_parts info ps lw) (\<lambda>(qs, lw).
     Inr (IrPart v # qs, lw)))"
| "lower_match_arm info scrut_ty (MatchArm pat body s) lw =
     and_then (lower_arm_bindings info scrut_ty pat (lw_push_scope lw)) (\<lambda>lw.
     and_then (lower_expr info body lw) (\<lambda>(b, lw).
     Inr (IrArm (lower_pattern pat) b s, lw_pop_scope lw)))"
| "lower_arms info scrut_ty [] lw = Inr ([], lw)"
| "lower_arms info scrut_ty (arm # arms) lw =
     and_then (lower_match_arm info scrut_ty arm lw) (\<lambda>(a, lw).
     and_then (lower_arms info scrut_ty arms lw) (\<lambda>(as, lw).
     Inr (a # as, lw)))"
| "lower_inits info name [] lw = Inr ([], lw)"
| "lower_inits info name (FieldInit field val s # fs) lw =
     and_then (with_expected (\<lambda>e lw. lower_expr info e lw) (info_field info name field) val lw)
       (\<lambda>(v, lw).
     and_then (lower_inits info name fs lw) (\<lambda>(vs, lw).
     Inr (IrInit field v s # vs, lw)))"
| "lower_block info (Block stmts tail s) lw =
     and_then (lower_stmts info stmts lw) (\<lambda>(ss, lw).
     and_then (lower_option info tail lw) (\<lambda>(t, lw).
     Inr (IrBlock ss t s, lw)))"
| "lower_stmts info [] lw = Inr ([], lw)"
| "lower_stmts info (s # ss) lw =
     and_then (lower_stmt info s lw) (\<lambda>(v, lw).
     and_then (lower_stmts info ss lw) (\<lambda>(vs, lw).
     Inr (v # vs, lw)))"
| "lower_stmt info (SLet name is_mut ty val s) lw =
     and_then (with_expected (\<lambda>e lw. lower_expr info e lw) (Some (lower_type info ty)) val lw)
       (\<lambda>(v, lw).
     and_then (lw_insert name (lower_type info ty) lw) (\<lambda>lw.
     Inr (IrLet name is_mut (lower_type info ty) v s, lw)))"
| "lower_stmt info (SAssign target val s) lw =
     and_then (with_expected (\<lambda>e lw. lower_expr info e lw) (Some (place_final_type info lw target)) val lw)
       (\<lambda>(v, lw).
     and_then (lower_place info target lw) (\<lambda>(p, lw).
     Inr (IrAssign p v s, lw)))"
| "lower_stmt info (SCompoundAssign target op' val s) lw =
     and_then (lower_expr info val lw) (\<lambda>(v, lw).
     and_then (lower_place info target lw) (\<lambda>(p, lw).
     Inr (IrCompoundAssign p op' v s, lw)))"
| "lower_stmt info (SExpr e s) lw =
     and_then (lower_expr info e lw) (\<lambda>(v, lw). Inr (IrExpr v s, lw))"
| "lower_stmt info (SWhile condition body s) lw =
     and_then (lower_expr info condition lw) (\<lambda>(c, lw).
     and_then (lower_block info body (lw_push_scope lw)) (\<lambda>(b, lw).
     Inr (IrWhile c b s, lw_pop_scope lw)))"
| "lower_stmt info (SFor var start end_expr body s) lw =
     and_then (lower_expr info start lw) (\<lambda>(a, lw).
     and_then (lower_expr info end_expr lw) (\<lambda>(z, lw).
     and_then (lw_insert var BcI32 (lw_push_scope lw)) (\<lambda>lw.
     and_then (lower_block info body lw) (\<lambda>(b, lw).
     Inr (IrFor var a z b s, lw_pop_scope lw)))))"
| "lower_stmt info (SForIn var iterable body s) lw =
     and_then (lower_expr info iterable lw) (\<lambda>(it, lw).
     and_then (lw_insert var (iterated_type (ir_ty it)) (lw_push_scope lw)) (\<lambda>lw.
     and_then (lower_block info body lw) (\<lambda>(b, lw).
     Inr (IrForIn var it b s, lw_pop_scope lw))))"
| "lower_stmt info (SReturn val s) lw =
     and_then (with_expected (\<lambda>v lw. lower_option info v lw) (lw_current_fn_return_type lw) val lw)
       (\<lambda>(v, lw).
     Inr (IrReturn v s, lw))"
| "lower_stmt info (SDefer e s) lw =
     and_then (lower_expr info e lw) (\<lambda>(v, lw). Inr (IrDefer v s, lw))"
| "lower_stmt info (SBreak s) lw = Inr (IrBreak s, lw)"
| "lower_stmt info (SContinue s) lw = Inr (IrContinue s, lw)"
| "lower_accessors info [] lw = Inr ([], lw)"
| "lower_accessors info (AccField f # as) lw =
     and_then (lower_accessors info as lw) (\<lambda>(vs, lw). Inr (IrField f # vs, lw))"
| "lower_accessors info (AccIndex e # as) lw =
     and_then (lower_expr info e lw) (\<lambda>(v, lw).
     and_then (lower_accessors info as lw) (\<lambda>(vs, lw).
     Inr (IrIndexed v # vs, lw)))"
| "lower_place info (Place name accessors s) lw =
     and_then (lower_accessors info accessors lw) (\<lambda>(as, lw').
     Inr (IrPlace name as (place_base_type info lw name) s, lw'))"
  by pat_completeness auto
termination
  by (relation "measure (case_sum (case_sum (case_sum (\<lambda>(i, e, s). size e)
  (case_sum (\<lambda>(i, t, as, s). size_list size as)
  (\<lambda>(i, c, as, s). size_list size as)))
  (case_sum (\<lambda>(i, e, s). size_option size e)
  (case_sum (\<lambda>(i, ps, s). size_list size ps)
  (\<lambda>(i, t, a, s). size a))))
  (case_sum (case_sum (\<lambda>(i, t, as, s). size_list size as)
  (case_sum (\<lambda>(i, n, fs, s). size_list size fs)
  (\<lambda>(i, b, s). size b)))
  (case_sum (case_sum (\<lambda>(i, ss, s). size_list size ss)
  (\<lambda>(i, x, s). size x))
  (case_sum (\<lambda>(i, as, s). size_list size as)
  (\<lambda>(i, p, s). size p)))))")
    (auto simp: less_Suc_eq_le termination_simp intro: trans_le_add1 trans_le_add2 split: list.splits)

section \<open>Declarations\<close>

definition lower_struct :: "semantic_info \<Rightarrow> struct_decl \<Rightarrow> ir_struct_def" where
  "lower_struct info s =
     \<lparr>isd_name = s_name s,
      isd_fields = map (\<lambda>f. (f_name f, lower_type info (f_ty f))) (s_fields s),
      isd_span = s_span s\<rparr>"

definition lower_enum :: "semantic_info \<Rightarrow> enum_decl \<Rightarrow> ir_enum_def" where
  "lower_enum info e =
     \<lparr>ied_name = e_name e,
      ied_variants = map (\<lambda>v. (v_name v, map (lower_type info) (v_payload_types v))) (e_variants e),
      ied_span = e_span e\<rparr>"

definition lower_extern_block :: "semantic_info \<Rightarrow> extern_block \<Rightarrow> ir_extern_block" where
  "lower_extern_block info eb =
     \<lparr>ixb_decls = map (\<lambda>ef.
        \<lparr>ixf_name = ef_name ef,
         ixf_params = lower_params info (ef_params ef),
         ixf_return_type = lower_return_type info (ef_return_type ef),
         ixf_span = ef_span ef\<rparr>) (eb_decls eb),
      ixb_span = eb_span eb\<rparr>"

definition lower_const :: "semantic_info \<Rightarrow> let_decl \<Rightarrow> lowering \<Rightarrow> ir_const_def lowered" where
  "lower_const info l lw =
     (let ty = lower_type info (l_ty l) in
      and_then (with_expected (lower_expr info) (Some ty) (l_value l) lw) (\<lambda>(v, lw).
      Inr (\<lparr>icd_name = l_name l, icd_ty = ty, icd_value = v, icd_span = l_span l\<rparr>, lw)))"

definition lower_fn :: "semantic_info \<Rightarrow> fn_decl \<Rightarrow> lowering \<Rightarrow> ir_fn_def lowered" where
  "lower_fn info f lw =
     (let return_type = lower_return_type info (fn_return_type f);
          params = lower_params info (fn_params f);
          saved_ret = lw_current_fn_return_type lw in
      and_then
        (each (\<lambda>(name, ty) lw. lw_insert name ty lw) params
           (lw_push_scope (lw\<lparr>lw_current_fn_return_type := Some return_type\<rparr>))) (\<lambda>lw.
      and_then (lower_block info (fn_body f) lw) (\<lambda>(body, lw).
      Inr (\<lparr>ifd_name = fn_name f, ifd_params = params, ifd_return_type = return_type,
            ifd_body = body, ifd_is_pure = fn_is_pure f, ifd_span = fn_span f\<rparr>,
           (lw_pop_scope lw)\<lparr>lw_current_fn_return_type := saved_ret\<rparr>))))"

definition lower_decl ::
  "semantic_info \<Rightarrow> top_decl \<Rightarrow> ir_program \<times> lowering \<Rightarrow> failure + ir_program \<times> lowering" where
  "lower_decl info decl st =
     (case st of (p, lw) \<Rightarrow>
        (case decl of
           DStruct s \<Rightarrow> Inr (p\<lparr>ip_struct_defs := ip_struct_defs p @ [lower_struct info s]\<rparr>, lw)
         | DEnum e \<Rightarrow> Inr (p\<lparr>ip_enum_defs := ip_enum_defs p @ [lower_enum info e]\<rparr>, lw)
         | DExtern eb \<Rightarrow>
             Inr (p\<lparr>ip_extern_blocks := ip_extern_blocks p @ [lower_extern_block info eb]\<rparr>, lw)
         | DLet l \<Rightarrow>
             and_then (lower_const info l lw) (\<lambda>(c, lw).
             Inr (p\<lparr>ip_const_defs := ip_const_defs p @ [c]\<rparr>, lw))
         | DFn f \<Rightarrow>
             and_then (lower_fn info f lw) (\<lambda>(g, lw).
             Inr (p\<lparr>ip_fn_defs := ip_fn_defs p @ [g]\<rparr>, lw))
         | DUse _ _ \<Rightarrow> Inr (p, lw)))"

definition lowering_start :: lowering where
  "lowering_start =
     \<lparr>lw_scopes = [], lw_current_fn_return_type = None, lw_expected_array_type = None,
      lw_expected_result_type = None\<rparr>"

definition lower_program :: "program \<Rightarrow> semantic_info \<Rightarrow> failure + ir_program" where
  "lower_program prog info =
     and_then
       (each (lower_decl info) (decls prog)
          (\<lparr>ip_structs = sem_structs info, ip_enums = sem_enums info,
            ip_functions = sem_functions info, ip_constants = sem_constants info,
            ip_struct_defs = [], ip_enum_defs = [], ip_extern_blocks = [], ip_const_defs = [],
            ip_fn_defs = []\<rparr>, lowering_start))
       (\<lambda>(p, _). Inr p)"

end
