(* ===== verification/Builtins.thy ===== *)
theory Builtins
  imports Types
begin

text \<open>
  The built-in functions that \<open>SemanticAnalyzer::register_builtins\<close> of \<open>src/src/semantic.rs\<close>
  enters in the table of functions before the program is read: name, parameters, result and
  purity, in the order of the code and cut along its section comments. \<open>len\<close>, \<open>push\<close> and
  \<open>pop\<close> and the collection operations have no entry; the checker treats them itself.
\<close>

definition builtin ::
  "string \<Rightarrow> (string \<times> bc_type) list \<Rightarrow> bc_type \<Rightarrow> bool \<Rightarrow> string \<times> function_info" where
  "builtin name params ret pure =
     (name, \<lparr>fi_params = params, fi_return_type = ret, fi_is_pure = pure, fi_is_extern = False\<rparr>)"

definition builtins_io :: "(string \<times> function_info) list" where
  "builtins_io =
     [builtin ''print'' [(''s'', BcStr)] BcUnit False,
      builtin ''println'' [(''s'', BcStr)] BcUnit False,
      builtin ''print_i32'' [(''n'', BcI32)] BcUnit False,
      builtin ''print_i64'' [(''n'', BcI64)] BcUnit False,
      builtin ''print_f64'' [(''n'', BcF64)] BcUnit False,
      builtin ''print_bool'' [(''b'', BcBool)] BcUnit False,
      builtin ''read_line'' [] (BcResult BcStr BcStr) False]"

definition builtins_string :: "(string \<times> function_info) list" where
  "builtins_string =
     [builtin ''str_len'' [(''s'', BcStr)] BcI32 True,
      builtin ''str_eq'' [(''a'', BcStr), (''b'', BcStr)] BcBool True,
      builtin ''str_concat'' [(''a'', BcStr), (''b'', BcStr)] BcStr False,
      builtin ''str_to_cstr'' [(''s'', BcStr)] BcStr False,
      builtin ''str_find'' [(''haystack'', BcStr), (''needle'', BcStr)] BcI32 True,
      builtin ''str_from_i32'' [(''n'', BcI32)] BcStr False,
      builtin ''str_slice'' [(''s'', BcStr), (''start'', BcI32), (''end'', BcI32)] BcStr False]"

definition builtins_math :: "(string \<times> function_info) list" where
  "builtins_math =
     [builtin ''abs_i32'' [(''n'', BcI32)] BcI32 True,
      builtin ''abs_f64'' [(''n'', BcF64)] BcF64 True,
      builtin ''mod_i32'' [(''a'', BcI32), (''b'', BcI32)] BcI32 True,
      builtin ''math_sin'' [(''x'', BcF64)] BcF64 True,
      builtin ''math_cos'' [(''x'', BcF64)] BcF64 True,
      builtin ''math_sqrt'' [(''x'', BcF64)] BcF64 True,
      builtin ''math_pow'' [(''base'', BcF64), (''exp'', BcF64)] BcF64 True,
      builtin ''math_exp'' [(''x'', BcF64)] BcF64 True,
      builtin ''math_log'' [(''x'', BcF64)] BcF64 True,
      builtin ''math_atan2'' [(''y'', BcF64), (''x'', BcF64)] BcF64 True,
      builtin ''math_floor'' [(''x'', BcF64)] BcF64 True,
      builtin ''math_ceil'' [(''x'', BcF64)] BcF64 True,
      builtin ''math_fmod'' [(''x'', BcF64), (''y'', BcF64)] BcF64 True,
      builtin ''math_abs'' [(''x'', BcF64)] BcF64 True,
      builtin ''math_pi'' [] BcF64 True,
      builtin ''math_e'' [] BcF64 True,
      builtin ''math_ln2'' [] BcF64 True,
      builtin ''math_sqrt2'' [] BcF64 True]"

definition builtins_bitwise_conversion :: "(string \<times> function_info) list" where
  "builtins_bitwise_conversion =
     [builtin ''band'' [(''a'', BcI32), (''b'', BcI32)] BcI32 True,
      builtin ''bor'' [(''a'', BcI32), (''b'', BcI32)] BcI32 True,
      builtin ''bxor'' [(''a'', BcI32), (''b'', BcI32)] BcI32 True,
      builtin ''bshl'' [(''a'', BcI32), (''n'', BcI32)] BcI32 True,
      builtin ''bshr'' [(''a'', BcI32), (''n'', BcI32)] BcI32 True,
      builtin ''bnot'' [(''a'', BcI32)] BcI32 True,
      builtin ''i32_to_str'' [(''n'', BcI32)] BcStr False]"

definition builtins_file :: "(string \<times> function_info) list" where
  "builtins_file =
     [builtin ''file_open_read'' [(''path'', BcStr)] (BcResult BcI32 BcStr) False,
      builtin ''file_open_write'' [(''path'', BcStr)] (BcResult BcI32 BcStr) False,
      builtin ''read_byte'' [(''fd'', BcI32)] BcI32 False,
      builtin ''write_byte'' [(''fd'', BcI32), (''b'', BcI32)] BcUnit False,
      builtin ''write_str'' [(''fd'', BcI32), (''s'', BcStr)] BcUnit False,
      builtin ''file_close'' [(''fd'', BcI32)] BcUnit False,
      builtin ''file_delete'' [(''path'', BcStr)] (BcResult BcStr BcStr) False]"

definition builtins_socket :: "(string \<times> function_info) list" where
  "builtins_socket =
     [builtin ''socket_tcp'' [] (BcResult BcI32 BcStr) False,
      builtin ''socket_connect'' [(''sock'', BcI32), (''addr'', BcStr), (''port'', BcI32)] (BcResult BcStr BcStr) False,
      builtin ''socket_bind'' [(''sock'', BcI32), (''addr'', BcStr), (''port'', BcI32)] (BcResult BcStr BcStr) False,
      builtin ''socket_listen'' [(''sock'', BcI32), (''backlog'', BcI32)] (BcResult BcStr BcStr) False,
      builtin ''socket_accept'' [(''sock'', BcI32)] (BcResult BcI32 BcStr) False,
      builtin ''socket_send'' [(''sock'', BcI32), (''data'', BcStr)] (BcResult BcI32 BcStr) False,
      builtin ''socket_recv'' [(''sock'', BcI32), (''max_len'', BcI32)] BcStr False,
      builtin ''socket_close'' [(''sock'', BcI32)] BcUnit False,
      builtin ''socket_udp'' [] (BcResult BcI32 BcStr) False,
      builtin ''socket_sendto'' [(''sock'', BcI32), (''data'', BcStr), (''addr'', BcStr), (''port'', BcI32)] BcI32 False,
      builtin ''socket_recvfrom'' [(''sock'', BcI32), (''max_len'', BcI32)] BcStr False,
      builtin ''socket_unix_connect'' [(''path'', BcStr)] (BcResult BcI32 BcStr) False]"

definition builtins_tls_args :: "(string \<times> function_info) list" where
  "builtins_tls_args =
     [builtin ''tls_connect'' [(''host'', BcStr), (''port'', BcI32)] (BcResult BcI32 BcStr) False,
      builtin ''tls_send'' [(''handle'', BcI32), (''data'', BcStr)] (BcResult BcI32 BcStr) False,
      builtin ''tls_recv'' [(''handle'', BcI32), (''max_len'', BcI32)] BcStr False,
      builtin ''tls_recv_byte'' [(''handle'', BcI32)] BcI32 False,
      builtin ''tls_close'' [(''handle'', BcI32)] BcUnit False,
      builtin ''tls_cleanup'' [] BcUnit False,
      builtin ''arg_count'' [] BcI32 False,
      builtin ''arg_get'' [(''i'', BcI32)] BcStr False]"

definition builtins_character :: "(string \<times> function_info) list" where
  "builtins_character =
     [builtin ''char_is_alpha'' [(''c'', BcI32)] BcBool True,
      builtin ''char_is_digit'' [(''c'', BcI32)] BcBool True,
      builtin ''char_is_alnum'' [(''c'', BcI32)] BcBool True,
      builtin ''char_is_space'' [(''c'', BcI32)] BcBool True,
      builtin ''char_is_upper'' [(''c'', BcI32)] BcBool True,
      builtin ''char_is_lower'' [(''c'', BcI32)] BcBool True,
      builtin ''char_is_print'' [(''c'', BcI32)] BcBool True,
      builtin ''char_is_xdigit'' [(''c'', BcI32)] BcBool True,
      builtin ''char_to_upper'' [(''c'', BcI32)] BcI32 True,
      builtin ''char_to_lower'' [(''c'', BcI32)] BcI32 True,
      builtin ''abs_i64'' [(''n'', BcI64)] BcI64 True]"

definition builtins_number_time :: "(string \<times> function_info) list" where
  "builtins_number_time =
     [builtin ''parse_i32'' [(''s'', BcStr)] (BcResult BcI32 BcStr) True,
      builtin ''parse_i64'' [(''s'', BcStr)] (BcResult BcI64 BcStr) True,
      builtin ''str_from_i64'' [(''n'', BcI64)] BcStr False,
      builtin ''str_from_f64'' [(''n'', BcF64)] BcStr False,
      builtin ''str_from_bool'' [(''b'', BcBool)] BcStr True,
      builtin ''rand_seed'' [(''seed'', BcI32)] BcUnit False,
      builtin ''rand_i32'' [] BcI32 False,
      builtin ''time_now'' [] BcI64 False,
      builtin ''sleep_ms'' [(''ms'', BcI32)] BcUnit False,
      builtin ''exit'' [(''code'', BcI32)] BcUnit False]"

definition builtins_environment :: "(string \<times> function_info) list" where
  "builtins_environment =
     [builtin ''env_get'' [(''name'', BcStr)] (BcResult BcStr BcStr) False,
      builtin ''errno_get'' [] BcI32 False,
      builtin ''errno_str'' [(''code'', BcI32)] BcStr False]"

definition builtins_filesystem :: "(string \<times> function_info) list" where
  "builtins_filesystem =
     [builtin ''file_rename'' [(''old'', BcStr), (''new_path'', BcStr)] (BcResult BcStr BcStr) False,
      builtin ''file_exists'' [(''path'', BcStr)] BcBool False,
      builtin ''dir_create'' [(''path'', BcStr)] (BcResult BcStr BcStr) False,
      builtin ''dir_remove'' [(''path'', BcStr)] (BcResult BcStr BcStr) False,
      builtin ''dir_current'' [] BcStr False,
      builtin ''dir_change'' [(''path'', BcStr)] (BcResult BcStr BcStr) False,
      builtin ''file_open_append'' [(''path'', BcStr)] (BcResult BcI32 BcStr) False,
      builtin ''file_size'' [(''path'', BcStr)] BcI64 False,
      builtin ''path_join'' [(''dir'', BcStr), (''file'', BcStr)] BcStr False,
      builtin ''path_ext'' [(''path'', BcStr)] BcStr True,
      builtin ''path_exists'' [(''path'', BcStr)] BcBool False,
      builtin ''path_is_dir'' [(''path'', BcStr)] BcBool False]"

definition builtins_string_ops :: "(string \<times> function_info) list" where
  "builtins_string_ops =
     [builtin ''str_contains'' [(''s'', BcStr), (''sub'', BcStr)] BcBool True,
      builtin ''str_starts_with'' [(''s'', BcStr), (''prefix'', BcStr)] BcBool True,
      builtin ''str_ends_with'' [(''s'', BcStr), (''suffix'', BcStr)] BcBool True,
      builtin ''str_trim'' [(''s'', BcStr)] BcStr False,
      builtin ''str_split'' [(''s'', BcStr), (''delim'', BcStr)] (BcArray BcStr) False,
      builtin ''str_to_upper'' [(''s'', BcStr)] BcStr False,
      builtin ''str_to_lower'' [(''s'', BcStr)] BcStr False,
      builtin ''str_replace'' [(''s'', BcStr), (''old'', BcStr), (''new_s'', BcStr)] BcStr False,
      builtin ''str_compare'' [(''a'', BcStr), (''b'', BcStr)] BcI32 True]"

definition builtins_process_terminal :: "(string \<times> function_info) list" where
  "builtins_process_terminal =
     [builtin ''dir_list'' [(''path'', BcStr)] (BcArray BcStr) False,
      builtin ''proc_run'' [(''cmd'', BcStr), (''args'', (BcArray BcStr))] BcI32 False,
      builtin ''fd_dup'' [(''fd'', BcI32)] BcI32 False,
      builtin ''fd_dup2'' [(''oldfd'', BcI32), (''newfd'', BcI32)] BcI32 False,
      builtin ''proc_spawn'' [(''cmd'', BcStr), (''args'', (BcArray BcStr))] BcI32 False,
      builtin ''proc_wait'' [(''pid'', BcI32)] BcI32 False,
      builtin ''pipe_create'' [] (BcArray BcI32) False,
      builtin ''path_find_exec'' [(''name'', BcStr)] (BcResult BcStr BcStr) False,
      builtin ''term_width'' [] BcI32 False,
      builtin ''term_height'' [] BcI32 False,
      builtin ''term_raw'' [] (BcResult BcStr BcStr) False,
      builtin ''term_restore'' [] (BcResult BcStr BcStr) False,
      builtin ''read_nonblock'' [] BcI32 False]"

definition builtins_misc_sort :: "(string \<times> function_info) list" where
  "builtins_misc_sort =
     [builtin ''env_count'' [] BcI32 False,
      builtin ''env_key'' [(''i'', BcI32)] BcStr False,
      builtin ''env_value'' [(''i'', BcI32)] BcStr False,
      builtin ''str_from_i32_hex'' [(''n'', BcI32)] BcStr False,
      builtin ''str_from_i64_hex'' [(''n'', BcI64)] BcStr False,
      builtin ''sort_i32'' [(''arr'', (BcArray BcI32))] BcUnit False,
      builtin ''sort_i64'' [(''arr'', (BcArray BcI64))] BcUnit False,
      builtin ''sort_str'' [(''arr'', (BcArray BcStr))] BcUnit False,
      builtin ''sort_f64'' [(''arr'', (BcArray BcF64))] BcUnit False]"

definition builtins_chars_time :: "(string \<times> function_info) list" where
  "builtins_chars_time =
     [builtin ''str_from_chars'' [(''arr'', (BcArray BcI32))] BcStr False,
      builtin ''str_to_chars'' [(''s'', BcStr)] (BcArray BcI32) False,
      builtin ''time_format'' [(''timestamp'', BcI64), (''fmt'', BcStr)] BcStr False,
      builtin ''time_utc_year'' [(''timestamp'', BcI64)] BcI32 False,
      builtin ''time_utc_month'' [(''timestamp'', BcI64)] BcI32 False,
      builtin ''time_utc_day'' [(''timestamp'', BcI64)] BcI32 False,
      builtin ''time_utc_hour'' [(''timestamp'', BcI64)] BcI32 False,
      builtin ''time_utc_min'' [(''timestamp'', BcI64)] BcI32 False,
      builtin ''time_utc_sec'' [(''timestamp'', BcI64)] BcI32 False]"

definition builtins_system :: "(string \<times> function_info) list" where
  "builtins_system =
     [builtin ''glob_match'' [(''pattern'', BcStr), (''text'', BcStr)] BcBool True,
      builtin ''sha256'' [(''data'', BcStr)] BcStr False,
      builtin ''is_tty'' [] BcBool True,
      builtin ''env_set'' [(''name'', BcStr), (''value'', BcStr)] (BcResult BcStr BcStr) False,
      builtin ''env_delete'' [(''name'', BcStr)] (BcResult BcStr BcStr) False]"

definition builtins_canvas :: "(string \<times> function_info) list" where
  "builtins_canvas =
     [builtin ''canvas_open'' [(''width'', BcI32), (''height'', BcI32), (''title'', BcStr)] (BcResult BcStr BcStr) False,
      builtin ''canvas_close'' [] BcUnit False,
      builtin ''canvas_alive'' [] BcBool False,
      builtin ''canvas_flush'' [] BcUnit False,
      builtin ''canvas_clear'' [(''color'', BcI32)] BcUnit False,
      builtin ''canvas_width'' [] BcI32 False,
      builtin ''canvas_height'' [] BcI32 False,
      builtin ''canvas_scale'' [] BcI32 False,
      builtin ''canvas_resized'' [] BcBool False,
      builtin ''canvas_set_icon'' [(''pixels'', (BcArray BcI32)), (''w'', BcI32), (''h'', BcI32)] (BcResult BcStr BcStr) False]"

definition builtins_drawing_1 :: "(string \<times> function_info) list" where
  "builtins_drawing_1 =
     [builtin ''gfx_pixel'' [(''x'', BcI32), (''y'', BcI32), (''color'', BcI32)] BcUnit False,
      builtin ''gfx_get_pixel'' [(''x'', BcI32), (''y'', BcI32)] BcI32 False,
      builtin ''gfx_line'' [(''x0'', BcI32), (''y0'', BcI32), (''x1'', BcI32), (''y1'', BcI32), (''color'', BcI32)] BcUnit False,
      builtin ''gfx_rect'' [(''x'', BcI32), (''y'', BcI32), (''w'', BcI32), (''h'', BcI32), (''color'', BcI32)] BcUnit False,
      builtin ''gfx_fill_rect'' [(''x'', BcI32), (''y'', BcI32), (''w'', BcI32), (''h'', BcI32), (''color'', BcI32)] BcUnit False,
      builtin ''gfx_circle'' [(''cx'', BcI32), (''cy'', BcI32), (''r'', BcI32), (''color'', BcI32)] BcUnit False,
      builtin ''gfx_fill_circle'' [(''cx'', BcI32), (''cy'', BcI32), (''r'', BcI32), (''color'', BcI32)] BcUnit False,
      builtin ''gfx_draw_text'' [(''x'', BcI32), (''y'', BcI32), (''text'', BcStr), (''color'', BcI32), (''font'', BcI32)] BcI32 False,
      builtin ''gfx_draw_text_scaled'' [(''x'', BcI32), (''y'', BcI32), (''text'', BcStr), (''color'', BcI32), (''sx'', BcI32), (''sy'', BcI32), (''font'', BcI32)] BcI32 False,
      builtin ''gfx_text_width'' [(''text'', BcStr), (''font'', BcI32)] BcI32 True]"

definition builtins_drawing_2 :: "(string \<times> function_info) list" where
  "builtins_drawing_2 =
     [builtin ''gfx_blit'' [(''dx'', BcI32), (''dy'', BcI32), (''w'', BcI32), (''h'', BcI32), (''pixels'', (BcArray BcI32))] BcUnit False,
      builtin ''gfx_blit_alpha'' [(''dx'', BcI32), (''dy'', BcI32), (''w'', BcI32), (''h'', BcI32), (''pixels'', (BcArray BcI32))] BcUnit False]"

definition builtins_input_color :: "(string \<times> function_info) list" where
  "builtins_input_color =
     [builtin ''canvas_key'' [] BcI32 False,
      builtin ''canvas_mouse_x'' [] BcI32 False,
      builtin ''canvas_mouse_y'' [] BcI32 False,
      builtin ''canvas_mouse_btn'' [] BcI32 False,
      builtin ''canvas_wheel'' [] BcI32 False,
      builtin ''clipboard_set'' [(''text'', BcStr)] BcI32 False,
      builtin ''clipboard_get'' [] (BcResult BcStr BcStr) False,
      builtin ''rgb'' [(''r'', BcI32), (''g'', BcI32), (''b'', BcI32)] BcI32 True,
      builtin ''rgba'' [(''r'', BcI32), (''g'', BcI32), (''b'', BcI32), (''a'', BcI32)] BcI32 True]"

definition builtins_image_font :: "(string \<times> function_info) list" where
  "builtins_image_font =
     [builtin ''img_load'' [(''data'', BcStr)] (BcResult (BcArray BcI32) BcStr) False,
      builtin ''svg_load'' [(''data'', BcStr), (''width'', BcI32), (''height'', BcI32)] (BcResult (BcArray BcI32) BcStr) False,
      builtin ''tt_load'' [(''data'', BcStr)] (BcResult BcHandle BcStr) False,
      builtin ''tt_free'' [(''font'', BcHandle)] BcUnit False,
      builtin ''tt_ascent'' [(''font'', BcHandle), (''pixel_height'', BcF64)] BcI32 False,
      builtin ''tt_descent'' [(''font'', BcHandle), (''pixel_height'', BcF64)] BcI32 False,
      builtin ''tt_line_gap'' [(''font'', BcHandle), (''pixel_height'', BcF64)] BcI32 False,
      builtin ''tt_line_height'' [(''font'', BcHandle), (''pixel_height'', BcF64)] BcI32 False,
      builtin ''tt_text_width'' [(''font'', BcHandle), (''text'', BcStr), (''pixel_height'', BcF64)] BcI32 False,
      builtin ''tt_draw_text'' [(''x'', BcI32), (''y'', BcI32), (''text'', BcStr), (''font'', BcHandle), (''pixel_height'', BcF64), (''color'', BcI32)] BcI32 False]"

definition builtins_map_str_str :: "(string \<times> function_info) list" where
  "builtins_map_str_str =
     [builtin ''map_new'' [] BcMap False,
      builtin ''map_set'' [(''m'', BcMap), (''key'', BcStr), (''value'', BcStr)] BcUnit False,
      builtin ''map_get'' [(''m'', BcMap), (''key'', BcStr)] BcStr False,
      builtin ''map_has'' [(''m'', BcMap), (''key'', BcStr)] BcBool True,
      builtin ''map_delete'' [(''m'', BcMap), (''key'', BcStr)] BcUnit False,
      builtin ''map_len'' [(''m'', BcMap)] BcI32 True]"

definition builtins_map_str_i32 :: "(string \<times> function_info) list" where
  "builtins_map_str_i32 =
     [builtin ''map_str_i32_new'' [] BcMapStrI32 False,
      builtin ''map_str_i32_set'' [(''m'', BcMapStrI32), (''key'', BcStr), (''value'', BcI32)] BcUnit False,
      builtin ''map_str_i32_get'' [(''m'', BcMapStrI32), (''key'', BcStr)] BcI32 False,
      builtin ''map_str_i32_has'' [(''m'', BcMapStrI32), (''key'', BcStr)] BcBool True,
      builtin ''map_str_i32_delete'' [(''m'', BcMapStrI32), (''key'', BcStr)] BcUnit False,
      builtin ''map_str_i32_len'' [(''m'', BcMapStrI32)] BcI32 True]"

definition builtins_map_str_i64 :: "(string \<times> function_info) list" where
  "builtins_map_str_i64 =
     [builtin ''map_str_i64_new'' [] BcMapStrI64 False,
      builtin ''map_str_i64_set'' [(''m'', BcMapStrI64), (''key'', BcStr), (''value'', BcI64)] BcUnit False,
      builtin ''map_str_i64_get'' [(''m'', BcMapStrI64), (''key'', BcStr)] BcI64 False,
      builtin ''map_str_i64_has'' [(''m'', BcMapStrI64), (''key'', BcStr)] BcBool True,
      builtin ''map_str_i64_delete'' [(''m'', BcMapStrI64), (''key'', BcStr)] BcUnit False,
      builtin ''map_str_i64_len'' [(''m'', BcMapStrI64)] BcI32 True]"

definition builtins_map_str_f64 :: "(string \<times> function_info) list" where
  "builtins_map_str_f64 =
     [builtin ''map_str_f64_new'' [] BcMapStrF64 False,
      builtin ''map_str_f64_set'' [(''m'', BcMapStrF64), (''key'', BcStr), (''value'', BcF64)] BcUnit False,
      builtin ''map_str_f64_get'' [(''m'', BcMapStrF64), (''key'', BcStr)] BcF64 False,
      builtin ''map_str_f64_has'' [(''m'', BcMapStrF64), (''key'', BcStr)] BcBool True,
      builtin ''map_str_f64_delete'' [(''m'', BcMapStrF64), (''key'', BcStr)] BcUnit False,
      builtin ''map_str_f64_len'' [(''m'', BcMapStrF64)] BcI32 True]"

definition builtins_map_i32_str :: "(string \<times> function_info) list" where
  "builtins_map_i32_str =
     [builtin ''map_i32_str_new'' [] BcMapI32Str False,
      builtin ''map_i32_str_set'' [(''m'', BcMapI32Str), (''key'', BcI32), (''value'', BcStr)] BcUnit False,
      builtin ''map_i32_str_get'' [(''m'', BcMapI32Str), (''key'', BcI32)] BcStr False,
      builtin ''map_i32_str_has'' [(''m'', BcMapI32Str), (''key'', BcI32)] BcBool False,
      builtin ''map_i32_str_delete'' [(''m'', BcMapI32Str), (''key'', BcI32)] BcUnit False,
      builtin ''map_i32_str_len'' [(''m'', BcMapI32Str)] BcI32 True]"

definition builtins_map_i32_i32 :: "(string \<times> function_info) list" where
  "builtins_map_i32_i32 =
     [builtin ''map_i32_i32_new'' [] BcMapI32I32 False,
      builtin ''map_i32_i32_set'' [(''m'', BcMapI32I32), (''key'', BcI32), (''value'', BcI32)] BcUnit False,
      builtin ''map_i32_i32_get'' [(''m'', BcMapI32I32), (''key'', BcI32)] BcI32 False,
      builtin ''map_i32_i32_has'' [(''m'', BcMapI32I32), (''key'', BcI32)] BcBool False,
      builtin ''map_i32_i32_delete'' [(''m'', BcMapI32I32), (''key'', BcI32)] BcUnit False,
      builtin ''map_i32_i32_len'' [(''m'', BcMapI32I32)] BcI32 True]"

definition builtins_whole_file :: "(string \<times> function_info) list" where
  "builtins_whole_file =
     [builtin ''read_file'' [(''path'', BcStr)] (BcResult BcStr BcStr) False,
      builtin ''write_file'' [(''path'', BcStr), (''data'', BcStr)] (BcResult BcStr BcStr) False]"

definition builtins_min_max :: "(string \<times> function_info) list" where
  "builtins_min_max =
     [builtin ''min_i32'' [(''a'', BcI32), (''b'', BcI32)] BcI32 True,
      builtin ''max_i32'' [(''a'', BcI32), (''b'', BcI32)] BcI32 True,
      builtin ''clamp_i32'' [(''v'', BcI32), (''lo'', BcI32), (''hi'', BcI32)] BcI32 True,
      builtin ''min_i64'' [(''a'', BcI64), (''b'', BcI64)] BcI64 True,
      builtin ''max_i64'' [(''a'', BcI64), (''b'', BcI64)] BcI64 True,
      builtin ''clamp_i64'' [(''v'', BcI64), (''lo'', BcI64), (''hi'', BcI64)] BcI64 True,
      builtin ''min_f64'' [(''a'', BcF64), (''b'', BcF64)] BcF64 True,
      builtin ''max_f64'' [(''a'', BcF64), (''b'', BcF64)] BcF64 True,
      builtin ''clamp_f64'' [(''v'', BcF64), (''lo'', BcF64), (''hi'', BcF64)] BcF64 True]"

definition builtins_join_path :: "(string \<times> function_info) list" where
  "builtins_join_path =
     [builtin ''str_join'' [(''arr'', (BcArray BcStr)), (''sep'', BcStr)] BcStr False,
      builtin ''path_basename'' [(''path'', BcStr)] BcStr True,
      builtin ''path_dirname'' [(''path'', BcStr)] BcStr False]"

definition builtin_table :: "(string \<times> function_info) list" where
  "builtin_table =
     builtins_io @
     builtins_string @
     builtins_math @
     builtins_bitwise_conversion @
     builtins_file @
     builtins_socket @
     builtins_tls_args @
     builtins_character @
     builtins_number_time @
     builtins_environment @
     builtins_filesystem @
     builtins_string_ops @
     builtins_process_terminal @
     builtins_misc_sort @
     builtins_chars_time @
     builtins_system @
     builtins_canvas @
     builtins_drawing_1 @
     builtins_drawing_2 @
     builtins_input_color @
     builtins_image_font @
     builtins_map_str_str @
     builtins_map_str_i32 @
     builtins_map_str_i64 @
     builtins_map_str_f64 @
     builtins_map_i32_str @
     builtins_map_i32_i32 @
     builtins_whole_file @
     builtins_min_max @
     builtins_join_path"

lemmas builtin_groups =
  builtins_io_def
  builtins_string_def
  builtins_math_def
  builtins_bitwise_conversion_def
  builtins_file_def
  builtins_socket_def
  builtins_tls_args_def
  builtins_character_def
  builtins_number_time_def
  builtins_environment_def
  builtins_filesystem_def
  builtins_string_ops_def
  builtins_process_terminal_def
  builtins_misc_sort_def
  builtins_chars_time_def
  builtins_system_def
  builtins_canvas_def
  builtins_drawing_1_def
  builtins_drawing_2_def
  builtins_input_color_def
  builtins_image_font_def
  builtins_map_str_str_def
  builtins_map_str_i32_def
  builtins_map_str_i64_def
  builtins_map_str_f64_def
  builtins_map_i32_str_def
  builtins_map_i32_i32_def
  builtins_whole_file_def
  builtins_min_max_def
  builtins_join_path_def

text \<open>Inserting one after the other: a later entry of the same name would win.\<close>

definition register_builtins :: "string \<rightharpoonup> function_info" where
  "register_builtins = map_of (rev builtin_table)"

section \<open>The entries mention no declared type\<close>

fun closed_type :: "bc_type \<Rightarrow> bool" where
  "closed_type (BcStruct _) = False"
| "closed_type (BcEnum _) = False"
| "closed_type (BcArray t) = closed_type t"
| "closed_type (BcFixedArray t _) = closed_type t"
| "closed_type (BcResult a b) \<longleftrightarrow> closed_type a \<and> closed_type b"
| "closed_type (BcFnPtr ps r _) \<longleftrightarrow> list_all closed_type ps \<and> closed_type r"
| "closed_type _ = True"

definition closed_function :: "function_info \<Rightarrow> bool" where
  "closed_function fi \<longleftrightarrow>
     list_all (\<lambda>p. closed_type (snd p)) (fi_params fi) \<and> closed_type (fi_return_type fi)"

lemma builtins_closed: "list_all (\<lambda>entry. closed_function (snd entry)) builtin_table"
  by code_simp

end
