(* ===== verification/Analyzer.thy ===== *)
theory Analyzer
  imports Errors Collection Builtins
begin

text \<open>
  The state of the semantic analyzer of \<open>src/src/semantic.rs\<close> and its helpers: scopes and
  bindings, the reading of type expressions, fields and elements, the operators, and the
  patterns of \<open>match\<close>.

  The vector of scopes is a list with the innermost scope first, so \<open>push_scope\<close> is
  \<open>Cons\<close> and the last element of the vector is the head. A \<open>HashMap\<close> is a map. An
  \<open>unwrap\<close> of an absent value is the outcome \<open>Panicked\<close>.
\<close>

record binding_info =
  bi_ty :: bc_type
  bi_is_mut :: bool

type_synonym scope = "string \<rightharpoonup> binding_info"

record analyzer =
  an_structs :: "string \<rightharpoonup> struct_info"
  an_enums :: "string \<rightharpoonup> enum_info"
  an_functions :: "string \<rightharpoonup> function_info"
  an_constants :: "string \<rightharpoonup> const_info"
  an_scopes :: "scope list"
  an_current_fn_return_type :: "bc_type option"
  an_in_pure_fn :: bool
  an_loop_depth :: nat

section \<open>Scopes and bindings\<close>

definition push_scope :: "analyzer \<Rightarrow> analyzer" where
  "push_scope an = an\<lparr>an_scopes := Map.empty # an_scopes an\<rparr>"

definition pop_scope :: "analyzer \<Rightarrow> analyzer" where
  "pop_scope an = an\<lparr>an_scopes := tl (an_scopes an)\<rparr>"

definition enter_loop :: "analyzer \<Rightarrow> analyzer" where
  "enter_loop an = an\<lparr>an_loop_depth := an_loop_depth an + 1\<rparr>"

definition leave_loop :: "analyzer \<Rightarrow> analyzer" where
  "leave_loop an = an\<lparr>an_loop_depth := an_loop_depth an - 1\<rparr>"

definition reject_reserved_collection_name :: "string \<Rightarrow> span \<Rightarrow> failure + unit" where
  "reject_reserved_collection_name name sp =
     (if resolve_with_alias name \<noteq> None then reject sp (DeclMessage (ReservedCollectionName name))
      else Inr ())"

fun lookup_scopes :: "scope list \<Rightarrow> string \<Rightarrow> binding_info option" where
  "lookup_scopes [] name = None"
| "lookup_scopes (s # ss) name =
     (case s name of Some info \<Rightarrow> Some info | None \<Rightarrow> lookup_scopes ss name)"

definition lookup_var :: "analyzer \<Rightarrow> string \<Rightarrow> binding_info option" where
  "lookup_var an name = lookup_scopes (an_scopes an) name"

definition add_binding :: "string \<Rightarrow> bc_type \<Rightarrow> bool \<Rightarrow> span \<Rightarrow> analyzer \<Rightarrow> failure + analyzer" where
  "add_binding name ty is_mut sp an =
     and_then (reject_reserved_collection_name name sp) (\<lambda>_.
     if list_ex (\<lambda>scope. scope name \<noteq> None) (an_scopes an)
     then reject sp (DeclMessage (ShadowsBinding name))
     else
       (case an_scopes an of
          [] \<Rightarrow> Inl Panicked
        | s # ss \<Rightarrow>
            Inr (an\<lparr>an_scopes := s(name \<mapsto> \<lparr>bi_ty = ty, bi_is_mut = is_mut\<rparr>) # ss\<rparr>)))"

section \<open>Types\<close>

fun primitive_bc_type :: "primitive_type \<Rightarrow> bc_type" where
  "primitive_bc_type PrimI32 = BcI32"
| "primitive_bc_type PrimI64 = BcI64"
| "primitive_bc_type PrimF64 = BcF64"
| "primitive_bc_type PrimBool = BcBool"
| "primitive_bc_type PrimStr = BcStr"
| "primitive_bc_type PrimUnit = BcUnit"
| "primitive_bc_type PrimHandle = BcHandle"
| "primitive_bc_type PrimMap = BcMap"
| "primitive_bc_type PrimMapStrI32 = BcMapStrI32"
| "primitive_bc_type PrimMapStrI64 = BcMapStrI64"
| "primitive_bc_type PrimMapStrF64 = BcMapStrF64"
| "primitive_bc_type PrimMapI32Str = BcMapI32Str"
| "primitive_bc_type PrimMapI32I32 = BcMapI32I32"

fun resolve_type :: "analyzer \<Rightarrow> ast_type \<Rightarrow> failure + bc_type"
and resolve_types :: "analyzer \<Rightarrow> ast_type list \<Rightarrow> failure + bc_type list" where
  "resolve_type an (TyPrimitive p _) = Inr (primitive_bc_type p)"
| "resolve_type an (TyNamed name sp) =
     (if an_structs an name \<noteq> None then Inr (BcStruct name)
      else if an_enums an name \<noteq> None then Inr (BcEnum name)
      else reject sp (DeclMessage (UndefinedType name)))"
| "resolve_type an (TyFixedArray elem sz sp) =
     and_then (resolve_type an elem) (\<lambda>e.
     if e = BcHandle then reject sp (DeclMessage HandleInArray)
     else Inr (BcFixedArray e sz))"
| "resolve_type an (TyDynamicArray elem sp) =
     and_then (resolve_type an elem) (\<lambda>e.
     if e = BcHandle then reject sp (DeclMessage HandleInArray)
     else Inr (BcArray e))"
| "resolve_type an (TyResult ok err _) =
     and_then (resolve_type an ok) (\<lambda>o'.
     and_then (resolve_type an err) (\<lambda>e.
     Inr (BcResult o' e)))"
| "resolve_type an (TyFnPtr params ret pure _) =
     and_then (resolve_types an params) (\<lambda>param_types.
     and_then (resolve_type an ret) (\<lambda>ret_type.
     Inr (BcFnPtr param_types ret_type pure)))"
| "resolve_types an [] = Inr []"
| "resolve_types an (t # ts) =
     and_then (resolve_type an t) (\<lambda>ty.
     and_then (resolve_types an ts) (\<lambda>tys.
     Inr (ty # tys)))"

definition field_type :: "analyzer \<Rightarrow> bc_type \<Rightarrow> string \<Rightarrow> span \<Rightarrow> failure + bc_type" where
  "field_type an ty field sp =
     (case ty of
        BcStruct name \<Rightarrow>
          (case an_structs an name of
             None \<Rightarrow> reject sp (AggregateMessage (UndefinedStruct name))
           | Some info \<Rightarrow>
               (case map_of (si_fields info) field of
                  None \<Rightarrow> reject sp (AggregateMessage (NoSuchField name field))
                | Some t \<Rightarrow> Inr t))
      | _ \<Rightarrow> reject sp (ExprMessage (FieldNonStruct ty)))"

definition element_type :: "bc_type \<Rightarrow> span \<Rightarrow> failure + bc_type" where
  "element_type ty sp =
     (case ty of
        BcArray e \<Rightarrow> Inr e
      | BcFixedArray e _ \<Rightarrow> Inr e
      | _ \<Rightarrow> reject sp (ExprMessage (IndexNonArray ty)))"

definition types_compatible :: "bc_type \<Rightarrow> bc_type \<Rightarrow> bool" where
  "types_compatible actual expected = is_compatible_with actual expected"

definition join_compatible_types :: "bc_type \<Rightarrow> bc_type \<Rightarrow> bc_type option \<Rightarrow> bc_type option" where
  "join_compatible_types left right expected = compatible_join left right expected"

definition infer_result_type :: "analyzer \<Rightarrow> bc_type option \<Rightarrow> bc_type option" where
  "infer_result_type an expected =
     (case expected of
        Some (BcResult a b) \<Rightarrow> Some (BcResult a b)
      | _ \<Rightarrow>
          (case an_current_fn_return_type an of
             Some (BcResult a b) \<Rightarrow> Some (BcResult a b)
           | _ \<Rightarrow> None))"

section \<open>Operators and casts\<close>

definition is_integer :: "bc_type \<Rightarrow> bool" where
  "is_integer t \<longleftrightarrow> t \<in> {BcI32, BcI64}"

definition is_numeric :: "bc_type \<Rightarrow> bool" where
  "is_numeric t \<longleftrightarrow> t \<in> {BcI32, BcI64, BcF64}"

definition arithmetic_type :: "bc_type \<Rightarrow> bc_type \<Rightarrow> span \<Rightarrow> failure + bc_type" where
  "arithmetic_type lt rt sp =
     (if lt \<noteq> rt then reject sp (ExprMessage (BinaryMismatch lt rt))
      else if is_numeric lt then Inr lt
      else reject sp (ExprMessage (ArithmeticUnsupported lt)))"

definition modulo_type :: "bc_type \<Rightarrow> bc_type \<Rightarrow> span \<Rightarrow> failure + bc_type" where
  "modulo_type lt rt sp =
     (if lt \<noteq> rt then reject sp (ExprMessage (ModuloMismatch lt rt))
      else if is_integer lt then Inr lt
      else reject sp (ExprMessage (ModuloUnsupported lt)))"

definition equality_type :: "bc_type \<Rightarrow> bc_type \<Rightarrow> span \<Rightarrow> failure + bc_type" where
  "equality_type lt rt sp =
     (if lt \<noteq> rt then reject sp (ExprMessage (EqualityMismatch lt rt)) else Inr BcBool)"

definition comparison_type :: "bc_type \<Rightarrow> bc_type \<Rightarrow> span \<Rightarrow> failure + bc_type" where
  "comparison_type lt rt sp =
     (if lt \<noteq> rt then reject sp (ExprMessage (ComparisonMismatch lt rt))
      else if is_numeric lt \<or> lt = BcStr then Inr BcBool
      else reject sp (ExprMessage (ComparisonUnsupported lt)))"

definition logical_type :: "bc_type \<Rightarrow> bc_type \<Rightarrow> span \<Rightarrow> failure + bc_type" where
  "logical_type lt rt sp =
     (if lt \<noteq> BcBool then reject sp (ExprMessage (LogicalOperand lt))
      else if rt \<noteq> BcBool then reject sp (ExprMessage (LogicalOperand rt))
      else Inr BcBool)"

text \<open>The arm of \<open>check_expr\<close> for binary operators, and the one for compound assignment.\<close>

fun binary_op_type :: "binop \<Rightarrow> bc_type \<Rightarrow> bc_type \<Rightarrow> span \<Rightarrow> failure + bc_type" where
  "binary_op_type OpAdd lt rt sp = arithmetic_type lt rt sp"
| "binary_op_type OpSub lt rt sp = arithmetic_type lt rt sp"
| "binary_op_type OpMul lt rt sp = arithmetic_type lt rt sp"
| "binary_op_type OpDiv lt rt sp = arithmetic_type lt rt sp"
| "binary_op_type OpMod lt rt sp = modulo_type lt rt sp"
| "binary_op_type OpEq lt rt sp = equality_type lt rt sp"
| "binary_op_type OpNeq lt rt sp = equality_type lt rt sp"
| "binary_op_type OpLt lt rt sp = comparison_type lt rt sp"
| "binary_op_type OpGt lt rt sp = comparison_type lt rt sp"
| "binary_op_type OpLtEq lt rt sp = comparison_type lt rt sp"
| "binary_op_type OpGtEq lt rt sp = comparison_type lt rt sp"
| "binary_op_type OpAnd lt rt sp = logical_type lt rt sp"
| "binary_op_type OpOr lt rt sp = logical_type lt rt sp"

definition check_binary_op_types ::
  "binop \<Rightarrow> bc_type \<Rightarrow> bc_type \<Rightarrow> span \<Rightarrow> failure + bc_type" where
  "check_binary_op_types op' lt rt sp =
     (if op' \<in> {OpAdd, OpSub, OpMul, OpDiv} then arithmetic_type lt rt sp
      else if op' = OpMod then modulo_type lt rt sp
      else reject sp (StmtMessage (CompoundUnsupported op')))"

fun unary_op_type :: "unop \<Rightarrow> bc_type \<Rightarrow> span \<Rightarrow> failure + bc_type" where
  "unary_op_type OpNeg t sp =
     (if is_numeric t then Inr t else reject sp (ExprMessage (NegationUnsupported t)))"
| "unary_op_type OpNot t sp =
     (if t \<noteq> BcBool then reject sp (ExprMessage (NotOperand t)) else Inr BcBool)"

definition valid_cast :: "bc_type \<Rightarrow> bc_type \<Rightarrow> bool" where
  "valid_cast from' to \<longleftrightarrow>
     (from', to) \<in> {(BcI32, BcI64), (BcI64, BcI32), (BcI32, BcF64), (BcI64, BcF64),
                   (BcF64, BcI32), (BcF64, BcI64), (BcHandle, BcI64), (BcI64, BcHandle)}"

definition i32_min :: int where "i32_min = - (2 ^ 31)"
definition i32_max :: int where "i32_max = 2 ^ 31 - 1"

definition int_literal_type :: "int \<Rightarrow> span \<Rightarrow> failure + bc_type" where
  "int_literal_type v sp =
     (if v < i32_min \<or> v > i32_max then reject sp (ExprMessage IntegerOutOfRange) else Inr BcI32)"

section \<open>Names used as values\<close>

definition ident_type :: "analyzer \<Rightarrow> string \<Rightarrow> span \<Rightarrow> failure + bc_type" where
  "ident_type an name sp =
     (case lookup_var an name of
        Some info \<Rightarrow> Inr (bi_ty info)
      | None \<Rightarrow>
          (case an_constants an name of
             Some info \<Rightarrow> Inr (ci_ty info)
           | None \<Rightarrow>
               (case an_functions an name of
                  Some fi \<Rightarrow>
                    if fi_is_extern fi then reject sp (ExprMessage (ExternAsValue name))
                    else Inr (BcFnPtr (map snd (fi_params fi)) (fi_return_type fi) (fi_is_pure fi))
                | None \<Rightarrow> reject sp (ExprMessage (UndefinedVariable name)))))"

text \<open>The variable at the root of a place or of an argument that is to be mutated.\<close>

fun base_name :: "expr \<Rightarrow> string option" where
  "base_name (EIdent name _) = Some name"
| "base_name (EFieldAccess e _ _) = base_name e"
| "base_name (EIndex e _ _) = base_name e"
| "base_name _ = None"

definition require_mutable_collection_target ::
  "analyzer \<Rightarrow> string \<Rightarrow> expr \<Rightarrow> failure + unit" where
  "require_mutable_collection_target an called_name e =
     (case base_name e of
        None \<Rightarrow> reject (expr_span e) (CallMessage (NeedsMutableBinding called_name))
      | Some name \<Rightarrow>
          (case lookup_var an name of
             None \<Rightarrow> reject (expr_span e) (CallMessage (NeedsMutableBinding called_name))
           | Some info \<Rightarrow>
               if bi_is_mut info then Inr ()
               else reject (expr_span e) (CallMessage (ImmutableCollectionBinding called_name name))))"

fun is_index :: "place_accessor \<Rightarrow> bool" where
  "is_index (AccIndex _) = True"
| "is_index (AccField _) = False"

text \<open>The head of an assignment: the target exists, and is mutable unless it is indexed.\<close>

definition assignable :: "analyzer \<Rightarrow> place \<Rightarrow> span \<Rightarrow> failure + bc_type" where
  "assignable an target sp =
     and_then
       (ok_or (lookup_var an (pl_name target))
          (Rejected (compile_error_new sp (StmtMessage (UndefinedAssignTarget (pl_name target))))))
       (\<lambda>target_info.
     if \<not> bi_is_mut target_info \<and> \<not> list_ex is_index (pl_accessors target)
     then reject sp (StmtMessage (AssignImmutable (pl_name target)))
     else Inr (bi_ty target_info))"

section \<open>Patterns\<close>

definition check_pattern_compat ::
  "analyzer \<Rightarrow> pattern \<Rightarrow> bc_type \<Rightarrow> string set \<Rightarrow> span \<Rightarrow> failure + string set" where
  "check_pattern_compat an pat scrut_ty seen sp =
     (case pat of
        PWildcard _ \<Rightarrow> Inr seen
      | PIdent _ _ \<Rightarrow> Inr seen
      | PIntLit _ _ \<Rightarrow>
          if \<not> is_integer scrut_ty then reject sp (MatchMessage (IntegerPattern scrut_ty)) else Inr seen
      | PFloatLit _ _ \<Rightarrow>
          if scrut_ty \<noteq> BcF64 then reject sp (MatchMessage (FloatPattern scrut_ty)) else Inr seen
      | PStringLit _ _ \<Rightarrow>
          if scrut_ty \<noteq> BcStr then reject sp (MatchMessage (StringPattern scrut_ty)) else Inr seen
      | PBoolLit _ _ \<Rightarrow>
          if scrut_ty \<noteq> BcBool then reject sp (MatchMessage (BoolPattern scrut_ty)) else Inr seen
      | PEnum enum_name variant bindings pat_span \<Rightarrow>
          if enum_name = ''Result'' then
            if variant = ''Ok'' \<or> variant = ''Err'' then
              if length bindings \<noteq> 1 then reject pat_span (MatchMessage (ResultPatternArity variant))
              else Inr (insert variant seen)
            else reject pat_span (MatchMessage (ResultPatternNoVariant variant))
          else
            (case scrut_ty of
               BcEnum ename \<Rightarrow>
                 if enum_name \<noteq> ename
                 then reject pat_span (MatchMessage (PatternEnumMismatch enum_name ename))
                 else
                   (case an_enums an ename of
                      None \<Rightarrow> reject pat_span (MatchMessage (PatternUndefinedEnum ename))
                    | Some info \<Rightarrow>
                        (case map_of (ei_variants info) variant of
                           None \<Rightarrow> reject pat_span (MatchMessage (PatternNoVariant ename variant))
                         | Some payload \<Rightarrow>
                             if length bindings \<noteq> length payload
                             then reject pat_span
                               (MatchMessage (PatternArity ename variant (length payload) (length bindings)))
                             else Inr (insert variant seen)))
             | _ \<Rightarrow> reject pat_span (MatchMessage (EnumPatternOnNonEnum scrut_ty))))"

text \<open>Only an identifier directly below a constructor pattern binds; nested patterns do not.\<close>

fun bind_payload :: "pattern list \<Rightarrow> bc_type list \<Rightarrow> analyzer \<Rightarrow> failure + analyzer" where
  "bind_payload (PIdent name bspan # ps) (t # ts) an =
     and_then (add_binding name t False bspan an) (\<lambda>an. bind_payload ps ts an)"
| "bind_payload (p # ps) (t # ts) an = bind_payload ps ts an"
| "bind_payload ps ts an = Inr an"

definition bind_pattern_vars ::
  "pattern \<Rightarrow> bc_type \<Rightarrow> span \<Rightarrow> analyzer \<Rightarrow> failure + analyzer" where
  "bind_pattern_vars pat scrut_ty sp an =
     (case pat of
        PIdent name ispan \<Rightarrow> add_binding name scrut_ty False ispan an
      | PEnum enum_name variant bindings _ \<Rightarrow>
          if enum_name = ''Result'' then
            (case scrut_ty of
               BcResult ok_ty err_ty \<Rightarrow>
                 if variant = ''Ok'' \<or> variant = ''Err'' then
                   bind_payload (take 1 bindings) [if variant = ''Ok'' then ok_ty else err_ty] an
                 else reject sp (MatchMessage (ResultPatternNoVariant variant))
             | _ \<Rightarrow> reject sp (MatchMessage ResultPatternOnNonResult))
          else
            (case scrut_ty of
               BcEnum ename \<Rightarrow>
                 (case an_enums an ename of
                    None \<Rightarrow> Inl Panicked
                  | Some info \<Rightarrow>
                      (case map_of (ei_variants info) variant of
                         None \<Rightarrow> Inl Panicked
                       | Some payload \<Rightarrow> bind_payload bindings payload an))
             | _ \<Rightarrow> Inr an)
      | _ \<Rightarrow> Inr an)"

end
