(* ===== verification/Interpolation.thy ===== *)
theory Interpolation
  imports Analyzer
begin

text \<open>
  The check that the expressions inside an interpolated string call no impure function:
  \<open>ensure_interpolation_expr_pure\<close> and \<open>ensure_interpolation_block_pure\<close> of
  \<open>src/src/semantic.rs\<close>. The statements of a block are a function of their own here; the
  code matches on them inside its loop.
\<close>

definition for_all :: "('x \<Rightarrow> failure + unit) \<Rightarrow> 'x list \<Rightarrow> failure + unit" where
  "for_all f xs = each (\<lambda>x _. f x) xs ()"

lemma for_all_cong [fundef_cong]:
  "xs = ys \<Longrightarrow> (\<And>x. x \<in> set ys \<Longrightarrow> f x = g x) \<Longrightarrow> for_all f xs = for_all g ys"
  unfolding for_all_def by (rule each_cong) auto

lemma for_all_simps [simp]:
  "for_all f [] = Inr ()"
  "for_all f (x # xs) = and_then (f x) (\<lambda>_. for_all f xs)"
  by (simp_all add: for_all_def)

lemma for_all_Inr: "for_all f xs = Inr u \<longleftrightarrow> (\<forall>x \<in> set xs. f x = Inr ())"
  by (induction xs) (auto simp: and_then_eq_Inr)

definition impure_in_interpolation :: "analyzer \<Rightarrow> string \<Rightarrow> bool" where
  "impure_in_interpolation an name \<longleftrightarrow>
     name = ''push'' \<or> name = ''pop'' \<or>
     (case resolve_with_alias name of Some i \<Rightarrow> \<not> is_pure i | None \<Rightarrow> False) \<or>
     (case lookup_var an name of
        Some info \<Rightarrow> (case bi_ty info of BcFnPtr _ _ pure \<Rightarrow> \<not> pure | _ \<Rightarrow> False)
      | None \<Rightarrow> False) \<or>
     name \<noteq> ''len'' \<and>
     (case an_functions an name of
        Some func \<Rightarrow> \<not> fi_is_pure func \<or> fi_is_extern func
      | None \<Rightarrow> False)"

function (sequential) ensure_interpolation_expr_pure :: "analyzer \<Rightarrow> expr \<Rightarrow> failure + unit"
and ensure_interpolation_stmt_pure :: "analyzer \<Rightarrow> stmt \<Rightarrow> failure + unit"
and ensure_interpolation_block_pure :: "analyzer \<Rightarrow> block \<Rightarrow> failure + unit" where
  "ensure_interpolation_expr_pure an (EInterpolatedString parts sp) =
     for_all (\<lambda>part. case part of
         IText _ \<Rightarrow> Inr ()
       | IExpr e \<Rightarrow> ensure_interpolation_expr_pure an e) parts"
| "ensure_interpolation_expr_pure an (EBinaryOp op' left right sp) =
     and_then (ensure_interpolation_expr_pure an left) (\<lambda>_.
     ensure_interpolation_expr_pure an right)"
| "ensure_interpolation_expr_pure an (EUnaryOp op' operand sp) =
     ensure_interpolation_expr_pure an operand"
| "ensure_interpolation_expr_pure an (ECast e ty sp) = ensure_interpolation_expr_pure an e"
| "ensure_interpolation_expr_pure an (ECall callee args sp) =
     (case callee of
        EIdent name _ \<Rightarrow>
          if impure_in_interpolation an name
          then reject sp (ExprMessage (InterpolationImpureCall name))
          else for_all (\<lambda>a. ensure_interpolation_expr_pure an a) args
      | _ \<Rightarrow> reject sp (CallMessage ExpectedFunctionName))"
| "ensure_interpolation_expr_pure an (EFieldAccess e field sp) =
     ensure_interpolation_expr_pure an e"
| "ensure_interpolation_expr_pure an (EIndex e index sp) =
     and_then (ensure_interpolation_expr_pure an e) (\<lambda>_.
     ensure_interpolation_expr_pure an index)"
| "ensure_interpolation_expr_pure an (EBlock block) = ensure_interpolation_block_pure an block"
| "ensure_interpolation_expr_pure an (EIf condition then_block else_branch sp) =
     and_then (ensure_interpolation_expr_pure an condition) (\<lambda>_.
     and_then (ensure_interpolation_block_pure an then_block) (\<lambda>_.
     case else_branch of
       Some e \<Rightarrow> ensure_interpolation_expr_pure an e
     | None \<Rightarrow> Inr ()))"
| "ensure_interpolation_expr_pure an (EMatch scrutinee arms sp) =
     and_then (ensure_interpolation_expr_pure an scrutinee) (\<lambda>_.
     for_all (\<lambda>arm. case arm of MatchArm _ body _ \<Rightarrow> ensure_interpolation_expr_pure an body) arms)"
| "ensure_interpolation_expr_pure an (ETry call sp) = ensure_interpolation_expr_pure an call"
| "ensure_interpolation_expr_pure an (EArrayLit elements sp) =
     for_all (\<lambda>e. ensure_interpolation_expr_pure an e) elements"
| "ensure_interpolation_expr_pure an (EStructLit name inits sp) =
     for_all (\<lambda>fi. case fi of FieldInit _ v _ \<Rightarrow> ensure_interpolation_expr_pure an v) inits"
| "ensure_interpolation_expr_pure an (EEnumConstructor enum_name variant args sp) =
     for_all (\<lambda>a. ensure_interpolation_expr_pure an a) args"
| "ensure_interpolation_expr_pure an (EArena body sp) = ensure_interpolation_block_pure an body"
| "ensure_interpolation_expr_pure an (EIntLit v sp) = Inr ()"
| "ensure_interpolation_expr_pure an (EFloatLit f sp) = Inr ()"
| "ensure_interpolation_expr_pure an (EStringLit s sp) = Inr ()"
| "ensure_interpolation_expr_pure an (EBoolLit b sp) = Inr ()"
| "ensure_interpolation_expr_pure an (EIdent name sp) = Inr ()"
| "ensure_interpolation_stmt_pure an (SLet name is_mut ty val sp) =
     ensure_interpolation_expr_pure an val"
| "ensure_interpolation_stmt_pure an (SAssign target val sp) =
     ensure_interpolation_expr_pure an val"
| "ensure_interpolation_stmt_pure an (SCompoundAssign target op' val sp) =
     ensure_interpolation_expr_pure an val"
| "ensure_interpolation_stmt_pure an (SExpr e sp) = ensure_interpolation_expr_pure an e"
| "ensure_interpolation_stmt_pure an (SWhile condition body sp) =
     and_then (ensure_interpolation_expr_pure an condition) (\<lambda>_.
     ensure_interpolation_block_pure an body)"
| "ensure_interpolation_stmt_pure an (SFor var start end_expr body sp) =
     and_then (ensure_interpolation_expr_pure an start) (\<lambda>_.
     and_then (ensure_interpolation_expr_pure an end_expr) (\<lambda>_.
     ensure_interpolation_block_pure an body))"
| "ensure_interpolation_stmt_pure an (SForIn var iterable body sp) =
     and_then (ensure_interpolation_expr_pure an iterable) (\<lambda>_.
     ensure_interpolation_block_pure an body)"
| "ensure_interpolation_stmt_pure an (SReturn val sp) =
     (case val of
        Some e \<Rightarrow> ensure_interpolation_expr_pure an e
      | None \<Rightarrow> Inr ())"
| "ensure_interpolation_stmt_pure an (SBreak sp) = Inr ()"
| "ensure_interpolation_stmt_pure an (SContinue sp) = Inr ()"
| "ensure_interpolation_stmt_pure an (SDefer e sp) = ensure_interpolation_expr_pure an e"
| "ensure_interpolation_block_pure an (Block stmts tail sp) =
     and_then (for_all (\<lambda>s. ensure_interpolation_stmt_pure an s) stmts) (\<lambda>_.
     case tail of
       Some e \<Rightarrow> ensure_interpolation_expr_pure an e
     | None \<Rightarrow> Inr ())"
  by pat_completeness auto
termination by lexicographic_order

end
