(* ===== verification/Calls.thy ===== *)
theory Calls
  imports Interpolation
begin

text \<open>
  The parts of \<open>check_expr\<close> and \<open>check_stmt\<close> of \<open>src/src/semantic.rs\<close> that check calls,
  aggregates, blocks, loops and \<open>match\<close>. They recurse only through the checker of
  expressions and the checker of statements, which are their parameters \<open>ce\<close> and \<open>cs\<close>; the
  theory \<open>Checker\<close> closes the recursion. Indexing \<open>args[i]\<close> out of range is \<open>Panicked\<close>.
\<close>

type_synonym 'a checked = "failure + ('a \<times> analyzer)"
type_synonym expr_checker = "expr \<Rightarrow> bc_type option \<Rightarrow> analyzer \<Rightarrow> bc_type checked"
type_synonym stmt_checker = "stmt \<Rightarrow> analyzer \<Rightarrow> failure + analyzer"

definition with_arg :: "expr list \<Rightarrow> nat \<Rightarrow> (expr \<Rightarrow> failure + 'a) \<Rightarrow> failure + 'a" where
  "with_arg args i f = (if i < length args then f (args ! i) else Inl Panicked)"

section \<open>Arguments\<close>

definition check_collection_arg ::
  "expr_checker \<Rightarrow> expr \<Rightarrow> bc_type \<Rightarrow> string \<Rightarrow> nat \<Rightarrow> analyzer \<Rightarrow> failure + analyzer" where
  "check_collection_arg ce arg expected called_name position an =
     and_then (ce arg (Some expected) an) (\<lambda>(actual, an).
     if types_compatible actual expected then Inr an
     else reject (expr_span arg) (CallMessage (ArgumentMismatch position called_name expected actual)))"

text \<open>
  The loop over \<open>args.iter().zip(expected.iter())\<close>, which ends at the end of the shorter
  list; \<open>mk\<close> makes the message from the position and the two types.
\<close>

fun check_args ::
  "expr_checker \<Rightarrow> (nat \<Rightarrow> bc_type \<Rightarrow> bc_type \<Rightarrow> message) \<Rightarrow> nat \<Rightarrow> expr list \<Rightarrow> bc_type list \<Rightarrow>
     analyzer \<Rightarrow> failure + analyzer" where
  "check_args ce mk i (a # as) (t # ts) an =
     and_then (ce a (Some t) an) (\<lambda>(actual, an).
     if types_compatible actual t then check_args ce mk (Suc i) as ts an
     else reject (expr_span a) (mk i t actual))"
| "check_args ce mk i as ts an = Inr an"

section \<open>Collection intrinsics\<close>

definition collection_result ::
  "expr_checker \<Rightarrow> collection_intrinsic \<Rightarrow> string \<Rightarrow> expr list \<Rightarrow> bc_type \<Rightarrow> bc_type \<Rightarrow>
     analyzer \<Rightarrow> bc_type checked" where
  "collection_result ce i called_name args first_ty elem_ty an =
     (let arg = (\<lambda>n ty an. with_arg args n (\<lambda>a. check_collection_arg ce a ty called_name (n + 1) an));
          elem_arg = (\<lambda>ret. and_then (arg 1 elem_ty an) (\<lambda>an. Inr (ret, an)));
          callback_arg = (\<lambda>n an.
            case callback_type i of
              Some (Some cb) \<Rightarrow> arg n cb an
            | _ \<Rightarrow> Inl Panicked);
          callback_ret = (\<lambda>ret. and_then (callback_arg 1 an) (\<lambda>an. Inr (ret, an)))
      in case co_op i of
           CoClone \<Rightarrow> Inr (first_ty, an)
         | CoReverse \<Rightarrow> Inr (BcUnit, an)
         | CoClear \<Rightarrow> Inr (BcUnit, an)
         | CoSort \<Rightarrow> Inr (BcUnit, an)
         | CoFill \<Rightarrow> elem_arg BcUnit
         | CoSwap \<Rightarrow>
             and_then (arg 1 BcI32 an) (\<lambda>an.
             and_then (arg 2 BcI32 an) (\<lambda>an. Inr (BcUnit, an)))
         | CoExtend \<Rightarrow>
             with_arg args 1 (\<lambda>a.
             and_then (ce a (Some (BcArray elem_ty)) an) (\<lambda>(source_ty, an).
             case array_element_type source_ty of
               None \<Rightarrow> reject (expr_span a) (CallMessage (ExtendSource called_name source_ty))
             | Some source_elem \<Rightarrow>
                 if types_compatible source_elem elem_ty then Inr (BcUnit, an)
                 else reject (expr_span a) (CallMessage (ExtendElement called_name elem_ty source_elem))))
         | CoInsert \<Rightarrow>
             and_then (arg 1 BcI32 an) (\<lambda>an.
             and_then (arg 2 elem_ty an) (\<lambda>an. Inr (BcUnit, an)))
         | CoRemoveAt \<Rightarrow> and_then (arg 1 BcI32 an) (\<lambda>an. Inr (elem_ty, an))
         | CoSlice \<Rightarrow>
             and_then (arg 1 BcI32 an) (\<lambda>an.
             and_then (arg 2 BcI32 an) (\<lambda>an. Inr (BcArray elem_ty, an)))
         | CoContains \<Rightarrow> elem_arg BcBool
         | CoIndexOf \<Rightarrow> elem_arg BcI32
         | CoLastIndexOf \<Rightarrow> elem_arg BcI32
         | CoCount \<Rightarrow> elem_arg BcI32
         | CoCompare \<Rightarrow>
             with_arg args 1 (\<lambda>a.
             and_then (ce a (Some (BcArray elem_ty)) an) (\<lambda>(other_ty, an).
             if array_element_type other_ty \<noteq> Some elem_ty
             then reject (expr_span a) (CallMessage (CompareElement called_name))
             else Inr (BcI32, an)))
         | CoAny \<Rightarrow> callback_ret BcBool
         | CoAll \<Rightarrow> callback_ret BcBool
         | CoMap \<Rightarrow>
             and_then (callback_arg 1 an) (\<lambda>an.
             case co_target i of
               None \<Rightarrow> Inl Panicked
             | Some t \<Rightarrow> Inr (BcArray (core_bc_type t), an))
         | CoFilter \<Rightarrow> callback_ret (BcArray elem_ty)
         | CoForEach \<Rightarrow> callback_ret BcUnit
         | CoFold \<Rightarrow>
             and_then (arg 1 elem_ty an) (\<lambda>an.
             and_then (callback_arg 2 an) (\<lambda>an. Inr (elem_ty, an)))
         | CoRepeat \<Rightarrow> Inl Panicked)"

definition check_collection_call ::
  "expr_checker \<Rightarrow> collection_intrinsic \<Rightarrow> string \<Rightarrow> expr list \<Rightarrow> span \<Rightarrow> analyzer \<Rightarrow>
     bc_type checked" where
  "check_collection_call ce i called_name args sp an =
     (if length args \<noteq> arity i
      then reject sp (CallMessage (CallArity called_name (arity i) (length args)))
      else if an_in_pure_fn an \<and> \<not> is_pure i
      then reject sp (CallMessage (PureCallsImpure called_name))
      else
        and_then
          (if is_mutating i
           then with_arg args 0 (require_mutable_collection_target an called_name)
           else Inr ()) (\<lambda>_.
        with_arg args 0 (\<lambda>arg0.
        if co_op i = CoRepeat then
          and_then (ce arg0 None an) (\<lambda>(elem_ty, an).
          and_then (with_arg args 1 (\<lambda>a. check_collection_arg ce a BcI32 called_name 2 an)) (\<lambda>an.
          Inr (BcArray elem_ty, an)))
        else
          let expected_source = map_option core_bc_type (co_source i) in
          and_then (ce arg0 (map_option BcArray expected_source) an) (\<lambda>(first_ty, an).
          case array_element_type first_ty of
            None \<Rightarrow> reject (expr_span arg0) (CallMessage (CollectionNotArray called_name first_ty))
          | Some elem_ty \<Rightarrow>
              if requires_dynamic_array i \<and> first_ty \<noteq> BcArray elem_ty
              then reject (expr_span arg0) (CallMessage (CollectionNotDynamic called_name first_ty))
              else
                (case expected_source of
                   Some expected \<Rightarrow>
                     if elem_ty \<noteq> expected
                     then reject (expr_span arg0)
                       (CallMessage (CollectionArrayOf called_name expected first_ty))
                     else collection_result ce i called_name args first_ty elem_ty an
                 | None \<Rightarrow> collection_result ce i called_name args first_ty elem_ty an)))))"

section \<open>Calls\<close>

definition check_len :: "expr_checker \<Rightarrow> expr list \<Rightarrow> span \<Rightarrow> analyzer \<Rightarrow> bc_type checked" where
  "check_len ce args sp an =
     (if length args \<noteq> 1 then reject sp (CallMessage LenArity)
      else
        with_arg args 0 (\<lambda>arr.
        and_then (ce arr None an) (\<lambda>(arr_ty, an).
        case array_element_type arr_ty of
          Some _ \<Rightarrow> Inr (BcI32, an)
        | None \<Rightarrow> reject sp (CallMessage (LenType arr_ty)))))"

definition check_push :: "expr_checker \<Rightarrow> expr list \<Rightarrow> span \<Rightarrow> analyzer \<Rightarrow> bc_type checked" where
  "check_push ce args sp an =
     (if an_in_pure_fn an then reject sp (CallMessage PurePush)
      else if length args \<noteq> 2 then reject sp (CallMessage PushArity)
      else
        with_arg args 0 (\<lambda>arr.
        and_then (require_mutable_collection_target an ''push'' arr) (\<lambda>_.
        and_then (ce arr None an) (\<lambda>(arr_ty, an).
        case arr_ty of
          BcArray elem_ty \<Rightarrow>
            with_arg args 1 (\<lambda>v.
            and_then (ce v (Some elem_ty) an) (\<lambda>(val_ty, an).
            if \<not> types_compatible val_ty elem_ty
            then reject (expr_span v) (CallMessage (PushElement elem_ty val_ty))
            else Inr (BcUnit, an)))
        | _ \<Rightarrow> reject sp (CallMessage (PushType arr_ty))))))"

definition check_pop :: "expr_checker \<Rightarrow> expr list \<Rightarrow> span \<Rightarrow> analyzer \<Rightarrow> bc_type checked" where
  "check_pop ce args sp an =
     (if an_in_pure_fn an then reject sp (CallMessage PurePop)
      else if length args \<noteq> 1 then reject sp (CallMessage PopArity)
      else
        with_arg args 0 (\<lambda>arr.
        and_then (require_mutable_collection_target an ''pop'' arr) (\<lambda>_.
        and_then (ce arr None an) (\<lambda>(arr_ty, an).
        case arr_ty of
          BcArray elem_ty \<Rightarrow> Inr (elem_ty, an)
        | _ \<Rightarrow> reject sp (CallMessage (PopType arr_ty))))))"

definition check_pointer_call ::
  "expr_checker \<Rightarrow> string \<Rightarrow> bc_type \<Rightarrow> expr list \<Rightarrow> span \<Rightarrow> analyzer \<Rightarrow> bc_type checked" where
  "check_pointer_call ce name ty args sp an =
     (case ty of
        BcFnPtr param_types ret_type pure \<Rightarrow>
          if length args \<noteq> length param_types
          then reject sp (CallMessage (FnPtrArity name (length param_types) (length args)))
          else
            and_then
              (check_args ce (\<lambda>i e a. CallMessage (ArgumentMismatch (i + 1) name e a)) 0 args param_types an)
              (\<lambda>an.
            if an_in_pure_fn an \<and> \<not> pure
            then reject sp (CallMessage (PureCallsImpurePointer name))
            else Inr (ret_type, an))
      | _ \<Rightarrow> reject sp (CallMessage (NotAFunction name)))"

definition check_function_call ::
  "expr_checker \<Rightarrow> string \<Rightarrow> expr list \<Rightarrow> span \<Rightarrow> analyzer \<Rightarrow> bc_type checked" where
  "check_function_call ce name args sp an =
     (case an_functions an name of
        None \<Rightarrow> reject sp (CallMessage (UndefinedFunction name))
      | Some func \<Rightarrow>
          if an_in_pure_fn an \<and> (\<not> fi_is_pure func \<or> fi_is_extern func)
          then reject sp (CallMessage (PureCallsImpure name))
          else if length args \<noteq> length (fi_params func)
          then reject sp (CallMessage (CallArity name (length (fi_params func)) (length args)))
          else
            and_then
              (check_args ce (\<lambda>i e a. CallMessage (ArgumentMismatch (i + 1) name e a)) 0 args
                (map snd (fi_params func)) an)
              (\<lambda>an. Inr (fi_return_type func, an)))"

definition check_call ::
  "expr_checker \<Rightarrow> expr \<Rightarrow> expr list \<Rightarrow> span \<Rightarrow> analyzer \<Rightarrow> bc_type checked" where
  "check_call ce callee args sp an =
     (case callee of
        EIdent name _ \<Rightarrow>
          (case resolve_with_alias name of
             Some i \<Rightarrow> check_collection_call ce i name args sp an
           | None \<Rightarrow>
               if name = ''len'' then check_len ce args sp an
               else if name = ''push'' then check_push ce args sp an
               else if name = ''pop'' then check_pop ce args sp an
               else
                 (case lookup_var an name of
                    Some info \<Rightarrow> check_pointer_call ce name (bi_ty info) args sp an
                  | None \<Rightarrow> check_function_call ce name args sp an))
      | _ \<Rightarrow> reject sp (CallMessage ExpectedFunctionName))"

section \<open>Aggregates\<close>

definition check_array_lit ::
  "expr_checker \<Rightarrow> expr list \<Rightarrow> span \<Rightarrow> bc_type option \<Rightarrow> analyzer \<Rightarrow> bc_type checked" where
  "check_array_lit ce elements sp expected an =
     (case elements of
        [] \<Rightarrow>
          (case expected of
             Some (BcArray elem) \<Rightarrow> Inr (BcArray elem, an)
           | Some (BcFixedArray elem _) \<Rightarrow> Inr (BcArray elem, an)
           | _ \<Rightarrow> reject sp (ExprMessage EmptyArrayElement))
      | e # es \<Rightarrow>
          and_then (ce e None an) (\<lambda>(first_ty, an).
          and_then
            (each (\<lambda>e an.
               and_then (ce e None an) (\<lambda>(ty, an).
               if ty \<noteq> first_ty
               then reject (expr_span e) (ExprMessage (ArrayElementMismatch first_ty ty))
               else Inr an)) es an) (\<lambda>an.
          Inr
            (case expected of
               Some (BcFixedArray elem sz) \<Rightarrow>
                 if elem = first_ty \<and> sz = int (length elements) then BcFixedArray first_ty sz
                 else BcArray first_ty
             | _ \<Rightarrow> BcArray first_ty, an))))"

definition check_field_init ::
  "expr_checker \<Rightarrow> string \<Rightarrow> struct_info \<Rightarrow> field_init \<Rightarrow> string set \<times> analyzer \<Rightarrow>
     failure + string set \<times> analyzer" where
  "check_field_init ce name info fi st =
     (case (fi, st) of
        (FieldInit fname val sp, provided, an) \<Rightarrow>
          if fname \<in> provided then reject sp (AggregateMessage (DuplicateField fname))
          else
            (case map_of (si_fields info) fname of
               None \<Rightarrow> reject sp (AggregateMessage (NoSuchField name fname))
             | Some expected \<Rightarrow>
                 and_then (ce val (Some expected) an) (\<lambda>(actual, an).
                 if \<not> types_compatible actual expected
                 then reject sp (AggregateMessage (FieldMismatch fname expected actual))
                 else Inr (insert fname provided, an))))"

definition check_struct_lit ::
  "expr_checker \<Rightarrow> string \<Rightarrow> field_init list \<Rightarrow> span \<Rightarrow> analyzer \<Rightarrow> bc_type checked" where
  "check_struct_lit ce name inits sp an =
     (case an_structs an name of
        None \<Rightarrow> reject sp (AggregateMessage (UndefinedStruct name))
      | Some info \<Rightarrow>
          and_then (each (check_field_init ce name info) inits ({}, an)) (\<lambda>(provided, an).
          let missing = filter (\<lambda>n. n \<notin> provided) (map fst (si_fields info)) in
          if missing \<noteq> [] then reject sp (AggregateMessage (MissingFields missing))
          else Inr (BcStruct name, an)))"

definition check_result_payload ::
  "expr_checker \<Rightarrow> expr \<Rightarrow> bc_type option \<Rightarrow> (bc_type \<Rightarrow> bc_type \<Rightarrow> message) \<Rightarrow> analyzer \<Rightarrow>
     bc_type checked" where
  "check_result_payload ce arg payload mk an =
     (case payload of
        Some ty \<Rightarrow>
          and_then (ce arg (Some ty) an) (\<lambda>(actual, an).
          if \<not> types_compatible actual ty then reject (expr_span arg) (mk ty actual)
          else Inr (ty, an))
      | None \<Rightarrow> ce arg None an)"

definition check_result_constructor ::
  "expr_checker \<Rightarrow> string \<Rightarrow> expr list \<Rightarrow> span \<Rightarrow> bc_type option \<Rightarrow> analyzer \<Rightarrow> bc_type checked" where
  "check_result_constructor ce variant args sp expected an =
     (if variant = ''Ok'' then
        if length args \<noteq> 1 then reject sp (AggregateMessage ResultOkArity)
        else
          with_arg args 0 (\<lambda>arg.
          case infer_result_type an expected of
            Some (BcResult ok_ty err_ty) \<Rightarrow>
              and_then
                (check_result_payload ce arg (Some ok_ty)
                  (\<lambda>e a. AggregateMessage (ResultOkMismatch e a)) an)
                (\<lambda>(val_ty, an). Inr (BcResult val_ty err_ty, an))
          | _ \<Rightarrow>
              and_then
                (check_result_payload ce arg None
                  (\<lambda>e a. AggregateMessage (ResultOkMismatch e a)) an)
                (\<lambda>_. reject sp (AggregateMessage ResultNoErrorType)))
      else if variant = ''Err'' then
        if length args \<noteq> 1 then reject sp (AggregateMessage ResultErrArity)
        else
          with_arg args 0 (\<lambda>arg.
          case infer_result_type an expected of
            Some (BcResult ok_ty err_ty) \<Rightarrow>
              and_then
                (check_result_payload ce arg (Some err_ty)
                  (\<lambda>e a. AggregateMessage (ResultErrMismatch e a)) an)
                (\<lambda>(err_val_ty, an). Inr (BcResult ok_ty err_val_ty, an))
          | _ \<Rightarrow>
              and_then
                (check_result_payload ce arg None
                  (\<lambda>e a. AggregateMessage (ResultErrMismatch e a)) an)
                (\<lambda>_. reject sp (AggregateMessage ResultNoOkType)))
      else reject sp (AggregateMessage (ResultNoVariant variant)))"

definition check_enum_constructor ::
  "expr_checker \<Rightarrow> string \<Rightarrow> string \<Rightarrow> expr list \<Rightarrow> span \<Rightarrow> bc_type option \<Rightarrow> analyzer \<Rightarrow>
     bc_type checked" where
  "check_enum_constructor ce enum_name variant args sp expected an =
     (if enum_name = ''Result'' then check_result_constructor ce variant args sp expected an
      else
        (case an_enums an enum_name of
           None \<Rightarrow> reject sp (AggregateMessage (UndefinedEnum enum_name))
         | Some info \<Rightarrow>
             (case map_of (ei_variants info) variant of
                None \<Rightarrow> reject sp (AggregateMessage (NoSuchVariant enum_name variant))
              | Some payload \<Rightarrow>
                  if length args \<noteq> length payload
                  then reject sp
                    (AggregateMessage (ConstructorArity enum_name variant (length payload) (length args)))
                  else
                    and_then
                      (check_args ce (\<lambda>i e a. AggregateMessage (ConstructorArgument e a)) 0 args payload an)
                      (\<lambda>an. Inr (BcEnum enum_name, an)))))"

section \<open>Interpolated strings\<close>

record interpolation =
  ip_rendered :: nat
  ip_needs_impure :: bool

definition check_interp_part ::
  "expr_checker \<Rightarrow> interp_part \<Rightarrow> interpolation \<times> analyzer \<Rightarrow> failure + interpolation \<times> analyzer" where
  "check_interp_part ce part st =
     (case (part, st) of
        (IText s, ip, an) \<Rightarrow>
          Inr (if s \<noteq> [] then ip\<lparr>ip_rendered := ip_rendered ip + 1\<rparr> else ip, an)
      | (IExpr e, ip, an) \<Rightarrow>
          and_then (ensure_interpolation_expr_pure an e) (\<lambda>_.
          and_then (ce e None an) (\<lambda>(ty, an).
          if ty = BcStr \<or> ty = BcBool \<or> is_numeric ty then
            Inr (ip\<lparr>ip_rendered := ip_rendered ip + 1,
                    ip_needs_impure := ip_needs_impure ip \<or> is_numeric ty\<rparr>, an)
          else reject (expr_span e) (ExprMessage (InterpolationType ty)))))"

definition check_interpolated_string ::
  "expr_checker \<Rightarrow> interp_part list \<Rightarrow> span \<Rightarrow> analyzer \<Rightarrow> bc_type checked" where
  "check_interpolated_string ce parts sp an =
     and_then (each (check_interp_part ce) parts (\<lparr>ip_rendered = 0, ip_needs_impure = False\<rparr>, an))
       (\<lambda>(ip, an).
     if an_in_pure_fn an \<and> (ip_needs_impure ip \<or> ip_rendered ip > 1)
     then reject sp (ExprMessage PureInterpolation)
     else Inr (BcStr, an))"

section \<open>Blocks and loops\<close>

definition check_block ::
  "stmt_checker \<Rightarrow> expr_checker \<Rightarrow> block \<Rightarrow> bc_type option \<Rightarrow> analyzer \<Rightarrow> bc_type checked" where
  "check_block cs ce block expected an =
     and_then (each cs (b_stmts block) (push_scope an)) (\<lambda>an.
     and_then
       (case b_tail_expr block of
          Some tail \<Rightarrow> ce tail expected an
        | None \<Rightarrow> Inr (BcUnit, an)) (\<lambda>(ty, an).
     Inr (ty, pop_scope an)))"

text \<open>The bodies of the two \<open>for\<close> loops share the scope of the loop variable.\<close>

definition check_for_body ::
  "stmt_checker \<Rightarrow> expr_checker \<Rightarrow> string \<Rightarrow> bc_type \<Rightarrow> span \<Rightarrow> block \<Rightarrow> analyzer \<Rightarrow>
     failure + analyzer" where
  "check_for_body cs ce var ty sp body an =
     and_then (add_binding var ty False sp (push_scope an)) (\<lambda>an.
     and_then (each cs (b_stmts body) (enter_loop an)) (\<lambda>an.
     and_then
       (case b_tail_expr body of
          Some tail \<Rightarrow> ce tail None an
        | None \<Rightarrow> Inr (BcUnit, an)) (\<lambda>(_, an).
     Inr (pop_scope (leave_loop an)))))"

definition check_while ::
  "stmt_checker \<Rightarrow> expr_checker \<Rightarrow> expr \<Rightarrow> block \<Rightarrow> span \<Rightarrow> analyzer \<Rightarrow> failure + analyzer" where
  "check_while cs ce condition body sp an =
     and_then (ce condition None an) (\<lambda>(cond_ty, an).
     if cond_ty \<noteq> BcBool then reject sp (StmtMessage (WhileCondition cond_ty))
     else
       and_then (check_block cs ce body None (enter_loop an)) (\<lambda>(_, an). Inr (leave_loop an)))"

definition check_for ::
  "stmt_checker \<Rightarrow> expr_checker \<Rightarrow> string \<Rightarrow> expr \<Rightarrow> expr \<Rightarrow> block \<Rightarrow> span \<Rightarrow> analyzer \<Rightarrow>
     failure + analyzer" where
  "check_for cs ce var start end_expr body sp an =
     and_then (ce start None an) (\<lambda>(start_ty, an).
     and_then (ce end_expr None an) (\<lambda>(end_ty, an).
     if start_ty \<noteq> BcI32 then reject sp (StmtMessage (ForStart start_ty))
     else if end_ty \<noteq> BcI32 then reject sp (StmtMessage (ForEnd end_ty))
     else check_for_body cs ce var BcI32 sp body an))"

definition check_for_in ::
  "stmt_checker \<Rightarrow> expr_checker \<Rightarrow> string \<Rightarrow> expr \<Rightarrow> block \<Rightarrow> span \<Rightarrow> analyzer \<Rightarrow>
     failure + analyzer" where
  "check_for_in cs ce var iterable body sp an =
     and_then (ce iterable None an) (\<lambda>(arr_ty, an).
     case array_element_type arr_ty of
       Some elem_ty \<Rightarrow> check_for_body cs ce var elem_ty sp body an
     | None \<Rightarrow> reject sp (StmtMessage (ForInArray arr_ty)))"

section \<open>Assignments, returns and deferred calls\<close>

definition check_accessor ::
  "expr_checker \<Rightarrow> bool \<Rightarrow> span \<Rightarrow> place_accessor \<Rightarrow> bc_type \<times> analyzer \<Rightarrow> bc_type checked" where
  "check_accessor ce plain sp acc st =
     (case (acc, st) of
        (AccField fname, ty, an) \<Rightarrow>
          and_then (field_type an ty fname sp) (\<lambda>ty. Inr (ty, an))
      | (AccIndex idx, ty, an) \<Rightarrow>
          if plain \<and> ty = BcStr then reject sp (StmtMessage AssignStringIndex)
          else
            and_then (ce idx None an) (\<lambda>(idx_ty, an).
            if idx_ty \<noteq> BcI32 then reject sp (ExprMessage (IndexNotI32 idx_ty))
            else and_then (element_type ty sp) (\<lambda>ty. Inr (ty, an))))"

definition check_place ::
  "expr_checker \<Rightarrow> bool \<Rightarrow> place \<Rightarrow> span \<Rightarrow> analyzer \<Rightarrow> bc_type checked" where
  "check_place ce plain target sp an =
     and_then (assignable an target sp) (\<lambda>ty.
     each (check_accessor ce plain sp) (pl_accessors target) (ty, an))"

definition check_assign ::
  "expr_checker \<Rightarrow> place \<Rightarrow> expr \<Rightarrow> span \<Rightarrow> analyzer \<Rightarrow> failure + analyzer" where
  "check_assign ce target val sp an =
     and_then (check_place ce True target sp an) (\<lambda>(ty, an).
     and_then (ce val (Some ty) an) (\<lambda>(val_ty, an).
     if \<not> types_compatible val_ty ty then reject sp (StmtMessage (AssignMismatch ty val_ty))
     else Inr an))"

definition check_compound_assign ::
  "expr_checker \<Rightarrow> place \<Rightarrow> binop \<Rightarrow> expr \<Rightarrow> span \<Rightarrow> analyzer \<Rightarrow> failure + analyzer" where
  "check_compound_assign ce target op' val sp an =
     and_then (check_place ce False target sp an) (\<lambda>(ty, an).
     and_then (ce val (Some ty) an) (\<lambda>(val_ty, an).
     and_then (check_binary_op_types op' ty val_ty sp) (\<lambda>_. Inr an)))"

definition check_let ::
  "expr_checker \<Rightarrow> string \<Rightarrow> bool \<Rightarrow> ast_type \<Rightarrow> expr \<Rightarrow> span \<Rightarrow> analyzer \<Rightarrow> failure + analyzer" where
  "check_let ce name is_mut ty val sp an =
     and_then (resolve_type an ty) (\<lambda>expected.
     and_then (ce val (Some expected) an) (\<lambda>(actual, an).
     if \<not> types_compatible actual expected
     then reject sp (StmtMessage (LetMismatch name expected actual))
     else add_binding name expected is_mut sp an))"

definition check_return ::
  "expr_checker \<Rightarrow> expr option \<Rightarrow> span \<Rightarrow> analyzer \<Rightarrow> failure + analyzer" where
  "check_return ce val sp an =
     (let fn_ret = (case an_current_fn_return_type an of Some t \<Rightarrow> t | None \<Rightarrow> BcUnit) in
      case val of
        Some e \<Rightarrow>
          and_then (ce e (Some fn_ret) an) (\<lambda>(ty, an).
          if \<not> types_compatible ty fn_ret then reject sp (StmtMessage (ReturnMismatch fn_ret ty))
          else Inr an)
      | None \<Rightarrow>
          if fn_ret \<noteq> BcUnit then reject sp (StmtMessage (ReturnWithoutValue fn_ret)) else Inr an)"

fun is_call :: "expr \<Rightarrow> bool" where
  "is_call (ECall _ _ _) = True"
| "is_call _ = False"

definition check_defer :: "expr_checker \<Rightarrow> expr \<Rightarrow> span \<Rightarrow> analyzer \<Rightarrow> failure + analyzer" where
  "check_defer ce e sp an =
     (if an_in_pure_fn an then reject sp (StmtMessage DeferInPure)
      else if \<not> is_call e then reject sp (StmtMessage DeferNotCall)
      else and_then (ce e None an) (\<lambda>(_, an). Inr an))"

section \<open>Branches\<close>

definition check_arena ::
  "stmt_checker \<Rightarrow> expr_checker \<Rightarrow> block \<Rightarrow> span \<Rightarrow> bc_type option \<Rightarrow> analyzer \<Rightarrow> bc_type checked" where
  "check_arena cs ce body sp expected an =
     (if an_in_pure_fn an then reject sp (ExprMessage ArenaInPure)
      else
        and_then (check_block cs ce body expected an) (\<lambda>(ty, an).
        if \<not> is_arena_safe ty then reject sp (ExprMessage (ArenaEscape ty)) else Inr (ty, an)))"

definition check_if ::
  "stmt_checker \<Rightarrow> expr_checker \<Rightarrow> expr \<Rightarrow> block \<Rightarrow> expr option \<Rightarrow> span \<Rightarrow> bc_type option \<Rightarrow> analyzer \<Rightarrow>
     bc_type checked" where
  "check_if cs ce condition then_block else_branch sp expected an =
     and_then (ce condition None an) (\<lambda>(cond_ty, an).
     if cond_ty \<noteq> BcBool then reject (expr_span condition) (ExprMessage (IfCondition cond_ty))
     else
       and_then (check_block cs ce then_block expected an) (\<lambda>(then_ty, an).
       case else_branch of
         Some else_expr \<Rightarrow>
           and_then (ce else_expr expected an) (\<lambda>(else_ty, an).
           case join_compatible_types then_ty else_ty expected of
             Some ty \<Rightarrow> Inr (ty, an)
           | None \<Rightarrow> reject sp (ExprMessage (IfElseMismatch then_ty else_ty)))
       | None \<Rightarrow>
           if then_ty \<noteq> BcUnit then reject sp (ExprMessage IfWithoutElse) else Inr (BcUnit, an)))"

definition check_try :: "expr_checker \<Rightarrow> expr \<Rightarrow> span \<Rightarrow> analyzer \<Rightarrow> bc_type checked" where
  "check_try ce call sp an =
     and_then (ce call None an) (\<lambda>(call_ty, an).
     case call_ty of
       BcResult ok_ty err_ty \<Rightarrow>
         (case an_current_fn_return_type an of
            Some (BcResult _ fn_err) \<Rightarrow>
              if \<not> types_compatible err_ty fn_err
              then reject sp (ExprMessage (TryErrorMismatch err_ty fn_err))
              else Inr (ok_ty, an)
          | _ \<Rightarrow> reject sp (ExprMessage TryOutsideResult))
     | _ \<Rightarrow> reject sp (ExprMessage (TryNotResult call_ty)))"

section \<open>Match\<close>

record match_state =
  ms_seen :: "string set"
  ms_wildcard :: bool
  ms_types :: "bc_type list"

fun is_catch_all :: "pattern \<Rightarrow> bool" where
  "is_catch_all (PWildcard _) = True"
| "is_catch_all (PIdent _ _) = True"
| "is_catch_all _ = False"

definition check_arm ::
  "expr_checker \<Rightarrow> bc_type \<Rightarrow> span \<Rightarrow> bc_type option \<Rightarrow> match_arm \<Rightarrow> match_state \<times> analyzer \<Rightarrow>
     failure + match_state \<times> analyzer" where
  "check_arm ce scrut_ty sp expected arm st =
     (case (arm, st) of
        (MatchArm pat body arm_span, ms, an) \<Rightarrow>
          and_then (check_pattern_compat an pat scrut_ty (ms_seen ms) sp) (\<lambda>seen.
          and_then (bind_pattern_vars pat scrut_ty arm_span (push_scope an)) (\<lambda>an.
          and_then (ce body expected an) (\<lambda>(arm_ty, an).
          Inr (\<lparr>ms_seen = seen, ms_wildcard = ms_wildcard ms \<or> is_catch_all pat,
                ms_types = ms_types ms @ [arm_ty]\<rparr>, pop_scope an)))))"

definition check_exhaustive ::
  "bc_type \<Rightarrow> span \<Rightarrow> match_state \<Rightarrow> analyzer \<Rightarrow> failure + unit" where
  "check_exhaustive scrut_ty sp ms an =
     (case scrut_ty of
        BcEnum name \<Rightarrow>
          if ms_wildcard ms then Inr ()
          else
            (case an_enums an name of
               None \<Rightarrow> Inl Panicked
             | Some info \<Rightarrow>
                 let missing = filter (\<lambda>n. n \<notin> ms_seen ms) (map fst (ei_variants info)) in
                 if missing \<noteq> [] then reject sp (MatchMessage (NonExhaustiveEnum name missing))
                 else Inr ())
      | BcResult _ _ \<Rightarrow>
          if \<not> ms_wildcard ms \<and> \<not> (''Ok'' \<in> ms_seen ms \<and> ''Err'' \<in> ms_seen ms)
          then reject sp (MatchMessage NonExhaustiveResult)
          else Inr ()
      | _ \<Rightarrow> Inr ())"

fun join_arms ::
  "bc_type option \<Rightarrow> bc_type \<Rightarrow> (match_arm \<times> bc_type) list \<Rightarrow> failure + bc_type" where
  "join_arms expected r [] = Inr r"
| "join_arms expected r ((MatchArm _ _ arm_span, ty) # rest) =
     (case join_compatible_types r ty expected of
        Some r' \<Rightarrow> join_arms expected r' rest
      | None \<Rightarrow> reject arm_span (MatchMessage (ArmMismatch r ty)))"

definition check_match ::
  "expr_checker \<Rightarrow> bc_type \<Rightarrow> match_arm list \<Rightarrow> span \<Rightarrow> bc_type option \<Rightarrow> analyzer \<Rightarrow>
     bc_type checked" where
  "check_match ce scrut_ty arms sp expected an =
     and_then
       (each (check_arm ce scrut_ty sp expected) arms
         (\<lparr>ms_seen = {}, ms_wildcard = False, ms_types = []\<rparr>, an)) (\<lambda>(ms, an).
     and_then (check_exhaustive scrut_ty sp ms an) (\<lambda>_.
     case ms_types ms of
       [] \<Rightarrow> Inr (BcUnit, an)
     | t # ts \<Rightarrow> and_then (join_arms expected t (zip (tl arms) ts)) (\<lambda>ty. Inr (ty, an))))"

end
