(* ===== verification/Checker.thy ===== *)
theory Checker
  imports Calls
begin

text \<open>
  \<open>check_expr\<close> and \<open>check_stmt\<close> of \<open>src/src/semantic.rs\<close>. The parts that live in the
  theory \<open>Calls\<close> call back only on the subexpressions and substatements they are given; the
  congruence rules below state this, one per part, and are what the termination proof needs.
\<close>

section \<open>Sizes of the parts of a block and a place\<close>

lemma size_block_stmt [termination_simp]: "s \<in> set (b_stmts block) \<Longrightarrow> size s < size block"
  by (cases block) (auto simp: less_Suc_eq_le intro: trans_le_add1 size_list_estimation')

lemma size_block_tail [termination_simp]: "b_tail_expr block = Some e \<Longrightarrow> size e < size block"
  by (cases block) auto

lemma size_place_index [termination_simp]:
  "AccIndex e \<in> set (pl_accessors target) \<Longrightarrow> size e < size target"
  by (cases target) (auto simp: less_Suc_eq_le intro: size_list_estimation')

section \<open>The parts call back on their arguments only\<close>

lemma with_arg_cong:
  "(\<And>a. a \<in> set args \<Longrightarrow> f a = g a) \<Longrightarrow> with_arg args i f = with_arg args i g"
  by (simp add: with_arg_def)

lemma check_collection_arg_cong:
  "(\<And>ex an. ce a ex an = ce' a ex an) \<Longrightarrow>
     check_collection_arg ce a ty n p an = check_collection_arg ce' a ty n p an"
  by (simp add: check_collection_arg_def)

lemma check_args_cong:
  "(\<And>a ex an. a \<in> set args \<Longrightarrow> ce a ex an = ce' a ex an) \<Longrightarrow>
     check_args ce mk i args tys an = check_args ce' mk i args tys an"
  by (induction ce mk i args tys an rule: check_args.induct)
    (auto intro!: and_then_cong split: prod.split)

lemmas arg_congs = and_then_cong with_arg_cong check_collection_arg_cong

lemma collection_result_cong:
  assumes "\<And>a ex an. a \<in> set args \<Longrightarrow> ce a ex an = ce' a ex an"
  shows "collection_result ce i n args t el an = collection_result ce' i n args t el an"
proof -
  have arg: "with_arg args k (\<lambda>a. check_collection_arg ce a ty n p an) =
      with_arg args k (\<lambda>a. check_collection_arg ce' a ty n p an)" for k ty p an
    by (intro with_arg_cong check_collection_arg_cong assms)
  show ?thesis
    unfolding collection_result_def Let_def arg
    by (cases "co_op i") (auto intro!: with_arg_cong and_then_cong simp: assms)
qed

lemma check_collection_call_cong:
  assumes "\<And>a ex an. a \<in> set args \<Longrightarrow> ce a ex an = ce' a ex an"
  shows "check_collection_call ce i n args sp an = check_collection_call ce' i n args sp an"
proof -
  have arg: "with_arg args k (\<lambda>a. check_collection_arg ce a ty n p an) =
      with_arg args k (\<lambda>a. check_collection_arg ce' a ty n p an)" for k ty p an
    by (intro with_arg_cong check_collection_arg_cong assms)
  have res: "collection_result ce i n args t el an = collection_result ce' i n args t el an" for t el an
    by (rule collection_result_cong) (rule assms)
  show ?thesis
    unfolding check_collection_call_def Let_def arg res
    by (intro if_cong refl and_then_cong with_arg_cong) (simp_all add: assms)
qed

lemma check_call_cong [fundef_cong]:
  assumes "callee = callee'" "args = args'" "sp = sp'" "an = an'"
    and ce: "\<And>a ex an. a \<in> set args' \<Longrightarrow> ce a ex an = ce' a ex an"
  shows "check_call ce callee args sp an = check_call ce' callee' args' sp' an'"
proof -
  have "check_collection_call ce i n args' sp' an' = check_collection_call ce' i n args' sp' an'" for i n
    by (rule check_collection_call_cong) (rule ce)
  moreover have "check_args ce mk k args' tys an = check_args ce' mk k args' tys an" for mk k tys an
    by (rule check_args_cong) (rule ce)
  moreover have "check_len ce args' sp' an' = check_len ce' args' sp' an'"
    by (auto simp: check_len_def with_arg_def ce)
  moreover have "check_push ce args' sp' an' = check_push ce' args' sp' an'"
    by (auto simp: check_push_def with_arg_def ce intro!: and_then_cong split: bc_type.split)
  moreover have "check_pop ce args' sp' an' = check_pop ce' args' sp' an'"
    by (auto simp: check_pop_def with_arg_def ce)
  ultimately show ?thesis
    unfolding assms(1-4) check_call_def check_pointer_call_def check_function_call_def
    by (simp only:)
qed

lemma each_ce_cong:
  "(\<And>x s. x \<in> set xs \<Longrightarrow> f x s = g x s) \<Longrightarrow> each f xs s = each g xs s"
  by (rule each_cong) auto

lemma check_array_lit_cong [fundef_cong]:
  assumes "es = es'" "sp = sp'" "ex = ex'" "an = an'"
    and ce: "\<And>a ex an. a \<in> set es' \<Longrightarrow> ce a ex an = ce' a ex an"
  shows "check_array_lit ce es sp ex an = check_array_lit ce' es' sp' ex' an'"
proof -
  have "each (\<lambda>e an. and_then (ce e None an) h) xs an = each (\<lambda>e an. and_then (ce' e None an) h) xs an"
    if "set xs \<subseteq> set es'" for h xs an
    using that by (intro each_ce_cong) (auto simp: ce)
  show ?thesis
    unfolding assms(1-4) check_array_lit_def
    by (cases es') (auto simp: ce intro!: and_then_cong each_ce_cong)
qed

lemma check_struct_lit_cong [fundef_cong]:
  assumes "name = name'" "inits = inits'" "sp = sp'" "an = an'"
    and ce: "\<And>n v s ex an. FieldInit n v s \<in> set inits' \<Longrightarrow> ce v ex an = ce' v ex an"
  shows "check_struct_lit ce name inits sp an = check_struct_lit ce' name' inits' sp' an'"
proof -
  have "each (check_field_init ce name' info) inits' st = each (check_field_init ce' name' info) inits' st"
    for info st
  proof (rule each_ce_cong)
    fix x s assume "x \<in> set inits'"
    then show "check_field_init ce name' info x s = check_field_init ce' name' info x s"
      by (cases x rule: field_init.exhaust) (auto simp: check_field_init_def ce split: prod.split option.split)
  qed
  then show ?thesis unfolding assms(1-4) check_struct_lit_def by (simp only:)
qed

lemma check_result_constructor_cong:
  assumes "\<And>a ex an. a \<in> set args \<Longrightarrow> ce a ex an = ce' a ex an"
  shows "check_result_constructor ce v args sp ex an = check_result_constructor ce' v args sp ex an"
proof -
  have "check_result_payload ce a p mk an = check_result_payload ce' a p mk an" if "a \<in> set args" for a p mk an
    using that by (simp add: check_result_payload_def assms split: option.split)
  then show ?thesis
    unfolding check_result_constructor_def
    by (intro if_cong refl with_arg_cong) (simp_all split: option.split bc_type.split)
qed

lemma check_enum_constructor_cong [fundef_cong]:
  assumes "en = en'" "v = v'" "args = args'" "sp = sp'" "ex = ex'" "an = an'"
    and ce: "\<And>a ex an. a \<in> set args' \<Longrightarrow> ce a ex an = ce' a ex an"
  shows "check_enum_constructor ce en v args sp ex an = check_enum_constructor ce' en' v' args' sp' ex' an'"
proof -
  have "check_args ce mk k args' tys an = check_args ce' mk k args' tys an" for mk k tys an
    by (rule check_args_cong) (rule ce)
  moreover have "check_result_constructor ce v' args' sp' ex' an' = check_result_constructor ce' v' args' sp' ex' an'"
    by (rule check_result_constructor_cong) (rule ce)
  ultimately show ?thesis unfolding assms(1-6) check_enum_constructor_def by (simp only:)
qed

lemma check_interpolated_string_cong [fundef_cong]:
  assumes "parts = parts'" "sp = sp'" "an = an'"
    and ce: "\<And>e ex an. IExpr e \<in> set parts' \<Longrightarrow> ce e ex an = ce' e ex an"
  shows "check_interpolated_string ce parts sp an = check_interpolated_string ce' parts' sp' an'"
proof -
  have "each (check_interp_part ce) parts' st = each (check_interp_part ce') parts' st" for st
  proof (rule each_ce_cong)
    fix x s assume "x \<in> set parts'"
    then show "check_interp_part ce x s = check_interp_part ce' x s"
      by (cases x rule: interp_part.exhaust) (auto simp: check_interp_part_def ce split: prod.split)
  qed
  then show ?thesis unfolding assms(1-3) check_interpolated_string_def by (simp only:)
qed

lemma check_block_cong [fundef_cong]:
  assumes "block = block'" "ex = ex'" "an = an'"
    and cs: "\<And>s an. s \<in> set (b_stmts block') \<Longrightarrow> cs s an = cs' s an"
    and ce: "\<And>e ex an. b_tail_expr block' = Some e \<Longrightarrow> ce e ex an = ce' e ex an"
  shows "check_block cs ce block ex an = check_block cs' ce' block' ex' an'"
  unfolding assms(1-3) check_block_def
  by (auto intro!: and_then_cong each_ce_cong simp: cs ce split: option.split)

lemma check_for_body_cong:
  assumes cs: "\<And>s an. s \<in> set (b_stmts block) \<Longrightarrow> cs s an = cs' s an"
    and ce: "\<And>e ex an. b_tail_expr block = Some e \<Longrightarrow> ce e ex an = ce' e ex an"
  shows "check_for_body cs ce var ty sp block an = check_for_body cs' ce' var ty sp block an"
  unfolding check_for_body_def
  by (auto intro!: and_then_cong each_ce_cong simp: cs ce split: option.split)

lemma check_while_cong [fundef_cong]:
  assumes "c = c'" "block = block'" "sp = sp'" "an = an'"
    and cs: "\<And>s an. s \<in> set (b_stmts block') \<Longrightarrow> cs s an = cs' s an"
    and ce: "\<And>e ex an. e = c' \<or> b_tail_expr block' = Some e \<Longrightarrow> ce e ex an = ce' e ex an"
  shows "check_while cs ce c block sp an = check_while cs' ce' c' block' sp' an'"
  unfolding assms(1-4) check_while_def
  by (auto intro!: and_then_cong check_block_cong simp: cs ce)

lemma check_for_cong [fundef_cong]:
  assumes "var = var'" "st = st'" "en = en'" "block = block'" "sp = sp'" "an = an'"
    and cs: "\<And>s an. s \<in> set (b_stmts block') \<Longrightarrow> cs s an = cs' s an"
    and ce: "\<And>e ex an. e = st' \<or> e = en' \<or> b_tail_expr block' = Some e \<Longrightarrow> ce e ex an = ce' e ex an"
  shows "check_for cs ce var st en block sp an = check_for cs' ce' var' st' en' block' sp' an'"
  unfolding assms(1-6) check_for_def
  by (auto intro!: and_then_cong check_for_body_cong simp: cs ce)

lemma check_for_in_cong [fundef_cong]:
  assumes "var = var'" "it = it'" "block = block'" "sp = sp'" "an = an'"
    and cs: "\<And>s an. s \<in> set (b_stmts block') \<Longrightarrow> cs s an = cs' s an"
    and ce: "\<And>e ex an. e = it' \<or> b_tail_expr block' = Some e \<Longrightarrow> ce e ex an = ce' e ex an"
  shows "check_for_in cs ce var it block sp an = check_for_in cs' ce' var' it' block' sp' an'"
  unfolding assms(1-5) check_for_in_def
  by (auto intro!: and_then_cong check_for_body_cong simp: cs ce split: option.split)

lemma check_place_cong:
  assumes "\<And>e ex an. AccIndex e \<in> set (pl_accessors target) \<Longrightarrow> ce e ex an = ce' e ex an"
  shows "check_place ce plain target sp an = check_place ce' plain target sp an"
proof -
  have "each (check_accessor ce plain sp) (pl_accessors target) st =
      each (check_accessor ce' plain sp) (pl_accessors target) st" for st
  proof (rule each_ce_cong)
    fix x s assume "x \<in> set (pl_accessors target)"
    then show "check_accessor ce plain sp x s = check_accessor ce' plain sp x s"
      by (cases x rule: place_accessor.exhaust)
        (auto simp: check_accessor_def assms split: prod.split)
  qed
  then show ?thesis unfolding check_place_def by (simp only:)
qed

lemma check_assign_cong [fundef_cong]:
  assumes "target = target'" "v = v'" "sp = sp'" "an = an'"
    and ce: "\<And>e ex an. e = v' \<or> AccIndex e \<in> set (pl_accessors target') \<Longrightarrow> ce e ex an = ce' e ex an"
  shows "check_assign ce target v sp an = check_assign ce' target' v' sp' an'"
  unfolding assms(1-4) check_assign_def
  by (auto intro!: and_then_cong check_place_cong simp: ce)

lemma check_compound_assign_cong [fundef_cong]:
  assumes "target = target'" "op' = op''" "v = v'" "sp = sp'" "an = an'"
    and ce: "\<And>e ex an. e = v' \<or> AccIndex e \<in> set (pl_accessors target') \<Longrightarrow> ce e ex an = ce' e ex an"
  shows "check_compound_assign ce target op' v sp an = check_compound_assign ce' target' op'' v' sp' an'"
  unfolding assms(1-5) check_compound_assign_def
  by (auto intro!: and_then_cong check_place_cong simp: ce)

lemma check_let_cong [fundef_cong]:
  assumes "name = name'" "m = m'" "ty = ty'" "v = v'" "sp = sp'" "an = an'"
    and "\<And>ex an. ce v' ex an = ce' v' ex an"
  shows "check_let ce name m ty v sp an = check_let ce' name' m' ty' v' sp' an'"
  using assms by (simp add: check_let_def)

lemma check_return_cong [fundef_cong]:
  assumes "v = v'" "sp = sp'" "an = an'"
    and "\<And>e ex an. v' = Some e \<Longrightarrow> ce e ex an = ce' e ex an"
  shows "check_return ce v sp an = check_return ce' v' sp' an'"
  using assms by (simp add: check_return_def split: option.split)

lemma check_defer_cong [fundef_cong]:
  assumes "e = e'" "sp = sp'" "an = an'" and "\<And>ex an. ce e' ex an = ce' e' ex an"
  shows "check_defer ce e sp an = check_defer ce' e' sp' an'"
  using assms by (simp add: check_defer_def)

lemma check_arena_cong [fundef_cong]:
  assumes "block = block'" "sp = sp'" "ex = ex'" "an = an'"
    and cs: "\<And>s an. s \<in> set (b_stmts block') \<Longrightarrow> cs s an = cs' s an"
    and ce: "\<And>e ex an. b_tail_expr block' = Some e \<Longrightarrow> ce e ex an = ce' e ex an"
  shows "check_arena cs ce block sp ex an = check_arena cs' ce' block' sp' ex' an'"
  unfolding assms(1-4) check_arena_def
  by (auto intro!: and_then_cong check_block_cong simp: cs ce)

lemma check_if_cong [fundef_cong]:
  assumes "c = c'" "block = block'" "els = els'" "sp = sp'" "ex = ex'" "an = an'"
    and cs: "\<And>s an. s \<in> set (b_stmts block') \<Longrightarrow> cs s an = cs' s an"
    and ce: "\<And>e ex an. e = c' \<or> els' = Some e \<or> b_tail_expr block' = Some e \<Longrightarrow> ce e ex an = ce' e ex an"
  shows "check_if cs ce c block els sp ex an = check_if cs' ce' c' block' els' sp' ex' an'"
  unfolding assms(1-6) check_if_def
  by (auto intro!: and_then_cong check_block_cong simp: cs ce split: option.split)

lemma check_try_cong [fundef_cong]:
  assumes "e = e'" "sp = sp'" "an = an'" and "\<And>ex an. ce e' ex an = ce' e' ex an"
  shows "check_try ce e sp an = check_try ce' e' sp' an'"
  using assms by (simp add: check_try_def)

lemma check_match_cong [fundef_cong]:
  assumes "ty = ty'" "arms = arms'" "sp = sp'" "ex = ex'" "an = an'"
    and ce: "\<And>p b s ex an. MatchArm p b s \<in> set arms' \<Longrightarrow> ce b ex an = ce' b ex an"
  shows "check_match ce ty arms sp ex an = check_match ce' ty' arms' sp' ex' an'"
proof -
  have "each (check_arm ce ty' sp' ex') arms' st = each (check_arm ce' ty' sp' ex') arms' st" for st
  proof (rule each_ce_cong)
    fix x s assume "x \<in> set arms'"
    then show "check_arm ce ty' sp' ex' x s = check_arm ce' ty' sp' ex' x s"
      by (cases x rule: match_arm.exhaust) (auto simp: check_arm_def ce split: prod.split)
  qed
  then show ?thesis unfolding assms(1-5) check_match_def by (simp only:)
qed

section \<open>Expressions and statements\<close>

function check_expr :: "expr \<Rightarrow> bc_type option \<Rightarrow> analyzer \<Rightarrow> bc_type checked"
and check_stmt :: "stmt \<Rightarrow> analyzer \<Rightarrow> failure + analyzer" where
  "check_expr (EIntLit v sp) expected an =
     and_then (int_literal_type v sp) (\<lambda>ty. Inr (ty, an))"
| "check_expr (EFloatLit v sp) expected an = Inr (BcF64, an)"
| "check_expr (EStringLit s sp) expected an = Inr (BcStr, an)"
| "check_expr (EInterpolatedString parts sp) expected an =
     check_interpolated_string (\<lambda>e ex an. check_expr e ex an) parts sp an"
| "check_expr (EBoolLit b sp) expected an = Inr (BcBool, an)"
| "check_expr (EIdent name sp) expected an =
     and_then (ident_type an name sp) (\<lambda>ty. Inr (ty, an))"
| "check_expr (EBinaryOp op' left right sp) expected an =
     and_then (check_expr left None an) (\<lambda>(lt, an).
     and_then (check_expr right None an) (\<lambda>(rt, an).
     and_then (binary_op_type op' lt rt sp) (\<lambda>ty. Inr (ty, an))))"
| "check_expr (EUnaryOp op' operand sp) expected an =
     and_then (check_expr operand None an) (\<lambda>(t, an).
     and_then (unary_op_type op' t sp) (\<lambda>ty. Inr (ty, an)))"
| "check_expr (ECast inner ty sp) expected an =
     and_then (check_expr inner None an) (\<lambda>(from', an).
     and_then (resolve_type an ty) (\<lambda>to.
     if \<not> valid_cast from' to then reject sp (ExprMessage (InvalidCast from' to))
     else Inr (to, an)))"
| "check_expr (ECall callee args sp) expected an =
     check_call (\<lambda>e ex an. check_expr e ex an) callee args sp an"
| "check_expr (EFieldAccess obj field sp) expected an =
     and_then (check_expr obj None an) (\<lambda>(obj_ty, an).
     and_then (field_type an obj_ty field sp) (\<lambda>ty. Inr (ty, an)))"
| "check_expr (EIndex arr index sp) expected an =
     and_then (check_expr arr None an) (\<lambda>(arr_ty, an).
     and_then (check_expr index None an) (\<lambda>(idx_ty, an).
     if idx_ty \<noteq> BcI32 then reject sp (ExprMessage (IndexNotI32 idx_ty))
     else if arr_ty = BcStr then Inr (BcI32, an)
     else and_then (element_type arr_ty sp) (\<lambda>ty. Inr (ty, an))))"
| "check_expr (EBlock block) expected an =
     check_block (\<lambda>s an. check_stmt s an) (\<lambda>e ex an. check_expr e ex an) block expected an"
| "check_expr (EArena body sp) expected an =
     check_arena (\<lambda>s an. check_stmt s an) (\<lambda>e ex an. check_expr e ex an) body sp expected an"
| "check_expr (EIf condition then_block else_branch sp) expected an =
     check_if (\<lambda>s an. check_stmt s an) (\<lambda>e ex an. check_expr e ex an)
       condition then_block else_branch sp expected an"
| "check_expr (EMatch scrutinee arms sp) expected an =
     and_then (check_expr scrutinee None an) (\<lambda>(scrut_ty, an).
     check_match (\<lambda>e ex an. check_expr e ex an) scrut_ty arms sp expected an)"
| "check_expr (ETry call sp) expected an = check_try (\<lambda>e ex an. check_expr e ex an) call sp an"
| "check_expr (EArrayLit elements sp) expected an =
     check_array_lit (\<lambda>e ex an. check_expr e ex an) elements sp expected an"
| "check_expr (EStructLit name inits sp) expected an =
     check_struct_lit (\<lambda>e ex an. check_expr e ex an) name inits sp an"
| "check_expr (EEnumConstructor enum_name variant args sp) expected an =
     check_enum_constructor (\<lambda>e ex an. check_expr e ex an) enum_name variant args sp expected an"
| "check_stmt (SLet name is_mut ty val sp) an =
     check_let (\<lambda>e ex an. check_expr e ex an) name is_mut ty val sp an"
| "check_stmt (SAssign target val sp) an =
     check_assign (\<lambda>e ex an. check_expr e ex an) target val sp an"
| "check_stmt (SExpr e sp) an = and_then (check_expr e None an) (\<lambda>(_, an). Inr an)"
| "check_stmt (SWhile condition body sp) an =
     check_while (\<lambda>s an. check_stmt s an) (\<lambda>e ex an. check_expr e ex an) condition body sp an"
| "check_stmt (SFor var start end_expr body sp) an =
     check_for (\<lambda>s an. check_stmt s an) (\<lambda>e ex an. check_expr e ex an) var start end_expr body sp an"
| "check_stmt (SForIn var iterable body sp) an =
     check_for_in (\<lambda>s an. check_stmt s an) (\<lambda>e ex an. check_expr e ex an) var iterable body sp an"
| "check_stmt (SBreak sp) an =
     (if an_loop_depth an = 0 then reject sp (StmtMessage BreakOutsideLoop) else Inr an)"
| "check_stmt (SContinue sp) an =
     (if an_loop_depth an = 0 then reject sp (StmtMessage ContinueOutsideLoop) else Inr an)"
| "check_stmt (SCompoundAssign target op' val sp) an =
     check_compound_assign (\<lambda>e ex an. check_expr e ex an) target op' val sp an"
| "check_stmt (SReturn val sp) an = check_return (\<lambda>e ex an. check_expr e ex an) val sp an"
| "check_stmt (SDefer e sp) an = check_defer (\<lambda>e ex an. check_expr e ex an) e sp an"
  by pat_completeness auto
termination by lexicographic_order

end
