(* ===== verification/CheckerFrame.thy ===== *)
theory CheckerFrame
  imports Checker
begin

text \<open>
  What checking does to the state of the analyzer: an expression leaves it exactly as it was,
  a statement at most adds bindings to the innermost scope. So every scope that is pushed is
  popped again, the loop depth is balanced, and no check touches the tables.

  The locale \<open>frame\<close> is the contract of the two checkers on the expressions \<open>E\<close> and
  statements \<open>S\<close>; the parts of \<open>Calls\<close> keep it, and by induction on the size of the syntax it
  holds of \<open>check_expr\<close> and \<open>check_stmt\<close> everywhere.
\<close>

fun scopes_grow :: "scope list \<Rightarrow> scope list \<Rightarrow> bool" where
  "scopes_grow [] ss' \<longleftrightarrow> ss' = []"
| "scopes_grow (s # ss) ss' \<longleftrightarrow> (\<exists>s'. s \<subseteq>\<^sub>m s' \<and> ss' = s' # ss)"

definition grows :: "analyzer \<Rightarrow> analyzer \<Rightarrow> bool" where
  "grows an an' \<longleftrightarrow> (\<exists>ss. scopes_grow (an_scopes an) ss \<and> an' = an\<lparr>an_scopes := ss\<rparr>)"

lemma scopes_grow_refl [simp]: "scopes_grow ss ss"
  by (cases ss) auto

lemma scopes_grow_trans: "scopes_grow a b \<Longrightarrow> scopes_grow b c \<Longrightarrow> scopes_grow a c"
  by (cases a; cases b) (auto intro: map_le_trans)

lemma grows_refl [simp]: "grows an an"
  unfolding grows_def by (rule exI [of _ "an_scopes an"]) simp

lemma grows_trans:
  assumes "grows a b" "grows b c"
  shows "grows a c"
proof -
  obtain g where g: "scopes_grow (an_scopes a) g" "b = a\<lparr>an_scopes := g\<rparr>"
    using assms(1) by (auto simp: grows_def)
  then obtain h where h: "scopes_grow g h" "c = a\<lparr>an_scopes := h\<rparr>"
    using assms(2) by (auto simp: grows_def)
  from scopes_grow_trans [OF g(1) h(1)] h(2) show ?thesis
    unfolding grows_def by blast
qed

lemma grows_push: "grows (push_scope an) an' \<Longrightarrow> pop_scope an' = an"
  by (auto simp: grows_def push_scope_def pop_scope_def)

lemma grows_fields:
  assumes "grows an an'"
  shows "an_structs an' = an_structs an" "an_enums an' = an_enums an"
    "an_functions an' = an_functions an" "an_constants an' = an_constants an"
    "an_current_fn_return_type an' = an_current_fn_return_type an"
    "an_in_pure_fn an' = an_in_pure_fn an" "an_loop_depth an' = an_loop_depth an"
  using assms by (auto simp: grows_def)

lemma leave_enter_loop:
  assumes "grows (enter_loop an) an'"
  shows "grows an (leave_loop an')"
  using assms by (auto simp: grows_def enter_loop_def leave_loop_def)

section \<open>Results that keep the state, or let it grow\<close>

definition keeps :: "analyzer \<Rightarrow> failure + ('a \<times> analyzer) \<Rightarrow> bool" where
  "keeps an r \<longleftrightarrow> (\<forall>x an'. r = Inr (x, an') \<longrightarrow> an' = an)"

definition growing :: "analyzer \<Rightarrow> failure + analyzer \<Rightarrow> bool" where
  "growing an r \<longleftrightarrow> (\<forall>an'. r = Inr an' \<longrightarrow> grows an an')"

definition same :: "analyzer \<Rightarrow> failure + analyzer \<Rightarrow> bool" where
  "same an r \<longleftrightarrow> (\<forall>an'. r = Inr an' \<longrightarrow> an' = an)"

named_theorems frame_intros \<open>results that keep the state or let it grow\<close>

lemma keeps_simps [simp]:
  "keeps an (Inl e)" "keeps an (Inr (x, an)) "
  "growing an (Inl e)" "growing an (Inr an)"
  "same an (Inl e)" "same an (Inr an)"
  by (simp_all add: keeps_def growing_def same_def)

lemma keepsD: "keeps an r \<Longrightarrow> r = Inr (x, an') \<Longrightarrow> an' = an"
  by (simp add: keeps_def)

lemma growingD: "growing an r \<Longrightarrow> r = Inr an' \<Longrightarrow> grows an an'"
  by (simp add: growing_def)

lemma same_growing: "same an r \<Longrightarrow> growing an r"
  by (auto simp: same_def growing_def)

lemma keeps_cases:
  assumes "keeps an m"
  obtains e where "m = Inl e" | x where "m = Inr (x, an)"
  using assms by (cases m) (auto simp: keeps_def)

lemma same_cases:
  assumes "same an m"
  obtains e where "m = Inl e" | "m = Inr an"
  using assms by (cases m) (auto simp: same_def)

lemma keeps_bind [frame_intros]:
  "keeps an m \<Longrightarrow> (\<And>x. m = Inr (x, an) \<Longrightarrow> keeps an (f x an)) \<Longrightarrow>
     keeps an (and_then m (\<lambda>(x, an). f x an))"
  by (erule keeps_cases) simp_all

lemma keeps_bind_same [frame_intros]:
  "keeps an m \<Longrightarrow> (\<And>x. m = Inr (x, an) \<Longrightarrow> same an (f x an)) \<Longrightarrow>
     same an (and_then m (\<lambda>(x, an). f x an))"
  by (erule keeps_cases) simp_all

lemma keeps_bind_growing [frame_intros]:
  "keeps an m \<Longrightarrow> (\<And>x. m = Inr (x, an) \<Longrightarrow> growing an (f x an)) \<Longrightarrow>
     growing an (and_then m (\<lambda>(x, an). f x an))"
  by (erule keeps_cases) simp_all

lemma same_bind [frame_intros]:
  "same an m \<Longrightarrow> (m = Inr an \<Longrightarrow> keeps an (f an)) \<Longrightarrow> keeps an (and_then m f)"
  by (erule same_cases) simp_all

lemma same_bind_same [frame_intros]:
  "same an m \<Longrightarrow> (m = Inr an \<Longrightarrow> same an (f an)) \<Longrightarrow> same an (and_then m f)"
  by (erule same_cases) simp_all

lemma growing_bind:
  "growing an m \<Longrightarrow> (\<And>an'. m = Inr an' \<Longrightarrow> grows an an' \<Longrightarrow> growing an' (f an')) \<Longrightarrow> growing an (and_then m f)"
  by (auto simp: growing_def and_then_eq_Inr intro: grows_trans)

lemma pure_bind:
  "(\<And>x. keeps an (f x)) \<Longrightarrow> keeps an (and_then m f)"
  "(\<And>x. same an (g x)) \<Longrightarrow> same an (and_then m g)"
  "(\<And>x. growing an (g x)) \<Longrightarrow> growing an (and_then m g)"
  by (auto simp: keeps_def same_def growing_def and_then_eq_Inr)

lemma keeps_fail [simp]: "keeps an (and_then m (\<lambda>_. Inl e))"
  by (rule pure_bind) simp

text \<open>Steps of the checker that have no state of their own, told apart by their types.\<close>

lemma pure_steps [frame_intros]:
  "(\<And>x. keeps an (f x)) \<Longrightarrow> keeps an (and_then (m :: failure + unit) f)"
  "(\<And>x. same an (g x)) \<Longrightarrow> same an (and_then (m :: failure + unit) g)"
  "(\<And>x. growing an (g x)) \<Longrightarrow> growing an (and_then (m :: failure + unit) g)"
  "(\<And>t. keeps an (f' t)) \<Longrightarrow> keeps an (and_then (m' :: failure + bc_type) f')"
  "(\<And>t. same an (g' t)) \<Longrightarrow> same an (and_then (m' :: failure + bc_type) g')"
  "(\<And>t. growing an (g' t)) \<Longrightarrow> growing an (and_then (m' :: failure + bc_type) g')"
  "(\<And>n. keeps an (f'' n)) \<Longrightarrow> keeps an (and_then (m'' :: failure + string set) f'')"
  by (rule pure_bind, simp)+

lemma each_keeps:
  assumes "\<And>x y. x \<in> set xs \<Longrightarrow> keeps an (f x (y, an))"
  shows "keeps an (each f xs (y, an))"
  using assms
proof (induction xs arbitrary: y)
  case (Cons x xs)
  then have "keeps an (f x (y, an))" "keeps an (each f xs (z, an))" for z by simp_all
  then have "keeps an (and_then (f x (y, an)) (\<lambda>(z, an). each f xs (z, an)))"
    by (rule keeps_bind)
  then show ?case by simp
qed simp

lemma each_same:
  assumes "\<And>x. x \<in> set xs \<Longrightarrow> same an (f x an)"
  shows "same an (each f xs an)"
  using assms by (induction xs) (auto intro!: frame_intros)

lemma each_growing:
  assumes "\<And>x an. x \<in> set xs \<Longrightarrow> growing an (f x an)"
  shows "growing an (each f xs an)"
  using assms by (induction xs arbitrary: an) (auto intro!: growing_bind)

lemma with_arg_frames:
  "(\<And>a. a \<in> set args \<Longrightarrow> keeps an (f a)) \<Longrightarrow> keeps an (with_arg args i f)"
  "(\<And>a. a \<in> set args \<Longrightarrow> same an (g a)) \<Longrightarrow> same an (with_arg args i g)"
  by (simp_all add: with_arg_def)

lemma add_binding_grows: "growing an (add_binding name ty m sp an)"
proof -
  have "grows an (an\<lparr>an_scopes := s(name \<mapsto> b) # ss\<rparr>)" if "an_scopes an = s # ss" "s name = None" for s ss b
    using that unfolding grows_def
    by (intro exI [of _ "s(name \<mapsto> b) # ss"]) (auto simp: map_le_def)
  then show ?thesis
    unfolding add_binding_def
    by (intro pure_steps) (auto split: list.split simp: growing_def)
qed

lemma bind_payload_grows: "growing an (bind_payload ps ts an)"
  by (induction ps ts an rule: bind_payload.induct) (auto intro!: growing_bind add_binding_grows)

lemma bind_pattern_vars_grows: "growing an (bind_pattern_vars pat ty sp an)"
  by (auto simp: bind_pattern_vars_def split: pattern.split bc_type.split option.split
      intro: add_binding_grows bind_payload_grows)

lemma infer_result_type_SomeD: "infer_result_type an ex = Some t \<Longrightarrow> \<exists>a b. t = BcResult a b"
  by (auto simp: infer_result_type_def split: option.splits bc_type.splits)

lemma infer_result_type_cases:
  obtains "infer_result_type an ex = None" | a b where "infer_result_type an ex = Some (BcResult a b)"
  by (cases "infer_result_type an ex") (auto dest: infer_result_type_SomeD)

section \<open>The contract\<close>

definition covered :: "expr set \<Rightarrow> stmt set \<Rightarrow> block \<Rightarrow> bool" where
  "covered E S block \<longleftrightarrow> set (b_stmts block) \<subseteq> S \<and> (\<forall>e. b_tail_expr block = Some e \<longrightarrow> e \<in> E)"

locale frame =
  fixes ce :: expr_checker and cs :: stmt_checker and E :: "expr set" and S :: "stmt set"
  assumes ce_keeps: "e \<in> E \<Longrightarrow> keeps an (ce e ex an)"
    and cs_grows: "s \<in> S \<Longrightarrow> growing an (cs s an)"
begin

lemma collection_arg_same: "a \<in> E \<Longrightarrow> same an (check_collection_arg ce a ty n p an)"
  by (auto simp: check_collection_arg_def intro!: frame_intros ce_keeps)

lemma with_arg_collection_same:
  "set args \<subseteq> E \<Longrightarrow> same an (with_arg args i (\<lambda>a. check_collection_arg ce a ty n p an))"
  by (auto intro!: with_arg_frames collection_arg_same)

lemma check_args_same: "set args \<subseteq> E \<Longrightarrow> same an (check_args ce mk i args tys an)"
proof (induction args arbitrary: i tys)
  case (Cons a args)
  then show ?case by (cases tys) (auto intro!: frame_intros ce_keeps)
qed simp

lemma collection_result_keeps:
  assumes "set args \<subseteq> E"
  shows "keeps an (collection_result ce i n args t el an)"
  unfolding collection_result_def Let_def
  using assms
  by (cases "co_op i")
    (auto split: option.split intro!: frame_intros with_arg_frames with_arg_collection_same ce_keeps)

lemma collection_call_keeps:
  assumes "set args \<subseteq> E"
  shows "keeps an (check_collection_call ce i n args sp an)"
  using assms unfolding check_collection_call_def Let_def
  by (auto split: option.split intro!: frame_intros with_arg_frames with_arg_collection_same ce_keeps
      collection_result_keeps)

lemma len_keeps: "set args \<subseteq> E \<Longrightarrow> keeps an (check_len ce args sp an)"
  by (auto simp: check_len_def split: option.split intro!: frame_intros with_arg_frames ce_keeps)

lemma push_keeps: "set args \<subseteq> E \<Longrightarrow> keeps an (check_push ce args sp an)"
  by (auto simp: check_push_def split: bc_type.split intro!: frame_intros with_arg_frames ce_keeps)

lemma pop_keeps: "set args \<subseteq> E \<Longrightarrow> keeps an (check_pop ce args sp an)"
  by (auto simp: check_pop_def split: bc_type.split intro!: frame_intros with_arg_frames ce_keeps)

lemma pointer_call_keeps: "set args \<subseteq> E \<Longrightarrow> keeps an (check_pointer_call ce name ty args sp an)"
  by (auto simp: check_pointer_call_def split: bc_type.split intro!: frame_intros check_args_same)

lemma function_call_keeps: "set args \<subseteq> E \<Longrightarrow> keeps an (check_function_call ce name args sp an)"
  by (auto simp: check_function_call_def split: option.split intro!: frame_intros check_args_same)

lemma call_keeps: "set args \<subseteq> E \<Longrightarrow> keeps an (check_call ce callee args sp an)"
  by (cases callee rule: expr.exhaust)
    (simp_all add: check_call_def collection_call_keeps len_keeps push_keeps pop_keeps
      pointer_call_keeps function_call_keeps split: option.split)

lemma array_lit_keeps:
  assumes "set es \<subseteq> E"
  shows "keeps an (check_array_lit ce es sp ex an)"
proof (cases es)
  case Nil
  then show ?thesis by (simp add: check_array_lit_def split: option.split bc_type.split)
next
  case (Cons e rest)
  with assms show ?thesis
    by (auto simp: check_array_lit_def intro!: frame_intros ce_keeps each_same)
qed

lemma struct_lit_keeps:
  assumes "\<And>n v s. FieldInit n v s \<in> set inits \<Longrightarrow> v \<in> E"
  shows "keeps an (check_struct_lit ce name inits sp an)"
proof -
  have "keeps an (check_field_init ce name info fi (provided, an))" if "fi \<in> set inits" for info fi provided
    using that assms
    by (cases fi rule: field_init.exhaust)
      (auto simp: check_field_init_def split: option.split intro!: frame_intros ce_keeps)
  then show ?thesis
    by (auto simp: check_struct_lit_def Let_def split: option.split intro!: frame_intros each_keeps)
qed

lemma result_payload_keeps: "a \<in> E \<Longrightarrow> keeps an (check_result_payload ce a p mk an)"
  by (auto simp: check_result_payload_def split: option.split intro!: frame_intros ce_keeps)

lemma enum_constructor_keeps:
  assumes "set args \<subseteq> E"
  shows "keeps an (check_enum_constructor ce en v args sp ex an)"
proof -
  have "keeps an (check_result_constructor ce v args sp ex an)"
    using assms unfolding check_result_constructor_def
    by (cases rule: infer_result_type_cases [of an ex])
      (auto intro!: frame_intros with_arg_frames result_payload_keeps)
  with assms show ?thesis
    by (auto simp: check_enum_constructor_def split: option.split intro!: frame_intros check_args_same)
qed

lemma interpolated_string_keeps:
  assumes "\<And>e. IExpr e \<in> set parts \<Longrightarrow> e \<in> E"
  shows "keeps an (check_interpolated_string ce parts sp an)"
proof -
  have "keeps an (check_interp_part ce part (ip, an))" if "part \<in> set parts" for part ip
    using that assms
    by (cases part rule: interp_part.exhaust)
      (auto simp: check_interp_part_def intro!: frame_intros ce_keeps)
  then show ?thesis
    by (auto simp: check_interpolated_string_def intro!: frame_intros each_keeps)
qed

section \<open>Blocks, loops and branches\<close>

lemma each_stmts_grow: "set ss \<subseteq> S \<Longrightarrow> growing an (each cs ss an)"
  by (auto intro!: each_growing cs_grows)

lemma tail_keeps:
  "(\<And>e. tail = Some e \<Longrightarrow> e \<in> E) \<Longrightarrow>
     keeps an (case tail of Some e \<Rightarrow> ce e ex an | None \<Rightarrow> Inr (BcUnit, an))"
  by (auto split: option.split intro: ce_keeps)

lemma block_keeps:
  assumes "covered E S block"
  shows "keeps an (check_block cs ce block ex an)"
proof -
  have "growing (push_scope an) (each cs (b_stmts block) (push_scope an))"
    using assms by (auto simp: covered_def intro: each_stmts_grow)
  moreover have "keeps an1 (case b_tail_expr block of Some e \<Rightarrow> ce e ex an1 | None \<Rightarrow> Inr (BcUnit, an1))" for an1
    using assms by (auto simp: covered_def intro: tail_keeps)
  ultimately show ?thesis
    by (auto simp: check_block_def keeps_def and_then_eq_Inr dest!: growingD grows_push)
qed

lemma for_body_grows:
  assumes "covered E S block"
  shows "same an (check_for_body cs ce var ty sp block an)"
proof -
  have "growing (enter_loop an1) (each cs (b_stmts block) (enter_loop an1))" for an1
    using assms by (auto simp: covered_def intro: each_stmts_grow)
  moreover have "keeps an1 (case b_tail_expr block of Some e \<Rightarrow> ce e None an1 | None \<Rightarrow> Inr (BcUnit, an1))" for an1
    using assms by (auto simp: covered_def intro: tail_keeps)
  moreover have "pop_scope (leave_loop an2) = an"
    if "grows (push_scope an) an1" "grows (enter_loop an1) an2" for an1 an2
    using grows_push [OF grows_trans [OF that(1) leave_enter_loop [OF that(2)]]] .
  ultimately show ?thesis
    by (auto simp: check_for_body_def same_def and_then_eq_Inr
        dest!: growingD [OF add_binding_grows] growingD keepsD)
qed

lemma while_same:
  assumes "c \<in> E" "covered E S block"
  shows "same an (check_while cs ce c block sp an)"
proof -
  have "leave_loop (enter_loop an) = an" by (simp add: leave_loop_def enter_loop_def)
  with block_keeps [OF assms(2)] have
    "same an (and_then (check_block cs ce block None (enter_loop an)) (\<lambda>(_, an). Inr (leave_loop an)))"
    by (auto simp: same_def keeps_def and_then_eq_Inr)
  with assms(1) show ?thesis
    by (auto simp: check_while_def intro!: frame_intros ce_keeps)
qed

lemma for_same:
  "st \<in> E \<Longrightarrow> en \<in> E \<Longrightarrow> covered E S block \<Longrightarrow> same an (check_for cs ce var st en block sp an)"
  by (auto simp: check_for_def intro!: frame_intros ce_keeps for_body_grows)

lemma for_in_same:
  "it \<in> E \<Longrightarrow> covered E S block \<Longrightarrow> same an (check_for_in cs ce var it block sp an)"
  by (auto simp: check_for_in_def split: option.split intro!: frame_intros ce_keeps for_body_grows)

lemma place_keeps:
  assumes "\<And>e. AccIndex e \<in> set (pl_accessors target) \<Longrightarrow> e \<in> E"
  shows "keeps an (check_place ce plain target sp an)"
proof -
  have "keeps an (check_accessor ce plain sp acc (ty, an))" if "acc \<in> set (pl_accessors target)" for acc ty
    using that assms
    by (cases acc rule: place_accessor.exhaust)
      (auto simp: check_accessor_def intro!: frame_intros ce_keeps)
  then show ?thesis by (auto simp: check_place_def intro!: frame_intros each_keeps)
qed

lemma assign_same:
  assumes "\<And>e. AccIndex e \<in> set (pl_accessors target) \<Longrightarrow> e \<in> E" "v \<in> E"
  shows "same an (check_assign ce target v sp an)" "same an (check_compound_assign ce target op' v sp an)"
  using assms
  by (auto simp: check_assign_def check_compound_assign_def intro!: frame_intros place_keeps ce_keeps)

lemma let_grows: "v \<in> E \<Longrightarrow> growing an (check_let ce name m ty v sp an)"
  by (auto simp: check_let_def intro!: frame_intros ce_keeps add_binding_grows)

lemma return_same: "(\<And>e. v = Some e \<Longrightarrow> e \<in> E) \<Longrightarrow> same an (check_return ce v sp an)"
  by (auto simp: check_return_def Let_def split: option.split intro!: frame_intros ce_keeps)

lemma defer_same: "e \<in> E \<Longrightarrow> same an (check_defer ce e sp an)"
  by (auto simp: check_defer_def intro!: frame_intros ce_keeps)

lemma arena_keeps: "covered E S block \<Longrightarrow> keeps an (check_arena cs ce block sp ex an)"
  by (auto simp: check_arena_def intro!: frame_intros block_keeps)

lemma if_keeps:
  "c \<in> E \<Longrightarrow> covered E S block \<Longrightarrow> (\<And>e. els = Some e \<Longrightarrow> e \<in> E) \<Longrightarrow>
     keeps an (check_if cs ce c block els sp ex an)"
  by (auto simp: check_if_def split: option.split intro!: frame_intros ce_keeps block_keeps)

lemma try_keeps: "e \<in> E \<Longrightarrow> keeps an (check_try ce e sp an)"
  by (auto simp: check_try_def split: bc_type.split option.split intro!: frame_intros ce_keeps)

lemma match_keeps:
  assumes "\<And>p b s. MatchArm p b s \<in> set arms \<Longrightarrow> b \<in> E"
  shows "keeps an (check_match ce ty arms sp ex an)"
proof -
  have "keeps an (check_arm ce ty sp ex arm (ms, an))" if "arm \<in> set arms" for arm ms
  proof (cases arm rule: match_arm.exhaust)
    case (MatchArm p b s)
    with assms that have b: "b \<in> E" by blast
    have "keeps an (and_then (bind_pattern_vars p ty s (push_scope an)) (\<lambda>an.
        and_then (ce b ex an) (\<lambda>(t, an). Inr (h t, pop_scope an))))" for h :: "bc_type \<Rightarrow> match_state"
      using ce_keeps [OF b]
      by (auto simp: keeps_def and_then_eq_Inr dest!: growingD [OF bind_pattern_vars_grows] grows_push)
    with MatchArm show ?thesis by (auto simp: check_arm_def intro!: pure_steps)
  qed
  then show ?thesis
    unfolding check_match_def
    by (auto split: list.split intro!: keeps_bind each_keeps pure_steps)
qed

end

section \<open>The checkers keep the contract\<close>

lemma size_part [termination_simp]: "IExpr e \<in> set parts \<Longrightarrow> size e < size_list size parts"
  using size_list_estimation [of "IExpr e" parts "size e" size] by simp

lemma size_arm [termination_simp]: "MatchArm p b s \<in> set arms \<Longrightarrow> size b < size_list size arms"
  using size_list_estimation [of "MatchArm p b s" arms "size b" size] by simp

lemma size_init [termination_simp]: "FieldInit n v s \<in> set inits \<Longrightarrow> size v < size_list size inits"
  using size_list_estimation [of "FieldInit n v s" inits "size v" size] by simp

lemma size_member: "x \<in> set xs \<Longrightarrow> size x \<le> size_list size xs"
  by (rule size_list_estimation') auto

lemmas syntax_sizes =
  size_block_stmt size_block_tail size_place_index size_part size_arm size_init size_member

lemma covered_smaller: "size block \<le> n \<Longrightarrow> covered {e. size e < n} {s. size s < n} block"
  by (auto simp: covered_def dest!: size_block_stmt size_block_tail)

lemma members_smaller: "size_list size xs < n \<Longrightarrow> set xs \<subseteq> {e. size e < n}"
  by (auto dest!: size_member)

lemma frame_step:
  assumes "frame check_expr check_stmt {e. size e < n} {s. size s < n}"
  shows "frame check_expr check_stmt {e. size e < Suc n} {s. size s < Suc n}"
proof
  note keeps = frame.call_keeps [OF assms] frame.array_lit_keeps [OF assms]
    frame.struct_lit_keeps [OF assms] frame.enum_constructor_keeps [OF assms]
    frame.interpolated_string_keeps [OF assms] frame.block_keeps [OF assms]
    frame.arena_keeps [OF assms] frame.if_keeps [OF assms] frame.try_keeps [OF assms]
    frame.match_keeps [OF assms]
  note grows = frame.let_grows [OF assms] same_growing [OF frame.assign_same(1) [OF assms]]
    same_growing [OF frame.assign_same(2) [OF assms]] same_growing [OF frame.return_same [OF assms]]
    same_growing [OF frame.defer_same [OF assms]] same_growing [OF frame.while_same [OF assms]]
    same_growing [OF frame.for_same [OF assms]] same_growing [OF frame.for_in_same [OF assms]]
  note sub = frame.ce_keeps [OF assms]
  show "keeps an (check_expr e ex an)" if "e \<in> {e. size e < Suc n}" for e ex an
    using that
    by (cases e rule: expr.exhaust)
      (auto split: if_splits intro!: frame_intros sub keeps covered_smaller members_smaller
        dest!: size_part size_arm size_init)
  show "growing an (check_stmt s an)" if "s \<in> {s. size s < Suc n}" for s an
    using that
    by (cases s rule: stmt.exhaust)
      (auto intro!: frame_intros sub grows covered_smaller dest!: size_place_index)
qed

lemma frame_below: "frame check_expr check_stmt {e. size e < n} {s. size s < n}"
  by (induction n) (rule frame.intro, simp_all add: frame_step)

interpretation checker_frame: frame check_expr check_stmt UNIV UNIV
proof
  show "keeps an (check_expr e ex an)" for e ex an
    by (rule frame.ce_keeps [OF frame_below [of "Suc (size e)"]]) simp
  show "growing an (check_stmt s an)" for s an
    by (rule frame.cs_grows [OF frame_below [of "Suc (size s)"]]) simp
qed

text \<open>The consequences that other theories use.\<close>

lemma check_expr_same: "check_expr e ex an = Inr (ty, an') \<Longrightarrow> an' = an"
  using checker_frame.ce_keeps [of e an ex] by (auto simp: keeps_def)

lemma check_stmt_grows: "check_stmt s an = Inr an' \<Longrightarrow> grows an an'"
  using checker_frame.cs_grows [of s an] by (auto simp: growing_def)

lemma check_stmts_grow: "each check_stmt ss an = Inr an' \<Longrightarrow> grows an an'"
  using checker_frame.each_stmts_grow [of ss an] by (auto simp: growing_def)

lemma check_block_same: "check_block check_stmt check_expr block ex an = Inr (ty, an') \<Longrightarrow> an' = an"
  using checker_frame.block_keeps [of block an ex] by (auto simp: keeps_def covered_def)

end
