(* ===== verification/CheckerSafe.thy ===== *)
theory CheckerSafe
  imports CheckerFrame
begin

text \<open>
  The checker does not panic, and the types it computes name declared structs and enums only.
  Both are needed for each other: the \<open>unwrap\<close>s of the code look up the enum of a type that
  the checker has computed before.

  \<open>wf_analyzer\<close> is the invariant of the tables and scopes. The locale \<open>safe\<close> extends
  \<open>frame\<close> by the two promises, and as there they are shown for every part of \<open>Calls\<close> and
  then, by induction on the size of the syntax, for the checkers themselves.
\<close>

section \<open>Declared types and well-formed tables\<close>

fun declared :: "analyzer \<Rightarrow> bc_type \<Rightarrow> bool" where
  "declared an (BcStruct name) \<longleftrightarrow> an_structs an name \<noteq> None"
| "declared an (BcEnum name) \<longleftrightarrow> an_enums an name \<noteq> None"
| "declared an (BcArray t) \<longleftrightarrow> declared an t"
| "declared an (BcFixedArray t _) \<longleftrightarrow> declared an t"
| "declared an (BcResult a b) \<longleftrightarrow> declared an a \<and> declared an b"
| "declared an (BcFnPtr ps r _) \<longleftrightarrow> (\<forall>p \<in> set ps. declared an p) \<and> declared an r"
| "declared an _ \<longleftrightarrow> True"

definition wf_function :: "analyzer \<Rightarrow> function_info \<Rightarrow> bool" where
  "wf_function an fi \<longleftrightarrow>
     (\<forall>p \<in> set (fi_params fi). declared an (snd p)) \<and> declared an (fi_return_type fi)"

definition wf_scope :: "analyzer \<Rightarrow> scope \<Rightarrow> bool" where
  "wf_scope an s \<longleftrightarrow> (\<forall>b \<in> ran s. declared an (bi_ty b))"

definition wf_tables :: "analyzer \<Rightarrow> bool" where
  "wf_tables an \<longleftrightarrow>
     (\<forall>info \<in> ran (an_structs an). \<forall>f \<in> set (si_fields info). declared an (snd f)) \<and>
     (\<forall>info \<in> ran (an_enums an). \<forall>v \<in> set (ei_variants info). \<forall>t \<in> set (snd v). declared an t) \<and>
     (\<forall>fi \<in> ran (an_functions an). wf_function an fi) \<and>
     (\<forall>info \<in> ran (an_constants an). declared an (ci_ty info))"

definition wf_analyzer :: "analyzer \<Rightarrow> bool" where
  "wf_analyzer an \<longleftrightarrow>
     wf_tables an \<and> (\<forall>s \<in> set (an_scopes an). wf_scope an s) \<and>
     (\<forall>t. an_current_fn_return_type an = Some t \<longrightarrow> declared an t)"

definition wf_expected :: "analyzer \<Rightarrow> bc_type option \<Rightarrow> bool" where
  "wf_expected an ex \<longleftrightarrow> (\<forall>t. ex = Some t \<longrightarrow> declared an t)"

lemma wf_expected_simps [simp]:
  "wf_expected an None"
  "wf_expected an (Some t) \<longleftrightarrow> declared an t"
  by (simp_all add: wf_expected_def)

text \<open>Whether a type is declared depends on the two type tables only.\<close>

lemma declared_cong:
  "an_structs an' = an_structs an \<Longrightarrow> an_enums an' = an_enums an \<Longrightarrow> declared an' t = declared an t"
  by (induction t) auto

lemma wf_scopes_update:
  "wf_analyzer an \<Longrightarrow> (\<And>s. s \<in> set ss \<Longrightarrow> wf_scope an s) \<Longrightarrow> wf_analyzer (an\<lparr>an_scopes := ss\<rparr>)"
  using declared_cong [of "an\<lparr>an_scopes := ss\<rparr>" an]
  by (simp add: wf_analyzer_def wf_tables_def wf_function_def wf_scope_def)

lemma wf_push_scope [simp]: "wf_analyzer an \<Longrightarrow> wf_analyzer (push_scope an)"
  unfolding push_scope_def
  by (rule wf_scopes_update) (auto simp: wf_scope_def wf_analyzer_def)

lemma wf_loop_depth_update [simp]: "wf_analyzer (an\<lparr>an_loop_depth := d\<rparr>) \<longleftrightarrow> wf_analyzer an"
proof -
  have "declared (an\<lparr>an_loop_depth := d\<rparr>) = declared an"
    by (rule ext, rule declared_cong) simp_all
  then show ?thesis
    by (simp add: wf_analyzer_def wf_tables_def wf_function_def wf_scope_def)
qed

lemma wf_loop_depth [simp]:
  "wf_analyzer (enter_loop an) \<longleftrightarrow> wf_analyzer an" "wf_analyzer (leave_loop an) \<longleftrightarrow> wf_analyzer an"
  by (simp_all add: enter_loop_def leave_loop_def)

lemma declared_context [simp]:
  "declared (push_scope an) t = declared an t" "declared (enter_loop an) t = declared an t"
  by (rule declared_cong; simp add: push_scope_def enter_loop_def)+

lemma declared_grows: "grows an an' \<Longrightarrow> declared an' t = declared an t"
  by (rule declared_cong) (simp_all add: grows_fields)

lemma declared_core [simp]: "declared an (core_bc_type t)"
  by (cases t) auto

lemma declared_element: "array_element_type t = Some e \<Longrightarrow> declared an t \<Longrightarrow> declared an e"
  by (cases t rule: array_element_type.cases) auto

lemma declared_compatible: "is_compatible_with a b \<Longrightarrow> declared an a = declared an b"
  by (auto simp: is_compatible_with_iff)

lemma declared_join:
  "join_compatible_types a b ex = Some c \<Longrightarrow> declared an a \<Longrightarrow> declared an c"
  unfolding join_compatible_types_def
  by (metis compatible_join_upper declared_compatible)

lemma declared_numeric: "is_numeric t \<Longrightarrow> declared an t"
  by (auto simp: is_numeric_def)

section \<open>Steps without a state\<close>

definition yields :: "('a \<Rightarrow> bool) \<Rightarrow> failure + 'a \<Rightarrow> bool" where
  "yields P r \<longleftrightarrow> graceful r \<and> (\<forall>x. r = Inr x \<longrightarrow> P x)"

lemma yields_simps [simp]:
  "yields P (Inr x) \<longleftrightarrow> P x"
  "yields P (Inl (Rejected e))"
  by (simp_all add: yields_def)

lemma yields_bind:
  "yields P m \<Longrightarrow> (\<And>x. m = Inr x \<Longrightarrow> P x \<Longrightarrow> yields Q (f x)) \<Longrightarrow> yields Q (and_then m f)"
  unfolding yields_def by (auto simp: and_then_eq_Inr intro!: graceful_and_then)

lemma declared_field:
  assumes "wf_analyzer an"
  shows "yields (declared an) (field_type an t f sp)"
proof -
  have "declared an ft" if "an_structs an n = Some info" "map_of (si_fields info) f = Some ft" for n info ft
    using assms that
    by (force simp: wf_analyzer_def wf_tables_def ran_def dest: map_of_SomeD)
  then show ?thesis by (auto simp: field_type_def split: bc_type.split option.split)
qed

lemma declared_element_type: "declared an t \<Longrightarrow> yields (declared an) (element_type t sp)"
  by (auto simp: element_type_def split: bc_type.split)

lemma declared_resolve:
  "yields (declared an) (resolve_type an t)"
  "yields (\<lambda>tys. \<forall>ty \<in> set tys. declared an ty) (resolve_types an ts)"
proof (induction an t and an ts rule: resolve_type_resolve_types.induct)
  case (1 an p sp)
  then show ?case by (cases p) auto
qed (auto intro!: yields_bind)

lemma lookup_scopes_ran: "lookup_scopes ss n = Some b \<Longrightarrow> \<exists>s \<in> set ss. b \<in> ran s"
  by (induction ss) (auto simp: ran_def split: option.splits)

lemma declared_lookup:
  assumes "wf_analyzer an" "lookup_var an n = Some b"
  shows "declared an (bi_ty b)"
  using assms lookup_scopes_ran [of "an_scopes an" n b]
  by (auto simp: wf_analyzer_def wf_scope_def lookup_var_def)

lemma wf_function_lookup: "wf_analyzer an \<Longrightarrow> an_functions an n = Some fi \<Longrightarrow> wf_function an fi"
  by (auto simp: wf_analyzer_def wf_tables_def ran_def)

lemma declared_ident:
  assumes "wf_analyzer an"
  shows "yields (declared an) (ident_type an n sp)"
proof -
  have "declared an (ci_ty info)" if "an_constants an n = Some info" for info
    using assms that by (auto simp: wf_analyzer_def wf_tables_def ran_def)
  with assms declared_lookup [OF assms] wf_function_lookup [OF assms, of n] show ?thesis
    by (auto simp: ident_type_def wf_function_def split: option.split)
qed

lemma declared_binary: "yields (declared an) (binary_op_type op' a b sp)"
  by (cases op')
    (simp_all add: arithmetic_type_def modulo_type_def equality_type_def comparison_type_def
      logical_type_def is_integer_def declared_numeric split: if_split)

lemma declared_unary: "yields (declared an) (unary_op_type u a sp)"
  by (cases u) (simp_all add: declared_numeric)

lemma declared_compound: "yields (declared an) (check_binary_op_types op' a b sp)"
  by (auto simp: check_binary_op_types_def arithmetic_type_def modulo_type_def is_integer_def
      intro: declared_numeric)

lemma declared_int: "yields (declared an) (int_literal_type v sp)"
  by (simp add: int_literal_type_def)

lemmas declared_operators = declared_binary declared_unary declared_compound declared_int

lemma infer_result_type_source:
  "infer_result_type an ex = Some t \<Longrightarrow> ex = Some t \<or> an_current_fn_return_type an = Some t"
  by (auto simp: infer_result_type_def split: option.splits bc_type.splits)

lemma declared_infer:
  "wf_analyzer an \<Longrightarrow> wf_expected an ex \<Longrightarrow> infer_result_type an ex = Some t \<Longrightarrow> declared an t"
  using infer_result_type_source [of an ex t] unfolding wf_analyzer_def wf_expected_def by blast

lemma declared_assignable:
  assumes "wf_analyzer an"
  shows "yields (declared an) (assignable an target sp)"
  using declared_lookup [OF assms]
  by (cases "lookup_var an (pl_name target)") (auto simp: assignable_def)

lemma yields_unit:
  "yields (\<lambda>_. True) (require_mutable_collection_target an n e)"
  "yields (\<lambda>_. True) (reject_reserved_collection_name n sp)"
  by (auto simp: require_mutable_collection_target_def reject_reserved_collection_name_def
      split: option.split)

section \<open>Results of the checker\<close>

definition types :: "analyzer \<Rightarrow> bc_type checked \<Rightarrow> bool" where
  "types an r \<longleftrightarrow> graceful r \<and> (\<forall>ty an'. r = Inr (ty, an') \<longrightarrow> an' = an \<and> declared an ty)"

definition steady :: "analyzer \<Rightarrow> failure + analyzer \<Rightarrow> bool" where
  "steady an r \<longleftrightarrow> graceful r \<and> same an r"

definition extends :: "analyzer \<Rightarrow> failure + analyzer \<Rightarrow> bool" where
  "extends an r \<longleftrightarrow> graceful r \<and> (\<forall>an'. r = Inr an' \<longrightarrow> grows an an' \<and> wf_analyzer an')"

named_theorems safe_intros \<open>results that are graceful and well-formed\<close>

lemma result_simps [simp]:
  "types an (Inl (Rejected e))" "types an (Inr (ty, an)) \<longleftrightarrow> declared an ty"
  "steady an (Inl (Rejected e))" "steady an (Inr an)"
  "extends an (Inl (Rejected e))"
  by (simp_all add: types_def steady_def extends_def)

lemma steady_extends: "wf_analyzer an \<Longrightarrow> steady an r \<Longrightarrow> extends an r"
  by (auto simp: steady_def extends_def same_def)

lemma types_cases:
  assumes "types an m"
  obtains e where "m = Inl (Rejected e)" | t where "m = Inr (t, an)" "declared an t"
proof -
  have "graceful m" using assms by (simp add: types_def)
  then show ?thesis
  proof (cases rule: graceful_cases)
    case (ok r)
    obtain t an' where "r = (t, an')" by (cases r)
    with ok assms have "m = Inr (t, an)" "declared an t" by (auto simp: types_def)
    then show ?thesis by (rule that(2))
  next
    case (rejected e)
    then show ?thesis by (rule that(1))
  qed
qed

lemma steady_cases:
  assumes "steady an m"
  obtains e where "m = Inl (Rejected e)" | "m = Inr an"
proof -
  have "graceful m" using assms by (simp add: steady_def)
  then show ?thesis
    using that assms by (cases rule: graceful_cases) (auto simp: steady_def same_def)
qed

lemma yields_cases:
  assumes "yields P m"
  obtains e where "m = Inl (Rejected e)" | x where "m = Inr x" "P x"
proof -
  have "graceful m" using assms by (simp add: yields_def)
  then show ?thesis
    using that assms by (cases rule: graceful_cases) (auto simp: yields_def)
qed

lemma extends_cases:
  assumes "extends an m"
  obtains e where "m = Inl (Rejected e)" | an' where "m = Inr an'" "grows an an'" "wf_analyzer an'"
proof -
  have "graceful m" using assms by (simp add: extends_def)
  then show ?thesis
  proof (cases rule: graceful_cases)
    case (ok an')
    with assms have "grows an an'" "wf_analyzer an'" by (auto simp: extends_def)
    with ok show ?thesis by (rule that(2))
  next
    case (rejected e)
    then show ?thesis by (rule that(1))
  qed
qed

lemma types_bind [safe_intros]:
  "types an m \<Longrightarrow> (\<And>t. declared an t \<Longrightarrow> types an (f t an)) \<Longrightarrow> types an (and_then m (\<lambda>(t, an). f t an))"
  "types an m \<Longrightarrow> (\<And>t. declared an t \<Longrightarrow> steady an (g t an)) \<Longrightarrow> steady an (and_then m (\<lambda>(t, an). g t an))"
  "types an m \<Longrightarrow> (\<And>t. declared an t \<Longrightarrow> extends an (h t an)) \<Longrightarrow> extends an (and_then m (\<lambda>(t, an). h t an))"
proof -
  show "types an (and_then m (\<lambda>(t, an). f t an))" if "types an m" "\<And>t. declared an t \<Longrightarrow> types an (f t an)" for f
    using that by (cases rule: types_cases [OF that(1)]) simp_all
  show "steady an (and_then m (\<lambda>(t, an). g t an))" if "types an m" "\<And>t. declared an t \<Longrightarrow> steady an (g t an)" for g
    using that by (cases rule: types_cases [OF that(1)]) simp_all
  show "extends an (and_then m (\<lambda>(t, an). h t an))" if "types an m" "\<And>t. declared an t \<Longrightarrow> extends an (h t an)" for h
    using that by (cases rule: types_cases [OF that(1)]) simp_all
qed

lemma steady_bind [safe_intros]:
  "steady an m \<Longrightarrow> types an (f an) \<Longrightarrow> types an (and_then m f)"
  "steady an m \<Longrightarrow> steady an (g an) \<Longrightarrow> steady an (and_then m g)"
  by (erule steady_cases; simp)+

lemma yields_then [safe_intros]:
  "yields (declared an) m \<Longrightarrow> (\<And>t. declared an t \<Longrightarrow> types an (f t)) \<Longrightarrow> types an (and_then m f)"
  "yields (declared an) m \<Longrightarrow> (\<And>t. declared an t \<Longrightarrow> steady an (g t)) \<Longrightarrow> steady an (and_then m g)"
  "yields (declared an) m \<Longrightarrow> (\<And>t. declared an t \<Longrightarrow> extends an (h t)) \<Longrightarrow> extends an (and_then m h)"
  "yields (\<lambda>_. True) u \<Longrightarrow> (\<And>x. types an (f' x)) \<Longrightarrow> types an (and_then (u :: failure + unit) f')"
  "yields (\<lambda>_. True) u \<Longrightarrow> (\<And>x. steady an (g' x)) \<Longrightarrow> steady an (and_then (u :: failure + unit) g')"
  by (erule yields_cases; simp)+

lemma extends_bind:
  assumes "extends an m"
    and "\<And>an'. m = Inr an' \<Longrightarrow> grows an an' \<Longrightarrow> wf_analyzer an' \<Longrightarrow> extends an' (f an')"
  shows "extends an (and_then m f)"
  using assms by (auto simp: extends_def and_then_eq_Inr intro: grows_trans)

lemma with_arg_safe:
  "i < length args \<Longrightarrow> (\<And>a. a \<in> set args \<Longrightarrow> types an (f a)) \<Longrightarrow> types an (with_arg args i f)"
  "i < length args \<Longrightarrow> (\<And>a. a \<in> set args \<Longrightarrow> steady an (g a)) \<Longrightarrow> steady an (with_arg args i g)"
  by (simp_all add: with_arg_def)

lemma each_steady: "(\<And>x. x \<in> set xs \<Longrightarrow> steady an (f x an)) \<Longrightarrow> steady an (each f xs an)"
  by (induction xs) (auto intro!: steady_bind)

lemma scopes_grow_nonempty: "grows an an' \<Longrightarrow> an_scopes an \<noteq> [] \<Longrightarrow> an_scopes an' \<noteq> []"
  by (cases "an_scopes an") (auto simp: grows_def)

lemma each_extends:
  assumes "wf_analyzer an" "an_scopes an \<noteq> []"
    and "\<And>x an. x \<in> set xs \<Longrightarrow> wf_analyzer an \<Longrightarrow> an_scopes an \<noteq> [] \<Longrightarrow> extends an (f x an)"
  shows "extends an (each f xs an)"
  using assms
proof (induction xs arbitrary: an)
  case Nil
  then show ?case by (simp add: extends_def)
next
  case (Cons x xs)
  then show ?case by (auto intro!: extends_bind Cons.IH dest: scopes_grow_nonempty)
qed

lemma wf_scope_update: "wf_scope an s \<Longrightarrow> declared an (bi_ty b) \<Longrightarrow> wf_scope an (s(n \<mapsto> b))"
  by (auto simp: wf_scope_def ran_def)

lemma bind_here_extends:
  assumes "wf_analyzer an" "an_scopes an = s # ss" "s n = None" "declared an ty"
  shows "extends an (Inr (an\<lparr>an_scopes := s(n \<mapsto> \<lparr>bi_ty = ty, bi_is_mut = m\<rparr>) # ss\<rparr>))"
proof -
  have "wf_analyzer (an\<lparr>an_scopes := s(n \<mapsto> \<lparr>bi_ty = ty, bi_is_mut = m\<rparr>) # ss\<rparr>)"
    using assms by (intro wf_scopes_update) (auto simp: wf_analyzer_def intro: wf_scope_update)
  moreover have "scopes_grow (an_scopes an) (s(n \<mapsto> \<lparr>bi_ty = ty, bi_is_mut = m\<rparr>) # ss)"
    using assms(2,3) by (auto simp: map_le_def dom_def)
  ultimately show ?thesis
    by (auto simp: extends_def grows_def)
qed

lemma add_binding_extends:
  assumes "wf_analyzer an" "an_scopes an \<noteq> []" "declared an ty"
  shows "extends an (add_binding n ty m sp an)"
proof -
  obtain s ss where "an_scopes an = s # ss" using assms(2) by (cases "an_scopes an") auto
  with bind_here_extends [OF assms(1) this _ assms(3)] show ?thesis
    by (auto simp: add_binding_def reject_reserved_collection_name_def)
qed

lemma bind_payload_extends:
  "wf_analyzer an \<Longrightarrow> an_scopes an \<noteq> [] \<Longrightarrow> (\<forall>t \<in> set ts. declared an t) \<Longrightarrow>
     extends an (bind_payload ps ts an)"
proof (induction ps ts an rule: bind_payload.induct)
  case (1 name bspan ps t ts an)
  then show ?case
    by (auto intro!: extends_bind add_binding_extends "1.IH" dest: scopes_grow_nonempty
        simp: declared_grows)
qed (auto simp: extends_def)

lemma enum_payload_declared:
  "wf_analyzer an \<Longrightarrow> an_enums an en = Some info \<Longrightarrow> map_of (ei_variants info) v = Some payload \<Longrightarrow>
     t \<in> set payload \<Longrightarrow> declared an t"
  by (force simp: wf_analyzer_def wf_tables_def ran_def dest: map_of_SomeD)

text \<open>
  A pattern that has passed \<open>check_pattern_compat\<close> can be bound: the two lookups that the
  code unwraps have been made before.
\<close>

lemma pattern_compat_yields: "yields (\<lambda>_. True) (check_pattern_compat an pat ty seen sp)"
  by (auto simp: check_pattern_compat_def split: pattern.split bc_type.split option.split)

lemma bind_pattern_extends:
  assumes wf: "wf_analyzer an" and ty: "declared an ty"
    and compat: "check_pattern_compat an pat ty seen sp = Inr seen'"
  shows "extends (push_scope an) (bind_pattern_vars pat ty sp' (push_scope an))"
proof (cases pat)
  case (PIdent n s)
  then show ?thesis
    using wf ty by (auto simp: bind_pattern_vars_def push_scope_def [of an, THEN arg_cong [of _ _ an_scopes]]
        intro!: add_binding_extends)
next
  case (PEnum en v bs s)
  have ne: "an_scopes (push_scope an) \<noteq> []" by (simp add: push_scope_def)
  have tables: "an_enums (push_scope an) = an_enums an" by (simp add: push_scope_def)
  show ?thesis
  proof (cases "en = ''Result''")
    case True
    with PEnum wf ty ne show ?thesis
      by (auto simp: bind_pattern_vars_def split: bc_type.split intro!: bind_payload_extends)
  next
    case False
    with PEnum compat obtain info payload where
      "ty = BcEnum en" "an_enums an en = Some info" "map_of (ei_variants info) v = Some payload"
      by (auto simp: check_pattern_compat_def split: bc_type.splits option.splits if_splits)
    with PEnum False wf ne tables enum_payload_declared [OF wf] show ?thesis
      by (auto simp: bind_pattern_vars_def intro!: bind_payload_extends)
  qed
qed (use wf in \<open>simp_all add: bind_pattern_vars_def extends_def\<close>)

end
