(* ===== verification/CheckerSound.thy ===== *)
theory CheckerSound
  imports CheckerSafe
begin

text \<open>
  The locale \<open>safe\<close> extends the contract \<open>frame\<close>: in a well-formed state, and with an
  expected type that is declared, a checker neither panics nor runs dry, and the type it
  returns is declared. Every part of \<open>Calls\<close> keeps the contract; the last section shows it
  of \<open>check_expr\<close> and \<open>check_stmt\<close>.
\<close>

section \<open>The check of interpolated expressions\<close>

lemma for_all_yields:
  "(\<And>x. x \<in> set xs \<Longrightarrow> yields (\<lambda>_. True) (f x)) \<Longrightarrow> yields (\<lambda>_. True) (for_all f xs)"
  by (induction xs) (auto intro: yields_bind)

lemma ensure_pure_yields:
  "yields (\<lambda>_. True) (ensure_interpolation_expr_pure an e)"
  "yields (\<lambda>_. True) (ensure_interpolation_stmt_pure an s)"
  "yields (\<lambda>_. True) (ensure_interpolation_block_pure an b)"
  by (induction an e and an s and an b
      rule: ensure_interpolation_expr_pure_ensure_interpolation_stmt_pure_ensure_interpolation_block_pure.induct)
    (auto intro!: for_all_yields yields_bind split: interp_part.split match_arm.split field_init.split
      expr.split option.split)

section \<open>Resolved intrinsics\<close>

lemma callback_declared: "callback_type i = Some (Some cb) \<Longrightarrow> declared an cb"
  by (auto simp: callback_type_def Let_def split: option.splits collection_op.splits)

lemma is_higher_order_iff:
  "is_higher_order i \<longleftrightarrow> co_op i \<in> {CoAny, CoAll, CoMap, CoFilter, CoForEach, CoFold}"
  by (cases "co_op i") (simp_all add: is_higher_order_def)

lemma wf_callback:
  assumes "wf_intrinsic i" "co_op i \<in> {CoAny, CoAll, CoMap, CoFilter, CoForEach, CoFold}"
  obtains cb where "callback_type i = Some (Some cb)" "\<And>an. declared an cb"
proof -
  obtain c where c: "callback_type i = Some c" "c \<noteq> None \<longleftrightarrow> is_higher_order i"
    using wf_callback_type [OF assms(1)] by blast
  with assms(2) obtain cb where "callback_type i = Some (Some cb)"
    by (auto simp: is_higher_order_iff)
  with callback_declared [OF this] show ?thesis by (intro that)
qed

lemma wf_map_target: "wf_intrinsic i \<Longrightarrow> co_op i = CoMap \<Longrightarrow> \<exists>t. co_target i = Some t"
  by (auto simp: wf_intrinsic_def is_generic_def)

lemma arity_cases:
  "co_op i \<in> {CoClone, CoReverse, CoClear, CoSort} \<Longrightarrow> arity i = 1"
  "co_op i \<in> {CoRepeat, CoFill, CoExtend, CoRemoveAt, CoContains, CoIndexOf, CoLastIndexOf,
     CoCount, CoCompare, CoAny, CoAll, CoMap, CoFilter, CoForEach} \<Longrightarrow> arity i = 2"
  "co_op i \<in> {CoSwap, CoInsert, CoSlice, CoFold} \<Longrightarrow> arity i = 3"
  by (auto simp: arity_def)

lemma types_if: "(c \<Longrightarrow> types an a) \<Longrightarrow> (\<not> c \<Longrightarrow> types an b) \<Longrightarrow> types an (if c then a else b)"
  by simp

lemma types_option:
  "(x = None \<Longrightarrow> types an a) \<Longrightarrow> (\<And>y. x = Some y \<Longrightarrow> types an (f y)) \<Longrightarrow>
     types an (case x of None \<Rightarrow> a | Some y \<Rightarrow> f y)"
  by (cases x) simp_all

text \<open>A result whose extra value has the property \<open>Q\<close>.\<close>

definition settles :: "analyzer \<Rightarrow> ('a \<Rightarrow> bool) \<Rightarrow> failure + ('a \<times> analyzer) \<Rightarrow> bool" where
  "settles an Q r \<longleftrightarrow> graceful r \<and> (\<forall>x an'. r = Inr (x, an') \<longrightarrow> an' = an \<and> Q x)"

lemma types_settles: "types an r \<longleftrightarrow> settles an (declared an) r"
  by (simp add: types_def settles_def)

lemma settles_simps [simp]:
  "settles an Q (Inl (Rejected e))"
  "settles an Q (Inr (x, an)) \<longleftrightarrow> Q x"
  by (simp_all add: settles_def)

lemma settles_cases:
  assumes "settles an Q m"
  obtains e where "m = Inl (Rejected e)" | x where "m = Inr (x, an)" "Q x"
proof -
  have "graceful m" using assms by (simp add: settles_def)
  then show ?thesis
  proof (cases rule: graceful_cases)
    case (ok r)
    obtain x an' where "r = (x, an')" by (cases r)
    with ok assms have "m = Inr (x, an)" "Q x" by (auto simp: settles_def)
    then show ?thesis by (rule that(2))
  next
    case (rejected e)
    then show ?thesis by (rule that(1))
  qed
qed

lemma settles_bind:
  assumes "settles an P m" "\<And>x. P x \<Longrightarrow> settles an Q (f x an)"
  shows "settles an Q (and_then m (\<lambda>(x, an). f x an))"
  using assms(2) by (cases rule: settles_cases [OF assms(1)]) simp_all

lemma settles_types:
  assumes "settles an P m" "\<And>x. P x \<Longrightarrow> types an (f x an)"
  shows "types an (and_then m (\<lambda>(x, an). f x an))"
  using assms unfolding types_settles by (rule settles_bind)

lemma settles_steady:
  assumes "settles an P m" "\<And>x. P x \<Longrightarrow> steady an (f x an)"
  shows "steady an (and_then m (\<lambda>(x, an). f x an))"
  using assms(2) by (cases rule: settles_cases [OF assms(1)]) simp_all

lemma settles_yields:
  assumes "yields P m" "\<And>x. P x \<Longrightarrow> settles an Q (f x)"
  shows "settles an Q (and_then m f)"
  using assms(2) by (cases rule: yields_cases [OF assms(1)]) simp_all

lemma each_settles:
  assumes "Q y" "\<And>x y. x \<in> set xs \<Longrightarrow> Q y \<Longrightarrow> settles an Q (f x (y, an))"
  shows "settles an Q (each f xs (y, an))"
  using assms
proof (induction xs arbitrary: y)
  case (Cons x xs)
  have "settles an Q (and_then (f x (y, an)) (\<lambda>(z, an). each f xs (z, an)))"
    using Cons by (intro settles_bind [where P = Q]) simp_all
  then show ?case by simp
qed simp

lemma extends_refl: "wf_analyzer an \<Longrightarrow> extends an (Inr an)"
  by (simp add: extends_def)

text \<open>Work in a fresh scope, which is popped at the end.\<close>

lemma in_scope_settles:
  assumes m: "extends (push_scope an) m"
    and f: "\<And>an1. grows (push_scope an) an1 \<Longrightarrow> wf_analyzer an1 \<Longrightarrow> types an1 (f an1)"
    and h: "\<And>ty. declared an ty \<Longrightarrow> Q (h ty)"
  shows "settles an Q (and_then m (\<lambda>an1. and_then (f an1) (\<lambda>(ty, an2). Inr (h ty, pop_scope an2))))"
proof -
  have "graceful m" using m by (simp add: extends_def)
  then show ?thesis
  proof (cases rule: graceful_cases)
    case (ok an1)
    with m have an1: "grows (push_scope an) an1" "wf_analyzer an1" by (auto simp: extends_def)
    from f [OF this] show ?thesis
      using ok h by (cases rule: types_cases) (simp_all add: grows_push [OF an1(1)] declared_grows [OF an1(1)])
  qed simp
qed

section \<open>The contract\<close>

locale safe = frame +
  assumes ce_types: "e \<in> E \<Longrightarrow> wf_analyzer an \<Longrightarrow> wf_expected an ex \<Longrightarrow> types an (ce e ex an)"
    and cs_extends: "s \<in> S \<Longrightarrow> wf_analyzer an \<Longrightarrow> an_scopes an \<noteq> [] \<Longrightarrow> extends an (cs s an)"

context safe begin

lemma collection_arg_steady:
  "a \<in> E \<Longrightarrow> wf_analyzer an \<Longrightarrow> declared an ty \<Longrightarrow> steady an (check_collection_arg ce a ty n p an)"
  by (auto simp: check_collection_arg_def intro!: safe_intros ce_types)

lemma with_arg_collection_steady:
  "set args \<subseteq> E \<Longrightarrow> wf_analyzer an \<Longrightarrow> declared an ty \<Longrightarrow> i < length args \<Longrightarrow>
     steady an (with_arg args i (\<lambda>a. check_collection_arg ce a ty n p an))"
  by (auto intro!: with_arg_safe collection_arg_steady)

lemma check_args_steady:
  "set args \<subseteq> E \<Longrightarrow> wf_analyzer an \<Longrightarrow> (\<forall>t \<in> set tys. declared an t) \<Longrightarrow>
     steady an (check_args ce mk i args tys an)"
proof (induction args arbitrary: i tys)
  case (Cons a args)
  then show ?case by (cases tys) (auto intro!: safe_intros ce_types)
qed simp

lemma collection_result_types:
  assumes "set args \<subseteq> E" "wf_analyzer an" "declared an t" "declared an el" "wf_intrinsic i"
    "length args = arity i" "co_op i \<noteq> CoRepeat"
  shows "types an (collection_result ce i n args t el an)"
proof -
  note arg = with_arg_collection_steady [OF assms(1,2)]
  show ?thesis
  proof (cases "co_op i \<in> {CoAny, CoAll, CoMap, CoFilter, CoForEach, CoFold}")
    case True
    obtain cb where cb: "callback_type i = Some (Some cb)" "declared an cb"
      using wf_callback [OF assms(5) True] by metis
    with True assms wf_map_target [OF assms(5)] show ?thesis
      unfolding collection_result_def Let_def
      by (auto simp: arity_cases intro!: safe_intros arg)
  next
    case False
    with assms show ?thesis
      unfolding collection_result_def Let_def
      by (cases "co_op i")
        (auto simp: arity_cases intro!: safe_intros with_arg_safe arg ce_types split: option.split)
  qed
qed

lemma collection_call_types:
  assumes "set args \<subseteq> E" "wf_analyzer an" "wf_intrinsic i"
  shows "types an (check_collection_call ce i n args sp an)"
proof -
  have arg: "types an (ce a ex an)" if "a \<in> set args" "wf_expected an ex" for a ex
    using that assms(1) by (intro ce_types assms(2)) auto
  have ex: "wf_expected an (map_option BcArray (map_option core_bc_type src))" for src
    by (cases src) auto
  have unit: "yields (\<lambda>_. True)
      (if is_mutating i then with_arg args 0 (require_mutable_collection_target an n) else Inr ())"
    if "length args = arity i"
    using that by (simp add: with_arg_def yields_unit)
  note nth = with_arg_collection_steady [OF assms(1,2)]
  have result: "types an (collection_result ce i n args t el an)"
    if "declared an t" "array_element_type t = Some el" "length args = arity i" "co_op i \<noteq> CoRepeat" for t el
    using that assms by (intro collection_result_types) (auto dest: declared_element)
  show ?thesis
    unfolding check_collection_call_def Let_def
    by (intro types_if types_option result_simps(1) yields_then(4) with_arg_safe(1) steady_bind types_bind
        arg unit nth result)
      (simp_all add: ex arity_cases)
qed

lemma len_types: "set args \<subseteq> E \<Longrightarrow> wf_analyzer an \<Longrightarrow> types an (check_len ce args sp an)"
  by (auto simp: check_len_def split: option.split intro!: safe_intros with_arg_safe ce_types)

lemma push_types: "set args \<subseteq> E \<Longrightarrow> wf_analyzer an \<Longrightarrow> types an (check_push ce args sp an)"
  by (auto simp: check_push_def yields_unit split: bc_type.split
      intro!: safe_intros with_arg_safe ce_types)

lemma pop_types: "set args \<subseteq> E \<Longrightarrow> wf_analyzer an \<Longrightarrow> types an (check_pop ce args sp an)"
  by (auto simp: check_pop_def yields_unit split: bc_type.split
      intro!: safe_intros with_arg_safe ce_types)

lemma pointer_call_types:
  "set args \<subseteq> E \<Longrightarrow> wf_analyzer an \<Longrightarrow> declared an ty \<Longrightarrow>
     types an (check_pointer_call ce name ty args sp an)"
  by (auto simp: check_pointer_call_def split: bc_type.split intro!: safe_intros check_args_steady)

lemma function_call_types:
  assumes "set args \<subseteq> E" "wf_analyzer an"
  shows "types an (check_function_call ce name args sp an)"
proof (cases "an_functions an name")
  case (Some fi)
  with assms wf_function_lookup [OF assms(2) Some] show ?thesis
    by (auto simp: check_function_call_def wf_function_def intro!: safe_intros check_args_steady)
qed (simp add: check_function_call_def)

lemma call_types:
  assumes "set args \<subseteq> E" "wf_analyzer an"
  shows "types an (check_call ce callee args sp an)"
proof (cases "\<exists>name nsp. callee = EIdent name nsp")
  case True
  then obtain name nsp where callee: "callee = EIdent name nsp" by blast
  have "types an (check_collection_call ce i name args sp an)" if "resolve_with_alias name = Some i" for i
    using assms resolve_with_alias_wf [OF that] by (rule collection_call_types)
  moreover have "types an (check_pointer_call ce name (bi_ty info) args sp an)"
    if "lookup_var an name = Some info" for info
    using assms declared_lookup [OF assms(2) that] by (rule pointer_call_types)
  ultimately show ?thesis
    unfolding callee check_call_def expr.case
    by (intro types_option types_if len_types [OF assms] push_types [OF assms] pop_types [OF assms]
        function_call_types [OF assms]) simp_all
next
  case False
  then show ?thesis by (simp add: check_call_def split: expr.split)
qed

lemma array_lit_types:
  assumes "set es \<subseteq> E" "wf_analyzer an" "wf_expected an ex"
  shows "types an (check_array_lit ce es sp ex an)"
proof (cases es)
  case Nil
  with assms show ?thesis by (auto simp: check_array_lit_def split: option.split bc_type.split)
next
  case (Cons e rest)
  have result: "declared an (case ex of
      Some (BcFixedArray elem sz) \<Rightarrow>
        if elem = t \<and> sz = int n then BcFixedArray t sz else BcArray t
    | _ \<Rightarrow> BcArray t)" if "declared an t" for t n
    using that by (auto split: option.split bc_type.split)
  from Cons assms have "types an (check_array_lit ce (e # rest) sp ex an)"
    unfolding check_array_lit_def list.case
    by (intro safe_intros each_steady) (auto intro!: ce_types safe_intros result)
  with Cons show ?thesis by simp
qed

lemma struct_lit_types:
  assumes "\<And>n v s. FieldInit n v s \<in> set inits \<Longrightarrow> v \<in> E" "wf_analyzer an"
  shows "types an (check_struct_lit ce name inits sp an)"
proof (cases "an_structs an name")
  case (Some info)
  have field: "declared an t" if "map_of (si_fields info) n = Some t" for n t
    using assms(2) Some that
    by (force simp: wf_analyzer_def wf_tables_def ran_def dest: map_of_SomeD)
  have "settles an (\<lambda>_. True) (check_field_init ce name info fi (provided, an))"
    if "fi \<in> set inits" for fi provided
  proof (cases fi rule: field_init.exhaust)
    case (FieldInit n v s)
    with that assms(1) have "v \<in> E" by blast
    then have "types an (ce v (Some t) an)" if "declared an t" for t
      using that assms(2) by (intro ce_types) simp_all
    with FieldInit field show ?thesis
      by (auto simp: check_field_init_def types_settles split: option.split intro!: settles_bind)
  qed
  with Some show ?thesis
    by (auto simp: check_struct_lit_def Let_def intro!: settles_types each_settles)
qed (simp add: check_struct_lit_def)

lemma result_payload_types:
  assumes "a \<in> E" "wf_analyzer an" "wf_expected an p"
  shows "types an (check_result_payload ce a p mk an)"
  using assms by (cases p) (auto simp: check_result_payload_def intro!: safe_intros ce_types)

lemma types_fail: "types an m \<Longrightarrow> types an (and_then m (\<lambda>_. Inl (Rejected e)))"
  by (cases m) (auto simp: types_def)

lemma result_constructor_types:
  assumes "set args \<subseteq> E" "wf_analyzer an" "wf_expected an ex"
  shows "types an (check_result_constructor ce v args sp ex an)"
proof -
  have arg: "types an (check_result_payload ce a p mk an)" if "a \<in> set args" "wf_expected an p" for a p mk
    using that assms by (intro result_payload_types) auto
  show ?thesis
  proof (cases rule: infer_result_type_cases [of an ex])
    case 1
    then show ?thesis
      unfolding check_result_constructor_def
      by (intro types_if result_simps(1) with_arg_safe(1)) (auto intro!: types_fail arg)
  next
    case (2 a b)
    then have "declared an a" "declared an b"
      using declared_infer [OF assms(2,3) 2] by simp_all
    with 2 show ?thesis
      unfolding check_result_constructor_def
      by (intro types_if result_simps(1) with_arg_safe(1)) (auto intro!: types_bind arg)
  qed
qed

lemma enum_constructor_types:
  assumes "set args \<subseteq> E" "wf_analyzer an" "wf_expected an ex"
  shows "types an (check_enum_constructor ce en v args sp ex an)"
proof -
  have "steady an (check_args ce mk i args payload an)"
    if "an_enums an en = Some info" "map_of (ei_variants info) v = Some payload" for info payload mk i
    using assms enum_payload_declared [OF assms(2) that] by (intro check_args_steady) auto
  with result_constructor_types [OF assms] show ?thesis
    unfolding check_enum_constructor_def
    by (intro types_if types_option result_simps(1) steady_bind) auto
qed

lemma interpolated_string_types:
  assumes "\<And>e. IExpr e \<in> set parts \<Longrightarrow> e \<in> E" "wf_analyzer an"
  shows "types an (check_interpolated_string ce parts sp an)"
proof -
  have "settles an (\<lambda>_. True) (check_interp_part ce part (ip, an))" if "part \<in> set parts" for part ip
  proof (cases part rule: interp_part.exhaust)
    case (IExpr e)
    with that assms have "types an (ce e None an)" by (auto intro: ce_types)
    then show ?thesis
      using IExpr
      by (auto simp: check_interp_part_def types_settles
          intro!: settles_yields [OF ensure_pure_yields(1)] settles_bind)
  qed (simp add: check_interp_part_def)
  then show ?thesis
    by (auto simp: check_interpolated_string_def intro!: settles_types each_settles)
qed

section \<open>Blocks, loops and branches\<close>

lemma each_stmts_extend:
  "set ss \<subseteq> S \<Longrightarrow> wf_analyzer an \<Longrightarrow> an_scopes an \<noteq> [] \<Longrightarrow> extends an (each cs ss an)"
  by (intro each_extends) (auto intro: cs_extends)

lemma tail_types:
  assumes "covered E S block" "wf_analyzer an" "wf_expected an ex"
  shows "types an (case b_tail_expr block of Some e \<Rightarrow> ce e ex an | None \<Rightarrow> Inr (BcUnit, an))"
  using assms by (auto simp: covered_def intro: ce_types split: option.split)

lemma wf_expected_grows: "grows an an' \<Longrightarrow> wf_expected an' ex = wf_expected an ex"
  by (simp add: wf_expected_def declared_grows)

lemma wf_expected_push: "wf_expected (push_scope an) ex = wf_expected an ex"
  by (simp add: wf_expected_def)

lemma push_scope_nonempty [simp]: "an_scopes (push_scope an) \<noteq> []"
  by (simp add: push_scope_def)

lemma block_types:
  assumes "covered E S block" "wf_analyzer an" "wf_expected an ex"
  shows "types an (check_block cs ce block ex an)"
  unfolding check_block_def types_settles
proof (rule in_scope_settles)
  show "extends (push_scope an) (each cs (b_stmts block) (push_scope an))"
    using assms by (intro each_stmts_extend) (auto simp: covered_def)
  show "types an1 (case b_tail_expr block of Some e \<Rightarrow> ce e ex an1 | None \<Rightarrow> Inr (BcUnit, an1))"
    if "grows (push_scope an) an1" "wf_analyzer an1" for an1
    using assms that by (intro tail_types) (simp_all add: wf_expected_grows wf_expected_push)
qed

lemma enter_loop_nonempty [simp]: "an_scopes (enter_loop an) = an_scopes an"
  by (simp add: enter_loop_def)

lemma for_body_steady:
  assumes "covered E S block" "wf_analyzer an" "declared an ty"
  shows "steady an (check_for_body cs ce var ty sp block an)"
proof -
  have "graceful (check_for_body cs ce var ty sp block an)"
  proof (cases rule: extends_cases [OF add_binding_extends [of "push_scope an" ty var False sp]])
    case (5 an1)
    have "extends (enter_loop an1) (each cs (b_stmts block) (enter_loop an1))"
      using assms 5 by (intro each_stmts_extend)
        (simp_all add: covered_def scopes_grow_nonempty [OF 5(2)])
    then show ?thesis
    proof (cases rule: extends_cases)
      case (2 an2)
      from tail_types [OF assms(1) 2(3), of None] show ?thesis
        unfolding check_for_body_def using 5 2 by (cases rule: types_cases) simp_all
    qed (use 5 in \<open>simp add: check_for_body_def\<close>)
  qed (use assms in \<open>simp_all add: check_for_body_def\<close>)
  then show ?thesis
    using for_body_grows [OF assms(1)] by (simp add: steady_def)
qed

lemma while_steady:
  assumes "c \<in> E" "covered E S block" "wf_analyzer an"
  shows "steady an (check_while cs ce c block sp an)"
proof -
  have "types (enter_loop an) (check_block cs ce block None (enter_loop an))"
    using assms by (intro block_types) simp_all
  moreover have "leave_loop (enter_loop an) = an" by (simp add: leave_loop_def enter_loop_def)
  ultimately have "steady an
      (and_then (check_block cs ce block None (enter_loop an)) (\<lambda>(_, an). Inr (leave_loop an)))"
    by (cases rule: types_cases) simp_all
  with assms show ?thesis
    by (auto simp: check_while_def intro!: types_bind ce_types)
qed

lemma for_steady:
  "st \<in> E \<Longrightarrow> en \<in> E \<Longrightarrow> covered E S block \<Longrightarrow> wf_analyzer an \<Longrightarrow>
     steady an (check_for cs ce var st en block sp an)"
  by (auto simp: check_for_def intro!: types_bind ce_types for_body_steady)

lemma for_in_steady:
  "it \<in> E \<Longrightarrow> covered E S block \<Longrightarrow> wf_analyzer an \<Longrightarrow>
     steady an (check_for_in cs ce var it block sp an)"
  by (auto simp: check_for_in_def split: option.split dest: declared_element
      intro!: types_bind ce_types for_body_steady)

lemma place_types:
  assumes "\<And>e. AccIndex e \<in> set (pl_accessors target) \<Longrightarrow> e \<in> E" "wf_analyzer an"
  shows "types an (check_place ce plain target sp an)"
proof -
  have "settles an (declared an) (check_accessor ce plain sp acc (ty, an))"
    if "acc \<in> set (pl_accessors target)" "declared an ty" for acc ty
  proof (cases acc rule: place_accessor.exhaust)
    case (AccField f)
    then show ?thesis
      using declared_field [OF assms(2), of ty f sp]
      by (auto simp: check_accessor_def intro!: settles_yields)
  next
    case (AccIndex e)
    with that assms have "types an (ce e None an)" by (auto intro: ce_types)
    then show ?thesis
    proof (cases rule: types_cases)
      case (2 t)
      then show ?thesis
        using AccIndex declared_element_type [OF that(2), of sp]
        by (auto simp: check_accessor_def intro!: settles_yields)
    qed (use AccIndex in \<open>simp add: check_accessor_def\<close>)
  qed
  then show ?thesis
    unfolding check_place_def
    by (intro yields_then(1) declared_assignable assms(2)) (auto simp: types_settles intro!: each_settles)
qed

lemma assign_steady:
  assumes "\<And>e. AccIndex e \<in> set (pl_accessors target) \<Longrightarrow> e \<in> E" "v \<in> E" "wf_analyzer an"
  shows "steady an (check_assign ce target v sp an)" "steady an (check_compound_assign ce target op' v sp an)"
  using place_types [OF assms(1) assms(3), of target] assms(2,3)
  unfolding check_assign_def check_compound_assign_def
  by (auto intro!: types_bind yields_then ce_types declared_compound)

lemma let_extends:
  assumes "v \<in> E" "wf_analyzer an" "an_scopes an \<noteq> []"
  shows "extends an (check_let ce name m ty v sp an)"
  using assms declared_resolve(1) [of an ty]
  by (auto simp: check_let_def intro!: yields_then types_bind ce_types add_binding_extends)

lemma return_steady:
  assumes "\<And>e. v = Some e \<Longrightarrow> e \<in> E" "wf_analyzer an"
  shows "steady an (check_return ce v sp an)"
proof -
  have "declared an (case an_current_fn_return_type an of Some t \<Rightarrow> t | None \<Rightarrow> BcUnit)"
    using assms(2) by (auto simp: wf_analyzer_def split: option.split)
  with assms show ?thesis
    by (auto simp: check_return_def Let_def split: option.split intro!: types_bind ce_types)
qed

lemma defer_steady: "e \<in> E \<Longrightarrow> wf_analyzer an \<Longrightarrow> steady an (check_defer ce e sp an)"
  by (auto simp: check_defer_def intro!: types_bind ce_types)

lemma arena_types:
  "covered E S block \<Longrightarrow> wf_analyzer an \<Longrightarrow> wf_expected an ex \<Longrightarrow>
     types an (check_arena cs ce block sp ex an)"
  by (auto simp: check_arena_def intro!: types_bind block_types)

lemma if_types:
  assumes "c \<in> E" "covered E S block" "\<And>e. els = Some e \<Longrightarrow> e \<in> E" "wf_analyzer an" "wf_expected an ex"
  shows "types an (check_if cs ce c block els sp ex an)"
proof -
  have join: "types an (case join_compatible_types a b ex of Some ty \<Rightarrow> Inr (ty, an) | None \<Rightarrow> reject sp m)"
    if "declared an a" for a b m
    using that by (auto split: option.split dest: declared_join)
  show ?thesis
    unfolding check_if_def
    by (intro types_bind types_if types_option ce_types block_types join assms) simp_all
qed

lemma try_types: "e \<in> E \<Longrightarrow> wf_analyzer an \<Longrightarrow> types an (check_try ce e sp an)"
  by (auto simp: check_try_def split: bc_type.split option.split intro!: types_bind ce_types)

lemma exhaustive_yields: "declared an ty \<Longrightarrow> yields (\<lambda>_. True) (check_exhaustive ty sp ms an)"
  by (cases ty) (auto simp: check_exhaustive_def Let_def)

lemma join_arms_yields:
  "declared an r \<Longrightarrow> yields (declared an) (join_arms ex r rest)"
  by (induction ex r rest rule: join_arms.induct) (auto split: option.split dest: declared_join)

lemma match_types:
  assumes arms: "\<And>p b s. MatchArm p b s \<in> set arms \<Longrightarrow> b \<in> E"
    and wf: "wf_analyzer an" "wf_expected an ex" "declared an ty"
  shows "types an (check_match ce ty arms sp ex an)"
proof -
  let ?Q = "\<lambda>ms. \<forall>t \<in> set (ms_types ms). declared an t"
  have arm: "settles an ?Q (check_arm ce ty sp ex arm (ms, an))" if "arm \<in> set arms" "?Q ms" for arm ms
  proof (cases arm rule: match_arm.exhaust)
    case (MatchArm p b s)
    with arms that have "b \<in> E" by blast
    have "settles an ?Q (and_then (bind_pattern_vars p ty s (push_scope an)) (\<lambda>an.
        and_then (ce b ex an) (\<lambda>(t, an).
        Inr (\<lparr>ms_seen = seen, ms_wildcard = w, ms_types = ms_types ms @ [t]\<rparr>, pop_scope an))))"
      if "check_pattern_compat an p ty (ms_seen ms) sp = Inr seen" for seen w
    proof (rule in_scope_settles)
      show "extends (push_scope an) (bind_pattern_vars p ty s (push_scope an))"
        using wf that by (intro bind_pattern_extends) simp_all
      show "types an1 (ce b ex an1)" if "grows (push_scope an) an1" "wf_analyzer an1" for an1
        using that \<open>b \<in> E\<close> wf by (intro ce_types) (simp_all add: wf_expected_grows wf_expected_push)
    qed (use \<open>?Q ms\<close> in auto)
    with MatchArm show ?thesis
      by (cases rule: yields_cases [OF pattern_compat_yields [of an p ty "ms_seen ms" sp]])
        (simp_all add: check_arm_def)
  qed
  have result: "types an (case ms_types ms of
       [] \<Rightarrow> Inr (BcUnit, an)
     | t # ts \<Rightarrow> and_then (join_arms ex t (zip (tl arms) ts)) (\<lambda>ty. Inr (ty, an)))" if "?Q ms" for ms
    using that by (auto split: list.split intro!: yields_then join_arms_yields)
  have "settles an ?Q (each (check_arm ce ty sp ex) arms (\<lparr>ms_seen = {}, ms_wildcard = False, ms_types = []\<rparr>, an))"
    by (rule each_settles) (simp, rule arm)
  then show ?thesis
    unfolding check_match_def
    by (rule settles_types) (intro yields_then(4) exhaustive_yields wf result)
qed

end

section \<open>The checkers keep the contract\<close>

lemma safe_step:
  assumes "safe check_expr check_stmt {e. size e < n} {s. size s < n}"
  shows "safe check_expr check_stmt {e. size e < Suc n} {s. size s < Suc n}"
proof (intro safe.intro frame_below safe_axioms.intro)
  note types = safe.call_types [OF assms] safe.array_lit_types [OF assms]
    safe.struct_lit_types [OF assms] safe.enum_constructor_types [OF assms]
    safe.interpolated_string_types [OF assms] safe.block_types [OF assms]
    safe.arena_types [OF assms] safe.if_types [OF assms] safe.try_types [OF assms]
    safe.match_types [OF assms]
  note steady = safe.assign_steady(1) [OF assms] safe.assign_steady(2) [OF assms]
    safe.return_steady [OF assms] safe.defer_steady [OF assms] safe.while_steady [OF assms]
    safe.for_steady [OF assms] safe.for_in_steady [OF assms]
  note extend = safe.let_extends [OF assms] steady [THEN [2] steady_extends]
  note sub = safe.ce_types [OF assms]
  show "types an (check_expr e ex an)"
    if "e \<in> {e. size e < Suc n}" "wf_analyzer an" "wf_expected an ex" for e ex an
    using that
    by (cases e rule: expr.exhaust)
      (auto intro!: types_if safe_intros sub types covered_smaller members_smaller declared_operators
        declared_ident declared_field declared_element_type declared_resolve
        dest!: size_part size_arm size_init)
  show "extends an (check_stmt s an)"
    if "s \<in> {s. size s < Suc n}" "wf_analyzer an" "an_scopes an \<noteq> []" for s an
    using that
    by (cases s rule: stmt.exhaust)
      (auto intro!: types_bind sub extend covered_smaller extends_refl dest!: size_place_index)
qed

lemma safe_below: "safe check_expr check_stmt {e. size e < n} {s. size s < n}"
proof (induction n)
  case 0
  then show ?case by (intro safe.intro frame_below safe_axioms.intro) simp_all
next
  case (Suc n)
  then show ?case by (rule safe_step)
qed

interpretation checker_safe: safe check_expr check_stmt UNIV UNIV
proof (intro safe.intro safe_axioms.intro)
  show "frame check_expr check_stmt UNIV UNIV" by unfold_locales
  show "types an (check_expr e ex an)" if "wf_analyzer an" "wf_expected an ex" for e ex an
    using safe.ce_types [OF safe_below [of "Suc (size e)"]] that by simp
  show "extends an (check_stmt s an)" if "wf_analyzer an" "an_scopes an \<noteq> []" for s an
    using safe.cs_extends [OF safe_below [of "Suc (size s)"]] that by simp
qed

lemma check_expr_types: "wf_analyzer an \<Longrightarrow> wf_expected an ex \<Longrightarrow> types an (check_expr e ex an)"
  by (rule checker_safe.ce_types) simp_all

lemma check_block_types:
  "wf_analyzer an \<Longrightarrow> wf_expected an ex \<Longrightarrow> types an (check_block check_stmt check_expr block ex an)"
  by (rule checker_safe.block_types) (simp_all add: covered_def)

lemma check_let_extends:
  "wf_analyzer an \<Longrightarrow> an_scopes an \<noteq> [] \<Longrightarrow> extends an (check_let check_expr name m ty v sp an)"
  by (rule checker_safe.let_extends) simp_all

end
