(* ===== verification/Leaks.thy ===== *)
theory Leaks
  imports Syntax
begin

text \<open>
  The warnings about resources that are acquired without a matching \<open>defer\<close>, from
  \<open>src/src/semantic.rs\<close>: the names called anywhere in a function body (the contents of
  \<open>defer\<close> statements apart), the names deferred by its top-level statements, and the table of
  resource pairs. A \<open>HashSet\<close> that is filled is the set that is returned.
\<close>

definition resource_pairs :: "(string \<times> string) list" where
  "resource_pairs =
     [(''file_open_read'', ''file_close''),
      (''file_open_write'', ''file_close''),
      (''file_open_append'', ''file_close''),
      (''socket_tcp'', ''socket_close''),
      (''socket_udp'', ''socket_close''),
      (''socket_accept'', ''socket_close''),
      (''socket_unix_connect'', ''socket_close''),
      (''tls_connect'', ''tls_close''),
      (''term_raw'', ''term_restore'')]"

fun call_name :: "expr \<Rightarrow> string option" where
  "call_name (ECall (EIdent name _) _ _) = Some name"
| "call_name _ = None"

definition collect_from :: "('x \<Rightarrow> string set) \<Rightarrow> 'x list \<Rightarrow> string set" where
  "collect_from f xs = \<Union> (set (map f xs))"

lemma collect_from_cong [fundef_cong]:
  "xs = ys \<Longrightarrow> (\<And>x. x \<in> set ys \<Longrightarrow> f x = g x) \<Longrightarrow> collect_from f xs = collect_from g ys"
  by (simp add: collect_from_def)

lemma in_collect_from [simp]: "n \<in> collect_from f xs \<longleftrightarrow> (\<exists>x \<in> set xs. n \<in> f x)"
  by (auto simp: collect_from_def)

function (sequential) collect_calls_in_expr :: "expr \<Rightarrow> string set"
and collect_calls_in_stmt :: "stmt \<Rightarrow> string set"
and collect_calls_in_block :: "block \<Rightarrow> string set"
and collect_calls_in_place :: "place \<Rightarrow> string set" where
  "collect_calls_in_expr (ECall callee args _) =
     (case callee of EIdent name _ \<Rightarrow> {name} | _ \<Rightarrow> {}) \<union>
     collect_calls_in_expr callee \<union>
     collect_from (\<lambda>a. collect_calls_in_expr a) args"
| "collect_calls_in_expr (EBinaryOp _ left right _) =
     collect_calls_in_expr left \<union> collect_calls_in_expr right"
| "collect_calls_in_expr (EUnaryOp _ operand _) = collect_calls_in_expr operand"
| "collect_calls_in_expr (ECast e _ _) = collect_calls_in_expr e"
| "collect_calls_in_expr (EFieldAccess e _ _) = collect_calls_in_expr e"
| "collect_calls_in_expr (EIndex e index _) = collect_calls_in_expr e \<union> collect_calls_in_expr index"
| "collect_calls_in_expr (EBlock block) = collect_calls_in_block block"
| "collect_calls_in_expr (EIf condition then_block else_branch _) =
     collect_calls_in_expr condition \<union> collect_calls_in_block then_block \<union>
     (case else_branch of Some e \<Rightarrow> collect_calls_in_expr e | None \<Rightarrow> {})"
| "collect_calls_in_expr (EMatch scrutinee arms _) =
     collect_calls_in_expr scrutinee \<union>
     collect_from (\<lambda>arm. case arm of MatchArm _ body _ \<Rightarrow> collect_calls_in_expr body) arms"
| "collect_calls_in_expr (EStructLit _ inits _) =
     collect_from (\<lambda>fi. case fi of FieldInit _ v _ \<Rightarrow> collect_calls_in_expr v) inits"
| "collect_calls_in_expr (EArrayLit elements _) =
     collect_from (\<lambda>e. collect_calls_in_expr e) elements"
| "collect_calls_in_expr (EEnumConstructor _ _ args _) =
     collect_from (\<lambda>a. collect_calls_in_expr a) args"
| "collect_calls_in_expr (EInterpolatedString parts _) =
     collect_from (\<lambda>part. case part of IText _ \<Rightarrow> {} | IExpr e \<Rightarrow> collect_calls_in_expr e) parts"
| "collect_calls_in_expr (ETry call _) = collect_calls_in_expr call"
| "collect_calls_in_expr (EArena body _) = collect_calls_in_block body"
| "collect_calls_in_expr (EIntLit _ _) = {}"
| "collect_calls_in_expr (EFloatLit _ _) = {}"
| "collect_calls_in_expr (EStringLit _ _) = {}"
| "collect_calls_in_expr (EBoolLit _ _) = {}"
| "collect_calls_in_expr (EIdent _ _) = {}"
| "collect_calls_in_stmt (SLet _ _ _ val _) = collect_calls_in_expr val"
| "collect_calls_in_stmt (SAssign target val _) =
     collect_calls_in_place target \<union> collect_calls_in_expr val"
| "collect_calls_in_stmt (SCompoundAssign target _ val _) =
     collect_calls_in_place target \<union> collect_calls_in_expr val"
| "collect_calls_in_stmt (SExpr e _) = collect_calls_in_expr e"
| "collect_calls_in_stmt (SWhile condition body _) =
     collect_calls_in_expr condition \<union> collect_calls_in_block body"
| "collect_calls_in_stmt (SFor _ start end_expr body _) =
     collect_calls_in_expr start \<union> collect_calls_in_expr end_expr \<union> collect_calls_in_block body"
| "collect_calls_in_stmt (SForIn _ iterable body _) =
     collect_calls_in_expr iterable \<union> collect_calls_in_block body"
| "collect_calls_in_stmt (SReturn val _) =
     (case val of Some e \<Rightarrow> collect_calls_in_expr e | None \<Rightarrow> {})"
| "collect_calls_in_stmt (SDefer _ _) = {}"
| "collect_calls_in_stmt (SBreak _) = {}"
| "collect_calls_in_stmt (SContinue _) = {}"
| "collect_calls_in_block (Block stmts tail _) =
     collect_from (\<lambda>s. collect_calls_in_stmt s) stmts \<union>
     (case tail of Some e \<Rightarrow> collect_calls_in_expr e | None \<Rightarrow> {})"
| "collect_calls_in_place (Place _ accessors _) =
     collect_from (\<lambda>acc. case acc of AccField _ \<Rightarrow> {} | AccIndex e \<Rightarrow> collect_calls_in_expr e) accessors"
  by pat_completeness auto
termination by lexicographic_order

definition collect_deferred_calls :: "block \<Rightarrow> string set" where
  "collect_deferred_calls block =
     collect_from (\<lambda>s. case s of
         SDefer e _ \<Rightarrow> (case call_name e of Some name \<Rightarrow> {name} | None \<Rightarrow> {})
       | _ \<Rightarrow> {}) (b_stmts block)"

text \<open>The warnings, one per pair: the call, the function it is in and the missing cleanup.\<close>

definition check_resource_leaks :: "block \<Rightarrow> string \<Rightarrow> (string \<times> string \<times> string) list" where
  "check_resource_leaks body fn_name' =
     (let acquired = collect_calls_in_block body;
          deferred = collect_deferred_calls body
      in map (\<lambda>(acquire, cleanup). (acquire, fn_name', cleanup))
           (filter (\<lambda>(acquire, cleanup). acquire \<in> acquired \<and> cleanup \<notin> deferred) resource_pairs))"

end
