(* ===== verification/Analysis.thy ===== *)
theory Analysis
  imports Checker Leaks
begin

text \<open>
  The two passes of \<open>SemanticAnalyzer::analyze\<close> in \<open>src/src/semantic.rs\<close>: the collection of
  the top-level declarations, then the check of every function body and constant.
\<close>

definition analyzer_new :: analyzer where
  "analyzer_new =
     \<lparr>an_structs = Map.empty, an_enums = Map.empty, an_functions = Map.empty,
      an_constants = Map.empty, an_scopes = [], an_current_fn_return_type = None,
      an_in_pure_fn = False, an_loop_depth = 0\<rparr>"

section \<open>Pass 1: collection of declarations\<close>

text \<open>The type of a struct field or of an enum payload.\<close>

definition resolve_stored_type :: "analyzer \<Rightarrow> message \<Rightarrow> ast_type \<Rightarrow> failure + bc_type" where
  "resolve_stored_type an handle_message t =
     and_then (resolve_type an t) (\<lambda>ty.
     if ty = BcHandle then reject (type_span t) handle_message else Inr ty)"

fun map_result :: "('x \<Rightarrow> failure + 'y) \<Rightarrow> 'x list \<Rightarrow> failure + 'y list" where
  "map_result f [] = Inr []"
| "map_result f (x # xs) =
     and_then (f x) (\<lambda>y.
     and_then (map_result f xs) (\<lambda>ys. Inr (y # ys)))"

definition collect_struct :: "struct_decl \<Rightarrow> analyzer \<Rightarrow> failure + analyzer" where
  "collect_struct s an =
     and_then
       (map_result (\<lambda>f.
          and_then (resolve_stored_type an (DeclMessage HandleInStructField) (f_ty f)) (\<lambda>ty.
          Inr (f_name f, ty))) (s_fields s)) (\<lambda>fs.
     if an_structs an (s_name s) \<noteq> None
     then reject (s_span s) (DeclMessage (DuplicateStruct (s_name s)))
     else Inr (an\<lparr>an_structs := (an_structs an)(s_name s \<mapsto> \<lparr>si_fields = fs\<rparr>)\<rparr>))"

definition collect_enum :: "enum_decl \<Rightarrow> analyzer \<Rightarrow> failure + analyzer" where
  "collect_enum e an =
     and_then
       (map_result (\<lambda>v.
          and_then (map_result (resolve_stored_type an (DeclMessage HandleInEnumPayload))
            (v_payload_types v)) (\<lambda>payload.
          Inr (v_name v, payload))) (e_variants e)) (\<lambda>vs.
     if an_enums an (e_name e) \<noteq> None
     then reject (e_span e) (DeclMessage (DuplicateEnum (e_name e)))
     else Inr (an\<lparr>an_enums := (an_enums an)(e_name e \<mapsto> \<lparr>ei_variants = vs\<rparr>)\<rparr>))"

definition resolve_params :: "analyzer \<Rightarrow> param list \<Rightarrow> failure + (string \<times> bc_type) list" where
  "resolve_params an params =
     map_result (\<lambda>p. and_then (resolve_type an (p_ty p)) (\<lambda>ty. Inr (p_name p, ty))) params"

definition resolve_return :: "analyzer \<Rightarrow> ast_type option \<Rightarrow> failure + bc_type" where
  "resolve_return an ret =
     (case ret of Some t \<Rightarrow> resolve_type an t | None \<Rightarrow> Inr BcUnit)"

definition collect_signature ::
  "string \<Rightarrow> span \<Rightarrow> param list \<Rightarrow> ast_type option \<Rightarrow> bool \<Rightarrow> bool \<Rightarrow> message \<Rightarrow> analyzer \<Rightarrow>
     failure + analyzer" where
  "collect_signature name sp params ret pure extern duplicate an =
     and_then (reject_reserved_collection_name name sp) (\<lambda>_.
     and_then (resolve_params an params) (\<lambda>ps.
     and_then (resolve_return an ret) (\<lambda>return_type.
     if an_functions an name \<noteq> None then reject sp duplicate
     else
       Inr (an\<lparr>an_functions := (an_functions an)(name \<mapsto>
         \<lparr>fi_params = ps, fi_return_type = return_type, fi_is_pure = pure,
          fi_is_extern = extern\<rparr>)\<rparr>))))"

definition collect_fn :: "fn_decl \<Rightarrow> analyzer \<Rightarrow> failure + analyzer" where
  "collect_fn f an =
     collect_signature (fn_name f) (fn_span f) (fn_params f) (fn_return_type f) (fn_is_pure f) False
       (DeclMessage (DuplicateFunction (fn_name f))) an"

definition collect_extern_fn :: "extern_fn_decl \<Rightarrow> analyzer \<Rightarrow> failure + analyzer" where
  "collect_extern_fn ef an =
     collect_signature (ef_name ef) (ef_span ef) (ef_params ef) (ef_return_type ef) False True
       (DeclMessage (DuplicateExternFunction (ef_name ef))) an"

definition collect_let :: "let_decl \<Rightarrow> analyzer \<Rightarrow> failure + analyzer" where
  "collect_let l an =
     and_then (reject_reserved_collection_name (l_name l) (l_span l)) (\<lambda>_.
     and_then (resolve_type an (l_ty l)) (\<lambda>ty.
     if an_constants an (l_name l) \<noteq> None
     then reject (l_span l) (DeclMessage (DuplicateConstant (l_name l)))
     else Inr (an\<lparr>an_constants := (an_constants an)(l_name l \<mapsto> \<lparr>ci_ty = ty\<rparr>)\<rparr>)))"

fun collect_decl :: "top_decl \<Rightarrow> analyzer \<Rightarrow> failure + analyzer" where
  "collect_decl (DStruct s) an = collect_struct s an"
| "collect_decl (DEnum e) an = collect_enum e an"
| "collect_decl (DFn f) an = collect_fn f an"
| "collect_decl (DLet l) an = collect_let l an"
| "collect_decl (DExtern eb) an = each collect_extern_fn (eb_decls eb) an"
| "collect_decl (DUse _ _) an = Inr an"

section \<open>Pass 2: checking\<close>

text \<open>A parameter goes into the scope of the function, with no check against outer names.\<close>

definition bind_param :: "param \<Rightarrow> analyzer \<Rightarrow> failure + analyzer" where
  "bind_param p an =
     and_then (reject_reserved_collection_name (p_name p) (p_span p)) (\<lambda>_.
     and_then (resolve_type an (p_ty p)) (\<lambda>ty.
     case an_scopes an of
       [] \<Rightarrow> Inl Panicked
     | scope # ss \<Rightarrow>
         if scope (p_name p) \<noteq> None
         then reject (p_span p) (DeclMessage (DuplicateParameter (p_name p)))
         else
           Inr (an\<lparr>an_scopes := scope(p_name p \<mapsto> \<lparr>bi_ty = ty, bi_is_mut = False\<rparr>) # ss\<rparr>)))"

definition check_fn :: "fn_decl \<Rightarrow> analyzer \<Rightarrow> failure + analyzer" where
  "check_fn func an =
     and_then (resolve_return an (fn_return_type func)) (\<lambda>return_type.
     and_then
       (each bind_param (fn_params func)
         (push_scope (an\<lparr>an_current_fn_return_type := Some return_type,
                         an_in_pure_fn := fn_is_pure func\<rparr>))) (\<lambda>an.
     and_then (check_block check_stmt check_expr (fn_body func) (Some return_type) an) (\<lambda>(body_ty, an).
     if \<not> types_compatible body_ty return_type
     then reject (fn_span func)
       (DeclMessage (FunctionReturnMismatch (fn_name func) return_type body_ty))
     else
       Inr ((pop_scope an)\<lparr>an_current_fn_return_type := None, an_in_pure_fn := False\<rparr>))))"

definition check_top_let :: "let_decl \<Rightarrow> analyzer \<Rightarrow> failure + analyzer" where
  "check_top_let l an =
     and_then (resolve_type an (l_ty l)) (\<lambda>expected.
     and_then (check_expr (l_value l) (Some expected) (push_scope an)) (\<lambda>(actual, an).
     let an = pop_scope an in
     if \<not> types_compatible actual expected
     then reject (l_span l) (DeclMessage (ConstantMismatch (l_name l) expected actual))
     else Inr an))"

fun check_decl :: "top_decl \<Rightarrow> analyzer \<Rightarrow> failure + analyzer" where
  "check_decl (DFn f) an = check_fn f an"
| "check_decl (DLet l) an = check_top_let l an"
| "check_decl _ an = Inr an"

section \<open>The analysis of a program\<close>

definition analyze :: "program \<Rightarrow> failure + semantic_info" where
  "analyze prog =
     and_then (each collect_decl (decls prog) (analyzer_new\<lparr>an_functions := register_builtins\<rparr>))
       (\<lambda>an.
     and_then (each check_decl (decls prog) an) (\<lambda>an.
     Inr \<lparr>sem_structs = an_structs an, sem_enums = an_enums an,
          sem_functions = an_functions an, sem_constants = an_constants an\<rparr>))"

text \<open>The resource warnings of a program that passes the analysis.\<close>

definition resource_warnings :: "program \<Rightarrow> (string \<times> string \<times> string) list" where
  "resource_warnings prog =
     concat (map (\<lambda>d. case d of DFn f \<Rightarrow> check_resource_leaks (fn_body f) (fn_name f) | _ \<Rightarrow> [])
       (decls prog))"

end
