(* ===== verification/AnalysisSound.thy ===== *)
theory AnalysisSound
  imports CheckerSound Analysis
begin

text \<open>
  The two passes of the analysis on a whole program. \<open>collected\<close> is the state between
  declarations: the tables name declared types only, no scope is open and no function is being
  checked. Pass 1 keeps it, and pass 2 returns the very state that it was given; together
  with the contract \<open>safe\<close> of the checkers this shows that \<open>analyze\<close> never panics.
\<close>

definition collected :: "analyzer \<Rightarrow> bool" where
  "collected an \<longleftrightarrow>
     wf_tables an \<and> an_scopes an = [] \<and> an_current_fn_return_type an = None \<and>
     \<not> an_in_pure_fn an \<and> an_loop_depth an = 0"

lemma collected_wf: "collected an \<Longrightarrow> wf_analyzer an"
  by (simp add: collected_def wf_analyzer_def)

section \<open>More declarations keep the tables well-formed\<close>

definition more :: "analyzer \<Rightarrow> analyzer \<Rightarrow> bool" where
  "more an an' \<longleftrightarrow> dom (an_structs an) \<subseteq> dom (an_structs an') \<and> dom (an_enums an) \<subseteq> dom (an_enums an')"

lemma declared_more: "more an an' \<Longrightarrow> declared an t \<Longrightarrow> declared an' t"
  by (induction t) (auto simp: more_def)

lemma wf_function_more: "more an an' \<Longrightarrow> wf_function an fi \<Longrightarrow> wf_function an' fi"
  by (auto simp: wf_function_def intro: declared_more)

lemma wf_tables_more:
  "more an an' \<Longrightarrow> wf_tables an \<Longrightarrow>
     an_structs an' = an_structs an \<Longrightarrow> an_enums an' = an_enums an \<Longrightarrow>
     an_functions an' = an_functions an \<Longrightarrow> an_constants an' = an_constants an \<Longrightarrow> wf_tables an'"
  by (auto simp: wf_tables_def intro: declared_more wf_function_more)

lemma ran_update: "x \<in> ran (m(k \<mapsto> v)) \<Longrightarrow> x = v \<or> x \<in> ran m"
  by (auto simp: ran_def split: if_splits)

lemma collected_struct:
  assumes "collected an" "\<forall>f \<in> set (si_fields info). declared an (snd f)"
  shows "collected (an\<lparr>an_structs := (an_structs an)(n \<mapsto> info)\<rparr>)" (is "collected ?an")
proof -
  have more: "more an ?an" by (auto simp: more_def)
  have "wf_tables ?an"
    using assms
    by (simp add: wf_tables_def collected_def)
      (blast dest: ran_update declared_more [OF more] wf_function_more [OF more])
  with assms show ?thesis by (simp add: collected_def)
qed

lemma collected_enum:
  assumes "collected an" "\<forall>v \<in> set (ei_variants info). \<forall>t \<in> set (snd v). declared an t"
  shows "collected (an\<lparr>an_enums := (an_enums an)(n \<mapsto> info)\<rparr>)" (is "collected ?an")
proof -
  have more: "more an ?an" by (auto simp: more_def)
  have "wf_tables ?an"
    using assms
    by (simp add: wf_tables_def collected_def)
      (blast dest: ran_update declared_more [OF more] wf_function_more [OF more])
  with assms show ?thesis by (simp add: collected_def)
qed

lemma collected_function:
  assumes "collected an" "wf_function an fi"
  shows "collected (an\<lparr>an_functions := (an_functions an)(n \<mapsto> fi)\<rparr>)" (is "collected ?an")
proof -
  have more: "more an ?an" by (auto simp: more_def)
  have "wf_tables ?an"
    using assms
    by (simp add: wf_tables_def collected_def)
      (blast dest: ran_update declared_more [OF more] wf_function_more [OF more])
  with assms show ?thesis by (simp add: collected_def)
qed

lemma collected_constant:
  assumes "collected an" "declared an (ci_ty info)"
  shows "collected (an\<lparr>an_constants := (an_constants an)(n \<mapsto> info)\<rparr>)" (is "collected ?an")
proof -
  have more: "more an ?an" by (auto simp: more_def)
  have "wf_tables ?an"
    using assms
    by (simp add: wf_tables_def collected_def)
      (blast dest: ran_update declared_more [OF more] wf_function_more [OF more])
  with assms show ?thesis by (simp add: collected_def)
qed

section \<open>Pass 1\<close>

lemma map_result_yields:
  "(\<And>x. x \<in> set xs \<Longrightarrow> yields P (f x)) \<Longrightarrow> yields (\<lambda>ys. \<forall>y \<in> set ys. P y) (map_result f xs)"
  by (induction xs) (auto intro!: yields_bind)

lemma each_yields:
  "I s \<Longrightarrow> (\<And>x s. x \<in> set xs \<Longrightarrow> I s \<Longrightarrow> yields I (f x s)) \<Longrightarrow> yields I (each f xs s)"
  by (induction xs arbitrary: s) (auto intro!: yields_bind)

lemma resolve_stored_yields: "yields (declared an) (resolve_stored_type an m t)"
  by (auto simp: resolve_stored_type_def intro!: yields_bind [OF declared_resolve(1)])

lemma collect_struct_yields: "collected an \<Longrightarrow> yields collected (collect_struct s an)"
  unfolding collect_struct_def
  by (rule yields_bind [OF map_result_yields [where P = "\<lambda>f. declared an (snd f)"]])
    (auto intro!: yields_bind [OF resolve_stored_yields] collected_struct)

lemma collect_enum_yields: "collected an \<Longrightarrow> yields collected (collect_enum e an)"
  unfolding collect_enum_def
  by (rule yields_bind [OF map_result_yields [where P = "\<lambda>v. \<forall>t \<in> set (snd v). declared an t"]])
    (auto intro!: yields_bind [OF map_result_yields [OF resolve_stored_yields]] collected_enum)

lemma resolve_params_yields: "yields (\<lambda>ps. \<forall>p \<in> set ps. declared an (snd p)) (resolve_params an params)"
  unfolding resolve_params_def
  by (rule map_result_yields) (auto intro!: yields_bind [OF declared_resolve(1)])

lemma resolve_return_yields: "yields (declared an) (resolve_return an ret)"
  by (auto simp: resolve_return_def intro: declared_resolve(1) split: option.split)

lemma collect_signature_yields:
  "collected an \<Longrightarrow> yields collected (collect_signature n sp params ret pure extern dup an)"
  unfolding collect_signature_def
  by (intro yields_bind [OF yields_unit(2)] yields_bind [OF resolve_params_yields]
      yields_bind [OF resolve_return_yields])
    (auto intro!: collected_function simp: wf_function_def)

lemma collect_let_yields: "collected an \<Longrightarrow> yields collected (collect_let l an)"
  unfolding collect_let_def
  by (intro yields_bind [OF yields_unit(2)] yields_bind [OF declared_resolve(1)])
    (auto intro!: collected_constant)

lemma collect_decl_yields: "collected an \<Longrightarrow> yields collected (collect_decl d an)"
  by (cases d)
    (auto simp: collect_fn_def collect_extern_fn_def intro!: each_yields collect_struct_yields
      collect_enum_yields collect_signature_yields collect_let_yields)

lemma closed_declared: "closed_type t \<Longrightarrow> declared an t"
  by (induction t) (auto simp: list_all_iff)

lemma builtins_wf: "\<forall>entry \<in> set builtin_table. wf_function an (snd entry)"
  using builtins_closed
  by (auto simp: list_all_iff closed_function_def wf_function_def intro: closed_declared)

lemma collected_new: "collected (analyzer_new\<lparr>an_functions := register_builtins\<rparr>)"
  by (auto simp: collected_def wf_tables_def analyzer_new_def register_builtins_def ran_def
      dest!: map_of_SomeD bspec [OF builtins_wf])

lemma collect_all_yields:
  "yields collected (each collect_decl ds (analyzer_new\<lparr>an_functions := register_builtins\<rparr>))"
  using collected_new collect_decl_yields by (rule each_yields)

section \<open>Pass 2\<close>

text \<open>The state in which the body of a function is checked.\<close>

definition in_function :: "analyzer \<Rightarrow> bc_type \<Rightarrow> bool \<Rightarrow> analyzer" where
  "in_function an ret pure =
     push_scope (an\<lparr>an_current_fn_return_type := Some ret, an_in_pure_fn := pure\<rparr>)"

lemma declared_in_function [simp]: "declared (in_function an ret pure) t = declared an t"
  by (rule declared_cong) (simp_all add: in_function_def push_scope_def)

lemma in_function_wf:
  assumes "collected an" "declared an ret"
  shows "wf_analyzer (in_function an ret pure)" "an_scopes (in_function an ret pure) = [Map.empty]"
proof -
  let ?an = "an\<lparr>an_current_fn_return_type := Some ret, an_in_pure_fn := pure\<rparr>"
  have "wf_tables ?an"
    using assms(1) by (intro wf_tables_more [of an ?an]) (simp_all add: more_def collected_def)
  moreover have "declared ?an ret"
    using assms(2) declared_cong [of ?an an] by simp
  ultimately have "wf_analyzer ?an"
    using assms(1) by (simp add: wf_analyzer_def collected_def)
  then show "wf_analyzer (in_function an ret pure)"
    unfolding in_function_def by (rule wf_push_scope)
  show "an_scopes (in_function an ret pure) = [Map.empty]"
    using assms(1) by (simp add: in_function_def push_scope_def collected_def)
qed

lemma bind_param_extends:
  assumes "wf_analyzer an" "an_scopes an \<noteq> []"
  shows "extends an (bind_param p an)"
proof -
  obtain s ss where ss: "an_scopes an = s # ss" using assms(2) by (cases "an_scopes an") auto
  show ?thesis
  proof (cases rule: yields_cases [OF yields_unit(2) [of "p_name p" "p_span p"]])
    case (2 u)
    with bind_here_extends [OF assms(1) ss] show ?thesis
      by (cases rule: yields_cases [OF declared_resolve(1) [of an "p_ty p"]])
        (simp_all add: bind_param_def ss)
  qed (simp add: bind_param_def)
qed

text \<open>A function body leaves the state as it was: its scope is popped and the context reset.\<close>

lemma leave_function:
  assumes "collected an" "grows (in_function an ret pure) an'"
  shows "(pop_scope an')\<lparr>an_current_fn_return_type := None, an_in_pure_fn := False\<rparr> = an"
  using assms grows_push [OF assms(2) [unfolded in_function_def]] by (simp add: collected_def)

lemma check_fn_yields:
  assumes "collected an"
  shows "yields (\<lambda>an'. an' = an) (check_fn f an)"
proof (cases rule: yields_cases [OF resolve_return_yields [of an "fn_return_type f"]])
  case (2 ret)
  let ?in = "in_function an ret (fn_is_pure f)"
  note wf = in_function_wf [OF assms 2(2), of "fn_is_pure f"]
  have "extends ?in (each bind_param (fn_params f) ?in)"
    using wf by (intro each_extends) (simp_all add: bind_param_extends)
  then show ?thesis
  proof (cases rule: extends_cases)
    case (2 an1)
    have "types an1 (check_block check_stmt check_expr (fn_body f) (Some ret) an1)"
      using 2 \<open>declared an ret\<close> by (intro check_block_types) (simp_all add: declared_grows)
    then show ?thesis
      using 2 \<open>resolve_return an (fn_return_type f) = Inr ret\<close> leave_function [OF assms 2(2)]
      by (cases rule: types_cases) (simp_all add: check_fn_def in_function_def)
  qed (use \<open>resolve_return an (fn_return_type f) = Inr ret\<close> in \<open>simp add: check_fn_def in_function_def\<close>)
qed (simp add: check_fn_def)

lemma check_top_let_yields:
  assumes "collected an"
  shows "yields (\<lambda>an'. an' = an) (check_top_let l an)"
proof (cases rule: yields_cases [OF declared_resolve(1) [of an "l_ty l"]])
  case (2 ty)
  have "types (push_scope an) (check_expr (l_value l) (Some ty) (push_scope an))"
    using 2 collected_wf [OF assms] by (intro check_expr_types) simp_all
  then show ?thesis
    using 2 grows_push [OF grows_refl] by (cases rule: types_cases) (simp_all add: check_top_let_def)
qed (simp add: check_top_let_def)

lemma check_decl_yields: "collected an \<Longrightarrow> yields (\<lambda>an'. an' = an) (check_decl d an)"
  by (cases d) (auto intro: check_fn_yields check_top_let_yields)

lemma check_all_yields: "collected an \<Longrightarrow> yields (\<lambda>an'. an' = an) (each check_decl ds an)"
  by (rule each_yields) (auto intro: check_decl_yields)

section \<open>The analysis\<close>

lemma analyze_yields:
  "yields (\<lambda>info. \<exists>an. collected an \<and>
       each collect_decl (decls prog) (analyzer_new\<lparr>an_functions := register_builtins\<rparr>) = Inr an \<and>
       info = \<lparr>sem_structs = an_structs an, sem_enums = an_enums an,
         sem_functions = an_functions an, sem_constants = an_constants an\<rparr>) (analyze prog)"
  unfolding analyze_def
  by (rule yields_bind [OF collect_all_yields], rule yields_bind [OF check_all_yields]) auto

section \<open>The checker and the analysis\<close>

text \<open>
  C4. Checking an expression leaves the analyzer exactly as it was: every scope pushed for a
  block, a loop or a match arm is popped again, the loop depth is balanced, and no table, flag
  or binding changes.
\<close>

theorem check_expr_frame: "check_expr e ex an = Inr (ty, an') \<Longrightarrow> an' = an"
  by (rule check_expr_same)

lemma check_expr_frame_witness: "analyzer_new\<lparr>an_loop_depth := 2\<rparr> = analyzer_new\<lparr>an_loop_depth := 2\<rparr>"
  by (rule check_expr_frame [of "EBinaryOp OpLt (EIntLit 1 (Span 1 1)) (EIntLit 2 (Span 1 5)) (Span 1 3)"
        None _ BcBool])
    (simp add: int_literal_type_def i32_min_def i32_max_def comparison_type_def is_numeric_def)

text \<open>
  C5. Checking a statement only ever adds bindings to the innermost scope, without replacing
  one that is there; outer scopes, tables, flags and the loop depth stay.
\<close>

theorem check_stmt_frame: "check_stmt s an = Inr an' \<Longrightarrow> grows an an'"
  by (rule check_stmt_grows)

lemma no_collection_x [simp]: "resolve_with_alias ''x'' = None"
  by code_simp

lemma check_stmt_frame_witness:
  "grows (push_scope analyzer_new)
     (analyzer_new\<lparr>an_scopes := [[''x'' \<mapsto> \<lparr>bi_ty = BcI32, bi_is_mut = True\<rparr>]]\<rparr>)"
  by (rule check_stmt_frame [of "SLet ''x'' True (TyPrimitive PrimI32 (Span 1 8)) (EIntLit 3 (Span 1 14)) (Span 1 1)"])
    (simp add: check_let_def push_scope_def analyzer_new_def types_compatible_def add_binding_def
      reject_reserved_collection_name_def int_literal_type_def i32_min_def i32_max_def)

text \<open>
  C3. In a well-formed state the checker does not panic on any expression, whatever its
  shape, and the type that it computes names only structs and enums that have been declared.
\<close>

theorem check_expr_sound:
  "wf_analyzer an \<Longrightarrow> wf_expected an ex \<Longrightarrow>
     (case check_expr e ex an of
        Inr (ty, _) \<Rightarrow> declared an ty
      | Inl f \<Rightarrow> \<exists>err. f = Rejected err)"
  by (erule types_cases [OF check_expr_types [of an ex e]]; simp)

lemma check_expr_sound_witness:
  "case check_expr (EIdent ''x'' (Span 1 1)) (Some BcI32) analyzer_new of
     Inr (ty, _) \<Rightarrow> declared analyzer_new ty
   | Inl f \<Rightarrow> \<exists>err. f = Rejected err"
  by (rule check_expr_sound) (simp_all add: wf_analyzer_def wf_tables_def analyzer_new_def)

text \<open>
  C2. The analysis never panics: for every syntax tree whatsoever, \<open>analyze\<close> returns the
  tables or a reported error. The two \<open>unwrap\<close>s of pattern checking, the \<open>unreachable!\<close> of
  the collection calls and the index accesses to arguments are all safe.
\<close>

theorem analyze_total: "graceful (analyze prog)"
  using analyze_yields [of prog] by (simp add: yields_def)

text \<open>The tables of an accepted program, as a state of the analyzer.\<close>

definition info_analyzer :: "semantic_info \<Rightarrow> analyzer" where
  "info_analyzer info =
     analyzer_new\<lparr>an_structs := sem_structs info, an_enums := sem_enums info,
       an_functions := sem_functions info, an_constants := sem_constants info\<rparr>"

text \<open>
  C6. The tables of an accepted program are closed: field types, payloads, signatures and
  constants mention declared structs and enums only, as do the built-in functions.
\<close>

theorem analyze_closed: "analyze prog = Inr info \<Longrightarrow> wf_tables (info_analyzer info)"
proof -
  assume "analyze prog = Inr info"
  with analyze_yields [of prog] obtain an where an: "collected an"
    "info = \<lparr>sem_structs = an_structs an, sem_enums = an_enums an,
         sem_functions = an_functions an, sem_constants = an_constants an\<rparr>"
    by (auto simp: yields_def)
  then show ?thesis
    by (intro wf_tables_more [of an "info_analyzer info"]) (simp_all add: more_def collected_def info_analyzer_def)
qed

lemma analyze_closed_witness:
  "wf_tables (info_analyzer \<lparr>sem_structs = [''P'' \<mapsto> \<lparr>si_fields = [(''x'', BcI32)]\<rparr>],
     sem_enums = Map.empty, sem_functions = register_builtins, sem_constants = Map.empty\<rparr>)"
  by (rule analyze_closed [of "\<lparr>decls =
        [DStruct \<lparr>s_name = ''P'', s_fields = [\<lparr>f_name = ''x'', f_ty = TyPrimitive PrimI32 (Span 1 15), f_span = Span 1 12\<rparr>],
           s_span = Span 1 1\<rparr>]\<rparr>"])
    (simp add: analyze_def analyzer_new_def collect_struct_def resolve_stored_type_def)

end
