(* ===== verification/Visits.thy ===== *)
theory Visits
  imports AnalysisSound
begin

text \<open>
  What the analysis looks at. The expressions and statements of a function body are the nodes
  of a tree; \<open>inside\<close> relates a node to the nodes below it and counts the loops between them.
  When a node is accepted by the checker then so is, in a suitable state, every node inside
  it: \<open>visited\<close>. The state has the same tables, flags and return type, a loop depth that is
  larger by the count, keeps the bindings that are visible, and binds no name that is not
  bound by a node on the way.

  The rules of the language that speak about all the code of an accepted program follow from
  this by a look at one node.
\<close>

section \<open>Nodes\<close>

datatype node = NExpr expr | NStmt stmt

definition block_nodes :: "block \<Rightarrow> node list" where
  "block_nodes block =
     map NStmt (b_stmts block) @ (case b_tail_expr block of Some e \<Rightarrow> [NExpr e] | None \<Rightarrow> [])"

fun part_nodes :: "interp_part \<Rightarrow> node list" where
  "part_nodes (IText _) = []"
| "part_nodes (IExpr e) = [NExpr e]"

fun arm_node :: "match_arm \<Rightarrow> node" where
  "arm_node (MatchArm _ body _) = NExpr body"

fun init_node :: "field_init \<Rightarrow> node" where
  "init_node (FieldInit _ val _) = NExpr val"

fun accessor_nodes :: "place_accessor \<Rightarrow> node list" where
  "accessor_nodes (AccField _) = []"
| "accessor_nodes (AccIndex e) = [NExpr e]"

definition place_nodes :: "place \<Rightarrow> node list" where
  "place_nodes target = concat (map accessor_nodes (pl_accessors target))"

text \<open>The nodes directly below a node, each with the number of loops entered.\<close>

fun expr_children :: "expr \<Rightarrow> node list" where
  "expr_children (EInterpolatedString parts _) = concat (map part_nodes parts)"
| "expr_children (EBinaryOp _ l r _) = [NExpr l, NExpr r]"
| "expr_children (EUnaryOp _ e _) = [NExpr e]"
| "expr_children (ECast e _ _) = [NExpr e]"
| "expr_children (ECall _ args _) = map NExpr args"
| "expr_children (EFieldAccess e _ _) = [NExpr e]"
| "expr_children (EIndex e i _) = [NExpr e, NExpr i]"
| "expr_children (EBlock block) = block_nodes block"
| "expr_children (EIf c block els _) =
     NExpr c # block_nodes block @ (case els of Some e \<Rightarrow> [NExpr e] | None \<Rightarrow> [])"
| "expr_children (EMatch scrut arms _) = NExpr scrut # map arm_node arms"
| "expr_children (ETry e _) = [NExpr e]"
| "expr_children (EArrayLit es _) = map NExpr es"
| "expr_children (EStructLit _ inits _) = map init_node inits"
| "expr_children (EEnumConstructor _ _ args _) = map NExpr args"
| "expr_children (EArena block _) = block_nodes block"
| "expr_children _ = []"

fun children :: "node \<Rightarrow> (nat \<times> node) list" where
  "children (NExpr e) = map (Pair 0) (expr_children e)"
| "children (NStmt (SLet _ _ _ val _)) = [(0, NExpr val)]"
| "children (NStmt (SAssign target val _)) = map (Pair 0) (place_nodes target @ [NExpr val])"
| "children (NStmt (SCompoundAssign target _ val _)) = map (Pair 0) (place_nodes target @ [NExpr val])"
| "children (NStmt (SExpr e _)) = [(0, NExpr e)]"
| "children (NStmt (SWhile c body _)) = (0, NExpr c) # map (Pair 1) (block_nodes body)"
| "children (NStmt (SFor _ a b body _)) = (0, NExpr a) # (0, NExpr b) # map (Pair 1) (block_nodes body)"
| "children (NStmt (SForIn _ it body _)) = (0, NExpr it) # map (Pair 1) (block_nodes body)"
| "children (NStmt (SReturn val _)) = (case val of Some e \<Rightarrow> [(0, NExpr e)] | None \<Rightarrow> [])"
| "children (NStmt (SDefer e _)) = [(0, NExpr e)]"
| "children (NStmt _) = []"

inductive inside :: "node \<Rightarrow> nat \<Rightarrow> node \<Rightarrow> bool" where
  here: "inside n 0 n"
| below: "inside n d m \<Longrightarrow> (k, c) \<in> set (children m) \<Longrightarrow> inside n (d + k) c"

text \<open>The names that a node binds in the state of the nodes below it or after it.\<close>

fun pattern_binders :: "pattern \<Rightarrow> string set" where
  "pattern_binders (PIdent name _) = {name}"
| "pattern_binders (PEnum _ _ ps _) = {name. \<exists>sp. PIdent name sp \<in> set ps}"
| "pattern_binders _ = {}"

fun binders :: "node \<Rightarrow> string set" where
  "binders (NStmt (SLet name _ _ _ _)) = {name}"
| "binders (NStmt (SFor name _ _ _ _)) = {name}"
| "binders (NStmt (SForIn name _ _ _)) = {name}"
| "binders (NExpr (EMatch _ arms _)) = {name. \<exists>p b s. MatchArm p b s \<in> set arms \<and> name \<in> pattern_binders p}"
| "binders _ = {}"

definition bound_inside :: "node \<Rightarrow> string set" where
  "bound_inside n = {name. \<exists>d m. inside n d m \<and> name \<in> binders m}"

section \<open>Contexts\<close>

definition scope_names :: "analyzer \<Rightarrow> string set" where
  "scope_names an = dom (lookup_var an)"

text \<open>\<open>an'\<close> is a state in which code below a node that was accepted in \<open>an\<close> is checked.\<close>

definition context_of :: "analyzer \<Rightarrow> nat \<Rightarrow> string set \<Rightarrow> analyzer \<Rightarrow> bool" where
  "context_of an d names an' \<longleftrightarrow>
     an_structs an' = an_structs an \<and> an_enums an' = an_enums an \<and>
     an_functions an' = an_functions an \<and> an_constants an' = an_constants an \<and>
     an_current_fn_return_type an' = an_current_fn_return_type an \<and>
     an_in_pure_fn an' = an_in_pure_fn an \<and> an_loop_depth an' = an_loop_depth an + d \<and>
     scope_names an' \<subseteq> scope_names an \<union> names \<and> lookup_var an \<subseteq>\<^sub>m lookup_var an'"

definition accepts :: "analyzer \<Rightarrow> expr \<Rightarrow> bool" where
  "accepts an e \<longleftrightarrow> (\<exists>ex ty. check_expr e ex an = Inr (ty, an))"

fun visited :: "analyzer \<Rightarrow> node \<Rightarrow> bool" where
  "visited an (NExpr e) = accepts an e"
| "visited an (NStmt s) = (\<exists>an'. check_stmt s an = Inr an')"

lemma context_refl: "context_of an 0 names an"
  by (auto simp: context_of_def)

lemma context_trans:
  "context_of an d ns an1 \<Longrightarrow> context_of an1 k ms an2 \<Longrightarrow> ns \<union> ms \<subseteq> names \<Longrightarrow>
     context_of an (d + k) names an2"
  by (auto simp: context_of_def intro: map_le_trans)

lemma context_weaken: "context_of an d ns an' \<Longrightarrow> ns \<subseteq> names \<Longrightarrow> context_of an d names an'"
  by (auto simp: context_of_def)

lemma acceptsI: "check_expr e ex an = Inr (ty, an') \<Longrightarrow> accepts an e"
  unfolding accepts_def using check_expr_same by blast

text \<open>The checker returns the state it was given, so that a step after it sees that state.\<close>

lemma check_expr_Inr: "check_expr e ex an = Inr (ty, an') \<Longrightarrow> accepts an e \<and> an' = an"
  using check_expr_same acceptsI by blast

section \<open>Arguments and elements\<close>

lemma with_arg_Inr: "with_arg args i f = Inr x \<longleftrightarrow> i < length args \<and> f (args ! i) = Inr x"
  by (simp add: with_arg_def)

lemma collection_arg_Inr:
  "check_collection_arg check_expr a ty n p an = Inr an' \<Longrightarrow> accepts an a \<and> an' = an"
  by (auto simp: check_collection_arg_def and_then_eq_Inr split: if_splits
      dest!: check_expr_Inr)

lemma with_collection_arg_Inr:
  "with_arg args i (\<lambda>a. check_collection_arg check_expr a ty n p an) = Inr an' \<Longrightarrow>
     accepts an (args ! i) \<and> an' = an"
  by (auto simp: with_arg_Inr dest: collection_arg_Inr)

lemma check_args_visits:
  "check_args check_expr mk i args tys an = Inr an' \<Longrightarrow> length args = length tys \<Longrightarrow>
     list_all (accepts an) args"
proof (induction args arbitrary: i tys an)
  case (Cons a args)
  then show ?case
    by (cases tys) (auto simp: and_then_eq_Inr split: if_splits dest!: check_expr_Inr)
qed simp

lemma arity_args:
  "length args = Suc 0 \<Longrightarrow> list_all P args \<longleftrightarrow> P (args ! 0)"
  "length args = 2 \<Longrightarrow> list_all P args \<longleftrightarrow> P (args ! 0) \<and> P (args ! Suc 0)"
  "length args = 3 \<Longrightarrow> list_all P args \<longleftrightarrow> P (args ! 0) \<and> P (args ! Suc 0) \<and> P (args ! 2)"
  by (auto simp: numeral_eq_Suc length_Suc_conv)

lemma collection_result_visits:
  assumes "collection_result check_expr i n args t el an = Inr (ty, an')"
    and "length args = arity i" "accepts an (args ! 0)"
  shows "list_all (accepts an) args"
  using assms
  unfolding collection_result_def Let_def
  by (cases "co_op i")
    (auto simp: arity_def arity_args and_then_eq_Inr with_arg_Inr split: option.splits if_splits dest!: check_expr_Inr with_collection_arg_Inr collection_arg_Inr)

lemma collection_call_visits:
  assumes "check_collection_call check_expr i n args sp an = Inr (ty, an')"
  shows "list_all (accepts an) args"
proof (cases "co_op i = CoRepeat")
  case True
  with assms show ?thesis
    by (auto simp: check_collection_call_def arity_def arity_args and_then_eq_Inr with_arg_Inr split: if_splits dest!: check_expr_Inr collection_arg_Inr)
next
  case False
  with assms show ?thesis
    by (auto simp: check_collection_call_def and_then_eq_Inr with_arg_Inr Let_def
        split: if_splits option.splits dest!: check_expr_Inr dest: collection_result_visits)
qed

lemma len_visits: "check_len check_expr args sp an = Inr (ty, an') \<Longrightarrow> list_all (accepts an) args"
  by (auto simp: check_len_def arity_args and_then_eq_Inr with_arg_Inr split: if_splits dest!: check_expr_Inr)

lemma push_visits: "check_push check_expr args sp an = Inr (ty, an') \<Longrightarrow> list_all (accepts an) args"
  by (auto simp: check_push_def arity_args and_then_eq_Inr with_arg_Inr split: if_splits dest!: check_expr_Inr)
    (auto simp: and_then_eq_Inr with_arg_Inr split: bc_type.splits if_splits dest!: check_expr_Inr)

lemma pop_visits: "check_pop check_expr args sp an = Inr (ty, an') \<Longrightarrow> list_all (accepts an) args"
  by (auto simp: check_pop_def arity_args and_then_eq_Inr with_arg_Inr split: if_splits dest!: check_expr_Inr)

lemma pointer_call_visits:
  "check_pointer_call check_expr name pty args sp an = Inr (ty, an') \<Longrightarrow> list_all (accepts an) args"
  by (cases pty) (auto simp: check_pointer_call_def and_then_eq_Inr split: if_splits dest: check_args_visits)

lemma function_call_visits:
  "check_function_call check_expr name args sp an = Inr (ty, an') \<Longrightarrow> list_all (accepts an) args"
  by (auto simp: check_function_call_def and_then_eq_Inr split: if_splits option.splits dest: check_args_visits)

lemma call_visits:
  "check_call check_expr callee args sp an = Inr (ty, an') \<Longrightarrow> list_all (accepts an) args"
  by (cases callee rule: expr.exhaust)
    (auto simp: check_call_def split: option.splits if_splits
      dest: collection_call_visits len_visits push_visits pop_visits pointer_call_visits function_call_visits)

lemma each_visits:
  assumes "each f xs (s, an) = Inr (s', an')"
    and "\<And>x s s' an'. x \<in> set xs \<Longrightarrow> f x (s, an) = Inr (s', an') \<Longrightarrow> an' = an \<and> P x"
  shows "an' = an \<and> list_all P xs"
  using assms
proof (induction xs arbitrary: s)
  case (Cons x xs)
  then obtain t an1 where "f x (s, an) = Inr (t, an1)" "each f xs (t, an1) = Inr (s', an')"
    by (auto simp: and_then_eq_Inr)
  with Cons show ?case by fastforce
qed simp

lemma array_lit_visits:
  assumes "check_array_lit check_expr es sp ex an = Inr (ty, an')"
  shows "list_all (accepts an) es"
proof (cases es)
  case (Cons e rest)
  have "list_all (accepts an) rest"
    if "each (\<lambda>e an. and_then (check_expr e None an) (\<lambda>(ty, an).
          if ty \<noteq> t then reject (expr_span e) (m ty) else Inr an)) rest an = Inr an1" for t m an1
    using that
    by (induction rest) (auto simp: and_then_eq_Inr split: if_splits dest!: check_expr_Inr)
  with Cons assms show ?thesis
    by (fastforce simp: check_array_lit_def and_then_eq_Inr dest!: check_expr_Inr)
qed simp

lemma field_init_visits:
  "check_field_init check_expr name info fi (s, an) = Inr (s', an') \<Longrightarrow>
     an' = an \<and> visited an (init_node fi)"
  by (cases fi rule: field_init.exhaust)
    (auto simp: check_field_init_def and_then_eq_Inr split: if_splits option.splits
      dest!: check_expr_Inr)

lemma struct_lit_visits:
  "check_struct_lit check_expr name inits sp an = Inr (ty, an') \<Longrightarrow>
     list_all (\<lambda>fi. visited an (init_node fi)) inits"
  by (auto simp: check_struct_lit_def and_then_eq_Inr split: option.splits
      dest!: each_visits [where P = "\<lambda>fi. visited an (init_node fi)"] dest: field_init_visits)

lemma enum_constructor_visits:
  "check_enum_constructor check_expr en v args sp ex an = Inr (ty, an') \<Longrightarrow> list_all (accepts an) args"
  by (auto simp: check_enum_constructor_def check_result_constructor_def check_result_payload_def arity_args
      and_then_eq_Inr with_arg_Inr
      split: if_splits option.splits bc_type.splits dest!: check_expr_Inr dest: check_args_visits)

lemma interp_part_visits:
  "check_interp_part check_expr part (s, an) = Inr (s', an') \<Longrightarrow>
     an' = an \<and> list_all (visited an) (part_nodes part)"
  by (cases part rule: interp_part.exhaust)
    (auto simp: check_interp_part_def and_then_eq_Inr split: if_splits dest!: check_expr_Inr)

lemma interpolated_string_visits:
  "check_interpolated_string check_expr parts sp an = Inr (ty, an') \<Longrightarrow>
     list_all (\<lambda>p. list_all (visited an) (part_nodes p)) parts"
  by (auto simp: check_interpolated_string_def and_then_eq_Inr
      dest!: each_visits [where P = "\<lambda>p. list_all (visited an) (part_nodes p)"] dest: interp_part_visits)

lemma place_visits:
  assumes "check_place check_expr plain target sp an = Inr (ty, an')"
  shows "an' = an \<and> list_all (visited an) (place_nodes target)"
proof -
  have acc: "an' = an \<and> list_all (visited an) (accessor_nodes x)"
    if "check_accessor check_expr plain sp x (s, an) = Inr (s', an')" for x s s' an'
    using that
    by (cases x rule: place_accessor.exhaust)
      (auto simp: check_accessor_def and_then_eq_Inr split: if_splits dest!: check_expr_Inr)
  from assms obtain t where "each (check_accessor check_expr plain sp) (pl_accessors target) (t, an) = Inr (ty, an')"
    by (auto simp: check_place_def and_then_eq_Inr)
  from each_visits [OF this, of "\<lambda>x. list_all (visited an) (accessor_nodes x)"] acc show ?thesis
    by (auto simp: place_nodes_def list_all_iff)
qed

section \<open>Statements and blocks\<close>

lemma lookup_simps [simp]:
  "lookup_var (push_scope an) = lookup_var an" "lookup_var (enter_loop an) = lookup_var an"
  by (simp_all add: lookup_var_def push_scope_def enter_loop_def fun_eq_iff)

lemma lookup_scopes_None: "lookup_scopes ss name = None \<longleftrightarrow> (\<forall>s \<in> set ss. s name = None)"
  by (induction ss) (auto split: option.split)

lemma add_binding_Inr:
  "add_binding name ty m sp an = Inr an' \<longleftrightarrow>
     resolve_with_alias name = None \<and> name \<notin> scope_names an \<and>
     (\<exists>s ss. an_scopes an = s # ss \<and> an' = an\<lparr>an_scopes := s(name \<mapsto> \<lparr>bi_ty = ty, bi_is_mut = m\<rparr>) # ss\<rparr>)"
  by (auto simp: add_binding_def reject_reserved_collection_name_def scope_names_def list_ex_iff
      lookup_var_def lookup_scopes_None domIff split: list.split)

text \<open>Only a \<open>let\<close> changes the state.\<close>

lemma check_stmt_cases:
  assumes "check_stmt s an = Inr an'"
  obtains (same) "an' = an" |
    (bind) name m t v sp ty where "s = SLet name m t v sp" "add_binding name ty m sp an = Inr an'"
proof -
  note same = checker_frame.assign_same checker_frame.return_same checker_frame.defer_same
    checker_frame.while_same checker_frame.for_same checker_frame.for_in_same
  show ?thesis
  proof (cases "\<exists>name m t v sp. s = SLet name m t v sp")
    case True
    with assms show ?thesis
      by (auto simp: check_let_def and_then_eq_Inr split: if_splits dest!: check_expr_Inr intro: bind)
  next
    case False
    have "an' = an"
      using assms False same [where an = an]
      by (cases s rule: stmt.exhaust)
        (auto simp: same_def covered_def and_then_eq_Inr split: if_splits dest!: check_expr_Inr)
    then show ?thesis by (rule that(1))
  qed
qed

lemma lookup_bind:
  "add_binding name ty m sp an = Inr an' \<Longrightarrow>
     lookup_var an' = (lookup_var an)(name \<mapsto> \<lparr>bi_ty = ty, bi_is_mut = m\<rparr>)"
  by (auto simp: add_binding_Inr lookup_var_def fun_eq_iff)

lemma context_bind:
  assumes "add_binding name ty m sp an = Inr an'"
  shows "context_of an 0 {name} an'"
proof -
  have "grows an an'" using growingD [OF add_binding_grows assms] .
  moreover have "lookup_var an \<subseteq>\<^sub>m lookup_var an'"
    using lookup_bind [OF assms] assms by (auto simp: map_le_def scope_names_def add_binding_Inr domIff)
  ultimately show ?thesis
    using lookup_bind [OF assms] by (auto simp: context_of_def grows_fields scope_names_def)
qed

lemma context_stmt: "check_stmt s an = Inr an' \<Longrightarrow> context_of an 0 (binders (NStmt s)) an'"
  by (erule check_stmt_cases) (auto intro: context_refl dest: context_bind)

lemma context_push: "context_of an 0 names (push_scope an)"
  by (simp add: context_of_def scope_names_def) (simp add: push_scope_def)

lemma context_loop: "context_of an 1 names (enter_loop an)"
  by (simp add: context_of_def scope_names_def) (simp add: enter_loop_def)

definition stmt_binders :: "stmt list \<Rightarrow> string set" where
  "stmt_binders ss = (\<Union>s \<in> set ss. binders (NStmt s))"

lemma stmts_visits:
  assumes "each check_stmt ss an = Inr an'"
  shows "context_of an 0 (stmt_binders ss) an' \<and>
    (\<forall>s \<in> set ss. \<exists>an1. visited an1 (NStmt s) \<and> context_of an 0 (stmt_binders ss) an1)"
  using assms
proof (induction ss arbitrary: an)
  case Nil
  then show ?case by (simp add: context_refl)
next
  case (Cons s ss)
  then obtain an1 where s: "check_stmt s an = Inr an1" and rest: "each check_stmt ss an1 = Inr an'"
    by (auto simp: and_then_eq_Inr)
  let ?B = "stmt_binders (s # ss)"
  have later: "context_of an 0 ?B an2" if "context_of an1 0 (stmt_binders ss) an2" for an2
    using context_trans [OF context_stmt [OF s] that, of ?B] by (simp add: stmt_binders_def)
  moreover have "\<exists>an1. visited an1 (NStmt s) \<and> context_of an 0 ?B an1"
    using s context_refl by auto
  moreover have "\<exists>an1. visited an1 (NStmt t) \<and> context_of an 0 ?B an1" if "t \<in> set ss" for t
    using Cons.IH [OF rest] that later by blast
  ultimately show ?case
    using Cons.IH [OF rest] by simp
qed

lemma block_items_visits:
  assumes "each check_stmt (b_stmts block) an = Inr an1"
    and "(case b_tail_expr block of Some e \<Rightarrow> check_expr e ex an1 | None \<Rightarrow> Inr (BcUnit, an1)) = Inr (ty, an2)"
    and "c \<in> set (block_nodes block)"
  shows "\<exists>an3. visited an3 c \<and> context_of an 0 (stmt_binders (b_stmts block)) an3"
  using stmts_visits [OF assms(1)] assms(2,3)
  by (auto simp: block_nodes_def split: option.splits dest!: check_expr_Inr)

lemma block_visits:
  assumes "check_block check_stmt check_expr block ex an = Inr (ty, an')" "c \<in> set (block_nodes block)"
  shows "\<exists>an1. visited an1 c \<and> context_of an 0 (stmt_binders (b_stmts block)) an1"
proof -
  obtain an1 an2 where "each check_stmt (b_stmts block) (push_scope an) = Inr an1"
    "(case b_tail_expr block of Some e \<Rightarrow> check_expr e ex an1 | None \<Rightarrow> Inr (BcUnit, an1)) = Inr (ty, an2)"
    using assms(1) by (auto simp: check_block_def and_then_eq_Inr)
  from block_items_visits [OF this assms(2)] show ?thesis
    using context_trans [OF context_push [of _ "{}"], of _ 0 "stmt_binders (b_stmts block)"] by auto
qed

lemma for_body_visits:
  assumes "check_for_body check_stmt check_expr var ty sp block an = Inr an'" "c \<in> set (block_nodes block)"
  shows "\<exists>an1. visited an1 c \<and> context_of an 1 (insert var (stmt_binders (b_stmts block))) an1"
proof -
  obtain an1 an2 t an3 where bind: "add_binding var ty False sp (push_scope an) = Inr an1"
    and body: "each check_stmt (b_stmts block) (enter_loop an1) = Inr an2"
      "(case b_tail_expr block of Some e \<Rightarrow> check_expr e None an2 | None \<Rightarrow> Inr (BcUnit, an2)) = Inr (t, an3)"
    using assms(1) by (auto simp: check_for_body_def and_then_eq_Inr)
  let ?B = "stmt_binders (b_stmts block)"
  have "context_of an 0 {var} an1"
    using context_trans [OF context_push [of _ "{}"] context_bind [OF bind], of "{var}"] by simp
  then have "context_of an 1 {var} (enter_loop an1)"
    using context_trans [OF _ context_loop [of an1 "{}"], of an 0 "{var}" "{var}"] by simp
  then have "context_of an 1 (insert var ?B) an2" if "context_of (enter_loop an1) 0 ?B an2" for an2
    using context_trans [OF _ that, of an 1 "{var}" "insert var ?B"] by auto
  then show ?thesis
    using block_items_visits [OF body assms(2)] by blast
qed

section \<open>Arms\<close>

lemma bind_payload_context:
  "bind_payload ps ts an = Inr an' \<Longrightarrow> context_of an 0 {name. \<exists>sp. PIdent name sp \<in> set ps} an'"
proof (induction ps ts an rule: bind_payload.induct)
  case (1 name bspan ps t ts an)
  then obtain an1 where "add_binding name t False bspan an = Inr an1" "bind_payload ps ts an1 = Inr an'"
    by (auto simp: and_then_eq_Inr)
  from context_trans [OF context_bind [OF this(1)] "1.IH" [OF this] order_refl]
  show ?case by (auto elim!: context_weaken)
qed (auto intro: context_refl simp: context_of_def)

lemma bind_pattern_context:
  "bind_pattern_vars p ty sp an = Inr an' \<Longrightarrow> context_of an 0 (pattern_binders p) an'"
proof (cases p)
  case (PEnum en v ps s)
  assume bind: "bind_pattern_vars p ty sp an = Inr an'"
  have sub: "context_of an 0 {name. \<exists>sp. PIdent name sp \<in> set ps} an1"
    if "context_of an 0 {name. \<exists>sp. PIdent name sp \<in> set (take k ps)} an1" for k an1
    using that by (rule context_weaken) (auto dest: in_set_takeD)
  show ?thesis
    using bind PEnum
    by (auto simp: bind_pattern_vars_def split: if_splits bc_type.splits option.splits
        dest: bind_payload_context intro: sub context_refl)
qed (auto simp: bind_pattern_vars_def intro: context_refl context_bind)

lemma arm_visits:
  assumes "check_arm check_expr ty sp ex arm (ms, an) = Inr (ms', an')"
  shows "an' = an \<and>
    (\<exists>an1. visited an1 (arm_node arm) \<and>
       context_of an 0 {name. \<exists>p b s. arm = MatchArm p b s \<and> name \<in> pattern_binders p} an1)"
proof (cases arm rule: match_arm.exhaust)
  case (MatchArm p b s)
  with assms obtain an1 t where bind: "bind_pattern_vars p ty s (push_scope an) = Inr an1"
    and body: "check_expr b ex an1 = Inr (t, an1)" and an': "an' = pop_scope an1"
    by (auto simp: check_arm_def and_then_eq_Inr dest: check_expr_same)
  have "grows (push_scope an) an1"
    using growingD [OF bind_pattern_vars_grows bind] .
  then have "an' = an" using an' by (simp add: grows_push)
  moreover have "context_of an 0 (pattern_binders p) an1"
    using context_trans [OF context_push [of _ "{}"] bind_pattern_context [OF bind], of "pattern_binders p"] by simp
  ultimately show ?thesis
    using MatchArm body by (auto intro: acceptsI)
qed

lemma match_visits:
  assumes "check_match check_expr ty arms sp ex an = Inr (t, an')" "arm \<in> set arms"
  shows "\<exists>an1. visited an1 (arm_node arm) \<and> context_of an 0 (binders (NExpr (EMatch e arms sp'))) an1"
proof -
  obtain ms an2 where "each (check_arm check_expr ty sp ex) arms
      (\<lparr>ms_seen = {}, ms_wildcard = False, ms_types = []\<rparr>, an) = Inr (ms, an2)"
    using assms(1) by (auto simp: check_match_def and_then_eq_Inr)
  from each_visits [OF this, of "\<lambda>arm. \<exists>an1. visited an1 (arm_node arm) \<and>
       context_of an 0 {name. \<exists>p b s. arm = MatchArm p b s \<and> name \<in> pattern_binders p} an1"]
  have "\<exists>an1. visited an1 (arm_node arm) \<and>
       context_of an 0 {name. \<exists>p b s. arm = MatchArm p b s \<and> name \<in> pattern_binders p} an1"
    using arm_visits assms(2) by (auto simp: list_all_iff)
  then obtain an1 where "visited an1 (arm_node arm)"
    "context_of an 0 {name. \<exists>p b s. arm = MatchArm p b s \<and> name \<in> pattern_binders p} an1" by blast
  moreover have "context_of an 0 (binders (NExpr (EMatch e arms sp'))) an1"
    by (rule context_weaken [OF calculation(2)]) (use assms(2) in auto)
  ultimately show ?thesis by blast
qed

section \<open>Every node inside an accepted node is visited\<close>

text \<open>The names bound by a node or by one of its children.\<close>

definition near_binders :: "node \<Rightarrow> string set" where
  "near_binders n = binders n \<union> (\<Union>(k, c) \<in> set (children n). binders c)"

lemma near_block:
  "Pair k ` set (block_nodes block) \<subseteq> set (children n) \<Longrightarrow> stmt_binders (b_stmts block) \<subseteq> near_binders n"
  by (fastforce simp: near_binders_def stmt_binders_def block_nodes_def)

lemma visited_here: "visited an c \<Longrightarrow> \<exists>an1. visited an1 c \<and> context_of an 0 names an1"
  using context_refl by blast

lemma visited_weaken:
  "\<exists>an1. visited an1 c \<and> context_of an k ns an1 \<Longrightarrow> ns \<subseteq> names \<Longrightarrow>
     \<exists>an1. visited an1 c \<and> context_of an k names an1"
  using context_weaken by blast

lemma block_children_visited:
  assumes "check_block check_stmt check_expr block ex an = Inr (ty, an')" "c \<in> set (block_nodes block)"
    and "set (block_nodes block) \<subseteq> set (expr_children e)"
  shows "\<exists>an1. visited an1 c \<and> context_of an 0 (near_binders (NExpr e)) an1"
proof -
  have "stmt_binders (b_stmts block) \<subseteq> near_binders (NExpr e)"
    using assms(3) by (intro near_block [of 0]) auto
  with block_visits [OF assms(1,2)] show ?thesis by (rule visited_weaken)
qed

lemma expr_children_visited:
  assumes "check_expr e ex an = Inr (ty, an')" "c \<in> set (expr_children e)"
  shows "\<exists>an1. visited an1 c \<and> context_of an 0 (near_binders (NExpr e)) an1"
proof (cases e rule: expr.exhaust)
  case (EBlock block)
  with assms show ?thesis by (intro block_children_visited [of block]) auto
next
  case (EArena block sp)
  with assms obtain t where "check_block check_stmt check_expr block ex an = Inr (t, an')"
    by (auto simp: check_arena_def and_then_eq_Inr split: if_splits)
  with EArena assms show ?thesis by (intro block_children_visited [of block]) auto
next
  case (EIf c' block els sp)
  with assms obtain t an1 where c': "accepts an c'" and
    block: "check_block check_stmt check_expr block ex an = Inr (t, an1)" and
    els: "\<And>e'. els = Some e' \<Longrightarrow> accepts an1 e'"
    by (auto simp: check_if_def and_then_eq_Inr split: if_splits option.splits dest!: check_expr_Inr)
  have "an1 = an" using block by (rule check_block_same)
  with EIf assms(2) c' els have "visited an c \<or> c \<in> set (block_nodes block)"
    by (auto split: option.splits)
  then show ?thesis
  proof
    assume "c \<in> set (block_nodes block)"
    with block EIf show ?thesis by (intro block_children_visited [of block]) auto
  qed (rule visited_here)
next
  case (EMatch scrut arms sp)
  with assms obtain t where "accepts an scrut" and arms: "check_match check_expr t arms sp ex an = Inr (ty, an')"
    by (auto simp: and_then_eq_Inr dest!: check_expr_Inr)
  with EMatch assms(2) have "visited an c \<or> (\<exists>arm \<in> set arms. c = arm_node arm)" by auto
  then show ?thesis
  proof
    assume "\<exists>arm \<in> set arms. c = arm_node arm"
    then obtain arm where "arm \<in> set arms" "c = arm_node arm" by blast
    with match_visits [OF arms this(1), of scrut sp] EMatch show ?thesis
      by (auto simp: near_binders_def elim!: visited_weaken)
  qed (rule visited_here)
next
  case (ECall callee args sp)
  with assms show ?thesis by (intro visited_here) (auto simp: list_all_iff dest!: call_visits)
next
  case (EArrayLit es sp)
  with assms show ?thesis by (intro visited_here) (auto simp: list_all_iff dest!: array_lit_visits)
next
  case (EStructLit name inits sp)
  with assms show ?thesis by (intro visited_here) (auto simp: list_all_iff dest!: struct_lit_visits)
next
  case (EEnumConstructor en v args sp)
  with assms show ?thesis by (intro visited_here) (auto simp: list_all_iff dest!: enum_constructor_visits)
next
  case (EInterpolatedString parts sp)
  with assms show ?thesis by (intro visited_here) (auto simp: list_all_iff dest!: interpolated_string_visits)
next
  case (ETry e' sp)
  with assms show ?thesis by (intro visited_here) (auto simp: check_try_def and_then_eq_Inr dest!: check_expr_Inr)
next
  case (EBinaryOp op' l r sp)
  with assms show ?thesis by (intro visited_here) (auto simp: and_then_eq_Inr dest!: check_expr_Inr)
next
  case (EUnaryOp op' e' sp)
  with assms show ?thesis by (intro visited_here) (auto simp: and_then_eq_Inr dest!: check_expr_Inr)
next
  case (ECast e' t sp)
  with assms show ?thesis by (intro visited_here) (auto simp: and_then_eq_Inr split: if_splits dest!: check_expr_Inr)
next
  case (EFieldAccess e' f sp)
  with assms show ?thesis by (intro visited_here) (auto simp: and_then_eq_Inr dest!: check_expr_Inr)
next
  case (EIndex e' i sp)
  with assms show ?thesis by (intro visited_here) (auto simp: and_then_eq_Inr split: if_splits dest!: check_expr_Inr)
qed (use assms in auto)

lemma loop_body_visited:
  assumes "check_for_body check_stmt check_expr var ty sp block an = Inr an'" "c \<in> set (block_nodes block)"
    and "Pair 1 ` set (block_nodes block) \<subseteq> set (children n)" "var \<in> binders n"
  shows "\<exists>an1. visited an1 c \<and> context_of an 1 (near_binders n) an1"
proof -
  have "insert var (stmt_binders (b_stmts block)) \<subseteq> near_binders n"
    using near_block [OF assms(3)] assms(4) by (auto simp: near_binders_def)
  with for_body_visits [OF assms(1,2)] show ?thesis by (rule visited_weaken)
qed

lemma while_body_visited:
  assumes "check_block check_stmt check_expr block ex (enter_loop an) = Inr (ty, an')"
    and "c \<in> set (block_nodes block)" "Pair 1 ` set (block_nodes block) \<subseteq> set (children n)"
  shows "\<exists>an1. visited an1 c \<and> context_of an 1 (near_binders n) an1"
proof -
  obtain an1 where "visited an1 c" "context_of (enter_loop an) 0 (stmt_binders (b_stmts block)) an1"
    using block_visits [OF assms(1,2)] by blast
  moreover have "context_of an 1 (near_binders n) an1"
    using context_trans [OF context_loop [of an "{}"] calculation(2), of "near_binders n"] near_block [OF assms(3)]
    by simp
  ultimately show ?thesis by blast
qed

lemma stmt_children_visited:
  assumes "check_stmt s an = Inr an'" "(k, c) \<in> set (children (NStmt s))"
  shows "\<exists>an1. visited an1 c \<and> context_of an k (near_binders (NStmt s)) an1"
proof (cases s rule: stmt.exhaust)
  case (SWhile b block sp)
  with assms(1) obtain t an1 where "accepts an b"
    and body: "check_block check_stmt check_expr block None (enter_loop an) = Inr (t, an1)"
    by (auto simp: check_while_def and_then_eq_Inr split: if_splits dest!: check_expr_Inr)
  with SWhile assms(2) have "k = 0 \<and> visited an c \<or> k = 1 \<and> c \<in> set (block_nodes block)" by auto
  then show ?thesis
    using while_body_visited [OF body, of c "NStmt s"] SWhile by (auto intro: visited_here)
next
  case (SFor var a b block sp)
  with assms(1) have "accepts an a" "accepts an b"
    and body: "check_for_body check_stmt check_expr var BcI32 sp block an = Inr an'"
    by (auto simp: check_for_def and_then_eq_Inr split: if_splits dest!: check_expr_Inr)
  with SFor assms(2) have "k = 0 \<and> visited an c \<or> k = 1 \<and> c \<in> set (block_nodes block)" by auto
  then show ?thesis
    using loop_body_visited [OF body, of c "NStmt s"] SFor by (auto intro: visited_here)
next
  case (SForIn var it block sp)
  with assms(1) obtain t where "accepts an it"
    and body: "check_for_body check_stmt check_expr var t sp block an = Inr an'"
    by (auto simp: check_for_in_def and_then_eq_Inr split: option.splits dest!: check_expr_Inr)
  with SForIn assms(2) have "k = 0 \<and> visited an c \<or> k = 1 \<and> c \<in> set (block_nodes block)" by auto
  then show ?thesis
    using loop_body_visited [OF body, of c "NStmt s"] SForIn by (auto intro: visited_here)
next
  case (SLet name m t v sp)
  with assms show ?thesis
    by (auto simp: check_let_def and_then_eq_Inr split: if_splits dest!: check_expr_Inr intro: context_refl)
next
  case (SAssign target v sp)
  with assms show ?thesis
    by (auto simp: check_assign_def and_then_eq_Inr list_all_iff split: if_splits
        intro!: visited_here dest!: check_expr_Inr place_visits)
next
  case (SCompoundAssign target op' v sp)
  with assms show ?thesis
    by (auto simp: check_compound_assign_def and_then_eq_Inr list_all_iff split: if_splits
        intro!: visited_here dest!: check_expr_Inr place_visits)
next
  case (SExpr e sp)
  with assms show ?thesis
    by (auto simp: and_then_eq_Inr dest!: check_expr_Inr intro: context_refl)
next
  case (SReturn v sp)
  with assms show ?thesis
    by (auto simp: check_return_def and_then_eq_Inr split: option.splits if_splits
        dest!: check_expr_Inr intro: context_refl)
next
  case (SDefer e sp)
  with assms show ?thesis
    by (auto simp: check_defer_def and_then_eq_Inr split: if_splits dest!: check_expr_Inr intro: context_refl)
qed (use assms in auto)

lemma children_visited:
  assumes "visited an n" "(k, c) \<in> set (children n)"
  shows "\<exists>an1. visited an1 c \<and> context_of an k (near_binders n) an1"
  using assms expr_children_visited stmt_children_visited
  by (cases n) (auto simp: accepts_def)

theorem inside_visited:
  assumes "inside n d m" "visited an n"
  shows "\<exists>an1. visited an1 m \<and> context_of an d (bound_inside n) an1"
  using assms
proof (induction rule: inside.induct)
  case (here n)
  then show ?case using context_refl by blast
next
  case (below n d m k c)
  then obtain an1 where an1: "visited an1 m" "context_of an d (bound_inside n) an1" by blast
  from children_visited [OF an1(1) below.hyps(2)] obtain an2 where
    an2: "visited an2 c" "context_of an1 k (near_binders m) an2" by blast
  have "near_binders m \<subseteq> bound_inside n"
    using below.hyps(1) inside.below [OF below.hyps(1)]
    by (auto simp: near_binders_def bound_inside_def)
  with context_trans [OF an1(2) an2(2), of "bound_inside n"] an2(1) show ?case by auto
qed

section \<open>The nodes of a function body\<close>

definition in_body :: "fn_decl \<Rightarrow> nat \<Rightarrow> node \<Rightarrow> bool" where
  "in_body f d m \<longleftrightarrow> (\<exists>n \<in> set (block_nodes (fn_body f)). inside n d m)"

definition locals_of :: "fn_decl \<Rightarrow> string set" where
  "locals_of f = p_name ` set (fn_params f) \<union> {name. \<exists>d m. in_body f d m \<and> name \<in> binders m}"

text \<open>The names of the bindings that cannot be assigned to.\<close>

definition immutable_names :: "analyzer \<Rightarrow> string set" where
  "immutable_names an = {name. \<exists>b. lookup_var an name = Some b \<and> \<not> bi_is_mut b}"

lemma bind_param_lookup:
  assumes "bind_param p an = Inr an'"
  shows "\<exists>ty. lookup_var an' = (lookup_var an)(p_name p \<mapsto> \<lparr>bi_ty = ty, bi_is_mut = False\<rparr>)"
  using assms
  by (cases "an_scopes an")
    (auto simp: bind_param_def and_then_eq_Inr lookup_var_def fun_eq_iff split: if_splits)

lemma bind_params_names:
  "each bind_param ps an = Inr an' \<Longrightarrow>
     scope_names an' \<subseteq> scope_names an \<union> p_name ` set ps \<and>
     immutable_names an \<union> p_name ` set ps \<subseteq> immutable_names an'"
proof (induction ps arbitrary: an)
  case (Cons p ps)
  then obtain an1 where an1: "bind_param p an = Inr an1" "each bind_param ps an1 = Inr an'"
    by (auto simp: and_then_eq_Inr)
  obtain ty where "lookup_var an1 = (lookup_var an)(p_name p \<mapsto> \<lparr>bi_ty = ty, bi_is_mut = False\<rparr>)"
    using bind_param_lookup [OF an1(1)] by blast
  then have "scope_names an1 \<subseteq> insert (p_name p) (scope_names an)"
    "insert (p_name p) (immutable_names an) \<subseteq> immutable_names an1"
    by (auto simp: scope_names_def immutable_names_def)
  with Cons.IH [OF an1(2)] show ?case by auto
qed simp

text \<open>The state in which a node of an accepted function was checked.\<close>

definition node_state :: "semantic_info \<Rightarrow> fn_decl \<Rightarrow> nat \<Rightarrow> analyzer \<Rightarrow> bool" where
  "node_state info f d an \<longleftrightarrow>
     an_structs an = sem_structs info \<and> an_enums an = sem_enums info \<and>
     an_functions an = sem_functions info \<and> an_constants an = sem_constants info \<and>
     (\<exists>ret. resolve_return (info_analyzer info) (fn_return_type f) = Inr ret \<and>
        an_current_fn_return_type an = Some ret) \<and>
     an_in_pure_fn an = fn_is_pure f \<and> an_loop_depth an = d \<and>
     scope_names an \<subseteq> locals_of f \<and> p_name ` set (fn_params f) \<subseteq> immutable_names an"

lemma resolve_type_cong:
  assumes "an_structs an' = an_structs an" "an_enums an' = an_enums an"
  shows "resolve_type an' t = resolve_type an t" "resolve_types an' ts = resolve_types an ts"
  using assms by (induction an t and an ts rule: resolve_type_resolve_types.induct)
    (auto intro!: and_then_cong)

definition info_of :: "analyzer \<Rightarrow> semantic_info" where
  "info_of an =
     \<lparr>sem_structs = an_structs an, sem_enums = an_enums an,
      sem_functions = an_functions an, sem_constants = an_constants an\<rparr>"

lemma resolve_return_info: "resolve_return (info_analyzer (info_of an)) ret = resolve_return an ret"
  by (auto simp: resolve_return_def info_analyzer_def info_of_def intro!: resolve_type_cong split: option.split)

lemma check_fn_visits:
  assumes "check_fn f an = Inr an'" "collected an" "in_body f d m"
  shows "\<exists>an1. visited an1 m \<and> node_state (info_of an) f d an1"
proof -
  obtain ret an0 ty an2 where ret: "resolve_return an (fn_return_type f) = Inr ret"
    and params: "each bind_param (fn_params f) (in_function an ret (fn_is_pure f)) = Inr an0"
    and body: "check_block check_stmt check_expr (fn_body f) (Some ret) an0 = Inr (ty, an2)"
    using assms(1) by (auto simp: check_fn_def and_then_eq_Inr in_function_def)
  obtain n where n: "n \<in> set (block_nodes (fn_body f))" "inside n d m"
    using assms(3) by (auto simp: in_body_def)
  let ?in = "in_function an ret (fn_is_pure f)"
  have "declared an ret" using resolve_return_yields [of an "fn_return_type f"] ret by simp
  note fresh = in_function_wf [OF assms(2) this, of "fn_is_pure f"]
  have "extends ?in (each bind_param (fn_params f) ?in)"
    using fresh by (intro each_extends) (simp_all add: bind_param_extends)
  with params have grows: "grows ?in an0" by (simp add: extends_def)
  obtain an1 where an1: "visited an1 n" "context_of an0 0 (stmt_binders (b_stmts (fn_body f))) an1"
    using block_visits [OF body n(1)] by blast
  obtain an3 where an3: "visited an3 m" "context_of an1 d (bound_inside n) an3"
    using inside_visited [OF n(2) an1(1)] by blast
  have "stmt_binders (b_stmts (fn_body f)) \<subseteq> locals_of f"
    by (fastforce simp: stmt_binders_def locals_of_def in_body_def block_nodes_def intro: inside.here)
  moreover have "bound_inside n \<subseteq> locals_of f"
    using n(1) by (auto simp: bound_inside_def locals_of_def in_body_def)
  moreover have "scope_names an0 \<subseteq> p_name ` set (fn_params f)"
    using bind_params_names [OF params] fresh(2) by (auto simp: scope_names_def lookup_var_def)
  moreover have "scope_names an3 \<subseteq> scope_names an0 \<union> stmt_binders (b_stmts (fn_body f)) \<union> bound_inside n"
    using an1(2) an3(2) by (auto simp: context_of_def)
  ultimately have "scope_names an3 \<subseteq> locals_of f" by (auto simp: locals_of_def)
  moreover have "lookup_var an0 \<subseteq>\<^sub>m lookup_var an3"
    using an1(2) an3(2) by (auto simp: context_of_def intro: map_le_trans)
  then have "immutable_names an0 \<subseteq> immutable_names an3"
    by (auto simp: immutable_names_def map_le_def) (metis domI)
  with bind_params_names [OF params] have "p_name ` set (fn_params f) \<subseteq> immutable_names an3" by auto
  ultimately have "node_state (info_of an) f d an3"
    using an1(2) an3(2) ret grows_fields [OF grows] assms(2)
    by (simp add: node_state_def context_of_def info_of_def resolve_return_info [unfolded info_of_def])
      (simp add: in_function_def push_scope_def collected_def)
  with an3(1) show ?thesis by blast
qed

lemma check_all_fn:
  "each check_decl ds an = Inr an' \<Longrightarrow> collected an \<Longrightarrow> DFn f \<in> set ds \<Longrightarrow> check_fn f an = Inr an"
proof (induction ds arbitrary: an)
  case (Cons d ds)
  then obtain an1 where d: "check_decl d an = Inr an1" "each check_decl ds an1 = Inr an'"
    by (auto simp: and_then_eq_Inr)
  have "an1 = an" using check_decl_yields [OF Cons.prems(2), of d] d(1) by simp
  with Cons d show ?case by auto
qed simp

theorem accepted_nodes:
  assumes "analyze prog = Inr info" "DFn f \<in> set (decls prog)" "in_body f d m"
  shows "\<exists>an. visited an m \<and> node_state info f d an"
proof -
  obtain an an' where an: "each collect_decl (decls prog) (analyzer_new\<lparr>an_functions := register_builtins\<rparr>) = Inr an"
    "each check_decl (decls prog) an = Inr an'" "info = info_of an'"
    using assms(1) by (auto simp: analyze_def and_then_eq_Inr info_of_def)
  have coll: "collected an" using collect_all_yields [of "decls prog"] an(1) by simp
  have "an' = an" using check_all_yields [OF coll, of "decls prog"] an(2) by simp
  with coll show ?thesis
    using check_fn_visits [OF check_all_fn [OF an(2)]] assms(2,3) an(3) by blast
qed

section \<open>The nodes of a program\<close>

text \<open>Code stands in the bodies of functions and in the values of constants.\<close>

definition in_constant :: "let_decl \<Rightarrow> nat \<Rightarrow> node \<Rightarrow> bool" where
  "in_constant l d m \<longleftrightarrow> inside (NExpr (l_value l)) d m"

definition in_program :: "program \<Rightarrow> nat \<Rightarrow> node \<Rightarrow> bool" where
  "in_program prog d m \<longleftrightarrow>
     (\<exists>f. DFn f \<in> set (decls prog) \<and> in_body f d m) \<or>
     (\<exists>l. DLet l \<in> set (decls prog) \<and> in_constant l d m)"

lemma in_programI:
  "DFn f \<in> set (decls prog) \<Longrightarrow> in_body f d m \<Longrightarrow> in_program prog d m"
  "DLet l \<in> set (decls prog) \<Longrightarrow> in_constant l d m \<Longrightarrow> in_program prog d m"
  by (auto simp: in_program_def)

lemma check_all_let:
  "each check_decl ds an = Inr an' \<Longrightarrow> collected an \<Longrightarrow> DLet l \<in> set ds \<Longrightarrow> check_top_let l an = Inr an"
proof (induction ds arbitrary: an)
  case (Cons d ds)
  then obtain an1 where d: "check_decl d an = Inr an1" "each check_decl ds an1 = Inr an'"
    by (auto simp: and_then_eq_Inr)
  have "an1 = an" using check_decl_yields [OF Cons.prems(2), of d] d(1) by simp
  with Cons d show ?case by auto
qed simp

text \<open>A constant is checked outside of every function.\<close>

lemma check_top_let_visits:
  assumes "check_top_let l an = Inr an'" "collected an" "in_constant l d m"
  shows "\<exists>an1. visited an1 m \<and> an_enums an1 = an_enums an \<and> an_current_fn_return_type an1 = None"
proof -
  have "visited (push_scope an) (NExpr (l_value l))"
    using assms(1) by (auto simp: check_top_let_def and_then_eq_Inr dest!: check_expr_Inr)
  from inside_visited [OF assms(3) [unfolded in_constant_def] this] obtain an1 where
    "visited an1 m" "context_of (push_scope an) d (bound_inside (NExpr (l_value l))) an1" by blast
  with assms(2) show ?thesis
    by (intro exI [of _ an1]) (simp add: context_of_def push_scope_def collected_def)
qed

theorem accepted_constants:
  assumes "analyze prog = Inr info" "DLet l \<in> set (decls prog)" "in_constant l d m"
  shows "\<exists>an. visited an m \<and> an_enums an = sem_enums info \<and> an_current_fn_return_type an = None"
proof -
  obtain an an' where an: "each collect_decl (decls prog) (analyzer_new\<lparr>an_functions := register_builtins\<rparr>) = Inr an"
    "each check_decl (decls prog) an = Inr an'" "info = info_of an'"
    using assms(1) by (auto simp: analyze_def and_then_eq_Inr info_of_def)
  have coll: "collected an" using collect_all_yields [of "decls prog"] an(1) by simp
  have "an' = an" using check_all_yields [OF coll, of "decls prog"] an(2) by simp
  with check_top_let_visits [OF check_all_let [OF an(2) coll assms(2)] coll assms(3)] an(3)
  show ?thesis by (auto simp: info_of_def)
qed

theorem program_nodes:
  assumes "analyze prog = Inr info" "in_program prog d m"
  shows "\<exists>an. visited an m \<and> an_enums an = sem_enums info"
  using assms(2) accepted_nodes [OF assms(1)] accepted_constants [OF assms(1)]
  unfolding in_program_def node_state_def by blast

end
