(* ===== verification/Contexts.thy ===== *)
theory Contexts
  imports Lower Visits
begin

text \<open>
  The checker takes the type of an array literal and of a \<open>Result\<close> constructor from the
  expected type, which it passes down to the subexpressions; lowering takes it from two
  fields that it sets at a few places and never clears in between. This theory describes the
  programs in which both find the same: \<open>ok_expr f c a r e\<close> says of the expression \<open>e\<close>
  that its literals stand where the two contexts agree, if

  \<^item> \<open>f\<close>: the expression is in a function,
  \<^item> \<open>c\<close>: both fields of lowering are clear,
  \<^item> \<open>a\<close>: the expected array types agree, and
  \<^item> \<open>r\<close>: the \<open>Result\<close> types of a constructor agree.

  The operand of an operator, a condition or a scrutinee is checked without an expected type
  and lowered with the fields as they are, so there the contexts agree only if the fields are
  clear; an initializer, a returned value, an assigned value, an argument, a field or a
  payload sets the fields anew.
\<close>

section \<open>Where the contexts agree\<close>

fun plain_type :: "ast_type \<Rightarrow> bool" where
  "plain_type (TyFixedArray _ _ _) = False"
| "plain_type (TyDynamicArray _ _) = False"
| "plain_type (TyResult _ _ _) = False"
| "plain_type _ = True"

text \<open>
  The flags \<open>c\<close>, \<open>a\<close> and \<open>r\<close> of the arguments of a call, by position. \<open>len\<close> and \<open>push\<close> have
  no declared parameters; the type of \<open>pop\<close> is unknown to lowering.
\<close>

definition sets_anew :: "bool \<times> bool \<times> bool" where
  "sets_anew = (False, True, True)"

definition argument_flags :: "bool \<Rightarrow> string \<Rightarrow> nat \<Rightarrow> bool \<times> bool \<times> bool" where
  "argument_flags c name n =
     (case resolve_with_alias name of
        Some i \<Rightarrow> if is_generic (co_op i) \<and> n = 0 then (c, c, c) else sets_anew
      | None \<Rightarrow> if name = ''len'' \<or> name = ''push'' then (False, False, False) else sets_anew)"

function ok_expr :: "bool \<Rightarrow> bool \<Rightarrow> bool \<Rightarrow> bool \<Rightarrow> expr \<Rightarrow> bool"
and ok_args :: "bool \<Rightarrow> (nat \<Rightarrow> bool \<times> bool \<times> bool) \<Rightarrow> expr list \<Rightarrow> bool"
and ok_block :: "bool \<Rightarrow> bool \<Rightarrow> bool \<Rightarrow> bool \<Rightarrow> block \<Rightarrow> bool"
and ok_stmt :: "bool \<Rightarrow> bool \<Rightarrow> stmt \<Rightarrow> bool"
and ok_place :: "bool \<Rightarrow> bool \<Rightarrow> place \<Rightarrow> bool" where
  "ok_expr f c a r (EIntLit _ _) = True"
| "ok_expr f c a r (EFloatLit _ _) = True"
| "ok_expr f c a r (EStringLit _ _) = True"
| "ok_expr f c a r (EBoolLit _ _) = True"
| "ok_expr f c a r (EIdent _ _) = True"
| "ok_expr f c a r (EInterpolatedString parts _) =
     list_all (\<lambda>part. case part of IText _ \<Rightarrow> True | IExpr e \<Rightarrow> ok_expr f c c c e) parts"
| "ok_expr f c a r (EBinaryOp _ left right _) = (ok_expr f c c c left \<and> ok_expr f c c c right)"
| "ok_expr f c a r (EUnaryOp _ operand _) = ok_expr f c c c operand"
| "ok_expr f c a r (ECast inner _ _) = ok_expr f c c c inner"
| "ok_expr f c a r (ECall callee args _) =
     (case callee of
        EIdent name _ \<Rightarrow> name \<noteq> ''pop'' \<and> ok_args f (argument_flags c name) args
      | _ \<Rightarrow> False)"
| "ok_expr f c a r (EFieldAccess inner _ _) = ok_expr f c c c inner"
| "ok_expr f c a r (EIndex inner index _) = (ok_expr f c c c inner \<and> ok_expr f c c c index)"
| "ok_expr f c a r (EBlock block) = ok_block f c a r block"
| "ok_expr f c a r (EIf condition then_block else_branch _) =
     (ok_expr f c c c condition \<and> ok_block f c a r then_block \<and>
      pred_option (\<lambda>e. ok_expr f c a r e) else_branch)"
| "ok_expr f c a r (EMatch scrutinee arms _) =
     (ok_expr f c c c scrutinee \<and>
      list_all (\<lambda>arm. case arm of MatchArm _ body _ \<Rightarrow> ok_expr f c a r body) arms)"
| "ok_expr f c a r (ETry call _) = ok_expr f c c c call"
| "ok_expr f c a r (EArrayLit elements _) = (a \<and> list_all (\<lambda>e. ok_expr f c c c e) elements)"
| "ok_expr f c a r (EStructLit _ inits _) =
     list_all (\<lambda>fi. case fi of FieldInit _ val _ \<Rightarrow> ok_expr f False True True val) inits"
| "ok_expr f c a r (EEnumConstructor enum_name _ args _) =
     ((enum_name = ''Result'' \<longrightarrow> r) \<and> ok_args f (\<lambda>_. sets_anew) args)"
| "ok_expr f c a r (EArena body _) = ok_block f c a r body"
| "ok_args f flags [] = True"
| "ok_args f flags (e # es) =
     ((case flags 0 of (c, a, r) \<Rightarrow> ok_expr f c a r e) \<and> ok_args f (\<lambda>n. flags (Suc n)) es)"
| "ok_block f c a r (Block stmts tail _) =
     (list_all (\<lambda>s. ok_stmt f c s) stmts \<and> pred_option (\<lambda>e. ok_expr f c a r e) tail)"
| "ok_stmt f c (SLet _ _ ty val _) = ok_expr f (plain_type ty) True True val"
| "ok_stmt f c (SAssign target val _) = (ok_place f c target \<and> ok_expr f False True True val)"
| "ok_stmt f c (SCompoundAssign target _ val _) = (ok_place f c target \<and> ok_expr f c c c val)"
| "ok_stmt f c (SExpr e _) = ok_expr f c c c e"
| "ok_stmt f c (SWhile condition body _) = (ok_expr f c c c condition \<and> ok_block f c c c body)"
| "ok_stmt f c (SFor _ start end_expr body _) =
     (ok_expr f c c c start \<and> ok_expr f c c c end_expr \<and> ok_block f c c c body)"
| "ok_stmt f c (SForIn _ iterable body _) = (ok_expr f c c c iterable \<and> ok_block f c c c body)"
| "ok_stmt f c (SReturn val _) = pred_option (\<lambda>e. f \<and> ok_expr f False True True e) val"
| "ok_stmt f c (SDefer e _) = ok_expr f c c c e"
| "ok_stmt f c (SBreak _) = True"
| "ok_stmt f c (SContinue _) = True"
| "ok_place f c (Place _ accessors _) =
     list_all (\<lambda>acc. case acc of AccField _ \<Rightarrow> True | AccIndex e \<Rightarrow> ok_expr f c c c e) accessors"
  by pat_completeness auto
termination
  by (relation "measure (case_sum
      (case_sum (\<lambda>(f, c, a, r, e). size e) (\<lambda>(f, g, es). size_list size es))
      (case_sum (\<lambda>(f, c, a, r, b). size b)
        (case_sum (\<lambda>(f, c, s). size s) (\<lambda>(f, c, p). size p))))")
    (auto simp: less_Suc_eq_le termination_simp intro: trans_le_add1 trans_le_add2)

text \<open>
  The body of a function is lowered with both fields clear; its value is checked against the
  declared type, and a \<open>Result\<close> constructor falls back to that type, an array literal does
  not. A constant sets the fields.
\<close>

fun ok_decl :: "top_decl \<Rightarrow> bool" where
  "ok_decl (DFn f) = ok_block True True False True (fn_body f)"
| "ok_decl (DLet l) = ok_expr False False True True (l_value l)"
| "ok_decl _ = True"

text \<open>
  The names that the checker and lowering resolve differently: a constant that holds a
  function pointer and a function of the same name, and a user function that is shadowed by
  one of the built-in operations on arrays.
\<close>

definition names_apart :: "semantic_info \<Rightarrow> bool" where
  "names_apart info \<longleftrightarrow>
     sem_functions info ''len'' = None \<and> sem_functions info ''push'' = None \<and>
     (\<forall>name ps ret pure.
        map_option ci_ty (sem_constants info name) = Some (BcFnPtr ps ret pure) \<longrightarrow>
        sem_functions info name = None)"

end
