(* ===== verification/LowerAgree.thy ===== *)
theory LowerAgree
  imports Contexts Reliance
begin

text \<open>
  Lowering in step with the checker: for an expression that the checker accepts and whose
  literals stand where the contexts agree, lowering does not panic, leaves its state as it
  was, caches the type that the checker computed, and yields a tree that the verifier
  accepts.
\<close>

section \<open>Related states\<close>

definition suits :: "ir_program \<Rightarrow> semantic_info \<Rightarrow> bool" where
  "suits p info \<longleftrightarrow>
     ip_structs p = sem_structs info \<and> ip_enums p = sem_enums info \<and>
     ip_functions p = sem_functions info \<and> names_apart info"

definition related :: "semantic_info \<Rightarrow> analyzer \<Rightarrow> lowering \<Rightarrow> bool" where
  "related info an lw \<longleftrightarrow>
     info_of an = info \<and> wf_analyzer an \<and>
     find_in_scopes (lw_scopes lw) = map_option bi_ty \<circ> lookup_var an \<and>
     lw_current_fn_return_type lw = an_current_fn_return_type an"

definition array_part :: "bc_type option \<Rightarrow> bc_type option" where
  "array_part ex = (case ex of Some t \<Rightarrow> if array_element_type t = None then None else ex | None \<Rightarrow> None)"

definition fits :: "bool \<Rightarrow> bool \<Rightarrow> bool \<Rightarrow> bool \<Rightarrow> bc_type option \<Rightarrow> analyzer \<Rightarrow> lowering \<Rightarrow> bool" where
  "fits f c a r ex an lw \<longleftrightarrow>
     (f \<longrightarrow> an_current_fn_return_type an \<noteq> None) \<and>
     (c \<longrightarrow> lw_expected_array_type lw = None \<and> lw_expected_result_type lw = None) \<and>
     (a \<longrightarrow> lw_expected_array_type lw = array_part ex) \<and>
     (r \<longrightarrow> (\<forall>t. infer_result_type an ex = Some t \<longrightarrow> result_context lw = Some t))"

definition lowers :: "ir_program \<Rightarrow> analyzer \<Rightarrow> bc_type \<Rightarrow> lowering \<Rightarrow> ir_expr lowered \<Rightarrow> bool" where
  "lowers p an ty lw m \<longleftrightarrow>
     (\<exists>v. m = Inr (v, lw) \<and> ir_ty v = ty \<and> (\<forall>ctx. rely_expr p ctx (an_loop_depth an) v))"

definition agrees :: "ir_program \<Rightarrow> semantic_info \<Rightarrow> expr \<Rightarrow> bool" where
  "agrees p info e \<longleftrightarrow>
     (\<forall>an lw ex ty f c a r.
        related info an lw \<and> wf_expected an ex \<and> fits f c a r ex an lw \<and> ok_expr f c a r e \<and>
        check_expr e ex an = Inr (ty, an) \<longrightarrow> lowers p an ty lw (lower_expr info e lw))"

definition extends_top :: "lowering \<Rightarrow> lowering \<Rightarrow> bool" where
  "extends_top lw lw' \<longleftrightarrow> (\<exists>s. lw' = lw\<lparr>lw_scopes := s # tl (lw_scopes lw)\<rparr>)"

definition agrees_stmt :: "ir_program \<Rightarrow> semantic_info \<Rightarrow> stmt \<Rightarrow> bool" where
  "agrees_stmt p info s \<longleftrightarrow>
     (\<forall>an an' lw f c.
        related info an lw \<and> lw_scopes lw \<noteq> [] \<and> fits f c c c None an lw \<and> ok_stmt f c s \<and>
        check_stmt s an = Inr an' \<longrightarrow>
        (\<exists>v lw'. lower_stmt info s lw = Inr (v, lw') \<and> extends_top lw lw' \<and> related info an' lw' \<and>
           (\<forall>ctx. rely_stmt p ctx (an_loop_depth an) v)))"

lemma agreesD:
  "agrees p info e \<Longrightarrow> related info an lw \<Longrightarrow> wf_expected an ex \<Longrightarrow> fits f c a r ex an lw \<Longrightarrow>
     ok_expr f c a r e \<Longrightarrow> check_expr e ex an = Inr (ty, an') \<Longrightarrow> lowers p an ty lw (lower_expr info e lw)"
  using check_expr_same [of e ex an ty an'] unfolding agrees_def by blast

lemma lowers_cases:
  assumes "lowers p an ty lw m"
  obtains v where "m = Inr (v, lw)" "ir_ty v = ty" "\<And>ctx. rely_expr p ctx (an_loop_depth an) v"
  using assms by (auto simp: lowers_def)

lemma lowersI:
  "ir_ty v = ty \<Longrightarrow> (\<And>ctx. rely_expr p ctx (an_loop_depth an) v) \<Longrightarrow> lowers p an ty lw (Inr (v, lw))"
  by (simp add: lowers_def)

lemma related_tables:
  assumes "related info an lw"
  shows "an_structs an = sem_structs info" "an_enums an = sem_enums info"
    "an_functions an = sem_functions info" "an_constants an = sem_constants info"
  using assms by (auto simp: related_def info_of_def)

lemma related_wf: "related info an lw \<Longrightarrow> wf_analyzer an"
  by (simp add: related_def)

lemma related_lookup:
  "related info an lw \<Longrightarrow>
     lookup_type info lw name =
       (case lookup_var an name of
          Some b \<Rightarrow> Some (bi_ty b) | None \<Rightarrow> map_option ci_ty (an_constants an name))"
  by (auto simp: lookup_type_def related_def info_of_def fun_eq_iff split: option.split)

lemma related_push:
  "related info an lw \<Longrightarrow> related info (push_scope an) (lw_push_scope lw)"
  using wf_push_scope [of an]
  by (auto simp: related_def info_of_def push_scope_def lw_push_scope_def fun_eq_iff lookup_var_def)

lemma related_push_lowering: "related info an lw \<Longrightarrow> related info an (lw_push_scope lw)"
  by (auto simp: related_def lw_push_scope_def fun_eq_iff)

lemma related_loop: "related info (enter_loop an) lw \<longleftrightarrow> related info an lw"
  by (auto simp: related_def info_of_def enter_loop_def lookup_var_def fun_eq_iff)

lemma related_expected [simp]:
  "related info an (push_expected_type ty lw) \<longleftrightarrow> related info an lw"
  by (simp add: related_def push_expected_type_def)

lemma pop_push_expected [simp]: "pop_expected_type lw (push_expected_type ty lw) = lw"
  by (simp add: pop_expected_type_def push_expected_type_def)

lemma pop_push_scope [simp]: "lw_pop_scope (lw_push_scope lw) = lw"
  by (simp add: lw_pop_scope_def lw_push_scope_def)

lemma extends_top_refl: "lw_scopes lw \<noteq> [] \<Longrightarrow> extends_top lw lw"
  unfolding extends_top_def by (rule exI [of _ "hd (lw_scopes lw)"]) (cases lw; simp)

lemma extends_top_trans: "extends_top a b \<Longrightarrow> extends_top b c \<Longrightarrow> extends_top a c"
  by (auto simp: extends_top_def)

lemma extends_top_pop: "extends_top (lw_push_scope lw) lw' \<Longrightarrow> lw_pop_scope lw' = lw"
  by (auto simp: extends_top_def lw_push_scope_def lw_pop_scope_def)

lemma fits_cong:
  assumes "an_current_fn_return_type an' = an_current_fn_return_type an"
    "lw_current_fn_return_type lw' = lw_current_fn_return_type lw"
    "lw_expected_array_type lw' = lw_expected_array_type lw"
    "lw_expected_result_type lw' = lw_expected_result_type lw"
  shows "fits f c a r ex an' lw' \<longleftrightarrow> fits f c a r ex an lw"
  unfolding fits_def infer_result_type_def result_context_def assms ..

lemma extends_top_fits: "extends_top lw lw' \<Longrightarrow> fits f c a r ex an lw' \<longleftrightarrow> fits f c a r ex an lw"
  by (rule fits_cong) (auto simp: extends_top_def)

lemma extends_top_scopes: "extends_top lw lw' \<Longrightarrow> lw_scopes lw' \<noteq> []"
  by (auto simp: extends_top_def)

lemma fits_scopes [simp]:
  "fits f c a r ex (push_scope an) lw \<longleftrightarrow> fits f c a r ex an lw"
  "fits f c a r ex (enter_loop an) lw \<longleftrightarrow> fits f c a r ex an lw"
  "fits f c a r ex an (lw_push_scope lw) \<longleftrightarrow> fits f c a r ex an lw"
  by (rule fits_cong; simp add: push_scope_def enter_loop_def lw_push_scope_def)+

text \<open>A subexpression that is checked without an expected type.\<close>

lemma fits_operand:
  "related info an lw \<Longrightarrow> fits f c a r ex an lw \<Longrightarrow> fits f c c c None an lw"
  by (auto simp: fits_def array_part_def result_context_def related_def infer_result_type_def
      split: option.splits bc_type.splits)

text \<open>A subexpression for which lowering sets the expected type.\<close>

lemma fits_pushed:
  "related info an lw \<Longrightarrow> (f \<longrightarrow> an_current_fn_return_type an \<noteq> None) \<Longrightarrow>
     (c \<longrightarrow> array_element_type ty = None \<and> (\<forall>o' e. ty \<noteq> BcResult o' e)) \<Longrightarrow>
     fits f c True True (Some ty) an (push_expected_type ty lw)"
  by (cases ty)
    (auto simp: fits_def push_expected_type_def array_part_def result_context_def related_def
      infer_result_type_def split: option.splits bc_type.splits)

lemma fits_numeric:
  "fits f c c c None an lw \<Longrightarrow> is_numeric ty \<Longrightarrow> fits f c c c (Some ty) an lw"
  by (auto simp: fits_def is_numeric_def array_part_def infer_result_type_def)

section \<open>Types that the verifier accepts\<close>

lemma verify_declared:
  assumes "suits p info" "info_of an = info"
  shows "declared an ty \<Longrightarrow> verify_type p ctx ty = []"
proof (induction ty)
  case (BcFnPtr ps ret pure)
  then show ?case by (auto simp: list_all_iff)
qed (use assms in \<open>auto simp: suits_def info_of_def\<close>)

lemma checked_declared:
  assumes "check_expr e ex an = Inr (ty, an')" "wf_analyzer an" "wf_expected an ex"
  shows "declared an ty"
  using check_expr_types [of an ex e] assms by (auto elim: types_cases)

lemma verify_checked:
  assumes "suits p info" "related info an lw" "wf_expected an ex" "check_expr e ex an = Inr (ty, an')"
  shows "verify_type p ctx ty = []"
  using assms verify_declared [OF assms(1)] checked_declared by (auto simp: related_def)

lemma lower_type_resolved:
  assumes "an_structs an = sem_structs info" "an_enums an = sem_enums info"
  shows "resolve_type an t = Inr ty \<Longrightarrow> lower_type info t = ty"
    "resolve_types an ts = Inr tys \<Longrightarrow> map (lower_type info) ts = tys"
  using assms
proof (induction an t and an ts arbitrary: ty and tys rule: resolve_type_resolve_types.induct)
  case (1 an p sp)
  then show ?case by (cases p) auto
qed (auto simp: and_then_eq_Inr split: if_splits)

section \<open>Lists of subexpressions\<close>

text \<open>One argument that lowering puts in a context of its own.\<close>

lemma with_expected_lowers:
  assumes "agrees p info e" "related info an lw" "wf_expected an (Some ty)" "ok_expr f c True True e"
    "check_expr e (Some ty) an = Inr (t, an')" "f \<longrightarrow> an_current_fn_return_type an \<noteq> None"
    "c \<longrightarrow> array_element_type ty = None \<and> (\<forall>o' e. ty \<noteq> BcResult o' e)"
  shows "lowers p an t lw (with_expected (lower_expr info) (Some ty) e lw)"
proof -
  have "lowers p an t (push_expected_type ty lw) (lower_expr info e (push_expected_type ty lw))"
    using assms(2) by (intro agreesD [OF assms(1) _ assms(3) fits_pushed [OF assms(2,6,7)] assms(4,5)]) simp
  then show ?thesis
    by (auto simp: lowers_def with_expected_def)
qed

definition lowers_all :: "ir_program \<Rightarrow> analyzer \<Rightarrow> bc_type list \<Rightarrow> lowering \<Rightarrow> ir_expr list lowered \<Rightarrow> bool" where
  "lowers_all p an tys lw m \<longleftrightarrow>
     (\<exists>vs. m = Inr (vs, lw) \<and> map ir_ty vs = tys \<and>
        (\<forall>ctx. \<forall>v \<in> set vs. rely_expr p ctx (an_loop_depth an) v))"

lemma lowers_all_Nil: "lowers_all p an [] lw (Inr ([], lw))"
  by (simp add: lowers_all_def)

lemma lowers_all_Cons:
  "lowers p an t lw m \<Longrightarrow> lowers_all p an ts lw (m' lw) \<Longrightarrow>
     lowers_all p an (t # ts) lw
       (and_then m (\<lambda>(v, lw). and_then (m' lw) (\<lambda>(vs, lw). Inr (v # vs, lw))))"
  by (auto simp: lowers_all_def lowers_def)

lemma lowers_all_cases:
  assumes "lowers_all p an tys lw m"
  obtains vs where "m = Inr (vs, lw)" "map ir_ty vs = tys"
    "\<And>ctx v. v \<in> set vs \<Longrightarrow> rely_expr p ctx (an_loop_depth an) v"
  using assms by (auto simp: lowers_all_def)

text \<open>Elements without an expected type of their own.\<close>

lemma lower_elements:
  assumes "related info an lw" "fits f c c c None an lw"
  shows "list_all (agrees p info) es \<Longrightarrow> list_all (ok_expr f c c c) es \<Longrightarrow>
     list_all2 (\<lambda>e t. check_expr e None an = Inr (t, an)) es tys \<Longrightarrow>
     lowers_all p an tys lw (lower_args info [] es lw)"
proof (induction es arbitrary: tys)
  case (Cons e es)
  then obtain t ts where tys: "tys = t # ts" "check_expr e None an = Inr (t, an)"
    by (auto simp: list_all2_Cons1)
  have "lowers p an t lw (lower_expr info e lw)"
    using Cons.prems assms tys by (intro agreesD) auto
  with Cons tys show ?case
    by (auto simp: with_expected_def list_all2_Cons1 intro!: lowers_all_Cons)
qed (simp add: lowers_all_Nil)

text \<open>Arguments with their declared types.\<close>

definition fits_type :: "analyzer \<Rightarrow> expr \<times> bc_type \<Rightarrow> bool" where
  "fits_type an arg \<longleftrightarrow> (\<exists>t. check_expr (fst arg) (Some (snd arg)) an = Inr (t, an))"

lemma fits_typeI: "check_expr a (Some ty) an = Inr (t, an') \<Longrightarrow> an' = an \<and> fits_type an (a, ty)"
  using check_expr_same by (auto simp: fits_type_def)

lemma lower_arguments:
  assumes "related info an lw" "f \<longrightarrow> an_current_fn_return_type an \<noteq> None"
  shows "list_all (agrees p info) es \<Longrightarrow> list_all (ok_expr f False True True) es \<Longrightarrow>
     list_all (declared an) tys \<Longrightarrow> length es = length tys \<Longrightarrow> list_all (fits_type an) (zip es tys) \<Longrightarrow>
     \<exists>ts. list_all2 (\<lambda>(e, ty) t. check_expr e (Some ty) an = Inr (t, an)) (zip es tys) ts \<and>
       lowers_all p an ts lw (lower_args info tys es lw)"
proof (induction es arbitrary: tys)
  case (Cons e es)
  then obtain ty tys' where ty: "tys = ty # tys'" by (cases tys) auto
  with Cons.prems obtain t where t: "check_expr e (Some ty) an = Inr (t, an)"
    by (auto simp: fits_type_def)
  from Cons ty obtain ts where
    ts: "list_all2 (\<lambda>(e, ty) t. check_expr e (Some ty) an = Inr (t, an)) (zip es tys') ts"
    "lowers_all p an ts lw (lower_args info tys' es lw)" by auto
  have "lowers p an t lw (with_expected (lower_expr info) (Some ty) e lw)"
    using Cons.prems assms ty t by (intro with_expected_lowers [where c = False]) auto
  with ts show ?case
    using ty t by (auto intro!: lowers_all_Cons exI [of _ "t # ts"])
qed (auto intro: lowers_all_Nil)

lemma ok_args_anew: "ok_args f (\<lambda>_. sets_anew) es \<longleftrightarrow> list_all (ok_expr f False True True) es"
  by (induction es) (auto simp: sets_anew_def)

lemma ok_args_const: "ok_args f (\<lambda>_. (c, a, r)) es \<longleftrightarrow> list_all (ok_expr f c a r) es"
  by (induction es) auto

text \<open>What the loop of the checker over the arguments gives.\<close>

lemma check_args_fit:
  "check_args check_expr mk i es tys an = Inr an' \<Longrightarrow> an' = an \<and> list_all (fits_type an) (zip es tys)"
proof (induction es arbitrary: i tys)
  case (Cons e es)
  then show ?case
    by (cases tys) (auto simp: and_then_eq_Inr split: if_splits dest!: fits_typeI)
qed simp

end
