(* ===== verification/LowerCalls.thy ===== *)
theory LowerCalls
  imports LowerAgree
begin

text \<open>Calls: the arguments and the results that lowering and the checker agree on.\<close>

section \<open>Collection intrinsics\<close>

lemma collection_argI:
  "check_collection_arg check_expr a ty name p an = Inr an' \<Longrightarrow> an' = an \<and> fits_type an (a, ty)"
  by (auto simp: fits_type_def check_collection_arg_def and_then_eq_Inr split: if_splits dest: check_expr_same)

lemma length_1: "length xs = Suc 0 \<longleftrightarrow> (\<exists>a. xs = [a])"
  and length_2: "length xs = 2 \<longleftrightarrow> (\<exists>a b. xs = [a, b])"
  and length_3: "length xs = 3 \<longleftrightarrow> (\<exists>a b c. xs = [a, b, c])"
  by (auto simp: numeral_eq_Suc length_Suc_conv)

lemmas call_unfolds =
  and_then_eq_Inr with_arg_Inr Let_def arity_def is_generic_def length_1 length_2 length_3

text \<open>
  The remaining arguments of a generic operation, and all those of a typed one, against the
  types that lowering expects; the result depends on the first argument only.
\<close>

lemma collection_result_rest:
  assumes "collection_result check_expr i n (a # as) t0 el an = Inr (ty, an')"
    and "length (a # as) = arity i" "is_generic (co_op i)" "array_element_type t0 = Some el"
  shows "\<exists>tys. generic_expected (co_op i) el = Some tys \<and>
     length as = length tys \<and> list_all (fits_type an) (zip as tys) \<and>
     (\<forall>ts. intrinsic_result i (t0 # ts) = Inr ty)"
  using assms
  by (cases "co_op i")
    (auto simp: collection_result_def call_unfolds generic_expected_def intrinsic_result_def
      split: option.splits if_splits dest!: collection_argI fits_typeI)

lemma collection_result_typed:
  assumes "collection_result check_expr i n (a # as) t0 (core_bc_type src) an = Inr (ty, an')"
    and "length (a # as) = arity i" "wf_intrinsic i" "co_source i = Some src"
    and "array_element_type t0 = Some (core_bc_type src)"
  shows "\<exists>tys. intrinsic_params i (core_bc_type src) = Inr (Some (BcArray (core_bc_type src) # tys)) \<and>
     length as = length tys \<and> list_all (fits_type an) (zip as tys) \<and>
     (\<forall>ts. intrinsic_result i (t0 # ts) = Inr ty)"
  using assms
  by (cases "co_op i")
    (auto simp: collection_result_def call_unfolds wf_intrinsic_def intrinsic_params_def
      callback_unwrap_def intrinsic_result_def
      split: option.splits if_splits dest!: collection_argI fits_typeI)

lemma generic_call:
  assumes "check_collection_call check_expr i n args sp an = Inr (ty, an')" "is_generic (co_op i)"
    "wf_intrinsic i"
  obtains a as t0 tys where "args = a # as" "length args = arity i" "check_expr a None an = Inr (t0, an)"
    "generic_expected (co_op i) (case array_element_type t0 of Some t \<Rightarrow> t | None \<Rightarrow> BcUnit) = Some tys"
    "length as = length tys" "list_all (fits_type an) (zip as tys)"
    "\<And>ts. intrinsic_result i (t0 # ts) = Inr ty"
proof -
  have src: "co_source i = None" using assms by (simp add: wf_intrinsic_def)
  from assms(1) obtain a as where args: "args = a # as" "length (a # as) = arity i"
    by (cases args) (auto simp: check_collection_call_def arity_def split: if_splits collection_op.splits)
  show thesis
  proof (cases "co_op i = CoRepeat")
    case True
    with assms(1) args show thesis
      by (auto simp: check_collection_call_def call_unfolds generic_expected_def intrinsic_result_def
          split: if_splits dest!: collection_argI dest: check_expr_same intro!: that)
  next
    case False
    with assms(1) args src obtain t0 el where t0: "check_expr a None an = Inr (t0, an)"
      "array_element_type t0 = Some el"
      "collection_result check_expr i n (a # as) t0 el an = Inr (ty, an')"
      by (fastforce simp: check_collection_call_def and_then_eq_Inr with_arg_Inr Let_def
          split: if_splits option.splits dest: check_expr_same)
    with collection_result_rest [OF t0(3) args(2) assms(2) t0(2)] args show thesis
      by (auto intro: that)
  qed
qed

lemma typed_call:
  assumes "check_collection_call check_expr i n args sp an = Inr (ty, an')" "wf_intrinsic i"
    "co_source i = Some src"
  obtains a as t0 tys where "args = a # as" "length args = arity i" "check_expr a (Some (BcArray (core_bc_type src))) an = Inr (t0, an)"
    "intrinsic_params i (core_bc_type src) = Inr (Some (BcArray (core_bc_type src) # tys))"
    "length as = length tys" "list_all (fits_type an) (zip as tys)"
    "\<And>ts. intrinsic_result i (t0 # ts) = Inr ty"
proof -
  from assms(1) obtain a as where args: "args = a # as" "length (a # as) = arity i"
    by (cases args) (auto simp: check_collection_call_def arity_def split: if_splits collection_op.splits)
  have "co_op i \<noteq> CoRepeat" using assms by (auto simp: wf_intrinsic_def is_generic_def)
  with assms(1,3) args obtain t0 where t0: "check_expr a (Some (BcArray (core_bc_type src))) an = Inr (t0, an)"
    "array_element_type t0 = Some (core_bc_type src)"
    "collection_result check_expr i n (a # as) t0 (core_bc_type src) an = Inr (ty, an')"
    by (fastforce simp: check_collection_call_def and_then_eq_Inr with_arg_Inr Let_def
        split: if_splits option.splits dest: check_expr_same)
  with collection_result_typed [OF t0(3) args(2) assms(2,3) t0(2)] args show thesis
    by (auto intro: that)
qed

text \<open>Callback and element types are declared.\<close>

lemma intrinsic_params_declared:
  "intrinsic_params i (core_bc_type src) = Inr (Some tys) \<Longrightarrow> list_all (declared an) tys"
  using callback_declared [of i _ an]
  by (auto simp: intrinsic_params_def callback_unwrap_def Let_def and_then_eq_Inr
      split: if_splits option.splits)

lemma generic_expected_declared:
  "generic_expected o' el = Some tys \<Longrightarrow> declared an el \<Longrightarrow> list_all (declared an) tys"
  by (cases o') (auto simp: generic_expected_def)

lemma lower_args_length: "lower_args info tys es lw = Inr (vs, lw') \<Longrightarrow> length vs = length es"
  by (induction es arbitrary: tys vs lw) (auto simp: and_then_eq_Inr split: list.splits)

lemma lowered_args:
  assumes "lowers_all p an ts lw (lower_args info tys es lw)"
  obtains vs where "lower_args info tys es lw = Inr (vs, lw)" "length vs = length es" "map ir_ty vs = ts"
    "\<And>ctx v. v \<in> set vs \<Longrightarrow> rely_expr p ctx (an_loop_depth an) v"
  using lowers_all_cases [OF assms] lower_args_length by metis

lemma lower_collection_call:
  assumes p: "suits p info" "related info an lw" "fits f c a r ex an lw" "list_all (agrees p info) args"
    and i: "resolve_with_alias name = Some i" "ok_args f (argument_flags c name) args"
    and call: "check_expr (ECall (EIdent name nsp) args sp) ex an = Inr (ty, an)" "wf_expected an ex"
  shows "lowers p an ty lw (lower_expr info (ECall (EIdent name nsp) args sp) lw)"
proof -
  have wf: "wf_intrinsic i" using i(1) by (rule resolve_with_alias_wf)
  have fn: "f \<longrightarrow> an_current_fn_return_type an \<noteq> None" using p(3) by (simp add: fits_def)
  from call(1) i have coll: "check_collection_call check_expr i name args sp an = Inr (ty, an)"
    by (simp add: check_call_def)
  have "verify_type p ctx ty = []" for ctx
    using verify_checked [OF p(1,2) call(2,1)] .
  note finish = this
  show ?thesis
  proof (cases "is_generic (co_op i)")
    case True
    with wf have "co_source i = None" by (simp add: wf_intrinsic_def)
    from coll True wf obtain b bs t0 tys where b: "args = b # bs" "check_expr b None an = Inr (t0, an)"
      and arity: "length args = arity i"
      and tys: "generic_expected (co_op i) (case array_element_type t0 of Some t \<Rightarrow> t | None \<Rightarrow> BcUnit) = Some tys"
        "length bs = length tys" "list_all (fits_type an) (zip bs tys)"
        "\<And>ts. intrinsic_result i (t0 # ts) = Inr ty"
      by (rule generic_call) blast
    have ok: "ok_expr f c c c b" "list_all (ok_expr f False True True) bs"
      using i True b by (simp_all add: argument_flags_def flip: ok_args_anew)
    obtain v where v: "lower_expr info b lw = Inr (v, lw)" "ir_ty v = t0"
      "\<And>ctx. rely_expr p ctx (an_loop_depth an) v"
      using agreesD [OF _ p(2) _ fits_operand [OF p(2,3)] ok(1) b(2)] p(4) b(1)
      by (auto elim: lowers_cases)
    have "declared an t0" using checked_declared [OF b(2)] p(2) by (simp add: related_wf)
    then have "declared an (case array_element_type t0 of Some t \<Rightarrow> t | None \<Rightarrow> BcUnit)"
      by (auto dest: declared_element split: option.split)
    with tys(1) have "list_all (declared an) tys" by (rule generic_expected_declared)
    then obtain ts where "lowers_all p an ts lw (lower_args info tys bs lw)"
      using lower_arguments [OF p(2) fn _ ok(2) _ tys(2,3)] p(4) b(1) by auto
    then obtain vs where vs: "lower_args info tys bs lw = Inr (vs, lw)" "length vs = length bs" "map ir_ty vs = ts"
      "\<And>ctx v. v \<in> set vs \<Longrightarrow> rely_expr p ctx (an_loop_depth an) v"
      by (rule lowered_args) blast
    then show ?thesis
      using i(1) b(1) v tys finish \<open>co_source i = None\<close> wf arity
      by (auto simp: lowers_def call_result_type_def resolve_callee_def rely_callee_def verify_callee_def)
  next
    case False
    with wf obtain src where src: "co_source i = Some src" by (auto simp: wf_intrinsic_def split: if_splits)
    from coll wf src obtain b bs t0 tys where b: "args = b # bs"
      "check_expr b (Some (BcArray (core_bc_type src))) an = Inr (t0, an)"
      and arity: "length args = arity i"
      and tys: "intrinsic_params i (core_bc_type src) = Inr (Some (BcArray (core_bc_type src) # tys))"
        "length bs = length tys" "list_all (fits_type an) (zip bs tys)"
        "\<And>ts. intrinsic_result i (t0 # ts) = Inr ty"
      by (rule typed_call) blast
    have "argument_flags c name = (\<lambda>_. sets_anew)"
      using i(1) False by (simp add: argument_flags_def fun_eq_iff)
    with i(2) have "list_all (ok_expr f False True True) args" by (simp add: ok_args_anew)
    moreover have "list_all (fits_type an) (zip args (BcArray (core_bc_type src) # tys))"
      using b tys by (auto simp: fits_type_def)
    ultimately obtain ts where ts: "list_all2 (\<lambda>(e, ty) t. check_expr e (Some ty) an = Inr (t, an)) (zip args (BcArray (core_bc_type src) # tys)) ts"
      "lowers_all p an ts lw (lower_args info (BcArray (core_bc_type src) # tys) args lw)"
      using lower_arguments [OF p(2) fn p(4) _ intrinsic_params_declared [OF tys(1)]] b tys(2) by auto
    from ts(1) b obtain ts' where ts': "ts = t0 # ts'" by (auto simp: list_all2_Cons1)
    from ts(2) obtain vs where vs: "lower_args info (BcArray (core_bc_type src) # tys) args lw = Inr (vs, lw)"
      "length vs = length args" "map ir_ty vs = ts" "\<And>ctx v. v \<in> set vs \<Longrightarrow> rely_expr p ctx (an_loop_depth an) v"
      by (rule lowered_args) blast
    with ts' show ?thesis
      using i(1) b(1) tys finish src wf arity
      by (auto simp: lowers_def call_result_type_def resolve_callee_def rely_callee_def verify_callee_def param_types_for_def)
  qed
qed


section \<open>Built-in operations on arrays\<close>

definition accepted :: "analyzer \<Rightarrow> expr \<Rightarrow> bool" where
  "accepted an e \<longleftrightarrow> (\<exists>ex t. wf_expected an ex \<and> check_expr e ex an = Inr (t, an))"

lemma acceptedI: "check_expr e ex an = Inr (t, an') \<Longrightarrow> wf_expected an ex \<Longrightarrow> accepted an e"
  using check_expr_same by (auto simp: accepted_def)

text \<open>Arguments whose lowering does not depend on the context.\<close>

lemma lower_anywhere:
  assumes "related info an lw" "f \<longrightarrow> an_current_fn_return_type an \<noteq> None"
  shows "list_all (agrees p info) es \<Longrightarrow> list_all (ok_expr f False False False) es \<Longrightarrow>
     list_all (accepted an) es \<Longrightarrow> \<exists>ts. lowers_all p an ts lw (lower_args info tys es lw)"
proof (induction es arbitrary: tys)
  case (Cons e es)
  then obtain ex t where t: "wf_expected an ex" "check_expr e ex an = Inr (t, an)"
    by (auto simp: accepted_def)
  have any: "fits f False False False ex an s" for s
    using assms(2) by (simp add: fits_def)
  have here: "lowers p an t s (lower_expr info e s)" if "related info an s" for s
    using Cons.prems agreesD [OF _ that t(1) any _ t(2)] by auto
  have "lowers p an t lw (with_expected (lower_expr info) u e lw)" for u
  proof (cases u)
    case (Some ty)
    then show ?thesis
      using here [of "push_expected_type ty lw"] assms(1) by (auto simp: with_expected_def lowers_def)
  qed (use here assms(1) in \<open>simp add: with_expected_def\<close>)
  moreover from Cons obtain ts where "lowers_all p an ts lw (lower_args info (tl tys) es lw)" by auto
  ultimately have "lowers_all p an (t # ts) lw (lower_args info tys (e # es) lw)"
    by (auto intro!: lowers_all_Cons split: list.splits)
  then show ?case ..
qed (auto intro: lowers_all_Nil)

lemma len_accepted:
  "check_len check_expr args sp an = Inr (ty, an') \<Longrightarrow> list_all (accepted an) args \<and> length args = 1 \<and> ty = BcI32"
  by (auto simp: check_len_def call_unfolds split: if_splits option.splits dest: acceptedI)

lemma push_accepted:
  assumes "check_push check_expr args sp an = Inr (ty, an')" "wf_analyzer an"
  shows "list_all (accepted an) args \<and> length args = 2 \<and> ty = BcUnit"
proof -
  from assms(1) obtain a b where args: "args = [a, b]"
    by (auto simp: check_push_def length_2 split: if_splits)
  with assms(1) obtain arr_ty where arr: "check_expr a None an = Inr (arr_ty, an)"
    by (cases "check_expr a None an")
      (auto simp: check_push_def with_arg_def and_then_eq_Inr split: if_splits dest: check_expr_same)
  then obtain t t' where ab: "args = [a, b]" "check_expr a None an = Inr (BcArray t, an)"
    "check_expr b (Some t) an = Inr (t', an)" "ty = BcUnit"
    using assms(1) args check_expr_same [of b]
    by (cases arr_ty) (auto simp: check_push_def with_arg_def and_then_eq_Inr split: if_splits)
  moreover have "declared an t" using checked_declared [OF ab(2) assms(2)] by simp
  ultimately show ?thesis by (auto intro: acceptedI)
qed

lemma lower_builtin_call:
  assumes p: "suits p info" "related info an lw" "fits f c a r ex an lw" "list_all (agrees p info) args"
    and name: "name = ''len'' \<or> name = ''push''" "resolve_with_alias name = None"
    and ok: "ok_args f (argument_flags c name) args"
    and call: "check_expr (ECall (EIdent name nsp) args sp) ex an = Inr (ty, an)"
  shows "lowers p an ty lw (lower_expr info (ECall (EIdent name nsp) args sp) lw)"
proof -
  have fn: "f \<longrightarrow> an_current_fn_return_type an \<noteq> None" using p(3) by (simp add: fits_def)
  have "argument_flags c name = (\<lambda>_. (False, False, False))"
    using name by (auto simp: argument_flags_def fun_eq_iff)
  with ok have ok: "list_all (ok_expr f False False False) args" by (simp add: ok_args_const)
  from call name have "list_all (accepted an) args \<and> length args = (if name = ''len'' then 1 else 2) \<and>
      ty = (if name = ''len'' then BcI32 else BcUnit)"
    using len_accepted push_accepted related_wf [OF p(2)]
    by (auto simp: check_call_def)
  then have args: "list_all (accepted an) args" and ty: "ty = (if name = ''len'' then BcI32 else BcUnit)"
    and count: "length args = (if name = ''len'' then 1 else 2)"
    by auto
  obtain ts where "lowers_all p an ts lw (lower_args info
      (case declared_params info lw name of Some tys \<Rightarrow> tys | None \<Rightarrow> []) args lw)"
    using lower_anywhere [OF p(2) fn p(4) ok args] by blast
  then obtain vs where "lower_args info
      (case declared_params info lw name of Some tys \<Rightarrow> tys | None \<Rightarrow> []) args lw = Inr (vs, lw)"
    "length vs = length args" "map ir_ty vs = ts" "\<And>ctx v. v \<in> set vs \<Longrightarrow> rely_expr p ctx (an_loop_depth an) v"
    by (rule lowered_args) blast
  moreover have "rely_callee p ctx (resolve_callee info lw name) (length args)" for ctx
  proof -
    have "resolve_callee info lw name \<in> {CalleeNamed name, CalleeVar name}"
      using name(2) by (simp add: resolve_callee_def split: option.split bc_type.split)
    moreover have "ip_functions p name = None"
      using name(1) p(1) by (auto simp: suits_def names_apart_def)
    ultimately show ?thesis
      using name(1) count by (elim insertE emptyE disjE) (simp_all add: rely_callee_def verify_callee_def)
  qed
  ultimately show ?thesis
    using name ty by (auto simp: lowers_def call_result_type_def param_types_for_def)
qed

section \<open>Calls of functions and function pointers\<close>

lemma lower_pointer_call:
  assumes p: "suits p info" "related info an lw" "fits f c a r ex an lw" "list_all (agrees p info) args"
    and name: "name \<notin> {''len'', ''push'', ''pop''}" "resolve_with_alias name = None"
    and ok: "ok_args f (argument_flags c name) args"
    and call: "check_expr (ECall (EIdent name nsp) args sp) ex an = Inr (ty, an)" "wf_expected an ex"
    and var: "lookup_var an name = Some b"
  shows "lowers p an ty lw (lower_expr info (ECall (EIdent name nsp) args sp) lw)"
proof -
  have fn: "f \<longrightarrow> an_current_fn_return_type an \<noteq> None" using p(3) by (simp add: fits_def)
  have "argument_flags c name = (\<lambda>_. sets_anew)"
    using name by (auto simp: argument_flags_def fun_eq_iff)
  with ok have ok: "list_all (ok_expr f False True True) args" by (simp add: ok_args_anew)
  from call(1) name var obtain tys pure where b: "bi_ty b = BcFnPtr tys ty pure" "length args = length tys"
    "list_all (fits_type an) (zip args tys)"
    by (cases "bi_ty b") (auto simp: check_call_def check_pointer_call_def and_then_eq_Inr
        split: if_splits dest: check_args_fit)
  have "declared an (bi_ty b)" using declared_lookup [OF related_wf [OF p(2)] var] .
  with b have "list_all (declared an) tys" by (auto simp: list_all_iff)
  then obtain ts where "lowers_all p an ts lw (lower_args info tys args lw)"
    using lower_arguments [OF p(2) fn p(4) ok _ b(2,3)] by auto
  moreover have "verify_type p ctx ty = []" for ctx
    using verify_checked [OF p(1,2) call(2,1)] .
  ultimately show ?thesis
    using name b related_lookup [OF p(2), of name] var
    by (auto simp: lowers_def call_result_type_def param_types_for_def declared_params_def
        resolve_callee_def rely_callee_def verify_callee_def elim!: lowers_all_cases)
qed

lemma lower_function_call:
  assumes p: "suits p info" "related info an lw" "fits f c a r ex an lw" "list_all (agrees p info) args"
    and name: "name \<notin> {''len'', ''push'', ''pop''}" "resolve_with_alias name = None"
    and ok: "ok_args f (argument_flags c name) args"
    and call: "check_expr (ECall (EIdent name nsp) args sp) ex an = Inr (ty, an)" "wf_expected an ex"
    and var: "lookup_var an name = None"
  shows "lowers p an ty lw (lower_expr info (ECall (EIdent name nsp) args sp) lw)"
proof -
  have fn: "f \<longrightarrow> an_current_fn_return_type an \<noteq> None" using p(3) by (simp add: fits_def)
  have "argument_flags c name = (\<lambda>_. sets_anew)"
    using name by (auto simp: argument_flags_def fun_eq_iff)
  with ok have ok: "list_all (ok_expr f False True True) args" by (simp add: ok_args_anew)
  from call(1) name var obtain fi where fi: "an_functions an name = Some fi" "ty = fi_return_type fi"
    "length args = length (fi_params fi)" "list_all (fits_type an) (zip args (map snd (fi_params fi)))"
    by (auto simp: check_call_def check_function_call_def and_then_eq_Inr
        split: if_splits option.splits dest: check_args_fit)
  have "wf_function an fi" using wf_function_lookup [OF related_wf [OF p(2)] fi(1)] .
  then have "list_all (declared an) (map snd (fi_params fi))"
    by (auto simp: wf_function_def list_all_iff)
  then obtain ts where ts: "lowers_all p an ts lw (lower_args info (map snd (fi_params fi)) args lw)"
    "length ts = length (fi_params fi)"
    using lower_arguments [OF p(2) fn p(4) ok _ _ fi(4)] fi(3) by (auto dest!: list_all2_lengthD)
  have "verify_type p ctx ty = []" for ctx
    using verify_checked [OF p(1,2) call(2,1)] .
  moreover have "lookup_type info lw name \<noteq> Some (BcFnPtr ps ret pure)" for ps ret pure
    using related_lookup [OF p(2), of name] var fi(1) p(1) related_tables [OF p(2)]
    by (auto simp: suits_def names_apart_def)
  then have "resolve_callee info lw name = CalleeNamed name" "declared_params info lw name = Some (map snd (fi_params fi))"
    "call_result_type info lw name ats = Inr ty" for ats
    using name fi related_tables [OF p(2)]
    by (auto simp: resolve_callee_def declared_params_def call_result_type_def split: option.split bc_type.split)
  ultimately show ?thesis
    using name ts fi related_tables [OF p(2)] p(1)
    by (auto simp: lowers_def param_types_for_def rely_callee_def verify_callee_def suits_def elim!: lowers_all_cases)
qed

end
