(* ===== verification/LowerParts.thy ===== *)
theory LowerParts
  imports LowerCalls
begin

text \<open>Bindings, blocks, branches, aggregates and places, in step with the checker.\<close>

section \<open>Bindings\<close>

lemma related_bind:
  assumes "related info an lw" "lw_scopes lw \<noteq> []" "declared an ty"
    and bind: "add_binding name ty m sp an = Inr an'"
  obtains lw' where "lw_insert name ty lw = Inr lw'" "extends_top lw lw'" "related info an' lw'"
proof -
  obtain s ss where ss: "lw_scopes lw = s # ss" using assms(2) by (cases "lw_scopes lw") auto
  define lw' where "lw' = lw\<lparr>lw_scopes := s(name \<mapsto> ty) # ss\<rparr>"
  have "an_scopes an \<noteq> []" using bind by (auto simp: add_binding_Inr)
  with add_binding_extends [OF related_wf [OF assms(1)] this assms(3), of name m sp] bind
  have "grows an an'" "wf_analyzer an'" by (auto simp: extends_def)
  moreover have "find_in_scopes (lw_scopes lw') = map_option bi_ty \<circ> lookup_var an'"
    using assms(1) ss unfolding lookup_bind [OF bind] by (auto simp: lw'_def related_def fun_eq_iff)
  ultimately have "related info an' lw'"
    using assms(1) grows_fields [of an an'] by (simp add: related_def info_of_def lw'_def)
  moreover have "lw_insert name ty lw = Inr lw'" "extends_top lw lw'"
    using ss by (auto simp: lw_insert_def lw'_def extends_top_def intro: exI [of _ "s(name \<mapsto> ty)"])
  ultimately show thesis by (rule that [rotated 2])
qed

lemma related_payload:
  "related info an lw \<Longrightarrow> lw_scopes lw \<noteq> [] \<Longrightarrow> list_all (declared an) ts \<Longrightarrow>
     bind_payload ps ts an = Inr an' \<Longrightarrow>
     \<exists>lw'. lw_bind_payload ps ts lw = Inr lw' \<and> extends_top lw lw' \<and> related info an' lw'"
proof (induction ps ts an arbitrary: lw rule: bind_payload.induct)
  case (1 name bspan ps t ts an)
  then obtain an1 where an1: "add_binding name t False bspan an = Inr an1" "bind_payload ps ts an1 = Inr an'"
    by (auto simp: and_then_eq_Inr)
  have "declared an t" using 1 by simp
  then obtain lw1 where lw1: "lw_insert name t lw = Inr lw1" "extends_top lw lw1" "related info an1 lw1"
    using related_bind [OF "1.prems"(1,2) _ an1(1)] by blast
  have "grows an an1" using growingD [OF add_binding_grows an1(1)] .
  with 1 have "list_all (declared an1) ts" by (simp add: declared_grows list_all_iff)
  with "1.IH" [OF an1(1) lw1(3) extends_top_scopes [OF lw1(2)] _ an1(2)] lw1 show ?case
    by (auto intro: extends_top_trans)
qed (auto intro: extends_top_refl)

text \<open>The pattern of an arm binds the same variables at the same types.\<close>

lemma related_pattern:
  assumes "related info an lw" "declared an scrut_ty"
    and compat: "check_pattern_compat an pat scrut_ty seen sp = Inr seen'"
    and bind: "bind_pattern_vars pat scrut_ty sp' (push_scope an) = Inr an'"
  shows "\<exists>lw'. lower_arm_bindings info scrut_ty pat (lw_push_scope lw) = Inr lw' \<and>
    extends_top (lw_push_scope lw) lw' \<and> related info an' lw'"
proof -
  note pushed = related_push [OF assms(1)]
  have ne: "lw_scopes (lw_push_scope lw) \<noteq> []" by (simp add: lw_push_scope_def)
  have decl: "declared (push_scope an) t = declared an t" for t
    by (rule declared_cong) (simp_all add: push_scope_def)
  show ?thesis
  proof (cases pat)
    case (PIdent n s)
    with bind have "add_binding n scrut_ty False s (push_scope an) = Inr an'"
      by (simp add: bind_pattern_vars_def)
    from related_bind [OF pushed ne _ this] assms(2) decl PIdent show ?thesis
      by (auto simp: lower_arm_bindings_def)
  next
    case (PEnum en v bs s)
    show ?thesis
    proof (cases "en = ''Result''")
      case True
      with PEnum bind obtain ok err where "scrut_ty = BcResult ok err" "v = ''Ok'' \<or> v = ''Err''"
        "bind_payload (take 1 bs) [if v = ''Ok'' then ok else err] (push_scope an) = Inr an'"
        by (auto simp: bind_pattern_vars_def split: bc_type.splits if_splits)
      with related_payload [OF pushed ne _ this(3)] PEnum assms(2) decl show ?thesis
        by (auto simp: lower_arm_bindings_def)
    next
      case False
      with PEnum compat obtain ei payload where ei: "scrut_ty = BcEnum en" "an_enums an en = Some ei"
        "map_of (ei_variants ei) v = Some payload"
        by (auto simp: check_pattern_compat_def split: bc_type.splits option.splits if_splits)
      with PEnum False bind have "bind_payload bs payload (push_scope an) = Inr an'"
        by (auto simp: bind_pattern_vars_def push_scope_def)
      moreover have "list_all (declared (push_scope an)) payload"
        using enum_payload_declared [OF related_wf [OF assms(1)] ei(2,3)] decl by (auto simp: list_all_iff)
      moreover have "Option.bind (sem_enums info (if en = [] then en else en))
          (\<lambda>i. map_of (ei_variants i) v) = Some payload"
        using ei related_tables [OF assms(1)] by simp
      ultimately show ?thesis
        using related_payload [OF pushed ne] PEnum ei(1) by (auto simp: lower_arm_bindings_def)
    qed
  qed (use bind pushed ne in \<open>auto simp: lower_arm_bindings_def bind_pattern_vars_def intro: extends_top_refl\<close>)
qed

section \<open>Blocks\<close>

definition lowers_block :: "ir_program \<Rightarrow> analyzer \<Rightarrow> bc_type \<Rightarrow> lowering \<Rightarrow> ir_block lowered \<Rightarrow> bool" where
  "lowers_block p an ty lw m \<longleftrightarrow>
     (\<exists>b lw'. m = Inr (b, lw') \<and> extends_top lw lw' \<and> ir_block_ty b = ty \<and>
        (\<forall>ctx. rely_block p ctx (an_loop_depth an) b))"

definition agrees_block :: "ir_program \<Rightarrow> semantic_info \<Rightarrow> block \<Rightarrow> bool" where
  "agrees_block p info block \<longleftrightarrow>
     list_all (agrees_stmt p info) (b_stmts block) \<and> pred_option (agrees p info) (b_tail_expr block)"

lemma agrees_stmtD:
  assumes "agrees_stmt p info s" "related info an lw" "lw_scopes lw \<noteq> []" "fits f c c c None an lw"
    "ok_stmt f c s" "check_stmt s an = Inr an'"
  obtains v lw' where "lower_stmt info s lw = Inr (v, lw')" "extends_top lw lw'" "related info an' lw'"
    "\<And>ctx. rely_stmt p ctx (an_loop_depth an) v"
  using assms unfolding agrees_stmt_def by blast

lemma lower_statements:
  "list_all (agrees_stmt p info) ss \<Longrightarrow> related info an lw \<Longrightarrow> lw_scopes lw \<noteq> [] \<Longrightarrow>
     fits f c c c None an lw \<Longrightarrow> list_all (ok_stmt f c) ss \<Longrightarrow> each check_stmt ss an = Inr an' \<Longrightarrow>
     \<exists>vs lw'. lower_stmts info ss lw = Inr (vs, lw') \<and> extends_top lw lw' \<and> related info an' lw' \<and>
       (\<forall>ctx. \<forall>v \<in> set vs. rely_stmt p ctx (an_loop_depth an) v)"
proof (induction ss arbitrary: an lw)
  case Nil
  then show ?case by (auto intro: extends_top_refl)
next
  case (Cons s ss)
  then obtain an1 where an1: "check_stmt s an = Inr an1" "each check_stmt ss an1 = Inr an'"
    by (auto simp: and_then_eq_Inr)
  have here: "agrees_stmt p info s" "ok_stmt f c s" using Cons.prems by simp_all
  obtain v lw1 where lw1: "lower_stmt info s lw = Inr (v, lw1)" "extends_top lw lw1" "related info an1 lw1"
    "\<And>ctx. rely_stmt p ctx (an_loop_depth an) v"
    using agrees_stmtD [OF here(1) Cons.prems(2-4) here(2) an1(1)] by blast
  note fields = grows_fields [OF check_stmt_grows [OF an1(1)]]
  have "fits f c c c None an1 lw1"
    using Cons.prems(4) extends_top_fits [OF lw1(2)] fields fits_cong [of an1 an lw1 lw1] by simp
  from Cons.IH [OF _ lw1(3) extends_top_scopes [OF lw1(2)] this _ an1(2)] Cons.prems
  obtain vs lw' where "lower_stmts info ss lw1 = Inr (vs, lw')" "extends_top lw1 lw'" "related info an' lw'"
    "\<forall>ctx. \<forall>v \<in> set vs. rely_stmt p ctx (an_loop_depth an1) v" by auto
  with lw1 fields show ?case by (auto intro: extends_top_trans)
qed

text \<open>The statements and the value of a block, in the scope that its caller has pushed.\<close>

lemma lower_items:
  assumes "agrees_block p info block" "related info an lw" "lw_scopes lw \<noteq> []" "fits f c a r ex an lw"
    "ok_block f c a r block" "wf_expected an ex" "each check_stmt (b_stmts block) an = Inr an1"
    and tail: "(case b_tail_expr block of Some e \<Rightarrow> check_expr e ex an1 | None \<Rightarrow> Inr (BcUnit, an1)) = Inr (ty, an2)"
  shows "lowers_block p an ty lw (lower_block info block lw)"
proof -
  obtain ss t sp where block: "block = Block ss t sp" by (cases block)
  have c: "fits f c c c None an lw" using fits_operand [OF assms(2,4)] .
  have "list_all (agrees_stmt p info) (b_stmts block)" "list_all (ok_stmt f c) (b_stmts block)"
    using assms(1,5) block by (simp_all add: agrees_block_def)
  from lower_statements [OF this(1) assms(2,3) c this(2) assms(7)] block
  obtain vs lw1 where vs: "lower_stmts info ss lw = Inr (vs, lw1)" "extends_top lw lw1" "related info an1 lw1"
    "\<forall>ctx. \<forall>v \<in> set vs. rely_stmt p ctx (an_loop_depth an) v"
    by auto
  note grows = check_stmts_grow [OF assms(7)]
  note fields = grows_fields [OF grows]
  have fits: "fits f c a r ex an1 lw1"
    using assms(4) extends_top_fits [OF vs(2)] fields fits_cong [of an1 an lw1 lw1] by simp
  have wf: "wf_expected an1 ex"
    using assms(6) declared_grows [OF grows] by (cases ex) simp_all
  show ?thesis
  proof (cases t)
    case (Some e)
    have "lowers p an1 ty lw1 (lower_expr info e lw1)"
      using assms(1,5) tail block Some by (intro agreesD [OF _ vs(3) wf fits]) (simp_all add: agrees_block_def)
    with Some block vs fields show ?thesis by (auto simp: lowers_block_def elim!: lowers_cases)
  qed (use tail block vs in \<open>auto simp: lowers_block_def\<close>)
qed

lemma check_block_items:
  "check_block check_stmt check_expr block ex an = Inr (ty, an') \<Longrightarrow>
     \<exists>an1 an2. each check_stmt (b_stmts block) (push_scope an) = Inr an1 \<and>
       (case b_tail_expr block of Some e \<Rightarrow> check_expr e ex an1 | None \<Rightarrow> Inr (BcUnit, an1)) = Inr (ty, an2)"
  by (auto simp: check_block_def and_then_eq_Inr)

lemma wf_expected_in_scope [simp]: "wf_expected (push_scope an) ex \<longleftrightarrow> wf_expected an ex"
  by (cases ex) simp_all

text \<open>A block with a scope of its own.\<close>

lemma lower_scoped_block:
  assumes "agrees_block p info block" "related info an lw" "fits f c a r ex an lw"
    "ok_block f c a r block" "wf_expected an ex" "check_block check_stmt check_expr block ex an = Inr (ty, an')"
  obtains b lw' where "lower_block info block (lw_push_scope lw) = Inr (b, lw')" "lw_pop_scope lw' = lw"
    "ir_block_ty b = ty" "\<And>ctx. rely_block p ctx (an_loop_depth an) b"
proof -
  from check_block_items [OF assms(6)] obtain an1 an2 where
    items: "each check_stmt (b_stmts block) (push_scope an) = Inr an1"
    "(case b_tail_expr block of Some e \<Rightarrow> check_expr e ex an1 | None \<Rightarrow> Inr (BcUnit, an1)) = Inr (ty, an2)"
    by blast
  have "lowers_block p (push_scope an) ty (lw_push_scope lw) (lower_block info block (lw_push_scope lw))"
    using assms(3,5)
    by (intro lower_items [OF assms(1) related_push [OF assms(2)] _ _ assms(4) _ items])
      (simp_all add: lw_push_scope_def [of lw, THEN arg_cong [of _ _ lw_scopes]])
  then show thesis
    by (auto simp: lowers_block_def push_scope_def [of an, THEN arg_cong [of _ _ an_loop_depth]]
        intro!: that extends_top_pop)
qed

end
