(* ===== verification/LowerNodes.thy ===== *)
theory LowerNodes
  imports LowerParts
begin

text \<open>Aggregates, branches, patterns and places, in step with the checker.\<close>

text \<open>The state after a check is the state before it, as a rewrite rule.\<close>

lemma check_at:
  "NO_MATCH an an' \<Longrightarrow> check_expr e ex an = Inr (t, an') \<longleftrightarrow> an' = an \<and> check_expr e ex an = Inr (t, an)"
  "NO_MATCH an an' \<Longrightarrow> check_block check_stmt check_expr block ex an = Inr (t, an') \<longleftrightarrow>
     an' = an \<and> check_block check_stmt check_expr block ex an = Inr (t, an)"
  using check_expr_same check_block_same by blast+

section \<open>Branches\<close>

text \<open>The expected type makes no difference to the join of two types.\<close>

lemma compatible_join_expected: "compatible_join a b ex = compatible_join a b None"
  by (auto simp: compatible_join_def is_compatible_with_iff split: option.splits)

lemma join_arms_all:
  "length arms = length ts \<Longrightarrow> join_arms ex r (zip arms ts) = Inr ty \<Longrightarrow> join_all (\<lambda>a b. compatible_join a b None) r ts = Some ty"
proof (induction arms ts arbitrary: r rule: list_induct2)
  case (Cons arm arms t ts)
  then show ?case
    by (cases arm rule: match_arm.exhaust)
      (auto simp: join_compatible_types_def compatible_join_expected [of _ _ ex] split: option.splits)
qed simp

lemma lower_if:
  assumes agree: "agrees p info cond" "agrees_block p info block" "pred_option (agrees p info) els"
    and p: "suits p info" "related info an lw" "fits f c a r ex an lw" "wf_expected an ex"
    and ok: "ok_expr f c a r (EIf cond block els sp)"
    and check: "check_expr (EIf cond block els sp) ex an = Inr (ty, an)"
  shows "lowers p an ty lw (lower_expr info (EIf cond block els sp) lw)"
proof -
  from check obtain bt where cond: "check_expr cond None an = Inr (BcBool, an)"
    and block: "check_block check_stmt check_expr block ex an = Inr (bt, an)"
    and els: "case els of
       Some e \<Rightarrow> \<exists>et. check_expr e ex an = Inr (et, an) \<and> compatible_join bt et ex = Some ty
     | None \<Rightarrow> bt = BcUnit \<and> ty = BcUnit"
    by (cases els)
      (auto simp: check_if_def join_compatible_types_def and_then_eq_Inr check_at
        split: if_splits option.splits)
  obtain cv where cv: "lower_expr info cond lw = Inr (cv, lw)"
    "\<And>ctx. rely_expr p ctx (an_loop_depth an) cv"
    using agreesD [OF agree(1) p(2) _ fits_operand [OF p(2,3)] _ cond] ok by (auto elim: lowers_cases)
  obtain b lw1 where b: "lower_block info block (lw_push_scope lw) = Inr (b, lw1)" "lw_pop_scope lw1 = lw"
    "ir_block_ty b = bt" "\<And>ctx. rely_block p ctx (an_loop_depth an) b"
    using lower_scoped_block [OF agree(2) p(2,3) _ p(4) block] ok by auto
  have fine: "verify_type p ctx ty = []" for ctx using verify_checked [OF p(1,2,4) check] .
  show ?thesis
  proof (cases els)
    case None
    with els cv b fine show ?thesis by (simp add: lowers_def lower_if_type_def verify_branches_def)
  next
    case (Some e)
    with els obtain et where et: "check_expr e ex an = Inr (et, an)" "compatible_join bt et None = Some ty"
      by (auto simp: compatible_join_expected [of _ _ ex])
    obtain v where "lower_expr info e lw = Inr (v, lw)" "ir_ty v = et"
      "\<And>ctx. rely_expr p ctx (an_loop_depth an) v"
      using agreesD [OF _ p(2,4,3) _ et(1)] agree(3) ok Some by (auto elim: lowers_cases)
    with et cv b fine Some compatible_join_upper [OF et(2)] show ?thesis
      by (simp add: lowers_def lower_if_type_def verify_branches_def)
  qed
qed

abbreviation arm_body :: "match_arm \<Rightarrow> expr" where
  "arm_body arm \<equiv> (case arm of MatchArm _ body _ \<Rightarrow> body)"

abbreviation ir_arm_body :: "ir_arm \<Rightarrow> ir_expr" where
  "ir_arm_body arm \<equiv> (case arm of IrArm _ body _ \<Rightarrow> body)"

lemma lower_one_arm:
  assumes "agrees p info (arm_body arm)" "related info an lw" "declared an scrut_ty" "fits f c a r ex an lw"
    "wf_expected an ex" "ok_expr f c a r (arm_body arm)"
    and check: "check_arm check_expr scrut_ty sp ex arm (ms, an) = Inr (ms', an')"
  shows "an' = an \<and> (\<exists>t v. ms_types ms' = ms_types ms @ [t] \<and>
     lower_match_arm info scrut_ty arm lw = Inr (v, lw) \<and> ir_ty (ir_arm_body v) = t \<and>
     (\<forall>ctx. rely_expr p ctx (an_loop_depth an) (ir_arm_body v)))"
proof -
  obtain pat body asp where arm: "arm = MatchArm pat body asp" by (cases arm rule: match_arm.exhaust)
  from check arm obtain seen an1 t where
    pat: "check_pattern_compat an pat scrut_ty (ms_seen ms) sp = Inr seen"
    "bind_pattern_vars pat scrut_ty asp (push_scope an) = Inr an1"
    and body: "check_expr body ex an1 = Inr (t, an1)" "ms_types ms' = ms_types ms @ [t]" "an' = pop_scope an1"
    by (auto simp: check_arm_def and_then_eq_Inr check_at)
  have grows: "grows (push_scope an) an1"
    using growingD [OF bind_pattern_vars_grows pat(2)] .
  obtain lw1 where lw1: "lower_arm_bindings info scrut_ty pat (lw_push_scope lw) = Inr lw1"
    "extends_top (lw_push_scope lw) lw1" "related info an1 lw1"
    using related_pattern [OF assms(2,3) pat] by blast
  note fields = grows_fields [OF grows]
  have "fits f c a r ex an1 lw1"
    using fits_cong [of an1 "push_scope an" lw1 lw1 f c a r ex] fields extends_top_fits [OF lw1(2)] assms(4) by simp
  moreover have "wf_expected an1 ex"
    using assms(5) declared_grows [OF grows] by (cases ex) simp_all
  ultimately have "lowers p an1 t lw1 (lower_expr info body lw1)"
    using assms(1,6) arm body(1) by (intro agreesD [OF _ lw1(3)]) simp_all
  then show ?thesis
    using arm lw1 body grows_push [OF grows] extends_top_pop [OF lw1(2)] fields(7)
    by (auto simp: push_scope_def elim!: lowers_cases)
qed

lemma lower_all_arms:
  assumes "related info an lw" "declared an scrut_ty" "fits f c a r ex an lw" "wf_expected an ex"
  shows "list_all (\<lambda>arm. agrees p info (arm_body arm)) arms \<Longrightarrow>
     list_all (\<lambda>arm. ok_expr f c a r (arm_body arm)) arms \<Longrightarrow>
     each (check_arm check_expr scrut_ty sp ex) arms (ms, an) = Inr (ms', an') \<Longrightarrow>
     an' = an \<and> (\<exists>ts vs. ms_types ms' = ms_types ms @ ts \<and> length ts = length arms \<and>
       lower_arms info scrut_ty arms lw = Inr (vs, lw) \<and> map (ir_ty \<circ> ir_arm_body) vs = ts \<and>
       (\<forall>ctx. \<forall>v \<in> set vs. rely_expr p ctx (an_loop_depth an) (ir_arm_body v)))"
proof (induction arms arbitrary: ms)
  case (Cons arm arms)
  then obtain ms1 an1 where step: "check_arm check_expr scrut_ty sp ex arm (ms, an) = Inr (ms1, an1)"
    "each (check_arm check_expr scrut_ty sp ex) arms (ms1, an1) = Inr (ms', an')"
    by (auto simp: and_then_eq_Inr)
  from Cons.prems have "agrees p info (arm_body arm)" "ok_expr f c a r (arm_body arm)" by simp_all
  from lower_one_arm [OF this(1) assms(1-4) this(2) step(1)] obtain t v where "an1 = an"
    and v: "ms_types ms1 = ms_types ms @ [t]" "lower_match_arm info scrut_ty arm lw = Inr (v, lw)"
    "ir_ty (ir_arm_body v) = t" "\<forall>ctx. rely_expr p ctx (an_loop_depth an) (ir_arm_body v)"
    by blast
  with Cons.IH [of ms1] Cons.prems step(2) obtain vs ts where "an' = an"
    "ms_types ms' = ms_types ms1 @ ts" "length ts = length arms"
    "lower_arms info scrut_ty arms lw = Inr (vs, lw)" "map (ir_ty \<circ> ir_arm_body) vs = ts"
    "\<forall>ctx. \<forall>v \<in> set vs. rely_expr p ctx (an_loop_depth an) (ir_arm_body v)"
    by auto
  with v show ?case by auto
qed simp

lemma lower_match:
  assumes agree: "agrees p info scrut" "list_all (\<lambda>arm. agrees p info (arm_body arm)) arms"
    and p: "suits p info" "related info an lw" "fits f c a r ex an lw" "wf_expected an ex"
    and ok: "ok_expr f c a r (EMatch scrut arms sp)"
    and check: "check_expr (EMatch scrut arms sp) ex an = Inr (ty, an)"
  shows "lowers p an ty lw (lower_expr info (EMatch scrut arms sp) lw)"
proof -
  from check obtain st where scrut: "check_expr scrut None an = Inr (st, an)"
    and m: "check_match check_expr st arms sp ex an = Inr (ty, an)"
    by (auto simp: and_then_eq_Inr check_at)
  from m obtain ms an1 where arms: "each (check_arm check_expr st sp ex) arms
      (\<lparr>ms_seen = {}, ms_wildcard = False, ms_types = []\<rparr>, an) = Inr (ms, an1)"
    and join: "(case ms_types ms of [] \<Rightarrow> Inr (BcUnit, an1)
      | t # ts \<Rightarrow> and_then (join_arms ex t (zip (tl arms) ts)) (\<lambda>ty. Inr (ty, an1))) = Inr (ty, an)"
    by (auto simp: check_match_def and_then_eq_Inr)
  have ok_arms: "list_all (\<lambda>arm. ok_expr f c a r (arm_body arm)) arms"
    using ok by (auto simp: list_all_iff split: match_arm.splits)
  have "declared an st" using checked_declared [OF scrut] related_wf [OF p(2)] by simp
  from lower_all_arms [OF p(2) this p(3,4) agree(2) ok_arms arms] obtain ts vs where
    vs: "ms_types ms = ts" "length ts = length arms"
    "lower_arms info st arms lw = Inr (vs, lw)" "map (ir_ty \<circ> ir_arm_body) vs = ts"
    "\<forall>ctx. \<forall>v \<in> set vs. rely_expr p ctx (an_loop_depth an) (ir_arm_body v)" by auto
  obtain sv where sv: "lower_expr info scrut lw = Inr (sv, lw)" "ir_ty sv = st"
    "\<And>ctx. rely_expr p ctx (an_loop_depth an) sv"
    using agreesD [OF agree(1) p(2) _ fits_operand [OF p(2,3)] _ scrut] ok by (auto elim: lowers_cases)
  have "lower_match_type ts = Inr ty \<and> (\<forall>t \<in> set ts. is_compatible_with t ty)"
  proof (cases ts)
    case (Cons t ts')
    with vs(2) have "length (tl arms) = length ts'" by simp
    moreover have "join_arms ex t (zip (tl arms) ts') = Inr ty"
      using join vs(1) Cons by (simp add: and_then_eq_Inr)
    ultimately have "join_all (\<lambda>a b. compatible_join a b None) t ts' = Some ty" by (rule join_arms_all)
    with Cons cj.join_all_upper [OF this] show ?thesis by (auto simp: lower_match_type_def)
  qed (use join vs(1) in \<open>simp add: lower_match_type_def\<close>)
  note join = this
  have tys: "map (\<lambda>arm. case arm of IrArm _ body _ \<Rightarrow> ir_ty body) vs = ts"
    using vs(4) by (auto simp: o_def split: ir_arm.split intro!: map_cong)
  have arm: "is_compatible_with (ir_ty body) ty \<and> rely_expr p ctx (an_loop_depth an) body"
    if "IrArm q body s \<in> set vs" for q body s ctx
    using that join vs(4,5) by force
  have "verify_type p ctx ty = []" for ctx using verify_checked [OF p(1,2,4) check] .
  with join tys show ?thesis
    using sv vs(3) by (auto simp: lowers_def verify_arm_type_def arm split: ir_arm.split)
qed

section \<open>Aggregates\<close>

lemma lower_interpolated:
  assumes "related info an lw" "fits f c c c None an lw"
  shows "list_all (\<lambda>part. case part of IText _ \<Rightarrow> True | IExpr e \<Rightarrow> agrees p info e \<and> ok_expr f c c c e) parts \<Longrightarrow>
     each (check_interp_part check_expr) parts (ip, an) = Inr (ip', an') \<Longrightarrow>
     an' = an \<and> (\<exists>ps. lower_parts info parts lw = Inr (ps, lw) \<and>
       (\<forall>ctx. \<forall>e. IrPart e \<in> set ps \<longrightarrow> has_printed_form (ir_ty e) \<and> rely_expr p ctx (an_loop_depth an) e))"
proof (induction parts arbitrary: ip)
  case (Cons part parts)
  then obtain ip1 an1 where step: "check_interp_part check_expr part (ip, an) = Inr (ip1, an1)"
    "each (check_interp_part check_expr) parts (ip1, an1) = Inr (ip', an')"
    by (auto simp: and_then_eq_Inr)
  show ?case
  proof (cases part rule: interp_part.exhaust)
    case (IText t)
    with step Cons show ?thesis by (fastforce simp: check_interp_part_def)
  next
    case (IExpr e)
    with step obtain t where "check_expr e None an = Inr (t, an)" "an1 = an" "has_printed_form t"
      by (auto simp: check_interp_part_def and_then_eq_Inr check_at has_printed_form_def is_numeric_def split: if_splits)
    moreover from this have "lowers p an t lw (lower_expr info e lw)"
      using Cons.prems(1) IExpr by (intro agreesD [OF _ assms(1) _ assms(2)]) auto
    ultimately show ?thesis
      using Cons step IExpr by (fastforce simp: lowers_def)
  qed
qed simp

lemma check_elements:
  "each (\<lambda>e an. and_then (check_expr e None an) (\<lambda>(ty, an).
       if ty \<noteq> t then reject (expr_span e) (m ty) else Inr an)) es an = Inr an' \<Longrightarrow>
     an' = an \<and> list_all2 (\<lambda>e u. check_expr e None an = Inr (u, an)) es (replicate (length es) t)"
  by (induction es) (auto simp: and_then_eq_Inr check_at split: if_splits)

lemma lower_array_lit:
  assumes agree: "list_all (agrees p info) es"
    and p: "suits p info" "related info an lw" "fits f c a r ex an lw" "wf_expected an ex"
    and ok: "ok_expr f c a r (EArrayLit es sp)"
    and check: "check_expr (EArrayLit es sp) ex an = Inr (ty, an)"
  shows "lowers p an ty lw (lower_expr info (EArrayLit es sp) lw)"
proof -
  have ambient: "lw_expected_array_type lw = array_part ex" using p(3) ok by (simp add: fits_def)
  have fine: "verify_type p ctx ty = []" for ctx using verify_checked [OF p(1,2,4) check] .
  show ?thesis
  proof (cases es)
    case Nil
    with check ambient obtain el where "ty = BcArray el" "Option.bind (lw_expected_array_type lw) array_element_type = Some el"
      by (auto simp: check_array_lit_def array_part_def split: option.splits bc_type.splits)
    with Nil fine show ?thesis by (auto simp: lowers_def empty_array_def verify_array_def)
  next
    case (Cons e es')
    with check obtain t where e: "check_expr e None an = Inr (t, an)"
      and es': "list_all2 (\<lambda>e u. check_expr e None an = Inr (u, an)) es' (replicate (length es') t)"
      and ty: "ty = (case ex of
          Some (BcFixedArray elem sz) \<Rightarrow>
            if elem = t \<and> sz = int (length es) then BcFixedArray t sz else BcArray t
        | _ \<Rightarrow> BcArray t)"
      by (auto simp: check_array_lit_def and_then_eq_Inr check_at dest!: check_elements)
    have "list_all2 (\<lambda>e u. check_expr e None an = Inr (u, an)) es (replicate (length es) t)"
      using Cons e es' by simp
    with lower_elements [OF p(2) fits_operand [OF p(2,3)] agree _ this] ok obtain vs where
      vs: "lower_args info [] es lw = Inr (vs, lw)" "map ir_ty vs = replicate (length es) t"
        "\<And>ctx v. v \<in> set vs \<Longrightarrow> rely_expr p ctx (an_loop_depth an) v"
      by (auto elim: lowers_all_cases)
    have len: "length vs = length es" using arg_cong [OF vs(2), of length] by simp
    with vs(2) Cons obtain v vs' where v: "vs = v # vs'" "ir_ty v = t"
      by (cases vs) auto
    note v = v len
    have "ir_ty (filled_array lw vs sp) = ty"
      using v ty ambient by (auto simp: filled_array_def array_part_def split: option.splits bc_type.splits)
    moreover have "rely_expr p ctx (an_loop_depth an) (filled_array lw vs sp)" for ctx
      using calculation fine [of ctx] vs(3) v
      by (auto simp: filled_array_def verify_array_def Let_def split: option.splits bc_type.splits if_splits)
    ultimately show ?thesis using Cons vs(1) by (simp add: lowers_def)
  qed
qed

lemma lower_fields:
  assumes "related info an lw" "f \<longrightarrow> an_current_fn_return_type an \<noteq> None" "an_structs an name = Some si"
  shows "list_all (\<lambda>fi. case fi of FieldInit _ v _ \<Rightarrow> agrees p info v \<and> ok_expr f False True True v) inits \<Longrightarrow>
     each (check_field_init check_expr name si) inits (provided, an) = Inr (provided', an') \<Longrightarrow>
     \<exists>vs. lower_inits info name inits lw = Inr (vs, lw) \<and>
       (\<forall>ctx. \<forall>g v s. IrInit g v s \<in> set vs \<longrightarrow> rely_expr p ctx (an_loop_depth an) v)"
proof (induction inits arbitrary: provided)
  case (Cons fi inits)
  obtain fname v s where fi: "fi = FieldInit fname v s" by (cases fi rule: field_init.exhaust)
  from Cons.prems obtain st where st: "check_field_init check_expr name si fi (provided, an) = Inr st"
    "each (check_field_init check_expr name si) inits st = Inr (provided', an')"
    by (auto simp: and_then_eq_Inr)
  from st(1) fi obtain ty t where ty: "map_of (si_fields si) fname = Some ty"
    "check_expr v (Some ty) an = Inr (t, an)" "st = (insert fname provided, an)"
    by (auto simp: check_field_init_def and_then_eq_Inr check_at split: if_splits option.splits)
  note rest = st(2) [unfolded ty(3)]
  have "info_field info name fname = Some ty"
    using assms(3) ty related_tables [OF assms(1)] by (simp add: info_field_def)
  moreover have "wf_expected an (Some ty)"
    using declared_field [of an "BcStruct name" fname s] related_wf [OF assms(1)] assms(3) ty
    by (simp add: field_type_def)
  then have "lowers p an t lw (with_expected (lower_expr info) (Some ty) v lw)"
    using Cons.prems(1) fi assms ty(2) by (intro with_expected_lowers [where c = False]) auto
  moreover obtain vs where "lower_inits info name inits lw = Inr (vs, lw)"
    "\<forall>ctx. \<forall>g v s. IrInit g v s \<in> set vs \<longrightarrow> rely_expr p ctx (an_loop_depth an) v"
    using Cons.IH [OF _ rest] Cons.prems(1) by auto
  ultimately show ?case using fi by (auto simp: lowers_def) blast
qed simp

lemma lower_struct_lit:
  assumes agree: "list_all (\<lambda>fi. case fi of FieldInit _ v _ \<Rightarrow> agrees p info v) inits"
    and p: "suits p info" "related info an lw" "fits f c a r ex an lw" "wf_expected an ex"
    and ok: "ok_expr f c a r (EStructLit name inits sp)"
    and check: "check_expr (EStructLit name inits sp) ex an = Inr (ty, an)"
  shows "lowers p an ty lw (lower_expr info (EStructLit name inits sp) lw)"
proof -
  from check obtain si provided where si: "an_structs an name = Some si" "ty = BcStruct name"
    "each (check_field_init check_expr name si) inits ({}, an) = Inr (provided, an)"
    by (auto simp: check_struct_lit_def and_then_eq_Inr Let_def split: option.splits if_splits)
  have "list_all (\<lambda>fi. case fi of FieldInit _ v _ \<Rightarrow> agrees p info v \<and> ok_expr f False True True v) inits"
    using agree ok by (auto simp: list_all_iff split: field_init.splits)
  moreover have "f \<longrightarrow> an_current_fn_return_type an \<noteq> None" using p(3) by (simp add: fits_def)
  ultimately obtain vs where vs: "lower_inits info name inits lw = Inr (vs, lw)"
    "\<forall>ctx. \<forall>g v s. IrInit g v s \<in> set vs \<longrightarrow> rely_expr p ctx (an_loop_depth an) v"
    using lower_fields [OF p(2) _ si(1) _ si(3)] by blast
  have "rely_expr p ctx (an_loop_depth an) (IrStructLit name vs sp)" for ctx
    using vs(2) verify_checked [OF p(1,2,4) check, of ctx] si(2) by (auto split: ir_init.split) blast
  with vs(1) si(2) show ?thesis by (simp add: lowers_def)
qed

lemma lower_enum_constructor:
  assumes agree: "list_all (agrees p info) args"
    and p: "suits p info" "related info an lw" "fits f c a r ex an lw" "wf_expected an ex"
    and ok: "ok_expr f c a r (EEnumConstructor en v args sp)"
    and check: "check_expr (EEnumConstructor en v args sp) ex an = Inr (ty, an)"
  shows "lowers p an ty lw (lower_expr info (EEnumConstructor en v args sp) lw)"
proof -
  have fn: "f \<longrightarrow> an_current_fn_return_type an \<noteq> None" using p(3) by (simp add: fits_def)
  have "length args = length (payload_types info lw en v) \<and>
    list_all (declared an) (payload_types info lw en v) \<and>
    list_all (fits_type an) (zip args (payload_types info lw en v)) \<and> constructor_type lw en = ty \<and>
    (en = ''Result'' \<longrightarrow> args \<noteq> [])"
  proof (cases "en = ''Result''")
    case True
    with check obtain arg ok_ty err_ty where arg: "args = [arg]" "v = ''Ok'' \<or> v = ''Err''"
      "infer_result_type an ex = Some (BcResult ok_ty err_ty)" "ty = BcResult ok_ty err_ty"
      "fits_type an (arg, if v = ''Ok'' then ok_ty else err_ty)"
      by (auto simp: check_enum_constructor_def check_result_constructor_def check_result_payload_def
          fits_type_def and_then_eq_Inr with_arg_Inr length_1 check_at
          split: if_splits option.splits bc_type.splits)
    moreover have "result_context lw = Some (BcResult ok_ty err_ty)"
      using ok True p(3) arg(3) by (auto simp: fits_def)
    moreover have "declared an (BcResult ok_ty err_ty)"
      using declared_infer [OF related_wf [OF p(2)] p(4)] arg(3) by auto
    ultimately show ?thesis
      using True by (auto simp: payload_types_def constructor_type_def)
  next
    case False
    with check obtain ei payload where ei: "an_enums an en = Some ei" "map_of (ei_variants ei) v = Some payload"
      "length args = length payload" "list_all (fits_type an) (zip args payload)" "ty = BcEnum en"
      by (auto simp: check_enum_constructor_def and_then_eq_Inr split: if_splits option.splits
          dest: check_args_fit)
    have "list_all (declared an) payload"
      using enum_payload_declared [OF related_wf [OF p(2)] ei(1,2)] by (auto simp: list_all_iff)
    with False ei related_tables [OF p(2)] show ?thesis
      by (simp add: payload_types_def constructor_type_def)
  qed
  note payload = this
  have "list_all (ok_expr f False True True) args" using ok by (simp add: ok_args_anew)
  then obtain ts where "lowers_all p an ts lw (lower_args info (payload_types info lw en v) args lw)"
    using lower_arguments [OF p(2) fn agree] payload by blast
  then obtain vs where vs: "lower_args info (payload_types info lw en v) args lw = Inr (vs, lw)"
    "length vs = length args" "map ir_ty vs = ts" "\<And>ctx v. v \<in> set vs \<Longrightarrow> rely_expr p ctx (an_loop_depth an) v"
    by (rule lowered_args) blast
  moreover have "verify_type p ctx ty = []" for ctx using verify_checked [OF p(1,2,4) check] .
  moreover have "en = ''Result'' \<longrightarrow> vs \<noteq> []" using payload vs(2) by auto
  ultimately show ?thesis
    using payload by (auto simp: lowers_def)
qed

section \<open>Places\<close>

lemma lower_accessors_agree:
  assumes "related info an lw" "fits f c c c None an lw"
  shows "list_all (\<lambda>acc. case acc of AccField _ \<Rightarrow> True | AccIndex e \<Rightarrow> agrees p info e \<and> ok_expr f c c c e) accs \<Longrightarrow>
     each (check_accessor check_expr plain sp) accs (ty0, an) = Inr (ty, an') \<Longrightarrow>
     accessors_type info ty0 accs = ty \<and>
     (\<exists>as. lower_accessors info accs lw = Inr (as, lw) \<and>
       (\<forall>ctx. \<forall>e. IrIndexed e \<in> set as \<longrightarrow> rely_expr p ctx (an_loop_depth an) e))"
proof (induction accs arbitrary: ty0)
  case (Cons acc accs)
  then obtain st where st: "check_accessor check_expr plain sp acc (ty0, an) = Inr st"
    "each (check_accessor check_expr plain sp) accs st = Inr (ty, an')"
    by (auto simp: and_then_eq_Inr)
  show ?case
  proof (cases acc rule: place_accessor.exhaust)
    case (AccField g)
    with st(1) related_tables [OF assms(1)] have "st = (field_type_of info ty0 g, an)"
      by (auto simp: check_accessor_def and_then_eq_Inr field_type_def field_type_of_def info_field_def
          split: bc_type.splits option.splits)
    moreover have "list_all (\<lambda>acc. case acc of AccField _ \<Rightarrow> True | AccIndex e \<Rightarrow> agrees p info e \<and> ok_expr f c c c e) accs"
      using Cons.prems(1) by simp
    ultimately show ?thesis using Cons.IH [of "field_type_of info ty0 g"] st(2) AccField by auto
  next
    case (AccIndex e)
    with st(1) obtain el t where el: "array_element_type ty0 = Some el" "st = (el, an)"
      "check_expr e None an = Inr (t, an)"
      by (auto simp: check_accessor_def and_then_eq_Inr check_at element_type_def
          split: if_splits bc_type.splits)
    moreover from this have "lowers p an t lw (lower_expr info e lw)"
      using Cons.prems(1) AccIndex by (intro agreesD [OF _ assms(1) _ assms(2)]) auto
    ultimately show ?thesis using st(2) Cons AccIndex by (fastforce simp: lowers_def)
  qed
qed simp

lemma lower_place_agree:
  assumes "suits p info" "related info an lw" "fits f c c c None an lw" "ok_place f c target"
    "list_all (\<lambda>acc. case acc of AccField _ \<Rightarrow> True | AccIndex e \<Rightarrow> agrees p info e) (pl_accessors target)"
    "check_place check_expr plain target sp an = Inr (ty, an')"
  shows "place_final_type info lw target = ty \<and>
    (\<exists>v. lower_place info target lw = Inr (v, lw) \<and> (\<forall>ctx. rely_place p ctx (an_loop_depth an) v))"
proof -
  obtain n accs s where target: "target = Place n accs s" by (cases target)
  from assms(6) target obtain b where b: "lookup_var an n = Some b"
    "each (check_accessor check_expr plain sp) accs (bi_ty b, an) = Inr (ty, an')"
    by (auto simp: check_place_def assignable_def and_then_eq_Inr split: if_splits)
  have base: "place_base_type info lw n = bi_ty b"
    using related_lookup [OF assms(2)] b(1) by (simp add: place_base_type_def)
  have "list_all (\<lambda>acc. case acc of AccField _ \<Rightarrow> True | AccIndex e \<Rightarrow> agrees p info e \<and> ok_expr f c c c e) accs"
    using assms(4,5) target by (auto simp: list_all_iff split: place_accessor.splits)
  from lower_accessors_agree [OF assms(2,3) this b(2)] obtain as where
    as: "accessors_type info (bi_ty b) accs = ty" "lower_accessors info accs lw = Inr (as, lw)"
    "\<forall>ctx. \<forall>e. IrIndexed e \<in> set as \<longrightarrow> rely_expr p ctx (an_loop_depth an) e"
    by blast
  have "verify_type p ctx (bi_ty b) = []" for ctx
    using verify_declared [OF assms(1) _ declared_lookup [OF related_wf [OF assms(2)] b(1)]] assms(2)
    by (simp add: related_def)
  with as base target show ?thesis
    by (auto simp: place_final_type_def split: ir_accessor.split)
qed

end
