(* ===== verification/LowerSound.thy ===== *)
theory LowerSound
  imports LowerNodes
begin

text \<open>
  The induction that puts the parts together, and its consequence for whole programs:
  lowering an accepted program whose literals stand where the contexts agree does not panic,
  and its result passes the verifier.
\<close>

section \<open>Statements\<close>

lemma lower_loop_body:
  assumes "agrees_block p info body" "related info an lw" "fits f c c c None an lw" "ok_block f c c c body"
    "declared an ty" "check_for_body check_stmt check_expr var ty sp body an = Inr an'"
  obtains lw1 b lw2 where "lw_insert var ty (lw_push_scope lw) = Inr lw1"
    "lower_block info body lw1 = Inr (b, lw2)" "lw_pop_scope lw2 = lw"
    "\<And>ctx. rely_block p ctx (an_loop_depth an + 1) b"
proof -
  from assms(6) obtain an1 an2 an3 t where bind: "add_binding var ty False sp (push_scope an) = Inr an1"
    and items: "each check_stmt (b_stmts body) (enter_loop an1) = Inr an2"
      "(case b_tail_expr body of Some e \<Rightarrow> check_expr e None an2 | None \<Rightarrow> Inr (BcUnit, an2)) = Inr (t, an3)"
    by (auto simp: check_for_body_def and_then_eq_Inr)
  have ne: "lw_scopes (lw_push_scope lw) \<noteq> []" by (simp add: lw_push_scope_def)
  have "declared (push_scope an) ty" using assms(5) by simp
  then obtain lw1 where lw1: "lw_insert var ty (lw_push_scope lw) = Inr lw1"
    "extends_top (lw_push_scope lw) lw1" "related info an1 lw1"
    using related_bind [OF related_push [OF assms(2)] ne _ bind] by blast
  note fields = grows_fields [OF growingD [OF add_binding_grows bind]]
  have "fits f c c c None (enter_loop an1) lw1"
    using fits_cong [of an1 "push_scope an" lw1 lw1 f c c c None] fields extends_top_fits [OF lw1(2)] assms(3)
    by simp
  then have "lowers_block p (enter_loop an1) t lw1 (lower_block info body lw1)"
    using lw1(3)
    by (intro lower_items [OF assms(1) _ extends_top_scopes [OF lw1(2)] _ assms(4) _ items])
      (simp_all add: related_loop)
  moreover have "an_loop_depth (enter_loop an1) = an_loop_depth an + 1"
    using fields(7) by (simp add: enter_loop_def push_scope_def)
  ultimately obtain b lw2 where b: "lower_block info body lw1 = Inr (b, lw2)" "extends_top lw1 lw2"
    "\<And>ctx. rely_block p ctx (an_loop_depth an + 1) b"
    by (auto simp: lowers_block_def)
  show thesis
    using that [OF lw1(1) b(1) extends_top_pop [OF extends_top_trans [OF lw1(2) b(2)]] b(3)] .
qed

lemma agrees_stmtI:
  assumes "\<And>an an' lw f c. related info an lw \<Longrightarrow> lw_scopes lw \<noteq> [] \<Longrightarrow> fits f c c c None an lw \<Longrightarrow>
      ok_stmt f c s \<Longrightarrow> check_stmt s an = Inr an' \<Longrightarrow>
      \<exists>v lw'. lower_stmt info s lw = Inr (v, lw') \<and> extends_top lw lw' \<and> related info an' lw' \<and>
        (\<forall>ctx. rely_stmt p ctx (an_loop_depth an) v)"
  shows "agrees_stmt p info s"
  unfolding agrees_stmt_def using assms by blast

text \<open>All statements but \<open>let\<close> leave both states as they are.\<close>

lemma agrees_stmt_same:
  assumes "\<nexists>name m t v sp. s = SLet name m t v sp"
    and "\<And>an lw f c. related info an lw \<Longrightarrow> fits f c c c None an lw \<Longrightarrow> ok_stmt f c s \<Longrightarrow>
      check_stmt s an = Inr an \<Longrightarrow>
      \<exists>v. lower_stmt info s lw = Inr (v, lw) \<and> (\<forall>ctx. rely_stmt p ctx (an_loop_depth an) v)"
  shows "agrees_stmt p info s"
proof (rule agrees_stmtI)
  fix an an' lw f c
  assume rel: "related info an lw" "lw_scopes lw \<noteq> []" "fits f c c c None an lw" "ok_stmt f c s"
    and check: "check_stmt s an = Inr an'"
  have "an' = an" using check assms(1) by (cases rule: check_stmt_cases) auto
  with assms(2) [OF rel(1,3,4)] check rel show "\<exists>v lw'. lower_stmt info s lw = Inr (v, lw') \<and>
      extends_top lw lw' \<and> related info an' lw' \<and> (\<forall>ctx. rely_stmt p ctx (an_loop_depth an) v)"
    by (metis extends_top_refl)
qed

lemma agrees_let:
  assumes "suits p info" "agrees p info v"
  shows "agrees_stmt p info (SLet name m ty v sp)"
proof (rule agrees_stmtI)
  fix an an' lw f c
  assume rel: "related info an lw" "lw_scopes lw \<noteq> []" "fits f c c c None an lw"
    and ok: "ok_stmt f c (SLet name m ty v sp)" and check: "check_stmt (SLet name m ty v sp) an = Inr an'"
  from check obtain t u where t: "resolve_type an ty = Inr t" "check_expr v (Some t) an = Inr (u, an)"
    and bind: "add_binding name t m sp an = Inr an'"
    by (auto simp: check_let_def and_then_eq_Inr check_at split: if_splits)
  have lt: "lower_type info ty = t"
    using lower_type_resolved(1) [OF _ _ t(1)] related_tables [OF rel(1)] by simp
  have decl: "declared an t" using declared_resolve(1) [of an ty] t(1) by simp
  have plain: "array_element_type t = None \<and> (\<forall>o' e. t \<noteq> BcResult o' e)" if "plain_type ty"
    using that t(1)
  proof (cases ty)
    case (TyPrimitive p' s')
    with t(1) show ?thesis by (cases p') auto
  qed (auto simp: and_then_eq_Inr split: if_splits)
  have "lowers p an u lw (with_expected (lower_expr info) (Some t) v lw)"
    using assms(2) rel(1,3) ok t(2) decl plain
    by (intro with_expected_lowers [where f = f and c = "plain_type ty"]) (simp_all add: fits_def)
  moreover obtain lw' where "lw_insert name t lw = Inr lw'" "extends_top lw lw'" "related info an' lw'"
    using related_bind [OF rel(1,2) decl bind] by blast
  moreover have "verify_type p ctx t = []" for ctx
    using verify_declared [OF assms(1) _ decl] rel(1) by (simp add: related_def)
  ultimately show "\<exists>w lw'. lower_stmt info (SLet name m ty v sp) lw = Inr (w, lw') \<and> extends_top lw lw' \<and>
      related info an' lw' \<and> (\<forall>ctx. rely_stmt p ctx (an_loop_depth an) w)"
    using lt by (auto simp: lowers_def)
qed

definition agrees_place :: "ir_program \<Rightarrow> semantic_info \<Rightarrow> place \<Rightarrow> bool" where
  "agrees_place p info target \<longleftrightarrow>
     list_all (\<lambda>acc. case acc of AccField _ \<Rightarrow> True | AccIndex e \<Rightarrow> agrees p info e) (pl_accessors target)"

lemma check_place_declared:
  assumes "wf_analyzer an" "check_place check_expr plain target sp an = Inr (ty, an')"
  shows "an' = an \<and> declared an ty"
  using checker_safe.place_types [of target an plain sp] assms by (auto elim: types_cases)

lemma agrees_assign:
  assumes "suits p info" "agrees p info v" "agrees_place p info target"
  shows "agrees_stmt p info (SAssign target v sp)" "agrees_stmt p info (SCompoundAssign target op' v sp)"
proof -
  show "agrees_stmt p info (SAssign target v sp)"
  proof (rule agrees_stmt_same)
    fix an lw f c
    assume rel: "related info an lw" "fits f c c c None an lw" and ok: "ok_stmt f c (SAssign target v sp)"
      and check: "check_stmt (SAssign target v sp) an = Inr an"
    from check obtain ty an1 u where place: "check_place check_expr True target sp an = Inr (ty, an1)"
      and v: "check_expr v (Some ty) an1 = Inr (u, an)"
      by (auto simp: check_assign_def and_then_eq_Inr split: if_splits)
    have "an1 = an" and decl: "declared an ty" using check_place_declared [OF related_wf [OF rel(1)] place] by auto
    from lower_place_agree [OF assms(1) rel _ assms(3) [unfolded agrees_place_def] place] ok
    obtain w where w: "place_final_type info lw target = ty" "lower_place info target lw = Inr (w, lw)"
      "\<forall>ctx. rely_place p ctx (an_loop_depth an) w" by auto
    have "lowers p an u lw (with_expected (lower_expr info) (Some ty) v lw)"
      using assms(2) rel ok v decl \<open>an1 = an\<close>
      by (intro with_expected_lowers [where f = f and c = False]) (simp_all add: fits_def)
    with w show "\<exists>w. lower_stmt info (SAssign target v sp) lw = Inr (w, lw) \<and>
        (\<forall>ctx. rely_stmt p ctx (an_loop_depth an) w)"
      by (auto simp: lowers_def)
  qed simp
  show "agrees_stmt p info (SCompoundAssign target op' v sp)"
  proof (rule agrees_stmt_same)
    fix an lw f c
    assume rel: "related info an lw" "fits f c c c None an lw" and ok: "ok_stmt f c (SCompoundAssign target op' v sp)"
      and check: "check_stmt (SCompoundAssign target op' v sp) an = Inr an"
    from check obtain ty an1 u t where place: "check_place check_expr False target sp an = Inr (ty, an1)"
      and v: "check_expr v (Some ty) an1 = Inr (u, an)" "check_binary_op_types op' ty u sp = Inr t"
      by (auto simp: check_compound_assign_def and_then_eq_Inr split: if_splits)
    have "an1 = an" using check_place_declared [OF related_wf [OF rel(1)] place] by auto
    have op: "op' \<in> {OpAdd, OpSub, OpMul, OpDiv, OpMod}"
      using v(2) by (auto simp: check_binary_op_types_def split: if_splits)
    have num: "is_numeric ty"
      using v(2) by (auto simp: check_binary_op_types_def arithmetic_type_def modulo_type_def
          is_integer_def is_numeric_def split: if_splits)
    from lower_place_agree [OF assms(1) rel _ assms(3) [unfolded agrees_place_def] place] ok
    obtain w where w: "lower_place info target lw = Inr (w, lw)"
      "\<forall>ctx. rely_place p ctx (an_loop_depth an) w" by auto
    have "wf_expected an (Some ty)" using declared_numeric [OF num] by simp
    with agreesD [OF assms(2) rel(1) _ fits_numeric [OF rel(2) num]] ok v(1) \<open>an1 = an\<close>
    have "lowers p an u lw (lower_expr info v lw)" by simp
    with w show "\<exists>w. lower_stmt info (SCompoundAssign target op' v sp) lw = Inr (w, lw) \<and>
        (\<forall>ctx. rely_stmt p ctx (an_loop_depth an) w)"
      using op by (auto simp: lowers_def)
  qed simp
qed

lemma agrees_return:
  assumes "pred_option (agrees p info) v"
  shows "agrees_stmt p info (SReturn v sp)"
proof (rule agrees_stmt_same)
  fix an lw f c
  assume rel: "related info an lw" "fits f c c c None an lw" and ok: "ok_stmt f c (SReturn v sp)"
    and check: "check_stmt (SReturn v sp) an = Inr an"
  show "\<exists>w. lower_stmt info (SReturn v sp) lw = Inr (w, lw) \<and>
      (\<forall>ctx. rely_stmt p ctx (an_loop_depth an) w)"
  proof (cases v)
    case None
    then show ?thesis by (auto simp: with_expected_def split: option.split)
  next
    case (Some e)
    with ok rel(2) obtain ret where ret: "an_current_fn_return_type an = Some ret"
      by (auto simp: fits_def)
    then have decl: "declared an ret" using related_wf [OF rel(1)] by (simp add: wf_analyzer_def wf_expected_def)
    from check Some ret obtain t where t: "check_expr e (Some ret) an = Inr (t, an)"
      by (auto simp: check_return_def and_then_eq_Inr check_at split: if_splits)
    have f: "f \<and> ok_expr f False True True e"
      using Some ok by (cases f) simp_all
    have e: "agrees p info e" using assms Some by simp
    have "lowers p an t lw (with_expected (lower_expr info) (Some ret) e lw)"
      using decl ret by (intro with_expected_lowers [OF e rel(1) _ conjunct2 [OF f] t]) simp_all
    with Some ret rel(1) show ?thesis
      by (auto simp: lowers_def with_expected_def related_def and_then_eq_Inr)
  qed
qed simp

lemma agrees_operand:
  assumes "agrees p info e" "related info an lw" "fits f c c c None an lw" "ok_expr f c c c e"
    "check_expr e None an = Inr (t, an')"
  obtains v where "lower_expr info e lw = Inr (v, lw)" "ir_ty v = t"
    "\<And>ctx. rely_expr p ctx (an_loop_depth an) v"
  using agreesD [OF assms(1,2) _ assms(3-5)] by (auto elim: lowers_cases)

lemma agrees_simple_stmt:
  assumes "agrees p info e"
  shows "agrees_stmt p info (SExpr e sp)" "agrees_stmt p info (SDefer e sp)"
proof -
  have step: "\<exists>v. lower_expr info e lw = Inr (v, lw) \<and> (\<forall>ctx. rely_expr p ctx (an_loop_depth an) v)"
    if "related info an lw" "fits f c c c None an lw" "ok_expr f c c c e" "check_expr e None an = Inr (t, an')"
    for an an' lw f c t
    using agrees_operand [OF assms that] by metis
  show "agrees_stmt p info (SExpr e sp)"
    by (rule agrees_stmt_same) (auto simp: and_then_eq_Inr dest!: step)
  show "agrees_stmt p info (SDefer e sp)"
    by (rule agrees_stmt_same) (auto simp: check_defer_def and_then_eq_Inr split: if_splits dest!: step)
qed

lemma agrees_jumps: "agrees_stmt p info (SBreak sp)" "agrees_stmt p info (SContinue sp)"
  by (rule agrees_stmt_same; simp split: if_splits)+

lemma agrees_while:
  assumes "agrees p info cond" "agrees_block p info body"
  shows "agrees_stmt p info (SWhile cond body sp)"
proof (rule agrees_stmt_same)
  fix an lw f c
  assume rel: "related info an lw" "fits f c c c None an lw" and ok: "ok_stmt f c (SWhile cond body sp)"
    and check: "check_stmt (SWhile cond body sp) an = Inr an"
  from check obtain t an1 where cond: "check_expr cond None an = Inr (BcBool, an)"
    and body: "check_block check_stmt check_expr body None (enter_loop an) = Inr (t, an1)"
    by (auto simp: check_while_def and_then_eq_Inr check_at split: if_splits)
  obtain v where v: "lower_expr info cond lw = Inr (v, lw)"
    "\<And>ctx. rely_expr p ctx (an_loop_depth an) v"
    using agrees_operand [OF assms(1) rel _ cond] ok by auto
  have rel': "related info (enter_loop an) lw" "fits f c c c None (enter_loop an) lw"
    using rel by (simp_all add: related_loop)
  have "ok_block f c c c body" using ok by simp
  obtain b lw' where b: "lower_block info body (lw_push_scope lw) = Inr (b, lw')" "lw_pop_scope lw' = lw"
    "\<And>ctx. rely_block p ctx (an_loop_depth (enter_loop an)) b"
    using lower_scoped_block [OF assms(2) rel' \<open>ok_block f c c c body\<close> _ body] wf_expected_simps(1) by blast
  with v show "\<exists>w. lower_stmt info (SWhile cond body sp) lw = Inr (w, lw) \<and>
      (\<forall>ctx. rely_stmt p ctx (an_loop_depth an) w)"
    by (simp add: enter_loop_def)
qed simp

lemma agrees_for:
  assumes "agrees p info a" "agrees p info z" "agrees_block p info body"
  shows "agrees_stmt p info (SFor var a z body sp)"
proof (rule agrees_stmt_same)
  fix an lw f c
  assume rel: "related info an lw" "fits f c c c None an lw" and ok: "ok_stmt f c (SFor var a z body sp)"
    and check: "check_stmt (SFor var a z body sp) an = Inr an"
  from check have az: "check_expr a None an = Inr (BcI32, an)" "check_expr z None an = Inr (BcI32, an)"
    and body: "check_for_body check_stmt check_expr var BcI32 sp body an = Inr an"
    by (auto simp: check_for_def and_then_eq_Inr check_at split: if_splits)
  from ok have oks: "ok_expr f c c c a" "ok_expr f c c c z" "ok_block f c c c body" by simp_all
  obtain va where "lower_expr info a lw = Inr (va, lw)" "\<And>ctx. rely_expr p ctx (an_loop_depth an) va"
    using agrees_operand [OF assms(1) rel oks(1) az(1)] by blast
  moreover obtain vz where "lower_expr info z lw = Inr (vz, lw)" "\<And>ctx. rely_expr p ctx (an_loop_depth an) vz"
    using agrees_operand [OF assms(2) rel oks(2) az(2)] by blast
  moreover obtain lw1 b lw2 where "lw_insert var BcI32 (lw_push_scope lw) = Inr lw1"
    "lower_block info body lw1 = Inr (b, lw2)" "lw_pop_scope lw2 = lw"
    "\<And>ctx. rely_block p ctx (an_loop_depth an + 1) b"
    using lower_loop_body [OF assms(3) rel oks(3) _ body] by auto
  ultimately show "\<exists>w. lower_stmt info (SFor var a z body sp) lw = Inr (w, lw) \<and>
      (\<forall>ctx. rely_stmt p ctx (an_loop_depth an) w)"
    by simp
qed simp

lemma agrees_for_in:
  assumes "agrees p info it" "agrees_block p info body"
  shows "agrees_stmt p info (SForIn var it body sp)"
proof (rule agrees_stmt_same)
  fix an lw f c
  assume rel: "related info an lw" "fits f c c c None an lw" and ok: "ok_stmt f c (SForIn var it body sp)"
    and check: "check_stmt (SForIn var it body sp) an = Inr an"
  from check obtain t el where it: "check_expr it None an = Inr (t, an)" "array_element_type t = Some el"
    and body: "check_for_body check_stmt check_expr var el sp body an = Inr an"
    by (auto simp: check_for_in_def and_then_eq_Inr check_at split: option.splits)
  from ok have oks: "ok_expr f c c c it" "ok_block f c c c body" by simp_all
  have "iterated_type t = el" using it(2) by (cases t) (auto simp: iterated_type_def)
  moreover have "declared an el"
    using declared_element [OF it(2)] checked_declared [OF it(1) related_wf [OF rel(1)]] by simp
  then obtain lw1 b lw2 where "lw_insert var el (lw_push_scope lw) = Inr lw1"
    "lower_block info body lw1 = Inr (b, lw2)" "lw_pop_scope lw2 = lw"
    "\<And>ctx. rely_block p ctx (an_loop_depth an + 1) b"
    using lower_loop_body [OF assms(2) rel oks(2) _ body] by auto
  moreover obtain v where "lower_expr info it lw = Inr (v, lw)" "ir_ty v = t"
    "\<And>ctx. rely_expr p ctx (an_loop_depth an) v"
    using agrees_operand [OF assms(1) rel oks(1) it(1)] by blast
  ultimately show "\<exists>w. lower_stmt info (SForIn var it body sp) lw = Inr (w, lw) \<and>
      (\<forall>ctx. rely_stmt p ctx (an_loop_depth an) w)"
    by simp
qed simp

section \<open>Expressions\<close>

lemma agreesI:
  assumes "\<And>an lw ex ty f c a r. related info an lw \<Longrightarrow> wf_expected an ex \<Longrightarrow> fits f c a r ex an lw \<Longrightarrow>
      fits f c c c None an lw \<Longrightarrow> ok_expr f c a r e \<Longrightarrow> check_expr e ex an = Inr (ty, an) \<Longrightarrow>
      (\<And>ctx. verify_type p ctx ty = []) \<Longrightarrow> lowers p an ty lw (lower_expr info e lw)"
    and "suits p info"
  shows "agrees p info e"
  unfolding agrees_def
proof (intro allI impI, elim conjE)
  fix an lw ex ty f c a r
  assume rel: "related info an lw" "wf_expected an ex" "fits f c a r ex an lw" "ok_expr f c a r e"
    and check: "check_expr e ex an = Inr (ty, an)"
  show "lowers p an ty lw (lower_expr info e lw)"
    using assms(1) [OF rel(1-3) fits_operand [OF rel(1,3)] rel(4) check verify_checked [OF assms(2) rel(1,2) check]] .
qed

text \<open>An expression with one operand.\<close>

lemma agrees_wrapped:
  assumes "suits p info" "agrees p info l"
    and ok: "\<And>f c a r. ok_expr f c a r e \<Longrightarrow> ok_expr f c c c l"
    and check: "\<And>an lw ex ty. related info an lw \<Longrightarrow> check_expr e ex an = Inr (ty, an) \<Longrightarrow>
      \<exists>t. check_expr l None an = Inr (t, an) \<and> g t = ty \<and> (\<forall>ctx. extra ctx t = [])"
    and lower: "\<And>lw. lower_expr info e lw = and_then (lower_expr info l lw) (\<lambda>(v, lw). Inr (w v, lw))"
    and ty: "\<And>v. ir_ty (w v) = g (ir_ty v)"
    and verify: "\<And>ctx d v. rely_expr p ctx d (w v) =
      (verify_type p ctx (g (ir_ty v)) = [] \<and> rely_expr p ctx d v \<and> extra ctx (ir_ty v) = [])"
  shows "agrees p info e"
proof (rule agreesI [OF _ assms(1)])
  fix an lw ex ty f c a r
  assume rel: "related info an lw" "fits f c c c None an lw" and e: "ok_expr f c a r e"
    and res: "check_expr e ex an = Inr (ty, an)" and fine: "\<And>ctx. verify_type p ctx ty = []"
  from check [OF rel(1) res] obtain t where t: "check_expr l None an = Inr (t, an)" "g t = ty"
    "\<And>ctx. extra ctx t = []" by blast
  obtain v where "lower_expr info l lw = Inr (v, lw)" "ir_ty v = t"
    "\<And>ctx. rely_expr p ctx (an_loop_depth an) v"
    using agrees_operand [OF assms(2) rel ok [OF e] t(1)] by blast
  with t fine show "lowers p an ty lw (lower_expr info e lw)"
    by (simp add: lowers_def lower ty verify)
qed

lemma related_field:
  "field_type an t g sp = Inr ty \<Longrightarrow> related info an lw \<Longrightarrow> field_type_of info t g = ty"
  using related_tables(1) [of info an lw]
  by (cases t) (auto simp: field_type_def field_type_of_def info_field_def split: option.splits)

lemma element_index: "element_type t sp = Inr ty \<Longrightarrow> index_type_of t = ty"
  by (cases t) (auto simp: element_type_def index_type_of_def)

lemma related_try:
  assumes "check_try check_expr l sp an = Inr (ty, an')"
  shows "\<exists>t. check_expr l None an = Inr (t, an) \<and> lower_try_type t = ty \<and>
    (\<forall>ctx. verify_try ctx t (lower_try_type t) = [])"
proof -
  from assms obtain t where t: "check_expr l None an = Inr (t, an)"
    by (auto simp: check_try_def and_then_eq_Inr check_at)
  with assms obtain err where "t = BcResult ty err"
    by (cases t)
      (auto simp: check_try_def and_then_eq_Inr check_at split: bc_type.splits option.splits if_splits)
  with t show ?thesis by (simp add: lower_try_type_def verify_try_def)
qed

lemma agrees_operators:
  assumes "suits p info" "agrees p info l" "agrees p info r'"
  shows "agrees p info (EBinaryOp op' l r' sp)" "agrees p info (EUnaryOp u l sp)" "agrees p info (ECast l t sp)"
    "agrees p info (EFieldAccess l g sp)" "agrees p info (EIndex l r' sp)" "agrees p info (ETry l sp)"
proof -
  show "agrees p info (EBinaryOp op' l r' sp)"
  proof (rule agreesI [OF _ assms(1)])
    fix an lw ex ty f c a r
    assume rel: "related info an lw" "fits f c c c None an lw" and ok: "ok_expr f c a r (EBinaryOp op' l r' sp)"
      and check: "check_expr (EBinaryOp op' l r' sp) ex an = Inr (ty, an)" and fine: "\<And>ctx. verify_type p ctx ty = []"
    from check obtain lt rt where t: "check_expr l None an = Inr (lt, an)" "check_expr r' None an = Inr (rt, an)"
      "binary_op_type op' lt rt sp = Inr ty"
      by (auto simp: and_then_eq_Inr check_at)
    from ok have oks: "ok_expr f c c c l" "ok_expr f c c c r'" by simp_all
    obtain vl where "lower_expr info l lw = Inr (vl, lw)" "ir_ty vl = lt"
      "\<And>ctx. rely_expr p ctx (an_loop_depth an) vl"
      using agrees_operand [OF assms(2) rel oks(1) t(1)] by blast
    moreover obtain vr where "lower_expr info r' lw = Inr (vr, lw)"
      "\<And>ctx. rely_expr p ctx (an_loop_depth an) vr"
      using agrees_operand [OF assms(3) rel oks(2) t(2)] by blast
    moreover have "lower_binary_type op' lt = ty" "binary_cached op' lt = ty"
      using t(3) by (cases op'; auto simp: arithmetic_type_def modulo_type_def equality_type_def
          comparison_type_def logical_type_def split: if_splits)+
    ultimately show "lowers p an ty lw (lower_expr info (EBinaryOp op' l r' sp) lw)"
      using fine by (simp add: lowers_def verify_binary_def)
  qed
  show "agrees p info (EIndex l r' sp)"
  proof (rule agreesI [OF _ assms(1)])
    fix an lw ex ty f c a r
    assume rel: "related info an lw" "fits f c c c None an lw" and ok: "ok_expr f c a r (EIndex l r' sp)"
      and check: "check_expr (EIndex l r' sp) ex an = Inr (ty, an)" and fine: "\<And>ctx. verify_type p ctx ty = []"
    from check obtain lt rt where t: "check_expr l None an = Inr (lt, an)" "check_expr r' None an = Inr (rt, an)"
      "index_type_of lt = ty"
      by (auto simp: and_then_eq_Inr check_at index_type_of_def dest: element_index split: if_splits)
    from ok have oks: "ok_expr f c c c l" "ok_expr f c c c r'" by simp_all
    obtain vl where "lower_expr info l lw = Inr (vl, lw)" "ir_ty vl = lt"
      "\<And>ctx. rely_expr p ctx (an_loop_depth an) vl"
      using agrees_operand [OF assms(2) rel oks(1) t(1)] by blast
    moreover obtain vr where "lower_expr info r' lw = Inr (vr, lw)"
      "\<And>ctx. rely_expr p ctx (an_loop_depth an) vr"
      using agrees_operand [OF assms(3) rel oks(2) t(2)] by blast
    ultimately show "lowers p an ty lw (lower_expr info (EIndex l r' sp) lw)"
      using fine t(3) by (simp add: lowers_def)
  qed
  show "agrees p info (EUnaryOp u l sp)"
    by (rule agrees_wrapped [OF assms(1,2), where g = "lower_unary_type u" and w = "\<lambda>v. IrUnaryOp u v (lower_unary_type u (ir_ty v)) sp"
          and extra = "\<lambda>ctx t. verify_unary ctx u t (lower_unary_type u t)"])
      (cases u; auto simp: and_then_eq_Inr check_at verify_unary_def split: if_splits)+
  show "agrees p info (ECast l t sp)"
    by (rule agrees_wrapped [OF assms(1,2), where g = "\<lambda>_. lower_type info t" and w = "\<lambda>v. IrCast v (lower_type info t) sp"
          and extra = "\<lambda>_ _. []"])
      (auto simp: and_then_eq_Inr check_at split: if_splits
        intro!: lower_type_resolved(1) dest: related_tables)
  show "agrees p info (EFieldAccess l g sp)"
    by (rule agrees_wrapped [OF assms(1,2), where g = "\<lambda>t. field_type_of info t g"
          and w = "\<lambda>v. IrFieldAccess v g (field_type_of info (ir_ty v) g) sp" and extra = "\<lambda>_ _. []"])
      (auto simp: and_then_eq_Inr check_at dest: related_field)
  show "agrees p info (ETry l sp)"
    by (rule agrees_wrapped [OF assms(1,2), where g = lower_try_type and w = "\<lambda>v. IrTry v (lower_try_type (ir_ty v)) sp"
          and extra = "\<lambda>ctx t. verify_try ctx t (lower_try_type t)"])
      (auto dest: related_try)
qed

lemma agrees_aggregates:
  assumes "suits p info"
  shows "list_all (agrees p info) es \<Longrightarrow> agrees p info (EArrayLit es sp)"
    "list_all (agrees p info) es \<Longrightarrow> agrees p info (EEnumConstructor en v es sp)"
    "list_all (\<lambda>fi. case fi of FieldInit _ v _ \<Rightarrow> agrees p info v) inits \<Longrightarrow> agrees p info (EStructLit en inits sp)"
    "agrees p info cond \<Longrightarrow> agrees_block p info block \<Longrightarrow> pred_option (agrees p info) els \<Longrightarrow>
      agrees p info (EIf cond block els sp)"
    "agrees p info cond \<Longrightarrow> list_all (\<lambda>arm. agrees p info (arm_body arm)) arms \<Longrightarrow>
      agrees p info (EMatch cond arms sp)"
proof -
  show "agrees p info (EArrayLit es sp)" if "list_all (agrees p info) es"
    by (rule agreesI [OF _ assms], rule lower_array_lit [OF that assms])
  show "agrees p info (EEnumConstructor en v es sp)" if "list_all (agrees p info) es"
    by (rule agreesI [OF _ assms], rule lower_enum_constructor [OF that assms])
  show "agrees p info (EStructLit en inits sp)"
    if "list_all (\<lambda>fi. case fi of FieldInit _ v _ \<Rightarrow> agrees p info v) inits"
    by (rule agreesI [OF _ assms], rule lower_struct_lit [OF that assms])
  show "agrees p info (EIf cond block els sp)"
    if "agrees p info cond" "agrees_block p info block" "pred_option (agrees p info) els"
    by (rule agreesI [OF _ assms], rule lower_if [OF that assms])
  show "agrees p info (EMatch cond arms sp)"
    if "agrees p info cond" "list_all (\<lambda>arm. agrees p info (arm_body arm)) arms"
    by (rule agreesI [OF _ assms], rule lower_match [OF that assms])
qed

lemma agrees_call:
  assumes "suits p info" "list_all (agrees p info) args"
  shows "agrees p info (ECall callee args sp)"
proof (rule agreesI [OF _ assms(1)])
  fix an lw ex ty f c a r
  assume rel: "related info an lw" and wf: "wf_expected an ex" and fits: "fits f c a r ex an lw"
    and ok: "ok_expr f c a r (ECall callee args sp)"
    and check: "check_expr (ECall callee args sp) ex an = Inr (ty, an)"
  from ok obtain name nsp where callee: "callee = EIdent name nsp" "name \<noteq> ''pop''"
    and flags: "ok_args f (argument_flags c name) args"
    by (cases callee rule: expr.exhaust) simp_all
  note call = check [unfolded callee(1)]
  note rules = assms(1) rel fits assms(2)
  show "lowers p an ty lw (lower_expr info (ECall callee args sp) lw)"
  proof (cases "resolve_with_alias name")
    case (Some i)
    with lower_collection_call [OF rules this flags call wf] callee(1) show ?thesis by simp
  next
    case None
    show ?thesis
    proof (cases "name = ''len'' \<or> name = ''push''")
      case True
      with lower_builtin_call [OF rules this None flags call] callee(1) show ?thesis by simp
    next
      case False
      with callee(2) have name: "name \<notin> {''len'', ''push'', ''pop''}" by simp
      show ?thesis
        unfolding callee(1)
        by (cases "lookup_var an name")
          (rule lower_function_call [OF rules name None flags call wf], assumption,
           rule lower_pointer_call [OF rules name None flags call wf], assumption)
    qed
  qed
qed

lemma agrees_ident:
  assumes "suits p info"
  shows "agrees p info (EIdent name sp)"
proof (rule agreesI [OF _ assms])
  fix an lw ex ty f c a r
  assume rel: "related info an lw" and check: "check_expr (EIdent name sp) ex an = Inr (ty, an)"
    and fine: "\<And>ctx. verify_type p ctx ty = []"
  have "ir_ty (lower_ident info lw name sp) = ty \<and>
      (\<forall>ctx d. rely_expr p ctx d (lower_ident info lw name sp) = (verify_type p ctx ty = []))"
    using check related_lookup [OF rel, of name] related_tables [OF rel]
    by (auto simp: lower_ident_def ident_type_def and_then_eq_Inr simp del: verify_type.simps
        split: option.splits if_splits)
  with fine show "lowers p an ty lw (lower_expr info (EIdent name sp) lw)"
    by (simp add: lowers_def)
qed

lemma agrees_blocks:
  assumes "suits p info" "agrees_block p info block"
  shows "agrees p info (EBlock block)" "agrees p info (EArena block sp)"
proof -
  have "\<exists>b lw'. lower_block info block (lw_push_scope lw) = Inr (b, lw') \<and> lw_pop_scope lw' = lw \<and>
      ir_block_ty b = ty \<and> (\<forall>ctx. rely_block p ctx (an_loop_depth an) b)"
    if "related info an lw" "fits f c a r ex an lw" "ok_block f c a r block" "wf_expected an ex"
      "check_block check_stmt check_expr block ex an = Inr (ty, an)" for an lw ex ty f c a r
    using lower_scoped_block [OF assms(2) that] by metis
  note block = this
  show "agrees p info (EBlock block)"
  proof (rule agreesI [OF _ assms(1)])
    fix an lw ex ty f c a r
    assume rel: "related info an lw" "wf_expected an ex" "fits f c a r ex an lw" "ok_expr f c a r (EBlock block)"
      and check: "check_expr (EBlock block) ex an = Inr (ty, an)" and fine: "\<And>ctx. verify_type p ctx ty = []"
    from block [OF rel(1,3) _ rel(2)] rel(4) check fine
    show "lowers p an ty lw (lower_expr info (EBlock block) lw)" by (fastforce simp: lowers_def)
  qed
  show "agrees p info (EArena block sp)"
  proof (rule agreesI [OF _ assms(1)])
    fix an lw ex ty f c a r
    assume rel: "related info an lw" "wf_expected an ex" "fits f c a r ex an lw" "ok_expr f c a r (EArena block sp)"
      and check: "check_expr (EArena block sp) ex an = Inr (ty, an)" and fine: "\<And>ctx. verify_type p ctx ty = []"
    from check have "check_block check_stmt check_expr block ex an = Inr (ty, an)"
      by (auto simp: check_arena_def and_then_eq_Inr split: if_splits)
    from block [OF rel(1,3) _ rel(2) this] rel(4) fine
    show "lowers p an ty lw (lower_expr info (EArena block sp) lw)" by (fastforce simp: lowers_def)
  qed
qed

lemma agrees_interpolated:
  assumes "suits p info"
    and parts: "list_all (\<lambda>part. case part of IText _ \<Rightarrow> True | IExpr e \<Rightarrow> agrees p info e) parts"
  shows "agrees p info (EInterpolatedString parts sp)"
proof (rule agreesI [OF _ assms(1)])
  fix an lw ex ty f c a r
  assume rel: "related info an lw" "fits f c c c None an lw" and ok: "ok_expr f c a r (EInterpolatedString parts sp)"
    and check: "check_expr (EInterpolatedString parts sp) ex an = Inr (ty, an)"
  from check obtain ip an1 where each: "each (check_interp_part check_expr) parts
      (\<lparr>ip_rendered = 0, ip_needs_impure = False\<rparr>, an) = Inr (ip, an1)" and ty: "ty = BcStr"
    by (auto simp: check_interpolated_string_def and_then_eq_Inr split: if_splits)
  have "list_all (\<lambda>part. case part of IText _ \<Rightarrow> True | IExpr e \<Rightarrow> agrees p info e \<and> ok_expr f c c c e) parts"
    using parts ok by (auto simp: list_all_iff split: interp_part.splits)
  from lower_interpolated [OF rel this each] obtain ps where ps: "lower_parts info parts lw = Inr (ps, lw)"
    "\<forall>ctx. \<forall>e. IrPart e \<in> set ps \<longrightarrow> has_printed_form (ir_ty e) \<and> rely_expr p ctx (an_loop_depth an) e" by blast
  have "rely_expr p ctx (an_loop_depth an) (IrInterpolatedString ps sp)" for ctx
    using ps(2) by (auto split: ir_part.split)
  with ps(1) ty show "lowers p an ty lw (lower_expr info (EInterpolatedString parts sp) lw)"
    by (simp add: lowers_def)
qed

lemma agrees_literals:
  assumes "suits p info"
  shows "agrees p info (EIntLit v sp)" "agrees p info (EFloatLit w sp)" "agrees p info (EStringLit s sp)"
    "agrees p info (EBoolLit b sp)"
  by (rule agreesI [OF _ assms], simp add: lowers_def int_literal_type_def and_then_eq_Inr split: if_splits)+

section \<open>All of the syntax\<close>

definition agrees_below :: "ir_program \<Rightarrow> semantic_info \<Rightarrow> nat \<Rightarrow> bool" where
  "agrees_below p info n \<longleftrightarrow>
     (\<forall>e. size e < n \<longrightarrow> agrees p info e) \<and> (\<forall>s. size s < n \<longrightarrow> agrees_stmt p info s)"

lemma below_lists:
  assumes "agrees_below p info n"
  shows "size_list size es < n \<Longrightarrow> list_all (agrees p info) es"
    "size_list size parts < n \<Longrightarrow>
      list_all (\<lambda>part. case part of IText _ \<Rightarrow> True | IExpr e \<Rightarrow> agrees p info e) parts"
    "size_list size arms < n \<Longrightarrow> list_all (\<lambda>arm. agrees p info (arm_body arm)) arms"
    "size_list size inits < n \<Longrightarrow> list_all (\<lambda>fi. case fi of FieldInit _ v _ \<Rightarrow> agrees p info v) inits"
    "size_option size oe < n \<Longrightarrow> pred_option (agrees p info) oe"
    "size target < n \<Longrightarrow> agrees_place p info target"
    "size block < n \<Longrightarrow> agrees_block p info block"
proof -
  note e = assms [unfolded agrees_below_def, THEN conjunct1, rule_format]
  note s = assms [unfolded agrees_below_def, THEN conjunct2, rule_format]
  show "list_all (agrees p info) es" if "size_list size es < n"
    using that by (auto simp: list_all_iff intro!: e dest!: size_member)
  show "list_all (\<lambda>part. case part of IText _ \<Rightarrow> True | IExpr e \<Rightarrow> agrees p info e) parts"
    if "size_list size parts < n"
    using that by (auto simp: list_all_iff intro!: e dest!: size_part split: interp_part.split)
  show "list_all (\<lambda>arm. agrees p info (arm_body arm)) arms" if "size_list size arms < n"
    using that by (auto simp: list_all_iff intro!: e dest!: size_arm split: match_arm.split)
  show "list_all (\<lambda>fi. case fi of FieldInit _ v _ \<Rightarrow> agrees p info v) inits" if "size_list size inits < n"
    using that by (auto simp: list_all_iff intro!: e dest!: size_init split: field_init.split)
  show "pred_option (agrees p info) oe" if "size_option size oe < n"
    using that by (cases oe) (auto intro!: e)
  show "agrees_place p info target" if "size target < n"
    using that by (auto simp: agrees_place_def list_all_iff intro!: e dest!: size_place_index split: place_accessor.split)
  show "agrees_block p info block" if "size block < n"
    using that e s by (cases "b_tail_expr block")
      (auto simp: agrees_block_def list_all_iff dest!: size_block_stmt size_block_tail)
qed

lemma agrees_step:
  assumes "suits p info" "agrees_below p info n"
  shows "agrees_below p info (Suc n)"
  unfolding agrees_below_def
proof (intro conjI allI impI)
  note lists = below_lists [OF assms(2)]
  note sub = assms(2) [unfolded agrees_below_def, THEN conjunct1, rule_format]
  show "agrees p info e" if "size e < Suc n" for e
    using that
    by (cases e rule: expr.exhaust)
      (simp_all add: lists sub agrees_call agrees_ident agrees_literals agrees_interpolated agrees_blocks
        agrees_operators agrees_operators(2-4,6) [where l = l and r' = l for l] agrees_aggregates assms(1))
  show "agrees_stmt p info s" if "size s < Suc n" for s
    using that
    by (cases s rule: stmt.exhaust)
      (simp_all add: lists sub agrees_let agrees_assign agrees_return agrees_simple_stmt agrees_while
        agrees_for agrees_for_in agrees_jumps assms(1))
qed

theorem all_agree:
  assumes "suits p info"
  shows "agrees p info e" "agrees_stmt p info s" "agrees_block p info block"
proof -
  have below: "agrees_below p info n" for n
    by (induction n) (auto simp: agrees_below_def [of _ _ 0] intro: agrees_step assms)
  from below [of "Suc (size e)"] show "agrees p info e" by (simp add: agrees_below_def)
  from below [of "Suc (size s)"] show "agrees_stmt p info s" by (simp add: agrees_below_def)
  show "agrees_block p info block" by (rule below_lists(7) [OF below]) (rule lessI)
qed

end
