(* ===== verification/LowerProgram.thy ===== *)
theory LowerProgram
  imports LowerSound
begin

text \<open>Lowering a whole program that the analysis has accepted.\<close>

section \<open>Types of declarations\<close>

text \<open>
  A type that was resolved in pass 1 names types that are still declared at the end, though
  perhaps as another kind: a name may be a struct and an enum.
\<close>

definition fine_type :: "semantic_info \<Rightarrow> bc_type \<Rightarrow> bool" where
  "fine_type info ty \<longleftrightarrow> (\<forall>p ctx. suits p info \<longrightarrow> verify_type p ctx ty = [])"

lemma fine_type_resolved:
  assumes "more an an'" "info = info_of an'"
  shows "resolve_type an t = Inr ty \<Longrightarrow> fine_type info (lower_type info t)"
    "resolve_types an ts = Inr tys \<Longrightarrow> list_all (\<lambda>t. fine_type info (lower_type info t)) ts"
  using assms
proof (induction an t and an ts arbitrary: ty and tys rule: resolve_type_resolve_types.induct)
  case (1 an p sp)
  then show ?case by (cases p) (auto simp: fine_type_def)
next
  case (2 an name sp)
  then show ?case by (auto simp: fine_type_def suits_def more_def info_of_def split: if_splits)
next
  case (6 an params ret pure sp)
  then show ?case by (auto simp: fine_type_def and_then_eq_Inr list_all_iff)
qed (auto simp: fine_type_def and_then_eq_Inr split: if_splits)

lemma fine_unit: "fine_type info BcUnit"
  by (simp add: fine_type_def)

fun decl_types :: "top_decl \<Rightarrow> ast_type list" where
  "decl_types (DStruct s) = map f_ty (s_fields s)"
| "decl_types (DEnum e) = concat (map v_payload_types (e_variants e))"
| "decl_types (DFn f) = map p_ty (fn_params f) @ (case fn_return_type f of Some t \<Rightarrow> [t] | None \<Rightarrow> [])"
| "decl_types (DLet l) = [l_ty l]"
| "decl_types (DExtern eb) =
     concat (map (\<lambda>ef. map p_ty (ef_params ef) @ (case ef_return_type ef of Some t \<Rightarrow> [t] | None \<Rightarrow> []))
       (eb_decls eb))"
| "decl_types (DUse _ _) = []"

lemma map_result_all: "map_result f xs = Inr ys \<Longrightarrow> \<forall>x \<in> set xs. \<exists>y. f x = Inr y"
  by (induction xs arbitrary: ys) (auto simp: and_then_eq_Inr)

lemma more_trans: "more a b \<Longrightarrow> more b c \<Longrightarrow> more a c"
  unfolding more_def by blast

lemma more_refl: "more a a"
  by (simp add: more_def)

lemma resolves_return: "resolve_return an ret = Inr ty \<Longrightarrow> ret = Some t \<Longrightarrow> resolve_type an t = Inr ty"
  by (simp add: resolve_return_def)

lemma signature_types:
  assumes "collect_signature n sp params ret pure ext dup an = Inr an'"
  shows "more an an' \<and>
    (\<forall>t \<in> set (map p_ty params @ (case ret of Some t \<Rightarrow> [t] | None \<Rightarrow> [])). \<exists>ty. resolve_type an t = Inr ty)"
proof -
  from assms obtain ps r where ps: "resolve_params an params = Inr ps" and r: "resolve_return an ret = Inr r"
    and an': "an_structs an' = an_structs an" "an_enums an' = an_enums an"
    by (auto simp: collect_signature_def and_then_eq_Inr split: if_splits)
  have "\<forall>p \<in> set params. \<exists>ty. resolve_type an (p_ty p) = Inr ty"
    using map_result_all [OF ps [unfolded resolve_params_def]] by (auto simp: and_then_eq_Inr)
  with an' r show ?thesis by (auto simp: more_def resolve_return_def split: option.splits)
qed

lemma extern_types:
  "each collect_extern_fn efs an = Inr an' \<Longrightarrow>
     more an an' \<and> (\<forall>ef \<in> set efs. \<exists>an1. more an1 an' \<and>
       (\<forall>t \<in> set (map p_ty (ef_params ef) @ (case ef_return_type ef of Some t \<Rightarrow> [t] | None \<Rightarrow> [])).
         \<exists>ty. resolve_type an1 t = Inr ty))"
proof (induction efs arbitrary: an)
  case (Cons ef efs)
  then obtain an1 where an1: "collect_extern_fn ef an = Inr an1" "each collect_extern_fn efs an1 = Inr an'"
    by (auto simp: and_then_eq_Inr)
  note ef = signature_types [OF an1(1) [unfolded collect_extern_fn_def]]
  from Cons.IH [OF an1(2)] have rest: "more an1 an'" "\<forall>ef \<in> set efs. \<exists>an1. more an1 an' \<and>
       (\<forall>t \<in> set (map p_ty (ef_params ef) @ (case ef_return_type ef of Some t \<Rightarrow> [t] | None \<Rightarrow> [])).
         \<exists>ty. resolve_type an1 t = Inr ty)" by blast+
  have "more an an'" using ef rest(1) more_trans by blast
  with ef rest(2) show ?case by (metis set_ConsD)
qed (simp add: more_refl)

lemma collect_types:
  assumes "collect_decl d an = Inr an'"
  shows "more an an' \<and> (\<forall>t \<in> set (decl_types d). \<exists>an1 ty. more an1 an' \<and> resolve_type an1 t = Inr ty)"
proof (cases d)
  case (DStruct s)
  with assms obtain fs where fs: "map_result (\<lambda>f.
      and_then (resolve_stored_type an (DeclMessage HandleInStructField) (f_ty f)) (\<lambda>ty. Inr (f_name f, ty))) (s_fields s) = Inr fs"
    and more: "more an an'"
    by (auto simp: collect_struct_def and_then_eq_Inr more_def subset_insertI split: if_splits)
  have "\<exists>ty. resolve_type an (f_ty f) = Inr ty" if "f \<in> set (s_fields s)" for f
    using map_result_all [OF fs] that by (auto simp: and_then_eq_Inr resolve_stored_type_def split: if_splits)
  with more DStruct show ?thesis by auto
next
  case (DEnum e)
  with assms obtain vs where vs: "map_result (\<lambda>v.
      and_then (map_result (resolve_stored_type an (DeclMessage HandleInEnumPayload)) (v_payload_types v))
        (\<lambda>payload. Inr (v_name v, payload))) (e_variants e) = Inr vs"
    and more: "more an an'"
    by (auto simp: collect_enum_def and_then_eq_Inr more_def subset_insertI split: if_splits)
  have "\<exists>ty. resolve_type an t = Inr ty" if "v \<in> set (e_variants e)" "t \<in> set (v_payload_types v)" for v t
    using map_result_all [OF vs] that
    by (fastforce simp: and_then_eq_Inr resolve_stored_type_def split: if_splits dest!: map_result_all)
  with more DEnum show ?thesis by auto
next
  case (DFn f)
  then show ?thesis using assms signature_types by (fastforce simp: collect_fn_def)
next
  case (DLet l)
  with assms show ?thesis
    by (auto simp: collect_let_def and_then_eq_Inr more_def split: if_splits intro: exI [of _ an])
next
  case (DExtern eb)
  with extern_types [of "eb_decls eb" an an'] assms show ?thesis by fastforce
qed (use assms more_refl in auto)

lemma collect_all_types:
  "each collect_decl ds an = Inr an' \<Longrightarrow>
     more an an' \<and> (\<forall>d \<in> set ds. \<forall>t \<in> set (decl_types d). \<exists>an1 ty. more an1 an' \<and> resolve_type an1 t = Inr ty)"
proof (induction ds arbitrary: an)
  case (Cons d ds)
  then obtain an1 where an1: "collect_decl d an = Inr an1" "each collect_decl ds an1 = Inr an'"
    by (auto simp: and_then_eq_Inr)
  from collect_types [OF an1(1)] Cons.IH [OF an1(2)] show ?case
    using more_trans by (metis set_ConsD)
qed (simp add: more_refl)

text \<open>Every type written in a declaration of an accepted program.\<close>

lemma declared_types_fine:
  assumes "each collect_decl ds an = Inr an'" "d \<in> set ds" "t \<in> set (decl_types d)"
  shows "fine_type (info_of an') (lower_type (info_of an') t)"
  using collect_all_types [OF assms(1)] assms(2,3) fine_type_resolved(1) by blast

section \<open>Functions and constants\<close>

lemma related_start: "collected an \<Longrightarrow> info = info_of an \<Longrightarrow> related info an lowering_start"
  by (auto simp: related_def collected_wf lowering_start_def collected_def lookup_var_def fun_eq_iff)

lemma related_push_analyzer: "related info an lw \<Longrightarrow> related info (push_scope an) lw"
  using wf_push_scope [of an]
  by (auto simp: related_def info_of_def push_scope_def lookup_var_def fun_eq_iff)

lemma related_param:
  assumes "bind_param prm an = Inr an'" "related info an lw" "lw_scopes lw \<noteq> []"
  shows "\<exists>lw'. lw_insert (p_name prm) (lower_type info (p_ty prm)) lw = Inr lw' \<and> extends_top lw lw' \<and>
    related info an' lw'"
proof -
  obtain s ss where ss: "lw_scopes lw = s # ss" using assms(3) by (cases "lw_scopes lw") auto
  from assms(1) obtain ty scope scopes where ty: "resolve_type an (p_ty prm) = Inr ty"
    and an': "an_scopes an = scope # scopes"
      "an' = an\<lparr>an_scopes := scope(p_name prm \<mapsto> \<lparr>bi_ty = ty, bi_is_mut = False\<rparr>) # scopes\<rparr>"
    by (cases "an_scopes an") (auto simp: bind_param_def and_then_eq_Inr split: if_splits)
  have "lower_type info (p_ty prm) = ty"
    using lower_type_resolved(1) [OF _ _ ty] related_tables [OF assms(2)] by simp
  moreover define lw' where "lw' = lw\<lparr>lw_scopes := s(p_name prm \<mapsto> ty) # ss\<rparr>"
  have "wf_analyzer an'"
    using bind_param_extends [OF related_wf [OF assms(2)], of prm] an'(1) assms(1) by (simp add: extends_def)
  moreover have "find_in_scopes (lw_scopes lw') n = map_option bi_ty (lookup_var an' n)" for n
  proof -
    have "find_in_scopes (lw_scopes lw) n = map_option bi_ty (lookup_var an n)"
      using assms(2) by (simp add: related_def)
    then show ?thesis using ss an' by (simp add: lw'_def lookup_var_def)
  qed
  ultimately show ?thesis
    using assms(2) ss an' by (auto simp: lw_insert_def related_def info_of_def extends_top_def lw'_def fun_eq_iff)
qed

lemma bind_param_return: "bind_param prm an = Inr an' \<Longrightarrow>
    an_current_fn_return_type an' = an_current_fn_return_type an \<and> an_loop_depth an' = an_loop_depth an"
  by (cases "an_scopes an") (auto simp: bind_param_def and_then_eq_Inr split: if_splits)

lemma related_params:
  "each bind_param ps an = Inr an' \<Longrightarrow> related info an lw \<Longrightarrow> lw_scopes lw \<noteq> [] \<Longrightarrow>
     an_current_fn_return_type an' = an_current_fn_return_type an \<and> an_loop_depth an' = an_loop_depth an \<and>
     (\<exists>lw'. each (\<lambda>(name, ty) lw. lw_insert name ty lw) (lower_params info ps) lw = Inr lw' \<and>
       extends_top lw lw' \<and> related info an' lw')"
proof (induction ps arbitrary: an lw)
  case Nil
  then show ?case by (auto simp: lower_params_def intro: extends_top_refl)
next
  case (Cons prm ps)
  then obtain an1 where an1: "bind_param prm an = Inr an1" "each bind_param ps an1 = Inr an'"
    by (auto simp: and_then_eq_Inr)
  obtain lw1 where lw1: "lw_insert (p_name prm) (lower_type info (p_ty prm)) lw = Inr lw1"
    "extends_top lw lw1" "related info an1 lw1"
    using related_param [OF an1(1) Cons.prems(2,3)] by blast
  from Cons.IH [OF an1(2) lw1(3) extends_top_scopes [OF lw1(2)]] bind_param_return [OF an1(1)] lw1
  show ?case by (auto simp: lower_params_def intro: extends_top_trans)
qed

lemma lower_fn_agrees:
  assumes "suits p info" "collected an" "info = info_of an" "check_fn f an = Inr an'"
    and ok: "ok_decl (DFn f)" and fine: "\<And>t. t \<in> set (decl_types (DFn f)) \<Longrightarrow> fine_type info (lower_type info t)"
  shows "\<exists>g. lower_fn info f lowering_start = Inr (g, lowering_start) \<and> verify_fn p g = [] \<and>
    rely_block p (ifd_name g) 0 (ifd_body g)"
proof -
  from assms(4) obtain ret an1 bt an2 where ret: "resolve_return an (fn_return_type f) = Inr ret"
    and params: "each bind_param (fn_params f) (in_function an ret (fn_is_pure f)) = Inr an1"
    and body: "check_block check_stmt check_expr (fn_body f) (Some ret) an1 = Inr (bt, an2)"
    by (auto simp: check_fn_def and_then_eq_Inr in_function_def)
  let ?in = "in_function an ret (fn_is_pure f)"
  let ?lw = "lw_push_scope (lowering_start\<lparr>lw_current_fn_return_type := Some ret\<rparr>)"
  have tabs: "an_structs an = sem_structs info" "an_enums an = sem_enums info"
    using related_tables [OF related_start [OF assms(2,3)]] by simp_all
  have decl: "declared an ret" using resolve_return_yields [of an "fn_return_type f"] ret by simp
  have lret: "lower_return_type info (fn_return_type f) = ret"
    using ret lower_type_resolved(1) [OF tabs]
    by (cases "fn_return_type f") (simp_all add: resolve_return_def lower_return_type_def)
  have "lookup_var ?in = Map.empty"
    using in_function_wf(2) [OF assms(2) decl] by (auto simp: lookup_var_def fun_eq_iff)
  moreover have "info_of ?in = info" "an_current_fn_return_type ?in = Some ret" "an_loop_depth ?in = 0"
    using assms(2) unfolding assms(3) by (simp_all add: in_function_def push_scope_def info_of_def collected_def)
  ultimately have rel: "related info ?in ?lw" "an_current_fn_return_type ?in = Some ret" "an_loop_depth ?in = 0"
    using in_function_wf(1) [OF assms(2) decl]
    by (auto simp: related_def lw_push_scope_def lowering_start_def fun_eq_iff)
  have ne: "lw_scopes ?lw \<noteq> []" by (simp add: lw_push_scope_def)
  obtain lw1 where lw1: "each (\<lambda>(name, ty) lw. lw_insert name ty lw) (lower_params info (fn_params f)) ?lw = Inr lw1"
    "extends_top ?lw lw1" "related info an1 lw1" "an_current_fn_return_type an1 = Some ret" "an_loop_depth an1 = 0"
    using related_params [OF params rel(1) ne] rel by auto
  have "fits True True False True (Some ret) (push_scope an1) lw1"
    using lw1(2,4) by (auto simp: fits_def extends_top_def lw_push_scope_def lowering_start_def result_context_def
        infer_result_type_def push_scope_def split: bc_type.splits)
  moreover have "wf_expected (push_scope an1) (Some ret)"
    using lw1(3,4) by (simp add: related_def wf_analyzer_def)
  moreover obtain an3 an4 where "each check_stmt (b_stmts (fn_body f)) (push_scope an1) = Inr an3"
    "(case b_tail_expr (fn_body f) of Some e \<Rightarrow> check_expr e (Some ret) an3 | None \<Rightarrow> Inr (BcUnit, an3)) = Inr (bt, an4)"
    using check_block_items [OF body] by blast
  ultimately have "lowers_block p (push_scope an1) bt lw1 (lower_block info (fn_body f) lw1)"
    using ok
    by (intro lower_items [OF all_agree(3) [OF assms(1)] related_push_analyzer [OF lw1(3)] extends_top_scopes [OF lw1(2)]])
      auto
  then obtain b lw2 where b: "lower_block info (fn_body f) lw1 = Inr (b, lw2)" "extends_top lw1 lw2"
    "\<And>ctx. rely_block p ctx 0 b"
    using lw1(5) by (auto simp: lowers_block_def push_scope_def)
  have "(lw_pop_scope lw2)\<lparr>lw_current_fn_return_type := None\<rparr> = lowering_start"
    using extends_top_pop [OF extends_top_trans [OF lw1(2) b(2)]] by (simp add: lowering_start_def)
  note restored = this
  have types: "verify_type p ctx (lower_type info t) = []" if "t \<in> set (decl_types (DFn f))" for t ctx
    using fine [OF that] assms(1) by (simp add: fine_type_def)
  have "verify_type p ctx ret = []" for ctx
    using types lret by (auto simp: lower_return_type_def split: option.splits)
  moreover have "verify_type p ctx ty = []" if "(n, ty) \<in> set (lower_params info (fn_params f))" for ctx n ty
    using types that by (auto simp: lower_params_def)
  ultimately show ?thesis
    using restored lw1(1) b(1,3) lret rely_verifies(2) [OF b(3)]
    by (auto simp: lower_fn_def Let_def verify_fn_def lowering_start_def)
qed

lemma lower_const_agrees:
  assumes "suits p info" "collected an" "info = info_of an" "check_top_let l an = Inr an'"
    and ok: "ok_decl (DLet l)"
  shows "\<exists>g. lower_const info l lowering_start = Inr (g, lowering_start) \<and>
    verify_type p (icd_name g) (icd_ty g) = [] \<and> rely_expr p (icd_name g) 0 (icd_value g)"
proof -
  from assms(4) obtain ty t where ty: "resolve_type an (l_ty l) = Inr ty"
    and val: "check_expr (l_value l) (Some ty) (push_scope an) = Inr (t, push_scope an)"
    by (auto simp: check_top_let_def and_then_eq_Inr check_at)
  have lt: "lower_type info (l_ty l) = ty"
    using lower_type_resolved(1) [OF _ _ ty] related_tables [OF related_start [OF assms(2,3)]] by simp
  have decl: "declared an ty" using declared_resolve(1) [of an "l_ty l"] ty by simp
  have "lowers p (push_scope an) t lowering_start (with_expected (lower_expr info) (Some ty) (l_value l) lowering_start)"
    using ok decl
    by (intro with_expected_lowers [OF all_agree(1) [OF assms(1)]
          related_push_analyzer [OF related_start [OF assms(2,3)]] _ _ val, where f = False and c = False]) simp_all
  moreover have "an_loop_depth (push_scope an) = 0" using assms(2) by (simp add: collected_def push_scope_def)
  moreover have "verify_type p ctx ty = []" for ctx
    using verify_declared [OF assms(1) assms(3) [symmetric] decl] .
  ultimately show ?thesis
    using lt by (auto simp: lower_const_def Let_def lowers_def)
qed

section \<open>The program\<close>

text \<open>What the verifier says of the declarations that have been lowered.\<close>

definition verified :: "ir_program \<Rightarrow> ir_program \<Rightarrow> bool" where
  "verified q p \<longleftrightarrow>
     list_all (\<lambda>g. verify_fn q g = [] \<and> rely_block q (ifd_name g) 0 (ifd_body g)) (ip_fn_defs p) \<and>
     list_all (\<lambda>g. \<forall>n ty. (n, ty) \<in> set (isd_fields g) \<longrightarrow> verify_type q (isd_name g) ty = []) (ip_struct_defs p) \<and>
     list_all (\<lambda>g. \<forall>v \<in> set (ied_variants g). \<forall>ty \<in> set (snd v). verify_type q (ied_name g) ty = []) (ip_enum_defs p) \<and>
     list_all (\<lambda>blk. list_all (\<lambda>g. verify_extern_fn q g = []) (ixb_decls blk)) (ip_extern_blocks p) \<and>
     list_all (\<lambda>g. verify_type q (icd_name g) (icd_ty g) = [] \<and> rely_expr q (icd_name g) 0 (icd_value g))
       (ip_const_defs p)"

lemma verified_verify: "verified p p \<Longrightarrow> verify p = Inr ()"
  by (auto simp: verified_def verify_def verify_all_def list_all_iff dest: rely_verifies(1))

lemma lower_decl_agrees:
  assumes "collected an" "info = info_of an" "check_decl d an = Inr an'" "ok_decl d"
    and fine: "\<And>t. t \<in> set (decl_types d) \<Longrightarrow> fine_type info (lower_type info t)"
    and q: "suits q info"
  shows "\<exists>p'. lower_decl info d (p, lowering_start) = Inr (p', lowering_start) \<and>
    (verified q p \<longrightarrow> verified q p') \<and>
    ip_structs p' = ip_structs p \<and> ip_enums p' = ip_enums p \<and> ip_functions p' = ip_functions p"
proof (cases d)
  case (DFn f)
  have "check_fn f an = Inr an'" "ok_decl (DFn f)" using assms(3,4) DFn by simp_all
  then obtain g where
    "lower_fn info f lowering_start = Inr (g, lowering_start)" "verify_fn q g = []"
    "rely_block q (ifd_name g) 0 (ifd_body g)"
    using lower_fn_agrees [OF q assms(1,2)] fine DFn by blast
  with DFn show ?thesis by (simp add: lower_decl_def verified_def)
next
  case (DLet l)
  have "check_top_let l an = Inr an'" "ok_decl (DLet l)" using assms(3,4) DLet by simp_all
  then obtain g where
    "lower_const info l lowering_start = Inr (g, lowering_start)"
    "verify_type q (icd_name g) (icd_ty g) = []" "rely_expr q (icd_name g) 0 (icd_value g)"
    using lower_const_agrees [OF q assms(1,2)] by blast
  with DLet show ?thesis by (simp add: lower_decl_def verified_def)
next
  case (DStruct s)
  then show ?thesis
    using fine q by (auto simp: lower_decl_def lower_struct_def verified_def fine_type_def)
next
  case (DEnum e)
  then show ?thesis
    using fine q by (auto simp: lower_decl_def lower_enum_def verified_def fine_type_def)
next
  case (DExtern eb)
  have "verify_extern_fn q g = []"
    if "g \<in> set (ixb_decls (lower_extern_block info eb))" for g
    using that DExtern fine q fine_unit
    by (fastforce simp: lower_extern_block_def verify_extern_fn_def lower_params_def lower_return_type_def
        fine_type_def split: option.splits)
  with DExtern show ?thesis by (auto simp: lower_decl_def verified_def list_all_iff)
qed (simp add: lower_decl_def)

lemma lower_decls_agree:
  assumes "collected an" "info = info_of an" "suits q info"
  shows "each check_decl ds an = Inr an' \<Longrightarrow> list_all ok_decl ds \<Longrightarrow>
     (\<And>d t. d \<in> set ds \<Longrightarrow> t \<in> set (decl_types d) \<Longrightarrow> fine_type info (lower_type info t)) \<Longrightarrow>
     \<exists>p'. each (lower_decl info) ds (p, lowering_start) = Inr (p', lowering_start) \<and>
       (verified q p \<longrightarrow> verified q p') \<and>
       ip_structs p' = ip_structs p \<and> ip_enums p' = ip_enums p \<and> ip_functions p' = ip_functions p"
proof (induction ds arbitrary: p)
  case (Cons d ds)
  then obtain an1 where d: "check_decl d an = Inr an1" "each check_decl ds an1 = Inr an'"
    by (auto simp: and_then_eq_Inr)
  have ok: "ok_decl d" "list_all ok_decl ds" using Cons.prems(2) by simp_all
  have fine: "fine_type info (lower_type info t)" if "t \<in> set (decl_types d)" for t
    by (rule Cons.prems(3) [OF _ that]) simp
  have rest: "fine_type info (lower_type info t)" if "e \<in> set ds" "t \<in> set (decl_types e)" for e t
    by (rule Cons.prems(3) [OF _ that(2)]) (simp add: that(1))
  have "an1 = an" using check_decl_yields [OF assms(1), of d] d(1) by simp
  with d(2) have "each check_decl ds an = Inr an'" by simp
  from Cons.IH [OF this ok(2)]
  have again: "\<exists>p'. each (lower_decl info) ds (q1, lowering_start) = Inr (p', lowering_start) \<and>
      (verified q q1 \<longrightarrow> verified q p') \<and>
      ip_structs p' = ip_structs q1 \<and> ip_enums p' = ip_enums q1 \<and> ip_functions p' = ip_functions q1" for q1
    by (rule meta_mp) (use rest in blast)+
  obtain p1 where p1: "lower_decl info d (p, lowering_start) = Inr (p1, lowering_start)"
    "verified q p \<longrightarrow> verified q p1"
    "ip_structs p1 = ip_structs p" "ip_enums p1 = ip_enums p" "ip_functions p1 = ip_functions p"
    using lower_decl_agrees [OF assms(1,2) d(1) ok(1) fine assms(3), of p] by blast
  obtain p' where "each (lower_decl info) ds (p1, lowering_start) = Inr (p', lowering_start)"
    "verified q p1 \<longrightarrow> verified q p'"
    "ip_structs p' = ip_structs p1" "ip_enums p' = ip_enums p1" "ip_functions p' = ip_functions p1"
    using again [of p1] by blast
  with p1 show ?case using \<open>an1 = an\<close> by auto
qed simp

lemma lower_accepted_relied:
  assumes "analyze prog = Inr info" "list_all ok_decl (decls prog)" "names_apart info"
  obtains p where "lower_program prog info = Inr p" "verified p p" "suits p info"
proof -
  obtain an an' where an: "each collect_decl (decls prog) (analyzer_new\<lparr>an_functions := register_builtins\<rparr>) = Inr an"
    "each check_decl (decls prog) an = Inr an'" "info = info_of an'"
    using assms(1) by (auto simp: analyze_def and_then_eq_Inr info_of_def)
  have coll: "collected an" using collect_all_yields [of "decls prog"] an(1) by simp
  have "an' = an" using check_all_yields [OF coll, of "decls prog"] an(2) by simp
  then have info: "info = info_of an" using an(3) by simp
  let ?start = "\<lparr>ip_structs = sem_structs info, ip_enums = sem_enums info, ip_functions = sem_functions info,
    ip_constants = sem_constants info, ip_struct_defs = [], ip_enum_defs = [], ip_extern_blocks = [],
    ip_const_defs = [], ip_fn_defs = []\<rparr>"
  have fine: "fine_type info (lower_type info t)" if "d \<in> set (decls prog)" "t \<in> set (decl_types d)" for d t
    using declared_types_fine [OF an(1) that] info by simp
  have step: "\<exists>p'. each (lower_decl info) (decls prog) (?start, lowering_start) = Inr (p', lowering_start) \<and>
      (verified q ?start \<longrightarrow> verified q p') \<and> ip_structs p' = ip_structs ?start \<and>
      ip_enums p' = ip_enums ?start \<and> ip_functions p' = ip_functions ?start"
    if "suits q info" for q
    by (rule lower_decls_agree [OF coll info that an(2) assms(2) fine])
  have "suits ?start info" using assms(3) by (simp add: suits_def)
  from step [OF this] obtain p where p: "each (lower_decl info) (decls prog) (?start, lowering_start) = Inr (p, lowering_start)"
    "ip_structs p = sem_structs info" "ip_enums p = sem_enums info" "ip_functions p = sem_functions info" by auto
  then have "suits p info" using assms(3) by (simp add: suits_def)
  from step [OF this] p(1) have "verified p ?start \<longrightarrow> verified p p" by auto
  then have "verified p p" by (simp add: verified_def)
  moreover have "lower_program prog info = Inr p" using p(1) by (simp add: lower_program_def)
  ultimately show thesis using that \<open>suits p info\<close> by blast
qed

lemma lower_accepted:
  assumes "analyze prog = Inr info" "list_all ok_decl (decls prog)" "names_apart info"
  obtains p where "lower_program prog info = Inr p" "verify p = Inr ()"
  using lower_accepted_relied [OF assms] verified_verify by blast

end
