(* ===== verification/Layout.thy ===== *)
theory Layout
  imports LowerProgram
begin

text \<open>
  The memory layout of values in the native back ends, \<open>src/src/backend/layout.rs\<close>, with the
  machine types of \<open>src/src/backend/lir.rs\<close>. Sizes and offsets are \<open>u32\<close> with the wrap-around
  of the release build.

  The layout of a struct needs those of its fields, whose names are looked up in the program:
  \<open>layout_fuel n\<close> follows at most \<open>n\<close> types into one another. \<open>CLayout\<close> shows that the tables
  of an accepted program never need more than some \<open>n\<close>, and relates the sizes to the layout
  rules of C without the bound of 32 bits.
\<close>

type_synonym u32 = "32 word"

section \<open>Machine types\<close>

datatype ltype = LI8 | LI32 | LI64 | LF64 | LPtr

fun ltype_size :: "ltype \<Rightarrow> u32" where
  "ltype_size LI8 = 1"
| "ltype_size LI32 = 4"
| "ltype_size LI64 = 8"
| "ltype_size LF64 = 8"
| "ltype_size LPtr = 8"

datatype repr = ReprUnit | ReprScalar ltype | ReprPointer

definition enum_has_payload :: "string \<Rightarrow> ir_program \<Rightarrow> bool" where
  "enum_has_payload name p =
     (case ip_enums p name of
        Some info \<Rightarrow> list_ex (\<lambda>(_, tys). tys \<noteq> []) (ei_variants info)
      | None \<Rightarrow> False)"

definition repr_of :: "bc_type \<Rightarrow> ir_program \<Rightarrow> repr" where
  "repr_of ty p =
     (case ty of
        BcUnit \<Rightarrow> ReprUnit
      | BcI32 \<Rightarrow> ReprScalar LI32
      | BcI64 \<Rightarrow> ReprScalar LI64
      | BcF64 \<Rightarrow> ReprScalar LF64
      | BcBool \<Rightarrow> ReprScalar LI8
      | BcEnum name \<Rightarrow> if enum_has_payload name p then ReprPointer else ReprScalar LI32
      | _ \<Rightarrow> ReprPointer)"

fun lir_type :: "repr \<Rightarrow> ltype option" where
  "lir_type ReprUnit = None"
| "lir_type (ReprScalar t) = Some t"
| "lir_type ReprPointer = Some LPtr"

section \<open>Sizes and alignments\<close>

record layout =
  ly_size :: u32
  ly_align :: u32

definition scalar :: "u32 \<Rightarrow> layout" where
  "scalar n = \<lparr>ly_size = n, ly_align = n\<rparr>"

definition pointer_size :: u32 where
  "pointer_size = 8"

definition round_up :: "u32 \<Rightarrow> u32 \<Rightarrow> u32" where
  "round_up val align =
     (if align \<le> 1 then val else (val + align - 1) div align * align)"

definition empty_layout :: layout where
  "empty_layout = \<lparr>ly_size = 0, ly_align = 1\<rparr>"

definition ly_place :: "layout \<Rightarrow> layout \<Rightarrow> u32 \<times> layout" where
  "ly_place self field =
     (let offset = round_up (ly_size self) (max (ly_align field) 1) in
      (offset, \<lparr>ly_size = offset + ly_size field, ly_align = max (ly_align self) (ly_align field)\<rparr>))"

definition ly_finish :: "layout \<Rightarrow> layout" where
  "ly_finish self = self\<lparr>ly_size := round_up (ly_size self) (max (ly_align self) 1)\<rparr>"

fun place_all :: "(bc_type \<Rightarrow> failure + layout) \<Rightarrow> bc_type list \<Rightarrow> layout \<Rightarrow> failure + (u32 list \<times> layout)" where
  "place_all lay [] acc = Inr ([], acc)"
| "place_all lay (ty # tys) acc =
     and_then (lay ty) (\<lambda>l.
     case ly_place acc l of
       (offset, acc) \<Rightarrow>
         and_then (place_all lay tys acc) (\<lambda>(offsets, acc). Inr (offset # offsets, acc)))"

definition sequential_layout ::
  "(bc_type \<Rightarrow> failure + layout) \<Rightarrow> bc_type list \<Rightarrow> failure + (u32 list \<times> layout)" where
  "sequential_layout lay tys =
     and_then (place_all lay tys empty_layout) (\<lambda>(offsets, l). Inr (offsets, ly_finish l))"

definition struct_layout_with ::
  "(bc_type \<Rightarrow> failure + layout) \<Rightarrow> string \<Rightarrow> ir_program \<Rightarrow> failure + (u32 list \<times> layout)" where
  "struct_layout_with lay name p =
     (case ip_structs p name of
        Some info \<Rightarrow> sequential_layout lay (map snd (si_fields info))
      | None \<Rightarrow> Inr ([], empty_layout))"

record enum_layout =
  el_has_payload :: bool
  el_payload_offset :: u32
  el_total :: layout
  el_variant_field_offsets :: "string \<rightharpoonup> u32 list"

definition tag_only :: enum_layout where
  "tag_only =
     \<lparr>el_has_payload = False, el_payload_offset = 0, el_total = scalar 4,
      el_variant_field_offsets = Map.empty\<rparr>"

fun union_layout ::
  "(bc_type \<Rightarrow> failure + layout) \<Rightarrow> (string \<times> bc_type list) list \<Rightarrow> layout \<times> (string \<rightharpoonup> u32 list) \<Rightarrow>
     failure + layout \<times> (string \<rightharpoonup> u32 list)" where
  "union_layout lay [] st = Inr st"
| "union_layout lay ((vname, tys) # vs) (u, offs) =
     and_then (sequential_layout lay tys) (\<lambda>(offsets, l).
     union_layout lay vs
       (\<lparr>ly_size = max (ly_size u) (ly_size l), ly_align = max (ly_align u) (max (ly_align l) 1)\<rparr>,
        offs(vname \<mapsto> offsets)))"

text \<open>A tag and, at the next offset that suits it, a union.\<close>

definition tagged :: "layout \<Rightarrow> layout \<Rightarrow> u32 \<times> layout" where
  "tagged tag u =
     (case ly_place (snd (ly_place empty_layout tag)) u of (offset, whole) \<Rightarrow> (offset, ly_finish whole))"

definition enum_layout_with ::
  "(bc_type \<Rightarrow> failure + layout) \<Rightarrow> string \<Rightarrow> ir_program \<Rightarrow> failure + enum_layout" where
  "enum_layout_with lay name p =
     (case ip_enums p name of
        None \<Rightarrow> Inr tag_only
      | Some info \<Rightarrow>
          if \<not> list_ex (\<lambda>(_, tys). tys \<noteq> []) (ei_variants info) then Inr tag_only
          else
            and_then (union_layout lay (ei_variants info) (empty_layout, Map.empty)) (\<lambda>(u, offs).
            case tagged (scalar 4) u of
              (payload_offset, whole) \<Rightarrow>
                Inr \<lparr>el_has_payload = True, el_payload_offset = payload_offset, el_total = whole,
                     el_variant_field_offsets =
                       (\<lambda>v. map_option (map (\<lambda>off. off + payload_offset)) (offs v))\<rparr>))"

record result_layout =
  rl_payload_offset :: u32
  rl_ok_offset :: u32
  rl_err_offset :: u32
  rl_total :: layout

definition result_layout_with ::
  "(bc_type \<Rightarrow> failure + layout) \<Rightarrow> bc_type \<Rightarrow> bc_type \<Rightarrow> failure + result_layout" where
  "result_layout_with lay ok err =
     and_then (lay ok) (\<lambda>ok_layout.
     and_then (lay err) (\<lambda>err_layout.
     case tagged (scalar 1)
            \<lparr>ly_size = max (ly_size ok_layout) (ly_size err_layout),
             ly_align = max (max (ly_align ok_layout) (ly_align err_layout)) 1\<rparr> of
       (payload_offset, whole) \<Rightarrow>
         Inr \<lparr>rl_payload_offset = payload_offset, rl_ok_offset = payload_offset,
              rl_err_offset = payload_offset, rl_total = whole\<rparr>))"

definition layout_with :: "(bc_type \<Rightarrow> failure + layout) \<Rightarrow> ir_program \<Rightarrow> bc_type \<Rightarrow> failure + layout" where
  "layout_with lay p ty =
     (case ty of
        BcUnit \<Rightarrow> Inr empty_layout
      | BcI32 \<Rightarrow> Inr (scalar 4)
      | BcI64 \<Rightarrow> Inr (scalar 8)
      | BcF64 \<Rightarrow> Inr (scalar 8)
      | BcBool \<Rightarrow> Inr (scalar 1)
      | BcHandle \<Rightarrow> Inr (scalar pointer_size)
      | BcStr \<Rightarrow> and_then (sequential_layout lay [BcHandle, BcI32]) (\<lambda>(_, l). Inr l)
      | BcStruct name \<Rightarrow> and_then (struct_layout_with lay name p) (\<lambda>(_, l). Inr l)
      | BcEnum name \<Rightarrow> and_then (enum_layout_with lay name p) (\<lambda>el. Inr (el_total el))
      | BcResult ok err \<Rightarrow> and_then (result_layout_with lay ok err) (\<lambda>rl. Inr (rl_total rl))
      | _ \<Rightarrow> Inr (scalar pointer_size))"

fun layout_fuel :: "nat \<Rightarrow> ir_program \<Rightarrow> bc_type \<Rightarrow> failure + layout" where
  "layout_fuel 0 p ty = Inl OutOfFuel"
| "layout_fuel (Suc n) p ty = layout_with (layout_fuel n p) p ty"

definition struct_layout :: "nat \<Rightarrow> string \<Rightarrow> ir_program \<Rightarrow> failure + (u32 list \<times> layout)" where
  "struct_layout n name p = struct_layout_with (layout_fuel n p) name p"

definition enum_layout_of :: "nat \<Rightarrow> string \<Rightarrow> ir_program \<Rightarrow> failure + enum_layout" where
  "enum_layout_of n name p = enum_layout_with (layout_fuel n p) name p"

definition result_layout_of :: "nat \<Rightarrow> bc_type \<Rightarrow> bc_type \<Rightarrow> ir_program \<Rightarrow> failure + result_layout" where
  "result_layout_of n ok err p = result_layout_with (layout_fuel n p) ok err"

text \<open>The search for a field by name; the two panics for a missing struct and a missing field.\<close>

fun field_offset :: "string \<Rightarrow> (string \<times> bc_type) list \<Rightarrow> u32 list \<Rightarrow> failure + (u32 \<times> bc_type)" where
  "field_offset name ((fname, fty) # fs) (off # offs) =
     (if fname = name then Inr (off, fty) else field_offset name fs offs)"
| "field_offset name _ _ = Inl Panicked"

definition struct_field_offset ::
  "nat \<Rightarrow> string \<Rightarrow> string \<Rightarrow> ir_program \<Rightarrow> failure + (u32 \<times> bc_type)" where
  "struct_field_offset n name field p =
     (case ip_structs p name of
        None \<Rightarrow> Inl Panicked
      | Some info \<Rightarrow>
          and_then (struct_layout n name p) (\<lambda>(offsets, _).
          field_offset field (si_fields info) offsets))"

end
