(* ===== verification/LayoutFuel.thy ===== *)
theory LayoutFuel
  imports Layout
begin

text \<open>
  The recursion over the fields of structs ends: more fuel never changes a layout, and the
  structs and enums of an accepted program, each of which is declared after the types it
  names, are laid out with some fuel.
\<close>

section \<open>Enough fuel\<close>

definition extends_layout :: "(bc_type \<Rightarrow> failure + layout) \<Rightarrow> (bc_type \<Rightarrow> failure + layout) \<Rightarrow> bool" where
  "extends_layout lay lay' \<longleftrightarrow> (\<forall>ty l. lay ty = Inr l \<longrightarrow> lay' ty = Inr l)"

lemma place_all_extends:
  "extends_layout lay lay' \<Longrightarrow> place_all lay tys acc = Inr r \<Longrightarrow> place_all lay' tys acc = Inr r"
  by (induction tys arbitrary: acc r)
    (auto simp: extends_layout_def and_then_eq_Inr case_prod_beta)

lemma sequential_extends:
  "extends_layout lay lay' \<Longrightarrow> sequential_layout lay tys = Inr r \<Longrightarrow> sequential_layout lay' tys = Inr r"
  by (auto simp: sequential_layout_def and_then_eq_Inr dest!: place_all_extends)

lemma union_extends:
  "extends_layout lay lay' \<Longrightarrow> union_layout lay vs st = Inr r \<Longrightarrow> union_layout lay' vs st = Inr r"
  by (induction lay vs st rule: union_layout.induct)
    (fastforce simp: and_then_eq_Inr dest: sequential_extends)+

lemma layout_with_extends:
  assumes "extends_layout lay lay'"
  shows "extends_layout (layout_with lay p) (layout_with lay' p)"
  unfolding extends_layout_def
proof (intro allI impI)
  fix ty l
  assume "layout_with lay p ty = Inr l"
  with assms show "layout_with lay' p ty = Inr l"
    by (cases ty)
      (auto simp: layout_with_def struct_layout_with_def enum_layout_with_def result_layout_with_def
        extends_layout_def and_then_eq_Inr case_prod_beta split: option.splits if_splits
        dest!: sequential_extends [OF assms] union_extends [OF assms])
qed

lemma layout_fuel_Suc: "layout_fuel (Suc n) p = layout_with (layout_fuel n p) p"
  by (rule ext) simp

lemma layout_fuel_mono:
  "layout_fuel n p ty = Inr l \<Longrightarrow> n \<le> m \<Longrightarrow> layout_fuel m p ty = Inr l"
proof -
  have "extends_layout (layout_fuel n p) (layout_fuel (Suc n) p)" for n
  proof (induction n)
    case (Suc n)
    from layout_with_extends [OF this, of p] show ?case by (simp add: layout_fuel_Suc)
  qed (simp add: extends_layout_def)
  then have "extends_layout (layout_fuel n p) (layout_fuel (n + k) p)" for k
    by (induction k) (auto simp: extends_layout_def)
  then show "layout_fuel n p ty = Inr l \<Longrightarrow> n \<le> m \<Longrightarrow> layout_fuel m p ty = Inr l"
    by (metis extends_layout_def le_Suc_ex)
qed

definition laid_out :: "ir_program \<Rightarrow> bc_type \<Rightarrow> bool" where
  "laid_out p ty \<longleftrightarrow> (\<exists>n l. layout_fuel n p ty = Inr l)"

lemma laid_out_all:
  assumes "\<forall>ty \<in> set tys. laid_out p ty"
  shows "\<exists>n. \<forall>m \<ge> n. \<forall>ty \<in> set tys. \<exists>l. layout_fuel m p ty = Inr l"
  using assms
proof (induction tys)
  case (Cons ty tys)
  then obtain n k l where "\<forall>m \<ge> n. \<forall>ty \<in> set tys. \<exists>l. layout_fuel m p ty = Inr l" "layout_fuel k p ty = Inr l"
    by (auto simp: laid_out_def)
  then show ?case by (intro exI [of _ "max n k"]) (auto dest: layout_fuel_mono)
qed simp

lemma place_all_total:
  "\<forall>ty \<in> set tys. \<exists>l. lay ty = Inr l \<Longrightarrow> \<exists>r. place_all lay tys acc = Inr r"
  proof (induction tys arbitrary: acc)
  case (Cons ty tys)
  then obtain l where "lay ty = Inr l" by auto
  moreover obtain r where "place_all lay tys (snd (ly_place acc l)) = Inr r" using Cons by fastforce
  ultimately show ?case by (simp add: case_prod_beta)
qed simp

lemma sequential_total:
  "\<forall>ty \<in> set tys. \<exists>l. lay ty = Inr l \<Longrightarrow> \<exists>r. sequential_layout lay tys = Inr r"
  using place_all_total [of tys lay empty_layout] by (fastforce simp: sequential_layout_def)

lemma union_total:
  "\<forall>v \<in> set vs. \<forall>ty \<in> set (snd v). \<exists>l. lay ty = Inr l \<Longrightarrow> \<exists>r. union_layout lay vs st = Inr r"
proof (induction lay vs st rule: union_layout.induct)
  case (2 lay vname tys vs u offs)
  then obtain r where "sequential_layout lay tys = Inr r"
    using sequential_total [of tys lay] by auto
  with 2 show ?case by (cases r) simp
qed simp

fun basic_type :: "bc_type \<Rightarrow> bool" where
  "basic_type (BcStruct _) = False"
| "basic_type (BcEnum _) = False"
| "basic_type (BcArray _) = False"
| "basic_type (BcFixedArray _ _) = False"
| "basic_type (BcResult _ _) = False"
| "basic_type (BcFnPtr _ _ _) = False"
| "basic_type _ = True"

text \<open>The types whose names lead to declared structs and enums, and end.\<close>

inductive grounded :: "(string \<rightharpoonup> struct_info) \<Rightarrow> (string \<rightharpoonup> enum_info) \<Rightarrow> bc_type \<Rightarrow> bool"
  for structs enums where
  basic: "basic_type ty \<Longrightarrow> grounded structs enums ty"
| struct: "structs n = Some info \<Longrightarrow> (\<And>ty. ty \<in> snd ` set (si_fields info) \<Longrightarrow> grounded structs enums ty) \<Longrightarrow>
    grounded structs enums (BcStruct n)"
| enum: "enums n = Some info \<Longrightarrow>
    (\<And>v ty. v \<in> set (ei_variants info) \<Longrightarrow> ty \<in> set (snd v) \<Longrightarrow> grounded structs enums ty) \<Longrightarrow>
    grounded structs enums (BcEnum n)"
| result: "grounded structs enums a \<Longrightarrow> grounded structs enums b \<Longrightarrow> grounded structs enums (BcResult a b)"
| array: "grounded structs enums e \<Longrightarrow> grounded structs enums (BcArray e)"
| fixed: "grounded structs enums e \<Longrightarrow> grounded structs enums (BcFixedArray e k)"
| fn_ptr: "(\<And>ty. ty \<in> set params \<Longrightarrow> grounded structs enums ty) \<Longrightarrow> grounded structs enums ret \<Longrightarrow>
    grounded structs enums (BcFnPtr params ret pure)"

text \<open>Arrays and function pointers are pointers in memory.\<close>

lemma laid_out_scalar:
  assumes "\<forall>n. ty \<noteq> BcStruct n" "\<forall>n. ty \<noteq> BcEnum n" "\<forall>a b. ty \<noteq> BcResult a b"
  shows "laid_out p ty"
proof -
  from assms have "\<exists>l. layout_fuel 3 p ty = Inr l"
    by (cases ty) (simp_all add: numeral_3_eq_3 layout_with_def sequential_layout_def case_prod_beta)
  then show ?thesis unfolding laid_out_def by blast
qed

lemma grounded_laid_out:
  "grounded (ip_structs p) (ip_enums p) ty \<Longrightarrow> laid_out p ty"
proof (induction ty rule: grounded.induct)
  case (basic ty)
  then show ?case by (cases ty) (simp_all add: laid_out_scalar)
next
  case (struct n info)
  then obtain k where "\<forall>ty \<in> set (map snd (si_fields info)). \<exists>l. layout_fuel k p ty = Inr l"
    using laid_out_all [of "map snd (si_fields info)" p] by auto
  then obtain r where "sequential_layout (layout_fuel k p) (map snd (si_fields info)) = Inr r"
    using sequential_total by blast
  with struct(1) have "\<exists>l. layout_fuel (Suc k) p (BcStruct n) = Inr l"
    by (cases r) (simp add: layout_with_def struct_layout_with_def)
  then show ?case unfolding laid_out_def by blast
next
  case (enum n info)
  then obtain k where "\<forall>ty \<in> set (concat (map snd (ei_variants info))). \<exists>l. layout_fuel k p ty = Inr l"
    using laid_out_all [of "concat (map snd (ei_variants info))" p] by fastforce
  then obtain r where "union_layout (layout_fuel k p) (ei_variants info) (empty_layout, Map.empty) = Inr r"
    using union_total [of "ei_variants info" "layout_fuel k p"] by fastforce
  with enum(1) have "\<exists>l. layout_fuel (Suc k) p (BcEnum n) = Inr l"
    by (cases r) (simp add: layout_with_def enum_layout_with_def split: prod.split)
  then show ?case unfolding laid_out_def by blast
next
  case (result a b)
  then obtain k where "\<forall>ty \<in> set [a, b]. \<exists>l. layout_fuel k p ty = Inr l"
    using laid_out_all [of "[a, b]" p] by (metis empty_iff empty_set order_refl set_ConsD)
  then have "\<exists>l. layout_fuel (Suc k) p (BcResult a b) = Inr l"
    by (auto simp: layout_with_def result_layout_with_def split: prod.split)
  then show ?case unfolding laid_out_def by blast
qed (simp_all add: laid_out_scalar)

lemma grounded_mono:
  "grounded structs enums ty \<Longrightarrow> structs \<subseteq>\<^sub>m structs' \<Longrightarrow> enums \<subseteq>\<^sub>m enums' \<Longrightarrow> grounded structs' enums' ty"
proof (induction ty rule: grounded.induct)
  case (struct n info)
  then show ?case by (intro grounded.struct [of _ n info]) (auto simp: map_le_def dom_def)
next
  case (enum n info)
  then show ?case by (intro grounded.enum [of _ n info]) (auto simp: map_le_def dom_def)
qed (auto intro: grounded.intros(1,4-))

section \<open>The tables of an accepted program are grounded\<close>

definition grounded_tables :: "analyzer \<Rightarrow> bool" where
  "grounded_tables an \<longleftrightarrow> (\<forall>t. declared an t \<longrightarrow> grounded (an_structs an) (an_enums an) t)"

text \<open>It is enough that the entries of the tables are grounded.\<close>

lemma grounded_tablesI:
  assumes "\<And>n info ty. an_structs an n = Some info \<Longrightarrow> ty \<in> snd ` set (si_fields info) \<Longrightarrow>
      grounded (an_structs an) (an_enums an) ty"
    and "\<And>n info v ty. an_enums an n = Some info \<Longrightarrow> v \<in> set (ei_variants info) \<Longrightarrow> ty \<in> set (snd v) \<Longrightarrow>
      grounded (an_structs an) (an_enums an) ty"
  shows "grounded_tables an"
proof -
  have "declared an t \<Longrightarrow> grounded (an_structs an) (an_enums an) t" for t
    by (induction t)
      (auto intro: grounded.intros(1,4-) grounded.struct [OF _ assms(1)] grounded.enum [OF _ assms(2)] simp: list_all_iff)
  then show ?thesis by (simp add: grounded_tables_def)
qed

lemma grounded_struct:
  assumes "grounded_tables an" "an_structs an n = None" "\<forall>f \<in> set (si_fields info). declared an (snd f)"
    and old: "wf_tables an"
  shows "grounded_tables (an\<lparr>an_structs := (an_structs an)(n \<mapsto> info)\<rparr>)" (is "grounded_tables ?an")
proof (rule grounded_tablesI)
  have le: "an_structs an \<subseteq>\<^sub>m an_structs ?an" "an_enums an \<subseteq>\<^sub>m an_enums ?an"
    using assms(2) by (auto simp: map_le_def dom_def)
  have up: "grounded (an_structs ?an) (an_enums ?an) t" if "declared an t" for t
    using grounded_mono [OF _ le] assms(1) that by (simp add: grounded_tables_def)
  show "grounded (an_structs ?an) (an_enums ?an) ty"
    if "an_structs ?an m = Some si" "ty \<in> snd ` set (si_fields si)" for m si ty
    using that assms(3) old by (intro up) (auto simp: wf_tables_def ran_def split: if_splits)
  show "grounded (an_structs ?an) (an_enums ?an) ty"
    if "an_enums ?an m = Some ei" "v \<in> set (ei_variants ei)" "ty \<in> set (snd v)" for m ei v ty
    using that old by (intro up) (auto simp: wf_tables_def ran_def)
qed

lemma grounded_enum:
  assumes "grounded_tables an" "an_enums an n = None" "\<forall>v \<in> set (ei_variants info). \<forall>t \<in> set (snd v). declared an t"
    and old: "wf_tables an"
  shows "grounded_tables (an\<lparr>an_enums := (an_enums an)(n \<mapsto> info)\<rparr>)" (is "grounded_tables ?an")
proof (rule grounded_tablesI)
  have le: "an_structs an \<subseteq>\<^sub>m an_structs ?an" "an_enums an \<subseteq>\<^sub>m an_enums ?an"
    using assms(2) by (auto simp: map_le_def dom_def)
  have up: "grounded (an_structs ?an) (an_enums ?an) t" if "declared an t" for t
    using grounded_mono [OF _ le] assms(1) that by (simp add: grounded_tables_def)
  show "grounded (an_structs ?an) (an_enums ?an) ty"
    if "an_structs ?an m = Some si" "ty \<in> snd ` set (si_fields si)" for m si ty
    using that old by (intro up) (auto simp: wf_tables_def ran_def)
  show "grounded (an_structs ?an) (an_enums ?an) ty"
    if "an_enums ?an m = Some ei" "v \<in> set (ei_variants ei)" "ty \<in> set (snd v)" for m ei v ty
    using that assms(3) old by (intro up) (auto simp: wf_tables_def ran_def split: if_splits)
qed

lemma grounded_same:
  "grounded_tables an \<Longrightarrow> an_structs an' = an_structs an \<Longrightarrow> an_enums an' = an_enums an \<Longrightarrow> grounded_tables an'"
  using declared_cong [of an' an] by (simp add: grounded_tables_def)

definition laid_tables :: "analyzer \<Rightarrow> bool" where
  "laid_tables an \<longleftrightarrow> collected an \<and> grounded_tables an"

lemma laid_same:
  "laid_tables an \<Longrightarrow> collected an' \<Longrightarrow> an_structs an' = an_structs an \<Longrightarrow> an_enums an' = an_enums an \<Longrightarrow>
     laid_tables an'"
  unfolding laid_tables_def by (blast intro: grounded_same)

lemma laid_collect_struct: "laid_tables an \<Longrightarrow> yields laid_tables (collect_struct s an)"
  unfolding collect_struct_def
  by (rule yields_bind [OF map_result_yields [where P = "\<lambda>f. declared an (snd f)"]])
    (auto intro!: yields_bind [OF resolve_stored_yields] collected_struct grounded_struct
      simp: laid_tables_def collected_def [of an])

lemma laid_collect_enum: "laid_tables an \<Longrightarrow> yields laid_tables (collect_enum e an)"
  unfolding collect_enum_def
  by (rule yields_bind [OF map_result_yields [where P = "\<lambda>v. \<forall>t \<in> set (snd v). declared an t"]])
    (auto intro!: yields_bind [OF map_result_yields [OF resolve_stored_yields]] collected_enum grounded_enum
      simp: laid_tables_def collected_def [of an])

text \<open>The other declarations leave both tables alone.\<close>

lemma laid_signature:
  assumes "laid_tables an"
  shows "yields laid_tables (collect_signature n sp params ret pure extern dup an)"
proof -
  have "collected an" using assms by (simp add: laid_tables_def)
  from collect_signature_yields [OF this] show ?thesis
    using laid_same [OF assms]
    by (fastforce simp: yields_def collect_signature_def and_then_eq_Inr split: if_splits)
qed

lemma laid_let:
  assumes "laid_tables an"
  shows "yields laid_tables (collect_let l an)"
proof -
  have "collected an" using assms by (simp add: laid_tables_def)
  from collect_let_yields [OF this] show ?thesis
    using laid_same [OF assms]
    by (fastforce simp: yields_def collect_let_def and_then_eq_Inr split: if_splits)
qed

lemma laid_collect: "laid_tables an \<Longrightarrow> yields laid_tables (collect_decl d an)"
  by (cases d)
    (auto simp: collect_fn_def collect_extern_fn_def
      intro!: each_yields laid_collect_struct laid_collect_enum laid_signature laid_let)

lemma laid_new: "laid_tables (analyzer_new\<lparr>an_functions := register_builtins\<rparr>)"
  using collected_new by (auto simp: laid_tables_def analyzer_new_def intro!: grounded_tablesI)

lemma accepted_laid:
  assumes "analyze prog = Inr info" "declared (info_analyzer info) ty"
  shows "grounded (sem_structs info) (sem_enums info) ty"
proof -
  obtain an an' where an: "each collect_decl (decls prog) (analyzer_new\<lparr>an_functions := register_builtins\<rparr>) = Inr an"
    "each check_decl (decls prog) an = Inr an'" "info = info_of an'"
    using assms(1) by (auto simp: analyze_def and_then_eq_Inr info_of_def)
  have laid: "laid_tables an"
    using each_yields [where I = laid_tables, OF laid_new laid_collect, of "decls prog"] an(1) by (simp add: yields_def)
  have "an' = an" using check_all_yields [of an "decls prog"] laid an(2) by (simp add: laid_tables_def)
  with an(3) have "sem_structs info = an_structs an" "sem_enums info = an_enums an" by (simp_all add: info_of_def)
  note tabs = this
  from tabs have "an_structs (info_analyzer info) = an_structs an" "an_enums (info_analyzer info) = an_enums an"
    by (simp_all add: info_analyzer_def)
  from declared_cong [OF this] assms(2) have "declared an ty" by blast
  with tabs show ?thesis using laid by (simp add: laid_tables_def grounded_tables_def)
qed

end
