(* ===== verification/COrder.thy ===== *)
theory COrder
  imports CTypes LayoutFuel "HOL-Library.Multiset"
begin

text \<open>
  The order of the C declarations: when the names of types tell them apart and the structs and
  enums are declared after the types that they mention, a declaration that is ready is always
  found, and each type is declared after all the types it needs.
\<close>

section \<open>The types inside a type\<close>

fun subtypes :: "bc_type \<Rightarrow> bc_type set" where
  "subtypes (BcArray e) = insert (BcArray e) (subtypes e)"
| "subtypes (BcFixedArray e n) = insert (BcFixedArray e n) (subtypes e)"
| "subtypes (BcResult ok err) = insert (BcResult ok err) (subtypes ok \<union> subtypes err)"
| "subtypes (BcFnPtr ps r pr) = insert (BcFnPtr ps r pr) (\<Union> (set (map (\<lambda>p. subtypes p) ps)) \<union> subtypes r)"
| "subtypes ty = {ty}"

text \<open>Names of C types do not tell pure function pointers from others.\<close>

fun erase :: "bc_type \<Rightarrow> bc_type" where
  "erase (BcArray e) = BcArray (erase e)"
| "erase (BcFixedArray e n) = BcFixedArray (erase e) n"
| "erase (BcResult ok err) = BcResult (erase ok) (erase err)"
| "erase (BcFnPtr ps r pr) = BcFnPtr (map (\<lambda>p. erase p) ps) (erase r) False"
| "erase ty = ty"

lemma type_tag_erase [simp]: "type_tag (erase ty) = type_tag ty"
  by (induction ty) (simp_all add: comp_def cong: map_cong)

lemma erase_type_tag: "erase a = erase b \<Longrightarrow> type_tag a = type_tag b"
  by (metis type_tag_erase)

lemma available_erase [simp]: "c_type_is_available (erase ty) = c_type_is_available ty"
  by (cases ty) (simp_all add: fun_eq_iff result_type_name_def fn_ptr_typedef_name_def comp_def)

lemma subtypes_self [simp]: "ty \<in> subtypes ty"
  by (cases ty) auto

lemma subtypes_trans: "a \<in> subtypes b \<Longrightarrow> b \<in> subtypes c \<Longrightarrow> a \<in> subtypes c"
  by (induction c) auto

section \<open>Declarations that are found\<close>

lemma next_ready_Some:
  "\<exists>d \<in> set pending. type_decl_is_ready d available \<Longrightarrow>
     \<exists>d rest. next_ready pending available = Some (d, rest) \<and> type_decl_is_ready d available \<and>
       mset pending = add_mset d (mset rest)"
  by (induction pending) fastforce+

text \<open>Each declaration is ready when the ones before it have been emitted.\<close>

definition in_turn :: "c_type_decl list \<Rightarrow> bool" where
  "in_turn ds \<longleftrightarrow> (\<forall>i < length ds. type_decl_is_ready (ds ! i) (type_decl_name ` set (take i ds)))"

lemma in_turn_snoc: "in_turn (ds @ [d]) \<longleftrightarrow> in_turn ds \<and> type_decl_is_ready d (type_decl_name ` set ds)"
  by (auto simp: in_turn_def nth_append less_Suc_eq)

text \<open>No part of the declarations is stuck.\<close>

definition never_stuck :: "c_type_decl list \<Rightarrow> bool" where
  "never_stuck all \<longleftrightarrow>
     (\<forall>emitted rest. mset emitted + mset rest = mset all \<longrightarrow> rest \<noteq> [] \<longrightarrow>
        (\<exists>d \<in> set rest. type_decl_is_ready d (type_decl_name ` set emitted)))"

lemma emit_pending_in_order:
  assumes "never_stuck all" "mset emitted + mset pending = mset all" "in_turn emitted"
  shows "\<exists>ds. mset (emitted @ ds) = mset all \<and> in_turn (emitted @ ds) \<and>
    (\<forall>cg. emit_pending pending (type_decl_name ` set emitted) cg = do_all (map emit_type_decl ds) cg)"
  using assms(2,3)
proof (induction "length pending" arbitrary: pending emitted)
  case 0
  then show ?case by (auto simp: emit_pending.simps intro!: exI [of _ "[]"])
next
  case (Suc n)
  let ?av = "type_decl_name ` set emitted"
  from Suc.hyps(2) have ne: "pending \<noteq> []" by auto
  with assms(1) Suc.prems(1) have "\<exists>d \<in> set pending. type_decl_is_ready d ?av"
    unfolding never_stuck_def by blast
  from next_ready_Some [OF this] obtain d rest where nxt: "next_ready pending ?av = Some (d, rest)"
    and ready: "type_decl_is_ready d ?av" and split: "mset pending = add_mset d (mset rest)"
    by blast
  have len: "n = length rest" using split Suc.hyps(2) by (metis size_add_mset size_mset nat.inject)
  have "mset (emitted @ [d]) + mset rest = mset all" using split Suc.prems(1) by simp
  moreover have "in_turn (emitted @ [d])" using Suc.prems(2) ready by (simp add: in_turn_snoc)
  ultimately obtain ds where ds: "mset ((emitted @ [d]) @ ds) = mset all" "in_turn ((emitted @ [d]) @ ds)"
    "\<forall>cg. emit_pending rest (type_decl_name ` set (emitted @ [d])) cg = do_all (map emit_type_decl ds) cg"
    using Suc.hyps(1) [OF len] by blast
  from ds(3) have "emit_pending pending ?av cg = do_all (map emit_type_decl (d # ds)) cg" for cg
    by (subst emit_pending.simps) (auto simp: nxt ne do_then_def intro!: and_then_cong)
  with ds(1,2) show ?case by (intro exI [of _ "d # ds"]) simp
qed

section \<open>When they are found\<close>

text \<open>The name under which a type is declared.\<close>

fun c_decl_name :: "bc_type \<Rightarrow> string option" where
  "c_decl_name (BcResult ok err) = Some (result_type_name ok err)"
| "c_decl_name (BcFnPtr ps r pr) = Some (fn_ptr_typedef_name (BcFnPtr ps r pr))"
| "c_decl_name _ = None"

fun decl_types_of :: "c_type_decl \<Rightarrow> bc_type list" where
  "decl_types_of (DeclResult ok err) = [ok, err]"
| "decl_types_of (DeclStruct _ fs) = map snd fs"
| "decl_types_of (DeclEnum _ vs) = concat (map snd vs)"
| "decl_types_of (DeclFnPtr (BcFnPtr ps r _)) = ps @ [r]"
| "decl_types_of (DeclFnPtr _) = []"

fun proper_decl :: "c_type_decl \<Rightarrow> bool" where
  "proper_decl (DeclFnPtr (BcFnPtr _ _ _)) = True"
| "proper_decl (DeclFnPtr _) = False"
| "proper_decl _ = True"

lemma ready_iff:
  "type_decl_is_ready d available \<longleftrightarrow> proper_decl d \<and> (\<forall>ty \<in> set (decl_types_of d). c_type_is_available ty available)"
proof (cases d)
  case (DeclFnPtr ty)
  then show ?thesis by (cases ty) (auto simp: list_all_iff)
qed (auto simp: list_all_iff)

text \<open>
  The types \<open>tys\<close> that occur, closed under parts and grounded in the tables; each struct and enum of
  the tables has its declaration, and each \<open>Result\<close> and function pointer one of its name.
\<close>

definition declarable ::
  "(string \<rightharpoonup> struct_info) \<Rightarrow> (string \<rightharpoonup> enum_info) \<Rightarrow> bc_type set \<Rightarrow> c_type_decl list \<Rightarrow> bool" where
  "declarable structs enums tys all \<longleftrightarrow>
     (\<forall>a \<in> tys. subtypes a \<subseteq> tys \<and> grounded structs enums a) \<and>
     (\<forall>d \<in> set all. proper_decl d \<and> set (decl_types_of d) \<subseteq> tys) \<and>
     (\<forall>n info. structs n = Some info \<longrightarrow> DeclStruct n (si_fields info) \<in> set all) \<and>
     (\<forall>n info. enums n = Some info \<longrightarrow> DeclEnum n (ei_variants info) \<in> set all) \<and>
     (\<forall>ok err. BcResult ok err \<in> tys \<longrightarrow> \<not> is_runtime_result_type (result_type_name ok err) \<longrightarrow>
        (\<exists>ok' err'. DeclResult ok' err' \<in> set all \<and> erase (BcResult ok' err') = erase (BcResult ok err))) \<and>
     (\<forall>ps r pr. BcFnPtr ps r pr \<in> tys \<longrightarrow>
        (\<exists>ty. DeclFnPtr ty \<in> set all \<and> erase ty = erase (BcFnPtr ps r pr)))"

lemma erase_fn_ptr:
  "erase a = BcFnPtr ps r pr \<Longrightarrow> \<exists>ps' r' pr'. a = BcFnPtr ps' r' pr' \<and> map erase ps' = ps \<and> erase r' = r"
  by (cases a) auto

lemma available_alike: "erase a = erase b \<Longrightarrow> c_type_is_available a = c_type_is_available b"
  by (metis available_erase)

lemma declarable_never_stuck:
  assumes "declarable structs enums tys all"
  shows "never_stuck all"
  unfolding never_stuck_def
proof (intro allI impI, rule ccontr)
  fix emitted rest
  assume split: "mset emitted + mset rest = mset all" and ne: "rest \<noteq> []"
    and "\<not> (\<exists>d \<in> set rest. type_decl_is_ready d (type_decl_name ` set emitted))"
  define av where "av = type_decl_name ` set emitted"
  have stuck: "\<not> type_decl_is_ready d av" if "d \<in> set rest" for d
    using that \<open>\<not> (\<exists>d \<in> set rest. _ d)\<close> by (simp add: av_def)
  have all: "set all = set emitted \<union> set rest"
    using split by (metis set_mset_mset set_mset_union)
  have parts: "proper_decl d" "set (decl_types_of d) \<subseteq> tys" if "d \<in> set all" for d
    using assms that by (auto simp: declarable_def)
  have closed: "b \<in> tys" if "a \<in> tys" "b \<in> subtypes a" for a b
    using assms that unfolding declarable_def by blast
  text \<open>A declaration is out once its parts are available.\<close>
  have out: "type_decl_name d \<in> av"
    if "d \<in> set all" "\<forall>ty \<in> set (decl_types_of d). c_type_is_available ty av" for d
  proof -
    from parts(1) [OF that(1)] that(2) have "type_decl_is_ready d av" by (simp add: ready_iff)
    with stuck that(1) have "d \<in> set emitted" unfolding all by blast
    then show ?thesis by (simp add: av_def)
  qed
  have available: "a \<in> tys \<Longrightarrow> c_type_is_available a av" if "grounded structs enums a" for a
    using that
  proof (induction a rule: grounded.induct)
    case (basic ty)
    then show ?case by (cases ty) auto
  next
    case (struct n info)
    then have d: "DeclStruct n (si_fields info) \<in> set all" using assms by (auto simp: declarable_def)
    from parts(2) [OF d] struct have "type_decl_name (DeclStruct n (si_fields info)) \<in> av"
      by (intro out [OF d]) auto
    then show ?case by simp
  next
    case (enum n info)
    then have d: "DeclEnum n (ei_variants info) \<in> set all" using assms by (auto simp: declarable_def)
    from parts(2) [OF d] enum have "type_decl_name (DeclEnum n (ei_variants info)) \<in> av"
      by (intro out [OF d]) fastforce
    then show ?case by simp
  next
    case (result ok err)
    show ?case
    proof (cases "is_runtime_result_type (result_type_name ok err)")
      case False
      with assms result.prems obtain ok' err' where d: "DeclResult ok' err' \<in> set all"
        and "erase (BcResult ok' err') = erase (BcResult ok err)"
        unfolding declarable_def by blast
      then have eq: "erase ok' = erase ok" "erase err' = erase err" by simp_all
      have "ok \<in> tys" "err \<in> tys" by (rule closed [OF result.prems]; simp)+
      with result.IH eq have "type_decl_name (DeclResult ok' err') \<in> av"
        by (intro out [OF d]) (auto simp: available_alike [of ok' ok] available_alike [of err' err])
      then show ?thesis
        using erase_type_tag [OF eq(1)] erase_type_tag [OF eq(2)] by (simp add: result_type_name_def)
    qed simp
  next
    case (fn_ptr ps r pr)
    then obtain ty where d: "DeclFnPtr ty \<in> set all" and eq: "erase ty = erase (BcFnPtr ps r pr)"
      using assms unfolding declarable_def by blast
    from eq obtain ps' r' pr' where ty: "ty = BcFnPtr ps' r' pr'" "map erase ps' = map erase ps" "erase r' = erase r"
      using erase_fn_ptr [of ty "map erase ps" "erase r" False] by auto
    have "c_type_is_available p' av" if "p' \<in> set ps'" for p'
    proof -
      from ty(2) that obtain p where p: "p \<in> set ps" "erase p' = erase p"
        by (metis (no_types, opaque_lifting) image_iff list.set_map)
      have "p \<in> tys" by (rule closed [OF fn_ptr.prems]) (use p(1) in \<open>auto intro: bexI [of _ p]\<close>)
      with fn_ptr.IH(1) [OF p(1)] available_alike [OF p(2)] show ?thesis by simp
    qed
    moreover have "c_type_is_available r' av"
    proof -
      have "r \<in> tys" by (rule closed [OF fn_ptr.prems]) simp
      with fn_ptr.IH(2) available_alike [OF ty(3)] show ?thesis by simp
    qed
    ultimately have "type_decl_name (DeclFnPtr ty) \<in> av" using ty(1) by (intro out [OF d]) auto
    then show ?case using erase_type_tag [OF eq] by (simp add: fn_ptr_typedef_name_def)
  qed simp_all
  from ne obtain d where d: "d \<in> set rest" by (cases rest) auto
  then have "d \<in> set all" unfolding all by simp
  with parts have "proper_decl d" "set (decl_types_of d) \<subseteq> tys" by blast+
  moreover have "grounded structs enums a" if "a \<in> tys" for a using assms that by (auto simp: declarable_def)
  ultimately have "type_decl_is_ready d av" using available unfolding ready_iff by blast
  with stuck [OF d] show False ..
qed

section \<open>What the order means in C\<close>

text \<open>The name that C must know before a member of a type can be declared; \<open>osc_result_i32_str\<close>
  and a few others are declared in the header of the runtime.\<close>

fun c_needs :: "bc_type \<Rightarrow> string option" where
  "c_needs (BcStruct n) = Some n"
| "c_needs (BcEnum n) = Some n"
| "c_needs (BcResult ok err) =
     (if is_runtime_result_type (result_type_name ok err) then None else Some (result_type_name ok err))"
| "c_needs (BcFnPtr ps r pr) = Some (fn_ptr_typedef_name (BcFnPtr ps r pr))"
| "c_needs _ = None"

definition declared_first :: "c_type_decl list \<Rightarrow> bool" where
  "declared_first ds \<longleftrightarrow>
     (\<forall>i < length ds. \<forall>ty \<in> set (decl_types_of (ds ! i)). \<forall>name. c_needs ty = Some name \<longrightarrow>
        (\<exists>j < i. type_decl_name (ds ! j) = name))"

lemma available_needs: "c_type_is_available ty available \<Longrightarrow> c_needs ty = Some name \<Longrightarrow> name \<in> available"
  by (cases ty) (auto simp: Let_def split: if_splits)

lemma in_turn_declared_first: "in_turn ds \<Longrightarrow> declared_first ds"
  unfolding declared_first_def
proof (intro allI ballI impI)
  fix i ty name
  assume *: "in_turn ds" "i < length ds" "ty \<in> set (decl_types_of (ds ! i))" "c_needs ty = Some name"
  from *(1) [unfolded in_turn_def, rule_format, OF *(2)]
  have "type_decl_is_ready (ds ! i) (type_decl_name ` set (take i ds))" .
  from bspec [OF conjunct2 [OF this [unfolded ready_iff]] *(3)]
  have "c_type_is_available ty (type_decl_name ` set (take i ds))" .
  from available_needs [OF this *(4)] obtain d where d: "d \<in> set (take i ds)" "name = type_decl_name d"
    by (rule imageE)
  from d(1) obtain j where j: "j < length (take i ds)" "take i ds ! j = d"
    unfolding in_set_conv_nth by (elim exE conjE)
  from j(1) have "j < i" by simp
  moreover from j d(2) have "type_decl_name (ds ! j) = name" by simp
  ultimately show "\<exists>j < i. type_decl_name (ds ! j) = name" by blast
qed

end
