(* ===== verification/CSafe.thy ===== *)
theory CSafe
  imports CEmitProps COrder
begin

text \<open>
  The generator on a whole program: it returns when the trees of the program are \<open>emittable\<close>, its
  constants can be folded and its type declarations never get stuck.
\<close>

section \<open>Steps at the level of the program\<close>

text \<open>A function changes the deferred calls, its return type and the position as well.\<close>

definition cg_grows :: "code_generator \<Rightarrow> code_generator \<Rightarrow> bool" where
  "cg_grows cg cg' \<longleftrightarrow>
     (\<exists>s k ds ty src. cg' = cg\<lparr>cg_out := cg_out cg @ s, cg_temp_counter := cg_temp_counter cg + k,
        cg_deferred_exprs := ds, cg_current_fn_return_type := ty, cg_current_source := src\<rparr>)"

text \<open>The generator has the same tables as \<open>g\<close>.\<close>

definition ready :: "code_generator \<Rightarrow> code_generator \<Rightarrow> bool" where
  "ready g cg \<longleftrightarrow>
     suited (Some (cg_enums g)) cg \<and> cg_source_map cg = cg_source_map g \<and> cg_debug_f64 cg = cg_debug_f64 g"

definition proceeds :: "code_generator \<Rightarrow> action \<Rightarrow> bool" where
  "proceeds g a \<longleftrightarrow>
     (\<forall>cg. ready g cg \<longrightarrow> (\<exists>cg'. a cg = Inr cg' \<and> cg_grows cg cg' \<and> ready g cg'))"

named_theorems proceeds_intros \<open>operations that return\<close>

lemma cg_growsI:
  "cg' = cg\<lparr>cg_out := cg_out cg @ s, cg_temp_counter := cg_temp_counter cg + k,
     cg_deferred_exprs := ds, cg_current_fn_return_type := ty, cg_current_source := src\<rparr> \<Longrightarrow> cg_grows cg cg'"
  unfolding cg_grows_def by blast

lemma appends_grows: "appends cg cg' \<Longrightarrow> cg_grows cg cg'"
proof -
  assume "appends cg cg'"
  then obtain s k ds where "cg' = cg\<lparr>cg_out := cg_out cg @ s, cg_temp_counter := cg_temp_counter cg + k,
      cg_deferred_exprs := cg_deferred_exprs cg @ ds\<rparr>"
    unfolding appends_def by blast
  then show ?thesis
    by (intro cg_growsI [where s = s and k = k and ds = "cg_deferred_exprs cg @ ds"
          and ty = "cg_current_fn_return_type cg" and src = "cg_current_source cg"]) simp
qed

lemma cg_grows_trans: "cg_grows a b \<Longrightarrow> cg_grows b c \<Longrightarrow> cg_grows a c"
proof -
  assume "cg_grows a b" "cg_grows b c"
  then obtain t k ds ty src t' k' ds' ty' src' where
    "b = a\<lparr>cg_out := cg_out a @ t, cg_temp_counter := cg_temp_counter a + k,
        cg_deferred_exprs := ds, cg_current_fn_return_type := ty, cg_current_source := src\<rparr>"
    "c = b\<lparr>cg_out := cg_out b @ t', cg_temp_counter := cg_temp_counter b + k',
        cg_deferred_exprs := ds', cg_current_fn_return_type := ty', cg_current_source := src'\<rparr>"
    unfolding cg_grows_def by blast
  then show ?thesis
    by (intro cg_growsI [where s = "t @ t'" and k = "k + k'" and ds = ds' and ty = ty' and src = src']) simp
qed

lemma acts_runs: "acts (Some (cg_enums g)) a \<Longrightarrow> proceeds g a"
  unfolding proceeds_def
proof (intro allI impI)
  fix cg assume a: "acts (Some (cg_enums g)) a" and cg: "ready g cg"
  then obtain cg' where run: "a cg = Inr cg'"
    by (cases "a cg") (auto simp: ready_def dest: acts_Inl)
  with actsD [OF a _ run] cg have "appends cg cg'" by (simp add: ready_def)
  moreover from this have "ready g cg'"
    using cg suited_appends unfolding ready_def by (fastforce simp: appends_def)
  ultimately show "\<exists>cg'. a cg = Inr cg' \<and> cg_grows cg cg' \<and> ready g cg'"
    using run appends_grows by blast
qed

lemma proceeds_Nil: "proceeds g (do_all [])"
  by (intro acts_runs acts_do_all) simp

lemma proceeds_then:
  assumes "proceeds g a" "proceeds g b"
  shows "proceeds g (do_then a b)"
  using assms unfolding proceeds_def do_then_def
  by (fastforce simp: and_then_def dest: cg_grows_trans)

lemma proceeds_do_all [proceeds_intros]: "(\<And>a. a \<in> set as \<Longrightarrow> proceeds g a) \<Longrightarrow> proceeds g (do_all as)"
proof (induction as)
  case Nil
  show ?case by (rule proceeds_Nil)
next
  case (Cons a as)
  then have "proceeds g (do_then a (do_all as))" by (intro proceeds_then) auto
  moreover have "do_then a (do_all as) = do_all (a # as)" by (simp add: do_then_def do_all.simps fun_eq_iff)
  ultimately show ?case by (simp only:)
qed

lemma proceeds_reading [proceeds_intros]: "(\<And>cg. ready g cg \<Longrightarrow> proceeds g (f cg)) \<Longrightarrow> proceeds g (reading f)"
  by (auto simp: proceeds_def reading_def)

lemma proceeds_use [proceeds_intros]:
  assumes m: "emits (Some (cg_enums g)) m" and k: "\<And>v. proceeds g (k v)"
  shows "proceeds g (use m k)"
  unfolding proceeds_def
proof (intro allI impI)
  fix cg assume cg: "ready g cg"
  then obtain v cg1 where run: "m cg = Inr (v, cg1)"
    using emits_Inl [OF m] by (cases "m cg") (auto simp: ready_def)
  with emitsD [OF m _ run] cg have one: "appends cg cg1" by (simp add: ready_def)
  then have "ready g cg1"
    using cg suited_appends unfolding ready_def by (fastforce simp: appends_def)
  with k obtain cg' where "k v cg1 = Inr cg'" "cg_grows cg1 cg'" "ready g cg'" unfolding proceeds_def by blast
  then show "\<exists>cg'. use m k cg = Inr cg' \<and> cg_grows cg cg' \<and> ready g cg'"
    using run cg_grows_trans [OF appends_grows [OF one]] by (auto simp: use_def)
qed

lemma proceeds_indented [proceeds_intros]:
  assumes "\<And>a. a \<in> set as \<Longrightarrow> proceeds g a"
  shows "proceeds g (indented as)"
  unfolding proceeds_def
proof (intro allI impI)
  fix cg assume cg: "ready g cg"
  let ?in = "cg\<lparr>cg_indent := cg_indent cg + 1\<rparr>"
  from cg have "ready g ?in" by (simp add: ready_def)
  with proceeds_do_all [OF assms] obtain cg1 where
    run: "do_all as ?in = Inr cg1" "cg_grows ?in cg1" "ready g cg1"
    unfolding proceeds_def by blast
  from run(2) obtain t k ds ty src where cg1: "cg1 = ?in\<lparr>cg_out := cg_out cg @ t,
      cg_temp_counter := cg_temp_counter cg + k, cg_deferred_exprs := ds,
      cg_current_fn_return_type := ty, cg_current_source := src\<rparr>"
    unfolding cg_grows_def by auto
  let ?out = "cg1\<lparr>cg_indent := cg_indent cg\<rparr>"
  have "indented as cg = Inr ?out"
    using run(1) cg1 by (simp add: indented_def indent_more_def indent_less_def do_all.simps do_all_append)
  moreover have "cg_grows cg ?out"
    using cg1 by (intro cg_growsI [where s = t and k = k and ds = ds and ty = ty and src = src]) simp
  moreover have "ready g ?out" using run(3) by (simp add: ready_def)
  ultimately show "\<exists>cg'. indented as cg = Inr cg' \<and> cg_grows cg cg' \<and> ready g cg'" by blast
qed

lemma proceeds_line [proceeds_intros]: "proceeds g (c_line t)"
  by (rule acts_runs [OF acts_line])

lemma proceeds_blank [proceeds_intros]: "proceeds g blank"
  unfolding blank_def by (rule acts_runs [OF acts_push_out])

lemma cg_grows_source: "cg_grows cg (cg\<lparr>cg_current_source := src\<rparr>)"
  by (rule cg_growsI [where s = "[]" and k = 0 and ds = "cg_deferred_exprs cg"
        and ty = "cg_current_fn_return_type cg" and src = src]) simp

lemma cg_grows_return_type: "cg_grows cg (cg\<lparr>cg_current_fn_return_type := ty\<rparr>)"
  by (rule cg_growsI [where s = "[]" and k = 0 and ds = "cg_deferred_exprs cg"
        and ty = ty and src = "cg_current_source cg"]) simp

lemma cg_grows_deferred: "cg_grows cg (cg\<lparr>cg_deferred_exprs := ds\<rparr>)"
  by (rule cg_growsI [where s = "[]" and k = 0 and ds = ds
        and ty = "cg_current_fn_return_type cg" and src = "cg_current_source cg"]) simp

definition source_known :: "code_generator \<Rightarrow> source_location option \<Rightarrow> bool" where
  "source_known g src \<longleftrightarrow> pred_option (\<lambda>loc. loc_file loc < length (sm_files (cg_source_map g))) src"

lemma ready_source: "ready g cg \<Longrightarrow> source_known g src \<Longrightarrow> ready g (cg\<lparr>cg_current_source := src\<rparr>)"
  by (auto simp: ready_def suited_def source_known_def)

lemma ready_source_known: "ready g cg \<Longrightarrow> source_known g (cg_current_source cg)"
  by (cases "cg_current_source cg") (auto simp: ready_def suited_def source_known_def)

lemma ready_location: "ready g cg \<Longrightarrow> source_known g (location (cg_source_map cg) sp)"
  by (auto simp: ready_def suited_def source_known_def files_known_def pred_option_def)

lemma proceeds_set_source [proceeds_intros]: "source_known g src \<Longrightarrow> proceeds g (set_source src)"
  by (simp add: proceeds_def set_source_def cg_grows_source ready_source)

lemma proceeds_go_to_span [proceeds_intros]: "proceeds g (go_to_span sp)"
  unfolding go_to_span_def
  by (intro proceeds_reading proceeds_set_source) (rule ready_location)

lemma proceeds_set_return_type [proceeds_intros]: "proceeds g (set_return_type ty)"
  by (simp add: proceeds_def set_return_type_def cg_grows_return_type ready_def)

lemma proceeds_set_deferred [proceeds_intros]: "proceeds g (set_deferred ds)"
  by (simp add: proceeds_def set_deferred_def cg_grows_deferred ready_def)

section \<open>Functions\<close>

lemma proceeds_fn_end [proceeds_intros]: "proceeds g (emit_fn_end t v ty)"
  unfolding emit_fn_end_def by (intro acts_runs) (auto intro!: emit_intros)

lemma proceeds_function:
  assumes "emittable_block (Some (cg_enums g)) (ifd_body f)"
  shows "proceeds g (emit_function f)"
proof -
  obtain stmts tail where b: "emit_body (ifd_body f) = (stmts, tail)" by (rule prod.exhaust)
  from tree_emits(3) [OF assms] b have body: "emits (Some (cg_enums g)) (emit_block_body (stmts, tail))"
    by (auto intro: emits_block_body)
  have tail: "proceeds g (case tail of Some (sp, _) \<Rightarrow> go_to_span sp | None \<Rightarrow> do_all [])"
    by (auto intro!: proceeds_intros split: option.splits)
  show ?thesis
    unfolding emit_function_def Let_def b prod.case
    by (auto intro!: proceeds_intros body tail ready_source_known)
qed

section \<open>Constants\<close>

definition folds :: "(f64 \<Rightarrow> string) \<Rightarrow> ir_program \<Rightarrow> ir_const_def \<Rightarrow> bool" where
  "folds dbg p c \<longleftrightarrow> try_const_eval dbg p (icd_value c) [] \<noteq> Inl Panicked"

lemma const_binary_Inl: "const_binary op' l r = Inl e \<Longrightarrow> e = Panicked"
  by (cases op') (auto simp: const_binary_def divide_i64_def Let_def split: if_splits)

lemma with_i64_Inl: "with_i64 v k = Inl e \<Longrightarrow> \<exists>i. k i = Inl e"
  by (auto simp: with_i64_def split: option.splits)

lemma try_const_eval_Inl: "try_const_eval dbg p ex stack = Inl e \<Longrightarrow> e = Panicked"
proof (induction dbg p ex stack rule: try_const_eval.induct)
  case (1 dbg p ex stack)
  from 1(5) show ?case
    by (subst (asm) try_const_eval.simps)
      (auto simp: and_then_eq_Inl split: ir_expr.splits if_splits option.splits
        dest!: with_i64_Inl const_binary_Inl intro: 1(1-4))
qed

lemma proceeds_constant:
  assumes "folds (cg_debug_f64 g) p c" "emittable (Some (cg_enums g)) (icd_value c)"
  shows "proceeds g (emit_constant p c)"
proof -
  from assms(1) obtain folded where fold: "try_const_eval (cg_debug_f64 g) p (icd_value c) [] = Inr folded"
    unfolding folds_def by (cases "try_const_eval (cg_debug_f64 g) p (icd_value c) []") (auto dest: try_const_eval_Inl)
  let ?emit = "\<lambda>e. reading (\<lambda>cg0 cg.
      and_then (try_const_eval (cg_debug_f64 cg0) p e []) (\<lambda>folded.
      (case folded of
         Some const_val \<Rightarrow> c_line (fmt ''static const {} {} = {};'' [type_to_c (icd_ty c), icd_name c, const_val])
       | None \<Rightarrow> use (emit_expr e) (\<lambda>v.
           c_line (fmt ''static const {} {} = {};'' [type_to_c (icd_ty c), icd_name c, v]))) cg))"
  have "proceeds g (?emit (icd_value c))"
  proof (rule proceeds_reading)
    fix cg assume "ready g cg"
    then have "cg_debug_f64 cg = cg_debug_f64 g" by (simp add: ready_def)
    then show "proceeds g (\<lambda>cg'. and_then (try_const_eval (cg_debug_f64 cg) p (icd_value c) []) (\<lambda>folded.
      (case folded of
         Some const_val \<Rightarrow> c_line (fmt ''static const {} {} = {};'' [type_to_c (icd_ty c), icd_name c, const_val])
       | None \<Rightarrow> use (emit_expr (icd_value c)) (\<lambda>v.
           c_line (fmt ''static const {} {} = {};'' [type_to_c (icd_ty c), icd_name c, v]))) cg'))"
      using tree_emits(1) [OF assms(2)]
      by (cases folded) (auto simp: fold and_then_def intro!: proceeds_intros)
  qed
  then have rest: "proceeds g (?emit e)" if "e = icd_value c" for e using that by (simp only:)
  show ?thesis
    by (cases "icd_value c") (simp_all add: emit_constant_def Let_def proceeds_line rest)
qed

section \<open>The whole program\<close>

lemma proceeds_type_decl [proceeds_intros]: "proceeds g (emit_type_decl d)"
proof -
  have "acts s (emit_fn_ptr_typedef ty)" for s ty
    by (cases ty) (auto simp: blank_def intro!: emit_intros)
  then have "acts s (emit_type_decl d)" for s
    by (cases d)
      (auto simp: emit_result_typedef_def emit_enum_def_def emit_struct_def_def blank_def Let_def intro!: emit_intros)
  then show ?thesis by (rule acts_runs)
qed

lemma proceeds_wrapper: "proceeds g emit_main_wrapper"
  unfolding emit_main_wrapper_def run_main_def
  by (auto intro!: proceeds_intros simp: source_known_def split: option.splits bc_type.splits)

lemma those_map_Some: "(\<And>x. x \<in> set xs \<Longrightarrow> f x \<noteq> None) \<Longrightarrow> those (map f xs) \<noteq> None"
proof (induction xs)
  case (Cons x xs)
  then have "f x \<noteq> None" "those (map f xs) \<noteq> None" by auto
  then show ?case by auto
qed simp

lemma callback_types_Some: "callback_types \<noteq> None"
proof -
  have "Option.bind (callback_type i) (\<lambda>ty. ty) \<noteq> None" if "i \<in> set intrinsic_callbacks" for i
  proof -
    from that have "wf_intrinsic i" "is_higher_order i"
      by (auto simp: intrinsic_callbacks_def wf_intrinsic_def is_generic_def is_higher_order_def)
    with wf_callback_type [OF this(1)] show ?thesis by auto
  qed
  then show ?thesis unfolding callback_types_def by (rule those_map_Some)
qed

text \<open>The declarations of types that the program needs.\<close>

definition type_decls :: "function_info list \<Rightarrow> ir_program \<Rightarrow> c_type_decl list" where
  "type_decls fns p =
     map (\<lambda>s. DeclStruct (isd_name s) (isd_fields s)) (ip_struct_defs p) @
     map (\<lambda>e. DeclEnum (ied_name e) (ied_variants e)) (ip_enum_defs p) @
     result_decls (collect_result_types fns p) {} @
     map DeclFnPtr (the (collect_fn_ptr_types fns p))"

lemma declarations_in_order:
  assumes "declarable structs enums tys (pending_decls cg p)"
  shows "\<exists>ds. mset ds = mset (pending_decls cg p) \<and> in_turn ds \<and>
    emit_type_declarations p cg = do_all (map emit_type_decl ds) cg"
  using emit_pending_in_order [OF declarable_never_stuck [OF assms], of "[]" "pending_decls cg p"]
  by (auto simp: in_turn_def emit_type_declarations_def reading_def)

lemma generation_returns:
  assumes known: "files_known m"
    and bodies: "\<And>f. f \<in> set (ip_fn_defs p) \<Longrightarrow> emittable_block (Some (ip_enums p)) (ifd_body f)"
    and constants: "\<And>c. c \<in> set (ip_const_defs p) \<Longrightarrow>
      folds (co_debug_f64 opts) p c \<and> emittable (Some (ip_enums p)) (icd_value c)"
    and decls: "declarable structs enums tys (type_decls fns p)"
  shows "\<exists>text. generate_with_runtime fns opts m p = Inr text"
proof -
  let ?g = "generator_new opts m p"
  obtain fs where fs: "collect_fn_ptr_types fns p = Some fs"
    using callback_types_Some by (auto simp: collect_fn_ptr_types_def Let_def)
  define g where "g = ?g\<lparr>cg_result_types := collect_result_types fns p, cg_fn_ptr_types := fs\<rparr>"
  have start: "collect_types fns p ?g = Inr g"
    by (simp add: collect_types_def fs unwrap_def g_def)
  have enums: "cg_enums g = ip_enums p" and dbg: "cg_debug_f64 g = co_debug_f64 opts"
    by (simp_all add: g_def generator_new_def)
  have ready: "ready g g"
    using known by (simp add: ready_def suited_def g_def generator_new_def)
  have "proceeds g emit_includes"
    unfolding emit_includes_def by (auto intro!: proceeds_intros)
  with ready obtain cg1 where cg1: "emit_includes g = Inr cg1" "cg_grows g cg1" "ready g cg1"
    unfolding proceeds_def by blast
  from cg1(2) fs have "pending_decls cg1 p = type_decls fns p"
    by (auto simp: cg_grows_def pending_decls_def type_decls_def g_def)
  with declarations_in_order [of structs enums tys cg1 p] decls obtain ds where
    ds: "emit_type_declarations p cg1 = do_all (map emit_type_decl ds) cg1" by auto
  have "proceeds g (do_all (map emit_type_decl ds))" by (auto intro!: proceeds_intros)
  with cg1(3) ds obtain cg2 where cg2: "emit_type_declarations p cg1 = Inr cg2" "ready g cg2"
    unfolding proceeds_def by fastforce
  have "proceeds g (emit_forward_decls p)"
    unfolding emit_forward_decls_def emit_extern_prototype_def emit_fn_prototype_def
    by (auto intro!: proceeds_intros simp: Let_def)
  moreover have "proceeds g (emit_top_level_constants p)"
    unfolding emit_top_level_constants_def
    using constants by (auto intro!: proceeds_intros proceeds_constant simp: enums dbg)
  moreover have "proceeds g (do_all (map emit_function (ip_fn_defs p)))"
    using bodies by (auto intro!: proceeds_intros proceeds_function simp: enums)
  ultimately have "proceeds g (do_all [emit_forward_decls p, emit_top_level_constants p,
      do_all (map emit_function (ip_fn_defs p)), emit_main_wrapper])"
    using proceeds_wrapper by (intro proceeds_do_all) auto
  with cg2(2) obtain cg3 where "do_all [emit_forward_decls p, emit_top_level_constants p,
      do_all (map emit_function (ip_fn_defs p)), emit_main_wrapper] cg2 = Inr cg3"
    unfolding proceeds_def by blast
  with start cg1(1) cg2(1) show ?thesis
    by (simp add: generate_with_runtime_def do_all.simps)
qed

end
