(* ===== verification/CCollect.thy ===== *)
theory CCollect
  imports CSafe
begin

text \<open>
  What the collectors of \<open>CTypes\<close> find: all the \<open>Result\<close> types that occur in a program, and a
  function pointer for the name of each one that occurs.
\<close>

section \<open>The types of a program\<close>

text \<open>The types that the code writes out, with the ones of the variables of a body and its loops.\<close>

fun let_types :: "ir_block \<Rightarrow> bc_type list"
and let_types_stmt :: "ir_stmt \<Rightarrow> bc_type list" where
  "let_types (IrBlock stmts _ _) = concat (map (\<lambda>s. let_types_stmt s) stmts)"
| "let_types_stmt (IrLet _ _ ty _ _) = [ty]"
| "let_types_stmt (IrFor _ _ _ body _) = let_types body"
| "let_types_stmt (IrForIn _ _ body _) = let_types body"
| "let_types_stmt (IrWhile _ body _) = let_types body"
| "let_types_stmt _ = []"

definition types_of :: "function_info list \<Rightarrow> ir_program \<Rightarrow> bc_type list" where
  "types_of fns p =
     concat (map (\<lambda>f. ifd_return_type f # map snd (ifd_params f) @ let_types (ifd_body f)) (ip_fn_defs p)) @
     map icd_ty (ip_const_defs p) @
     concat (map (\<lambda>s. map snd (isd_fields s)) (ip_struct_defs p)) @
     concat (map (\<lambda>e. concat (map snd (ied_variants e))) (ip_enum_defs p)) @
     concat (map (\<lambda>b. concat (map (\<lambda>f. ixf_return_type f # map snd (ixf_params f)) (ixb_decls b))) (ip_extern_blocks p)) @
     concat (map (\<lambda>fi. fi_return_type fi # map snd (fi_params fi)) fns)"

definition parts_of :: "bc_type list \<Rightarrow> bc_type set" where
  "parts_of tys = \<Union> (subtypes ` set tys)"

lemma parts_of_simps [simp]:
  "parts_of [] = {}"
  "parts_of (ty # tys) = subtypes ty \<union> parts_of tys"
  "parts_of (xs @ ys) = parts_of xs \<union> parts_of ys"
  "parts_of (concat xss) = (\<Union>xs \<in> set xss. parts_of xs)"
  by (auto simp: parts_of_def)

lemma parts_of_map: "parts_of (map f xs) = (\<Union>x \<in> set xs. subtypes (f x))"
  by (auto simp: parts_of_def)

lemma parts_of_member: "ty \<in> set tys \<Longrightarrow> ty \<in> parts_of tys"
  unfolding parts_of_def by (auto intro: bexI [of _ ty])

lemma parts_of_closed: "a \<in> parts_of tys \<Longrightarrow> subtypes a \<subseteq> parts_of tys"
  unfolding parts_of_def using subtypes_trans by fastforce

lemma parts_of_types:
  "parts_of (types_of fns p) =
      (\<Union>f \<in> set (ip_fn_defs p). (subtypes (ifd_return_type f) \<union>
        (\<Union>x \<in> set (ifd_params f). subtypes (snd x))) \<union> parts_of (let_types (ifd_body f))) \<union>
      (\<Union>c \<in> set (ip_const_defs p). subtypes (icd_ty c)) \<union>
      (\<Union>s \<in> set (ip_struct_defs p). \<Union>x \<in> set (isd_fields s). subtypes (snd x)) \<union>
      (\<Union>e \<in> set (ip_enum_defs p). \<Union>v \<in> set (ied_variants e). \<Union>t \<in> set (snd v). subtypes t) \<union>
      (\<Union>b \<in> set (ip_extern_blocks p). \<Union>f \<in> set (ixb_decls b).
        (\<Union>x \<in> set (ixf_params f). subtypes (snd x)) \<union> subtypes (ixf_return_type f)) \<union>
      (\<Union>fi \<in> set fns. (\<Union>x \<in> set (fi_params fi). subtypes (snd x)) \<union> subtypes (fi_return_type fi))"
  by (auto simp: types_of_def parts_of_map Un_assoc parts_of_def)

section \<open>What the collectors find\<close>

text \<open>A step that adds the results \<open>R\<close> of some types.\<close>

definition results_in :: "bc_type set \<Rightarrow> (bc_type \<times> bc_type) set" where
  "results_in tys = {(ok, err). BcResult ok err \<in> tys}"

definition adds :: "bc_type set \<Rightarrow> (result_seen \<Rightarrow> result_seen) \<Rightarrow> bool" where
  "adds tys f \<longleftrightarrow>
     (\<forall>acc. fst acc = set (snd acc) \<longrightarrow>
        fst (f acc) = set (snd (f acc)) \<and> set (snd (f acc)) = set (snd acc) \<union> results_in tys)"

lemma results_in_Un: "results_in (a \<union> b) = results_in a \<union> results_in b"
  by (auto simp: results_in_def)

lemma adds_id: "adds {} (\<lambda>acc. acc)"
  by (simp add: adds_def results_in_def)

lemma adds_then: "adds a f \<Longrightarrow> adds b g \<Longrightarrow> adds (a \<union> b) (\<lambda>acc. g (f acc))"
  by (simp add: adds_def results_in_Un Un_assoc del: split_paired_All)

lemma adds_fold:
  "(\<And>x. x \<in> set xs \<Longrightarrow> adds (R x) (f x)) \<Longrightarrow> adds (\<Union>x \<in> set xs. R x) (fold f xs)"
proof (induction xs)
  case Nil
  then show ?case using adds_id by (simp add: id_def)
next
  case (Cons x xs)
  then have "adds (R x \<union> (\<Union>x \<in> set xs. R x)) (\<lambda>acc. fold f xs (f x acc))" by (intro adds_then) auto
  then show ?case by (simp add: comp_def)
qed

lemma adds_type: "adds (subtypes ty) (collect_result_types_from_bctype ty)"
proof (induction ty)
  case (BcResult ok err)
  let ?add = "\<lambda>acc. case acc of (seen, found) \<Rightarrow>
      if (ok, err) \<in> seen then (seen, found) else (insert (ok, err) seen, found @ [(ok, err)])"
  have "adds {BcResult ok err} ?add" by (auto simp: adds_def results_in_def)
  from adds_then [OF adds_then [OF this BcResult(1)] BcResult(2)] show ?case
    by (simp add: adds_def)
next
  case (BcFnPtr ps r pr)
  have one: "adds {BcFnPtr ps r pr} (\<lambda>acc. acc)" by (simp add: adds_def results_in_def)
  have "adds (\<Union>p \<in> set ps. subtypes p) (fold (\<lambda>p. collect_result_types_from_bctype p) ps)"
    by (rule adds_fold) (rule BcFnPtr(1))
  from adds_then [OF adds_then [OF one this] BcFnPtr(2)] show ?case by (simp add: adds_def)
qed (auto simp: adds_def results_in_def)

lemma adds_members: "adds (\<Union>x \<in> set xs. subtypes (snd x)) (fold (\<lambda>(_, ty). collect_result_types_from_bctype ty) xs)"
  by (rule adds_fold) (simp add: case_prod_beta adds_type)

lemma adds_lets:
  "adds (parts_of (let_types b)) (collect_result_types_block b)"
  "adds (parts_of (let_types_stmt s)) (collect_result_types_stmt s)"
proof (induction b and s rule: let_types_let_types_stmt.induct)
  case (1 stmts tail sp)
  have "adds (\<Union>s \<in> set stmts. parts_of (let_types_stmt s)) (fold (\<lambda>s. collect_result_types_stmt s) stmts)"
    by (rule adds_fold) (rule 1)
  then show ?case by (simp add: adds_def)
qed (use adds_id adds_type in \<open>simp_all add: adds_def\<close>)

lemma adds_start: "adds tys f \<Longrightarrow> tys = tys' \<Longrightarrow> set (snd (f ({}, []))) = results_in tys'"
  unfolding adds_def by (drule spec [of _ "({}, [])"]) simp

lemma results_collected: "set (collect_result_types fns p) = results_in (parts_of (types_of fns p))"
proof -
  let ?tys = collect_result_types_from_bctype
  let ?members = "fold (\<lambda>(_, ty). ?tys ty)"
  have fns: "adds (\<Union>f \<in> set (ip_fn_defs p). (subtypes (ifd_return_type f) \<union>
        (\<Union>x \<in> set (ifd_params f). subtypes (snd x))) \<union> parts_of (let_types (ifd_body f)))
      (fold (\<lambda>f acc. collect_result_types_block (ifd_body f) (?members (ifd_params f) (?tys (ifd_return_type f) acc)))
        (ip_fn_defs p))"
    by (rule adds_fold) (rule adds_then [OF adds_then [OF adds_type adds_members] adds_lets(1)])
  have constants: "adds (\<Union>c \<in> set (ip_const_defs p). subtypes (icd_ty c)) (fold (\<lambda>c. ?tys (icd_ty c)) (ip_const_defs p))"
    by (rule adds_fold) (rule adds_type)
  have structs: "adds (\<Union>s \<in> set (ip_struct_defs p). \<Union>x \<in> set (isd_fields s). subtypes (snd x))
      (fold (\<lambda>s. ?members (isd_fields s)) (ip_struct_defs p))"
    by (rule adds_fold) (rule adds_members)
  have enums: "adds (\<Union>e \<in> set (ip_enum_defs p). \<Union>v \<in> set (ied_variants e). \<Union>t \<in> set (snd v). subtypes t)
      (fold (\<lambda>e. fold (\<lambda>(_, payload). fold ?tys payload) (ied_variants e)) (ip_enum_defs p))"
    by (intro adds_fold) (simp add: case_prod_beta adds_fold adds_type)
  have externs: "adds (\<Union>b \<in> set (ip_extern_blocks p). \<Union>f \<in> set (ixb_decls b).
        (\<Union>x \<in> set (ixf_params f). subtypes (snd x)) \<union> subtypes (ixf_return_type f))
      (fold (\<lambda>b. fold (\<lambda>f acc. ?tys (ixf_return_type f) (?members (ixf_params f) acc)) (ixb_decls b)) (ip_extern_blocks p))"
    by (intro adds_fold adds_then adds_members adds_type)
  have table: "adds (\<Union>fi \<in> set fns. (\<Union>x \<in> set (fi_params fi). subtypes (snd x)) \<union> subtypes (fi_return_type fi))
      (fold (\<lambda>fi acc. ?tys (fi_return_type fi) (?members (fi_params fi) acc)) fns)"
    by (intro adds_fold adds_then adds_members adds_type)
  from adds_start [OF adds_then [OF adds_then [OF adds_then [OF adds_then [OF adds_then
    [OF fns constants] structs] enums] externs] table] parts_of_types [symmetric]]
  show ?thesis unfolding collect_result_types_def Let_def .
qed

text \<open>
  A step that collects function pointers of \<open>hi\<close>, with the names of all the ones of \<open>lo\<close>.
\<close>

fun is_fn_ptr :: "bc_type \<Rightarrow> bool" where
  "is_fn_ptr (BcFnPtr _ _ _) = True"
| "is_fn_ptr _ = False"

definition fn_ptrs_in :: "bc_type set \<Rightarrow> bc_type set" where
  "fn_ptrs_in tys = {ty \<in> tys. is_fn_ptr ty}"

definition gathers :: "bc_type set \<Rightarrow> bc_type set \<Rightarrow> (fn_ptr_seen \<Rightarrow> fn_ptr_seen) \<Rightarrow> bool" where
  "gathers lo hi f \<longleftrightarrow>
     (\<forall>acc. fst acc = type_tag ` set (snd acc) \<longrightarrow>
        fst (f acc) = type_tag ` set (snd (f acc)) \<and>
        set (snd acc) \<subseteq> set (snd (f acc)) \<and> set (snd (f acc)) \<subseteq> set (snd acc) \<union> fn_ptrs_in hi \<and>
        type_tag ` fn_ptrs_in lo \<subseteq> fst (f acc))"

lemma fn_ptrs_in_Un: "fn_ptrs_in (a \<union> b) = fn_ptrs_in a \<union> fn_ptrs_in b"
  by (auto simp: fn_ptrs_in_def)

lemma gathers_id: "fn_ptrs_in lo = {} \<Longrightarrow> gathers lo hi (\<lambda>acc. acc)"
  by (simp add: gathers_def)

lemma gathers_then:
  assumes "gathers lo hi f" "gathers lo' hi' g"
  shows "gathers (lo \<union> lo') (hi \<union> hi') (\<lambda>acc. g (f acc))"
  unfolding gathers_def
proof (intro allI impI)
  fix acc :: fn_ptr_seen assume "fst acc = type_tag ` set (snd acc)"
  with assms(1) have f: "fst (f acc) = type_tag ` set (snd (f acc))" "set (snd acc) \<subseteq> set (snd (f acc))"
    "set (snd (f acc)) \<subseteq> set (snd acc) \<union> fn_ptrs_in hi" "type_tag ` fn_ptrs_in lo \<subseteq> fst (f acc)"
    unfolding gathers_def by blast+
  with assms(2) have g: "fst (g (f acc)) = type_tag ` set (snd (g (f acc)))"
    "set (snd (f acc)) \<subseteq> set (snd (g (f acc)))"
    "set (snd (g (f acc))) \<subseteq> set (snd (f acc)) \<union> fn_ptrs_in hi'" "type_tag ` fn_ptrs_in lo' \<subseteq> fst (g (f acc))"
    unfolding gathers_def by blast+
  have "type_tag ` fn_ptrs_in lo \<subseteq> fst (g (f acc))" using f(1,4) g(1,2) by blast
  moreover have "set (snd (g (f acc))) \<subseteq> set (snd acc) \<union> (fn_ptrs_in hi \<union> fn_ptrs_in hi')"
    using f(3) g(3) by blast
  ultimately show "fst (g (f acc)) = type_tag ` set (snd (g (f acc))) \<and> set (snd acc) \<subseteq> set (snd (g (f acc))) \<and>
      set (snd (g (f acc))) \<subseteq> set (snd acc) \<union> fn_ptrs_in (hi \<union> hi') \<and>
      type_tag ` fn_ptrs_in (lo \<union> lo') \<subseteq> fst (g (f acc))"
    unfolding fn_ptrs_in_Un image_Un
    by (intro conjI g(1) order_trans [OF f(2) g(2)] Un_least g(4))
qed

lemma gathers_fold:
  "(\<And>x. x \<in> set xs \<Longrightarrow> gathers (lo x) (hi x) (f x)) \<Longrightarrow>
     gathers (\<Union>x \<in> set xs. lo x) (\<Union>x \<in> set xs. hi x) (fold f xs)"
proof (induction xs)
  case Nil
  then show ?case using gathers_id [of "{}" "{}"] by (simp add: id_def fn_ptrs_in_def)
next
  case (Cons x xs)
  then have "gathers (lo x \<union> (\<Union>x \<in> set xs. lo x)) (hi x \<union> (\<Union>x \<in> set xs. hi x)) (\<lambda>acc. fold f xs (f x acc))"
    by (intro gathers_then) auto
  then show ?case by (simp add: comp_def)
qed

lemma gathers_weaken:
  assumes "gathers lo hi f" "lo' \<subseteq> lo" "hi \<subseteq> hi'"
  shows "gathers lo' hi' f"
  unfolding gathers_def
proof (intro allI impI)
  fix acc :: fn_ptr_seen assume "fst acc = type_tag ` set (snd acc)"
  with assms(1) have f: "fst (f acc) = type_tag ` set (snd (f acc))" "set (snd acc) \<subseteq> set (snd (f acc))"
    "set (snd (f acc)) \<subseteq> set (snd acc) \<union> fn_ptrs_in hi" "type_tag ` fn_ptrs_in lo \<subseteq> fst (f acc)"
    unfolding gathers_def by blast+
  have "fn_ptrs_in lo' \<subseteq> fn_ptrs_in lo" "fn_ptrs_in hi \<subseteq> fn_ptrs_in hi'"
    using assms(2,3) by (auto simp: fn_ptrs_in_def)
  then have "type_tag ` fn_ptrs_in lo' \<subseteq> fst (f acc)" "set (snd (f acc)) \<subseteq> set (snd acc) \<union> fn_ptrs_in hi'"
    using f(3,4) by blast+
  with f(1,2) show "fst (f acc) = type_tag ` set (snd (f acc)) \<and> set (snd acc) \<subseteq> set (snd (f acc)) \<and>
      set (snd (f acc)) \<subseteq> set (snd acc) \<union> fn_ptrs_in hi' \<and> type_tag ` fn_ptrs_in lo' \<subseteq> fst (f acc)"
    by blast
qed

lemma gathers_cong:
  assumes "gathers lo hi f" "fn_ptrs_in lo = fn_ptrs_in lo'" "fn_ptrs_in hi = fn_ptrs_in hi'" "\<And>acc. f acc = g acc"
  shows "gathers lo' hi' g"
proof -
  have "g = f" using assms(4) by auto
  then show ?thesis using assms(1) unfolding gathers_def assms(2,3) by (simp only:)
qed

lemma gathers_one:
  "gathers {BcFnPtr ps r pr} {BcFnPtr ps r pr} (\<lambda>acc. case acc of (seen, found) \<Rightarrow>
     if type_tag (BcFnPtr ps r pr) \<in> seen then (seen, found)
     else (insert (type_tag (BcFnPtr ps r pr)) seen, found @ [BcFnPtr ps r pr]))"
  by (auto simp: gathers_def fn_ptrs_in_def simp del: type_tag.simps)

lemma collect_fn_ptr_eq:
  "collect_fn_ptr_from_bctype (BcFnPtr ps r pr) = (\<lambda>acc. collect_fn_ptr_from_bctype r
     (fold (\<lambda>p. collect_fn_ptr_from_bctype p) ps
       (case acc of (seen, found) \<Rightarrow>
          if type_tag (BcFnPtr ps r pr) \<in> seen then (seen, found)
          else (insert (type_tag (BcFnPtr ps r pr)) seen, found @ [BcFnPtr ps r pr]))))"
  by (simp add: fun_eq_iff Let_def del: type_tag.simps)

text \<open>The shallow collector stops at other types.\<close>

lemma gathers_shallow:
  "gathers (if is_fn_ptr ty then {ty} else {}) (subtypes ty) (collect_fn_ptr_from_bctype ty)"
proof (induction ty)
  case (BcFnPtr ps r pr)
  have "gathers {} (\<Union>p \<in> set ps. subtypes p) (fold (\<lambda>p. collect_fn_ptr_from_bctype p) ps)"
    by (rule gathers_weaken [OF gathers_fold [OF BcFnPtr(1)]]) auto
  from gathers_then [OF gathers_then [OF gathers_one this] BcFnPtr(2)]
  show ?case unfolding collect_fn_ptr_eq by (rule gathers_weaken) auto
qed (simp_all add: gathers_def fn_ptrs_in_def)

lemma gathers_deep: "gathers (subtypes ty) (subtypes ty) (collect_fn_ptr_from_bctype_deep ty)"
proof (induction ty)
  case (BcFnPtr ps r pr)
  have "gathers (\<Union>p \<in> set ps. subtypes p) (\<Union>p \<in> set ps. subtypes p) (fold (\<lambda>p. collect_fn_ptr_from_bctype_deep p) ps)"
    by (rule gathers_fold) (rule BcFnPtr(1))
  note deep = gathers_then [OF gathers_then [OF gathers_shallow this] BcFnPtr(2)]
  have "collect_fn_ptr_from_bctype_deep (BcFnPtr ps r pr) = (\<lambda>acc. collect_fn_ptr_from_bctype_deep r
      (fold (\<lambda>p. collect_fn_ptr_from_bctype_deep p) ps (collect_fn_ptr_from_bctype (BcFnPtr ps r pr) acc)))"
    by (simp add: fun_eq_iff del: collect_fn_ptr_from_bctype.simps)
  then show ?case by (simp only:) (rule gathers_weaken [OF deep]; auto)
next
  case (BcResult ok err)
  show ?case by (rule gathers_cong [OF gathers_then [OF BcResult]]) (auto simp: fn_ptrs_in_def)
next
  case (BcArray e)
  show ?case by (rule gathers_cong [OF BcArray]) (auto simp: fn_ptrs_in_def)
next
  case (BcFixedArray e n)
  show ?case by (rule gathers_cong [OF BcFixedArray]) (auto simp: fn_ptrs_in_def)
qed (rule gathers_cong [OF gathers_id [of "{}" "{}"]]; auto simp: fn_ptrs_in_def)+

lemma gathers_members: "gathers (\<Union>x \<in> set xs. subtypes (snd x)) (\<Union>x \<in> set xs. subtypes (snd x))
    (fold (\<lambda>(_, ty). collect_fn_ptr_from_bctype_deep ty) xs)"
  by (rule gathers_fold) (simp add: case_prod_beta gathers_deep)

lemma gathers_lets:
  "gathers (parts_of (let_types b)) (parts_of (let_types b)) (collect_fn_ptr_from_block b)"
  "gathers (parts_of (let_types_stmt s)) (parts_of (let_types_stmt s)) (collect_fn_ptr_from_stmt s)"
proof (induction b and s rule: let_types_let_types_stmt.induct)
  case (1 stmts tail sp)
  have "gathers (\<Union>s \<in> set stmts. parts_of (let_types_stmt s)) (\<Union>s \<in> set stmts. parts_of (let_types_stmt s))
      (fold (\<lambda>s. collect_fn_ptr_from_stmt s) stmts)"
    by (rule gathers_fold) (rule 1)
  then show ?case by (rule gathers_cong) simp_all
qed (rule gathers_cong [OF gathers_deep] gathers_cong [OF gathers_id [of "{}" "{}"]] gathers_cong; simp add: fn_ptrs_in_def)+

lemma gathers_start:
  "gathers tys tys' f \<Longrightarrow> set (snd (f ({}, []))) \<subseteq> fn_ptrs_in tys' \<and>
     type_tag ` fn_ptrs_in tys \<subseteq> type_tag ` set (snd (f ({}, [])))"
  unfolding gathers_def by (drule spec [of _ "({}, [])"], drule mp) (simp, metis fst_conv snd_conv list.set(1) Un_empty_left)

lemma fn_ptrs_collected:
  assumes "callback_types = Some callbacks"
  shows "set (the (collect_fn_ptr_types fns p)) \<subseteq> fn_ptrs_in (parts_of (types_of fns p @ callbacks))"
    and "type_tag ` (fn_ptrs_in (parts_of (types_of fns p)) \<union> {c \<in> set callbacks. is_fn_ptr c}) \<subseteq>
      type_tag ` set (the (collect_fn_ptr_types fns p))"
proof -
  let ?tys = collect_fn_ptr_from_bctype_deep
  let ?members = "fold (\<lambda>(_, ty). ?tys ty)"
  let ?both = "\<lambda>tys. gathers tys tys"
  have fns: "?both (\<Union>f \<in> set (ip_fn_defs p). ((\<Union>x \<in> set (ifd_params f). subtypes (snd x)) \<union>
        subtypes (ifd_return_type f)) \<union> parts_of (let_types (ifd_body f)))
      (fold (\<lambda>f acc. collect_fn_ptr_from_block (ifd_body f) (?tys (ifd_return_type f) (?members (ifd_params f) acc)))
        (ip_fn_defs p))"
    by (rule gathers_fold) (rule gathers_then [OF gathers_then [OF gathers_members gathers_deep] gathers_lets(1)])
  have constants: "?both (\<Union>c \<in> set (ip_const_defs p). subtypes (icd_ty c)) (fold (\<lambda>c. ?tys (icd_ty c)) (ip_const_defs p))"
    by (rule gathers_fold) (rule gathers_deep)
  have structs: "?both (\<Union>s \<in> set (ip_struct_defs p). \<Union>x \<in> set (isd_fields s). subtypes (snd x))
      (fold (\<lambda>s. ?members (isd_fields s)) (ip_struct_defs p))"
    by (rule gathers_fold) (rule gathers_members)
  have enums: "?both (\<Union>e \<in> set (ip_enum_defs p). \<Union>v \<in> set (ied_variants e). \<Union>t \<in> set (snd v). subtypes t)
      (fold (\<lambda>e. fold (\<lambda>(_, payload). fold ?tys payload) (ied_variants e)) (ip_enum_defs p))"
    by (intro gathers_fold) (simp add: case_prod_beta gathers_fold gathers_deep)
  have externs: "?both (\<Union>b \<in> set (ip_extern_blocks p). \<Union>f \<in> set (ixb_decls b).
        (\<Union>x \<in> set (ixf_params f). subtypes (snd x)) \<union> subtypes (ixf_return_type f))
      (fold (\<lambda>b. fold (\<lambda>f acc. ?tys (ixf_return_type f) (?members (ixf_params f) acc)) (ixb_decls b)) (ip_extern_blocks p))"
    by (intro gathers_fold gathers_then gathers_members gathers_deep)
  have table: "?both (\<Union>fi \<in> set fns. (\<Union>x \<in> set (fi_params fi). subtypes (snd x)) \<union> subtypes (fi_return_type fi))
      (fold (\<lambda>fi acc. ?tys (fi_return_type fi) (?members (fi_params fi) acc)) fns)"
    by (intro gathers_fold gathers_then gathers_members gathers_deep)
  have more: "gathers (\<Union>c \<in> set callbacks. if is_fn_ptr c then {c} else {}) (\<Union>c \<in> set callbacks. subtypes c)
      (fold collect_fn_ptr_from_bctype callbacks)"
    by (rule gathers_fold) (rule gathers_shallow)
  note all = gathers_start [OF gathers_then [OF gathers_then [OF gathers_then [OF gathers_then [OF gathers_then [OF gathers_then
    [OF table fns] constants] structs] enums] externs] more]]
  have list: "the (collect_fn_ptr_types fns p) = snd (fold collect_fn_ptr_from_bctype callbacks
     (fold (\<lambda>b. fold (\<lambda>f acc. ?tys (ixf_return_type f) (?members (ixf_params f) acc)) (ixb_decls b)) (ip_extern_blocks p)
     (fold (\<lambda>e. fold (\<lambda>(_, payload). fold ?tys payload) (ied_variants e)) (ip_enum_defs p)
     (fold (\<lambda>s. ?members (isd_fields s)) (ip_struct_defs p)
     (fold (\<lambda>c. ?tys (icd_ty c)) (ip_const_defs p)
     (fold (\<lambda>f acc. collect_fn_ptr_from_block (ifd_body f) (?tys (ifd_return_type f) (?members (ifd_params f) acc))) (ip_fn_defs p)
     (fold (\<lambda>fi acc. ?tys (fi_return_type fi) (?members (fi_params fi) acc)) fns ({}, []))))))))"
    unfolding collect_fn_ptr_types_def Let_def assms by simp
  have roots: "(\<Union>fi \<in> set fns. (\<Union>x \<in> set (fi_params fi). subtypes (snd x)) \<union> subtypes (fi_return_type fi)) \<union>
      (\<Union>f \<in> set (ip_fn_defs p). ((\<Union>x \<in> set (ifd_params f). subtypes (snd x)) \<union>
        subtypes (ifd_return_type f)) \<union> parts_of (let_types (ifd_body f))) \<union>
      (\<Union>c \<in> set (ip_const_defs p). subtypes (icd_ty c)) \<union>
      (\<Union>s \<in> set (ip_struct_defs p). \<Union>x \<in> set (isd_fields s). subtypes (snd x)) \<union>
      (\<Union>e \<in> set (ip_enum_defs p). \<Union>v \<in> set (ied_variants e). \<Union>t \<in> set (snd v). subtypes t) \<union>
      (\<Union>b \<in> set (ip_extern_blocks p). \<Union>f \<in> set (ixb_decls b).
        (\<Union>x \<in> set (ixf_params f). subtypes (snd x)) \<union> subtypes (ixf_return_type f)) =
      parts_of (types_of fns p)"
    unfolding parts_of_types by (simp only: Un_ac)
  have callbacks: "(\<Union>c \<in> set callbacks. subtypes c) = parts_of callbacks"
    "fn_ptrs_in (\<Union>c \<in> set callbacks. if is_fn_ptr c then {c} else {}) = {c \<in> set callbacks. is_fn_ptr c}"
    by (auto simp: parts_of_def fn_ptrs_in_def split: if_splits)
  have "set (the (collect_fn_ptr_types fns p)) \<subseteq> fn_ptrs_in (parts_of (types_of fns p) \<union> parts_of callbacks) \<and>
      type_tag ` (fn_ptrs_in (parts_of (types_of fns p)) \<union> {c \<in> set callbacks. is_fn_ptr c}) \<subseteq>
        type_tag ` set (the (collect_fn_ptr_types fns p))"
    using all
    unfolding list roots callbacks(1) fn_ptrs_in_Un [of "parts_of (types_of fns p)" "\<Union>c \<in> set callbacks. if is_fn_ptr c then {c} else {}"] callbacks(2) .
  then show "set (the (collect_fn_ptr_types fns p)) \<subseteq> fn_ptrs_in (parts_of (types_of fns p @ callbacks))"
    and "type_tag ` (fn_ptrs_in (parts_of (types_of fns p)) \<union> {c \<in> set callbacks. is_fn_ptr c}) \<subseteq>
      type_tag ` set (the (collect_fn_ptr_types fns p))"
    unfolding parts_of_simps by (rule conjunct1, rule conjunct2)
qed

end
