(* ===== verification/Lexer.thy ===== *)
theory Lexer
  imports Errors
begin

text \<open>
  The lexer of \<open>src/src/lexer.rs\<close>: a cursor over the characters of the source with the
  line and column of the next character, and a stack of modes for string interpolation.
  \<open>Vec\<close> stacks keep the order of the code (the top is the last element). Each loop is a
  recursive function whose termination measure is the number of characters left.

  \<open>f64\<close> literals are read as the standard library does: the decimal is rounded to the
  nearest 64-bit float, ties to even.
\<close>

section \<open>Floating point literals\<close>

text \<open>The quotient \<open>n / d\<close> rounded to the nearest natural number, ties to even.\<close>

definition div_round_even :: "nat \<Rightarrow> nat \<Rightarrow> nat" where
  "div_round_even n d =
     (let q = n div d; r = n mod d in
      if 2 * r < d then q
      else if 2 * r > d then q + 1
      else if even q then q else q + 1)"

fun bit_length :: "nat \<Rightarrow> nat" where
  "bit_length n = (if n = 0 then 0 else Suc (bit_length (n div 2)))"

declare bit_length.simps [simp del]

text \<open>
  The bits of the 64-bit float nearest to \<open>n / d\<close>. With \<open>e\<close> the exponent of the last
  place, the significand is \<open>n / (d * 2 ^ e)\<close> rounded; a significand below \<open>2 ^ 52\<close>
  occurs for the smallest exponent only (a subnormal), so the bits are
  \<open>(e + 1074) * 2 ^ 52 + significand\<close>, a rounding carry moving into the exponent field by
  itself. What reaches the exponent \<open>2047\<close> is infinity.
\<close>

definition f64_of_ratio :: "nat \<Rightarrow> nat \<Rightarrow> f64" where
  "f64_of_ratio n d =
     (if n = 0 then 0
      else
        (let guess = int (bit_length n) - int (bit_length d);
             ilog = (if (if guess \<ge> 0 then d * 2 ^ nat guess \<le> n else d \<le> n * 2 ^ nat (- guess))
                     then guess else guess - 1);
             e = max (ilog - 52) (- 1074);
             m = (if e \<ge> 0 then div_round_even n (d * 2 ^ nat e)
                  else div_round_even (n * 2 ^ nat (- e)) d);
             bits = nat (e + 1074) * 2 ^ 52 + m
         in if bits \<ge> 2047 * 2 ^ 52 then word_of_nat (2047 * 2 ^ 52) else word_of_nat bits))"

section \<open>State\<close>

datatype lexer_mode = StringContinuation | Interpolation nat

record lexer =
  lx_source :: "rchar list"
  lx_pos :: nat
  lx_line :: nat
  lx_column :: nat
  lx_modes :: "lexer_mode list"

definition lexer_new :: "rchar list \<Rightarrow> lexer" where
  "lexer_new src = \<lparr>lx_source = src, lx_pos = 0, lx_line = 1, lx_column = 1, lx_modes = []\<rparr>"

definition lx_peek :: "lexer \<Rightarrow> rchar option" where
  "lx_peek st = (if lx_pos st < length (lx_source st) then Some (lx_source st ! lx_pos st) else None)"

definition lx_peek_ahead :: "nat \<Rightarrow> lexer \<Rightarrow> rchar option" where
  "lx_peek_ahead offset st =
     (if lx_pos st + offset < length (lx_source st)
      then Some (lx_source st ! (lx_pos st + offset)) else None)"

definition lx_advance :: "lexer \<Rightarrow> rchar option \<times> lexer" where
  "lx_advance st =
     (case lx_peek st of
        None \<Rightarrow> (None, st)
      | Some ch \<Rightarrow>
          (let st1 = st\<lparr>lx_pos := lx_pos st + 1\<rparr> in
           (Some ch,
            if ch = uc CHR ''\<newline>'' then st1\<lparr>lx_line := lx_line st + 1, lx_column := 1\<rparr>
            else st1\<lparr>lx_column := lx_column st + 1\<rparr>)))"

text \<open>\<open>advance\<close> where the code drops the character it returns.\<close>

definition lx_bump :: "lexer \<Rightarrow> lexer" where
  "lx_bump st = snd (lx_advance st)"

definition lx_span :: "lexer \<Rightarrow> span" where
  "lx_span st = Span (lx_line st) (lx_column st)"

text \<open>The characters left, and how many.\<close>

definition lx_rest :: "lexer \<Rightarrow> rchar list" where
  "lx_rest st = drop (lx_pos st) (lx_source st)"

definition lx_rem :: "lexer \<Rightarrow> nat" where
  "lx_rem st = length (lx_source st) - lx_pos st"

lemma lx_rem_rest: "lx_rem st = length (lx_rest st)"
  by (simp add: lx_rem_def lx_rest_def)

lemma lx_peek_rest: "lx_peek st = (case lx_rest st of [] \<Rightarrow> None | c # _ \<Rightarrow> Some c)"
  by (auto simp: lx_peek_def lx_rest_def drop_Suc_nth)

lemma lx_peek_ahead_rest:
  "lx_peek_ahead k st = (if k < length (lx_rest st) then Some (lx_rest st ! k) else None)"
  by (auto simp: lx_peek_ahead_def lx_rest_def)

lemma lx_advance_bump: "lx_advance st = (lx_peek st, lx_bump st)"
  by (simp add: lx_bump_def lx_advance_def Let_def split: option.splits)

lemma lx_rest_bump: "lx_rest (lx_bump st) = tl (lx_rest st)"
  by (auto simp: lx_bump_def lx_advance_def lx_peek_def lx_rest_def Let_def tl_drop drop_Suc)

lemma lx_source_bump [simp]: "lx_source (lx_bump st) = lx_source st"
  by (simp add: lx_bump_def lx_advance_def Let_def split: option.splits)

lemma lx_modes_bump [simp]: "lx_modes (lx_bump st) = lx_modes st"
  by (simp add: lx_bump_def lx_advance_def Let_def split: option.splits)

lemma lx_rest_modes [simp]: "lx_rest (st\<lparr>lx_modes := ms\<rparr>) = lx_rest st"
  by (simp add: lx_rest_def)

lemma lx_rem_modes [simp]: "lx_rem (st\<lparr>lx_modes := ms\<rparr>) = lx_rem st"
  by (simp add: lx_rem_def)

lemma lx_rem_bump_le [simp]: "lx_rem (lx_bump st) \<le> lx_rem st"
  by (simp add: lx_rem_rest lx_rest_bump)

lemma lx_rem_bump_less [simp]: "lx_peek st = Some c \<Longrightarrow> lx_rem (lx_bump st) < lx_rem st"
  by (auto simp: lx_rem_rest lx_rest_bump lx_peek_rest split: list.splits)

section \<open>Reachable cursors\<close>

text \<open>
  The line and column that belong to an offset of the source: one more than the number of
  line feeds before it, and one more than the number of characters since the last one.
\<close>

definition span_at :: "rchar list \<Rightarrow> nat \<Rightarrow> span" where
  "span_at src n =
     Span (Suc (count_list (take n src) 10)) (Suc (length (takeWhile (\<lambda>c. c \<noteq> 10) (rev (take n src)))))"

definition located :: "lexer \<Rightarrow> bool" where
  "located st \<longleftrightarrow> lx_pos st \<le> length (lx_source st) \<and> lx_span st = span_at (lx_source st) (lx_pos st)"

text \<open>
  \<open>lx_reach st st'\<close>: the same source, not before, and with line and column still right.
  \<open>lx_skip st st'\<close>: in addition the modes are unchanged. Every operation of the lexer is
  shown to stay within one of the two.
\<close>

definition lx_reach :: "lexer \<Rightarrow> lexer \<Rightarrow> bool" where
  "lx_reach st st' \<longleftrightarrow>
     lx_source st' = lx_source st \<and> lx_pos st \<le> lx_pos st' \<and> (located st \<longrightarrow> located st')"

definition lx_skip :: "lexer \<Rightarrow> lexer \<Rightarrow> bool" where
  "lx_skip st st' \<longleftrightarrow> lx_reach st st' \<and> lx_modes st' = lx_modes st"

lemma lx_reach_refl [simp, intro]: "lx_reach st st"
  by (simp add: lx_reach_def)

lemma lx_reach_trans: "lx_reach a b \<Longrightarrow> lx_reach b c \<Longrightarrow> lx_reach a c"
  by (auto simp: lx_reach_def)

lemma lx_skip_refl [simp, intro]: "lx_skip st st"
  by (simp add: lx_skip_def)

lemma lx_skip_trans: "lx_skip a b \<Longrightarrow> lx_skip b c \<Longrightarrow> lx_skip a c"
  by (auto simp: lx_skip_def intro: lx_reach_trans)

lemma lx_skip_reach: "lx_skip a b \<Longrightarrow> lx_reach a b"
  by (simp add: lx_skip_def)

lemma lx_skip_modes: "lx_skip a b \<Longrightarrow> lx_modes b = lx_modes a"
  by (simp add: lx_skip_def)

lemma lx_reach_with_modes [simp]:
  "lx_reach st (st'\<lparr>lx_modes := ms\<rparr>) = lx_reach st st'"
  "lx_reach (st\<lparr>lx_modes := ms\<rparr>) st' = lx_reach st st'"
  by (simp_all add: lx_reach_def located_def lx_span_def)

lemma lx_reach_rem: "lx_reach st st' \<Longrightarrow> lx_rem st' \<le> lx_rem st"
  by (auto simp: lx_reach_def lx_rem_def)

lemma lx_skip_rem: "lx_skip st st' \<Longrightarrow> lx_rem st' \<le> lx_rem st"
  by (simp add: lx_skip_def lx_reach_rem)

lemma Span_eq_iff: "Span l c = sp \<longleftrightarrow> l = sp_line sp \<and> c = sp_column sp"
  by (cases sp) simp

lemma span_at_Suc:
  "n < length src \<Longrightarrow>
     span_at src (Suc n) =
       (if src ! n = 10 then Span (Suc (sp_line (span_at src n))) 1
        else Span (sp_line (span_at src n)) (Suc (sp_column (span_at src n))))"
  by (simp add: span_at_def take_Suc_conv_app_nth)

lemma lx_skip_bump [simp, intro]: "lx_skip st (lx_bump st)"
proof (cases "lx_pos st < length (lx_source st)")
  case True
  then show ?thesis
    by (auto simp: lx_skip_def lx_reach_def located_def lx_bump_def lx_advance_def lx_peek_def
        Let_def lx_span_def span_at_Suc Span_eq_iff)
next
  case False
  then show ?thesis
    by (simp add: lx_bump_def lx_advance_def lx_peek_def)
qed

lemma lx_skip_bump_trans: "lx_skip (lx_bump st) st' \<Longrightarrow> lx_skip st st'"
  by (rule lx_skip_trans [OF lx_skip_bump])

lemma lx_reach_bump [simp, intro]: "lx_reach st (lx_bump st)"
  by (simp add: lx_skip_reach)

lemma lx_reach_bump_trans: "lx_reach (lx_bump st) st' \<Longrightarrow> lx_reach st st'"
  by (rule lx_reach_trans [OF lx_reach_bump])

lemma located_new [simp]: "located (lexer_new src)"
  by (simp add: located_def lexer_new_def lx_span_def span_at_def)

text \<open>A step that ends after one more character was consumed.\<close>

lemma lx_rem_less: "lx_peek st = Some c \<Longrightarrow> lx_reach (lx_bump st) st' \<Longrightarrow> lx_rem st' < lx_rem st"
  using lx_rem_bump_less lx_reach_rem le_less_trans by blast

section \<open>White space and comments\<close>

function skip_whitespace :: "lexer \<Rightarrow> lexer" where
  "skip_whitespace st =
     (case lx_peek st of
        Some ch \<Rightarrow> if is_ascii_whitespace ch then skip_whitespace (lx_bump st) else st
      | None \<Rightarrow> st)"
  by pat_completeness auto
termination
  by (relation "measure lx_rem") auto

function skip_line_comment :: "lexer \<Rightarrow> lexer" where
  "skip_line_comment st =
     (case lx_peek st of
        Some ch \<Rightarrow> if ch = uc CHR ''\<newline>'' then st else skip_line_comment (lx_bump st)
      | None \<Rightarrow> st)"
  by pat_completeness auto
termination
  by (relation "measure lx_rem") auto

function block_comment_loop :: "span \<Rightarrow> lexer \<Rightarrow> failure + lexer" where
  "block_comment_loop start_span st =
     (case lx_peek st of
        Some ch \<Rightarrow>
          (let st1 = lx_bump st in
           if ch = uc CHR ''*'' \<and> lx_peek st1 = Some (uc CHR ''/'') then Inr (lx_bump st1)
           else block_comment_loop start_span st1)
      | None \<Rightarrow> reject start_span (LexMessage UnterminatedBlockComment))"
  by pat_completeness auto
termination
  by (relation "measure (\<lambda>(_, st). lx_rem st)") auto

definition skip_block_comment :: "lexer \<Rightarrow> failure + lexer" where
  "skip_block_comment st = block_comment_loop (lx_span st) st"

declare skip_whitespace.simps [simp del] skip_line_comment.simps [simp del]
  block_comment_loop.simps [simp del]

section \<open>Strings\<close>

definition read_string_escape :: "rstring \<Rightarrow> span \<Rightarrow> lexer \<Rightarrow> failure + (rstring \<times> lexer)" where
  "read_string_escape s esc_span st =
     (case lx_advance st of
        (Some c, st1) \<Rightarrow>
          if c = uc CHR ''n'' then Inr (s @ [10], st1)
          else if c = uc CHR ''t'' then Inr (s @ [9], st1)
          else if c = uc CHR ''r'' then Inr (s @ [13], st1)
          else if c = uc CHR 0x5C then Inr (s @ [uc CHR 0x5C], st1)
          else if c = uc CHR 0x22 then Inr (s @ [uc CHR 0x22], st1)
          else if c = uc CHR ''0'' then Inr (s @ [0], st1)
          else reject esc_span (LexMessage (InvalidEscape c))
      | (None, _) \<Rightarrow> reject esc_span (LexMessage UnterminatedString))"

lemma read_string_escape_skip:
  "read_string_escape s sp st = Inr (s', st') \<Longrightarrow> lx_skip st st'"
  by (auto simp: read_string_escape_def lx_advance_bump split: option.splits if_splits)

function read_string_segment ::
    "span \<Rightarrow> bool \<Rightarrow> rstring \<Rightarrow> lexer \<Rightarrow> failure + (token \<times> lexer)" where
  "read_string_segment start_span is_initial s st =
     (case lx_peek st of
        None \<Rightarrow> reject start_span (LexMessage UnterminatedString)
      | Some c \<Rightarrow>
          (let st1 = lx_bump st in
           if c = uc CHR 0x22 then
             (if is_initial then Inr (\<lparr>tk_kind = TkStringLit s, tk_span = start_span\<rparr>, st1)
              else if lx_modes st1 \<noteq> [] \<and> last (lx_modes st1) = StringContinuation
              then Inr (\<lparr>tk_kind = TkInterpStringEnd s, tk_span = start_span\<rparr>,
                        st1\<lparr>lx_modes := butlast (lx_modes st1)\<rparr>)
              else Inl Panicked)
           else if c = uc CHR 0x5C then
             and_then (read_string_escape s (lx_span st1) st1) (\<lambda>(s', st2).
               read_string_segment start_span is_initial s' st2)
           else if c = uc CHR ''{'' then
             (if lx_peek st1 = Some (uc CHR ''{'')
              then read_string_segment start_span is_initial (s @ [uc CHR ''{'']) (lx_bump st1)
              else
                (let modes1 = (if is_initial then lx_modes st1 @ [StringContinuation]
                               else lx_modes st1);
                     kind = (if is_initial then TkInterpStringStart s
                             else TkInterpStringMiddle s)
                 in Inr (\<lparr>tk_kind = kind, tk_span = start_span\<rparr>,
                         st1\<lparr>lx_modes := modes1 @ [Interpolation 0]\<rparr>)))
           else if c = uc CHR ''}'' then
             (if lx_peek st1 = Some (uc CHR ''}'')
              then read_string_segment start_span is_initial (s @ [uc CHR ''}'']) (lx_bump st1)
              else reject start_span (LexMessage SingleClosingBrace))
           else if c = uc CHR ''\<newline>'' then reject start_span (LexMessage UnterminatedString)
           else read_string_segment start_span is_initial (s @ [c]) st1))"
  by pat_completeness auto
termination
  by (relation "measure (\<lambda>(_, _, _, st). lx_rem st)")
    (auto intro: le_less_trans [OF lx_rem_bump_le] lx_rem_less lx_skip_reach
      dest: read_string_escape_skip)

declare read_string_segment.simps [simp del]

section \<open>Numbers, identifiers and keywords\<close>

function read_digits :: "rstring \<Rightarrow> lexer \<Rightarrow> rstring \<times> lexer" where
  "read_digits num_str st =
     (case lx_peek st of
        Some ch \<Rightarrow> if is_ascii_digit ch then read_digits (num_str @ [ch]) (lx_bump st)
                   else (num_str, st)
      | None \<Rightarrow> (num_str, st))"
  by pat_completeness auto
termination
  by (relation "measure (\<lambda>(_, st). lx_rem st)") auto

declare read_digits.simps [simp del]

definition i64_max :: int where
  "i64_max = 2 ^ 63 - 1"

text \<open>\<open>str::parse::<i64>\<close> on a string of digits fails on overflow only.\<close>

definition parse_i64 :: "rstring \<Rightarrow> int option" where
  "parse_i64 digits =
     (if int (digits_value 0 digits) \<le> i64_max then Some (int (digits_value 0 digits)) else None)"

text \<open>\<open>str::parse::<f64>\<close> on \<open>whole.frac\<close> never fails.\<close>

definition parse_f64 :: "rstring \<Rightarrow> rstring \<Rightarrow> f64" where
  "parse_f64 whole frac = f64_of_ratio (digits_value 0 (whole @ frac)) (10 ^ length frac)"

definition read_number :: "lexer \<Rightarrow> failure + (token \<times> lexer)" where
  "read_number st =
     (let start_span = lx_span st in
      case lx_advance st of
        (None, _) \<Rightarrow> Inl Panicked
      | (Some first_digit, st1) \<Rightarrow>
          if first_digit = uc CHR ''0'' \<and>
             (case lx_peek st1 of Some next \<Rightarrow> is_ascii_digit next | None \<Rightarrow> False)
          then reject start_span (LexMessage LeadingZeros)
          else
            (let (whole, st2) = read_digits [first_digit] st1 in
             if lx_peek st2 = Some (uc CHR ''.'') \<and>
                (case lx_peek_ahead 1 st2 of Some c \<Rightarrow> is_ascii_digit c | None \<Rightarrow> False)
             then
               (let (frac, st3) = read_digits [] (lx_bump st2) in
                Inr (\<lparr>tk_kind = TkFloatLit (parse_f64 whole frac), tk_span = start_span\<rparr>, st3))
             else
               (case parse_i64 whole of
                  Some value \<Rightarrow> Inr (\<lparr>tk_kind = TkIntLit value, tk_span = start_span\<rparr>, st2)
                | None \<Rightarrow> reject start_span (LexMessage (InvalidInteger whole)))))"

function read_ident_chars :: "rstring \<Rightarrow> lexer \<Rightarrow> rstring \<times> lexer" where
  "read_ident_chars ident st =
     (case lx_peek st of
        Some ch \<Rightarrow>
          if is_ascii_alphanumeric ch \<or> ch = uc CHR ''_''
          then read_ident_chars (ident @ [ch]) (lx_bump st)
          else (ident, st)
      | None \<Rightarrow> (ident, st))"
  by pat_completeness auto
termination
  by (relation "measure (\<lambda>(_, st). lx_rem st)") auto

declare read_ident_chars.simps [simp del]

definition keyword_table :: "(string \<times> token_kind) list" where
  "keyword_table =
     [(''fn'', TkFn), (''let'', TkLet), (''mut'', TkMut), (''struct'', TkStruct),
      (''enum'', TkEnum), (''if'', TkIf), (''else'', TkElse), (''while'', TkWhile),
      (''for'', TkFor), (''in'', TkIn), (''match'', TkMatch), (''return'', TkReturn),
      (''try'', TkTry), (''extern'', TkExtern), (''as'', TkAs), (''and'', TkAnd),
      (''or'', TkOr), (''not'', TkNot), (''true'', TkTrue), (''false'', TkFalse),
      (''break'', TkBreak), (''continue'', TkContinue), (''use'', TkUse),
      (''defer'', TkDefer), (''arena'', TkArena), (''_'', TkUnderscore)]"

definition keyword_or_ident :: "string \<Rightarrow> token_kind" where
  "keyword_or_ident ident =
     (case map_of keyword_table ident of Some kind \<Rightarrow> kind | None \<Rightarrow> TkIdent ident)"

definition read_identifier_or_keyword :: "lexer \<Rightarrow> token \<times> lexer" where
  "read_identifier_or_keyword st =
     (let start_span = lx_span st;
          (chars, st1) = read_ident_chars [] st;
          ident = map char_of chars
      in if ident = ''fn'' \<and> lx_peek st1 = Some (uc CHR ''!'')
         then (\<lparr>tk_kind = TkFnBang, tk_span = start_span\<rparr>, lx_bump st1)
         else (\<lparr>tk_kind = keyword_or_ident ident, tk_span = start_span\<rparr>, st1))"

section \<open>Operators and punctuation\<close>

text \<open>
  After the first character of an operator the code looks at one more character: the
  alternatives are tried in order, each consuming that character, and otherwise the token
  is the one-character operator.
\<close>

fun lex_operator ::
    "span \<Rightarrow> (char \<times> token_kind) list \<Rightarrow> token_kind \<Rightarrow> lexer \<Rightarrow> token \<times> lexer" where
  "lex_operator span [] kind st = (\<lparr>tk_kind = kind, tk_span = span\<rparr>, st)"
| "lex_operator span ((c, k) # alts) kind st =
     (if lx_peek st = Some (uc c) then (\<lparr>tk_kind = k, tk_span = span\<rparr>, lx_bump st)
      else lex_operator span alts kind st)"

text \<open>The operator arms of \<open>lex_normal_token\<close> from \<open>'+'\<close> on, in their order.\<close>

definition operator_arms :: "(char \<times> (char \<times> token_kind) list \<times> token_kind) list" where
  "operator_arms =
     [(CHR ''+'', [(CHR ''='', TkPlusEq)], TkPlus),
      (CHR ''-'', [(CHR ''>'', TkArrow), (CHR ''='', TkMinusEq)], TkMinus),
      (CHR ''*'', [(CHR ''='', TkStarEq)], TkStar),
      (CHR ''%'', [(CHR ''='', TkPercentEq)], TkPercent),
      (CHR ''='', [(CHR ''='', TkEqEq), (CHR ''>'', TkFatArrow)], TkEq),
      (CHR ''<'', [(CHR ''='', TkLtEq)], TkLt),
      (CHR ''>'', [(CHR ''='', TkGtEq)], TkGt),
      (CHR ''{'', [], TkLBrace),
      (CHR ''}'', [], TkRBrace),
      (CHR ''('', [], TkLParen),
      (CHR '')'', [], TkRParen),
      (CHR ''['', [], TkLBracket),
      (CHR '']'', [], TkRBracket),
      (CHR '','', [], TkComma),
      (CHR '':'', [(CHR '':'', TkColonColon)], TkColon),
      (CHR '';'', [], TkSemicolon),
      (CHR ''.'', [(CHR ''.'', TkDotDot)], TkDot)]"

fun lex_operator_arm ::
    "(char \<times> (char \<times> token_kind) list \<times> token_kind) list \<Rightarrow> span \<Rightarrow> rchar \<Rightarrow> lexer \<Rightarrow>
     failure + (token \<times> lexer)" where
  "lex_operator_arm [] span ch st1 = reject span (LexMessage (UnexpectedCharacter ch))"
| "lex_operator_arm ((c, alts, kind) # arms) span ch st1 =
     (if ch = uc c then Inr (lex_operator span alts kind st1)
      else lex_operator_arm arms span ch st1)"

lemma skip_whitespace_skip [simp, intro]: "lx_skip st (skip_whitespace st)"
proof (induction st rule: skip_whitespace.induct)
  case (1 st)
  then show ?case
    by (subst skip_whitespace.simps) (auto split: option.split intro: lx_skip_bump_trans)
qed

lemma skip_line_comment_skip [simp, intro]: "lx_skip st (skip_line_comment st)"
proof (induction st rule: skip_line_comment.induct)
  case (1 st)
  then show ?case
    by (subst skip_line_comment.simps) (auto split: option.split intro: lx_skip_bump_trans)
qed

lemma block_comment_loop_skip: "block_comment_loop sp st = Inr st' \<Longrightarrow> lx_skip st st'"
proof (induction st rule: measure_induct_rule [where f = lx_rem])
  case (less st)
  from less.prems show ?case
    by (subst (asm) block_comment_loop.simps)
      (auto simp: Let_def split: option.splits if_splits
        intro: lx_skip_bump_trans dest!: less.IH [OF lx_rem_bump_less])
qed

lemma skip_block_comment_skip: "skip_block_comment st = Inr st' \<Longrightarrow> lx_skip st st'"
  by (auto simp: skip_block_comment_def dest: block_comment_loop_skip)

lemma read_digits_skip: "lx_skip st (snd (read_digits ds st))"
proof (induction ds st rule: read_digits.induct)
  case (1 ds st)
  then show ?case
    by (subst read_digits.simps) (auto split: option.split intro: lx_skip_bump_trans)
qed

lemma read_ident_chars_skip: "lx_skip st (snd (read_ident_chars cs st))"
proof (induction cs st rule: read_ident_chars.induct)
  case (1 cs st)
  then show ?case
    by (subst read_ident_chars.simps) (auto split: option.split intro: lx_skip_bump_trans)
qed

lemma lex_operator_skip: "lx_skip st (snd (lex_operator sp alts k st))"
  by (induction sp alts k st rule: lex_operator.induct) auto

lemma lex_operator_arm_skip:
  "lex_operator_arm arms sp ch st = Inr (tok, st') \<Longrightarrow> lx_skip st st'"
proof (induction arms sp ch st rule: lex_operator_arm.induct)
  case (2 c alts kind arms sp ch st)
  then show ?case
    using lex_operator_skip [of st sp alts kind] by (auto split: if_splits)
qed simp

section \<open>Tokens outside strings\<close>

function lex_normal_token :: "lexer \<Rightarrow> failure + (token \<times> lexer)" where
  "lex_normal_token st0 =
     (let st = skip_whitespace st0; span = lx_span st in
      case lx_peek st of
        None \<Rightarrow> Inr (\<lparr>tk_kind = TkEof, tk_span = span\<rparr>, st)
      | Some ch \<Rightarrow>
          if ch = uc CHR ''/'' then
            (if lx_peek_ahead 1 st = Some (uc CHR ''/'')
             then lex_normal_token (skip_line_comment (lx_bump (lx_bump st)))
             else if lx_peek_ahead 1 st = Some (uc CHR ''*'')
             then and_then (skip_block_comment (lx_bump (lx_bump st))) lex_normal_token
             else if lx_peek_ahead 1 st = Some (uc CHR ''='')
             then Inr (\<lparr>tk_kind = TkSlashEq, tk_span = span\<rparr>, lx_bump (lx_bump st))
             else Inr (\<lparr>tk_kind = TkSlash, tk_span = span\<rparr>, lx_bump st))
          else if ch = uc CHR 0x22 then read_string_segment span True [] (lx_bump st)
          else if is_ascii_digit ch then read_number st
          else if is_ascii_alphabetic ch \<or> ch = uc CHR ''_''
          then Inr (read_identifier_or_keyword st)
          else if ch = uc CHR ''!'' then
            (if lx_peek (lx_bump st) = Some (uc CHR ''='')
             then Inr (\<lparr>tk_kind = TkBangEq, tk_span = span\<rparr>, lx_bump (lx_bump st))
             else reject span (LexMessage (UnexpectedCharacter ch)))
          else lex_operator_arm operator_arms span ch (lx_bump st))"
  by pat_completeness auto

text \<open>What both loops over comments rest on: a comment takes at least its two first characters.\<close>

lemma comment_less:
  assumes "lx_peek (skip_whitespace st) = Some c"
    and "lx_skip (lx_bump (lx_bump (skip_whitespace st))) st'"
  shows "lx_rem st' < lx_rem st"
proof -
  have "lx_reach (lx_bump (skip_whitespace st)) st'"
    using assms(2) by (simp add: lx_reach_bump_trans lx_skip_reach)
  with assms(1) have "lx_rem st' < lx_rem (skip_whitespace st)" by (rule lx_rem_less)
  also have "\<dots> \<le> lx_rem st" by (simp add: lx_skip_rem)
  finally show ?thesis .
qed

termination lex_normal_token
  by (relation "measure lx_rem")
    (auto intro: comment_less dest: skip_block_comment_skip)

declare lex_normal_token.simps [simp del]

section \<open>Modes\<close>

text \<open>White space and comments between the tokens of an interpolated expression.\<close>

function skip_trivia :: "lexer \<Rightarrow> failure + lexer" where
  "skip_trivia st0 =
     (let st = skip_whitespace st0 in
      if lx_peek st = Some (uc CHR ''/'') \<and> lx_peek_ahead 1 st = Some (uc CHR ''/'')
      then skip_trivia (skip_line_comment (lx_bump (lx_bump st)))
      else if lx_peek st = Some (uc CHR ''/'') \<and> lx_peek_ahead 1 st = Some (uc CHR ''*'')
      then and_then (skip_block_comment (lx_bump (lx_bump st))) skip_trivia
      else Inr st)"
  by pat_completeness auto
termination
  by (relation "measure lx_rem")
    (auto intro: comment_less dest: skip_block_comment_skip)

declare skip_trivia.simps [simp del]

lemma skip_trivia_skip: "skip_trivia st = Inr st' \<Longrightarrow> lx_skip st st'"
proof (induction st rule: measure_induct_rule [where f = lx_rem])
  case (less st)
  let ?w = "skip_whitespace st"
  have sub: "lx_skip st st'"
    if "skip_trivia x = Inr st'" "lx_peek ?w = Some c" "lx_skip (lx_bump (lx_bump ?w)) x" for c x
  proof -
    from that have "lx_skip x st'" by (blast intro: less.IH comment_less)
    with that(3) show ?thesis
      by (meson lx_skip_bump_trans lx_skip_trans skip_whitespace_skip)
  qed
  from less.prems show ?case
    by (subst (asm) skip_trivia.simps)
      (auto simp: Let_def and_then_eq_Inr split: if_splits intro: sub skip_block_comment_skip)
qed

text \<open>
  \<open>*brace_depth += 1\<close> and \<open>*brace_depth -= 1\<close> on the mode at the top of the stack; the
  subtraction panics at zero.
\<close>

definition brace_depth_incr :: "lexer \<Rightarrow> lexer" where
  "brace_depth_incr st =
     (if lx_modes st = [] then st
      else case last (lx_modes st) of
             Interpolation d \<Rightarrow> st\<lparr>lx_modes := butlast (lx_modes st) @ [Interpolation (d + 1)]\<rparr>
           | StringContinuation \<Rightarrow> st)"

definition brace_depth_decr :: "lexer \<Rightarrow> failure + lexer" where
  "brace_depth_decr st =
     (if lx_modes st = [] then Inr st
      else case last (lx_modes st) of
             Interpolation d \<Rightarrow>
               if d = 0 then Inl Panicked
               else Inr (st\<lparr>lx_modes := butlast (lx_modes st) @ [Interpolation (d - 1)]\<rparr>)
           | StringContinuation \<Rightarrow> Inr st)"

lemma brace_depth_reach:
  "lx_reach st (brace_depth_incr st)"
  "brace_depth_decr st = Inr st' \<Longrightarrow> lx_reach st st'"
  by (auto simp: brace_depth_incr_def brace_depth_decr_def split: lexer_mode.splits if_splits)

function next_token :: "lexer \<Rightarrow> failure + (token \<times> lexer)" where
  "next_token st0 =
     (if lx_modes st0 = [] then lex_normal_token st0
      else case last (lx_modes st0) of
        StringContinuation \<Rightarrow> read_string_segment (lx_span st0) False [] st0
      | Interpolation brace_depth \<Rightarrow>
          and_then (skip_trivia st0) (\<lambda>st.
            if brace_depth = 0 \<and> lx_peek st = Some (uc CHR ''}'') then
              next_token ((lx_bump st)\<lparr>lx_modes := butlast (lx_modes st)\<rparr>)
            else if lx_peek st = Some (uc CHR ''{'') then
              Inr (\<lparr>tk_kind = TkLBrace, tk_span = lx_span st\<rparr>, brace_depth_incr (lx_bump st))
            else if lx_peek st = Some (uc CHR ''}'') then
              and_then (brace_depth_decr (lx_bump st)) (\<lambda>st1.
                Inr (\<lparr>tk_kind = TkRBrace, tk_span = lx_span st\<rparr>, st1))
            else lex_normal_token st))"
  by pat_completeness auto
termination
  by (relation "measure lx_rem")
    (auto dest!: skip_trivia_skip lx_skip_rem intro: less_le_trans [OF lx_rem_bump_less])

declare next_token.simps [simp del]

section \<open>Every token but the last consumes input\<close>

lemma read_string_segment_reach:
  "read_string_segment sp ini s st = Inr (tok, st') \<Longrightarrow> \<exists>c. lx_peek st = Some c \<and> lx_reach (lx_bump st) st'"
proof (induction st arbitrary: s rule: measure_induct_rule [where f = lx_rem])
  case (less st)
  have sub: "lx_reach (lx_bump st) st'"
    if "read_string_segment sp ini s' x = Inr (tok, st')" "lx_peek st = Some c" "lx_reach (lx_bump st) x"
    for c s' x
    using less.IH [OF lx_rem_less [OF that(2,3)] that(1)] that(3)
    by (blast intro: lx_reach_trans lx_reach_bump_trans)
  from less.prems show ?case
    by (subst (asm) read_string_segment.simps)
      (auto simp: Let_def and_then_eq_Inr split: option.splits if_splits
        intro: sub lx_skip_reach read_string_escape_skip)
qed

lemma read_number_reach:
  assumes "read_number st = Inr (tok, st')"
  shows "lx_skip (lx_bump st) st'"
proof -
  obtain c where c: "lx_peek st = Some c"
    using assms by (auto simp: read_number_def lx_advance_bump Let_def split: option.splits)
  obtain whole st2 where w: "read_digits [c] (lx_bump st) = (whole, st2)" by force
  obtain frac st3 where f: "read_digits [] (lx_bump st2) = (frac, st3)" by force
  have "lx_skip (lx_bump st) st2" "lx_skip (lx_bump st2) st3"
    using read_digits_skip [of "lx_bump st" "[c]"] read_digits_skip [of "lx_bump st2" "[]"] w f
    by simp_all
  with assms c w f show ?thesis
    by (auto simp: read_number_def lx_advance_bump Let_def split: if_splits option.splits
        intro: lx_skip_trans lx_skip_bump_trans)
qed

lemma read_identifier_reach:
  assumes "lx_peek st = Some c" "is_ascii_alphabetic c \<or> c = uc CHR ''_''"
  shows "lx_skip (lx_bump st) (snd (read_identifier_or_keyword st))"
proof -
  obtain cs st1 where r: "read_ident_chars [] st = (cs, st1)" by force
  moreover have "read_ident_chars [] st = read_ident_chars [c] (lx_bump st)"
    using assms by (subst read_ident_chars.simps) (auto simp: is_ascii_alphanumeric_def)
  ultimately have "lx_skip (lx_bump st) st1"
    using read_ident_chars_skip [of "lx_bump st" "[c]"] by simp
  then show ?thesis
    by (auto simp: read_identifier_or_keyword_def Let_def r intro: lx_skip_trans)
qed

text \<open>
  \<open>token_from st tok st'\<close>: from the cursor \<open>st\<close> the token \<open>tok\<close> was read, leaving \<open>st'\<close>. Some
  cursor \<open>s\<close> at or after \<open>st\<close> is its start: the token has the line and column of \<open>s\<close>, an
  end-of-file token stands at the end of the source, and any other token takes at least
  one character.
\<close>

definition token_from :: "lexer \<Rightarrow> token \<Rightarrow> lexer \<Rightarrow> bool" where
  "token_from st tok st' \<longleftrightarrow>
     (\<exists>s. lx_reach st s \<and> tk_span tok = lx_span s \<and>
        (if tk_kind tok = TkEof then lx_peek s = None \<and> st' = s
         else (\<exists>c. lx_peek s = Some c \<and> lx_reach (lx_bump s) st')))"

lemma token_from_reach: "token_from st tok st' \<Longrightarrow> lx_reach st st'"
  by (auto simp: token_from_def split: if_splits intro: lx_reach_trans lx_reach_bump_trans)

lemma token_from_less:
  assumes "token_from st tok st'" "tk_kind tok \<noteq> TkEof"
  shows "lx_rem st' < lx_rem st"
proof -
  obtain s c where "lx_reach st s" "lx_peek s = Some c" "lx_reach (lx_bump s) st'"
    using assms by (auto simp: token_from_def)
  then show ?thesis
    using lx_rem_less [of s c st'] lx_reach_rem [of st s] by linarith
qed

lemma token_from_later: "lx_reach st s \<Longrightarrow> token_from s tok st' \<Longrightarrow> token_from st tok st'"
  unfolding token_from_def by (meson lx_reach_trans)

lemma token_fromI:
  "lx_peek s = Some c \<Longrightarrow> lx_reach (lx_bump s) st' \<Longrightarrow> tk_kind tok \<noteq> TkEof \<Longrightarrow>
     tk_span tok = lx_span s \<Longrightarrow> token_from s tok st'"
  unfolding token_from_def by (auto intro: exI [of _ s])

lemma keyword_or_ident_not_eof [simp]: "keyword_or_ident s \<noteq> TkEof"
proof
  assume "keyword_or_ident s = TkEof"
  then have "map_of keyword_table s = Some TkEof"
    by (simp add: keyword_or_ident_def split: option.splits)
  then have "TkEof \<in> snd ` set keyword_table" by (force dest: map_of_SomeD)
  then show False by (simp add: keyword_table_def)
qed

lemma lex_operator_kind:
  "tk_kind (fst (lex_operator sp alts k st)) \<in> insert k (snd ` set alts)"
  "tk_span (fst (lex_operator sp alts k st)) = sp"
  by (induction sp alts k st rule: lex_operator.induct) auto

lemma lex_operator_arm_kind:
  "lex_operator_arm arms sp ch st = Inr (tok, st') \<Longrightarrow>
     tk_span tok = sp \<and> tk_kind tok \<in> (\<Union>(c, alts, k) \<in> set arms. insert k (snd ` set alts))"
proof (induction arms sp ch st rule: lex_operator_arm.induct)
  case (2 c alts kind arms sp ch st)
  then show ?case
    using lex_operator_kind [of sp alts kind st] by (auto split: if_splits)
qed simp

lemma operator_arm_token:
  assumes "lex_operator_arm operator_arms (lx_span st) c (lx_bump st) = Inr (tok, st')"
    and "lx_peek st = Some c"
  shows "token_from st tok st'"
proof -
  have no_eof: "TkEof \<notin> (\<Union>(c, alts, k) \<in> set operator_arms. insert k (snd ` set alts))"
    by (simp add: operator_arms_def)
  have "tk_kind tok \<noteq> TkEof" "tk_span tok = lx_span st"
    using lex_operator_arm_kind [OF assms(1)] no_eof by metis+
  with lex_operator_arm_skip [OF assms(1)] assms(2) token_fromI [of st c st' tok]
  show ?thesis by (simp add: lx_skip_reach)
qed

lemma read_string_segment_kind:
  "read_string_segment sp ini s st = Inr (tok, st') \<Longrightarrow> tk_span tok = sp \<and> tk_kind tok \<noteq> TkEof"
proof (induction st arbitrary: s rule: measure_induct_rule [where f = lx_rem])
  case (less st)
  have sub: "tk_span tok = sp \<and> tk_kind tok \<noteq> TkEof"
    if "read_string_segment sp ini s' x = Inr (tok, st')" "lx_peek st = Some c" "lx_reach (lx_bump st) x"
    for c s' x
    using less.IH [OF lx_rem_less [OF that(2,3)] that(1)] .
  from less.prems show ?case
    by (subst (asm) read_string_segment.simps)
      (auto simp: Let_def and_then_eq_Inr split: option.splits if_splits
        dest: sub intro: lx_skip_reach read_string_escape_skip)
qed

lemma string_segment_token:
  assumes "read_string_segment (lx_span s) ini [] st = Inr (tok, st')"
    and "s = st \<or> lx_peek s = Some c \<and> st = lx_bump s"
  shows "token_from s tok st'"
proof -
  obtain c' where c': "lx_peek st = Some c'" "lx_reach (lx_bump st) st'"
    using read_string_segment_reach [OF assms(1)] by auto
  with assms(2) obtain c'' where "lx_peek s = Some c''" "lx_reach (lx_bump s) st'"
    by (auto intro: lx_reach_bump_trans)
  with read_string_segment_kind [OF assms(1)] token_fromI [of s c'' st' tok]
  show ?thesis by simp
qed

lemma read_number_token:
  assumes "read_number st = Inr (tok, st')" "lx_peek st = Some c"
  shows "token_from st tok st'"
proof -
  have "tk_span tok = lx_span st \<and> tk_kind tok \<noteq> TkEof"
    using assms by (auto simp: read_number_def Let_def split: if_splits option.splits prod.splits)
  with read_number_reach [OF assms(1)] assms(2) token_fromI [of st c st' tok]
  show ?thesis by (simp add: lx_skip_reach)
qed

lemma read_identifier_token:
  assumes "lx_peek st = Some c" "is_ascii_alphabetic c \<or> c = uc CHR ''_''"
    and "read_identifier_or_keyword st = (tok, st')"
  shows "token_from st tok st'"
proof -
  have "tk_span tok = lx_span st \<and> tk_kind tok \<noteq> TkEof"
    using assms(3) by (auto simp: read_identifier_or_keyword_def Let_def split: if_splits prod.splits)
  with read_identifier_reach [OF assms(1,2)] assms token_fromI [of st c st' tok]
  show ?thesis by (simp add: lx_skip_reach)
qed

lemma lex_normal_token_token: "lex_normal_token st = Inr (tok, st') \<Longrightarrow> token_from st tok st'"
proof (induction st rule: measure_induct_rule [where f = lx_rem])
  case (less st)
  let ?w = "skip_whitespace st"
  have from_w: "token_from st tok st'" if "token_from ?w tok st'"
    using that by (rule token_from_later [OF lx_skip_reach [OF skip_whitespace_skip]])
  have sub: "token_from ?w tok st'"
    if "lex_normal_token x = Inr (tok, st')" "lx_peek ?w = Some c" "lx_skip (lx_bump (lx_bump ?w)) x"
    for c x
  proof (rule token_from_later)
    show "lx_reach ?w x"
      using that(3) by (simp add: lx_reach_bump_trans lx_skip_reach)
    show "token_from x tok st'"
      using that by (blast intro: less.IH comment_less)
  qed
  have eof: "token_from ?w \<lparr>tk_kind = TkEof, tk_span = lx_span ?w\<rparr> ?w" if "lx_peek ?w = None"
    using that unfolding token_from_def by (auto intro: exI [of _ ?w])
  from less.prems show ?case
    by (subst (asm) lex_normal_token.simps)
      (auto simp: Let_def and_then_eq_Inr eof split: option.splits if_splits
        intro!: from_w intro: sub skip_block_comment_skip token_fromI lx_reach_bump
          operator_arm_token read_number_token read_identifier_token string_segment_token)
qed

lemma next_token_token: "next_token st = Inr (tok, st') \<Longrightarrow> token_from st tok st'"
proof (induction st rule: measure_induct_rule [where f = lx_rem])
  case (less st)
  have sub: "token_from st tok st'"
    if "next_token (lx_bump x\<lparr>lx_modes := ms\<rparr>) = Inr (tok, st')" "skip_trivia st = Inr x"
      "lx_peek x = Some c" for x c ms
  proof (rule token_from_later)
    show "lx_reach st (lx_bump x\<lparr>lx_modes := ms\<rparr>)"
      using skip_trivia_skip [OF that(2)] by (auto intro: lx_reach_trans lx_skip_reach)
    show "token_from (lx_bump x\<lparr>lx_modes := ms\<rparr>) tok st'"
      using that less_le_trans [OF lx_rem_bump_less [OF that(3)] lx_skip_rem [OF skip_trivia_skip [OF that(2)]]]
      by (intro less.IH) auto
  qed
  have later: "token_from st tok' s" if "skip_trivia st = Inr x" "token_from x tok' s" for x tok' s
    using that by (blast intro: token_from_later lx_skip_reach skip_trivia_skip)
  have braces: "token_from st \<lparr>tk_kind = TkLBrace, tk_span = lx_span x\<rparr> s"
      "token_from st \<lparr>tk_kind = TkRBrace, tk_span = lx_span x\<rparr> s"
    if "skip_trivia st = Inr x" "lx_peek x = Some c" "lx_reach (lx_bump x) s" for x c s
    using that by (auto intro!: later [OF that(1)] token_fromI)
  from less.prems show ?case
    by (subst (asm) next_token.simps)
      (auto simp: and_then_eq_Inr split: if_splits lexer_mode.splits
        intro: lex_normal_token_token string_segment_token sub later braces brace_depth_reach)
qed

section \<open>The token list\<close>

function tokenize_from :: "lexer \<Rightarrow> failure + token list" where
  "tokenize_from st =
     and_then (next_token st) (\<lambda>(tok, st').
       if tk_kind tok = TkEof then Inr [tok]
       else and_then (tokenize_from st') (\<lambda>tokens. Inr (tok # tokens)))"
  by pat_completeness auto
termination
  by (relation "measure lx_rem") (auto dest: next_token_token intro: token_from_less)

declare tokenize_from.simps [simp del]

definition tokenize :: "rchar list \<Rightarrow> failure + token list" where
  "tokenize src = tokenize_from (lexer_new src)"

end
