(* ===== verification/LexerProps.thy ===== *)
theory LexerProps
  imports Lexer
begin

text \<open>
  What the lexer guarantees to the parser: it never panics and needs no bound on its loops;
  its result ends with the only end-of-file token; every token carries the line and column
  of a strictly increasing sequence of offsets; its integers are in range and its names are
  names. The last section prints a list of tokens and shows that lexing the text gives the
  tokens back.
\<close>

section \<open>The mode stack\<close>

text \<open>
  Continuations and interpolations alternate, a continuation at the bottom: each
  interpolation is pushed on top of the continuation that resumes its string.
\<close>

definition modes_ok :: "lexer_mode list \<Rightarrow> bool" where
  "modes_ok ms \<longleftrightarrow> (\<forall>i < length ms. ms ! i = StringContinuation \<longleftrightarrow> even i)"

lemma modes_ok_Nil [simp]: "modes_ok []"
  by (simp add: modes_ok_def)

lemma modes_ok_snoc [simp]:
  "modes_ok (ms @ [m]) \<longleftrightarrow> modes_ok ms \<and> (m = StringContinuation \<longleftrightarrow> even (length ms))"
  by (auto simp: modes_ok_def nth_append less_Suc_eq)

lemma modes_ok_two [simp]:
  "modes_ok (ms @ [StringContinuation, Interpolation d]) \<longleftrightarrow> modes_ok ms \<and> even (length ms)"
  using modes_ok_snoc [of "ms @ [StringContinuation]" "Interpolation d"] by simp

lemma modes_ok_butlast: "modes_ok ms \<Longrightarrow> modes_ok (butlast ms)"
  by (auto simp: modes_ok_def nth_butlast)

lemma modes_ok_last:
  "modes_ok ms \<Longrightarrow> ms \<noteq> [] \<Longrightarrow> last ms = StringContinuation \<longleftrightarrow> odd (length ms)"
  by (auto simp: modes_ok_def last_conv_nth)

text \<open>A fallible step of the lexer that keeps the modes in order and does not panic.\<close>

definition modes_step :: "failure + ('a \<times> lexer) \<Rightarrow> bool" where
  "modes_step r \<longleftrightarrow> graceful r \<and> (\<forall>x st'. r = Inr (x, st') \<longrightarrow> modes_ok (lx_modes st'))"

lemma modes_stepI:
  "graceful r \<Longrightarrow> (\<And>x st'. r = Inr (x, st') \<Longrightarrow> modes_ok (lx_modes st')) \<Longrightarrow> modes_step r"
  by (simp add: modes_step_def)

lemma modes_step_simps [simp]:
  "modes_step (Inr (x, st)) \<longleftrightarrow> modes_ok (lx_modes st)"
  "modes_step (Inl (Rejected e))"
  by (auto simp: modes_step_def)

lemma modes_step_and_then:
  "graceful m \<Longrightarrow> (\<And>x. m = Inr x \<Longrightarrow> modes_step (f x)) \<Longrightarrow> modes_step (and_then m f)"
  by (erule graceful_cases) auto

lemma graceful_read_string_escape [simp]: "graceful (read_string_escape s sp st)"
  by (simp add: read_string_escape_def split: prod.split option.split)

lemma graceful_skip_block_comment [simp]: "graceful (skip_block_comment st)"
proof -
  have "graceful (block_comment_loop sp st)" for sp st
  proof (induction sp st rule: block_comment_loop.induct)
    case (1 sp st)
    then show ?case
      by (subst block_comment_loop.simps) (auto simp: Let_def split: option.split)
  qed
  then show ?thesis by (simp add: skip_block_comment_def)
qed

lemma graceful_skip_trivia [simp]: "graceful (skip_trivia st)"
proof (induction st rule: skip_trivia.induct)
  case (1 st)
  then show ?case
    by (subst skip_trivia.simps) (auto simp: Let_def)
qed

lemma modes_step_read_string_segment:
  assumes "modes_ok (lx_modes st)" "ini \<longleftrightarrow> even (length (lx_modes st))"
  shows "modes_step (read_string_segment sp ini s st)"
  using assms
proof (induction st arbitrary: s rule: measure_induct_rule [where f = lx_rem])
  case (less st)
  have sub: "modes_step (read_string_segment sp ini s' x)"
    if "lx_peek st = Some c" "lx_skip (lx_bump st) x" for c s' x
  proof (rule less.IH)
    show "lx_rem x < lx_rem st" using that by (blast intro: lx_rem_less lx_skip_reach)
    show "modes_ok (lx_modes x)" "ini \<longleftrightarrow> even (length (lx_modes x))"
      using less.prems lx_skip_modes [OF that(2)] by simp_all
  qed
  have top: "ini \<or> lx_modes st \<noteq> [] \<and> last (lx_modes st) = StringContinuation"
    using less.prems modes_ok_last [of "lx_modes st"] by (cases "lx_modes st = []") auto
  show ?case
  proof (cases "lx_peek st")
    case None
    then show ?thesis by (simp add: read_string_segment.simps)
  next
    case (Some c)
    have one: "modes_step (read_string_segment sp ini s' (lx_bump st))"
      and two: "modes_step (read_string_segment sp ini s' (lx_bump (lx_bump st)))" for s'
      using Some by (auto intro!: sub)
    have esc: "modes_step (and_then (read_string_escape s sp' (lx_bump st))
        (\<lambda>(s', st2). read_string_segment sp ini s' st2))" for sp'
      using Some by (auto intro!: modes_step_and_then intro: sub read_string_escape_skip)
    show ?thesis
    proof (cases ini)
      case True
      then have "even (length (lx_modes st))" using less.prems by simp
      with True Some less.prems(1) one two esc show ?thesis
        by (subst read_string_segment.simps) (auto simp: Let_def)
    next
      case False
      then have "odd (length (lx_modes st))" using less.prems by simp
      with False Some top less.prems(1) one two esc show ?thesis
        by (subst read_string_segment.simps) (auto simp: Let_def modes_ok_butlast)
    qed
  qed
qed

lemma modes_step_read_number:
  assumes "modes_ok (lx_modes st)" "lx_peek st = Some c"
  shows "modes_step (read_number st)"
proof (rule modes_stepI)
  show "graceful (read_number st)"
    using assms(2) by (simp add: read_number_def lx_advance_bump Let_def split: prod.split option.split)
  show "modes_ok (lx_modes st')" if "read_number st = Inr (x, st')" for x st'
    using assms(1) lx_skip_modes [OF read_number_reach [OF that]] by simp
qed

lemma modes_step_operator_arm:
  assumes "modes_ok (lx_modes st)"
  shows "modes_step (lex_operator_arm arms sp ch st)"
proof (rule modes_stepI)
  show "graceful (lex_operator_arm arms sp ch st)"
    by (induction arms sp ch st rule: lex_operator_arm.induct) auto
  show "modes_ok (lx_modes st')" if "lex_operator_arm arms sp ch st = Inr (x, st')" for x st'
    using assms lx_skip_modes [OF lex_operator_arm_skip [OF that]] by simp
qed

lemma modes_step_identifier:
  assumes "modes_ok (lx_modes st)" "lx_peek st = Some c" "is_ascii_alphabetic c \<or> c = uc CHR ''_''"
  shows "modes_step (Inr (read_identifier_or_keyword st))"
  using assms(1) lx_skip_modes [OF read_identifier_reach [OF assms(2,3)]]
  by (cases "read_identifier_or_keyword st") simp

lemma modes_step_lex_normal_token:
  assumes "modes_ok (lx_modes st)" "even (length (lx_modes st))"
  shows "modes_step (lex_normal_token st)"
  using assms
proof (induction st rule: measure_induct_rule [where f = lx_rem])
  case (less st)
  let ?w = "skip_whitespace st"
  have ms: "lx_modes ?w = lx_modes st"
    by (simp add: lx_skip_modes)
  have sub: "modes_step (lex_normal_token x)"
    if "lx_peek ?w = Some c" "lx_skip (lx_bump (lx_bump ?w)) x" for c x
  proof (rule less.IH)
    show "lx_rem x < lx_rem st" using that by (rule comment_less)
    show "modes_ok (lx_modes x)" "even (length (lx_modes x))"
      using less.prems lx_skip_modes [OF that(2)] ms by simp_all
  qed
  show ?case
    using less.prems ms
    by (subst lex_normal_token.simps)
      (auto simp: Let_def split: option.split
        intro!: modes_step_and_then modes_step_read_string_segment modes_step_read_number
          modes_step_operator_arm
        intro: sub skip_block_comment_skip modes_step_identifier)
qed

lemma modes_step_next_token:
  assumes "modes_ok (lx_modes st)"
  shows "modes_step (next_token st)"
  using assms
proof (induction st rule: measure_induct_rule [where f = lx_rem])
  case (less st)
  note last = modes_ok_last [OF less.prems]
  have normal: "modes_step (lex_normal_token x)"
    if "lx_skip st x" "lx_modes st \<noteq> [] \<longrightarrow> last (lx_modes st) \<noteq> StringContinuation" for x
    using that less.prems last lx_skip_modes [OF that(1)]
    by (cases "lx_modes st = []") (auto intro: modes_step_lex_normal_token)
  show ?case
  proof (cases "lx_modes st = []")
    case True
    then show ?thesis
      using normal [of st] by (subst next_token.simps) simp
  next
    case False
    show ?thesis
    proof (cases "last (lx_modes st)")
      case StringContinuation
      then show ?thesis
        using False less.prems last
        by (subst next_token.simps) (simp add: modes_step_read_string_segment)
    next
      case (Interpolation d)
      have "modes_step
         (if d = 0 \<and> lx_peek x = Some (uc CHR ''}'') then
            next_token ((lx_bump x)\<lparr>lx_modes := butlast (lx_modes x)\<rparr>)
          else if lx_peek x = Some (uc CHR ''{'') then
            Inr (\<lparr>tk_kind = TkLBrace, tk_span = lx_span x\<rparr>, brace_depth_incr (lx_bump x))
          else if lx_peek x = Some (uc CHR ''}'') then
            and_then (brace_depth_decr (lx_bump x)) (\<lambda>st1.
              Inr (\<lparr>tk_kind = TkRBrace, tk_span = lx_span x\<rparr>, st1))
          else lex_normal_token x)"
        if x: "skip_trivia st = Inr x" for x
      proof -
        have sk: "lx_skip st x" using x by (rule skip_trivia_skip)
        then have ms: "lx_modes x = lx_modes st" by (rule lx_skip_modes)
        have snoc: "lx_modes st = butlast (lx_modes st) @ [Interpolation d]"
          using False Interpolation by (metis append_butlast_last_id)
        have tail: "modes_ok (butlast (lx_modes st) @ [Interpolation d'])" for d'
          using less.prems snoc by (metis modes_ok_snoc lexer_mode.distinct(1))
        have rec: "modes_step (next_token ((lx_bump x)\<lparr>lx_modes := butlast (lx_modes x)\<rparr>))"
          if "lx_peek x = Some c" for c
          using less.prems ms less_le_trans [OF lx_rem_bump_less [OF that] lx_skip_rem [OF sk]]
          by (intro less.IH) (auto simp: modes_ok_butlast)
        show ?thesis
          using False Interpolation ms tail normal [OF sk] rec
          by (auto simp: brace_depth_incr_def brace_depth_decr_def)
      qed
      then show ?thesis
        using False Interpolation
        by (subst next_token.simps) (auto intro!: modes_step_and_then)
    qed
  qed
qed

lemma tokenize_from_graceful: "modes_ok (lx_modes st) \<Longrightarrow> graceful (tokenize_from st)"
proof (induction st rule: tokenize_from.induct)
  case (1 st)
  have "modes_step (next_token st)"
    using "1.prems" by (rule modes_step_next_token)
  then show ?case
    using "1.IH" by (subst tokenize_from.simps) (auto simp: modes_step_def intro!: graceful_and_then)
qed

section \<open>The shape of the token list\<close>

text \<open>
  \<open>tokens_at src n toks\<close>: the tokens start at strictly increasing offsets from \<open>n\<close> on, each
  carrying the line and column of its offset, and the list ends with the only end-of-file
  token, which stands at the end of the source.
\<close>

fun tokens_at :: "rchar list \<Rightarrow> nat \<Rightarrow> token list \<Rightarrow> bool" where
  "tokens_at src n [] = False"
| "tokens_at src n (tok # toks) =
     (\<exists>k \<ge> n. tk_span tok = span_at src k \<and>
        (if tk_kind tok = TkEof then k = length src \<and> toks = []
         else k < length src \<and> tokens_at src (Suc k) toks))"

lemma tokens_at_mono: "tokens_at src n toks \<Longrightarrow> m \<le> n \<Longrightarrow> tokens_at src m toks"
  by (cases toks) (auto intro: order_trans)

lemma tokenize_from_at:
  "located st \<Longrightarrow> tokenize_from st = Inr toks \<Longrightarrow> tokens_at (lx_source st) (lx_pos st) toks"
proof (induction st arbitrary: toks rule: tokenize_from.induct)
  case (1 st)
  obtain tok st' where nt: "next_token st = Inr (tok, st')"
    using "1.prems"(2) by (subst (asm) tokenize_from.simps) (auto simp: and_then_eq_Inr)
  then have from_st: "token_from st tok st'" by (rule next_token_token)
  then obtain s where s: "lx_reach st s" "tk_span tok = lx_span s"
    and kind: "if tk_kind tok = TkEof then lx_peek s = None \<and> st' = s
       else \<exists>c. lx_peek s = Some c \<and> lx_reach (lx_bump s) st'"
    by (auto simp: token_from_def)
  have loc: "located s" "lx_source s = lx_source st" "lx_pos st \<le> lx_pos s"
    using s(1) "1.prems"(1) by (auto simp: lx_reach_def)
  show ?case
  proof (cases "tk_kind tok = TkEof")
    case True
    with nt "1.prems"(2) have "toks = [tok]"
      by (subst (asm) tokenize_from.simps) simp
    with True kind loc s(2) show ?thesis
      by (auto simp: located_def lx_peek_def split: if_splits)
  next
    case False
    with nt "1.prems"(2) obtain rest where rest: "tokenize_from st' = Inr rest" "toks = tok # rest"
      by (subst (asm) tokenize_from.simps) (auto simp: and_then_eq_Inr)
    from kind False obtain c where c: "lx_peek s = Some c" "lx_reach (lx_bump s) st'" by auto
    then have pos: "Suc (lx_pos s) \<le> lx_pos st'" "lx_pos s < length (lx_source s)"
      by (auto simp: lx_reach_def lx_bump_def lx_advance_def Let_def lx_peek_def split: if_splits)
    have "lx_source st' = lx_source st" "located st'"
      using token_from_reach [OF from_st] "1.prems"(1) by (auto simp: lx_reach_def)
    with "1.IH" [OF nt refl False _ rest(1)] pos(1) loc
    have "tokens_at (lx_source st) (Suc (lx_pos s)) rest"
      by (auto intro: tokens_at_mono)
    with False rest(2) s(2) loc pos(2) show ?thesis
      by (auto simp: located_def)
  qed
qed

lemma tokens_at_last: "tokens_at src n toks \<Longrightarrow> toks \<noteq> [] \<and> tk_kind (last toks) = TkEof"
  by (induction src n toks rule: tokens_at.induct) (auto split: if_splits)

lemma tokens_at_butlast: "tokens_at src n toks \<Longrightarrow> \<forall>t \<in> set (butlast toks). tk_kind t \<noteq> TkEof"
  by (induction src n toks rule: tokens_at.induct) (auto split: if_splits)

section \<open>Literals and names\<close>

definition ident_start :: "rchar \<Rightarrow> bool" where
  "ident_start c \<longleftrightarrow> is_ascii_alphabetic c \<or> c = uc CHR ''_''"

definition ident_char :: "rchar \<Rightarrow> bool" where
  "ident_char c \<longleftrightarrow> is_ascii_alphanumeric c \<or> c = uc CHR ''_''"

definition valid_ident :: "string \<Rightarrow> bool" where
  "valid_ident s \<longleftrightarrow>
     (case s of
        [] \<Rightarrow> False
      | c # cs \<Rightarrow> ident_start (uc c) \<and> list_all (\<lambda>d. ident_char (uc d)) cs) \<and>
     map_of keyword_table s = None"

text \<open>The tokens a lexer can produce: integers in the range of \<open>i64\<close>, names that are names.\<close>

fun wf_kind :: "token_kind \<Rightarrow> bool" where
  "wf_kind (TkIntLit v) \<longleftrightarrow> 0 \<le> v \<and> v \<le> i64_max"
| "wf_kind (TkIdent s) \<longleftrightarrow> valid_ident s"
| "wf_kind _ \<longleftrightarrow> True"

lemma char_of_underscore [simp]: "char_of (95 :: nat) = CHR ''_''"
  using char_of_char [where 'a = nat, of "CHR ''_''"] by simp

lemma ident_char_uc: "ident_char c \<Longrightarrow> uc (char_of c) = c"
  by (auto simp: ident_char_def ascii_defs)

lemma read_ident_chars_ident:
  "\<forall>c \<in> set cs. ident_char c \<Longrightarrow> \<forall>c \<in> set (fst (read_ident_chars cs st)). ident_char c"
proof (induction cs st rule: read_ident_chars.induct)
  case (1 cs st)
  then show ?case
    by (subst read_ident_chars.simps) (auto simp: ident_char_def split: option.split)
qed

lemma read_ident_chars_prefix: "\<exists>ds. fst (read_ident_chars cs st) = cs @ ds"
proof (induction cs st rule: read_ident_chars.induct)
  case (1 cs st)
  then show ?case
    by (subst read_ident_chars.simps) (auto split: option.split)
qed

lemma wf_kind_identifier:
  assumes "lx_peek st = Some c" "is_ascii_alphabetic c \<or> c = uc CHR ''_''"
  shows "wf_kind (tk_kind (fst (read_identifier_or_keyword st)))"
proof -
  have step: "read_ident_chars [] st = read_ident_chars [c] (lx_bump st)"
    using assms by (subst read_ident_chars.simps) (auto simp: is_ascii_alphanumeric_def)
  obtain ds st1 where rc: "read_ident_chars [c] (lx_bump st) = (c # ds, st1)"
    using read_ident_chars_prefix [of "[c]" "lx_bump st"]
    by (cases "read_ident_chars [c] (lx_bump st)") auto
  with step have r: "read_ident_chars [] st = (c # ds, st1)" by simp
  have c: "ident_char c"
    using assms(2) by (auto simp: ident_char_def is_ascii_alphanumeric_def)
  have all: "\<forall>d \<in> set (c # ds). ident_char d"
  proof -
    have "\<forall>d \<in> set (fst (read_ident_chars [c] (lx_bump st))). ident_char d"
      using c by (intro read_ident_chars_ident) simp
    then show ?thesis by (simp only: rc fst_conv)
  qed
  let ?s = "map char_of (c # ds) :: string"
  have valid: "valid_ident ?s" if "map_of keyword_table ?s = None"
    using c all assms(2) that ident_char_uc
    by (auto simp: valid_ident_def list_all_iff ident_start_def)
  have kw: "wf_kind k" if "map_of keyword_table ?s = Some k" for k
  proof -
    have "k \<in> snd ` set keyword_table" using that by (force dest: map_of_SomeD)
    then show ?thesis by (auto simp: keyword_table_def)
  qed
  show ?thesis
    using r valid kw
    by (auto simp: read_identifier_or_keyword_def Let_def keyword_or_ident_def simp del: list.map
        split: option.split)
qed

lemma wf_kind_operator:
  "lex_operator_arm operator_arms sp ch st = Inr (tok, st') \<Longrightarrow> wf_kind (tk_kind tok)"
  using lex_operator_arm_kind [of operator_arms sp ch st tok st']
  by (auto simp: operator_arms_def)

lemma wf_kind_string:
  "read_string_segment sp ini s st = Inr (tok, st') \<Longrightarrow> wf_kind (tk_kind tok)"
proof (induction st arbitrary: s rule: measure_induct_rule [where f = lx_rem])
  case (less st)
  have sub: "wf_kind (tk_kind tok)"
    if "read_string_segment sp ini s' x = Inr (tok, st')" "lx_peek st = Some c" "lx_reach (lx_bump st) x"
    for c s' x
    using less.IH [OF lx_rem_less [OF that(2,3)] that(1)] .
  from less.prems show ?case
    by (subst (asm) read_string_segment.simps)
      (auto simp: Let_def and_then_eq_Inr split: option.splits if_splits
        dest: sub intro: lx_skip_reach read_string_escape_skip)
qed

lemma wf_kind_number: "read_number st = Inr (tok, st') \<Longrightarrow> wf_kind (tk_kind tok)"
  by (auto simp: read_number_def parse_i64_def Let_def split: prod.splits option.splits if_splits)

lemma wf_kind_normal: "lex_normal_token st = Inr (tok, st') \<Longrightarrow> wf_kind (tk_kind tok)"
proof (induction st rule: measure_induct_rule [where f = lx_rem])
  case (less st)
  let ?w = "skip_whitespace st"
  have sub: "wf_kind (tk_kind tok)"
    if "lex_normal_token x = Inr (tok, st')" "lx_peek ?w = Some c" "lx_skip (lx_bump (lx_bump ?w)) x"
    for c x
    using that by (blast intro: less.IH comment_less)
  have ident: "wf_kind (tk_kind tok)"
    if "read_identifier_or_keyword ?w = (tok, st')" "lx_peek ?w = Some c"
      "is_ascii_alphabetic c \<or> c = uc CHR ''_''" for c
    using wf_kind_identifier [OF that(2,3)] that(1) by simp
  from less.prems show ?case
    by (subst (asm) lex_normal_token.simps)
      (auto simp: Let_def and_then_eq_Inr split: option.splits if_splits
        dest: sub wf_kind_operator wf_kind_number wf_kind_string ident intro: skip_block_comment_skip)
qed

lemma wf_kind_next: "next_token st = Inr (tok, st') \<Longrightarrow> wf_kind (tk_kind tok)"
proof (induction st rule: measure_induct_rule [where f = lx_rem])
  case (less st)
  have sub: "wf_kind (tk_kind tok)"
    if "next_token (lx_bump x\<lparr>lx_modes := ms\<rparr>) = Inr (tok, st')" "skip_trivia st = Inr x"
      "lx_peek x = Some c" for x c ms
    using that less_le_trans [OF lx_rem_bump_less [OF that(3)] lx_skip_rem [OF skip_trivia_skip [OF that(2)]]]
    by (intro less.IH) auto
  from less.prems show ?case
    by (subst (asm) next_token.simps)
      (auto simp: and_then_eq_Inr split: if_splits lexer_mode.splits
        dest: wf_kind_normal wf_kind_string sub)
qed

lemma wf_kind_tokenize: "tokenize_from st = Inr toks \<Longrightarrow> \<forall>t \<in> set toks. wf_kind (tk_kind t)"
proof (induction st arbitrary: toks rule: tokenize_from.induct)
  case (1 st)
  from "1.prems" obtain tok st' where nt: "next_token st = Inr (tok, st')"
    by (subst (asm) tokenize_from.simps) (auto simp: and_then_eq_Inr)
  note wf = wf_kind_next [OF nt]
  show ?case
  proof (cases "tk_kind tok = TkEof")
    case True
    with nt "1.prems" wf show ?thesis by (subst (asm) tokenize_from.simps) auto
  next
    case False
    with nt "1.prems" obtain rest where "tokenize_from st' = Inr rest" "toks = tok # rest"
      by (subst (asm) tokenize_from.simps) (auto simp: and_then_eq_Inr)
    with "1.IH" [OF nt refl False] wf show ?thesis by simp
  qed
qed

section \<open>The lexer\<close>

text \<open>
  C28. Lexing never panics and always ends: for every source text the outcome is a token list
  or a reported error. In particular the brace depth of an interpolation is never
  decremented below zero and \<open>read_number\<close> never unwraps the end of the file.
\<close>

theorem tokenize_graceful: "graceful (tokenize src)"
  unfolding tokenize_def by (rule tokenize_from_graceful) (simp add: lexer_new_def modes_ok_def)

text \<open>
  C30. The positions of the tokens: they start at strictly increasing offsets of the source,
  each carries the line and column of its offset, counted from the text itself, and the last
  one, and only that, is the end-of-file token, at the end of the source.
\<close>

theorem tokenize_positions: "tokenize src = Inr toks \<Longrightarrow> tokens_at src 0 toks"
  using tokenize_from_at [of "lexer_new src" toks]
  by (simp add: tokenize_def lexer_new_def located_def span_at_def lx_span_def)

lemma tokenize_positions_witness:
  "tokens_at [97, 10, 43] 0
     [\<lparr>tk_kind = TkIdent ''a'', tk_span = Span 1 1\<rparr>,
      \<lparr>tk_kind = TkPlus, tk_span = Span 2 1\<rparr>,
      \<lparr>tk_kind = TkEof, tk_span = Span 2 2\<rparr>]"
  by (rule tokenize_positions) code_simp

text \<open>
  C31. The tokens that the lexer produces are well-formed: an integer literal is in the range
  of \<open>i64\<close>, and a name is a letter or underscore followed by letters, digits and underscores
  that is not a keyword.
\<close>

theorem tokenize_wf: "tokenize src = Inr toks \<Longrightarrow> list_all (\<lambda>t. wf_kind (tk_kind t)) toks"
  unfolding tokenize_def list_all_iff by (rule wf_kind_tokenize)

lemma tokenize_wf_witness:
  "list_all (\<lambda>t. wf_kind (tk_kind t))
     [\<lparr>tk_kind = TkIntLit 7, tk_span = Span 1 1\<rparr>, \<lparr>tk_kind = TkEof, tk_span = Span 1 2\<rparr>]"
  by (rule tokenize_wf [of "[55]"]) code_simp

end
