(* ===== verification/LexRoundtrip.thy ===== *)
theory LexRoundtrip
  imports LexerProps
begin

text \<open>
  Printing and lexing. \<open>display_kind\<close> is the \<open>Display\<close> of a token in
  \<open>src/src/token.rs\<close>, which the error messages use. Printed with \<open>Display\<close>, with the
  characters of a string literal escaped, and separated by spaces, any list of well-formed
  tokens outside interpolated strings is read back as it was.

  The \<open>Display\<close> of a 64-bit float (the shortest decimal that reads back) is a parameter.
\<close>

section \<open>Display\<close>

fun display_kind :: "(f64 \<Rightarrow> rstring) \<Rightarrow> token_kind \<Rightarrow> rstring" where
  "display_kind fmt TkFn = ustr ''fn''"
| "display_kind fmt TkFnBang = ustr ''fn!''"
| "display_kind fmt TkLet = ustr ''let''"
| "display_kind fmt TkMut = ustr ''mut''"
| "display_kind fmt TkStruct = ustr ''struct''"
| "display_kind fmt TkEnum = ustr ''enum''"
| "display_kind fmt TkIf = ustr ''if''"
| "display_kind fmt TkElse = ustr ''else''"
| "display_kind fmt TkWhile = ustr ''while''"
| "display_kind fmt TkFor = ustr ''for''"
| "display_kind fmt TkIn = ustr ''in''"
| "display_kind fmt TkMatch = ustr ''match''"
| "display_kind fmt TkReturn = ustr ''return''"
| "display_kind fmt TkTry = ustr ''try''"
| "display_kind fmt TkExtern = ustr ''extern''"
| "display_kind fmt TkAs = ustr ''as''"
| "display_kind fmt TkAnd = ustr ''and''"
| "display_kind fmt TkOr = ustr ''or''"
| "display_kind fmt TkNot = ustr ''not''"
| "display_kind fmt TkTrue = ustr ''true''"
| "display_kind fmt TkFalse = ustr ''false''"
| "display_kind fmt TkBreak = ustr ''break''"
| "display_kind fmt TkContinue = ustr ''continue''"
| "display_kind fmt TkUse = ustr ''use''"
| "display_kind fmt TkDefer = ustr ''defer''"
| "display_kind fmt TkArena = ustr ''arena''"
| "display_kind fmt (TkIntLit v) = ustr (show_int v)"
| "display_kind fmt (TkFloatLit v) = fmt v"
| "display_kind fmt (TkStringLit s) = [34] @ s @ [34]"
| "display_kind fmt (TkInterpStringStart s) = [34] @ s @ ustr ''{''"
| "display_kind fmt (TkInterpStringMiddle s) = ustr ''}'' @ s @ ustr ''{''"
| "display_kind fmt (TkInterpStringEnd s) = ustr ''}'' @ s @ [34]"
| "display_kind fmt (TkIdent s) = ustr s"
| "display_kind fmt TkPlus = ustr ''+''"
| "display_kind fmt TkMinus = ustr ''-''"
| "display_kind fmt TkStar = ustr ''*''"
| "display_kind fmt TkSlash = ustr ''/''"
| "display_kind fmt TkPercent = ustr ''%''"
| "display_kind fmt TkPlusEq = ustr ''+=''"
| "display_kind fmt TkMinusEq = ustr ''-=''"
| "display_kind fmt TkStarEq = ustr ''*=''"
| "display_kind fmt TkSlashEq = ustr ''/=''"
| "display_kind fmt TkPercentEq = ustr ''%=''"
| "display_kind fmt TkEqEq = ustr ''==''"
| "display_kind fmt TkBangEq = ustr ''!=''"
| "display_kind fmt TkLt = ustr ''<''"
| "display_kind fmt TkGt = ustr ''>''"
| "display_kind fmt TkLtEq = ustr ''<=''"
| "display_kind fmt TkGtEq = ustr ''>=''"
| "display_kind fmt TkEq = ustr ''=''"
| "display_kind fmt TkFatArrow = ustr ''=>''"
| "display_kind fmt TkLBrace = ustr ''{''"
| "display_kind fmt TkRBrace = ustr ''}''"
| "display_kind fmt TkLParen = ustr ''(''"
| "display_kind fmt TkRParen = ustr '')''"
| "display_kind fmt TkLBracket = ustr ''[''"
| "display_kind fmt TkRBracket = ustr '']''"
| "display_kind fmt TkComma = ustr '',''"
| "display_kind fmt TkColon = ustr '':''"
| "display_kind fmt TkSemicolon = ustr '';''"
| "display_kind fmt TkDot = ustr ''.''"
| "display_kind fmt TkDotDot = ustr ''..''"
| "display_kind fmt TkArrow = ustr ''->''"
| "display_kind fmt TkColonColon = ustr ''::''"
| "display_kind fmt TkUnderscore = ustr ''_''"
| "display_kind fmt TkEof = ustr ''EOF''"

section \<open>Printing\<close>

definition escape_char :: "rchar \<Rightarrow> rstring" where
  "escape_char c =
     (if c = 10 then [92, 110]
      else if c = 92 then [92, 92]
      else if c = 34 then [92, 34]
      else if c = 123 then [123, 123]
      else if c = 125 then [125, 125]
      else [c])"

definition print_kind :: "(f64 \<Rightarrow> rstring) \<Rightarrow> token_kind \<Rightarrow> rstring" where
  "print_kind fmt k =
     (case k of
        TkStringLit s \<Rightarrow> display_kind fmt (TkStringLit (concat (map escape_char s)))
      | _ \<Rightarrow> display_kind fmt k)"

definition print_kinds :: "(f64 \<Rightarrow> rstring) \<Rightarrow> token_kind list \<Rightarrow> rstring" where
  "print_kinds fmt ks = concat (map (\<lambda>k. print_kind fmt k @ [32]) ks)"

fun printable :: "token_kind \<Rightarrow> bool" where
  "printable (TkFloatLit _) = False"
| "printable (TkInterpStringStart _) = False"
| "printable (TkInterpStringMiddle _) = False"
| "printable (TkInterpStringEnd _) = False"
| "printable TkEof = False"
| "printable k = wf_kind k"

section \<open>Lexing one printed token\<close>

text \<open>The outcome of reading the token \<open>k\<close> at \<open>st\<close>, with \<open>rest\<close> left.\<close>

definition reads :: "lexer \<Rightarrow> failure + (token \<times> lexer) \<Rightarrow> token_kind \<Rightarrow> rchar list \<Rightarrow> bool" where
  "reads st r k rest \<longleftrightarrow>
     (\<exists>tok st'. r = Inr (tok, st') \<and> tk_kind tok = k \<and> lx_rest st' = rest \<and> lx_modes st' = lx_modes st)"

lemma lx_peek_Cons: "lx_rest st = c # cs \<Longrightarrow> lx_peek st = Some c"
  by (simp add: lx_peek_rest)

lemma lx_rest_bump_Cons: "lx_rest st = c # cs \<Longrightarrow> lx_rest (lx_bump st) = cs"
  by (simp add: lx_rest_bump)

lemma skip_whitespace_none: "lx_rest st = c # cs \<Longrightarrow> \<not> is_ascii_whitespace c \<Longrightarrow> skip_whitespace st = st"
  by (subst skip_whitespace.simps) (simp add: lx_peek_Cons)

lemma skip_whitespace_end: "lx_rest st = [] \<Longrightarrow> skip_whitespace st = st"
  by (subst skip_whitespace.simps) (simp add: lx_peek_rest)

lemma skip_whitespace_blank: "lx_rest st = 32 # cs \<Longrightarrow> skip_whitespace st = skip_whitespace (lx_bump st)"
  by (subst skip_whitespace.simps) (simp add: lx_peek_Cons is_ascii_whitespace_def)

lemma lex_normal_token_blank:
  "lx_rest st = 32 # cs \<Longrightarrow> lex_normal_token st = lex_normal_token (lx_bump st)"
  by (subst (1 2) lex_normal_token.simps) (simp add: skip_whitespace_blank)

lemma read_ident_chars_exact:
  assumes "lx_rest st = cs @ c # rest" "\<forall>d \<in> set cs. ident_char d" "\<not> ident_char c"
  shows "\<exists>st'. read_ident_chars acc st = (acc @ cs, st') \<and> lx_rest st' = c # rest \<and> lx_modes st' = lx_modes st"
  using assms
proof (induction cs arbitrary: acc st)
  case Nil
  then show ?case
    by (subst read_ident_chars.simps) (auto simp: lx_peek_rest ident_char_def)
next
  case (Cons d cs)
  have "lx_rest (lx_bump st) = cs @ c # rest"
    using Cons.prems(1) by (simp add: lx_rest_bump)
  from Cons.IH [OF this, of "acc @ [d]"] Cons.prems show ?case
    by (subst read_ident_chars.simps) (auto simp: lx_peek_rest ident_char_def)
qed

lemma read_digits_exact:
  assumes "lx_rest st = cs @ c # rest" "\<forall>d \<in> set cs. is_ascii_digit d" "\<not> is_ascii_digit c"
  shows "\<exists>st'. read_digits acc st = (acc @ cs, st') \<and> lx_rest st' = c # rest \<and> lx_modes st' = lx_modes st"
  using assms
proof (induction cs arbitrary: acc st)
  case Nil
  then show ?case
    by (subst read_digits.simps) (auto simp: lx_peek_rest)
next
  case (Cons d cs)
  have "lx_rest (lx_bump st) = cs @ c # rest"
    using Cons.prems(1) by (simp add: lx_rest_bump)
  from Cons.IH [OF this, of "acc @ [d]"] Cons.prems show ?case
    by (subst read_digits.simps) (auto simp: lx_peek_rest)
qed

lemma read_string_exact:
  assumes "lx_rest st = concat (map escape_char s) @ 34 # rest"
  shows "\<exists>st'. read_string_segment sp True acc st =
      Inr (\<lparr>tk_kind = TkStringLit (acc @ s), tk_span = sp\<rparr>, st') \<and>
    lx_rest st' = rest \<and> lx_modes st' = lx_modes st"
  using assms
proof (induction s arbitrary: acc st)
  case Nil
  then show ?case
    by (subst read_string_segment.simps) (simp add: lx_peek_rest lx_rest_bump Let_def)
next
  case (Cons c s)
  let ?r = "concat (map escape_char s) @ 34 # rest"
  consider (plain) "lx_rest st = c # ?r" "c \<notin> {10, 92, 34, 123, 125}"
    | (brace) "lx_rest st = c # c # ?r" "c \<in> {123, 125}"
    | (esc) "lx_rest st = 92 # (if c = 10 then 110 else c) # ?r" "c \<in> {10, 92, 34}"
    using Cons.prems by (auto simp: escape_char_def [of c] split: if_splits)
  then show ?case
  proof cases
    case plain
    then have r: "lx_rest (lx_bump st) = ?r" by (simp add: lx_rest_bump)
    from Cons.IH [OF r, of "acc @ [c]"] plain show ?thesis
      by (subst read_string_segment.simps) (auto simp: lx_peek_rest Let_def)
  next
    case brace
    then have r: "lx_rest (lx_bump (lx_bump st)) = ?r" by (simp add: lx_rest_bump)
    from Cons.IH [OF r, of "acc @ [c]"] brace show ?thesis
      by (subst read_string_segment.simps) (auto simp: lx_peek_rest lx_rest_bump Let_def)
  next
    case esc
    then have r: "lx_rest (lx_bump (lx_bump st)) = ?r" by (simp add: lx_rest_bump)
    have "read_string_escape acc (lx_span (lx_bump st)) (lx_bump st) =
        Inr (acc @ [c], lx_bump (lx_bump st))"
      using esc by (auto simp: read_string_escape_def lx_advance_bump lx_peek_rest lx_rest_bump)
    with Cons.IH [OF r, of "acc @ [c]"] esc show ?thesis
      by (subst read_string_segment.simps) (auto simp: lx_peek_rest lx_rest_bump Let_def)
  qed
qed

text \<open>Words: names, keywords, \<open>fn!\<close> and the wildcard.\<close>

lemma reads_word:
  assumes rest: "lx_rest st = ustr s @ 32 # rest"
    and s: "s = c # cs" "ident_start (uc c)" "list_all (\<lambda>d. ident_char (uc d)) s"
  shows "reads st (lex_normal_token st) (keyword_or_ident s) (32 # rest)"
proof -
  have first: "lx_rest st = uc c # ustr cs @ 32 # rest"
    using rest s(1) by simp
  have "\<not> ident_char 32"
    by (simp add: ident_char_def ascii_defs)
  with read_ident_chars_exact [of st "ustr s" 32 rest "[]"] rest s(3) obtain st' where
    w: "read_ident_chars [] st = (ustr s, st')" "lx_rest st' = 32 # rest" "lx_modes st' = lx_modes st"
    by (auto simp: list_all_iff)
  have "\<not> is_ascii_whitespace (uc c)" "uc c \<noteq> 47" "uc c \<noteq> 34" "\<not> is_ascii_digit (uc c)"
    using s(2) by (auto simp: ascii_defs ident_start_def)
  with first w s(2) show ?thesis
    by (subst lex_normal_token.simps)
      (auto simp: Let_def ident_start_def skip_whitespace_none lx_peek_Cons read_identifier_or_keyword_def
        reads_def comp_def)
qed

lemma reads_keyword:
  assumes "lx_rest st = ustr s @ 32 # rest" "map_of keyword_table s = Some k"
  shows "reads st (lex_normal_token st) k (32 # rest)"
proof -
  have "(s, k) \<in> set keyword_table" using assms(2) by (rule map_of_SomeD)
  then have "list_all (\<lambda>d. ident_char (uc d)) s \<and> s \<noteq> [] \<and> ident_start (uc (hd s))"
    by (auto simp: keyword_table_def ident_char_def ident_start_def ascii_defs)
  then show ?thesis
    using reads_word [of st s rest "hd s" "tl s"] assms
    by (simp add: keyword_or_ident_def)
qed

lemma reads_ident:
  assumes "lx_rest st = ustr s @ 32 # rest" "valid_ident s"
  shows "reads st (lex_normal_token st) (TkIdent s) (32 # rest)"
proof -
  obtain c cs where s: "s = c # cs" "ident_start (uc c)" "list_all (\<lambda>d. ident_char (uc d)) cs"
    "map_of keyword_table s = None"
    using assms(2) by (auto simp: valid_ident_def split: list.splits)
  then have "list_all (\<lambda>d. ident_char (uc d)) s"
    by (auto simp: ident_start_def ident_char_def is_ascii_alphanumeric_def)
  from reads_word [OF assms(1) s(1,2) this]
  show ?thesis by (simp add: keyword_or_ident_def s(4))
qed

lemma reads_fn_bang:
  assumes "lx_rest st = ustr ''fn!'' @ 32 # rest"
  shows "reads st (lex_normal_token st) TkFnBang (32 # rest)"
proof -
  have "\<not> ident_char 33"
    by (simp add: ident_char_def ascii_defs)
  with read_ident_chars_exact [of st "[102, 110]" 33 "32 # rest" "[]"] assms obtain st' where
    w: "read_ident_chars [] st = ([102, 110], st')" "lx_rest st' = 33 # 32 # rest" "lx_modes st' = lx_modes st"
    by (auto simp: ident_char_def ascii_defs)
  have fn: "map char_of [102, 110 :: nat] = ''fn''"
    by (simp add: char_of_eq_iff)
  from assms w fn show ?thesis
    by (subst lex_normal_token.simps)
      (auto simp: Let_def skip_whitespace_none [of st 102] lx_peek_Cons ascii_defs
        read_identifier_or_keyword_def reads_def lx_rest_bump)
qed

text \<open>Literals.\<close>

lemma show_nat_first: "show_nat n = CHR ''0'' # ds \<Longrightarrow> n = 0 \<and> ds = []"
proof (induction n arbitrary: ds rule: show_nat.induct)
  case (1 n)
  show ?case
  proof (cases "n < 10")
    case True
    with "1.prems" have "char_of (48 + n) = CHR ''0''" "ds = []"
      by (subst (asm) show_nat.simps, simp)+
    with True of_char_digit [of n] show ?thesis by simp
  next
    case False
    with "1.prems" obtain ds' where "show_nat (n div 10) = CHR ''0'' # ds'"
      by (subst (asm) show_nat.simps) (cases "show_nat (n div 10)"; simp)
    with "1.IH" False have "n div 10 = 0" by blast
    with False show ?thesis by simp
  qed
qed

lemma reads_int:
  assumes "lx_rest st = ustr (show_int v) @ 32 # rest" "0 \<le> v" "v \<le> i64_max"
  shows "reads st (lex_normal_token st) (TkIntLit v) (32 # rest)"
proof -
  let ?ds = "show_nat (nat v)"
  obtain d ds where dds: "?ds = d # ds"
    by (cases ?ds) auto
  have rest: "lx_rest st = uc d # ustr ds @ 32 # rest"
    using assms(1,2) dds by (simp add: show_int_def)
  then have rest1: "lx_rest (lx_bump st) = ustr ds @ 32 # rest"
    by (simp add: lx_rest_bump)
  have digits: "\<forall>c \<in> set (uc d # ustr ds). is_ascii_digit c"
    using show_nat_digits [of "nat v"] dds by simp
  have blank: "\<not> is_ascii_digit 32"
    by (simp add: is_ascii_digit_def)
  obtain st' where
    w: "read_digits [uc d] (lx_bump st) = (uc d # ustr ds, st')" "lx_rest st' = 32 # rest"
      "lx_modes st' = lx_modes st"
    using read_digits_exact [OF rest1 _ blank, of "[uc d]"] digits by auto
  have "digits_value 0 (uc d # ustr ds) = nat v"
    using digits_value_show_nat [of "nat v"] dds by simp
  with assms(2,3) have parsed: "parse_i64 (uc d # ustr ds) = Some v"
    unfolding parse_i64_def by simp
  have zero: "\<not> (uc d = 48 \<and> (case lx_peek (lx_bump st) of Some next \<Rightarrow> is_ascii_digit next | None \<Rightarrow> False))"
  proof
    assume z: "uc d = 48 \<and> (case lx_peek (lx_bump st) of Some next \<Rightarrow> is_ascii_digit next | None \<Rightarrow> False)"
    then have "d = CHR ''0''"
      using char_of_char [where 'a = nat, of d] char_of_char [where 'a = nat, of "CHR ''0''"] by simp
    with dds show_nat_first [of "nat v" ds] have "ds = []" by simp
    with z rest1 blank show False by (simp add: lx_peek_rest)
  qed
  have "lex_normal_token st = read_number st"
    using rest digits
    by (subst lex_normal_token.simps)
      (auto simp: Let_def skip_whitespace_none lx_peek_Cons ascii_defs)
  moreover have "read_number st = Inr (\<lparr>tk_kind = TkIntLit v, tk_span = lx_span st\<rparr>, st')"
    using zero w parsed lx_peek_Cons [OF rest]
    by (simp add: read_number_def lx_advance_bump Let_def lx_peek_rest)
  ultimately show ?thesis
    using w by (auto simp: reads_def)
qed

lemma reads_string:
  assumes "lx_rest st = 34 # concat (map escape_char s) @ 34 # rest"
  shows "reads st (lex_normal_token st) (TkStringLit s) rest"
proof -
  have "lx_rest (lx_bump st) = concat (map escape_char s) @ 34 # rest"
    using assms by (simp add: lx_rest_bump)
  from read_string_exact [OF this, of "lx_span st" "[]"] assms show ?thesis
    by (subst lex_normal_token.simps)
      (auto simp: Let_def skip_whitespace_none [of st 34] lx_peek_Cons ascii_defs reads_def)
qed

text \<open>Operators and punctuation: one or two characters, by evaluation of the lexer.\<close>

lemmas operator_eval =
  Let_def skip_whitespace_none lx_peek_Cons lx_rest_bump_Cons ascii_defs operator_arms_def reads_def
  lx_peek_ahead_rest

lemma reads_operator1:
  assumes "lx_rest st = c # 32 # rest"
    and "lex_operator_arm operator_arms (lx_span st) c (lx_bump st) =
      Inr (\<lparr>tk_kind = k, tk_span = lx_span st\<rparr>, lx_bump st)"
    and "c \<notin> {47, 34, 33, 95}" "\<not> is_ascii_whitespace c" "\<not> is_ascii_digit c" "\<not> is_ascii_alphabetic c"
  shows "reads st (lex_normal_token st) k (32 # rest)"
  using assms
  by (subst lex_normal_token.simps)
    (simp add: Let_def skip_whitespace_none lx_peek_Cons lx_rest_bump_Cons reads_def)

lemma reads_operator2:
  assumes "lx_rest st = c # d # 32 # rest"
    and "lex_operator_arm operator_arms (lx_span st) c (lx_bump st) =
      Inr (\<lparr>tk_kind = k, tk_span = lx_span st\<rparr>, lx_bump (lx_bump st))"
    and "c \<notin> {47, 34, 33, 95}" "\<not> is_ascii_whitespace c" "\<not> is_ascii_digit c" "\<not> is_ascii_alphabetic c"
  shows "reads st (lex_normal_token st) k (32 # rest)"
  using assms
  by (subst lex_normal_token.simps)
    (simp add: Let_def skip_whitespace_none lx_peek_Cons lx_rest_bump_Cons reads_def)

lemma reads_slash:
  "lx_rest st = 47 # 32 # rest \<Longrightarrow> reads st (lex_normal_token st) TkSlash (32 # rest)"
  "lx_rest st = 47 # 61 # 32 # rest \<Longrightarrow> reads st (lex_normal_token st) TkSlashEq (32 # rest)"
  "lx_rest st = 33 # 61 # 32 # rest \<Longrightarrow> reads st (lex_normal_token st) TkBangEq (32 # rest)"
  by (subst lex_normal_token.simps, simp add: operator_eval)+

lemmas eval_arm = operator_arms_def lx_peek_Cons lx_rest_bump_Cons ascii_defs

fun operator_kind :: "token_kind \<Rightarrow> bool" where
  "operator_kind (TkIntLit _) = False"
| "operator_kind (TkIdent _) = False"
| "operator_kind (TkStringLit _) = False"
| "operator_kind TkFnBang = False"
| "operator_kind k = (printable k \<and> k \<notin> snd ` set keyword_table)"

lemma reads_operator:
  assumes "operator_kind k" "lx_rest st = display_kind fmt k @ 32 # rest"
  shows "reads st (lex_normal_token st) k (32 # rest)"
  using assms
  by (cases k)
    (auto simp: keyword_table_def eval_arm intro: reads_slash reads_operator1 reads_operator2)

lemma distinct_keyword_table: "distinct (map fst keyword_table)"
  by (simp add: keyword_table_def)

lemma print_keyword: "(s, k) \<in> set keyword_table \<Longrightarrow> print_kind fmt k = ustr s"
  by (auto simp: keyword_table_def print_kind_def)

lemma reads_printable:
  assumes "printable k" "lx_rest st = print_kind fmt k @ 32 # rest"
  shows "reads st (lex_normal_token st) k (32 # rest)"
proof -
  consider (int) v where "k = TkIntLit v" | (ident) s where "k = TkIdent s"
    | (string) s where "k = TkStringLit s" | (bang) "k = TkFnBang"
    | (keyword) s where "(s, k) \<in> set keyword_table"
    | (operator) "operator_kind k"
    using assms(1) by (cases "k \<in> snd ` set keyword_table"; cases k) auto
  then show ?thesis
  proof cases
    case int
    with assms show ?thesis by (simp add: print_kind_def reads_int)
  next
    case ident
    with assms show ?thesis by (simp add: print_kind_def reads_ident)
  next
    case string
    with assms show ?thesis by (simp add: print_kind_def reads_string)
  next
    case bang
    with assms show ?thesis by (simp add: print_kind_def reads_fn_bang)
  next
    case keyword
    then have "print_kind fmt k = ustr s" by (rule print_keyword)
    moreover have "map_of keyword_table s = Some k"
      using keyword by (rule map_of_is_SomeI [OF distinct_keyword_table])
    ultimately show ?thesis using assms(2) reads_keyword by simp
  next
    case operator
    then have "print_kind fmt k = display_kind fmt k"
      by (cases k) (simp_all add: print_kind_def)
    with operator assms(2) show ?thesis by (simp add: reads_operator)
  qed
qed

section \<open>Lexing a printed token list\<close>

lemma tokenize_from_printed:
  assumes "list_all printable ks" "lx_modes st = []"
    and "lx_rest st = print_kinds fmt ks \<or> lx_rest st = 32 # print_kinds fmt ks"
  shows "\<exists>toks. tokenize_from st = Inr toks \<and> map tk_kind toks = ks @ [TkEof]"
  using assms
proof (induction ks arbitrary: st)
  case Nil
  have "lex_normal_token st' = Inr (\<lparr>tk_kind = TkEof, tk_span = lx_span st'\<rparr>, st')"
    if "lx_rest st' = []" for st'
    using that by (subst lex_normal_token.simps) (simp add: Let_def skip_whitespace_end lx_peek_rest)
  moreover have "lx_rest st = [] \<or> lx_rest st = [32]"
    using Nil.prems(3) by (simp add: print_kinds_def)
  ultimately have "\<exists>tok st'. lex_normal_token st = Inr (tok, st') \<and> tk_kind tok = TkEof"
    by (metis lex_normal_token_blank lx_rest_bump_Cons token.select_convs(1))
  with Nil.prems(2) show ?case
    by (subst tokenize_from.simps, subst next_token.simps) auto
next
  case (Cons k ks)
  have printed: "print_kinds fmt (k # ks) = print_kind fmt k @ 32 # print_kinds fmt ks"
    by (simp add: print_kinds_def)
  have "reads st (lex_normal_token st) k (32 # print_kinds fmt ks)"
  proof (cases "lx_rest st = print_kinds fmt (k # ks)")
    case True
    with Cons.prems(1) printed show ?thesis by (simp add: reads_printable)
  next
    case False
    then have blank: "lx_rest st = 32 # print_kinds fmt (k # ks)" using Cons.prems(3) by blast
    have "reads (lx_bump st) (lex_normal_token (lx_bump st)) k (32 # print_kinds fmt ks)"
      using Cons.prems(1) printed lx_rest_bump_Cons [OF blank] by (simp add: reads_printable)
    then show ?thesis
      by (simp add: lex_normal_token_blank [OF blank] reads_def)
  qed
  then obtain tok st' where tok: "lex_normal_token st = Inr (tok, st')" "tk_kind tok = k"
    "lx_rest st' = 32 # print_kinds fmt ks" "lx_modes st' = []"
    using Cons.prems(2) by (auto simp: reads_def)
  obtain toks where "tokenize_from st' = Inr toks" "map tk_kind toks = ks @ [TkEof]"
    using Cons.IH [of st'] Cons.prems(1) tok(3,4) by auto
  moreover have "k \<noteq> TkEof"
    using Cons.prems(1) by auto
  ultimately show ?case
    using tok Cons.prems(2) by (subst tokenize_from.simps, subst next_token.simps) auto
qed

text \<open>
  C29. Printing and lexing round trip: any list of well-formed tokens outside interpolated
  strings and floats, printed with \<open>Display\<close>, strings escaped and separated by spaces, is
  read back as the same list of tokens, followed by the end of the file.
\<close>

theorem tokenize_print:
  "list_all printable ks \<Longrightarrow>
     \<exists>toks. tokenize (print_kinds fmt ks) = Inr toks \<and> map tk_kind toks = ks @ [TkEof]"
  unfolding tokenize_def
  by (rule tokenize_from_printed [where fmt = fmt]) (simp_all add: lexer_new_def lx_rest_def)

lemma tokenize_print_witness:
  "\<exists>toks. tokenize (print_kinds (\<lambda>_. []) [TkLet, TkIdent ''x'', TkEqEq, TkIntLit 12]) = Inr toks \<and>
     map tk_kind toks = [TkLet, TkIdent ''x'', TkEqEq, TkIntLit 12] @ [TkEof]"
  by (rule tokenize_print) (simp add: valid_ident_def ident_start_def ascii_defs keyword_table_def i64_max_def)

end
