(* ===== verification/ParserBase.thy ===== *)
theory ParserBase
  imports Errors
begin

text \<open>
  The cursor of the parser of \<open>src/src/parser.rs\<close> and what all productions share: looking
  at tokens, consuming them, comma-separated lists, and the contract \<open>advances\<close> that every
  production is shown to keep: it never panics and never runs out of fuel, and when it
  succeeds it has moved the cursor forward and left the tokens alone.

  Loops and recursive calls carry fuel. It is always computed from the number of tokens
  left, and the locale \<open>production\<close> states what a caller needs of a production whose fuel
  covers all cursors with fewer than a given number of tokens left.
\<close>

section \<open>Cursor\<close>

record pstate =
  p_tokens :: "token list"
  p_pos :: nat
  p_known_type_names :: "string set"

type_synonym 'a parser = "pstate \<Rightarrow> failure + ('a \<times> pstate)"

definition parser_new :: "token list \<Rightarrow> pstate" where
  "parser_new toks = \<lparr>p_tokens = toks, p_pos = 0, p_known_type_names = {}\<rparr>"

definition p_peek :: "pstate \<Rightarrow> token_kind" where
  "p_peek st = (if p_pos st < length (p_tokens st) then tk_kind (p_tokens st ! p_pos st) else TkEof)"

definition p_peek_span :: "pstate \<Rightarrow> span" where
  "p_peek_span st =
     (if p_pos st < length (p_tokens st) then tk_span (p_tokens st ! p_pos st) else Span 0 0)"

definition p_peek_ahead :: "nat \<Rightarrow> pstate \<Rightarrow> token_kind" where
  "p_peek_ahead offset st =
     (if p_pos st + offset < length (p_tokens st) then tk_kind (p_tokens st ! (p_pos st + offset))
      else TkEof)"

text \<open>Indexing past the end panics.\<close>

definition p_advance :: "token parser" where
  "p_advance st =
     (if p_pos st < length (p_tokens st)
      then Inr (p_tokens st ! p_pos st, st\<lparr>p_pos := p_pos st + 1\<rparr>)
      else Inl Panicked)"

definition p_at :: "token_kind \<Rightarrow> pstate \<Rightarrow> bool" where
  "p_at kind st \<longleftrightarrow> p_peek st = kind"

definition p_at_eof :: "pstate \<Rightarrow> bool" where
  "p_at_eof st \<longleftrightarrow> p_at TkEof st"

definition p_fail :: "span \<Rightarrow> parse_message \<Rightarrow> 'a parser" where
  "p_fail sp m st = reject sp (ParseMessage m)"

definition p_expect :: "token_kind \<Rightarrow> span parser" where
  "p_expect kind st =
     (let span = p_peek_span st in
      if p_peek st = kind then and_then (p_advance st) (\<lambda>(_, st). Inr (span, st))
      else p_fail span (ExpectedToken kind (p_peek st)) st)"

definition p_expect_ident :: "(string \<times> span) parser" where
  "p_expect_ident st =
     (let span = p_peek_span st in
      case p_peek st of
        TkIdent name \<Rightarrow> and_then (p_advance st) (\<lambda>(_, st). Inr ((name, span), st))
      | _ \<Rightarrow> p_fail span (ExpectedIdentifier (p_peek st)) st)"

text \<open>The number of tokens left.\<close>

definition p_rem :: "pstate \<Rightarrow> nat" where
  "p_rem st = length (p_tokens st) - p_pos st"

section \<open>Comma-separated lists\<close>

text \<open>
  The loop \<open>while self.at(&Comma) { advance; if self.at(close) { break; } push(p()?) }\<close> and
  the list production around it, which the code writes out for parameters, fields,
  variants, payloads, arguments, array elements, field initialisers and patterns.
\<close>

fun comma_tail :: "nat \<Rightarrow> token_kind \<Rightarrow> 'a parser \<Rightarrow> 'a list \<Rightarrow> 'a list parser" where
  "comma_tail 0 close p acc st = Inl OutOfFuel"
| "comma_tail (Suc n) close p acc st =
     (if p_at TkComma st then
        and_then (p_advance st) (\<lambda>(_, st).
          if p_at close st then Inr (acc, st)
          else and_then (p st) (\<lambda>(x, st). comma_tail n close p (acc @ [x]) st))
      else Inr (acc, st))"

definition comma_list :: "token_kind \<Rightarrow> 'a parser \<Rightarrow> 'a list parser" where
  "comma_list close p st =
     (if p_at close st then Inr ([], st)
      else and_then (p st) (\<lambda>(x, st). comma_tail (Suc (p_rem st)) close p [x] st))"

section \<open>The contract of a production\<close>

definition moved :: "pstate \<Rightarrow> pstate \<Rightarrow> bool" where
  "moved st st' \<longleftrightarrow>
     p_tokens st' = p_tokens st \<and> p_known_type_names st' = p_known_type_names st \<and>
     p_pos st \<le> p_pos st' \<and> p_rem st' \<le> p_rem st"

definition stays :: "pstate \<Rightarrow> failure + ('a \<times> pstate) \<Rightarrow> bool" where
  "stays st r \<longleftrightarrow> graceful r \<and> (\<forall>x st'. r = Inr (x, st') \<longrightarrow> moved st st')"

definition advances :: "pstate \<Rightarrow> failure + ('a \<times> pstate) \<Rightarrow> bool" where
  "advances st r \<longleftrightarrow> stays st r \<and> (\<forall>x st'. r = Inr (x, st') \<longrightarrow> p_rem st' < p_rem st)"

named_theorems prod_intros \<open>the contract of each production\<close>

lemma moved_refl [simp]: "moved st st"
  by (simp add: moved_def)

lemma moved_trans: "moved a b \<Longrightarrow> moved b c \<Longrightarrow> moved a c"
  by (simp add: moved_def)

lemma moved_rem: "moved st st' \<Longrightarrow> p_rem st' \<le> p_rem st"
  by (simp add: moved_def)

lemma stays_Inr [simp]: "stays st (Inr (x, st))"
  by (simp add: stays_def)

lemma stays_fail [simp]: "stays st (p_fail sp m st')"
  by (simp add: stays_def p_fail_def)

lemma advances_fail [simp]: "advances st (p_fail sp m st')"
  by (simp add: advances_def p_fail_def stays_def)

lemma advances_stays: "advances st r \<Longrightarrow> stays st r"
  by (simp add: advances_def)

lemma stays_bind:
  assumes "stays st m" "\<And>x st'. m = Inr (x, st') \<Longrightarrow> stays st' (f x st')"
  shows "stays st (and_then m (\<lambda>(x, st'). f x st'))"
proof -
  have "graceful m" using assms(1) by (simp add: stays_def)
  then show ?thesis
  proof (cases rule: graceful_cases)
    case (ok y)
    then obtain x st' where y: "m = Inr (x, st')" by (cases y) auto
    then have "moved st st'" using assms(1) by (simp add: stays_def)
    moreover from y have "stays st' (f x st')" by (rule assms(2))
    ultimately show ?thesis using y
      by (auto simp: stays_def intro: moved_trans)
  next
    case (rejected e)
    then show ?thesis by (simp add: stays_def)
  qed
qed

text \<open>Sequencing: a strict first step, a step that may not consume, and a strict tail.\<close>

lemma stays_seq:
  assumes "stays st m" "\<And>x st'. p_rem st' \<le> p_rem st \<Longrightarrow> stays st' (f x st')"
  shows "stays st (and_then m (\<lambda>(x, st'). f x st'))"
proof (rule stays_bind [OF assms(1)])
  fix x st' assume "m = Inr (x, st')"
  with assms(1) have "p_rem st' \<le> p_rem st" by (simp add: stays_def moved_rem)
  then show "stays st' (f x st')" by (rule assms(2))
qed

lemma stays_seq_strict:
  assumes "advances st m" "\<And>x st'. p_rem st' < p_rem st \<Longrightarrow> stays st' (f x st')"
  shows "stays st (and_then m (\<lambda>(x, st'). f x st'))"
proof (rule stays_bind [OF advances_stays [OF assms(1)]])
  fix x st' assume "m = Inr (x, st')"
  with assms(1) have "p_rem st' < p_rem st" by (simp add: advances_def)
  then show "stays st' (f x st')" by (rule assms(2))
qed

lemma advances_seq:
  assumes "advances st m" "\<And>x st'. p_rem st' < p_rem st \<Longrightarrow> stays st' (f x st')"
  shows "advances st (and_then m (\<lambda>(x, st'). f x st'))"
  unfolding advances_def
proof (intro conjI allI impI)
  show "stays st (and_then m (\<lambda>(x, st'). f x st'))"
    using assms by (rule stays_seq_strict)
next
  fix y st'' assume "and_then m (\<lambda>(x, st'). f x st') = Inr (y, st'')"
  then obtain x st' where m: "m = Inr (x, st')" and f: "f x st' = Inr (y, st'')"
    by (auto simp: and_then_eq_Inr)
  from m assms(1) have "p_rem st' < p_rem st" by (simp add: advances_def)
  moreover from this f have "p_rem st'' \<le> p_rem st'"
    using assms(2) [of st' x] by (simp add: stays_def moved_rem)
  ultimately show "p_rem st'' < p_rem st" by simp
qed

lemma p_peek_not_eof: "p_peek st \<noteq> TkEof \<Longrightarrow> p_pos st < length (p_tokens st)"
  by (simp add: p_peek_def split: if_splits)

lemma advances_advance [prod_intros]: "p_peek st \<noteq> TkEof \<Longrightarrow> advances st (p_advance st)"
  by (auto simp: advances_def stays_def p_advance_def moved_def p_rem_def dest: p_peek_not_eof)

lemma advances_at: "p_at kind st \<Longrightarrow> kind \<noteq> TkEof \<Longrightarrow> advances st (p_advance st)"
  by (auto simp: p_at_def intro: advances_advance)

lemma advances_expect [prod_intros]:
  assumes "kind \<noteq> TkEof"
  shows "advances st (p_expect kind st)"
proof (cases "p_peek st = kind")
  case True
  with assms have "advances st (p_advance st)" by (simp add: advances_advance)
  with True show ?thesis by (simp add: p_expect_def Let_def advances_seq)
next
  case False
  then show ?thesis by (simp add: p_expect_def Let_def)
qed

lemma advances_expect_ident [prod_intros]: "advances st (p_expect_ident st)"
proof (cases "\<exists>name. p_peek st = TkIdent name")
  case True
  then have "advances st (p_advance st)" by (auto intro: advances_advance)
  with True show ?thesis by (auto simp: p_expect_ident_def Let_def intro!: advances_seq)
next
  case False
  then show ?thesis by (auto simp: p_expect_ident_def Let_def split: token_kind.split)
qed

lemmas at_defs = p_at_def p_at_eof_def

lemmas consuming_stays [prod_intros] =
  advances_advance [THEN advances_stays]
  advances_expect [THEN advances_stays] advances_expect_ident [THEN advances_stays]

text \<open>Sequencing where the strict progress of the first step matters: in loops.\<close>

lemmas loop_seqs =
  stays_seq stays_seq_strict [OF advances_advance] stays_seq_strict [OF advances_expect]
  stays_seq_strict [OF advances_expect_ident]

section \<open>Productions with enough fuel\<close>

locale production =
  fixes p :: "pstate \<Rightarrow> failure + ('a \<times> pstate)" and m :: nat
  assumes advances: "p_rem st < m \<Longrightarrow> advances st (p st)"
begin

lemma stays: "p_rem st < m \<Longrightarrow> stays st (p st)"
  by (rule advances_stays) (rule advances)

lemma comma_tail_stays:
  "p_rem st < n \<Longrightarrow> p_rem st < m \<Longrightarrow> stays st (comma_tail n close p acc st)"
proof (induction n arbitrary: acc st)
  case 0
  then show ?case by simp
next
  case (Suc n)
  have "stays st (and_then (p_advance st) (\<lambda>(_, st).
          if p_at close st then Inr (acc, st)
          else and_then (p st) (\<lambda>(x, st). comma_tail n close p (acc @ [x]) st)))"
    if "p_at TkComma st"
  proof (rule stays_seq_strict [OF advances_at [OF that]])
    fix x st' assume lt: "p_rem st' < p_rem st"
    have "stays st' (and_then (p st') (\<lambda>(x, st). comma_tail n close p (acc @ [x]) st))"
    proof (rule stays_seq)
      show "stays st' (p st')" using lt Suc.prems by (simp add: stays)
      show "stays st'' (comma_tail n close p (acc @ [y]) st'')"
        if "p_rem st'' \<le> p_rem st'" for y st''
        using that lt Suc.prems by (intro Suc.IH) simp_all
    qed
    then show "stays st' (if p_at close st' then Inr (acc, st')
          else and_then (p st') (\<lambda>(x, st). comma_tail n close p (acc @ [x]) st))"
      by simp
  qed simp
  then show ?case by simp
qed

lemma comma_list_stays: "p_rem st < m \<Longrightarrow> stays st (comma_list close p st)"
  unfolding comma_list_def
  by (rule if_split [THEN iffD2])
    (auto simp del: comma_tail.simps intro!: stays_seq stays comma_tail_stays)

end

end
