(* ===== verification/ParseTypes.thy ===== *)
theory ParseTypes
  imports ParserBase
begin

text \<open>
  The type and pattern grammar of \<open>src/src/parser.rs\<close>. The two recursive productions
  \<open>parse_type\<close> and \<open>parse_pattern\<close> are written over a parameter that stands for the
  recursive call; the fuel of the closed productions is one more than the number of tokens
  left, which the contract lemmas show to be enough.
\<close>

section \<open>Types\<close>

definition primitive_types :: "(string \<times> primitive_type) list" where
  "primitive_types =
     [(''i32'', PrimI32), (''i64'', PrimI64), (''f64'', PrimF64), (''bool'', PrimBool),
      (''str'', PrimStr), (''unit'', PrimUnit), (''handle'', PrimHandle), (''map'', PrimMap),
      (''map_str_i32'', PrimMapStrI32), (''map_str_i64'', PrimMapStrI64),
      (''map_str_f64'', PrimMapStrF64), (''map_i32_str'', PrimMapI32Str),
      (''map_i32_i32'', PrimMapI32I32)]"

definition parse_array_type :: "ast_type parser \<Rightarrow> ast_type parser" where
  "parse_array_type ty st =
     (let span = p_peek_span st in
      and_then (p_expect TkLBracket st) (\<lambda>(_, st).
      and_then (ty st) (\<lambda>(elem_type, st).
      if p_at TkSemicolon st then
        and_then (p_advance st) (\<lambda>(_, st).
        let size_span = p_peek_span st in
        case p_peek st of
          TkIntLit len \<Rightarrow>
            and_then (p_advance st) (\<lambda>(_, st).
            and_then (p_expect TkRBracket st) (\<lambda>(_, st).
            Inr (TyFixedArray elem_type len span, st)))
        | _ \<Rightarrow> p_fail size_span (ExpectedArraySize (p_peek st)) st)
      else
        and_then (p_expect TkRBracket st) (\<lambda>(_, st).
        Inr (TyDynamicArray elem_type span, st)))))"

fun fn_ptr_params :: "nat \<Rightarrow> ast_type parser \<Rightarrow> ast_type list \<Rightarrow> ast_type list parser" where
  "fn_ptr_params 0 ty param_types st = Inl OutOfFuel"
| "fn_ptr_params (Suc n) ty param_types st =
     (if \<not> p_at TkRParen st \<and> \<not> p_at_eof st then
        and_then
          (if param_types \<noteq> [] then
             and_then (p_expect TkComma st) (\<lambda>(_, st). Inr ((), st))
           else Inr ((), st)) (\<lambda>(_, st).
        and_then (ty st) (\<lambda>(t, st). fn_ptr_params n ty (param_types @ [t]) st))
      else Inr (param_types, st))"

definition parse_fn_ptr_type :: "ast_type parser \<Rightarrow> ast_type parser" where
  "parse_fn_ptr_type ty st =
     (let span = p_peek_span st;
          rest = (\<lambda>is_pure.
            and_then (p_advance st) (\<lambda>(_, st).
            and_then (p_expect TkLParen st) (\<lambda>(_, st).
            and_then (fn_ptr_params (Suc (p_rem st)) ty [] st) (\<lambda>(param_types, st).
            and_then (p_expect TkRParen st) (\<lambda>(_, st).
            and_then
              (if p_at TkArrow st then and_then (p_advance st) (\<lambda>(_, st). ty st)
               else Inr (TyPrimitive PrimUnit span, st)) (\<lambda>(ret, st).
            Inr (TyFnPtr param_types ret is_pure span, st)))))))
      in case p_peek st of
           TkFn \<Rightarrow> rest True
         | TkFnBang \<Rightarrow> rest False
         | _ \<Rightarrow> p_fail span (ExpectedFnPtr (p_peek st)) st)"

definition parse_type_with :: "ast_type parser \<Rightarrow> ast_type parser" where
  "parse_type_with ty st =
     (let span = p_peek_span st in
      case p_peek st of
        TkLBracket \<Rightarrow> parse_array_type ty st
      | TkFn \<Rightarrow> parse_fn_ptr_type ty st
      | TkFnBang \<Rightarrow> parse_fn_ptr_type ty st
      | TkIdent name \<Rightarrow>
          (case map_of primitive_types name of
             Some prim \<Rightarrow> and_then (p_advance st) (\<lambda>(_, st). Inr (TyPrimitive prim span, st))
           | None \<Rightarrow>
               if name = ''Result'' then
                 and_then (p_advance st) (\<lambda>(_, st).
                 and_then (p_expect TkLt st) (\<lambda>(_, st).
                 and_then (ty st) (\<lambda>(ok_type, st).
                 and_then (p_expect TkComma st) (\<lambda>(_, st).
                 and_then (ty st) (\<lambda>(err_type, st).
                 and_then (p_expect TkGt st) (\<lambda>(_, st).
                 Inr (TyResult ok_type err_type span, st)))))))
               else and_then (p_advance st) (\<lambda>(_, st). Inr (TyNamed name span, st)))
      | _ \<Rightarrow> p_fail span (ExpectedType (p_peek st)) st)"

primrec parse_type_fuel :: "nat \<Rightarrow> ast_type parser" where
  "parse_type_fuel 0 = (\<lambda>st. Inl OutOfFuel)"
| "parse_type_fuel (Suc n) = parse_type_with (parse_type_fuel n)"

definition parse_type :: "ast_type parser" where
  "parse_type st = parse_type_fuel (Suc (p_rem st)) st"

section \<open>Patterns\<close>

text \<open>The negation of an \<open>f64\<close> flips its sign bit.\<close>

definition f64_neg :: "f64 \<Rightarrow> f64" where
  "f64_neg v = xor v (push_bit 63 1)"

text \<open>
  Negation of an \<open>i64\<close>: the smallest value is its own negation in a release build (a debug
  build panics there). The literals of the lexer are never negative, so this case is not reached.
\<close>

definition i64_neg :: "int \<Rightarrow> int" where
  "i64_neg v = (if v = - (2 ^ 63) then v else - v)"

definition parse_enum_pattern :: "pattern parser \<Rightarrow> pattern parser" where
  "parse_enum_pattern pat st =
     (let span = p_peek_span st in
      and_then (p_expect_ident st) (\<lambda>((enum_name, _), st).
      and_then (p_expect TkColonColon st) (\<lambda>(_, st).
      and_then (p_expect_ident st) (\<lambda>((variant, _), st).
      and_then
        (if p_at TkLParen st then
           and_then (p_advance st) (\<lambda>(_, st).
           and_then (comma_list TkRParen pat st) (\<lambda>(patterns, st).
           and_then (p_expect TkRParen st) (\<lambda>(_, st).
           Inr (patterns, st))))
         else Inr ([], st)) (\<lambda>(bindings, st).
      Inr (PEnum enum_name variant bindings span, st))))))"

definition parse_negative_pattern :: "pattern parser" where
  "parse_negative_pattern st =
     and_then (p_advance st) (\<lambda>(_, st).
     let lit_span = p_peek_span st in
     case p_peek st of
       TkIntLit v \<Rightarrow> and_then (p_advance st) (\<lambda>(_, st). Inr (PIntLit (i64_neg v) lit_span, st))
     | TkFloatLit v \<Rightarrow> and_then (p_advance st) (\<lambda>(_, st). Inr (PFloatLit (f64_neg v) lit_span, st))
     | _ \<Rightarrow> p_fail lit_span (ExpectedNumericPattern (p_peek st)) st)"

definition parse_pattern_with :: "pattern parser \<Rightarrow> pattern parser" where
  "parse_pattern_with pat st =
     (let span = p_peek_span st;
          one = (\<lambda>p. and_then (p_advance st) (\<lambda>(_, st). Inr (p, st)))
      in case p_peek st of
           TkUnderscore \<Rightarrow> one (PWildcard span)
         | TkTrue \<Rightarrow> one (PBoolLit True span)
         | TkFalse \<Rightarrow> one (PBoolLit False span)
         | TkIntLit v \<Rightarrow> one (PIntLit v span)
         | TkFloatLit v \<Rightarrow> one (PFloatLit v span)
         | TkStringLit s \<Rightarrow> one (PStringLit s span)
         | TkIdent name \<Rightarrow>
             if p_peek_ahead 1 st = TkColonColon then parse_enum_pattern pat st
             else one (PIdent name span)
         | TkMinus \<Rightarrow> parse_negative_pattern st
         | _ \<Rightarrow> p_fail span (ExpectedPattern (p_peek st)) st)"

primrec parse_pattern_fuel :: "nat \<Rightarrow> pattern parser" where
  "parse_pattern_fuel 0 = (\<lambda>st. Inl OutOfFuel)"
| "parse_pattern_fuel (Suc n) = parse_pattern_with (parse_pattern_fuel n)"

definition parse_pattern :: "pattern parser" where
  "parse_pattern st = parse_pattern_fuel (Suc (p_rem st)) st"

section \<open>The contract of the type productions\<close>

locale type_parser = production ty m for ty :: "ast_type parser" and m :: nat
begin

lemma array_type_advances: "p_rem st < Suc m \<Longrightarrow> advances st (parse_array_type ty st)"
  by (auto simp: parse_array_type_def at_defs Let_def split: token_kind.split
      intro!: advances_seq stays_seq prod_intros stays)

lemma fn_ptr_params_stays:
  "p_rem st < n \<Longrightarrow> p_rem st < m \<Longrightarrow> stays st (fn_ptr_params n ty acc st)"
proof (induction n arbitrary: acc st)
  case 0
  then show ?case by simp
next
  case (Suc n)
  have "stays st' (and_then (ty st') (\<lambda>(t, st). fn_ptr_params n ty (acc @ [t]) st))"
    if "p_rem st' \<le> p_rem st" for st'
    using that Suc.prems by (auto intro!: stays_seq_strict [OF advances] Suc.IH)
  moreover have "stays st (and_then (p_expect TkComma st) (\<lambda>(_, st). Inr ((), st)))"
    by (auto intro!: stays_seq prod_intros)
  ultimately show ?case
    by (auto intro!: stays_seq [where m = "and_then _ _"])
qed

lemma fn_ptr_type_advances: "p_rem st < Suc m \<Longrightarrow> advances st (parse_fn_ptr_type ty st)"
  by (auto simp: parse_fn_ptr_type_def at_defs Let_def simp del: fn_ptr_params.simps split: token_kind.split
      intro!: advances_seq stays_seq prod_intros stays fn_ptr_params_stays)

lemma type_with_advances: "p_rem st < Suc m \<Longrightarrow> advances st (parse_type_with ty st)"
  by (auto simp: parse_type_with_def at_defs Let_def split: token_kind.split option.split
      intro!: advances_seq stays_seq prod_intros stays array_type_advances fn_ptr_type_advances)

end

lemma production_parse_type_fuel: "production (parse_type_fuel n) n"
proof (induction n)
  case 0
  then show ?case by unfold_locales simp
next
  case (Suc n)
  then show ?case
    by unfold_locales (simp add: type_parser.type_with_advances [OF type_parser.intro])
qed

lemma type_parser_fuel: "type_parser (parse_type_fuel n) n"
  by (rule type_parser.intro) (rule production_parse_type_fuel)

lemma parse_type_advances: "advances st (parse_type st)"
  unfolding parse_type_def
  by (rule production.advances [OF production_parse_type_fuel]) simp

interpretation types: production parse_type m for m
  by unfold_locales (rule parse_type_advances)

lemmas parse_type_stays = parse_type_advances [THEN advances_stays]

declare parse_type_advances [prod_intros] parse_type_stays [prod_intros]

section \<open>The contract of the pattern productions\<close>

locale pattern_parser = production pat m for pat :: "pattern parser" and m :: nat
begin

lemma enum_pattern_advances: "p_rem st < Suc m \<Longrightarrow> advances st (parse_enum_pattern pat st)"
  by (auto simp: parse_enum_pattern_def at_defs Let_def
      intro!: advances_seq stays_seq prod_intros comma_list_stays)

lemma pattern_with_advances: "p_rem st < Suc m \<Longrightarrow> advances st (parse_pattern_with pat st)"
  by (auto simp: parse_pattern_with_def parse_negative_pattern_def at_defs Let_def split: token_kind.split
      intro!: advances_seq stays_seq prod_intros enum_pattern_advances)

end

lemma production_parse_pattern_fuel: "production (parse_pattern_fuel n) n"
proof (induction n)
  case 0
  then show ?case by unfold_locales simp
next
  case (Suc n)
  then show ?case
    by unfold_locales (simp add: pattern_parser.pattern_with_advances [OF pattern_parser.intro])
qed

lemma parse_pattern_advances: "advances st (parse_pattern st)"
  unfolding parse_pattern_def
  by (rule production.advances [OF production_parse_pattern_fuel]) simp

interpretation patterns: production parse_pattern m for m
  by unfold_locales (rule parse_pattern_advances)

lemmas parse_pattern_stays = parse_pattern_advances [THEN advances_stays]

declare parse_pattern_advances [prod_intros] parse_pattern_stays [prod_intros]

end
