(* ===== verification/ParseExpr.thy ===== *)
theory ParseExpr
  imports ParseTypes
begin

text \<open>
  Expressions, statements and blocks of \<open>src/src/parser.rs\<close>. The productions of the code call
  each other in cycles (an expression holds blocks, a block holds expressions). The record
  \<open>knot\<close> holds the five productions through which a cycle closes, each production is a
  definition over it, and \<open>knot n\<close> ties them: every field of \<open>knot (Suc n)\<close> is a production
  over \<open>knot n\<close>. Each call through the knot happens after at least one token has been
  consumed, so \<open>n\<close> more than the number of tokens left is enough.
\<close>

record knot =
  k_expr :: "expr parser"
  k_unary :: "expr parser"
  k_postfix :: "expr parser"
  k_if :: "expr parser"
  k_block :: "block parser"

section \<open>Lookahead for assignments\<close>

text \<open>
  \<open>is_at_assign\<close> scans ahead over \<open>ident (.field | [expr])*\<close>; the inner loop over the
  contents of a bracket counts the nesting depth and gives up at the end of the tokens.
\<close>

lemma p_peek_ahead_bound: "p_peek_ahead i st \<noteq> TkEof \<Longrightarrow> p_pos st + i < length (p_tokens st)"
  by (simp add: p_peek_ahead_def split: if_splits)

function skip_brackets :: "pstate \<Rightarrow> nat \<Rightarrow> nat \<Rightarrow> nat option" where
  "skip_brackets st i depth =
     (if depth = 0 then Some i
      else if p_peek_ahead i st = TkLBracket then skip_brackets st (i + 1) (depth + 1)
      else if p_peek_ahead i st = TkRBracket then skip_brackets st (i + 1) (depth - 1)
      else if p_peek_ahead i st = TkEof then None
      else skip_brackets st (i + 1) depth)"
  by pat_completeness auto
termination
proof (relation "measure (\<lambda>(st, i, depth). length (p_tokens st) - (p_pos st + i))", goal_cases)
  case (2 st i depth)
  then show ?case using p_peek_ahead_bound [of i st] by simp
next
  case (3 st i depth)
  then show ?case using p_peek_ahead_bound [of i st] by simp
next
  case (4 st i depth)
  then show ?case using p_peek_ahead_bound [of i st] by simp
qed simp

declare skip_brackets.simps [simp del]

lemma skip_brackets_ge: "skip_brackets st i depth = Some j \<Longrightarrow> i \<le> j"
proof (induction st i depth rule: skip_brackets.induct)
  case (1 st i depth)
  then show ?case
    by (simp add: skip_brackets.simps [of st i depth] split: if_splits)
qed

function scan_assign :: "pstate \<Rightarrow> nat \<Rightarrow> bool" where
  "scan_assign st i =
     (if p_peek_ahead i st = TkDot then
        (case p_peek_ahead (i + 1) st of
           TkIdent _ \<Rightarrow> scan_assign st (i + 2)
         | _ \<Rightarrow> False)
      else if p_peek_ahead i st = TkLBracket then
        (case skip_brackets st (i + 1) 1 of
           Some j \<Rightarrow> scan_assign st j
         | None \<Rightarrow> False)
      else p_peek_ahead i st \<in>
             {TkEq, TkPlusEq, TkMinusEq, TkStarEq, TkSlashEq, TkPercentEq})"
  by pat_completeness auto
termination
proof (relation "measure (\<lambda>(st, i). length (p_tokens st) - (p_pos st + i))", goal_cases)
  case (2 st i name)
  then show ?case using p_peek_ahead_bound [of i st] by simp
next
  case (3 st i j)
  then show ?case using p_peek_ahead_bound [of i st] skip_brackets_ge [of st "i + 1" 1 j] by simp
qed simp

declare scan_assign.simps [simp del]

definition is_at_assign :: "pstate \<Rightarrow> bool" where
  "is_at_assign st \<longleftrightarrow> (case p_peek st of TkIdent _ \<Rightarrow> scan_assign st 1 | _ \<Rightarrow> False)"

definition is_at_statement_start :: "pstate \<Rightarrow> bool" where
  "is_at_statement_start st \<longleftrightarrow>
     p_peek st \<in> {TkLet, TkWhile, TkFor, TkReturn, TkBreak, TkContinue, TkDefer} \<or>
     is_at_assign st"

section \<open>Statements\<close>

fun place_accessors :: "nat \<Rightarrow> knot \<Rightarrow> place_accessor list \<Rightarrow> place_accessor list parser" where
  "place_accessors 0 k accessors st = Inl OutOfFuel"
| "place_accessors (Suc n) k accessors st =
     (if p_at TkDot st then
        and_then (p_advance st) (\<lambda>(_, st).
        and_then (p_expect_ident st) (\<lambda>((field, _), st).
        place_accessors n k (accessors @ [AccField field]) st))
      else if p_at TkLBracket st then
        and_then (p_advance st) (\<lambda>(_, st).
        and_then (k_expr k st) (\<lambda>(index, st).
        and_then (p_expect TkRBracket st) (\<lambda>(_, st).
        place_accessors n k (accessors @ [AccIndex index]) st)))
      else Inr (accessors, st))"

definition parse_place :: "knot \<Rightarrow> place parser" where
  "parse_place k st =
     and_then (p_expect_ident st) (\<lambda>((name, span), st).
     and_then (place_accessors (Suc (p_rem st)) k [] st) (\<lambda>(accessors, st).
     Inr (Place name accessors span, st)))"

definition optional_semicolon :: "unit parser" where
  "optional_semicolon st =
     (if p_at TkSemicolon st then and_then (p_advance st) (\<lambda>(_, st). Inr ((), st))
      else Inr ((), st))"

definition parse_let_stmt :: "knot \<Rightarrow> stmt parser" where
  "parse_let_stmt k st =
     (let span = p_peek_span st in
      and_then (p_expect TkLet st) (\<lambda>(_, st).
      and_then
        (if p_at TkMut st then and_then (p_advance st) (\<lambda>(_, st). Inr (True, st))
         else Inr (False, st)) (\<lambda>(is_mut, st).
      and_then (p_expect_ident st) (\<lambda>((name, _), st).
      and_then (p_expect TkColon st) (\<lambda>(_, st).
      and_then (parse_type st) (\<lambda>(ty, st).
      and_then (p_expect TkEq st) (\<lambda>(_, st).
      and_then (k_expr k st) (\<lambda>(val, st).
      and_then (p_expect TkSemicolon st) (\<lambda>(_, st).
      Inr (SLet name is_mut ty val span, st))))))))))"

fun compound_op :: "token_kind \<Rightarrow> binop option" where
  "compound_op TkPlusEq = Some OpAdd"
| "compound_op TkMinusEq = Some OpSub"
| "compound_op TkStarEq = Some OpMul"
| "compound_op TkSlashEq = Some OpDiv"
| "compound_op TkPercentEq = Some OpMod"
| "compound_op _ = None"

definition parse_assign_stmt :: "knot \<Rightarrow> stmt parser" where
  "parse_assign_stmt k st =
     (let span = p_peek_span st in
      and_then (parse_place k st) (\<lambda>(target, st).
      case compound_op (p_peek st) of
        Some op \<Rightarrow>
          and_then (p_advance st) (\<lambda>(_, st).
          and_then (k_expr k st) (\<lambda>(val, st).
          and_then (p_expect TkSemicolon st) (\<lambda>(_, st).
          Inr (SCompoundAssign target op val span, st))))
      | None \<Rightarrow>
          and_then (p_expect TkEq st) (\<lambda>(_, st).
          and_then (k_expr k st) (\<lambda>(val, st).
          and_then (p_expect TkSemicolon st) (\<lambda>(_, st).
          Inr (SAssign target val span, st))))))"

definition parse_while_stmt :: "knot \<Rightarrow> stmt parser" where
  "parse_while_stmt k st =
     (let span = p_peek_span st in
      and_then (p_expect TkWhile st) (\<lambda>(_, st).
      and_then (k_expr k st) (\<lambda>(condition, st).
      and_then (k_block k st) (\<lambda>(body, st).
      and_then (optional_semicolon st) (\<lambda>(_, st).
      Inr (SWhile condition body span, st))))))"

definition parse_for_stmt :: "knot \<Rightarrow> stmt parser" where
  "parse_for_stmt k st =
     (let span = p_peek_span st in
      and_then (p_expect TkFor st) (\<lambda>(_, st).
      and_then (p_expect_ident st) (\<lambda>((var, _), st).
      and_then (p_expect TkIn st) (\<lambda>(_, st).
      and_then (k_expr k st) (\<lambda>(start, st).
      if p_at TkDotDot st then
        and_then (p_advance st) (\<lambda>(_, st).
        and_then (k_expr k st) (\<lambda>(end_expr, st).
        and_then (k_block k st) (\<lambda>(body, st).
        and_then (optional_semicolon st) (\<lambda>(_, st).
        Inr (SFor var start end_expr body span, st)))))
      else
        and_then (k_block k st) (\<lambda>(body, st).
        and_then (optional_semicolon st) (\<lambda>(_, st).
        Inr (SForIn var start body span, st))))))))"

definition parse_return_stmt :: "knot \<Rightarrow> stmt parser" where
  "parse_return_stmt k st =
     (let span = p_peek_span st in
      and_then (p_expect TkReturn st) (\<lambda>(_, st).
      and_then
        (if p_at TkSemicolon st then Inr (None, st)
         else and_then (k_expr k st) (\<lambda>(e, st). Inr (Some e, st))) (\<lambda>(val, st).
      and_then (p_expect TkSemicolon st) (\<lambda>(_, st).
      Inr (SReturn val span, st)))))"

definition parse_defer_stmt :: "knot \<Rightarrow> stmt parser" where
  "parse_defer_stmt k st =
     (let span = p_peek_span st in
      and_then (p_expect TkDefer st) (\<lambda>(_, st).
      and_then (k_expr k st) (\<lambda>(e, st).
      and_then (p_expect TkSemicolon st) (\<lambda>(_, st).
      Inr (SDefer e span, st)))))"

definition parse_jump_stmt :: "(span \<Rightarrow> stmt) \<Rightarrow> stmt parser" where
  "parse_jump_stmt mk st =
     (let span = p_peek_span st in
      and_then (p_advance st) (\<lambda>(_, st).
      and_then (p_expect TkSemicolon st) (\<lambda>(_, st).
      Inr (mk span, st))))"

definition parse_stmt :: "knot \<Rightarrow> stmt parser" where
  "parse_stmt k st =
     (case p_peek st of
        TkLet \<Rightarrow> parse_let_stmt k st
      | TkWhile \<Rightarrow> parse_while_stmt k st
      | TkFor \<Rightarrow> parse_for_stmt k st
      | TkReturn \<Rightarrow> parse_return_stmt k st
      | TkDefer \<Rightarrow> parse_defer_stmt k st
      | TkBreak \<Rightarrow> parse_jump_stmt SBreak st
      | TkContinue \<Rightarrow> parse_jump_stmt SContinue st
      | _ \<Rightarrow>
          if is_at_assign st then parse_assign_stmt k st
          else
            and_then (k_expr k st) (\<lambda>(e, st).
            and_then (p_expect TkSemicolon st) (\<lambda>(_, st).
            Inr (SExpr e (expr_span e), st))))"

section \<open>Blocks\<close>

fun block_items ::
  "nat \<Rightarrow> knot \<Rightarrow> stmt list \<Rightarrow> expr option \<Rightarrow> (stmt list \<times> expr option) parser" where
  "block_items 0 k stmts tail st = Inl OutOfFuel"
| "block_items (Suc n) k stmts tail st =
     (if \<not> p_at TkRBrace st \<and> \<not> p_at_eof st then
        if is_at_statement_start st then
          and_then (parse_stmt k st) (\<lambda>(s, st). block_items n k (stmts @ [s]) tail st)
        else
          and_then (k_expr k st) (\<lambda>(e, st).
          if p_at TkSemicolon st then
            and_then (p_advance st) (\<lambda>(_, st).
            block_items n k (stmts @ [SExpr e (expr_span e)]) tail st)
          else if p_at TkRBrace st then block_items n k stmts (Some e) st
          else p_fail (p_peek_span st) (ExpectedSemicolonOrBrace (p_peek st)) st)
      else Inr ((stmts, tail), st))"

definition parse_block :: "knot \<Rightarrow> block parser" where
  "parse_block k st =
     (let span = p_peek_span st in
      and_then (p_expect TkLBrace st) (\<lambda>(_, st).
      and_then (block_items (Suc (p_rem st)) k [] None st) (\<lambda>((stmts, tail), st).
      and_then (p_expect TkRBrace st) (\<lambda>(_, st).
      Inr (Block stmts tail span, st)))))"

section \<open>Primary expressions\<close>

definition parse_arg_list :: "knot \<Rightarrow> expr list parser" where
  "parse_arg_list k st = comma_list TkRParen (k_expr k) st"

definition text_part :: "rstring \<Rightarrow> interp_part list" where
  "text_part s = (if s = [] then [] else [IText s])"

fun interp_parts :: "nat \<Rightarrow> knot \<Rightarrow> interp_part list \<Rightarrow> interp_part list parser" where
  "interp_parts 0 k parts st = Inl OutOfFuel"
| "interp_parts (Suc n) k parts st =
     and_then (k_expr k st) (\<lambda>(e, st).
     case p_peek st of
       TkInterpStringMiddle s \<Rightarrow>
         and_then (p_advance st) (\<lambda>(_, st).
         interp_parts n k (parts @ [IExpr e] @ text_part s) st)
     | TkInterpStringEnd s \<Rightarrow>
         and_then (p_advance st) (\<lambda>(_, st). Inr (parts @ [IExpr e] @ text_part s, st))
     | _ \<Rightarrow> p_fail (p_peek_span st) UnterminatedInterpolation st)"

definition parse_interpolated_string_expr :: "knot \<Rightarrow> rstring \<Rightarrow> span \<Rightarrow> expr parser" where
  "parse_interpolated_string_expr k start_text span st =
     and_then (interp_parts (Suc (p_rem st)) k (text_part start_text) st) (\<lambda>(parts, st).
     Inr (EInterpolatedString parts span, st))"

definition parse_if_expr :: "knot \<Rightarrow> expr parser" where
  "parse_if_expr k st =
     (let span = p_peek_span st in
      and_then (p_expect TkIf st) (\<lambda>(_, st).
      and_then (k_expr k st) (\<lambda>(condition, st).
      and_then (k_block k st) (\<lambda>(then_block, st).
      and_then
        (if p_at TkElse st then
           and_then (p_advance st) (\<lambda>(_, st).
           if p_at TkIf st then and_then (k_if k st) (\<lambda>(e, st). Inr (Some e, st))
           else and_then (k_block k st) (\<lambda>(b, st). Inr (Some (EBlock b), st)))
         else Inr (None, st)) (\<lambda>(else_branch, st).
      Inr (EIf condition then_block else_branch span, st))))))"

definition parse_match_arm :: "knot \<Rightarrow> match_arm parser" where
  "parse_match_arm k st =
     (let span = p_peek_span st in
      and_then (parse_pattern st) (\<lambda>(pat, st).
      and_then (p_expect TkFatArrow st) (\<lambda>(_, st).
      and_then (k_expr k st) (\<lambda>(body, st).
      and_then (p_expect TkComma st) (\<lambda>(_, st).
      Inr (MatchArm pat body span, st))))))"

fun match_arms :: "nat \<Rightarrow> knot \<Rightarrow> match_arm list \<Rightarrow> match_arm list parser" where
  "match_arms 0 k arms st = Inl OutOfFuel"
| "match_arms (Suc n) k arms st =
     (if \<not> p_at TkRBrace st \<and> \<not> p_at_eof st then
        and_then (parse_match_arm k st) (\<lambda>(arm, st). match_arms n k (arms @ [arm]) st)
      else Inr (arms, st))"

definition parse_match_expr :: "knot \<Rightarrow> expr parser" where
  "parse_match_expr k st =
     (let span = p_peek_span st in
      and_then (p_expect TkMatch st) (\<lambda>(_, st).
      and_then (k_expr k st) (\<lambda>(scrutinee, st).
      and_then (p_expect TkLBrace st) (\<lambda>(_, st).
      and_then (match_arms (Suc (p_rem st)) k [] st) (\<lambda>(arms, st).
      and_then (p_expect TkRBrace st) (\<lambda>(_, st).
      Inr (EMatch scrutinee arms span, st)))))))"

definition parse_try_expr :: "knot \<Rightarrow> expr parser" where
  "parse_try_expr k st =
     (let span = p_peek_span st in
      and_then (p_expect TkTry st) (\<lambda>(_, st).
      and_then (k_postfix k st) (\<lambda>(call, st).
      Inr (ETry call span, st))))"

definition parse_array_literal :: "knot \<Rightarrow> expr parser" where
  "parse_array_literal k st =
     (let span = p_peek_span st in
      and_then (p_expect TkLBracket st) (\<lambda>(_, st).
      and_then (comma_list TkRBracket (k_expr k) st) (\<lambda>(elements, st).
      and_then (p_expect TkRBracket st) (\<lambda>(_, st).
      Inr (EArrayLit elements span, st)))))"

definition parse_field_init :: "knot \<Rightarrow> field_init parser" where
  "parse_field_init k st =
     and_then (p_expect_ident st) (\<lambda>((name, span), st).
     and_then (p_expect TkColon st) (\<lambda>(_, st).
     and_then (k_expr k st) (\<lambda>(val, st).
     Inr (FieldInit name val span, st))))"

definition parse_struct_literal :: "knot \<Rightarrow> expr parser" where
  "parse_struct_literal k st =
     (let span = p_peek_span st in
      and_then (p_expect_ident st) (\<lambda>((name, _), st).
      and_then (p_expect TkLBrace st) (\<lambda>(_, st).
      and_then (comma_list TkRBrace (parse_field_init k) st) (\<lambda>(fields, st).
      and_then (p_expect TkRBrace st) (\<lambda>(_, st).
      Inr (EStructLit name fields span, st))))))"

definition parse_enum_constructor :: "knot \<Rightarrow> expr parser" where
  "parse_enum_constructor k st =
     (let span = p_peek_span st in
      and_then (p_expect_ident st) (\<lambda>((enum_name, _), st).
      and_then (p_expect TkColonColon st) (\<lambda>(_, st).
      and_then (p_expect_ident st) (\<lambda>((variant, _), st).
      and_then
        (if p_at TkLParen st then
           and_then (p_advance st) (\<lambda>(_, st).
           and_then (parse_arg_list k st) (\<lambda>(args, st).
           and_then (p_expect TkRParen st) (\<lambda>(_, st).
           Inr (args, st))))
         else Inr ([], st)) (\<lambda>(args, st).
      Inr (EEnumConstructor enum_name variant args span, st))))))"

definition parse_primary_expr :: "knot \<Rightarrow> expr parser" where
  "parse_primary_expr k st =
     (let span = p_peek_span st;
          one = (\<lambda>e. and_then (p_advance st) (\<lambda>(_, st). Inr (e, st)))
      in case p_peek st of
           TkIntLit v \<Rightarrow> one (EIntLit v span)
         | TkFloatLit v \<Rightarrow> one (EFloatLit v span)
         | TkStringLit s \<Rightarrow> one (EStringLit s span)
         | TkInterpStringStart s \<Rightarrow>
             and_then (p_advance st) (\<lambda>(_, st). parse_interpolated_string_expr k s span st)
         | TkTrue \<Rightarrow> one (EBoolLit True span)
         | TkFalse \<Rightarrow> one (EBoolLit False span)
         | TkIf \<Rightarrow> parse_if_expr k st
         | TkMatch \<Rightarrow> parse_match_expr k st
         | TkTry \<Rightarrow> parse_try_expr k st
         | TkLBrace \<Rightarrow> and_then (parse_block k st) (\<lambda>(block, st). Inr (EBlock block, st))
         | TkLBracket \<Rightarrow> parse_array_literal k st
         | TkLParen \<Rightarrow>
             and_then (p_advance st) (\<lambda>(_, st).
             and_then (k_expr k st) (\<lambda>(e, st).
             and_then (p_expect TkRParen st) (\<lambda>(_, st).
             Inr (e, st))))
         | TkArena \<Rightarrow>
             and_then (p_advance st) (\<lambda>(_, st).
             and_then (k_block k st) (\<lambda>(body, st).
             Inr (EArena body span, st)))
         | TkIdent name \<Rightarrow>
             if p_peek_ahead 1 st = TkColonColon then parse_enum_constructor k st
             else if p_peek_ahead 1 st = TkLBrace \<and> name \<in> p_known_type_names st
             then parse_struct_literal k st
             else one (EIdent name span)
         | _ \<Rightarrow> p_fail span (ExpectedExpression (p_peek st)) st)"

section \<open>Operators, from the tightest to the loosest\<close>

fun postfix_loop :: "nat \<Rightarrow> knot \<Rightarrow> expr \<Rightarrow> expr parser" where
  "postfix_loop 0 k e st = Inl OutOfFuel"
| "postfix_loop (Suc n) k e st =
     (if p_at TkLParen st then
        and_then (p_advance st) (\<lambda>(_, st).
        and_then (parse_arg_list k st) (\<lambda>(args, st).
        and_then (p_expect TkRParen st) (\<lambda>(_, st).
        postfix_loop n k (ECall e args (expr_span e)) st)))
      else if p_at TkLBracket st then
        and_then (p_advance st) (\<lambda>(_, st).
        and_then (k_expr k st) (\<lambda>(index, st).
        and_then (p_expect TkRBracket st) (\<lambda>(_, st).
        postfix_loop n k (EIndex e index (expr_span e)) st)))
      else if p_at TkDot st then
        and_then (p_advance st) (\<lambda>(_, st).
        and_then (p_expect_ident st) (\<lambda>((field, _), st).
        postfix_loop n k (EFieldAccess e field (expr_span e)) st))
      else Inr (e, st))"

definition parse_postfix_expr :: "knot \<Rightarrow> expr parser" where
  "parse_postfix_expr k st =
     and_then (parse_primary_expr k st) (\<lambda>(e, st). postfix_loop (Suc (p_rem st)) k e st)"

definition parse_cast_expr :: "knot \<Rightarrow> expr parser" where
  "parse_cast_expr k st =
     and_then (parse_postfix_expr k st) (\<lambda>(e, st).
     if p_at TkAs st then
       let span = p_peek_span st in
       and_then (p_advance st) (\<lambda>(_, st).
       and_then (parse_type st) (\<lambda>(ty, st).
       Inr (ECast e ty span, st)))
     else Inr (e, st))"

definition parse_unary_expr :: "knot \<Rightarrow> expr parser" where
  "parse_unary_expr k st =
     (let span = p_peek_span st;
          prefix_op = (\<lambda>op.
            and_then (p_advance st) (\<lambda>(_, st).
            and_then (k_unary k st) (\<lambda>(operand, st).
            Inr (EUnaryOp op operand span, st))))
      in case p_peek st of
           TkNot \<Rightarrow> prefix_op OpNot
         | TkMinus \<Rightarrow> prefix_op OpNeg
         | _ \<Rightarrow> parse_cast_expr k st)"

text \<open>
  The four left-associative levels are one loop over the operators of the level; the two
  non-associative ones take at most one operator.
\<close>

fun binop_loop :: "nat \<Rightarrow> (token_kind \<Rightarrow> binop option) \<Rightarrow> expr parser \<Rightarrow> expr \<Rightarrow> expr parser" where
  "binop_loop 0 ops p left st = Inl OutOfFuel"
| "binop_loop (Suc n) ops p left st =
     (case ops (p_peek st) of
        Some op \<Rightarrow>
          let span = p_peek_span st in
          and_then (p_advance st) (\<lambda>(_, st).
          and_then (p st) (\<lambda>(right, st).
          binop_loop n ops p (EBinaryOp op left right span) st))
      | None \<Rightarrow> Inr (left, st))"

definition binop_once :: "(token_kind \<Rightarrow> binop option) \<Rightarrow> expr parser \<Rightarrow> expr parser" where
  "binop_once ops p st =
     and_then (p st) (\<lambda>(left, st).
     case ops (p_peek st) of
       Some op \<Rightarrow>
         let span = p_peek_span st in
         and_then (p_advance st) (\<lambda>(_, st).
         and_then (p st) (\<lambda>(right, st).
         Inr (EBinaryOp op left right span, st)))
     | None \<Rightarrow> Inr (left, st))"

definition binop_chain :: "(token_kind \<Rightarrow> binop option) \<Rightarrow> expr parser \<Rightarrow> expr parser" where
  "binop_chain ops p st =
     and_then (p st) (\<lambda>(left, st). binop_loop (Suc (p_rem st)) ops p left st)"

fun mult_op :: "token_kind \<Rightarrow> binop option" where
  "mult_op TkStar = Some OpMul"
| "mult_op TkSlash = Some OpDiv"
| "mult_op TkPercent = Some OpMod"
| "mult_op _ = None"

fun additive_op :: "token_kind \<Rightarrow> binop option" where
  "additive_op TkPlus = Some OpAdd"
| "additive_op TkMinus = Some OpSub"
| "additive_op _ = None"

fun relational_op :: "token_kind \<Rightarrow> binop option" where
  "relational_op TkLt = Some OpLt"
| "relational_op TkGt = Some OpGt"
| "relational_op TkLtEq = Some OpLtEq"
| "relational_op TkGtEq = Some OpGtEq"
| "relational_op _ = None"

fun equality_op :: "token_kind \<Rightarrow> binop option" where
  "equality_op TkEqEq = Some OpEq"
| "equality_op TkBangEq = Some OpNeq"
| "equality_op _ = None"

definition and_op :: "token_kind \<Rightarrow> binop option" where
  "and_op t = (if t = TkAnd then Some OpAnd else None)"

definition or_op :: "token_kind \<Rightarrow> binop option" where
  "or_op t = (if t = TkOr then Some OpOr else None)"

definition parse_mult_expr :: "knot \<Rightarrow> expr parser" where
  "parse_mult_expr k = binop_chain mult_op (parse_unary_expr k)"

definition parse_additive_expr :: "knot \<Rightarrow> expr parser" where
  "parse_additive_expr k = binop_chain additive_op (parse_mult_expr k)"

definition parse_relational_expr :: "knot \<Rightarrow> expr parser" where
  "parse_relational_expr k = binop_once relational_op (parse_additive_expr k)"

definition parse_equality_expr :: "knot \<Rightarrow> expr parser" where
  "parse_equality_expr k = binop_once equality_op (parse_relational_expr k)"

definition parse_and_expr :: "knot \<Rightarrow> expr parser" where
  "parse_and_expr k = binop_chain and_op (parse_equality_expr k)"

definition parse_or_expr :: "knot \<Rightarrow> expr parser" where
  "parse_or_expr k = binop_chain or_op (parse_and_expr k)"

definition next_knot :: "knot \<Rightarrow> knot" where
  "next_knot k =
     \<lparr>k_expr = parse_or_expr k, k_unary = parse_unary_expr k, k_postfix = parse_postfix_expr k,
      k_if = parse_if_expr k, k_block = parse_block k\<rparr>"

primrec knot_at :: "nat \<Rightarrow> knot" where
  "knot_at 0 =
     \<lparr>k_expr = (\<lambda>st. Inl OutOfFuel), k_unary = (\<lambda>st. Inl OutOfFuel),
      k_postfix = (\<lambda>st. Inl OutOfFuel), k_if = (\<lambda>st. Inl OutOfFuel),
      k_block = (\<lambda>st. Inl OutOfFuel)\<rparr>"
| "knot_at (Suc n) = next_knot (knot_at n)"

definition parse_expr :: "expr parser" where
  "parse_expr st = k_expr (knot_at (Suc (p_rem st))) st"

definition parse_body :: "block parser" where
  "parse_body st = k_block (knot_at (Suc (p_rem st))) st"

end
