(* ===== verification/ParseDecl.thy ===== *)
theory ParseDecl
  imports ParseExpr
begin

text \<open>
  Declarations and whole programs: the first pass that collects the names of structs and
  enums (it tells a struct literal from a block), and the second pass over the top-level
  declarations, from \<open>src/src/parser.rs\<close>.
\<close>

section \<open>Pass 1: type names\<close>

fun collect_loop :: "nat \<Rightarrow> pstate \<Rightarrow> failure + pstate" where
  "collect_loop 0 st = Inl OutOfFuel"
| "collect_loop (Suc n) st =
     (if p_at_eof st then Inr st
      else if p_peek st = TkStruct \<or> p_peek st = TkEnum then
        and_then (p_advance st) (\<lambda>(_, st).
        let st = (case p_peek st of
                    TkIdent name \<Rightarrow> st\<lparr>p_known_type_names := insert name (p_known_type_names st)\<rparr>
                  | _ \<Rightarrow> st)
        in and_then (p_advance st) (\<lambda>(_, st). collect_loop n st))
      else and_then (p_advance st) (\<lambda>(_, st). collect_loop n st))"

definition collect_type_names :: "pstate \<Rightarrow> failure + pstate" where
  "collect_type_names st =
     (let saved = p_pos st in
      and_then (collect_loop (Suc (length (p_tokens st))) (st\<lparr>p_pos := 0\<rparr>)) (\<lambda>st.
      Inr (st\<lparr>p_known_type_names := insert ''Result'' (p_known_type_names st),
              p_pos := saved\<rparr>)))"

section \<open>Declarations\<close>

definition parse_param :: "param parser" where
  "parse_param st =
     and_then (p_expect_ident st) (\<lambda>((name, span), st).
     and_then (p_expect TkColon st) (\<lambda>(_, st).
     and_then (parse_type st) (\<lambda>(ty, st).
     Inr (\<lparr>p_name = name, p_ty = ty, p_span = span\<rparr>, st))))"

definition parse_param_list :: "param list parser" where
  "parse_param_list st = comma_list TkRParen parse_param st"

definition parse_return_type :: "ast_type option parser" where
  "parse_return_type st =
     (if p_at TkArrow st then
        and_then (p_advance st) (\<lambda>(_, st).
        and_then (parse_type st) (\<lambda>(ty, st). Inr (Some ty, st)))
      else Inr (None, st))"

definition parse_fn_decl :: "fn_decl parser" where
  "parse_fn_decl st =
     (let span = p_peek_span st;
          rest = (\<lambda>is_pure.
            and_then (p_advance st) (\<lambda>(_, st).
            and_then (p_expect_ident st) (\<lambda>((name, _), st).
            and_then (p_expect TkLParen st) (\<lambda>(_, st).
            and_then (parse_param_list st) (\<lambda>(params, st).
            and_then (p_expect TkRParen st) (\<lambda>(_, st).
            and_then (parse_return_type st) (\<lambda>(return_type, st).
            and_then (parse_body st) (\<lambda>(body, st).
            Inr (\<lparr>fn_name = name, fn_params = params, fn_return_type = return_type,
                  fn_body = body, fn_is_pure = is_pure, fn_span = span\<rparr>, st)))))))))
      in case p_peek st of
           TkFn \<Rightarrow> rest True
         | TkFnBang \<Rightarrow> rest False
         | _ \<Rightarrow> p_fail span (ExpectedFn (p_peek st)) st)"

definition parse_field :: "field_decl parser" where
  "parse_field st =
     and_then (p_expect_ident st) (\<lambda>((name, span), st).
     and_then (p_expect TkColon st) (\<lambda>(_, st).
     and_then (parse_type st) (\<lambda>(ty, st).
     Inr (\<lparr>f_name = name, f_ty = ty, f_span = span\<rparr>, st))))"

definition parse_field_list :: "field_decl list parser" where
  "parse_field_list st = comma_list TkRBrace parse_field st"

definition parse_struct_decl :: "struct_decl parser" where
  "parse_struct_decl st =
     (let span = p_peek_span st in
      and_then (p_expect TkStruct st) (\<lambda>(_, st).
      and_then (p_expect_ident st) (\<lambda>((name, _), st).
      and_then (p_expect TkLBrace st) (\<lambda>(_, st).
      and_then (parse_field_list st) (\<lambda>(fields, st).
      and_then (p_expect TkRBrace st) (\<lambda>(_, st).
      Inr (\<lparr>s_name = name, s_fields = fields, s_span = span\<rparr>, st)))))))"

definition parse_variant :: "variant_decl parser" where
  "parse_variant st =
     and_then (p_expect_ident st) (\<lambda>((name, span), st).
     and_then
       (if p_at TkLParen st then
          and_then (p_advance st) (\<lambda>(_, st).
          and_then (comma_list TkRParen parse_type st) (\<lambda>(payload, st).
          and_then (p_expect TkRParen st) (\<lambda>(_, st).
          Inr (payload, st))))
        else Inr ([], st)) (\<lambda>(payload, st).
     Inr (\<lparr>v_name = name, v_payload_types = payload, v_span = span\<rparr>, st)))"

definition parse_variant_list :: "variant_decl list parser" where
  "parse_variant_list st = comma_list TkRBrace parse_variant st"

definition parse_enum_decl :: "enum_decl parser" where
  "parse_enum_decl st =
     (let span = p_peek_span st in
      and_then (p_expect TkEnum st) (\<lambda>(_, st).
      and_then (p_expect_ident st) (\<lambda>((name, _), st).
      and_then (p_expect TkLBrace st) (\<lambda>(_, st).
      and_then (parse_variant_list st) (\<lambda>(variants, st).
      and_then (p_expect TkRBrace st) (\<lambda>(_, st).
      Inr (\<lparr>e_name = name, e_variants = variants, e_span = span\<rparr>, st)))))))"

definition parse_top_let_decl :: "let_decl parser" where
  "parse_top_let_decl st =
     (let span = p_peek_span st in
      and_then (p_expect TkLet st) (\<lambda>(_, st).
      and_then (p_expect_ident st) (\<lambda>((name, _), st).
      and_then (p_expect TkColon st) (\<lambda>(_, st).
      and_then (parse_type st) (\<lambda>(ty, st).
      and_then (p_expect TkEq st) (\<lambda>(_, st).
      and_then (parse_expr st) (\<lambda>(val, st).
      and_then (p_expect TkSemicolon st) (\<lambda>(_, st).
      Inr (\<lparr>l_name = name, l_ty = ty, l_value = val, l_span = span\<rparr>, st)))))))))"

definition parse_extern_fn_decl :: "extern_fn_decl parser" where
  "parse_extern_fn_decl st =
     (let span = p_peek_span st in
      and_then (p_expect TkFnBang st) (\<lambda>(_, st).
      and_then (p_expect_ident st) (\<lambda>((name, _), st).
      and_then (p_expect TkLParen st) (\<lambda>(_, st).
      and_then (parse_param_list st) (\<lambda>(params, st).
      and_then (p_expect TkRParen st) (\<lambda>(_, st).
      and_then (parse_return_type st) (\<lambda>(return_type, st).
      and_then (p_expect TkSemicolon st) (\<lambda>(_, st).
      Inr (\<lparr>ef_name = name, ef_params = params, ef_return_type = return_type,
            ef_span = span\<rparr>, st)))))))))"

fun extern_decls :: "nat \<Rightarrow> extern_fn_decl list \<Rightarrow> extern_fn_decl list parser" where
  "extern_decls 0 ds st = Inl OutOfFuel"
| "extern_decls (Suc n) ds st =
     (if \<not> p_at TkRBrace st \<and> \<not> p_at_eof st then
        and_then (parse_extern_fn_decl st) (\<lambda>(d, st). extern_decls n (ds @ [d]) st)
      else Inr (ds, st))"

definition parse_extern_block :: "extern_block parser" where
  "parse_extern_block st =
     (let span = p_peek_span st in
      and_then (p_expect TkExtern st) (\<lambda>(_, st).
      and_then (p_expect TkLBrace st) (\<lambda>(_, st).
      and_then (extern_decls (Suc (p_rem st)) [] st) (\<lambda>(ds, st).
      and_then (p_expect TkRBrace st) (\<lambda>(_, st).
      Inr (\<lparr>eb_decls = ds, eb_span = span\<rparr>, st))))))"

definition parse_use_decl :: "top_decl parser" where
  "parse_use_decl st =
     and_then (p_advance st) (\<lambda>(_, st).
     let span = p_peek_span st in
     case p_peek st of
       TkStringLit path \<Rightarrow>
         and_then (p_advance st) (\<lambda>(_, st).
         and_then
           (if p_peek st = TkAs then
              and_then (p_advance st) (\<lambda>(_, st).
              case p_peek st of
                TkIdent name \<Rightarrow> and_then (p_advance st) (\<lambda>(_, st). Inr (Some name, st))
              | _ \<Rightarrow> p_fail (p_peek_span st) (ExpectedIdentifierAfterAs (p_peek st)) st)
            else Inr (None, st)) (\<lambda>(ns, st).
         Inr (DUse path ns, st)))
     | _ \<Rightarrow> p_fail span (ExpectedStringAfterUse (p_peek st)) st)"

definition map_decl :: "('a \<Rightarrow> top_decl) \<Rightarrow> failure + ('a \<times> pstate) \<Rightarrow> failure + (top_decl \<times> pstate)" where
  "map_decl mk r = and_then r (\<lambda>(d, st). Inr (mk d, st))"

definition parse_top_decl :: "top_decl parser" where
  "parse_top_decl st =
     (case p_peek st of
        TkFn \<Rightarrow> map_decl DFn (parse_fn_decl st)
      | TkFnBang \<Rightarrow> map_decl DFn (parse_fn_decl st)
      | TkStruct \<Rightarrow> map_decl DStruct (parse_struct_decl st)
      | TkEnum \<Rightarrow> map_decl DEnum (parse_enum_decl st)
      | TkLet \<Rightarrow> map_decl DLet (parse_top_let_decl st)
      | TkExtern \<Rightarrow> map_decl DExtern (parse_extern_block st)
      | TkUse \<Rightarrow> parse_use_decl st
      | _ \<Rightarrow> p_fail (p_peek_span st) (ExpectedTopDecl (p_peek st)) st)"

fun program_decls :: "nat \<Rightarrow> top_decl list \<Rightarrow> top_decl list parser" where
  "program_decls 0 ds st = Inl OutOfFuel"
| "program_decls (Suc n) ds st =
     (if p_at_eof st then Inr (ds, st)
      else and_then (parse_top_decl st) (\<lambda>(d, st). program_decls n (ds @ [d]) st))"

definition parse_program :: "program parser" where
  "parse_program st =
     and_then (collect_type_names st) (\<lambda>st.
     and_then (program_decls (Suc (p_rem st)) [] st) (\<lambda>(ds, st).
     Inr (\<lparr>decls = ds\<rparr>, st)))"

end
