(* ===== verification/ParseTotal.thy ===== *)
theory ParseTotal
  imports ParseDecl
begin

text \<open>
  The parser is total: no production panics or runs out of fuel. The locale \<open>expr_knot\<close> is
  the interface between the expression productions and the knot; under it every production
  keeps the contract of \<open>ParserBase\<close>, and it is interpreted on \<open>knot_at n\<close>.
\<close>

locale expr_knot =
  fixes k :: knot and m :: nat
  assumes expr: "production (k_expr k) m"
    and unary: "production (k_unary k) m"
    and postfix: "production (k_postfix k) m"
    and if_expr: "production (k_if k) m"
    and block: "production (k_block k) m"

sublocale expr_knot < ex: production "k_expr k" m by (rule expr)
sublocale expr_knot < un: production "k_unary k" m by (rule unary)
sublocale expr_knot < po: production "k_postfix k" m by (rule postfix)
sublocale expr_knot < ie: production "k_if k" m by (rule if_expr)
sublocale expr_knot < bl: production "k_block k" m by (rule block)

lemma optional_semicolon_stays [prod_intros]: "stays st (optional_semicolon st)"
  by (auto simp: optional_semicolon_def at_defs intro!: stays_seq prod_intros)

lemma compound_op_not_eof: "compound_op t = Some op \<Longrightarrow> t \<noteq> TkEof"
  by auto

context expr_knot begin

lemmas knot_stays = ex.stays un.stays po.stays ie.stays bl.stays

lemma place_accessors_stays:
  "p_rem st < n \<Longrightarrow> p_rem st < m \<Longrightarrow> stays st (place_accessors n k acc st)"
proof (induction n arbitrary: acc st)
  case 0
  then show ?case by simp
next
  case (Suc n)
  then show ?case
    by (auto simp: at_defs intro!: loop_seqs prod_intros knot_stays Suc.IH)
qed

lemma place_advances: "p_rem st < Suc m \<Longrightarrow> advances st (parse_place k st)"
  by (auto simp: parse_place_def simp del: place_accessors.simps
      intro!: advances_seq stays_seq prod_intros place_accessors_stays)

lemma let_stmt_advances: "p_rem st < Suc m \<Longrightarrow> advances st (parse_let_stmt k st)"
  by (auto simp: parse_let_stmt_def at_defs Let_def
      intro!: advances_seq stays_seq prod_intros knot_stays)

lemma assign_stmt_advances: "p_rem st < Suc m \<Longrightarrow> advances st (parse_assign_stmt k st)"
  by (auto simp: parse_assign_stmt_def Let_def split: option.split dest!: compound_op_not_eof
      intro!: advances_seq stays_seq prod_intros knot_stays place_advances)

lemma while_stmt_advances: "p_rem st < Suc m \<Longrightarrow> advances st (parse_while_stmt k st)"
  by (auto simp: parse_while_stmt_def Let_def intro!: advances_seq stays_seq prod_intros knot_stays)

lemma for_stmt_advances: "p_rem st < Suc m \<Longrightarrow> advances st (parse_for_stmt k st)"
  by (auto simp: parse_for_stmt_def at_defs Let_def
      intro!: advances_seq stays_seq prod_intros knot_stays)

lemma return_stmt_advances: "p_rem st < Suc m \<Longrightarrow> advances st (parse_return_stmt k st)"
  by (auto simp: parse_return_stmt_def Let_def intro!: advances_seq stays_seq prod_intros knot_stays)

lemma defer_stmt_advances: "p_rem st < Suc m \<Longrightarrow> advances st (parse_defer_stmt k st)"
  by (auto simp: parse_defer_stmt_def Let_def intro!: advances_seq stays_seq prod_intros knot_stays)

lemma jump_stmt_advances: "p_peek st \<noteq> TkEof \<Longrightarrow> advances st (parse_jump_stmt mk st)"
  by (auto simp: parse_jump_stmt_def Let_def intro!: advances_seq stays_seq prod_intros)

lemmas stmt_advances =
  let_stmt_advances assign_stmt_advances while_stmt_advances for_stmt_advances
  return_stmt_advances defer_stmt_advances jump_stmt_advances

lemma expr_stmt_advances:
  "p_rem st < m \<Longrightarrow>
     advances st (and_then (k_expr k st) (\<lambda>(e, st).
       and_then (p_expect TkSemicolon st) (\<lambda>(_, st). Inr (SExpr e (expr_span e), st))))"
  by (auto intro!: advances_seq stays_seq prod_intros ex.advances)

lemma parse_stmt_advances: "p_rem st < m \<Longrightarrow> advances st (parse_stmt k st)"
  by (cases "p_peek st")
    (auto simp: parse_stmt_def intro: stmt_advances expr_stmt_advances)

lemma block_items_stays:
  "p_rem st < n \<Longrightarrow> p_rem st < m \<Longrightarrow> stays st (block_items n k stmts tail st)"
proof (induction n arbitrary: stmts tail st)
  case 0
  then show ?case by simp
next
  case (Suc n)
  have "stays st' (block_items n k ss t st')" if "p_rem st' < p_rem st" for ss t st'
    using that Suc by simp
  with Suc.prems show ?case
    by (auto simp: at_defs intro!: loop_seqs stays_seq_strict [OF parse_stmt_advances]
        stays_seq_strict [OF ex.advances] prod_intros)
qed

lemma parse_block_advances: "p_rem st < Suc m \<Longrightarrow> advances st (parse_block k st)"
  by (auto simp: parse_block_def Let_def simp del: block_items.simps
      intro!: advances_seq stays_seq prod_intros block_items_stays)

section \<open>Primary expressions\<close>

lemma arg_list_stays: "p_rem st < m \<Longrightarrow> stays st (parse_arg_list k st)"
  by (simp add: parse_arg_list_def ex.comma_list_stays)

lemma interp_parts_stays:
  "p_rem st < n \<Longrightarrow> p_rem st < m \<Longrightarrow> stays st (interp_parts n k parts st)"
proof (induction n arbitrary: parts st)
  case 0
  then show ?case by simp
next
  case (Suc n)
  have "stays st' (interp_parts n k ps st')" if "p_rem st' < p_rem st" for ps st'
    using that Suc by simp
  with Suc.prems show ?case
    by (auto split: token_kind.split intro!: loop_seqs stays_seq_strict [OF ex.advances] prod_intros)
qed

lemma interpolated_string_stays:
  "p_rem st < m \<Longrightarrow> stays st (parse_interpolated_string_expr k s sp st)"
  by (auto simp: parse_interpolated_string_expr_def simp del: interp_parts.simps
      intro!: stays_seq interp_parts_stays)

lemma if_expr_advances: "p_rem st < Suc m \<Longrightarrow> advances st (parse_if_expr k st)"
  by (auto simp: parse_if_expr_def at_defs Let_def
      intro!: advances_seq stays_seq prod_intros knot_stays)

lemma match_arm_advances: "p_rem st < Suc m \<Longrightarrow> advances st (parse_match_arm k st)"
  by (auto simp: parse_match_arm_def Let_def intro!: advances_seq stays_seq prod_intros knot_stays)

lemma match_arms_stays:
  "p_rem st < n \<Longrightarrow> p_rem st < m \<Longrightarrow> stays st (match_arms n k arms st)"
proof (induction n arbitrary: arms st)
  case 0
  then show ?case by simp
next
  case (Suc n)
  then show ?case
    by (auto intro!: stays_seq_strict [OF match_arm_advances] Suc.IH)
qed

lemma match_expr_advances: "p_rem st < Suc m \<Longrightarrow> advances st (parse_match_expr k st)"
  by (auto simp: parse_match_expr_def Let_def simp del: match_arms.simps
      intro!: advances_seq stays_seq prod_intros knot_stays match_arms_stays)

lemma try_expr_advances: "p_rem st < Suc m \<Longrightarrow> advances st (parse_try_expr k st)"
  by (auto simp: parse_try_expr_def Let_def intro!: advances_seq stays_seq prod_intros knot_stays)

lemma array_literal_advances: "p_rem st < Suc m \<Longrightarrow> advances st (parse_array_literal k st)"
  by (auto simp: parse_array_literal_def Let_def
      intro!: advances_seq stays_seq prod_intros ex.comma_list_stays)

lemma field_init_advances: "p_rem st < Suc m \<Longrightarrow> advances st (parse_field_init k st)"
  by (auto simp: parse_field_init_def intro!: advances_seq stays_seq prod_intros knot_stays)

lemma field_inits_stays: "p_rem st < Suc m \<Longrightarrow> stays st (comma_list close (parse_field_init k) st)"
  by (rule production.comma_list_stays [OF production.intro]) (rule field_init_advances)

lemma struct_literal_advances: "p_rem st < Suc m \<Longrightarrow> advances st (parse_struct_literal k st)"
  by (auto simp: parse_struct_literal_def Let_def
      intro!: advances_seq stays_seq prod_intros field_inits_stays)

lemma enum_constructor_advances: "p_rem st < Suc m \<Longrightarrow> advances st (parse_enum_constructor k st)"
  by (auto simp: parse_enum_constructor_def at_defs Let_def
      intro!: advances_seq stays_seq prod_intros arg_list_stays)

lemmas primary_parts =
  if_expr_advances match_expr_advances try_expr_advances array_literal_advances
  struct_literal_advances enum_constructor_advances

lemma primary_expr_advances: "p_rem st < Suc m \<Longrightarrow> advances st (parse_primary_expr k st)"
  by (cases "p_peek st")
    (auto simp: parse_primary_expr_def Let_def
      intro!: advances_seq [where m = "p_advance st"] advances_seq [OF parse_block_advances]
        stays_seq prod_intros primary_parts interpolated_string_stays knot_stays)

section \<open>Operators\<close>

lemma postfix_loop_stays:
  "p_rem st < n \<Longrightarrow> p_rem st < m \<Longrightarrow> stays st (postfix_loop n k e st)"
proof (induction n arbitrary: e st)
  case 0
  then show ?case by simp
next
  case (Suc n)
  then show ?case
    by (auto simp: at_defs intro!: loop_seqs prod_intros knot_stays arg_list_stays Suc.IH)
qed

lemma postfix_expr_advances: "p_rem st < Suc m \<Longrightarrow> advances st (parse_postfix_expr k st)"
  by (auto simp: parse_postfix_expr_def simp del: postfix_loop.simps
      intro!: advances_seq [OF primary_expr_advances] postfix_loop_stays)

lemma cast_expr_advances: "p_rem st < Suc m \<Longrightarrow> advances st (parse_cast_expr k st)"
  by (auto simp: parse_cast_expr_def at_defs Let_def
      intro!: advances_seq [OF postfix_expr_advances] stays_seq prod_intros)

lemma unary_expr_advances: "p_rem st < Suc m \<Longrightarrow> advances st (parse_unary_expr k st)"
  by (auto simp: parse_unary_expr_def Let_def split: token_kind.split
      intro!: advances_seq stays_seq prod_intros knot_stays cast_expr_advances)

end

text \<open>An operator level keeps the contract of the level below it.\<close>

locale expr_production = production p m for p :: "expr parser" and m :: nat
begin

lemma binop_loop_stays:
  assumes "ops TkEof = None"
  shows "p_rem st < n \<Longrightarrow> p_rem st < m \<Longrightarrow> stays st (binop_loop n ops p left st)"
proof (induction n arbitrary: left st)
  case 0
  then show ?case by simp
next
  case (Suc n)
  have "p_peek st \<noteq> TkEof" if "ops (p_peek st) = Some op" for op
    using that assms by auto
  with Suc show ?case
    by (auto simp: Let_def split: option.split intro!: loop_seqs prod_intros stays)
qed

lemma production_binop_chain:
  assumes "ops TkEof = None"
  shows "production (binop_chain ops p) m"
proof
  fix st assume "p_rem st < m"
  then show "advances st (binop_chain ops p st)"
    by (auto simp: binop_chain_def simp del: binop_loop.simps
        intro!: advances_seq [OF advances] binop_loop_stays assms)
qed

lemma production_binop_once:
  assumes "ops TkEof = None"
  shows "production (binop_once ops p) m"
proof
  fix st assume "p_rem st < m"
  with assms show "advances st (binop_once ops p st)"
    by (auto simp: binop_once_def Let_def split: option.split
        intro!: advances_seq [OF advances] stays_seq prod_intros stays)
qed

end

context expr_knot begin

lemma or_expr_production: "production (parse_or_expr k) (Suc m)"
  unfolding parse_or_expr_def parse_and_expr_def parse_equality_expr_def parse_relational_expr_def
    parse_additive_expr_def parse_mult_expr_def
  by (intro expr_production.production_binop_chain expr_production.production_binop_once
      expr_production.intro production.intro unary_expr_advances)
    (simp_all add: or_op_def and_op_def)

lemma next_knot: "expr_knot (next_knot k) (Suc m)"
  unfolding next_knot_def
  by (intro expr_knot.intro production.intro)
    (simp_all add: production.advances [OF or_expr_production] unary_expr_advances
      postfix_expr_advances if_expr_advances parse_block_advances)

end

lemma expr_knot_at: "expr_knot (knot_at n) n"
proof (induction n)
  case 0
  then show ?case by (intro expr_knot.intro production.intro) simp_all
next
  case (Suc n)
  then show ?case using expr_knot.next_knot [OF Suc] by simp
qed

interpretation knot: expr_knot "knot_at n" n for n
  by (rule expr_knot_at)

lemma parse_expr_advances [prod_intros]: "advances st (parse_expr st)"
  unfolding parse_expr_def by (rule knot.ex.advances) simp

lemma parse_body_advances [prod_intros]: "advances st (parse_body st)"
  unfolding parse_body_def by (rule knot.bl.advances) simp

lemmas closed_stays [prod_intros] =
  parse_expr_advances [THEN advances_stays] parse_body_advances [THEN advances_stays]

section \<open>Declarations\<close>

lemma param_advances: "advances st (parse_param st)"
  by (auto simp: parse_param_def intro!: advances_seq stays_seq prod_intros)

interpretation params: production parse_param m for m
  by unfold_locales (rule param_advances)

lemma param_list_stays: "stays st (parse_param_list st)"
  unfolding parse_param_list_def by (rule params.comma_list_stays) (rule lessI)

lemma return_type_stays: "stays st (parse_return_type st)"
  by (auto simp: parse_return_type_def at_defs intro!: stays_seq prod_intros)

lemma fn_decl_advances: "advances st (parse_fn_decl st)"
  by (auto simp: parse_fn_decl_def Let_def split: token_kind.split
      intro!: advances_seq stays_seq prod_intros param_list_stays return_type_stays)

lemma field_advances: "advances st (parse_field st)"
  by (auto simp: parse_field_def intro!: advances_seq stays_seq prod_intros)

interpretation fields: production parse_field m for m
  by unfold_locales (rule field_advances)

lemma field_list_stays: "stays st (parse_field_list st)"
  unfolding parse_field_list_def by (rule fields.comma_list_stays) (rule lessI)

lemma struct_decl_advances: "advances st (parse_struct_decl st)"
  by (auto simp: parse_struct_decl_def Let_def
      intro!: advances_seq stays_seq prod_intros field_list_stays)

lemma type_list_stays: "stays st (comma_list close parse_type st)"
  by (rule types.comma_list_stays) (rule lessI)

lemma variant_advances: "advances st (parse_variant st)"
  by (auto simp: parse_variant_def at_defs intro!: advances_seq stays_seq prod_intros type_list_stays)

interpretation variants: production parse_variant m for m
  by unfold_locales (rule variant_advances)

lemma variant_list_stays: "stays st (parse_variant_list st)"
  unfolding parse_variant_list_def by (rule variants.comma_list_stays) (rule lessI)

lemma enum_decl_advances: "advances st (parse_enum_decl st)"
  by (auto simp: parse_enum_decl_def Let_def
      intro!: advances_seq stays_seq prod_intros variant_list_stays)

lemma top_let_advances: "advances st (parse_top_let_decl st)"
  by (auto simp: parse_top_let_decl_def Let_def intro!: advances_seq stays_seq prod_intros)

lemma extern_fn_advances: "advances st (parse_extern_fn_decl st)"
  by (auto simp: parse_extern_fn_decl_def Let_def
      intro!: advances_seq stays_seq prod_intros param_list_stays return_type_stays)

lemma extern_decls_stays: "p_rem st < n \<Longrightarrow> stays st (extern_decls n ds st)"
proof (induction n arbitrary: ds st)
  case 0
  then show ?case by simp
next
  case (Suc n)
  then show ?case
    by (auto intro!: stays_seq_strict [OF extern_fn_advances] Suc.IH)
qed

lemma extern_block_advances: "advances st (parse_extern_block st)"
  by (auto simp: parse_extern_block_def Let_def simp del: extern_decls.simps
      intro!: advances_seq stays_seq prod_intros extern_decls_stays)

lemma use_namespace_stays:
  "stays st
     (if p_peek st = TkAs then
        and_then (p_advance st) (\<lambda>(_, st).
        case p_peek st of
          TkIdent name \<Rightarrow> and_then (p_advance st) (\<lambda>(_, st). Inr (Some name, st))
        | _ \<Rightarrow> p_fail (p_peek_span st) (ExpectedIdentifierAfterAs (p_peek st)) st)
      else Inr (None, st))"
  by (auto split: token_kind.split intro!: stays_seq prod_intros)

lemma use_decl_advances: "p_peek st \<noteq> TkEof \<Longrightarrow> advances st (parse_use_decl st)"
  unfolding parse_use_decl_def Let_def
  by (intro advances_seq stays_seq prod_intros)
    (auto split: token_kind.split intro!: stays_seq [OF use_namespace_stays] stays_seq prod_intros)

lemma map_decl_advances: "advances st r \<Longrightarrow> advances st (map_decl mk r)"
  by (auto simp: map_decl_def intro!: advances_seq)

lemma top_decl_advances: "advances st (parse_top_decl st)"
  by (auto simp: parse_top_decl_def split: token_kind.split
      intro!: map_decl_advances fn_decl_advances struct_decl_advances enum_decl_advances
        top_let_advances extern_block_advances use_decl_advances)

lemma program_decls_stays: "p_rem st < n \<Longrightarrow> stays st (program_decls n ds st)"
proof (induction n arbitrary: ds st)
  case 0
  then show ?case by simp
next
  case (Suc n)
  then show ?case
    by (auto intro!: stays_seq_strict [OF top_decl_advances] Suc.IH)
qed

section \<open>The first pass\<close>

text \<open>
  The first pass consumes two tokens at a \<open>struct\<close> or \<open>enum\<close> whatever follows. It stays
  inside the token list because the list ends with \<open>TkEof\<close>, which starts neither.
\<close>

definition ends_with_eof :: "token list \<Rightarrow> bool" where
  "ends_with_eof toks \<longleftrightarrow> toks \<noteq> [] \<and> tk_kind (last toks) = TkEof"

lemma collect_loop_ok:
  assumes "ends_with_eof (p_tokens st)"
  shows "p_rem st < n \<Longrightarrow>
    \<exists>st'. collect_loop n st = Inr st' \<and> p_tokens st' = p_tokens st \<and>
      p_known_type_names st \<subseteq> p_known_type_names st'"
  using assms
proof (induction n arbitrary: st)
  case 0
  then show ?case by simp
next
  case (Suc n)
  show ?case
  proof (cases "p_at_eof st")
    case True
    then show ?thesis by simp
  next
    case False
    then have pos: "p_pos st < length (p_tokens st)"
      by (auto simp: at_defs intro: p_peek_not_eof)
    then have adv: "p_advance st = Inr (p_tokens st ! p_pos st, st\<lparr>p_pos := p_pos st + 1\<rparr>)"
      by (simp add: p_advance_def)
    have more: "p_pos st + 1 < length (p_tokens st)"
    proof (rule ccontr)
      assume "\<not> p_pos st + 1 < length (p_tokens st)"
      with pos have "p_pos st = length (p_tokens st) - 1" by simp
      with pos Suc.prems(2) have "p_peek st = TkEof"
        by (simp add: p_peek_def ends_with_eof_def) (metis One_nat_def last_conv_nth)
      with False show False by (simp add: at_defs)
    qed
    have step: "\<exists>st'. collect_loop n st2 = Inr st' \<and> p_tokens st' = p_tokens st \<and>
        p_known_type_names st \<subseteq> p_known_type_names st'"
      if "p_tokens st2 = p_tokens st" "p_pos st < p_pos st2"
        "p_known_type_names st \<subseteq> p_known_type_names st2" for st2
      using Suc.IH [of st2] Suc.prems that pos by (force simp: p_rem_def)
    show ?thesis
      using False adv more
      by (auto simp: Let_def p_advance_def split: token_kind.split intro!: step)
  qed
qed

lemma collect_type_names_ok:
  assumes "ends_with_eof (p_tokens st)"
  obtains names where "collect_type_names st = Inr (st\<lparr>p_known_type_names := names\<rparr>)"
    "''Result'' \<in> names" "p_known_type_names st \<subseteq> names"
proof -
  obtain st' where "collect_loop (Suc (length (p_tokens st))) (st\<lparr>p_pos := 0\<rparr>) = Inr st'"
    "p_tokens st' = p_tokens st" "p_known_type_names st \<subseteq> p_known_type_names st'"
    using collect_loop_ok [of "st\<lparr>p_pos := 0\<rparr>" "Suc (length (p_tokens st))"] assms
    by (auto simp: p_rem_def)
  then show ?thesis
    by (intro that [of "insert ''Result'' (p_known_type_names st')"])
      (auto simp: collect_type_names_def intro!: pstate.equality)
qed

lemma parse_program_graceful:
  assumes "ends_with_eof (p_tokens st)"
  shows "graceful (parse_program st)"
proof -
  obtain names where "collect_type_names st = Inr (st\<lparr>p_known_type_names := names\<rparr>)"
    using collect_type_names_ok [OF assms] .
  moreover have "graceful (program_decls (Suc (p_rem st')) [] st')" for st'
    using program_decls_stays [of st' "Suc (p_rem st')" "[]"] by (simp add: stays_def)
  ultimately show ?thesis
    by (auto simp: parse_program_def simp del: program_decls.simps split: prod.split)
qed

section \<open>The parser\<close>

text \<open>
  C27. Parsing always ends, and never reads past the token list: on any token list that ends
  with the end-of-file token, \<open>parse_program\<close> returns a program or a reported error. The
  measure is the number of tokens left, which every production and every round of a loop
  decreases.
\<close>

theorem parse_program_total: "ends_with_eof toks \<Longrightarrow> graceful (parse_program (parser_new toks))"
  by (rule parse_program_graceful) (simp add: parser_new_def)

lemma parse_program_total_witness:
  "graceful (parse_program (parser_new
     [\<lparr>tk_kind = TkFn, tk_span = Span 1 1\<rparr>,
      \<lparr>tk_kind = TkEof, tk_span = Span 1 3\<rparr>]))"
  by (rule parse_program_total) (simp add: ends_with_eof_def)

end
