(* ===== verification/FrontEnd.thy ===== *)
theory FrontEnd
  imports LexRoundtrip ParseTotal AnalysisSound
begin

text \<open>
  The stages of the compiler front end in the order in which \<open>main\<close> of \<open>src/src/main.rs\<close>
  runs them: lexing, parsing and semantic analysis. The first error ends the compilation;
  the driver adds the file name to it.
\<close>

definition with_file_error :: "rstring \<Rightarrow> failure + 'a \<Rightarrow> failure + 'a" where
  "with_file_error path r =
     (case r of
        Inl (Rejected e) \<Rightarrow> Inl (Rejected (with_file path e))
      | _ \<Rightarrow> r)"

definition parse_source :: "rchar list \<Rightarrow> failure + program" where
  "parse_source src =
     and_then (tokenize src) (\<lambda>toks.
     and_then (parse_program (parser_new toks)) (\<lambda>(prog, _). Inr prog))"

definition front_end :: "rstring \<Rightarrow> rchar list \<Rightarrow> failure + (program \<times> semantic_info)" where
  "front_end path src =
     with_file_error path
       (and_then (parse_source src) (\<lambda>prog.
        and_then (analyze prog) (\<lambda>info. Inr (prog, info))))"

section \<open>The front end as a whole\<close>

lemma tokenize_ends: "tokenize src = Inr toks \<Longrightarrow> ends_with_eof toks"
  using tokenize_from_at [of "lexer_new src" toks] tokens_at_last
  by (force simp: tokenize_def lexer_new_def located_def span_at_def lx_span_def ends_with_eof_def)

lemma parse_source_graceful: "graceful (parse_source src)"
  unfolding parse_source_def
proof (rule graceful_and_then)
  show "graceful (tokenize src)"
    unfolding tokenize_def by (rule tokenize_from_graceful) (simp add: lexer_new_def modes_ok_def)
  show "graceful (and_then (parse_program (parser_new toks)) (\<lambda>(prog, _). Inr prog))"
    if "tokenize src = Inr toks" for toks
    using tokenize_ends [OF that]
    by (auto intro!: graceful_and_then parse_program_graceful simp: parser_new_def)
qed

text \<open>
  C1. Compilation of any source text: lexing, parsing and analysis together never panic, index
  out of bounds or fail to return; every rejection is an error that names the file.
\<close>

theorem front_end_total:
  "case front_end path src of
     Inr (prog, info) \<Rightarrow> parse_source src = Inr prog \<and> analyze prog = Inr info
   | Inl f \<Rightarrow> \<exists>e. f = Rejected (with_file path e)"
proof -
  have "graceful (analyze prog)" for prog
    using analyze_yields [of prog] by (simp add: yields_def)
  then show ?thesis
    using parse_source_graceful [of src]
    by (auto simp: front_end_def with_file_error_def graceful_def and_then_def
        split: sum.split failure.split)
qed

end
