(* ===== verification/Rules.thy ===== *)
theory Rules
  imports Visits
begin

text \<open>
  Rules of the language that hold of every accepted program, stated on its syntax: jumps are
  inside loops, pure functions call pure code only, matches are exhaustive, \<open>try\<close> occurs in
  functions that return a \<open>Result\<close>, integer literals fit into 32 bits, and parameters are
  neither shadowed nor assigned to. Each is a look at one node (\<open>accepted_nodes\<close> for the body
  of a function, \<open>program_nodes\<close> for all code of a program).
\<close>

section \<open>What acceptance says of one node\<close>

lemma jump_in_loop:
  "visited an (NStmt (SBreak sp)) \<Longrightarrow> an_loop_depth an \<noteq> 0"
  "visited an (NStmt (SContinue sp)) \<Longrightarrow> an_loop_depth an \<noteq> 0"
  by (auto split: if_splits)

text \<open>The calls that a pure function may make.\<close>

definition pure_callee :: "(string \<rightharpoonup> function_info) \<Rightarrow> string set \<Rightarrow> string \<Rightarrow> bool" where
  "pure_callee functions locals name \<longleftrightarrow>
     (case resolve_with_alias name of
        Some i \<Rightarrow> is_pure i
      | None \<Rightarrow>
          name = ''len'' \<or> name \<notin> {''push'', ''pop''} \<and>
          (name \<in> locals \<or> (\<exists>fi. functions name = Some fi \<and> fi_is_pure fi \<and> \<not> fi_is_extern fi)))"

lemma call_pure:
  assumes "visited an (NExpr (ECall callee args sp))" "an_in_pure_fn an"
  shows "\<exists>name nsp. callee = EIdent name nsp \<and> pure_callee (an_functions an) (scope_names an) name"
proof -
  obtain ty where "check_call check_expr callee args sp an = Inr (ty, an)"
    using assms(1) by (auto simp: accepts_def)
  with assms(2) show ?thesis
    by (cases callee rule: expr.exhaust)
      (auto simp: check_call_def check_push_def check_pop_def check_collection_call_def
        check_function_call_def pure_callee_def scope_names_def split: option.splits if_splits)
qed

lemma effect_free:
  assumes "an_in_pure_fn an"
  shows "\<not> visited an (NStmt (SDefer e sp))" "\<not> visited an (NExpr (EArena block sp))"
  using assms by (auto simp: check_defer_def check_arena_def accepts_def)

lemma try_in_result:
  assumes "visited an (NExpr (ETry e sp))"
  shows "\<exists>a b. an_current_fn_return_type an = Some (BcResult a b)"
proof -
  obtain ct an1 r where ct: "check_expr e None an = Inr (ct, an1)"
    and rest: "check_try check_expr e sp an = Inr r"
    using assms by (auto simp: accepts_def check_try_def and_then_eq_Inr)
  have "an1 = an" using ct by (rule check_expr_same)
  with ct rest show ?thesis
    by (cases ct; cases "an_current_fn_return_type an")
      (auto simp: check_try_def split: bc_type.splits)
qed

lemma literal_range:
  assumes "visited an (NExpr (EIntLit v sp))"
  shows "- (2 ^ 31) \<le> v \<and> v < 2 ^ 31"
  using assms
  by (auto simp: accepts_def and_then_eq_Inr int_literal_type_def i32_min_def i32_max_def split: if_splits)

lemma let_fresh:
  assumes "visited an (NStmt s)"
  shows "binders (NStmt s) \<inter> scope_names an = {}"
proof (cases s rule: stmt.exhaust)
  case (SLet name m t v sp)
  with assms show ?thesis
    by (auto simp: check_let_def and_then_eq_Inr add_binding_Inr split: if_splits dest!: check_expr_Inr)
next
  case (SFor name a b body sp)
  with assms show ?thesis
    by (auto simp: check_for_def check_for_body_def and_then_eq_Inr add_binding_Inr scope_names_def
        split: if_splits dest!: check_expr_Inr)
next
  case (SForIn name it body sp)
  with assms show ?thesis
    by (auto simp: check_for_in_def check_for_body_def and_then_eq_Inr add_binding_Inr scope_names_def
        split: option.splits dest!: check_expr_Inr)
qed simp_all

lemma assign_mutable:
  assumes "visited an (NStmt (SAssign target v sp)) \<or> visited an (NStmt (SCompoundAssign target op' v sp))"
    and "\<not> list_ex is_index (pl_accessors target)"
  shows "pl_name target \<notin> immutable_names an"
  using assms
  by (auto simp: check_assign_def check_compound_assign_def check_place_def assignable_def and_then_eq_Inr
      ok_or_def immutable_names_def split: if_splits option.splits)

section \<open>Exhaustive matches\<close>

fun matches_enum :: "bc_type \<Rightarrow> string \<Rightarrow> bool" where
  "matches_enum (BcEnum name) en \<longleftrightarrow> en = name \<and> en \<noteq> ''Result''"
| "matches_enum (BcResult _ _) en \<longleftrightarrow> en = ''Result''"
| "matches_enum _ _ \<longleftrightarrow> False"

lemma enum_pattern:
  assumes "check_pattern_compat an (PEnum en v ps psp) ty seen sp = Inr seen'"
    and "bind_pattern_vars (PEnum en v ps psp) ty sp' an1 = Inr an2"
  shows "matches_enum ty en \<and> seen' = insert v seen"
  using assms
  by (cases ty) (auto simp: check_pattern_compat_def bind_pattern_vars_def split: if_splits option.splits)

lemma other_pattern:
  "check_pattern_compat an p ty seen sp = Inr seen' \<Longrightarrow> \<nexists>en v ps psp. p = PEnum en v ps psp \<Longrightarrow> seen' = seen"
  by (cases p) (auto simp: check_pattern_compat_def split: if_splits)

definition covers :: "match_arm list \<Rightarrow> string \<Rightarrow> string \<Rightarrow> bool" where
  "covers arms en v \<longleftrightarrow> (\<exists>ps psp b s. MatchArm (PEnum en v ps psp) b s \<in> set arms)"

definition catch_all_in :: "match_arm list \<Rightarrow> bool" where
  "catch_all_in arms \<longleftrightarrow> (\<exists>p b s. MatchArm p b s \<in> set arms \<and> is_catch_all p)"

lemma arms_snoc:
  "covers (arms @ [MatchArm p b s]) en v \<longleftrightarrow> covers arms en v \<or> (\<exists>ps psp. p = PEnum en v ps psp)"
  "catch_all_in (arms @ [MatchArm p b s]) \<longleftrightarrow> catch_all_in arms \<or> is_catch_all p"
  by (auto simp: covers_def catch_all_in_def)

text \<open>What the state of the loop over the arms records of the arms \<open>done\<close> before.\<close>

definition records :: "bc_type \<Rightarrow> match_arm list \<Rightarrow> match_state \<Rightarrow> bool" where
  "records ty done ms \<longleftrightarrow>
     (ms_wildcard ms \<longrightarrow> catch_all_in done) \<and>
     (\<forall>v \<in> ms_seen ms. \<exists>en. matches_enum ty en \<and> covers done en v) \<and>
     (\<forall>en v. covers done en v \<longrightarrow> matches_enum ty en)"

lemma arm_records:
  assumes "check_arm check_expr ty sp ex arm (ms, an) = Inr (ms', an')" "records ty done ms"
  shows "records ty (done @ [arm]) ms'"
proof (cases arm rule: match_arm.exhaust)
  case (MatchArm p b s)
  with assms(1) obtain seen an1 where
    compat: "check_pattern_compat an p ty (ms_seen ms) sp = Inr seen" and
    bind: "bind_pattern_vars p ty s (push_scope an) = Inr an1" and
    ms': "ms_seen ms' = seen" "ms_wildcard ms' = (ms_wildcard ms \<or> is_catch_all p)"
    by (auto simp: check_arm_def and_then_eq_Inr)
  show ?thesis
  proof (cases "\<exists>en v ps psp. p = PEnum en v ps psp")
    case True
    then obtain en v ps psp where "p = PEnum en v ps psp" by blast
    with enum_pattern [of an en v ps psp ty "ms_seen ms" sp seen s "push_scope an" an1] compat bind
      ms' MatchArm assms(2)
    show ?thesis unfolding records_def by (auto simp: arms_snoc)
  next
    case False
    with other_pattern [OF compat] ms' MatchArm assms(2)
    show ?thesis unfolding records_def by (auto simp: arms_snoc)
  qed
qed

lemma arms_record:
  assumes "each (check_arm check_expr ty sp ex) arms (ms, an) = Inr (ms', an')" "records ty done ms"
  shows "records ty (done @ arms) ms'"
  using assms
proof (induction arms arbitrary: ms an "done")
  case (Cons arm arms)
  then obtain ms1 an1 where "check_arm check_expr ty sp ex arm (ms, an) = Inr (ms1, an1)"
    "each (check_arm check_expr ty sp ex) arms (ms1, an1) = Inr (ms', an')"
    by (auto simp: and_then_eq_Inr)
  with Cons.IH [of ms1 an1 "done @ [arm]"] arm_records Cons.prems(2) show ?case by fastforce
qed simp

text \<open>The variants of an enum; those of \<open>Result\<close> are built in.\<close>

definition variants_of :: "(string \<rightharpoonup> enum_info) \<Rightarrow> string \<Rightarrow> string set" where
  "variants_of enums en =
     (if en = ''Result'' then {''Ok'', ''Err''}
      else (case enums en of Some info \<Rightarrow> fst ` set (ei_variants info) | None \<Rightarrow> {}))"

lemma match_exhaustive:
  assumes "visited an (NExpr (EMatch scrut arms sp))" "covers arms en v"
  shows "catch_all_in arms \<or> (\<forall>w \<in> variants_of (an_enums an) en. covers arms en w)"
proof -
  obtain ex t ty where "check_match check_expr ty arms sp ex an = Inr (t, an)"
    using assms(1) by (auto simp: accepts_def and_then_eq_Inr dest!: check_expr_Inr)
  then obtain ms an1 where each: "each (check_arm check_expr ty sp ex) arms
      (\<lparr>ms_seen = {}, ms_wildcard = False, ms_types = []\<rparr>, an) = Inr (ms, an1)"
    and exhaustive: "check_exhaustive ty sp ms an1 = Inr ()"
    by (auto simp: check_match_def and_then_eq_Inr)
  have "an1 = an"
    using each_visits [OF each, of "\<lambda>_. True"] arm_visits by blast
  have "records ty ([] @ arms) ms"
    using each by (rule arms_record) (simp add: records_def covers_def)
  then have rec: "ms_wildcard ms \<Longrightarrow> catch_all_in arms"
    "\<And>w. w \<in> ms_seen ms \<Longrightarrow> \<exists>en. matches_enum ty en \<and> covers arms en w" "matches_enum ty en"
    using assms(2) by (auto simp: records_def)
  have same: "e = en" if "matches_enum ty e" for e
    using that rec(3) by (cases ty) auto
  have "w \<in> ms_seen ms" if "w \<in> variants_of (an_enums an) en" "\<not> ms_wildcard ms" for w
    using exhaustive that rec(3) \<open>an1 = an\<close>
    by (cases ty) (auto simp: check_exhaustive_def variants_of_def Let_def filter_empty_conv
        split: option.splits if_splits)
  then show ?thesis using rec(1,2) same by metis
qed

section \<open>A sample program\<close>

text \<open>
  Two functions with a loop, a match, a recursive call and a \<open>try\<close>, on which the rules below
  are tried: \<open>fn f(x: i32) -> i32 { let mut n: i32 = x; while true { break; } n = 1;
  match Color::Red() { Color::Red() => 7, Color::Green() => f(n) } }\<close> and
  \<open>fn h() -> Result<i32, str> { Result::Ok(try h()) }\<close>.
\<close>

abbreviation pos :: span where "pos \<equiv> Span 1 1"

definition sample_match :: expr where
  "sample_match =
     EMatch (EEnumConstructor ''Color'' ''Red'' [] pos)
       [MatchArm (PEnum ''Color'' ''Red'' [] pos) (EIntLit 7 pos) pos,
        MatchArm (PEnum ''Color'' ''Green'' [] pos) (ECall (EIdent ''f'' pos) [EIdent ''n'' pos] pos) pos] pos"

definition sample_f :: fn_decl where
  "sample_f =
     \<lparr>fn_name = ''f'', fn_params = [\<lparr>p_name = ''x'', p_ty = TyPrimitive PrimI32 pos, p_span = pos\<rparr>],
      fn_return_type = Some (TyPrimitive PrimI32 pos),
      fn_body = Block
        [SLet ''n'' True (TyPrimitive PrimI32 pos) (EIdent ''x'' pos) pos,
         SWhile (EBoolLit True pos) (Block [SBreak pos] None pos) pos,
         SAssign (Place ''n'' [] pos) (EIntLit 1 pos) pos]
        (Some sample_match) pos,
      fn_is_pure = True, fn_span = pos\<rparr>"

definition sample_h :: fn_decl where
  "sample_h =
     \<lparr>fn_name = ''h'', fn_params = [],
      fn_return_type = Some (TyResult (TyPrimitive PrimI32 pos) (TyPrimitive PrimStr pos) pos),
      fn_body = Block []
        (Some (EEnumConstructor ''Result'' ''Ok'' [ETry (ECall (EIdent ''h'' pos) [] pos) pos] pos)) pos,
      fn_is_pure = True, fn_span = pos\<rparr>"

definition sample :: program where
  "sample =
     \<lparr>decls =
        [DEnum \<lparr>e_name = ''Color'',
           e_variants =
             [\<lparr>v_name = ''Red'', v_payload_types = [], v_span = pos\<rparr>,
              \<lparr>v_name = ''Green'', v_payload_types = [], v_span = pos\<rparr>], e_span = pos\<rparr>,
         DFn sample_f, DFn sample_h]\<rparr>"

definition sample_info :: semantic_info where
  "sample_info =
     \<lparr>sem_structs = Map.empty,
      sem_enums = [''Color'' \<mapsto> \<lparr>ei_variants = [(''Red'', []), (''Green'', [])]\<rparr>],
      sem_functions = register_builtins
        (''f'' \<mapsto> \<lparr>fi_params = [(''x'', BcI32)], fi_return_type = BcI32, fi_is_pure = True, fi_is_extern = False\<rparr>,
         ''h'' \<mapsto> \<lparr>fi_params = [], fi_return_type = BcResult BcI32 BcStr, fi_is_pure = True, fi_is_extern = False\<rparr>),
      sem_constants = Map.empty\<rparr>"

lemma sample_names [simp]:
  "register_builtins ''f'' = None" "register_builtins ''h'' = None"
  "resolve_with_alias ''f'' = None" "resolve_with_alias ''h'' = None"
  "resolve_with_alias ''n'' = None"
  by code_simp+

lemmas sample_checks =
  check_block_def check_let_def check_while_def check_assign_def check_place_def assignable_def
  check_match_def check_arm_def check_exhaustive_def check_enum_constructor_def
  check_result_constructor_def check_result_payload_def check_try_def check_call_def
  check_function_call_def check_pattern_compat_def bind_pattern_vars_def ident_type_def
  int_literal_type_def i32_min_def i32_max_def add_binding_def lookup_var_def ok_or_def
  reject_reserved_collection_name_def types_compatible_def join_compatible_types_def with_arg_def
  infer_result_type_def push_scope_def pop_scope_def enter_loop_def leave_loop_def

lemma sample_accepted: "analyze sample = Inr sample_info"
  by (simp add: sample_def sample_f_def sample_h_def sample_match_def analyze_def analyzer_new_def
      collect_enum_def collect_fn_def collect_signature_def resolve_params_def resolve_return_def
      check_fn_def bind_param_def sample_checks sample_info_def)

lemma sample_in_body:
  "in_body sample_f 1 (NStmt (SBreak pos))"
  "in_body sample_f 0 (NStmt (SLet ''n'' True (TyPrimitive PrimI32 pos) (EIdent ''x'' pos) pos))"
  "in_body sample_f 0 (NStmt (SAssign (Place ''n'' [] pos) (EIntLit 1 pos) pos))"
  "in_body sample_f 0 (NExpr sample_match)"
  "in_body sample_f 0 (NExpr (ECall (EIdent ''f'' pos) [EIdent ''n'' pos] pos))"
  "in_body sample_f 0 (NExpr (EIntLit 7 pos))"
  "in_body sample_h 0 (NExpr (ETry (ECall (EIdent ''h'' pos) [] pos) pos))"
proof -
  have step: "in_body f (d + k) c" if "in_body f d m" "(k, c) \<in> set (children m)" for f d m k c
    using that by (auto simp: in_body_def intro: inside.below)
  have top: "in_body f 0 n" if "n \<in> set (block_nodes (fn_body f))" for f n
    using that by (auto simp: in_body_def intro: inside.here)
  have loop: "in_body sample_f 0 (NStmt (SWhile (EBoolLit True pos) (Block [SBreak pos] None pos) pos))"
    by (rule top) (simp add: sample_f_def block_nodes_def)
  show "in_body sample_f 1 (NStmt (SBreak pos))"
    using step [OF loop, of 1 "NStmt (SBreak pos)"] by (simp add: block_nodes_def)
  show "in_body sample_f 0 (NStmt (SLet ''n'' True (TyPrimitive PrimI32 pos) (EIdent ''x'' pos) pos))"
    "in_body sample_f 0 (NStmt (SAssign (Place ''n'' [] pos) (EIntLit 1 pos) pos))"
    by (rule top; simp add: sample_f_def block_nodes_def)+
  show match: "in_body sample_f 0 (NExpr sample_match)"
    by (rule top) (simp add: sample_f_def block_nodes_def)
  show "in_body sample_f 0 (NExpr (ECall (EIdent ''f'' pos) [EIdent ''n'' pos] pos))"
    "in_body sample_f 0 (NExpr (EIntLit 7 pos))"
    using step [OF match, of 0] by (simp_all add: sample_match_def)
  have "in_body sample_h 0 (NExpr (EEnumConstructor ''Result'' ''Ok'' [ETry (ECall (EIdent ''h'' pos) [] pos) pos] pos))"
    by (rule top) (simp add: sample_h_def block_nodes_def)
  from step [OF this, of 0] show "in_body sample_h 0 (NExpr (ETry (ECall (EIdent ''h'' pos) [] pos) pos))"
    by simp
qed

lemma sample_decls [simp]: "DFn sample_f \<in> set (decls sample)" "DFn sample_h \<in> set (decls sample)"
  by (simp_all add: sample_def)

definition disjoint_scopes :: "analyzer \<Rightarrow> bool" where
  "disjoint_scopes an \<longleftrightarrow> sorted_wrt (\<lambda>s t. dom s \<inter> dom t = {}) (an_scopes an)"

lemma node_stateD:
  "node_state info f d an \<Longrightarrow> an_loop_depth an = d"
  "node_state info f d an \<Longrightarrow> an_in_pure_fn an = fn_is_pure f"
  "node_state info f d an \<Longrightarrow> an_functions an = sem_functions info"
  "node_state info f d an \<Longrightarrow> an_enums an = sem_enums info"
  "node_state info f d an \<Longrightarrow> scope_names an \<subseteq> locals_of f"
  "node_state info f d an \<Longrightarrow> p_name ` set (fn_params f) \<subseteq> immutable_names an"
  by (simp_all add: node_state_def)

section \<open>The rules\<close>

text \<open>
  C20. Jumps stay inside loops: in an accepted program no \<open>break\<close> and no \<open>continue\<close> occurs in
  a function body outside of every loop of that function.
\<close>

theorem jumps_inside_loops:
  "analyze prog = Inr info \<Longrightarrow> DFn f \<in> set (decls prog) \<Longrightarrow>
     \<not> in_body f 0 (NStmt (SBreak sp)) \<and> \<not> in_body f 0 (NStmt (SContinue sp))"
  using accepted_nodes [of prog info f 0] jump_in_loop node_stateD(1) by metis

lemma jumps_inside_loops_witness:
  "\<not> in_body sample_f 0 (NStmt (SBreak pos)) \<and> \<not> in_body sample_f 0 (NStmt (SContinue pos))"
  by (rule jumps_inside_loops [OF sample_accepted]) simp

text \<open>
  C18. Purity of calls: every call in the body of an accepted pure function names its callee,
  and the callee is a pure collection operation, \<open>len\<close>, a pure function that is not extern, or
  a variable of the function; never \<open>push\<close>, \<open>pop\<close> or a mutating collection operation.
\<close>

theorem pure_functions_call_pure:
  "analyze prog = Inr info \<Longrightarrow> DFn f \<in> set (decls prog) \<Longrightarrow> fn_is_pure f \<Longrightarrow>
   in_body f d (NExpr (ECall callee args sp)) \<Longrightarrow>
     \<exists>name nsp. callee = EIdent name nsp \<and> pure_callee (sem_functions info) (locals_of f) name"
proof -
  assume *: "analyze prog = Inr info" "DFn f \<in> set (decls prog)" "fn_is_pure f"
    "in_body f d (NExpr (ECall callee args sp))"
  obtain an where an: "visited an (NExpr (ECall callee args sp))" "node_state info f d an"
    using accepted_nodes [OF *(1,2,4)] by blast
  with call_pure [OF an(1)] *(3) show ?thesis
    by (fastforce simp: node_state_def pure_callee_def split: option.splits)
qed

lemma pure_functions_call_pure_witness:
  "\<exists>name nsp. EIdent ''f'' pos = EIdent name nsp \<and>
     pure_callee (sem_functions sample_info) (locals_of sample_f) name"
  by (rule pure_functions_call_pure [OF sample_accepted sample_decls(1) _ sample_in_body(5)])
    (simp add: sample_f_def)

text \<open>
  C21. A pure function neither defers a call nor opens an arena, at any depth of its body.
\<close>

theorem pure_functions_effect_free:
  "analyze prog = Inr info \<Longrightarrow> DFn f \<in> set (decls prog) \<Longrightarrow> fn_is_pure f \<Longrightarrow>
     \<not> in_body f d (NStmt (SDefer e sp)) \<and> \<not> in_body f d (NExpr (EArena block sp))"
  using accepted_nodes [of prog info f d] effect_free node_stateD(2) by metis

lemma pure_functions_effect_free_witness:
  "\<not> in_body sample_h 0 (NStmt (SDefer (EIntLit 1 pos) pos)) \<and>
   \<not> in_body sample_h 0 (NExpr (EArena (Block [] None pos) pos))"
  by (rule pure_functions_effect_free [OF sample_accepted sample_decls(2)]) (simp add: sample_h_def)

text \<open>
  C19. Matches are exhaustive: when an arm of a match in an accepted program, in the body of a
  function or in the value of a constant, names a variant of an enum (or of \<open>Result\<close>), then
  there is a catch-all arm or an arm for every variant of it.
\<close>

theorem matches_exhaustive:
  "analyze prog = Inr info \<Longrightarrow> in_program prog d (NExpr (EMatch scrut arms sp)) \<Longrightarrow> covers arms en v \<Longrightarrow>
     catch_all_in arms \<or> (\<forall>w \<in> variants_of (sem_enums info) en. covers arms en w)"
  using program_nodes [of prog info d "NExpr (EMatch scrut arms sp)"] match_exhaustive by metis

lemma matches_exhaustive_witness:
  "let arms = [MatchArm (PEnum ''Color'' ''Red'' [] pos) (EIntLit 7 pos) pos,
        MatchArm (PEnum ''Color'' ''Green'' [] pos) (ECall (EIdent ''f'' pos) [EIdent ''n'' pos] pos) pos]
   in covers arms ''Color'' ''Red'' \<and> covers arms ''Color'' ''Green'' \<and> \<not> catch_all_in arms"
  using matches_exhaustive [OF sample_accepted in_programI(1) [OF sample_decls(1)
        sample_in_body(4) [unfolded sample_match_def]], of "''Color''" "''Red''"]
  by (auto simp: covers_def catch_all_in_def sample_info_def variants_of_def Let_def)

text \<open>
  C22. The error of a \<open>try\<close> has where to go: in an accepted program no \<open>try\<close> occurs in the value
  of a constant, and every function with a \<open>try\<close> in its body, at any depth, has a declared
  return type that resolves to a \<open>Result\<close>.
\<close>

theorem try_inside_result:
  "analyze prog = Inr info \<Longrightarrow> in_program prog d (NExpr (ETry e sp)) \<Longrightarrow>
     (\<exists>f. DFn f \<in> set (decls prog) \<and> in_body f d (NExpr (ETry e sp))) \<and>
     (\<forall>l. DLet l \<in> set (decls prog) \<longrightarrow> \<not> in_constant l d (NExpr (ETry e sp))) \<and>
     (\<forall>f. DFn f \<in> set (decls prog) \<longrightarrow> in_body f d (NExpr (ETry e sp)) \<longrightarrow>
        (\<exists>a b. resolve_return (info_analyzer info) (fn_return_type f) = Inr (BcResult a b)))"
proof -
  assume *: "analyze prog = Inr info" "in_program prog d (NExpr (ETry e sp))"
  have let_free: "\<not> in_constant l d (NExpr (ETry e sp))" if "DLet l \<in> set (decls prog)" for l
    using accepted_constants [OF *(1) that, of d "NExpr (ETry e sp)"] try_in_result by fastforce
  moreover have "\<exists>a b. resolve_return (info_analyzer info) (fn_return_type f) = Inr (BcResult a b)"
    if "DFn f \<in> set (decls prog)" "in_body f d (NExpr (ETry e sp))" for f
    using accepted_nodes [OF *(1) that] try_in_result by (fastforce simp: node_state_def)
  ultimately show ?thesis using *(2) by (auto simp: in_program_def)
qed

lemma try_inside_result_witness:
  "(\<exists>a b. resolve_return (info_analyzer sample_info) (fn_return_type sample_h) = Inr (BcResult a b)) \<and>
   \<not> in_body sample_f 0 (NExpr (ETry (ECall (EIdent ''h'' pos) [] pos) pos))"
  using try_inside_result [OF sample_accepted in_programI(1) [OF sample_decls(2) sample_in_body(7)]]
    sample_decls sample_in_body(7)
  by (auto simp: sample_f_def resolve_return_def)

text \<open>
  C26. Integer literals fit: every literal that stands as an expression in an accepted program,
  in the body of a function or in the value of a constant, is a 32-bit signed integer, although
  the lexer reads up to 64 bits. (A literal in a pattern is not an expression and may be larger.)
\<close>

theorem literals_in_range:
  "analyze prog = Inr info \<Longrightarrow> in_program prog d (NExpr (EIntLit v sp)) \<Longrightarrow> - (2 ^ 31) \<le> v \<and> v < 2 ^ 31"
  using program_nodes [of prog info d "NExpr (EIntLit v sp)"] literal_range by blast

lemma literals_in_range_witness: "- (2 ^ 31) \<le> (7 :: int) \<and> (7 :: int) < 2 ^ 31"
  by (rule literals_in_range [OF sample_accepted in_programI(1) [OF sample_decls(1) sample_in_body(6)]])

text \<open>An integer in a pattern is compared with the type only.\<close>

lemma pattern_literals_unchecked:
  "check_pattern_compat an (PIntLit v psp) BcI32 seen sp = Inr seen"
  by (simp add: check_pattern_compat_def is_integer_def)

text \<open>
  C24. No parameter is shadowed: no \<open>let\<close> and no loop variable, however deeply nested, has the
  name of a parameter of its function.
\<close>

theorem parameters_not_shadowed:
  "analyze prog = Inr info \<Longrightarrow> DFn f \<in> set (decls prog) \<Longrightarrow> in_body f d (NStmt s) \<Longrightarrow>
     binders (NStmt s) \<inter> p_name ` set (fn_params f) = {}"
proof -
  assume *: "analyze prog = Inr info" "DFn f \<in> set (decls prog)" "in_body f d (NStmt s)"
  obtain an where an: "visited an (NStmt s)" "node_state info f d an"
    using accepted_nodes [OF *] by blast
  have "immutable_names an \<subseteq> scope_names an" by (auto simp: immutable_names_def scope_names_def)
  with let_fresh [OF an(1)] node_stateD(6) [OF an(2)] show ?thesis by blast
qed

lemma parameters_not_shadowed_witness: "{''n''} \<inter> {''x''} = ({} :: string set)"
  using parameters_not_shadowed [OF sample_accepted sample_decls(1) sample_in_body(2)] by (simp add: sample_f_def)

text \<open>
  C25. Parameters are not assigned to: an assignment or compound assignment whose target is not
  indexed never has a parameter as its variable.
\<close>

theorem parameters_not_assigned:
  "analyze prog = Inr info \<Longrightarrow> DFn f \<in> set (decls prog) \<Longrightarrow>
   in_body f d (NStmt (SAssign target v sp)) \<or> in_body f d (NStmt (SCompoundAssign target op' v sp)) \<Longrightarrow>
   \<not> list_ex is_index (pl_accessors target) \<Longrightarrow> pl_name target \<notin> p_name ` set (fn_params f)"
proof -
  assume *: "analyze prog = Inr info" "DFn f \<in> set (decls prog)"
    "in_body f d (NStmt (SAssign target v sp)) \<or> in_body f d (NStmt (SCompoundAssign target op' v sp))"
    "\<not> list_ex is_index (pl_accessors target)"
  obtain an where
    "visited an (NStmt (SAssign target v sp)) \<or> visited an (NStmt (SCompoundAssign target op' v sp))"
    "node_state info f d an"
    using *(3) accepted_nodes [OF *(1,2)] by blast
  with assign_mutable [OF this(1) *(4)] show ?thesis using node_stateD(6) by blast
qed

lemma parameters_not_assigned_witness: "pl_name (Place ''n'' [] pos) \<notin> p_name ` set (fn_params sample_f)"
  by (rule parameters_not_assigned [OF sample_accepted sample_decls(1) disjI1 [OF sample_in_body(3)]]) simp

text \<open>
  C23. One binding per name: the scopes that are open stay pairwise disjoint whatever statement
  is checked, so the binding that a name denotes never depends on the order of the lookup.
\<close>

theorem scopes_stay_disjoint:
  "check_stmt s an = Inr an' \<Longrightarrow> disjoint_scopes an \<Longrightarrow> disjoint_scopes an'"
  by (erule check_stmt_cases)
    (auto simp: disjoint_scopes_def add_binding_Inr scope_names_def lookup_var_def lookup_scopes_None domIff)

lemma scopes_stay_disjoint_witness:
  "disjoint_scopes
     (analyzer_new\<lparr>an_scopes := [[''n'' \<mapsto> \<lparr>bi_ty = BcBool, bi_is_mut = True\<rparr>], [''f'' \<mapsto> \<lparr>bi_ty = BcI32, bi_is_mut = False\<rparr>]]\<rparr>)"
  by (rule scopes_stay_disjoint [of "SLet ''n'' True (TyPrimitive PrimBool pos) (EBoolLit True pos) pos"
        "analyzer_new\<lparr>an_scopes := [Map.empty, [''f'' \<mapsto> \<lparr>bi_ty = BcI32, bi_is_mut = False\<rparr>]]\<rparr>"])
    (simp_all add: sample_checks analyzer_new_def disjoint_scopes_def)

end
