(* ===== verification/Compile.thy ===== *)
theory Compile
  imports FrontEnd Rules LowerProgram Imports
begin

text \<open>
  The driver from the source text to the verified intermediate representation, as \<open>main\<close> of
  \<open>src/src/main.rs\<close> runs it: the front end, lowering, and the verifier whose findings are
  reported as internal compiler errors. The theorems say which accepted programs reach the
  code generators.
\<close>

section \<open>The driver\<close>

datatype stop =
    NotImported import_failure
  | Failed failure
  | InternalErrors "ir_error list"

definition lower_verified :: "program \<Rightarrow> semantic_info \<Rightarrow> stop + ir_program" where
  "lower_verified prog info =
     (case lower_program prog info of
        Inl f \<Rightarrow> Inl (Failed f)
      | Inr p \<Rightarrow> (case verify p of Inl errors \<Rightarrow> Inl (InternalErrors errors) | Inr _ \<Rightarrow> Inr p))"

definition compile_ir :: "rstring \<Rightarrow> rchar list \<Rightarrow> stop + ir_program" where
  "compile_ir path src =
     (case front_end path src of
        Inl f \<Rightarrow> Inl (Failed f)
      | Inr (prog, info) \<Rightarrow> lower_verified prog info)"

text \<open>
  The whole way from a file: its imports are flattened and the namespaces resolved before the
  text is compiled. The errors name the path of the root file.
\<close>

definition compile_file ::
  "nat \<Rightarrow> bool \<Rightarrow> file_system \<Rightarrow> rstring \<Rightarrow> stop + (ir_program \<times> source_map)" where
  "compile_file n windows fs path =
     (case flatten n windows fs path of
        Inl e \<Rightarrow> Inl (NotImported e)
      | Inr (flat, m) \<Rightarrow> and_then (compile_ir path flat) (\<lambda>p. Inr (p, m)))"

lemma compile_ir_front_end:
  "front_end path src = Inr (prog, info) \<Longrightarrow> compile_ir path src = lower_verified prog info"
  by (simp add: compile_ir_def)

section \<open>Programs that reach the code generators\<close>

text \<open>
  C7. An accepted program is lowered without a panic, and the verifier finds nothing in the
  result, under two conditions. First (\<open>ok_decl\<close>, on the syntax of every function body and of
  every constant): \<open>pop\<close> is not called, every callee is a name, a value is returned only in a
  function, and each array literal and each \<open>Result\<close> constructor stands at a position where the
  expected types of the checker and of lowering agree, as \<open>ok_expr\<close> tabulates them (as an
  initializer, an assigned or returned value, an argument, a field or a payload, or in the value
  of one of these). Secondly (\<open>names_apart\<close>): no function of the program is named \<open>len\<close> or
  \<open>push\<close>, and no constant of a function pointer type has the name of a function.
\<close>

theorem accepted_reaches_backend:
  "analyze prog = Inr info \<Longrightarrow> list_all ok_decl (decls prog) \<Longrightarrow> names_apart info \<Longrightarrow>
     \<exists>p. lower_program prog info = Inr p \<and> verify p = Inr () \<and> lower_verified prog info = Inr p"
  using lower_accepted [of prog info] by (fastforce simp: lower_verified_def)

lemma sample_names_apart: "names_apart sample_info"
  by (simp add: names_apart_def sample_info_def) code_simp

lemma sample_ok: "list_all ok_decl (decls sample)"
  by (simp add: sample_def sample_f_def sample_h_def sample_match_def argument_flags_def sets_anew_def)

lemma accepted_reaches_backend_witness:
  "\<exists>p. lower_program sample sample_info = Inr p \<and> verify p = Inr () \<and> lower_verified sample sample_info = Inr p"
  by (rule accepted_reaches_backend [OF sample_accepted sample_ok sample_names_apart])

text \<open>
  C8. The types that lowering caches are the checker's. Take a state of the checker and a state
  of lowering that agree (\<open>related\<close>: the same tables, the same variables in scope with the same
  types, the same return type), tables whose names are told apart (\<open>suits\<close>, with \<open>names_apart\<close>
  as in the previous claim), an expected type that is declared, and flags that describe how the
  expected types of the two states agree (\<open>fits\<close>). An accepted expression in which \<open>pop\<close> is not
  called, callees are names, and array literals and \<open>Result\<close> constructors stand where the flags
  allow them (\<open>ok_expr\<close>) is lowered to a tree that carries the type the checker computed, that
  the verifier accepts at the depth of the loops, and that leaves the state of lowering as it was.
\<close>

theorem lowered_types:
  "suits p info \<Longrightarrow> related info an lw \<Longrightarrow> wf_expected an ex \<Longrightarrow> fits f c a r ex an lw \<Longrightarrow>
     ok_expr f c a r e \<Longrightarrow> check_expr e ex an = Inr (ty, an') \<Longrightarrow>
     \<exists>v. lower_expr info e lw = Inr (v, lw) \<and> ir_ty v = ty \<and> verify_expr p ctx (an_loop_depth an) v = []"
  using agreesD [OF all_agree(1)] rely_verifies(1) unfolding lowers_def by blast

abbreviation builtin_state :: analyzer where
  "builtin_state \<equiv> analyzer_new\<lparr>an_functions := register_builtins\<rparr>"

lemma names_apart_builtin: "names_apart (info_of builtin_state)"
  by (simp add: names_apart_def info_of_def analyzer_new_def) code_simp

lemma lowered_types_witness:
  "\<exists>v. lower_expr (info_of builtin_state)
         (EBinaryOp OpLt (EIntLit 1 pos) (EIntLit 2 pos) pos) lowering_start = Inr (v, lowering_start) \<and>
     ir_ty v = BcBool \<and>
     verify_expr \<lparr>ip_structs = Map.empty, ip_enums = Map.empty, ip_functions = register_builtins,
       ip_constants = Map.empty, ip_struct_defs = [], ip_enum_defs = [], ip_extern_blocks = [],
       ip_const_defs = [], ip_fn_defs = []\<rparr> ''f'' (an_loop_depth builtin_state) v = []"
  by (rule lowered_types [where f = False and c = True and a = True and r = False,
        OF _ related_start [OF collected_new refl] _ _ _ , where ex = None])
    (use names_apart_builtin in \<open>simp_all add: suits_def info_of_def analyzer_new_def fits_def
        lowering_start_def array_part_def int_literal_type_def i32_min_def i32_max_def
        comparison_type_def is_numeric_def\<close>)

text \<open>
  The expected type never changes the join of two types: the checker, which passes the
  expected type of a \<open>match\<close> or an \<open>if\<close>, and lowering, which passes none, agree.
\<close>

theorem join_agrees: "compatible_join a b ex = compatible_join a b ex'"
  by (metis compatible_join_expected)

section \<open>Accepted programs that do not reach the code generators\<close>

text \<open>
  \<open>fn f() -> Result<bool, str> { Result::Ok(true) }\<close> and
  \<open>fn g(c: bool) -> Result<bool, str> { let r: Result<i32, str> =
  { if c { Result::Ok(true) } else { f() }; Result::Ok(3) }; Result::Ok(true) }\<close>: the inner
  \<open>if\<close> is a statement, which the checker checks without an expected type.
\<close>

abbreviation ok_of :: "expr \<Rightarrow> expr" where
  "ok_of e \<equiv> EEnumConstructor ''Result'' ''Ok'' [e] pos"

definition nested :: program where
  "nested =
     \<lparr>decls =
        [DFn \<lparr>fn_name = ''f'', fn_params = [],
           fn_return_type = Some (TyResult (TyPrimitive PrimBool pos) (TyPrimitive PrimStr pos) pos),
           fn_body = Block [] (Some (ok_of (EBoolLit True pos))) pos, fn_is_pure = False, fn_span = pos\<rparr>,
         DFn \<lparr>fn_name = ''g'', fn_params = [\<lparr>p_name = ''c'', p_ty = TyPrimitive PrimBool pos, p_span = pos\<rparr>],
           fn_return_type = Some (TyResult (TyPrimitive PrimBool pos) (TyPrimitive PrimStr pos) pos),
           fn_body = Block
             [SLet ''r'' False (TyResult (TyPrimitive PrimI32 pos) (TyPrimitive PrimStr pos) pos)
                (EBlock (Block
                  [SExpr (EIf (EIdent ''c'' pos) (Block [] (Some (ok_of (EBoolLit True pos))) pos)
                     (Some (EBlock (Block [] (Some (ECall (EIdent ''f'' pos) [] pos)) pos))) pos) pos]
                  (Some (ok_of (EIntLit 3 pos))) pos)) pos]
             (Some (ok_of (EBoolLit True pos))) pos,
           fn_is_pure = False, fn_span = pos\<rparr>]\<rparr>"

definition nested_info :: semantic_info where
  "nested_info =
     \<lparr>sem_structs = Map.empty, sem_enums = Map.empty,
      sem_functions = register_builtins
        (''f'' \<mapsto> \<lparr>fi_params = [], fi_return_type = BcResult BcBool BcStr, fi_is_pure = False, fi_is_extern = False\<rparr>,
         ''g'' \<mapsto> \<lparr>fi_params = [(''c'', BcBool)], fi_return_type = BcResult BcBool BcStr, fi_is_pure = False,
            fi_is_extern = False\<rparr>),
      sem_constants = Map.empty\<rparr>"

lemma nested_names [simp]:
  "register_builtins ''g'' = None" "resolve_with_alias ''g'' = None" "resolve_with_alias ''c'' = None"
  "resolve_with_alias ''r'' = None"
  by code_simp+

lemma nested_accepted: "analyze nested = Inr nested_info"
  by (simp add: nested_def analyze_def analyzer_new_def collect_fn_def collect_signature_def
      resolve_params_def resolve_return_def check_fn_def bind_param_def sample_checks check_if_def nested_info_def)

lemmas lowering_steps =
  lower_program_def lower_decl_def lower_fn_def Let_def lowering_start_def lw_push_scope_def lw_pop_scope_def
  lw_insert_def lookup_type_def lower_return_type_def lower_params_def with_expected_def push_expected_type_def
  pop_expected_type_def result_context_def payload_types_def constructor_type_def lower_ident_def
  lower_if_type_def resolve_callee_def declared_params_def param_types_for_def call_result_type_def

text \<open>
  An accepted program can make lowering panic: a \<open>Result\<close> constructor below an
  initializer, but not in its value, takes the type of the initializer's declaration, and the
  branches of the \<open>if\<close> around it then have no common type.
\<close>

lemma nested_result_panics:
  "analyze nested = Inr nested_info \<and> lower_program nested nested_info = Inl Panicked"
  by (simp add: nested_accepted) (simp add: nested_def nested_info_def lowering_steps compatible_join_def
      is_compatible_with_iff)

text \<open>
  \<open>fn f() -> Result<i32, str> { let mut a: [Result<i32, str>] = [Result::Ok(1)];
  Result::Ok(try pop(a)) }\<close>: lowering has no result type for \<open>pop\<close>.
\<close>

abbreviation i32_or_str :: ast_type where
  "i32_or_str \<equiv> TyResult (TyPrimitive PrimI32 pos) (TyPrimitive PrimStr pos) pos"

definition popping :: program where
  "popping =
     \<lparr>decls =
        [DFn \<lparr>fn_name = ''f'', fn_params = [], fn_return_type = Some i32_or_str,
           fn_body = Block
             [SLet ''a'' True (TyDynamicArray i32_or_str pos) (EArrayLit [ok_of (EIntLit 1 pos)] pos) pos]
             (Some (ok_of (ETry (ECall (EIdent ''pop'' pos) [EIdent ''a'' pos] pos) pos))) pos,
           fn_is_pure = False, fn_span = pos\<rparr>]\<rparr>"

definition popping_info :: semantic_info where
  "popping_info =
     \<lparr>sem_structs = Map.empty, sem_enums = Map.empty,
      sem_functions = register_builtins
        (''f'' \<mapsto> \<lparr>fi_params = [], fi_return_type = BcResult BcI32 BcStr, fi_is_pure = False, fi_is_extern = False\<rparr>),
      sem_constants = Map.empty\<rparr>"

lemma popping_names [simp]:
  "resolve_with_alias ''a'' = None" "resolve_with_alias ''pop'' = None" "register_builtins ''pop'' = None"
  by code_simp+

lemma popping_accepted: "analyze popping = Inr popping_info"
  by (simp add: popping_def analyze_def analyzer_new_def collect_fn_def collect_signature_def
      resolve_params_def resolve_return_def check_fn_def bind_param_def sample_checks check_pop_def check_array_lit_def
      require_mutable_collection_target_def popping_info_def)

text \<open>
  An accepted program can fail the verifier: the value that \<open>pop\<close> returns has the unit
  type after lowering, so a \<open>try\<close> of it is reported as an internal compiler error.
\<close>

lemma popped_result_internal_error:
  "analyze popping = Inr popping_info \<and>
   lower_verified popping popping_info = Inl (InternalErrors [(''f'', TryNonResult BcUnit)])"
  by (simp add: popping_accepted) (simp add: popping_def popping_info_def lowering_steps lower_verified_def
      verify_def verify_all_def verify_fn_def filled_array_def verify_try_def verify_array_def verify_callee_def lower_try_type_def is_compatible_with_iff)

end
