(* ===== verification/CLayout.thy ===== *)
theory CLayout
  imports LayoutFuel Compile
begin

text \<open>
  The layout rules of C without a bound on the sizes, and what \<open>Layout\<close> has of them:
  alignments are 1, 4 or 8, sizes and offsets are those of C as long as they fit into 32
  bits, and the fields of a struct do not overlap.
\<close>

section \<open>The layout rules of C\<close>

text \<open>
  Sizes and alignments as natural numbers: a member stands at the next multiple of its
  alignment, and the whole is padded to a multiple of the greatest alignment.
\<close>

definition c_round :: "nat \<Rightarrow> nat \<Rightarrow> nat" where
  "c_round n align = (n + align - 1) div align * align"

fun c_members :: "nat \<times> nat \<Rightarrow> (nat \<times> nat) list \<Rightarrow> nat list \<times> (nat \<times> nat)" where
  "c_members (n, align) [] = ([], (n, align))"
| "c_members (n, align) ((m, a) # ms) =
     (c_round n a # fst (c_members (c_round n a + m, max align a) ms),
      snd (c_members (c_round n a + m, max align a) ms))"

definition c_finish :: "nat \<times> nat \<Rightarrow> nat \<times> nat" where
  "c_finish l = (c_round (fst l) (snd l), snd l)"

definition c_struct :: "(nat \<times> nat) list \<Rightarrow> nat list \<times> (nat \<times> nat)" where
  "c_struct ms = (case c_members (0, 1) ms of (offs, whole) \<Rightarrow> (offs, c_finish whole))"

definition c_union :: "(nat \<times> nat) list \<Rightarrow> nat \<times> nat" where
  "c_union ms = (foldr max (map fst ms) 0, foldr max (map snd ms) 1)"

lemma c_round_ge: "0 < a \<Longrightarrow> n \<le> c_round n a"
  using div_mult_mod_eq [of "n + a - 1" a] mod_less_divisor [of a "n + a - 1"] unfolding c_round_def by linarith

lemma c_round_dvd [simp]: "a dvd c_round n a"
  by (simp add: c_round_def)

lemma c_round_least: "0 < a \<Longrightarrow> a dvd m \<Longrightarrow> n \<le> m \<Longrightarrow> c_round n a \<le> m"
proof -
  assume "0 < a" "a dvd m" "n \<le> m"
  then obtain k where "m = a * k" by auto
  with \<open>0 < a\<close> \<open>n \<le> m\<close> have "(n + a - 1) div a \<le> k"
    by (intro less_Suc_eq_le [THEN iffD1] less_mult_imp_div_less) (auto simp: algebra_simps)
  with \<open>m = a * k\<close> show "c_round n a \<le> m" by (simp add: c_round_def mult.commute)
qed

lemma c_members_ge: "\<forall>m \<in> set ms. 0 < snd m \<Longrightarrow> fst l \<le> fst (snd (c_members l ms))"
proof (induction l ms rule: c_members.induct)
  case (2 n align m a ms)
  moreover have "n \<le> c_round n a" using 2 c_round_ge by simp
  ultimately have "c_round n a + m \<le> fst (snd (c_members (c_round n a + m, max align a) ms))" by simp
  with \<open>n \<le> c_round n a\<close> show ?case by simp
qed simp

text \<open>
  The members stand one after the other: each at a multiple of its alignment, at or after the
  end of the previous one, and all of them within the whole.
\<close>

fun in_order :: "nat \<Rightarrow> nat list \<Rightarrow> (nat \<times> nat) list \<Rightarrow> nat \<Rightarrow> bool" where
  "in_order from [] [] whole \<longleftrightarrow> from \<le> whole"
| "in_order from (off # offs) ((m, a) # ms) whole \<longleftrightarrow>
     from \<le> off \<and> a dvd off \<and> in_order (off + m) offs ms whole"
| "in_order _ _ _ _ \<longleftrightarrow> False"

lemma c_members_in_order:
  "\<forall>m \<in> set ms. 0 < snd m \<Longrightarrow> fst (snd (c_members l ms)) \<le> e \<Longrightarrow> in_order (fst l) (fst (c_members l ms)) ms e"
proof (induction l ms rule: c_members.induct)
  case (2 n align m a ms)
  moreover have "n \<le> c_round n a" using 2 c_round_ge by simp
  ultimately show ?case by simp
qed simp

text \<open>The layout of a type by these rules, with the same fuel.\<close>

definition c_variant :: "(bc_type \<Rightarrow> (nat \<times> nat) option) \<Rightarrow> bc_type list \<Rightarrow> (nat \<times> nat) option" where
  "c_variant lay tys = map_option (\<lambda>ms. snd (c_struct ms)) (those (map lay tys))"

fun c_layout :: "nat \<Rightarrow> ir_program \<Rightarrow> bc_type \<Rightarrow> (nat \<times> nat) option" where
  "c_layout 0 p ty = None"
| "c_layout (Suc n) p ty =
     (case ty of
        BcUnit \<Rightarrow> Some (0, 1)
      | BcI32 \<Rightarrow> Some (4, 4)
      | BcBool \<Rightarrow> Some (1, 1)
      | BcStr \<Rightarrow> Some (snd (c_struct [(8, 8), (4, 4)]))
      | BcStruct name \<Rightarrow>
          (case ip_structs p name of
             None \<Rightarrow> Some (0, 1)
           | Some info \<Rightarrow> c_variant (c_layout n p) (map snd (si_fields info)))
      | BcEnum name \<Rightarrow>
          (case ip_enums p name of
             None \<Rightarrow> Some (4, 4)
           | Some info \<Rightarrow>
               if list_all (\<lambda>v. snd v = []) (ei_variants info) then Some (4, 4)
               else map_option (\<lambda>us. snd (c_struct [(4, 4), c_union us]))
                 (those (map (\<lambda>v. c_variant (c_layout n p) (snd v)) (ei_variants info))))
      | BcResult ok err \<Rightarrow>
          map_option (\<lambda>us. snd (c_struct [(1, 1), c_union us])) (those (map (c_layout n p) [ok, err]))
      | _ \<Rightarrow> Some (8, 8))"

section \<open>Layouts are those of C\<close>

abbreviation fits_u32 :: "nat \<Rightarrow> bool" where
  "fits_u32 n \<equiv> n + 8 < 2 ^ 32"

definition agrees_c :: "layout \<Rightarrow> nat \<times> nat \<Rightarrow> bool" where
  "agrees_c l c \<longleftrightarrow>
     snd c \<in> {1, 4, 8} \<and> unat (ly_align l) = snd c \<and> (fits_u32 (fst c) \<longrightarrow> unat (ly_size l) = fst c)"

lemma agrees_c_empty: "agrees_c empty_layout (0, 1)"
  by (simp add: agrees_c_def empty_layout_def)

lemma agrees_c_scalar: "n \<in> {1, 4, 8} \<Longrightarrow> agrees_c (scalar n) (unat n, unat n)"
  by (auto simp: agrees_c_def scalar_def)

lemma unat_max: "unat (max v w) = max (unat v) (unat w)" for v w :: u32
  by (auto simp: max_def word_le_nat_alt)

lemma round_up_exact:
  assumes "unat v = n" "unat w = a" "a \<in> {1, 4, 8}" "fits_u32 (c_round n a)"
  shows "unat (round_up v w) = c_round n a"
proof (cases "a = 1")
  case True
  then have "w = 1" using assms(2) by (simp add: word_unat_eq_iff)
  then show ?thesis using assms(1) True by (simp add: round_up_def c_round_def)
next
  case False
  have n: "n + 8 < 2 ^ 32" using c_round_ge [of a n] assms(3,4) by auto
  have "\<not> w \<le> 1" using False assms(2,3) by (auto simp: word_le_nat_alt)
  moreover have sum: "unat (v + w) = n + a" using n assms(1-3) by (subst unat_add_lem [THEN iffD1]) auto
  moreover have "unat (v + w - 1) = n + a - 1"
    using sum assms(3) by (subst unat_sub) (auto simp: word_le_nat_alt)
  moreover have "unat ((v + w - 1) div w * w) = (n + a - 1) div a * a"
    using calculation assms(2,4) by (subst unat_mult_lem [THEN iffD1]) (auto simp: unat_div c_round_def)
  ultimately show ?thesis by (simp add: round_up_def c_round_def)
qed

lemma max_align: "unat (max w 1) = max (unat w) 1" for w :: u32
  by (simp add: unat_max)

lemma place_exact:
  assumes "agrees_c acc (n, al)" "agrees_c l (m, a)"
  shows "agrees_c (snd (ly_place acc l)) (c_round n a + m, max al a)"
    and "fits_u32 (c_round n a + m) \<Longrightarrow> unat (fst (ly_place acc l)) = c_round n a"
proof -
  have a: "a \<in> {1, 4, 8}" "unat (max (ly_align l) 1) = a" using assms(2) by (auto simp: agrees_c_def max_align)
  have off: "unat (fst (ly_place acc l)) = c_round n a" if "fits_u32 (c_round n a + m)"
  proof -
    have "n \<le> c_round n a" using a(1) c_round_ge by auto
    then have "unat (ly_size acc) = n" using that assms(1) by (auto simp: agrees_c_def)
    from round_up_exact [OF this a(2,1)] that show ?thesis by (simp add: ly_place_def Let_def)
  qed
  then show "fits_u32 (c_round n a + m) \<Longrightarrow> unat (fst (ly_place acc l)) = c_round n a" .
  have "unat (ly_size (snd (ly_place acc l))) = c_round n a + m" if f: "fits_u32 (c_round n a + m)"
  proof -
    have "unat (ly_size l) = m" using f assms(2) by (auto simp: agrees_c_def)
    with off [OF f] f show ?thesis
      by (simp add: ly_place_def Let_def) (subst unat_add_lem [THEN iffD1]; simp)
  qed
  then show "agrees_c (snd (ly_place acc l)) (c_round n a + m, max al a)"
    using assms by (auto simp: agrees_c_def ly_place_def Let_def unat_max)
qed

lemma finish_exact:
  assumes "agrees_c l c"
  shows "agrees_c (ly_finish l) (c_finish c)"
proof -
  have a: "snd c \<in> {1, 4, 8}" "unat (max (ly_align l) 1) = snd c" using assms by (auto simp: agrees_c_def max_align)
  have "unat (round_up (ly_size l) (max (ly_align l) 1)) = c_round (fst c) (snd c)"
    if "fits_u32 (c_round (fst c) (snd c))"
  proof -
    have "fst c \<le> c_round (fst c) (snd c)" using a(1) c_round_ge by auto
    then have "unat (ly_size l) = fst c" using that assms by (auto simp: agrees_c_def)
    from round_up_exact [OF this a(2,1) that] show ?thesis .
  qed
  then show ?thesis using assms by (auto simp: agrees_c_def ly_finish_def c_finish_def)
qed

lemma place_all_exact:
  assumes "\<And>ty l. lay ty = Inr l \<Longrightarrow> \<exists>c. clay ty = Some c \<and> agrees_c l c"
  shows "place_all lay tys acc = Inr (offs, l) \<Longrightarrow> agrees_c acc ca \<Longrightarrow>
     \<exists>ms. those (map clay tys) = Some ms \<and> (\<forall>m \<in> set ms. snd m \<in> {1, 4, 8}) \<and>
       agrees_c l (snd (c_members ca ms)) \<and>
       (fits_u32 (fst (snd (c_members ca ms))) \<longrightarrow> map unat offs = fst (c_members ca ms))"
proof (induction tys arbitrary: acc offs ca)
  case (Cons ty tys)
  obtain n al where ca: "ca = (n, al)" by (cases ca)
  from Cons.prems(1) obtain fl offs' where fl: "lay ty = Inr fl"
    and rest: "place_all lay tys (snd (ly_place acc fl)) = Inr (offs', l)"
    and offs: "offs = fst (ly_place acc fl) # offs'"
    by (auto simp: and_then_eq_Inr case_prod_beta)
  from assms [OF fl] obtain m a where c: "clay ty = Some (m, a)" "agrees_c fl (m, a)" by auto
  note placed = place_exact [OF Cons.prems(2) [unfolded ca] c(2)]
  from Cons.IH [OF rest placed(1)] obtain ms where ms: "those (map clay tys) = Some ms"
    "\<forall>m \<in> set ms. snd m \<in> {1, 4, 8}" "agrees_c l (snd (c_members (c_round n a + m, max al a) ms))"
    "fits_u32 (fst (snd (c_members (c_round n a + m, max al a) ms))) \<Longrightarrow>
       map unat offs' = fst (c_members (c_round n a + m, max al a) ms)" by blast
  have "fits_u32 (c_round n a + m)" if "fits_u32 (fst (snd (c_members (c_round n a + m, max al a) ms)))"
    using that c_members_ge [of ms "(c_round n a + m, max al a)"] ms(2) by fastforce
  with ms c ca offs placed(2) show ?case
    by (intro exI [of _ "(m, a) # ms"]) (auto simp: agrees_c_def)
next
  case Nil
  then show ?case by (cases ca) auto
qed

lemma sequential_exact:
  assumes "\<And>ty l. lay ty = Inr l \<Longrightarrow> \<exists>c. clay ty = Some c \<and> agrees_c l c"
    and "sequential_layout lay tys = Inr (offs, l)"
  shows "\<exists>ms. those (map clay tys) = Some ms \<and> (\<forall>m \<in> set ms. snd m \<in> {1, 4, 8}) \<and>
     agrees_c l (snd (c_struct ms)) \<and>
     (fits_u32 (fst (snd (c_struct ms))) \<longrightarrow> map unat offs = fst (c_struct ms))"
proof -
  from assms(2) obtain l0 where l0: "place_all lay tys empty_layout = Inr (offs, l0)" "l = ly_finish l0"
    by (auto simp: sequential_layout_def and_then_eq_Inr)
  have "\<exists>ms. those (map clay tys) = Some ms \<and> (\<forall>m \<in> set ms. snd m \<in> {1, 4, 8}) \<and>
       agrees_c l0 (snd (c_members (0, 1) ms)) \<and>
       (fits_u32 (fst (snd (c_members (0, 1) ms))) \<longrightarrow> map unat offs = fst (c_members (0, 1) ms))"
    by (rule place_all_exact [OF _ l0(1) agrees_c_empty]) (rule assms(1))
  then obtain ms where ms: "those (map clay tys) = Some ms"
    "\<forall>m \<in> set ms. snd m \<in> {1, 4, 8}" "agrees_c l0 (snd (c_members (0, 1) ms))"
    "fits_u32 (fst (snd (c_members (0, 1) ms))) \<Longrightarrow> map unat offs = fst (c_members (0, 1) ms)" by blast
  have "fst (snd (c_members (0, 1) ms)) \<le> fst (c_finish (snd (c_members (0, 1) ms)))"
    using c_round_ge ms(3) by (auto simp: c_finish_def agrees_c_def)
  with ms finish_exact [OF ms(3)] l0(2) show ?thesis
    by (intro exI [of _ ms]) (auto simp: c_struct_def case_prod_beta)
qed

lemma agrees_c_max:
  assumes "agrees_c u (n, al)" "agrees_c l (m, a)"
  shows "agrees_c \<lparr>ly_size = max (ly_size u) (ly_size l), ly_align = max (ly_align u) (max (ly_align l) 1)\<rparr>
    (max n m, max al a)"
  using assms by (auto simp: agrees_c_def unat_max)

lemma union_exact:
  assumes "\<And>ty l. lay ty = Inr l \<Longrightarrow> \<exists>c. clay ty = Some c \<and> agrees_c l c"
  shows "union_layout lay vs (u, m) = Inr (u', m') \<Longrightarrow> agrees_c u (n, al) \<Longrightarrow>
     \<exists>us. those (map (\<lambda>v. c_variant clay (snd v)) vs) = Some us \<and>
       agrees_c u' (foldr max (map fst us) n, foldr max (map snd us) al)"
proof (induction vs arbitrary: u m n al)
  case (Cons v vs)
  obtain vname tys where v: "v = (vname, tys)" by (cases v)
  from Cons.prems(1) v obtain offs l where l: "sequential_layout lay tys = Inr (offs, l)"
    and rest: "union_layout lay vs
      (\<lparr>ly_size = max (ly_size u) (ly_size l), ly_align = max (ly_align u) (max (ly_align l) 1)\<rparr>,
        m(vname \<mapsto> offs)) = Inr (u', m')"
    by (auto simp: and_then_eq_Inr)
  have "\<exists>ms. those (map clay tys) = Some ms \<and> (\<forall>m \<in> set ms. snd m \<in> {1, 4, 8}) \<and>
     agrees_c l (snd (c_struct ms)) \<and>
     (fits_u32 (fst (snd (c_struct ms))) \<longrightarrow> map unat offs = fst (c_struct ms))"
    by (rule sequential_exact [OF _ l]) (rule assms)
  then obtain k a where c: "c_variant clay tys = Some (k, a)" "agrees_c l (k, a)"
    by (metis c_variant_def option.simps(9) prod.collapse)
  from Cons.IH [OF rest agrees_c_max [OF Cons.prems(2) c(2)]] obtain us where
    "those (map (\<lambda>v. c_variant clay (snd v)) vs) = Some us"
    "agrees_c u' (foldr max (map fst us) (max n k), foldr max (map snd us) (max al a))" by blast
  moreover have "foldr max xs (max x y) = max y (foldr max xs x)" for xs and x y :: nat
    by (induction xs) auto
  ultimately show ?case using c v by (intro exI [of _ "(k, a) # us"]) simp
qed simp

lemma tagged_exact:
  assumes "n \<in> {1, 4, 8}" "agrees_c u (m, a)"
  shows "agrees_c (snd (tagged (scalar n) u)) (snd (c_struct [(unat n, unat n), (m, a)]))"
proof -
  have "c_round 0 (unat n) = 0" using c_round_least [of "unat n" 0 0] assms(1) by auto
  with place_exact(1) [OF agrees_c_empty agrees_c_scalar [OF assms(1)]]
  have "agrees_c (snd (ly_place empty_layout (scalar n))) (unat n, max 1 (unat n))" by simp
  from finish_exact [OF place_exact(1) [OF this assms(2)]] \<open>c_round 0 (unat n) = 0\<close> show ?thesis
    by (simp add: tagged_def c_struct_def case_prod_beta)
qed

lemma layout_exact: "layout_fuel n p ty = Inr l \<Longrightarrow> \<exists>c. c_layout n p ty = Some c \<and> agrees_c l c"
proof (induction n arbitrary: ty l)
  case (Suc n)
  note seq = sequential_exact [of "layout_fuel n p" "c_layout n p", OF Suc.IH]
  note result = union_exact [of "layout_fuel n p" "c_layout n p", OF Suc.IH, OF _ _ agrees_c_empty]
  show ?case
  proof (cases ty)
    case BcStr
    with Suc.prems obtain offs where "sequential_layout (layout_fuel n p) [BcHandle, BcI32] = Inr (offs, l)"
      by (auto simp: layout_with_def and_then_eq_Inr)
    from seq [OF _ this] obtain ms where ms: "those (map (c_layout n p) [BcHandle, BcI32]) = Some ms"
      "agrees_c l (snd (c_struct ms))" by blast
    then have "ms = [(8, 8), (4, 4)]" by (cases n) auto
    with ms BcStr show ?thesis by simp
  next
    case (BcStruct name)
    show ?thesis
    proof (cases "ip_structs p name")
      case (Some info)
      with BcStruct Suc.prems obtain offs where
        "sequential_layout (layout_fuel n p) (map snd (si_fields info)) = Inr (offs, l)"
        by (auto simp: layout_with_def struct_layout_with_def and_then_eq_Inr)
      from seq [OF _ this] obtain ms where "those (map (c_layout n p) (map snd (si_fields info))) = Some ms"
        "agrees_c l (snd (c_struct ms))" by blast
      with BcStruct Some show ?thesis by (simp add: c_variant_def)
    qed (use BcStruct Suc.prems agrees_c_empty in \<open>auto simp: layout_with_def struct_layout_with_def\<close>)
  next
    case (BcEnum name)
    show ?thesis
    proof (cases "ip_enums p name")
      case (Some info)
      show ?thesis
      proof (cases "list_all (\<lambda>v. snd v = []) (ei_variants info)")
        case True
        then have "\<not> list_ex (\<lambda>(_, tys). tys \<noteq> []) (ei_variants info)" by (auto simp: list_all_iff list_ex_iff)
        with True Some BcEnum Suc.prems show ?thesis
          using agrees_c_scalar [of 4] by (auto simp: layout_with_def enum_layout_with_def tag_only_def)
      next
        case False
        then have "list_ex (\<lambda>(_, tys). tys \<noteq> []) (ei_variants info)" by (auto simp: list_all_iff list_ex_iff)
        with Some BcEnum Suc.prems obtain u m where
          u: "union_layout (layout_fuel n p) (ei_variants info) (empty_layout, Map.empty) = Inr (u, m)"
          and l: "l = snd (tagged (scalar 4) u)"
          by (auto simp: layout_with_def enum_layout_with_def and_then_eq_Inr case_prod_beta)
        from result [OF _ u] obtain us where us:
          "those (map (\<lambda>v. c_variant (c_layout n p) (snd v)) (ei_variants info)) = Some us"
          "agrees_c u (c_union us)" by (auto simp: c_union_def)
        from tagged_exact [of 4 u "fst (c_union us)" "snd (c_union us)"] us l BcEnum Some False show ?thesis by simp
      qed
    qed (use BcEnum Suc.prems agrees_c_scalar [of 4] in \<open>auto simp: layout_with_def enum_layout_with_def tag_only_def\<close>)
  next
    case (BcResult ok err)
    with Suc.prems obtain lo le where lo: "layout_fuel n p ok = Inr lo" "layout_fuel n p err = Inr le"
      and l: "l = snd (tagged (scalar 1) \<lparr>ly_size = max (ly_size lo) (ly_size le),
             ly_align = max (max (ly_align lo) (ly_align le)) 1\<rparr>)"
      by (auto simp: layout_with_def result_layout_with_def and_then_eq_Inr case_prod_beta)
    from Suc.IH [OF lo(1)] Suc.IH [OF lo(2)] obtain m a k b where
      c: "c_layout n p ok = Some (m, a)" "c_layout n p err = Some (k, b)" "agrees_c lo (m, a)" "agrees_c le (k, b)"
      by auto
    have "agrees_c \<lparr>ly_size = max (ly_size lo) (ly_size le), ly_align = max (max (ly_align lo) (ly_align le)) 1\<rparr>
        (c_union [(m, a), (k, b)])"
      using c(3,4) by (auto simp: agrees_c_def unat_max c_union_def)
    with tagged_exact [of 1 _ "fst (c_union [(m, a), (k, b)])" "snd (c_union [(m, a), (k, b)])"] l c BcResult
    show ?thesis by simp
  qed (use Suc.prems agrees_c_empty agrees_c_scalar [of 1] agrees_c_scalar [of 4] agrees_c_scalar [of 8] in
      \<open>auto simp: layout_with_def pointer_size_def\<close>)
qed simp

lemma fields_exact:
  "sequential_layout (layout_fuel n p) tys = Inr (offs, l) \<Longrightarrow>
     \<exists>ms. those (map (c_layout n p) tys) = Some ms \<and> (\<forall>m \<in> set ms. snd m \<in> {1, 4, 8}) \<and>
       agrees_c l (snd (c_struct ms)) \<and>
       (fits_u32 (fst (snd (c_struct ms))) \<longrightarrow> map unat offs = fst (c_struct ms))"
  by (rule sequential_exact) (rule layout_exact)

section \<open>What the back ends rely on\<close>

lemma lower_decl_tables:
  "lower_decl info d (p, lw) = Inr (p', lw') \<Longrightarrow> ip_structs p' = ip_structs p \<and> ip_enums p' = ip_enums p"
  by (cases d) (auto simp: lower_decl_def and_then_eq_Inr split: prod.splits)

lemma lower_program_tables:
  assumes "lower_program prog info = Inr p"
  shows "ip_structs p = sem_structs info" "ip_enums p = sem_enums info"
proof -
  have "case st of (p, _) \<Rightarrow> ip_structs p = sem_structs info \<and> ip_enums p = sem_enums info"
    if "each (lower_decl info) (decls prog)
      (\<lparr>ip_structs = sem_structs info, ip_enums = sem_enums info, ip_functions = sem_functions info,
        ip_constants = sem_constants info, ip_struct_defs = [], ip_enum_defs = [], ip_extern_blocks = [],
        ip_const_defs = [], ip_fn_defs = []\<rparr>, lowering_start) = Inr st" for st
    by (rule each_invariant [OF that]) (auto dest: lower_decl_tables)
  with assms show "ip_structs p = sem_structs info" "ip_enums p = sem_enums info"
    by (auto simp: lower_program_def and_then_eq_Inr)
qed

text \<open>
  C9. The layout of every type of an accepted program is computed: the structs and enums of
  such a program lead into one another only a bounded number of times, so the recursion over
  their fields ends, and further fuel does not change its result.
\<close>

theorem accepted_types_laid_out:
  "analyze prog = Inr info \<Longrightarrow> lower_program prog info = Inr p \<Longrightarrow> declared (info_analyzer info) ty \<Longrightarrow>
     \<exists>n l. \<forall>k. layout_fuel (n + k) p ty = Inr l"
  using accepted_laid grounded_laid_out lower_program_tables layout_fuel_mono le_add1
  unfolding laid_out_def by metis

text \<open>
  C10. Sizes and alignments are those of C: whenever a layout is computed, its alignment is 1,
  4 or 8 and the one that the layout rules of C give, and its size is the one of C if that is
  below \<open>2 ^ 32 - 8\<close>.
\<close>

theorem layouts_of_c:
  "layout_fuel n p ty = Inr l \<Longrightarrow>
     \<exists>m a. c_layout n p ty = Some (m, a) \<and> a \<in> {1, 4, 8} \<and> unat (ly_align l) = a \<and>
       (m + 8 < 2 ^ 32 \<longrightarrow> unat (ly_size l) = m)"
  using layout_exact [of n p ty l] by (auto simp: agrees_c_def)

text \<open>
  C11. The fields of a struct do not overlap: if the size in C is below \<open>2 ^ 32 - 8\<close>, every
  field stands at a multiple of its alignment, at or after the end of the field before it,
  and within the size of the struct.
\<close>

theorem struct_fields_apart:
  "struct_layout n name p = Inr (offs, l) \<Longrightarrow> ip_structs p name = Some info \<Longrightarrow>
     \<exists>ms. those (map (c_layout n p) (map snd (si_fields info))) = Some ms \<and>
       (fst (snd (c_struct ms)) + 8 < 2 ^ 32 \<longrightarrow> in_order 0 (map unat offs) ms (unat (ly_size l)))"
proof -
  assume lay: "struct_layout n name p = Inr (offs, l)" "ip_structs p name = Some info"
  then have "sequential_layout (layout_fuel n p) (map snd (si_fields info)) = Inr (offs, l)"
    by (simp add: struct_layout_def struct_layout_with_def)
  from fields_exact [OF this] obtain ms where
    ms: "those (map (c_layout n p) (map snd (si_fields info))) = Some ms" "\<forall>m \<in> set ms. snd m \<in> {1, 4, 8}"
    "agrees_c l (snd (c_struct ms))" "fits_u32 (fst (snd (c_struct ms))) \<Longrightarrow> map unat offs = fst (c_struct ms)"
    by blast
  have "fst (snd (c_members (0, 1) ms)) \<le> fst (snd (c_struct ms))"
    using c_round_ge ms(3) by (auto simp: c_struct_def c_finish_def agrees_c_def case_prod_beta)
  then have "in_order 0 (fst (c_struct ms)) ms (fst (snd (c_struct ms)))"
    using c_members_in_order [of ms "(0, 1)"] ms(2) by (force simp: c_struct_def case_prod_beta)
  with ms show ?thesis by (auto simp: agrees_c_def)
qed

text \<open>
  C36. A value that the back ends keep in a register has the size of the register's machine
  type in memory.
\<close>

theorem scalars_in_memory:
  "repr_of ty p = ReprScalar t \<Longrightarrow> layout_fuel (Suc n) p ty = Inr (scalar (ltype_size t))"
  by (cases ty)
    (auto simp: repr_of_def layout_with_def enum_layout_with_def enum_has_payload_def tag_only_def
      split: if_splits option.splits)

lemma field_offset_found:
  "map_of fs f = Some ty \<Longrightarrow> length offs = length fs \<Longrightarrow>
     \<exists>i < length fs. fs ! i = (f, ty) \<and> (\<forall>j < i. fst (fs ! j) \<noteq> f) \<and> field_offset f fs offs = Inr (offs ! i, ty)"
proof (induction f fs offs rule: field_offset.induct)
  case (1 name fname fty fs off offs)
  show ?case
  proof (cases "fname = name")
    case True
    with 1 show ?thesis by (intro exI [of _ 0]) auto
  next
    case False
    with 1 obtain i where "i < length fs" "fs ! i = (name, ty)" "\<forall>j < i. fst (fs ! j) \<noteq> name"
      "field_offset name fs offs = Inr (offs ! i, ty)" by auto
    with False show ?thesis by (intro exI [of _ "Suc i"]) (auto simp: less_Suc_eq_0_disj)
  qed
qed auto

lemma place_all_length: "place_all lay tys acc = Inr (offs, l) \<Longrightarrow> length offs = length tys"
  by (induction tys arbitrary: acc offs) (auto simp: and_then_eq_Inr case_prod_beta)

text \<open>
  C35. The search for the offset of a field never panics on a field that the table has: it
  returns the type of the first field of that name and the offset that the layout of the struct
  gives to this field.
\<close>

theorem field_lookup_safe:
  "ip_structs p name = Some info \<Longrightarrow> map_of (si_fields info) field = Some ty \<Longrightarrow>
   struct_layout n name p = Inr (offs, l) \<Longrightarrow>
     \<exists>i < length offs. si_fields info ! i = (field, ty) \<and> (\<forall>j < i. fst (si_fields info ! j) \<noteq> field) \<and>
       struct_field_offset n name field p = Inr (offs ! i, ty)"
proof -
  assume info: "ip_structs p name = Some info" "map_of (si_fields info) field = Some ty"
    and lay: "struct_layout n name p = Inr (offs, l)"
  then have "length offs = length (si_fields info)"
    by (auto simp: struct_layout_def struct_layout_with_def sequential_layout_def and_then_eq_Inr
        dest!: place_all_length)
  from field_offset_found [OF info(2) this] this info(1) lay show ?thesis
    by (auto simp: struct_field_offset_def)
qed

section \<open>Witnesses\<close>

definition point_program :: ir_program where
  "point_program =
     \<lparr>ip_structs = [''P'' \<mapsto> \<lparr>si_fields = [(''b'', BcBool), (''x'', BcI64), (''s'', BcStr)]\<rparr>],
      ip_enums = Map.empty, ip_functions = Map.empty, ip_constants = Map.empty, ip_struct_defs = [],
      ip_enum_defs = [], ip_extern_blocks = [], ip_const_defs = [], ip_fn_defs = []\<rparr>"

lemma point_layout:
  "struct_layout 2 ''P'' point_program = Inr ([0, 8, 16], \<lparr>ly_size = 32, ly_align = 8\<rparr>)"
  by code_simp

lemma layouts_of_c_witness:
  "\<exists>m a. c_layout 3 point_program (BcStruct ''P'') = Some (m, a) \<and> a = 8 \<and> m = 32"
proof -
  have "layout_fuel 3 point_program (BcStruct ''P'') = Inr \<lparr>ly_size = 32, ly_align = 8\<rparr>" by code_simp
  from layouts_of_c [OF this] obtain m where "c_layout 3 point_program (BcStruct ''P'') = Some (m, 8)" by auto
  moreover have "c_layout 3 point_program (BcStruct ''P'') = Some (32, 8)" by code_simp
  ultimately show ?thesis by simp
qed

lemma struct_fields_apart_witness: "in_order 0 [0, 8, 16] [(1, 1), (8, 8), (16, 8)] 32"
proof -
  have "those (map (c_layout 2 point_program) [BcBool, BcI64, BcStr]) = Some [(1, 1), (8, 8), (16, 8)]"
    "fst (snd (c_struct [(1, 1), (8, 8), (16, 8)])) = 32" by code_simp+
  with struct_fields_apart [OF point_layout, of "\<lparr>si_fields = [(''b'', BcBool), (''x'', BcI64), (''s'', BcStr)]\<rparr>"]
  show ?thesis by (simp add: point_program_def)
qed

lemma scalars_in_memory_witness: "layout_fuel (Suc 0) point_program (BcEnum ''E'') = Inr (scalar (ltype_size LI32))"
  by (rule scalars_in_memory) code_simp

lemma field_lookup_safe_witness:
  "struct_field_offset 2 ''P'' ''x'' point_program = Inr (8, BcI64)"
proof -
  let ?info = "\<lparr>si_fields = [(''b'', BcBool), (''x'', BcI64), (''s'', BcStr)]\<rparr>"
  have "ip_structs point_program ''P'' = Some ?info" "map_of (si_fields ?info) ''x'' = Some BcI64"
    by (simp_all add: point_program_def)
  from field_lookup_safe [OF this point_layout] obtain i where
    "i < 3" "si_fields ?info ! i = (''x'', BcI64)"
    "struct_field_offset 2 ''P'' ''x'' point_program = Inr ([0, 8, 16] ! i, BcI64)"
    by (metis length_Cons list.size(3) numeral_3_eq_3)
  then show ?thesis by (auto simp: less_Suc_eq numeral_3_eq_3)
qed

lemma accepted_types_laid_out_witness:
  "\<exists>p n l. lower_program sample sample_info = Inr p \<and> (\<forall>k. layout_fuel (n + k) p (BcEnum ''Color'') = Inr l)"
proof -
  obtain p where p: "lower_program sample sample_info = Inr p"
    using lower_accepted [OF sample_accepted sample_ok sample_names_apart] .
  have "declared (info_analyzer sample_info) (BcEnum ''Color'')"
    by (simp add: info_analyzer_def sample_info_def)
  from accepted_types_laid_out [OF sample_accepted p this] p show ?thesis by blast
qed

section \<open>Sizes beyond 32 bits\<close>

text \<open>
  \<open>struct S0 { a: i64, ..., p: i64 }\<close>, \<open>struct S1 { a: S0, ..., p: S0 }\<close> and so on: eight
  structs of sixteen fields.
\<close>

abbreviation letters :: string where
  "letters \<equiv> ''abcdefghijklmnop''"

definition sixteen :: "string \<Rightarrow> ast_type \<Rightarrow> top_decl" where
  "sixteen name ty =
     DStruct \<lparr>s_name = name, s_fields = map (\<lambda>c. \<lparr>f_name = [c], f_ty = ty, f_span = pos\<rparr>) letters, s_span = pos\<rparr>"

definition sixteen_info :: "bc_type \<Rightarrow> struct_info" where
  "sixteen_info ty = \<lparr>si_fields = map (\<lambda>c. ([c], ty)) letters\<rparr>"

definition oversized :: program where
  "oversized =
     \<lparr>decls =
        [sixteen ''S0'' (TyPrimitive PrimI64 pos), sixteen ''S1'' (TyNamed ''S0'' pos),
         sixteen ''S2'' (TyNamed ''S1'' pos), sixteen ''S3'' (TyNamed ''S2'' pos),
         sixteen ''S4'' (TyNamed ''S3'' pos), sixteen ''S5'' (TyNamed ''S4'' pos),
         sixteen ''S6'' (TyNamed ''S5'' pos), sixteen ''S7'' (TyNamed ''S6'' pos)]\<rparr>"

definition oversized_info :: semantic_info where
  "oversized_info =
     \<lparr>sem_structs =
        [''S0'' \<mapsto> sixteen_info BcI64, ''S1'' \<mapsto> sixteen_info (BcStruct ''S0''),
         ''S2'' \<mapsto> sixteen_info (BcStruct ''S1''), ''S3'' \<mapsto> sixteen_info (BcStruct ''S2''),
         ''S4'' \<mapsto> sixteen_info (BcStruct ''S3''), ''S5'' \<mapsto> sixteen_info (BcStruct ''S4''),
         ''S6'' \<mapsto> sixteen_info (BcStruct ''S5''), ''S7'' \<mapsto> sixteen_info (BcStruct ''S6'')],
      sem_enums = Map.empty, sem_functions = register_builtins, sem_constants = Map.empty\<rparr>"

lemma collect_sixteen:
  "resolve_type an t = Inr ty \<Longrightarrow> ty \<noteq> BcHandle \<Longrightarrow> an_structs an name = None \<Longrightarrow>
     collect_decl (sixteen name t) an = Inr (an\<lparr>an_structs := (an_structs an)(name \<mapsto> sixteen_info ty)\<rparr>)"
  by (simp add: sixteen_def sixteen_info_def collect_struct_def resolve_stored_type_def)

lemma check_sixteen [simp]: "check_decl (sixteen name t) an = Inr an"
  by (simp add: sixteen_def)

lemma oversized_accepted: "analyze oversized = Inr oversized_info"
  by (simp add: oversized_def analyze_def analyzer_new_def collect_sixteen oversized_info_def)

text \<open>Sixteen fields of a size that is a multiple of 8.\<close>

lemma max_8_1 [simp]: "max 8 1 = (8 :: u32)"
  by (simp add: max_def word_le_nat_alt)

lemma round_up_multiple:
  assumes "8 dvd unat v"
  shows "round_up v 8 = v"
proof -
  obtain m where m: "unat v = 8 * m" using assms by auto
  have less: "unat v < 2 ^ 32" using unsigned_less [of v] by simp
  with m have "unat v + 7 < 2 ^ 32" by simp
  then have "unat (v + 7) = unat v + 7" by (subst unat_add_lem [THEN iffD1]) auto
  with m have "unat ((v + 7) div 8) = m" by (simp add: unat_div)
  moreover have "unat ((v + 7) div 8 * 8) = m * 8"
    using calculation m less by (subst unat_mult_lem [THEN iffD1]) auto
  ultimately have "(v + 7) div 8 * 8 = v" using m by (simp add: word_unat_eq_iff)
  then show ?thesis by (simp add: round_up_def add.commute)
qed

lemma unat_times_dvd: "8 dvd unat k \<Longrightarrow> 8 dvd unat (of_nat j * k)" for k :: u32
  by (auto simp: unat_word_ariths unat_of_nat intro!: dvd_mod dvd_mult)

lemma layout_sixteen:
  assumes "ip_structs p name = Some (sixteen_info ty)" "layout_fuel n p ty = Inr \<lparr>ly_size = k, ly_align = 8\<rparr>"
    and "8 dvd unat k"
  shows "layout_fuel (Suc n) p (BcStruct name) = Inr \<lparr>ly_size = 16 * k, ly_align = 8\<rparr>"
proof -
  have place: "ly_place \<lparr>ly_size = of_nat j * k, ly_align = a\<rparr> \<lparr>ly_size = k, ly_align = 8\<rparr> =
      (of_nat j * k, \<lparr>ly_size = of_nat (Suc j) * k, ly_align = max a 8\<rparr>)" if "j < 16" for j a
  proof -
    have "round_up (of_nat j * k) 8 = of_nat j * k" using round_up_multiple unat_times_dvd assms(3) by blast
    then show ?thesis by (simp only: ly_place_def Let_def) (simp add: distrib_right add.commute)
  qed
  have "\<exists>offs. place_all (layout_fuel n p) (replicate m ty) \<lparr>ly_size = of_nat j * k, ly_align = a\<rparr> =
      Inr (offs, \<lparr>ly_size = of_nat (j + m) * k, ly_align = if m = 0 then a else max a 8\<rparr>)" if "j + m \<le> 16" for j m a
    using that
  proof (induction m arbitrary: j a)
    case (Suc m)
    from Suc.IH [of "Suc j" "max a 8"] Suc.prems place [of j a] show ?case
      by (auto simp: assms(2))
  qed simp
  from this [of 0 16 1] obtain offs where
    "place_all (layout_fuel n p) (replicate 16 ty) empty_layout = Inr (offs, \<lparr>ly_size = 16 * k, ly_align = 8\<rparr>)"
    unfolding empty_layout_def by auto
  moreover have "map snd (si_fields (sixteen_info ty)) = replicate 16 ty"
    by (simp add: sixteen_info_def numeral_eq_Suc)
  moreover have "ly_finish \<lparr>ly_size = 16 * k, ly_align = 8\<rparr> = \<lparr>ly_size = 16 * k, ly_align = 8\<rparr>"
    using round_up_multiple [OF unat_times_dvd [OF assms(3), of 16]] by (simp add: ly_finish_def)
  ultimately show ?thesis
    using assms(1) by (simp add: layout_with_def struct_layout_with_def sequential_layout_def)
qed

lemma c_members_replicate:
  "8 dvd k \<Longrightarrow> snd (c_members (j * k, a) (replicate m (k, 8))) = ((j + m) * k, if m = 0 then a else max a 8)"
proof (induction m arbitrary: j a)
  case (Suc m)
  have "c_round (j * k) 8 = j * k"
    using c_round_ge [of 8 "j * k"] c_round_least [of 8 "j * k" "j * k"] Suc.prems by simp
  with Suc.IH [of "Suc j" "max a 8"] Suc.prems show ?case by (simp add: algebra_simps)
qed simp

lemma c_layout_sixteen:
  assumes "ip_structs p name = Some (sixteen_info ty)" "c_layout n p ty = Some (k, 8)" "8 dvd k"
  shows "c_layout (Suc n) p (BcStruct name) = Some (16 * k, 8)"
proof -
  have "those (replicate m (Some x)) = Some (replicate m x)" for m and x :: "nat \<times> nat"
    by (induction m) simp_all
  moreover have "map (c_layout n p) (map snd (si_fields (sixteen_info ty))) = replicate 16 (Some (k, 8))"
    using assms(2) by (simp add: sixteen_info_def numeral_eq_Suc)
  moreover have "snd (c_struct (replicate 16 (k, 8))) = (16 * k, 8)"
    using c_members_replicate [OF assms(3), of 0 1 16] c_round_ge [of 8 "16 * k"]
      c_round_least [of 8 "16 * k" "16 * k"] assms(3)
    by (simp add: c_struct_def c_finish_def case_prod_beta)
  ultimately show ?thesis using assms(1) by (simp add: c_variant_def)
qed

definition sizes :: "nat \<Rightarrow> ir_program \<Rightarrow> bc_type \<Rightarrow> u32 \<Rightarrow> nat \<Rightarrow> bool" where
  "sizes n p ty k c \<longleftrightarrow>
     layout_fuel n p ty = Inr \<lparr>ly_size = k, ly_align = 8\<rparr> \<and> c_layout n p ty = Some (c, 8) \<and>
     8 dvd unat k \<and> 8 dvd c"

lemma sizes_sixteen:
  "ip_structs p name = Some (sixteen_info ty) \<Longrightarrow> sizes n p ty k c \<Longrightarrow>
     sizes (Suc n) p (BcStruct name) (16 * k) (16 * c)"
  using layout_sixteen [of p name ty n k] c_layout_sixteen [of p name ty n c] unat_times_dvd [of k 16]
  by (simp add: sizes_def del: layout_fuel.simps c_layout.simps)

text \<open>
  C37. An accepted program can have a struct whose size wraps around: the size of \<open>S7\<close> is
  \<open>2 ^ 35\<close> bytes by the rules of C and 0 in the back ends, which allocate that many bytes.
\<close>

theorem oversized_struct_wraps:
  "analyze oversized = Inr oversized_info \<and>
   (\<exists>p. lower_program oversized oversized_info = Inr p \<and>
      layout_fuel 9 p (BcStruct ''S7'') = Inr \<lparr>ly_size = 0, ly_align = 8\<rparr> \<and>
      c_layout 9 p (BcStruct ''S7'') = Some (2 ^ 35, 8))"
proof -
  obtain p where p: "lower_program oversized oversized_info = Inr p"
    by (auto simp: lower_program_def oversized_def sixteen_def lower_decl_def)
  then have tab: "ip_structs p = sem_structs oversized_info" by (rule lower_program_tables)
  have start: "sizes (Suc 0) p BcI64 8 8"
    by (simp add: sizes_def layout_with_def scalar_def)
  have t: "ip_structs p ''S0'' = Some (sixteen_info BcI64)"
    "ip_structs p ''S1'' = Some (sixteen_info (BcStruct ''S0''))"
    "ip_structs p ''S2'' = Some (sixteen_info (BcStruct ''S1''))"
    "ip_structs p ''S3'' = Some (sixteen_info (BcStruct ''S2''))"
    "ip_structs p ''S4'' = Some (sixteen_info (BcStruct ''S3''))"
    "ip_structs p ''S5'' = Some (sixteen_info (BcStruct ''S4''))"
    "ip_structs p ''S6'' = Some (sixteen_info (BcStruct ''S5''))"
    "ip_structs p ''S7'' = Some (sixteen_info (BcStruct ''S6''))"
    by (simp_all add: tab oversized_info_def)
  note step = sizes_sixteen
  have "16 * (16 * (16 * (16 * (16 * (16 * (16 * (16 * 8))))))) = (0 :: u32)"
    "16 * (16 * (16 * (16 * (16 * (16 * (16 * (16 * 8))))))) = (2 ^ 35 :: nat)"
    "Suc (Suc (Suc (Suc (Suc (Suc (Suc (Suc (Suc 0)))))))) = 9"
    by simp_all
  then have "sizes 9 p (BcStruct ''S7'') 0 (2 ^ 35)"
    using step [OF t(8) step [OF t(7) step [OF t(6) step [OF t(5)
      step [OF t(4) step [OF t(3) step [OF t(2) step [OF t(1) start]]]]]]]] by (simp only:)
  with p oversized_accepted show ?thesis unfolding sizes_def by blast
qed

end
