(* ===== verification/CBuiltins.thy ===== *)
theory CBuiltins
  imports CCalls Builtins
begin

text \<open>
  The table of C calls and the table of the built-in functions have the same names, and each C call
  takes the arguments of its function. The tables are compared by evaluation, letter by letter.
\<close>

text \<open>The number of holes of a template, and an entry of the table that fits a function.\<close>

fun holes :: "string \<Rightarrow> nat" where
  "holes [] = 0"
| "holes [c] = 0"
| "holes (c # d # cs) =
     (if c = CHR ''{'' \<and> d = CHR ''}'' then Suc (holes cs)
      else if c = CHR ''{'' \<and> d = CHR ''{'' then holes cs
      else if c = CHR ''}'' \<and> d = CHR ''}'' then holes cs
      else holes (d # cs))"

definition fits_call :: "(string \<times> nat) option \<Rightarrow> function_info \<Rightarrow> bool" where
  "fits_call call fi =
     (case call of
        Some (template, n) \<Rightarrow> n = length (fi_params fi) \<and> holes template = n
      | None \<Rightarrow> False)"

text \<open>
  The search of an entry, letter by letter: \<open>seek\<close> is \<open>map_of\<close> with the comparison as an argument,
  so that evaluation stops at the first difference.
\<close>

fun same_text :: "string \<Rightarrow> string \<Rightarrow> bool"
and same_rest :: "bool \<Rightarrow> string \<Rightarrow> string \<Rightarrow> bool" where
  "same_text [] bs = (bs = [])"
| "same_text (a # as) [] = False"
| "same_text (a # as) (b # bs) = same_rest (a = b) as bs"
| "same_rest True as bs = same_text as bs"
| "same_rest False as bs = False"

fun seek :: "string \<Rightarrow> (string \<times> 'v) list \<Rightarrow> 'v option"
and seek_on :: "bool \<Rightarrow> 'v \<Rightarrow> string \<Rightarrow> (string \<times> 'v) list \<Rightarrow> 'v option" where
  "seek k [] = None"
| "seek k (e # es) = seek_on (same_text (fst e) k) (snd e) k es"
| "seek_on True v k es = Some v"
| "seek_on False v k es = seek k es"

lemma same_text_iff: "same_text as bs \<longleftrightarrow> as = bs" "same_rest b as bs \<longleftrightarrow> b \<and> as = bs"
  by (induction as bs and b as bs rule: same_text_same_rest.induct) auto

lemma seek_map_of:
  "seek k es = map_of es k" "seek_on b v k es = (if b then Some v else map_of es k)"
  by (induction k es and b v k es rule: seek_seek_on.induct) (auto simp: same_text_iff)

fun starts :: "char \<Rightarrow> string \<Rightarrow> bool" where
  "starts c [] = False"
| "starts c (d # ds) = (d = c)"

fun add_if :: "bool \<Rightarrow> 'e \<Rightarrow> 'e list \<Rightarrow> 'e list" where
  "add_if True e es = e # es"
| "add_if False e es = es"

fun starting :: "bool \<Rightarrow> char \<Rightarrow> (string \<times> 'v) list \<Rightarrow> (string \<times> 'v) list" where
  "starting b c [] = []"
| "starting b c (e # es) = add_if (starts c (fst e) = b) e (starting b c es)"

type_synonym ('v, 'w) comparison = "'v option \<Rightarrow> 'w \<Rightarrow> bool"

fun all_fit :: "('v, 'w) comparison \<Rightarrow> (string \<times> 'v) list \<Rightarrow> (string \<times> 'w) list \<Rightarrow> bool" where
  "all_fit ok calls [] = True"
| "all_fit ok calls (b # bs) = (ok (seek (fst b) calls) (snd b) \<and> all_fit ok calls bs)"

fun fit_by_letter ::
  "('v, 'w) comparison \<Rightarrow> string \<Rightarrow> (string \<times> 'v) list \<Rightarrow> (string \<times> 'w) list \<Rightarrow> bool" where
  "fit_by_letter ok [] calls bs = (bs = [])"
| "fit_by_letter ok (c # cs) calls bs =
     (all_fit ok (starting True c calls) (starting True c bs) \<and>
      fit_by_letter ok cs (starting False c calls) (starting False c bs))"

lemma starting_filter: "starting b c es = filter (\<lambda>e. starts c (fst e) = b) es"
  by (induction es) auto

lemma map_of_starting: "map_of (starting b c es) k = (if starts c k = b then map_of es k else None)"
  unfolding starting_filter by (induction es) auto

lemma all_fit_iff: "all_fit ok calls bs \<longleftrightarrow> (\<forall>b \<in> set bs. ok (map_of calls (fst b)) (snd b))"
  by (induction bs) (simp_all add: seek_map_of)

lemma fit_by_letter_fits:
  "fit_by_letter ok cs calls bs \<Longrightarrow> b \<in> set bs \<Longrightarrow> ok (map_of calls (fst b)) (snd b)"
proof (induction ok cs calls bs rule: fit_by_letter.induct)
  case (2 ok c cs calls bs)
  have part: "b \<in> set (starting (starts c (fst b)) c bs)"
    using 2(3) by (simp add: starting_filter)
  have same: "map_of (starting (starts c (fst b)) c calls) (fst b) = map_of calls (fst b)"
    by (simp add: map_of_starting)
  show ?case
  proof (cases "starts c (fst b)")
    case True
    with 2(2) part same show ?thesis by (auto simp: all_fit_iff)
  next
    case False
    with 2(1) 2(2) part same show ?thesis by simp
  qed
qed simp

section \<open>The two tables\<close>

lemma builtins_fit: "fit_by_letter fits_call ''abcdefghijklmnopqrstuvwxyz'' c_calls builtin_table"
  by code_simp

text \<open>
  Every built-in function of the analysis has an entry in the table of C calls: its template has a
  hole for each parameter, and the entry asks for as many arguments as the function has.
\<close>

theorem builtins_called:
  "register_builtins name = Some fi \<Longrightarrow>
     \<exists>t. map_of c_calls name = Some (t, length (fi_params fi)) \<and> holes t = length (fi_params fi)"
proof -
  assume "register_builtins name = Some fi"
  then have "(name, fi) \<in> set builtin_table"
    unfolding register_builtins_def by (auto dest: map_of_SomeD)
  from fit_by_letter_fits [OF builtins_fit this] show ?thesis
    by (auto simp: fits_call_def split: option.splits)
qed

definition known_call :: "function_info option \<Rightarrow> (string \<times> nat) \<Rightarrow> bool" where
  "known_call found call = (found \<noteq> None)"

definition table_with_len :: "(string \<times> function_info) list" where
  "table_with_len =
     (''len'', \<lparr>fi_params = [], fi_return_type = BcI32, fi_is_pure = True, fi_is_extern = False\<rparr>) # builtin_table"

lemma calls_fit: "fit_by_letter known_call ''abcdefghijklmnopqrstuvwxyz'' table_with_len c_calls"
  by code_simp

text \<open>Conversely, each entry is of a built-in function or of \<open>len\<close>.\<close>

lemma called_builtin: "map_of c_calls name = Some call \<Longrightarrow> name = ''len'' \<or> register_builtins name \<noteq> None"
proof -
  assume "map_of c_calls name = Some call"
  from fit_by_letter_fits [OF calls_fit map_of_SomeD [OF this]]
  have "name = ''len'' \<or> map_of builtin_table name \<noteq> None"
    by (auto simp: known_call_def table_with_len_def split: if_splits)
  then show ?thesis
    by (auto simp: register_builtins_def map_of_eq_None_iff)
qed

lemma len_called: "map_of c_calls ''len'' = Some (''osc_array_len({})'', 1)"
  by code_simp

end
