(* ===== verification/CRely.thy ===== *)
theory CRely
  imports CEmitProps CBuiltins LowerProgram
begin

text \<open>
  The trees that lowering makes of an accepted program are \<open>emittable\<close>: the arguments of the calls
  fit the table of the C calls, and what else the C generator relies on is in \<open>rely_expr\<close>. What
  remains is a call through a variable that has the name of a built-in function, which the
  generator takes for the call of that function.
\<close>

section \<open>Calls through variables\<close>

function pointer_calls :: "ir_expr \<Rightarrow> string list"
and pointer_calls_stmt :: "ir_stmt \<Rightarrow> string list"
and pointer_calls_block :: "ir_block \<Rightarrow> string list"
and pointer_calls_place :: "ir_place \<Rightarrow> string list" where
  "pointer_calls (IrIntLit v sp) = []"
| "pointer_calls (IrFloatLit v sp) = []"
| "pointer_calls (IrStringLit t sp) = []"
| "pointer_calls (IrInterpolatedString parts sp) =
     concat (map (\<lambda>part. case part of IrText _ \<Rightarrow> [] | IrPart e \<Rightarrow> pointer_calls e) parts)"
| "pointer_calls (IrBoolLit b sp) = []"
| "pointer_calls (IrIdent name kind ty sp) = []"
| "pointer_calls (IrBinaryOp op' l r ty sp) = pointer_calls l @ pointer_calls r"
| "pointer_calls (IrUnaryOp op' e ty sp) = pointer_calls e"
| "pointer_calls (IrCast e ty sp) = pointer_calls e"
| "pointer_calls (IrCall c args ty sp) =
     (case c of CalleeVar name \<Rightarrow> [name] | _ \<Rightarrow> []) @ concat (map (\<lambda>a. pointer_calls a) args)"
| "pointer_calls (IrFieldAccess e f ty sp) = pointer_calls e"
| "pointer_calls (IrIndex e i ty sp) = pointer_calls e @ pointer_calls i"
| "pointer_calls (IrBlockExpr block) = pointer_calls_block block"
| "pointer_calls (IrIf c block els ty sp) =
     pointer_calls c @ pointer_calls_block block @ (case els of Some e \<Rightarrow> pointer_calls e | None \<Rightarrow> [])"
| "pointer_calls (IrMatch scrut arms ty sp) =
     pointer_calls scrut @ concat (map (\<lambda>arm. case arm of IrArm _ e _ \<Rightarrow> pointer_calls e) arms)"
| "pointer_calls (IrTry e ty sp) = pointer_calls e"
| "pointer_calls (IrArrayLit es elem_ty ty sp) = concat (map (\<lambda>e. pointer_calls e) es)"
| "pointer_calls (IrStructLit name inits sp) =
     concat (map (\<lambda>fi. case fi of IrInit _ e _ \<Rightarrow> pointer_calls e) inits)"
| "pointer_calls (IrEnumConstructor en v args ty sp) = concat (map (\<lambda>a. pointer_calls a) args)"
| "pointer_calls (IrArena block sp) = pointer_calls_block block"
| "pointer_calls_stmt (IrLet name m ty e sp) = pointer_calls e"
| "pointer_calls_stmt (IrAssign place e sp) = pointer_calls_place place @ pointer_calls e"
| "pointer_calls_stmt (IrCompoundAssign place op' e sp) = pointer_calls_place place @ pointer_calls e"
| "pointer_calls_stmt (IrExpr e sp) = pointer_calls e"
| "pointer_calls_stmt (IrWhile c body sp) = pointer_calls c @ pointer_calls_block body"
| "pointer_calls_stmt (IrFor var a b body sp) = pointer_calls a @ pointer_calls b @ pointer_calls_block body"
| "pointer_calls_stmt (IrForIn var it body sp) = pointer_calls it @ pointer_calls_block body"
| "pointer_calls_stmt (IrReturn val sp) = (case val of Some e \<Rightarrow> pointer_calls e | None \<Rightarrow> [])"
| "pointer_calls_stmt (IrDefer e sp) = pointer_calls e"
| "pointer_calls_stmt (IrBreak sp) = []"
| "pointer_calls_stmt (IrContinue sp) = []"
| "pointer_calls_block (IrBlock stmts tail sp) =
     concat (map (\<lambda>st. pointer_calls_stmt st) stmts) @ (case tail of Some e \<Rightarrow> pointer_calls e | None \<Rightarrow> [])"
| "pointer_calls_place (IrPlace name accs base_ty sp) =
     concat (map (\<lambda>acc. case acc of IrField _ \<Rightarrow> [] | IrIndexed e \<Rightarrow> pointer_calls e) accs)"
  by pat_completeness auto
termination by lexicographic_order

text \<open>A name that the generator does not take for an operation of its own.\<close>

definition plain_name :: "string \<Rightarrow> bool" where
  "plain_name name \<longleftrightarrow> register_builtins name = None \<and> name \<notin> {''len'', ''push'', ''pop''}"

section \<open>Calls\<close>

definition keeps_builtins :: "ir_program \<Rightarrow> bool" where
  "keeps_builtins p \<longleftrightarrow> register_builtins \<subseteq>\<^sub>m ip_functions p"

lemma plain_callable: "plain_name name \<Longrightarrow> callable (CalleeVar name) n"
  using called_builtin [of name] by (auto simp: plain_name_def split: option.splits)

lemma rely_callable:
  assumes "keeps_builtins p" "rely_callee p ctx c n" "\<And>name. c = CalleeVar name \<Longrightarrow> plain_name name"
  shows "callable c n"
proof (cases c)
  case (CalleeNamed name)
  have rely: "name = ''len'' \<longrightarrow> n = 1" "name = ''push'' \<longrightarrow> n = 2" "name \<noteq> ''pop''"
    and verified: "verify_callee p ctx c n = []"
    using assms(2) CalleeNamed by (simp_all add: rely_callee_def)
  have "k \<le> n" if k: "map_of c_calls name = Some (t, k)" for t k
  proof (cases "name = ''len''")
    case True
    with k rely(1) len_called show ?thesis by simp
  next
    case False
    with called_builtin [OF k] obtain fi where fi: "register_builtins name = Some fi" by auto
    then have "ip_functions p name = Some fi"
      using assms(1) unfolding keeps_builtins_def map_le_def by (metis domI)
    with verified CalleeNamed have "length (fi_params fi) = n"
      by (simp add: verify_callee_def split: if_splits)
    with builtins_called [OF fi] k show ?thesis by auto
  qed
  with CalleeNamed rely show ?thesis by (auto split: option.splits)
next
  case (CalleeVar name)
  with assms(3) plain_callable show ?thesis by blast
next
  case (CalleeCollection i)
  with assms(2) show ?thesis by (simp add: rely_callee_def)
qed

section \<open>Trees\<close>

lemma known_enum_verified: "verify_type p ctx ty = [] \<Longrightarrow> known_enum (Some (ip_enums p)) ty"
  by (auto simp: known_enum_def split: if_splits)

lemma rely_emittable:
  assumes "keeps_builtins p"
  shows "rely_expr p ctx d e \<Longrightarrow> list_all plain_name (pointer_calls e) \<Longrightarrow> emittable (Some (ip_enums p)) e"
    "rely_block p ctx d b \<Longrightarrow> list_all plain_name (pointer_calls_block b) \<Longrightarrow> emittable_block (Some (ip_enums p)) b"
    "rely_stmt p ctx d s \<Longrightarrow> list_all plain_name (pointer_calls_stmt s) \<Longrightarrow> emittable_stmt (Some (ip_enums p)) s"
    "rely_place p ctx d pl \<Longrightarrow> list_all plain_name (pointer_calls_place pl) \<Longrightarrow> emittable_place (Some (ip_enums p)) pl"
  using assms
proof (induction p ctx d e and p ctx d b and p ctx d s and p ctx d pl
    rule: rely_expr_rely_block_rely_stmt_rely_place.induct)
  case (6 p ctx d parts sp)
  then show ?case by (fastforce simp: list_all_iff split: ir_part.splits)
next
  case (10 p ctx d c args ty sp)
  then have "callable c (length args)" by (intro rely_callable) auto
  with 10 show ?case by (fastforce simp: list_all_iff)
next
  case (15 p ctx d scrut arms ty sp)
  then have "known_enum (Some (ip_enums p)) (ir_ty scrut)"
    by (intro known_enum_verified rely_type) auto
  with 15 show ?case by (fastforce simp: list_all_iff split: ir_arm.splits)
qed (fastforce simp: list_all_iff pred_option_def split: option.splits ir_init.splits ir_accessor.splits)+

section \<open>Accepted programs\<close>

text \<open>A declaration never replaces a function that is in the table.\<close>

lemma signature_keeps:
  "collect_signature n sp params ret pure ext dup an = Inr an' \<Longrightarrow> an_functions an \<subseteq>\<^sub>m an_functions an'"
  by (auto simp: collect_signature_def and_then_eq_Inr map_le_def split: if_splits)

lemma extern_keeps: "each collect_extern_fn efs an = Inr an' \<Longrightarrow> an_functions an \<subseteq>\<^sub>m an_functions an'"
proof (induction efs arbitrary: an)
  case (Cons ef efs)
  then show ?case
    by (auto simp: and_then_eq_Inr collect_extern_fn_def dest!: signature_keeps intro: map_le_trans)
qed simp

lemma collect_keeps: "collect_decl d an = Inr an' \<Longrightarrow> an_functions an \<subseteq>\<^sub>m an_functions an'"
  by (cases d)
    (auto simp: collect_fn_def collect_struct_def collect_enum_def collect_let_def and_then_eq_Inr
      split: if_splits dest: signature_keeps extern_keeps)

lemma collect_all_keeps: "each collect_decl ds an = Inr an' \<Longrightarrow> an_functions an \<subseteq>\<^sub>m an_functions an'"
proof (induction ds arbitrary: an)
  case (Cons d ds)
  then show ?case by (auto simp: and_then_eq_Inr dest!: collect_keeps intro: map_le_trans)
qed simp

lemma accepted_keeps_builtins:
  assumes "analyze prog = Inr info"
  shows "register_builtins \<subseteq>\<^sub>m sem_functions info"
proof -
  obtain an an' where an: "each collect_decl (decls prog) (analyzer_new\<lparr>an_functions := register_builtins\<rparr>) = Inr an"
    "each check_decl (decls prog) an = Inr an'" "sem_functions info = an_functions an'"
    using assms by (auto simp: analyze_def and_then_eq_Inr)
  have "collected an" using collect_all_yields [of "decls prog"] an(1) by simp
  from check_all_yields [OF this, of "decls prog"] an(2) have "an' = an" by simp
  with collect_all_keeps [OF an(1)] an(3) show ?thesis by simp
qed

text \<open>The names of the variables that are called, in the bodies and constants of a program.\<close>

definition pointers_called :: "ir_program \<Rightarrow> string list" where
  "pointers_called p =
     concat (map (\<lambda>f. pointer_calls_block (ifd_body f)) (ip_fn_defs p)) @
     concat (map (\<lambda>c. pointer_calls (icd_value c)) (ip_const_defs p))"

lemma accepted_emittable:
  assumes "analyze prog = Inr info" "list_all ok_decl (decls prog)" "names_apart info"
    and "lower_program prog info = Inr p" "list_all plain_name (pointers_called p)"
  shows "verify p = Inr ()"
    and "f \<in> set (ip_fn_defs p) \<Longrightarrow> emittable_block (Some (ip_enums p)) (ifd_body f)"
    and "c \<in> set (ip_const_defs p) \<Longrightarrow> emittable (Some (ip_enums p)) (icd_value c)"
proof -
  have v: "verified p p" and tabs: "suits p info"
    using lower_accepted_relied [OF assms(1-3)] assms(4) by auto
  then show "verify p = Inr ()" by (intro verified_verify)
  have keeps: "keeps_builtins p"
    using accepted_keeps_builtins [OF assms(1)] tabs by (simp add: keeps_builtins_def suits_def)
  show "emittable_block (Some (ip_enums p)) (ifd_body f)" if "f \<in> set (ip_fn_defs p)"
  proof (rule rely_emittable(2) [OF keeps])
    show "rely_block p (ifd_name f) 0 (ifd_body f)"
      using v that by (auto simp: verified_def list_all_iff)
    show "list_all plain_name (pointer_calls_block (ifd_body f))"
      using assms(5) that by (auto simp: pointers_called_def list_all_iff)
  qed
  show "emittable (Some (ip_enums p)) (icd_value c)" if "c \<in> set (ip_const_defs p)"
  proof (rule rely_emittable(1) [OF keeps])
    show "rely_expr p (icd_name c) 0 (icd_value c)"
      using v that by (auto simp: verified_def list_all_iff)
    show "list_all plain_name (pointer_calls (icd_value c))"
      using assms(5) that by (auto simp: pointers_called_def list_all_iff)
  qed
qed

end
