(* ===== verification/ImportProps.thy ===== *)
theory ImportProps
  imports Imports
begin

text \<open>
  What the flattening of imports keeps: the renaming of words against its reference by
  maximal runs of identifier characters, the prefixing of all declared names at once, the
  number of lines, and the end of the recursion over files that import one another.
\<close>

section \<open>Words\<close>

text \<open>The maximal runs of identifier characters, and the other characters one by one.\<close>

function runs :: "nat list \<Rightarrow> nat list list" where
  "runs [] = []"
| "runs (b # bs) =
     (if is_ident_char b
      then (b # takeWhile is_ident_char bs) # runs (dropWhile is_ident_char bs)
      else [b] # runs bs)"
  by pat_completeness auto
termination
  by (relation "measure length") (auto simp: less_Suc_eq_le length_dropWhile_le)

definition rename_run :: "nat list \<Rightarrow> rstring \<Rightarrow> nat list \<Rightarrow> rstring" where
  "rename_run word replacement run = (if run = word then replacement else run)"

definition is_word :: "nat list \<Rightarrow> bool" where
  "is_word w \<longleftrightarrow> w \<noteq> [] \<and> list_all is_ident_char w"

text \<open>The scan with the text before the position and the text from it on.\<close>

definition matches_at :: "nat list \<Rightarrow> nat list \<Rightarrow> nat list \<Rightarrow> bool" where
  "matches_at pre w rest \<longleftrightarrow>
     take (length w) rest = w \<and> (pre = [] \<or> \<not> is_ident_char (last pre)) \<and>
     (drop (length w) rest = [] \<or> \<not> is_ident_char (hd (drop (length w) rest)))"

lemma replace_end: "replace_from pre w r (length pre) = Some []"
  by (subst replace_from.simps) simp

lemma replace_step:
  assumes "rest \<noteq> []"
  shows "replace_from (pre @ rest) w r (length pre) =
    (if matches_at pre w rest
     then Option.bind (replace_from (pre @ rest) w r (length pre + length w)) (\<lambda>s. Some (r @ s))
     else Option.bind (replace_from (pre @ rest) w r (length pre + 1)) (\<lambda>s. Some (hd rest # s)))"
proof -
  have le: "length w \<le> length rest" if "take (length w) rest = w"
    using arg_cong [OF that, of length] by simp
  have "matches_at pre w rest \<longleftrightarrow>
     length pre + length w \<le> length (pre @ rest) \<and> take (length w) (drop (length pre) (pre @ rest)) = w \<and>
     (length pre = 0 \<or> \<not> is_ident_char ((pre @ rest) ! (length pre - 1))) \<and>
     (length pre + length w \<ge> length (pre @ rest) \<or> \<not> is_ident_char ((pre @ rest) ! (length pre + length w)))"
  proof -
    have "(length pre = 0 \<or> \<not> is_ident_char ((pre @ rest) ! (length pre - 1))) \<longleftrightarrow>
        (pre = [] \<or> \<not> is_ident_char (last pre))"
      by (cases "pre = []") (simp_all add: nth_append last_conv_nth)
    moreover have "(length pre + length w \<ge> length (pre @ rest) \<or>
          \<not> is_ident_char ((pre @ rest) ! (length pre + length w))) \<longleftrightarrow>
        (drop (length w) rest = [] \<or> \<not> is_ident_char (hd (drop (length w) rest)))"
      by (cases "length w < length rest") (simp_all add: hd_drop_conv_nth nth_append_length_plus)
    moreover have "take (length w) (drop (length pre) (pre @ rest)) = take (length w) rest" by simp
    ultimately show ?thesis using le unfolding matches_at_def by auto
  qed
  moreover have "(pre @ rest) ! length pre = hd rest" using assms by (simp add: nth_append hd_conv_nth)
  moreover have "length pre < length (pre @ rest)" using assms by simp
  ultimately show ?thesis by (subst replace_from.simps) (simp only: if_True)
qed

lemma replace_copy:
  assumes "\<And>p q. mid = p @ q \<Longrightarrow> q \<noteq> [] \<Longrightarrow> \<not> matches_at (pre @ p) w (q @ rest)"
  shows "replace_from (pre @ mid @ rest) w r (length pre) =
    Option.bind (replace_from (pre @ mid @ rest) w r (length (pre @ mid))) (\<lambda>s. Some (mid @ s))"
  using assms
proof (induction mid arbitrary: pre)
  case (Cons b mid)
  have "\<not> matches_at pre w (b # mid @ rest)" using Cons.prems [of "[]" "b # mid"] by simp
  then have "replace_from (pre @ (b # mid @ rest)) w r (length pre) =
      Option.bind (replace_from ((pre @ [b]) @ mid @ rest) w r (length (pre @ [b]))) (\<lambda>s. Some (b # s))"
    by (subst replace_step) simp_all
  also have "\<dots> = Option.bind (Option.bind (replace_from ((pre @ [b]) @ mid @ rest) w r (length (pre @ b # mid)))
      (\<lambda>s. Some (mid @ s))) (\<lambda>s. Some (b # s))"
    using Cons.prems [of "b # p" q for p q] by (subst Cons.IH) simp_all
  finally show ?case by simp
qed simp

text \<open>Inside a run nothing matches, and a run matches only as a whole.\<close>

lemma matches_run:
  assumes "is_word w" "list_all is_ident_char run" "run \<noteq> []" "rest = [] \<or> \<not> is_ident_char (hd rest)"
    and "pre = [] \<or> \<not> is_ident_char (last pre)"
  shows "matches_at pre w (run @ rest) \<longleftrightarrow> run = w"
proof
  assume "matches_at pre w (run @ rest)"
  then have w: "take (length w) (run @ rest) = w"
    and after: "drop (length w) (run @ rest) = [] \<or> \<not> is_ident_char (hd (drop (length w) (run @ rest)))"
    by (simp_all add: matches_at_def)
  have "\<not> length w < length run"
    using after assms(2) by (auto simp: hd_append hd_drop_conv_nth list_all_length)
  moreover have "\<not> length run < length w"
  proof
    assume "length run < length w"
    with w have "w ! length run = rest ! 0" "rest \<noteq> []"
      by (metis nth_append_length_plus nth_take add.right_neutral)
        (metis append_Nil2 length_take min.cobounded1 not_less w \<open>length run < length w\<close>)
    with assms(1,4) \<open>length run < length w\<close> show False
      by (auto simp: is_word_def list_all_length hd_conv_nth)
  qed
  ultimately show "run = w" using w by simp
next
  assume "run = w"
  with assms(4,5) show "matches_at pre w (run @ rest)" by (auto simp: matches_at_def)
qed

lemma no_match_after_ident: "pre \<noteq> [] \<Longrightarrow> is_ident_char (last pre) \<Longrightarrow> \<not> matches_at pre w rest"
  by (simp add: matches_at_def)

lemma no_match_other: "is_word w \<Longrightarrow> \<not> is_ident_char b \<Longrightarrow> \<not> matches_at pre w (b # rest)"
  by (cases w) (auto simp: matches_at_def is_word_def)

lemma replace_runs:
  assumes "is_word w"
  shows "pre = [] \<or> \<not> is_ident_char (last pre) \<or> rest = [] \<or> \<not> is_ident_char (hd rest) \<Longrightarrow>
    replace_from (pre @ rest) w r (length pre) = Some (concat (map (rename_run w r) (runs rest)))"
proof (induction rest arbitrary: pre rule: runs.induct)
  case 1
  show ?case using replace_end [of pre w r] by simp
next
  case (2 b bs)
  have other: "[b] \<noteq> w" if "\<not> is_ident_char b" using that assms by (auto simp: is_word_def)
  show ?case
  proof (cases "is_ident_char b")
    case False
    with 2(2) [of "pre @ [b]"] no_match_other [OF assms False] other show ?thesis
      by (subst replace_step) (auto simp: rename_run_def [of _ _ "[b]"])
  next
    case True
    let ?run = "b # takeWhile is_ident_char bs" and ?rest = "dropWhile is_ident_char bs"
    have run: "list_all is_ident_char ?run" using True by (auto simp: list_all_iff dest: set_takeWhileD)
    have rest: "?rest = [] \<or> \<not> is_ident_char (hd ?rest)" using hd_dropWhile by blast
    have before: "pre = [] \<or> \<not> is_ident_char (last pre)" using 2(3) True by simp
    have IH: "replace_from ((pre @ ?run) @ ?rest) w r (length (pre @ ?run)) =
        Some (concat (map (rename_run w r) (runs ?rest)))"
      using rest by (intro 2(1) True) auto
    show ?thesis
    proof (cases "?run = w")
      case w: True
      have "matches_at pre w (?run @ ?rest)" using matches_run [OF assms run _ rest before] w by blast
      then have "matches_at pre w (b # bs)" by simp
      then have "replace_from (pre @ b # bs) w r (length pre) =
          Option.bind (replace_from (pre @ b # bs) w r (length (pre @ ?run))) (\<lambda>s. Some (r @ s))"
        using w by (subst replace_step) auto
      moreover from IH have "replace_from (pre @ b # bs) w r (length (pre @ ?run)) =
        Some (concat (map (rename_run w r) (runs ?rest)))" by simp
      moreover have "runs (b # bs) = w # runs ?rest" using w True by simp
      ultimately show ?thesis by (simp add: rename_run_def [of w r w])
    next
      case other: False
      have "\<not> matches_at (pre @ p) w (q @ ?rest)" if "?run = p @ q" "q \<noteq> []" for p q
      proof (cases p)
        case Nil
        with that matches_run [OF assms run _ rest before] other show ?thesis by auto
      next
        case (Cons c p')
        with that run have "is_ident_char (last p)" by (auto simp: list_all_iff)
        with Cons show ?thesis by (intro no_match_after_ident) auto
      qed
      then have "replace_from (pre @ ?run @ ?rest) w r (length pre) =
          Option.bind (replace_from (pre @ ?run @ ?rest) w r (length (pre @ ?run))) (\<lambda>s. Some (?run @ s))"
        by (rule replace_copy)
      with IH True other show ?thesis by (simp add: rename_run_def [of w r "?run"])
    qed
  qed
qed

section \<open>All declared names at once\<close>

text \<open>Words and single other characters, no two words next to each other.\<close>

fun segmented :: "nat list list \<Rightarrow> bool" where
  "segmented [] \<longleftrightarrow> True"
| "segmented (x # xs) \<longleftrightarrow>
     (is_word x \<and> (xs = [] \<or> \<not> is_word (hd xs)) \<or> (\<exists>b. x = [b] \<and> \<not> is_ident_char b)) \<and> segmented xs"

lemma segmented_runs: "segmented (runs s)"
proof (induction s rule: runs.induct)
  case (2 b bs)
  have "runs cs = [] \<or> \<not> is_word (hd (runs cs))" if "cs = [] \<or> \<not> is_ident_char (hd cs)" for cs
    using that by (cases cs) (auto simp: is_word_def)
  moreover have "dropWhile is_ident_char bs = [] \<or> \<not> is_ident_char (hd (dropWhile is_ident_char bs))"
    using hd_dropWhile by blast
  ultimately show ?case using 2 by (auto simp: is_word_def list_all_iff dest: set_takeWhileD)
qed simp

lemma concat_runs: "concat (runs s) = s"
  by (induction s rule: runs.induct) auto

lemma runs_append_word:
  "is_word x \<Longrightarrow> rest = [] \<or> \<not> is_ident_char (hd rest) \<Longrightarrow> runs (x @ rest) = x # runs rest"
proof -
  assume x: "is_word x" and rest: "rest = [] \<or> \<not> is_ident_char (hd rest)"
  then obtain b bs where b: "x = b # bs" "is_ident_char b" "\<forall>c \<in> set bs. is_ident_char c"
    by (cases x) (auto simp: is_word_def list_all_iff)
  have "takeWhile is_ident_char rest = []" "dropWhile is_ident_char rest = rest" using rest by (cases rest; simp)+
  with b show ?thesis by (simp add: takeWhile_append2 dropWhile_append2)
qed

lemma runs_segmented: "segmented xs \<Longrightarrow> runs (concat xs) = xs"
proof (induction xs)
  case (Cons x xs)
  have "concat xs = [] \<or> \<not> is_ident_char (hd (concat xs))" if "xs = [] \<or> \<not> is_word (hd xs)"
    using that Cons.prems by (cases xs) auto
  with Cons runs_append_word [of x "concat xs"] show ?case by auto
qed simp

lemma segmented_map:
  assumes "\<And>x. is_word x \<Longrightarrow> is_word (f x)" "\<And>b. \<not> is_ident_char b \<Longrightarrow> f [b] = [b]"
  shows "segmented xs \<Longrightarrow> segmented (map f xs)"
proof (induction xs)
  case (Cons x xs)
  have "\<not> is_word [b]" if "\<not> is_ident_char b" for b using that by (simp add: is_word_def)
  with Cons assms show ?case by (cases xs) auto
qed simp

definition ascii :: "rstring \<Rightarrow> bool" where
  "ascii s \<longleftrightarrow> list_all (\<lambda>c. c < 128) s"

lemma as_bytes_ascii: "ascii s \<Longrightarrow> as_bytes s = s"
  by (induction s) (auto simp: ascii_def as_bytes_def)

lemma ident_ascii: "list_all is_ident_char w \<Longrightarrow> ascii w"
  by (auto simp: ascii_def list_all_iff is_ident_char_def ascii_defs)

lemma word_ascii: "is_word w \<Longrightarrow> ascii w"
  by (simp add: is_word_def ident_ascii)

lemma ascii_append [simp]: "ascii (xs @ ys) \<longleftrightarrow> ascii xs \<and> ascii ys"
  by (simp add: ascii_def)

lemma ascii_concat: "ascii (concat xs) \<longleftrightarrow> list_all ascii xs"
  by (induction xs) (auto simp: ascii_def)

text \<open>Renaming a word anywhere succeeds; in a text of ASCII characters it renames the runs.\<close>

lemma replace_word_total: "is_word w \<Longrightarrow> \<exists>r. replace_word_boundary s w rep = Some r"
  using replace_runs [of w "[]" "as_bytes s" rep] as_bytes_ascii [OF word_ascii, of w]
  by (simp add: replace_word_boundary_def)

lemma replace_word_runs:
  "is_word w \<Longrightarrow> ascii s \<Longrightarrow> replace_word_boundary s w r = Some (concat (map (rename_run w r) (runs s)))"
  using replace_runs [of w "[]" s r] by (simp add: replace_word_boundary_def as_bytes_ascii word_ascii)

lemma declared_name_word: "declared_name kws line = Some n \<Longrightarrow> is_word n"
  by (induction kws line rule: declared_name.induct)
    (auto simp: is_word_def list_all_iff is_ident_char_def Let_def split: option.splits if_splits dest: set_takeWhileD)

lemma top_level_words: "n \<in> set (find_top_level_names s) \<Longrightarrow> is_word n"
  by (auto simp: find_top_level_names_def List.map_filter_def dest: declared_name_word)

lemma bind_option_simps [simp]:
  "bind_option f [] s = Some s"
  "bind_option f (x # xs) s = Option.bind (f x s) (bind_option f xs)"
proof -
  have "fold (\<lambda>x acc. Option.bind acc (f x)) xs None = None" by (induction xs) auto
  then show "bind_option f (x # xs) s = Option.bind (f x s) (bind_option f xs)"
    by (cases "f x s") (simp_all add: bind_option_def)
qed (simp add: bind_option_def)

abbreviation prefixed :: "rstring \<Rightarrow> rstring \<Rightarrow> rstring" where
  "prefixed ns name \<equiv> ns @ ustr ''_'' @ name"

lemma prefixed_word: "is_word ns \<Longrightarrow> is_word n \<Longrightarrow> is_word (prefixed ns n)"
  by (simp add: is_word_def is_ident_char_def)

lemma rename_all_runs:
  assumes "\<And>n. n \<in> set names \<Longrightarrow> is_word n" "is_word ns"
  shows "segmented xs \<Longrightarrow> list_all ascii xs \<Longrightarrow>
    bind_option (\<lambda>name text. replace_word_boundary text name (prefixed ns name)) names (concat xs) =
      Some (concat (map (fold (\<lambda>n. rename_run n (prefixed ns n)) names) xs))"
  using assms(1)
proof (induction names arbitrary: xs)
  case (Cons n names)
  have n: "is_word n" "is_word (prefixed ns n)" using Cons.prems(3) assms(2) prefixed_word by simp_all
  let ?f = "rename_run n (prefixed ns n)"
  have "segmented (map ?f xs)"
    using Cons.prems(1) n by (intro segmented_map) (auto simp: rename_run_def is_word_def)
  moreover have "list_all ascii (map ?f xs)"
    using Cons.prems(2) word_ascii [OF n(2)] by (auto simp: list_all_iff rename_run_def)
  moreover have "replace_word_boundary (concat xs) n (prefixed ns n) = Some (concat (map ?f xs))"
    using replace_word_runs [OF n(1), of "concat xs"] Cons.prems(1,2) by (simp add: ascii_concat runs_segmented)
  ultimately show ?case using Cons.IH [of "map ?f xs"] Cons.prems(3) by (simp add: comp_def)
qed simp

text \<open>Longest first, a prefixed name is never prefixed again.\<close>

lemma rename_long:
  "\<forall>n \<in> set names. length n < length x \<Longrightarrow> fold (\<lambda>n. rename_run n (prefixed ns n)) names x = x"
  by (induction names) (auto simp: rename_run_def)

lemma rename_sorted:
  "sorted_wrt (\<lambda>a b. length b \<le> length a) names \<Longrightarrow>
     fold (\<lambda>n. rename_run n (prefixed ns n)) names x = (if x \<in> set names then prefixed ns x else x)"
proof (induction names arbitrary: x)
  case (Cons n names)
  show ?case
  proof (cases "x = n")
    case True
    with Cons.prems have "\<forall>m \<in> set names. length m < length (prefixed ns x)" by auto
    from rename_long [OF this, of ns] True show ?thesis by (simp add: rename_run_def [of n])
  next
    case False
    with Cons show ?thesis by (simp add: rename_run_def [of n])
  qed
qed simp

lemma mangle_total: "\<exists>r. mangle_top_level_names s ns = Some r"
proof -
  have "\<exists>r. bind_option (\<lambda>name text. replace_word_boundary text name (prefixed ns name)) names s = Some r"
    if "\<forall>n \<in> set names. is_word n" for names
    using that
  proof (induction names arbitrary: s)
    case (Cons n names)
    then obtain t where "replace_word_boundary s n (prefixed ns n) = Some t" using replace_word_total by fastforce
    with Cons show ?case by simp
  qed simp
  then show ?thesis using top_level_words by (simp add: mangle_top_level_names_def)
qed

text \<open>
  C12. Of an import whose text is ASCII and whose namespace is a word (letters, digits and
  underscores): the names are replaced one after the other in the whole text, but the result is
  the text with every word that is declared at its top level prefixed exactly once, and all else
  unchanged. No part of a longer word is replaced, and no word that the replacement of another
  name has made is prefixed again (a declared \<open>m_f\<close> in the namespace \<open>m\<close> becomes \<open>m_m_f\<close>, a
  declared \<open>f\<close> beside it becomes \<open>m_f\<close>).
\<close>

theorem mangle_prefixes:
  "ascii source \<Longrightarrow> is_word ns \<Longrightarrow>
     mangle_top_level_names source ns =
       Some (concat (map (\<lambda>run. if run \<in> set (find_top_level_names source) then prefixed ns run else run)
         (runs source)))"
proof -
  assume s: "ascii source" and ns: "is_word ns"
  let ?names = "sort_key (\<lambda>name. - int (length (as_bytes name))) (find_top_level_names source)"
  have words: "is_word n" if "n \<in> set ?names" for n using that top_level_words by simp
  have bytes: "length (as_bytes n) = length n" if "n \<in> set ?names" for n
    using as_bytes_ascii word_ascii words [OF that] by simp
  have "sorted (map (\<lambda>name. - int (length (as_bytes name))) ?names)" by simp
  then have "sorted_wrt (\<lambda>a b. length b \<le> length a) ?names"
    unfolding sorted_map using bytes by (auto elim!: sorted_wrt_mono_rel [rotated])
  note fold = rename_sorted [OF this, of ns]
  have "list_all ascii (runs source)" using s ascii_concat [of "runs source"] by (simp add: concat_runs)
  from rename_all_runs [of ?names ns, OF words ns segmented_runs this]
  have "mangle_top_level_names source ns =
      Some (concat (map (fold (\<lambda>n. rename_run n (prefixed ns n)) ?names) (runs source)))"
    by (simp only: mangle_top_level_names_def concat_runs)
  moreover have "map (fold (\<lambda>n. rename_run n (prefixed ns n)) ?names) (runs source) =
      map (\<lambda>run. if run \<in> set (find_top_level_names source) then prefixed ns run else run) (runs source)"
    by (rule map_cong) (simp_all only: fold set_sort)
  ultimately show ?thesis by (simp only:)
qed

lemma mangle_prefixes_witness:
  "mangle_top_level_names (ustr ''fn f() { g(f) }'') (ustr ''m'') = Some (ustr ''fn m_f() { g(m_f) }'')"
proof -
  have "ascii (ustr ''fn f() { g(f) }'')" "is_word (ustr ''m'')"
    "find_top_level_names (ustr ''fn f() { g(f) }'') = [ustr ''f'']" by code_simp+
  moreover have "runs (ustr ''fn f() { g(f) }'') =
    map ustr [''fn'', '' '', ''f'', ''('', '')'', '' '', ''{'', '' '', ''g'', ''('', ''f'', '')'', '' '', ''}'']" by code_simp
  ultimately show ?thesis using mangle_prefixes [of "ustr ''fn f() { g(f) }''" "ustr ''m''"] by simp
qed

text \<open>
  Renaming goes through the whole text: a word in a string literal is prefixed like a
  name, and a character beyond ASCII is replaced by one character for each of its bytes.
\<close>

theorem mangle_rewrites_strings:
  "mangle_top_level_names (ustr ''fn f() { g('' @ [34] @ ustr ''f '' @ [233, 34] @ ustr '') }'') (ustr ''m'') =
     Some (ustr ''fn m_f() { g('' @ [34] @ ustr ''m_f '' @ [195, 169, 34] @ ustr '') }'')"
  by code_simp

section \<open>Files that import one another\<close>

text \<open>
  Files that have been visited are not entered again, so the recursion goes no deeper than
  the number of files. \<open>unseen F st\<close> counts the files of \<open>F\<close> that are left.
\<close>

definition unseen :: "rstring set \<Rightarrow> import_state \<Rightarrow> nat" where
  "unseen F st = card (F - im_visited st)"

definition steady_import :: "rstring set \<Rightarrow> nat \<Rightarrow> (rstring \<Rightarrow> import_state \<Rightarrow> resolved_source importing) \<Rightarrow> bool" where
  "steady_import F n resolve \<longleftrightarrow>
     (\<forall>path st. unseen F st < n \<longrightarrow>
        (case resolve path st of
           Inl e \<Rightarrow> e \<noteq> ImportOutOfFuel
         | Inr (_, st') \<Rightarrow> im_visited st \<subseteq> im_visited st'))"

lemma unseen_mono: "finite F \<Longrightarrow> im_visited st \<subseteq> im_visited st' \<Longrightarrow> unseen F st' \<le> unseen F st"
  unfolding unseen_def by (intro card_mono) auto

lemma import_line_steady:
  assumes "steady_import F n resolve" "finite F" "unseen F st < n"
  shows "case import_line resolve base fid il (res, st) of
      Inl e \<Rightarrow> e \<noteq> ImportOutOfFuel
    | Inr (_, st') \<Rightarrow> im_visited st \<subseteq> im_visited st'"
proof -
  obtain i line where il: "il = (i, line)" by (cases il)
  have sub: "case resolve p st1 of Inl e \<Rightarrow> e \<noteq> ImportOutOfFuel | Inr (_, st') \<Rightarrow> im_visited st \<subseteq> im_visited st'"
    if "im_visited st1 = im_visited st" for p st1
  proof -
    have "unseen F st1 < n" using assms(3) that by (simp add: unseen_def)
    with assms(1) that show ?thesis unfolding steady_import_def by metis
  qed
  show ?thesis
  proof (cases "import_clause line")
    case None
    then show ?thesis by (simp add: import_line_def il)
  next
    case (Some pa)
    then obtain p after where pa: "import_clause line = Some (p, after)" by (cases pa) auto
    show ?thesis
    proof (cases "parse_as_clause after")
      case None
      with sub [of st "path_join base p"] pa show ?thesis
        by (auto simp: import_line_def il and_then_def split: sum.splits)
    next
      case ns: (Some ns)
      show ?thesis
      proof (cases "resolve (path_join base p) (st\<lparr>im_namespaces := []\<rparr>)")
        case (Inl e)
        with sub [of "st\<lparr>im_namespaces := []\<rparr>" "path_join base p"] pa ns show ?thesis
          by (simp add: import_line_def il)
      next
        case (Inr imp)
        obtain imported st' where imp: "imp = (imported, st')" by (cases imp)
        obtain t where "mangle_top_level_names (rs_text imported) ns = Some t" using mangle_total by blast
        with Inr imp pa ns show ?thesis by (simp add: import_line_def il)
      qed
    qed
  qed
qed

lemma import_lines_steady:
  assumes "steady_import F n resolve" "finite F"
  shows "unseen F st < n \<Longrightarrow>
    (case each (import_line resolve base fid) ils (res, st) of
      Inl e \<Rightarrow> e \<noteq> ImportOutOfFuel
    | Inr (_, st') \<Rightarrow> im_visited st \<subseteq> im_visited st')"
proof (induction ils arbitrary: res st)
  case (Cons il ils)
  note line = import_line_steady [OF assms Cons.prems, of base fid il res]
  show ?case
  proof (cases "import_line resolve base fid il (res, st)")
    case (Inr rst)
    obtain res1 st1 where rst: "rst = (res1, st1)" by (cases rst)
    with line Inr have le: "im_visited st \<subseteq> im_visited st1" by simp
    with Cons.prems unseen_mono [OF assms(2) le] Cons.IH [of st1 res1] Inr rst show ?thesis
      by (auto split: sum.splits)
  qed (use line in auto)
qed simp

lemma resolve_imports_steady:
  assumes "finite F" "\<And>path c. fs_canonicalize fs path = Inr c \<Longrightarrow> c \<in> F"
  shows "steady_import F n (resolve_imports n windows fs)"
proof (induction n)
  case (Suc n)
  show ?case
    unfolding steady_import_def
  proof (intro allI impI)
    fix path st
    assume less: "unseen F st < Suc n"
    show "case resolve_imports (Suc n) windows fs path st of
        Inl e \<Rightarrow> e \<noteq> ImportOutOfFuel | Inr (_, st') \<Rightarrow> im_visited st \<subseteq> im_visited st'"
    proof (cases "fs_canonicalize fs path")
      case (Inr c)
      let ?st = "\<lambda>files. st\<lparr>im_visited := insert c (im_visited st), im_files := files\<rparr>"
      show ?thesis
      proof (cases "c \<in> im_visited st")
        case False
        have "c \<in> F - im_visited st" using assms(2) [OF Inr] False by simp
        then have "F - insert c (im_visited st) \<subset> F - im_visited st" by blast
        from psubset_card_mono [OF _ this] assms(1) less have "unseen F (?st files) < n" for files
          by (simp add: unseen_def)
        note lines = import_lines_steady [OF Suc assms(1) this]
        show ?thesis
        proof (cases "intern_file windows c (im_files st)")
          case intern: (Some fidfiles)
          obtain fid files where f: "fidfiles = (fid, files)" by (cases fidfiles)
          show ?thesis
          proof (cases "fs_read fs c")
            case read: (Inr source)
            let ?r = "each (import_line (resolve_imports n windows fs) (path_parent c) fid)
              (List.enumerate 0 (text_lines source)) (rs_empty, ?st files)"
            have "resolve_imports (Suc n) windows fs path st = ?r"
              using Inr False intern f read by (simp add: resolve_with_def)
            with lines [of files "path_parent c" fid "List.enumerate 0 (text_lines source)" rs_empty]
            show ?thesis by (cases ?r) auto
          qed (use Inr False intern f in \<open>simp add: resolve_with_def\<close>)
        qed (use Inr False in \<open>simp add: resolve_with_def\<close>)
      qed (use Inr in \<open>simp add: resolve_with_def\<close>)
    qed (simp add: resolve_with_def)
  qed
qed (simp add: steady_import_def)

end
