(* ===== verification/ImportLines.thy ===== *)
theory ImportLines
  imports ImportProps
begin

text \<open>
  The flattened text and its map of lines stay in step, and in a program without namespaces
  every line is the line of the file that the map names.
\<close>

section \<open>Line feeds\<close>

abbreviation newlines :: "rstring \<Rightarrow> nat" where
  "newlines s \<equiv> count_list s 10"

lemma newlines_word: "is_word w \<Longrightarrow> newlines w = 0"
  by (intro count_notin) (auto simp: is_word_def list_all_iff is_ident_char_def ascii_defs)

lemma newlines_concat: "newlines (concat xs) = sum_list (map newlines xs)"
  by (induction xs) simp_all

lemma newlines_as_bytes: "newlines (as_bytes s) = newlines s"
proof -
  have "newlines (utf8_char c) = (if c = 10 then 1 else 0)" for c by simp
  then show ?thesis by (induction s) (simp_all add: as_bytes_def del: utf8_char.simps)
qed

lemma newlines_replace:
  assumes "replace_word_boundary s w r = Some t" "is_word w" "newlines r = 0"
  shows "newlines t = newlines s"
proof -
  have t: "t = concat (map (rename_run w r) (runs (as_bytes s)))"
    using replace_runs [OF assms(2), of "[]" "as_bytes s" r] assms(1,2)
    by (simp add: replace_word_boundary_def as_bytes_ascii word_ascii)
  have "newlines (rename_run w r run) = newlines run" for run
    using newlines_word [OF assms(2)] assms(3) by (simp add: rename_run_def)
  then have "newlines t = newlines (concat (runs (as_bytes s)))" by (simp add: t newlines_concat comp_def)
  then show ?thesis by (simp add: concat_runs newlines_as_bytes)
qed

lemma newlines_mangle:
  assumes "mangle_top_level_names s ns = Some t" "is_word ns"
  shows "newlines t = newlines s"
proof -
  have "bind_option (\<lambda>name text. replace_word_boundary text name (prefixed ns name)) names s = Some t \<Longrightarrow>
      \<forall>n \<in> set names. is_word n \<Longrightarrow> newlines t = newlines s" for names
  proof (induction names arbitrary: s)
    case (Cons n names)
    then obtain u where u: "replace_word_boundary s n (prefixed ns n) = Some u"
      "bind_option (\<lambda>name text. replace_word_boundary text name (prefixed ns name)) names u = Some t"
      by (auto split: bind_splits)
    have "newlines (prefixed ns n) = 0" using Cons.prems(2) assms(2) newlines_word by simp
    with Cons u newlines_replace [OF u(1)] show ?case by simp
  qed simp
  with assms(1) top_level_words show ?thesis unfolding mangle_top_level_names_def by force
qed

lemma newlines_dots:
  assumes "newlines ns = 0" "newlines u = 0"
  shows "newlines (replace_dots bytes ns u i) = newlines (drop i bytes)"
  using assms
proof (induction bytes ns u i rule: replace_dots.induct)
  case (1 bytes ns u i)
  show ?case
  proof (cases "i < length bytes")
    case True
    have split: "newlines (drop i bytes) = newlines (take k (drop i bytes)) + newlines (drop (i + k) bytes)" for k
      by (metis append_take_drop_id count_list_append drop_drop add.commute)
    have first: "newlines (drop i bytes) = (if bytes ! i = 10 then 1 else 0) + newlines (drop (Suc i) bytes)"
      using True by (simp flip: Cons_nth_drop_Suc)
    show ?thesis
      using 1 True first split [of "length (ns @ [46])"]
      by (subst replace_dots.simps) (auto simp del: drop_drop)
  qed (simp add: replace_dots.simps)
qed

lemma newlines_ns_dot: "is_word ns \<Longrightarrow> newlines (replace_ns_dot s ns) = newlines s"
  using newlines_dots [of ns "ns @ [95]" "as_bytes s" 0] newlines_word newlines_as_bytes
  by (simp add: replace_ns_dot_def as_bytes_ascii word_ascii)

lemma newlines_lines_from: "newlines acc = 0 \<Longrightarrow> \<forall>l \<in> set (lines_from acc s). newlines l = 0"
proof (induction acc s rule: lines_from.induct)
  case (2 acc c cs)
  have "newlines (strip_cr acc) = 0"
    using 2(3) by (auto simp: strip_cr_def count_list_0_iff dest: in_set_butlastD)
  with 2 show ?case by auto
qed simp

lemma newlines_text_lines: "l \<in> set (text_lines s) \<Longrightarrow> newlines l = 0"
  using newlines_lines_from [of "[]" s] by (simp add: text_lines_def)

lemma as_clause_word: "parse_as_clause s = Some ns \<Longrightarrow> is_word ns"
  by (auto simp: parse_as_clause_def is_word_def is_ident_char_def list_all_iff Let_def split: option.splits if_splits)

section \<open>Text and map in step\<close>

definition in_step :: "resolved_source \<Rightarrow> bool" where
  "in_step r \<longleftrightarrow> length (rs_lines r) = newlines (rs_text r)"

lemma in_step_simps [simp]:
  "in_step rs_empty"
  "in_step a \<Longrightarrow> in_step b \<Longrightarrow> in_step (rs_append a b)"
  "in_step a \<Longrightarrow> newlines t = 0 \<Longrightarrow> in_step (push_line t origin a)"
  by (simp_all add: in_step_def rs_empty_def rs_append_def push_line_def)

definition keeps_step :: "(rstring \<Rightarrow> import_state \<Rightarrow> resolved_source importing) \<Rightarrow> bool" where
  "keeps_step resolve \<longleftrightarrow>
     (\<forall>path st r st'. resolve path st = Inr (r, st') \<longrightarrow> list_all is_word (im_namespaces st) \<longrightarrow>
        in_step r \<and> list_all is_word (im_namespaces st'))"

lemma import_line_step:
  assumes "keeps_step resolve" "import_line resolve base fid (i, line) (r, st) = Inr (r', st')"
    and "newlines line = 0" "in_step r" "list_all is_word (im_namespaces st)"
  shows "in_step r' \<and> list_all is_word (im_namespaces st')"
proof (cases "import_clause line")
  case None
  with assms show ?thesis by (auto simp: import_line_def split: if_splits)
next
  case (Some pa)
  then obtain p after where pa: "import_clause line = Some (p, after)" by (cases pa) auto
  show ?thesis
  proof (cases "parse_as_clause after")
    case None
    with assms pa show ?thesis by (fastforce simp: import_line_def and_then_eq_Inr keeps_step_def)
  next
    case (Some ns)
    with assms(2) pa obtain imported st1 t where
      imp: "resolve (path_join base p) (st\<lparr>im_namespaces := []\<rparr>) = Inr (imported, st1)"
      and t: "mangle_top_level_names (rs_text imported) ns = Some t"
      and r': "r' = push_line [] None (rs_append r (imported\<lparr>rs_text := t\<rparr>))"
      and st': "im_namespaces st' = im_namespaces st @ [ns] @ im_namespaces st1"
      by (auto simp: import_line_def and_then_eq_Inr)
    from assms(1) imp have "in_step imported" "list_all is_word (im_namespaces st1)"
      unfolding keeps_step_def by fastforce+
    moreover have "newlines t = newlines (rs_text imported)"
      using newlines_mangle [OF t] as_clause_word [OF Some] by simp
    ultimately show ?thesis using as_clause_word [OF Some] assms(4,5) r' st' by (simp add: in_step_def rs_append_def push_line_def)
  qed
qed

lemma import_lines_step:
  assumes "keeps_step resolve"
  shows "each (import_line resolve base fid) ils (r, st) = Inr (r', st') \<Longrightarrow>
    \<forall>il \<in> set ils. newlines (snd il) = 0 \<Longrightarrow> in_step r \<Longrightarrow> list_all is_word (im_namespaces st) \<Longrightarrow>
    in_step r' \<and> list_all is_word (im_namespaces st')"
proof (induction ils arbitrary: r st)
  case (Cons il ils)
  then obtain r1 st1 where il: "import_line resolve base fid il (r, st) = Inr (r1, st1)"
    "each (import_line resolve base fid) ils (r1, st1) = Inr (r', st')"
    by (auto simp: and_then_eq_Inr)
  with import_line_step [OF assms, of base fid "fst il" "snd il" r st r1 st1] Cons show ?case by simp
qed simp

lemma resolve_step: "keeps_step (resolve_imports n windows fs)"
proof (induction n)
  case (Suc n)
  show ?case
    unfolding keeps_step_def
  proof (intro allI impI)
    fix path st r st'
    assume res: "resolve_imports (Suc n) windows fs path st = Inr (r, st')" and ns: "list_all is_word (im_namespaces st)"
    show "in_step r \<and> list_all is_word (im_namespaces st')"
    proof (cases "\<exists>c. fs_canonicalize fs path = Inr c \<and> c \<in> im_visited st")
      case True
      with res ns show ?thesis by (auto simp: resolve_with_def)
    next
      case False
      with res obtain c fid files source where
        "each (import_line (resolve_imports n windows fs) (path_parent c) fid)
          (List.enumerate 0 (text_lines source))
          (rs_empty, st\<lparr>im_visited := insert c (im_visited st), im_files := files\<rparr>) = Inr (r, st')"
        by (auto simp: resolve_with_def split: sum.splits option.splits if_splits)
      moreover have "\<forall>il \<in> set (List.enumerate 0 (text_lines source)). newlines (snd il) = 0"
        by (auto simp: in_set_enumerate_eq intro!: newlines_text_lines [OF nth_mem])
      ultimately show ?thesis using import_lines_step [OF Suc] ns by fastforce
    qed
  qed
qed (simp add: keeps_step_def)

text \<open>
  C15. The flattened text and the map of its lines stay in step: the map has one entry for
  every line feed of the text, after imports, prefixed names and qualified names.
\<close>

theorem flatten_in_step:
  "flatten n windows fs path = Inr (text, m) \<Longrightarrow> length (sm_lines m) = count_list text 10"
proof -
  assume "flatten n windows fs path = Inr (text, m)"
  then obtain r st where r: "resolve_imports n windows fs path
      \<lparr>im_visited = {}, im_namespaces = [], im_files = builder_new\<rparr> = Inr (r, st)"
    and flat: "text = fold (\<lambda>ns text. replace_ns_dot text ns) (im_namespaces st) (rs_text r)"
    and m: "sm_lines m = rs_lines r"
    by (auto simp: flatten_def and_then_eq_Inr builder_finish_def)
  from resolve_step [of n windows fs] r have "in_step r" "list_all is_word (im_namespaces st)"
    unfolding keeps_step_def by fastforce+
  moreover have "list_all is_word nss \<Longrightarrow>
      newlines (fold (\<lambda>ns text. replace_ns_dot text ns) nss s) = newlines s" for nss s
    by (induction nss arbitrary: s) (simp_all add: newlines_ns_dot)
  ultimately show ?thesis using flat m by (simp add: in_step_def)
qed

section \<open>Where the lines come from\<close>

text \<open>A line of the flattened text and its origin: an import leaves an empty line without one.\<close>

definition comes_from :: "bool \<Rightarrow> file_system \<Rightarrow> source_map_builder \<Rightarrow> rstring \<Rightarrow> source_line option \<Rightarrow> bool" where
  "comes_from windows fs b line origin \<longleftrightarrow>
     (case origin of
        None \<Rightarrow> line = []
      | Some sl \<Rightarrow>
          sl_file sl < length (smb_files b) \<and>
          (\<exists>c source. smb_files b ! sl_file sl = debugger_path windows c \<and> fs_read fs c = Inr source \<and>
             0 < sl_line sl \<and> sl_line sl \<le> length (text_lines source) \<and>
             text_lines source ! (sl_line sl - 1) = line))"

definition traced :: "bool \<Rightarrow> file_system \<Rightarrow> source_map_builder \<Rightarrow> resolved_source \<Rightarrow> bool" where
  "traced windows fs b r \<longleftrightarrow>
     (\<exists>ls. rs_text r = concat (map (\<lambda>l. l @ [10]) ls) \<and> list_all2 (comes_from windows fs b) ls (rs_lines r))"

definition more_files :: "source_map_builder \<Rightarrow> source_map_builder \<Rightarrow> bool" where
  "more_files b b' \<longleftrightarrow> (\<exists>more. smb_files b' = smb_files b @ more)"

lemma more_files_refl [simp]: "more_files b b"
  by (simp add: more_files_def)

lemma more_files_trans: "more_files a b \<Longrightarrow> more_files b c \<Longrightarrow> more_files a c"
  by (auto simp: more_files_def)

lemma comes_from_more: "comes_from windows fs b l origin \<Longrightarrow> more_files b b' \<Longrightarrow> comes_from windows fs b' l origin"
  by (fastforce simp: comes_from_def more_files_def nth_append split: option.splits)

lemma traced_more: "traced windows fs b r \<Longrightarrow> more_files b b' \<Longrightarrow> traced windows fs b' r"
  unfolding traced_def by (blast intro: list_all2_mono comes_from_more)

lemma traced_empty [simp]: "traced windows fs b rs_empty"
  by (auto simp: traced_def rs_empty_def)

lemma tracedI:
  "rs_text r = concat (map (\<lambda>l. l @ [10]) ls) \<Longrightarrow> list_all2 (comes_from windows fs b) ls (rs_lines r) \<Longrightarrow>
     traced windows fs b r"
  by (auto simp: traced_def)

lemma tracedE:
  assumes "traced windows fs b r"
  obtains ls where "rs_text r = concat (map (\<lambda>l. l @ [10]) ls)" "list_all2 (comes_from windows fs b) ls (rs_lines r)"
  using assms by (auto simp: traced_def)

lemma traced_append: "traced windows fs b r \<Longrightarrow> traced windows fs b s \<Longrightarrow> traced windows fs b (rs_append r s)"
proof (elim tracedE)
  fix ls ls'
  assume "rs_text r = concat (map (\<lambda>l. l @ [10]) ls)" "list_all2 (comes_from windows fs b) ls (rs_lines r)"
    "rs_text s = concat (map (\<lambda>l. l @ [10]) ls')" "list_all2 (comes_from windows fs b) ls' (rs_lines s)"
  then show ?thesis by (intro tracedI [of _ "ls @ ls'"]) (simp_all add: rs_append_def list_all2_appendI)
qed

lemma traced_push:
  "traced windows fs b r \<Longrightarrow> comes_from windows fs b l origin \<Longrightarrow> traced windows fs b (push_line l origin r)"
proof (elim tracedE)
  fix ls
  assume "rs_text r = concat (map (\<lambda>l. l @ [10]) ls)" "list_all2 (comes_from windows fs b) ls (rs_lines r)"
    "comes_from windows fs b l origin"
  then show ?thesis by (intro tracedI [of _ "ls @ [l]"]) (simp_all add: push_line_def list_all2_appendI)
qed

definition traces :: "bool \<Rightarrow> file_system \<Rightarrow> (rstring \<Rightarrow> import_state \<Rightarrow> resolved_source importing) \<Rightarrow> bool" where
  "traces windows fs resolve \<longleftrightarrow>
     (\<forall>path st r st'. resolve path st = Inr (r, st') \<longrightarrow> wf_builder (im_files st) \<longrightarrow>
        wf_builder (im_files st') \<and> more_files (im_files st) (im_files st') \<and>
        (\<exists>nss. im_namespaces st' = im_namespaces st @ nss \<and> (nss = [] \<longrightarrow> traced windows fs (im_files st') r)))"

lemma import_line_traced:
  assumes "traces windows fs resolve" "import_line resolve base fid (i, line) (r, st) = Inr (r', st')"
    and "wf_builder (im_files st)" "comes_from windows fs (im_files st) line (Some \<lparr>sl_file = fid, sl_line = i + 1\<rparr>)"
  shows "wf_builder (im_files st') \<and> more_files (im_files st) (im_files st') \<and>
    (\<exists>nss. im_namespaces st' = im_namespaces st @ nss \<and>
      (nss = [] \<longrightarrow> traced windows fs (im_files st) r \<longrightarrow> traced windows fs (im_files st') r'))"
proof (cases "import_clause line")
  case None
  with assms show ?thesis by (auto simp: import_line_def intro: traced_push split: if_splits)
next
  case (Some pa)
  then obtain p after where pa: "import_clause line = Some (p, after)" by (cases pa) auto
  show ?thesis
  proof (cases "parse_as_clause after")
    case None
    with assms(2) pa obtain imported where imp: "resolve (path_join base p) st = Inr (imported, st')"
      "r' = push_line [] None (rs_append r imported)"
      by (auto simp: import_line_def and_then_eq_Inr)
    from assms(1,3) imp(1) obtain nss where "wf_builder (im_files st')" "more_files (im_files st) (im_files st')"
      "im_namespaces st' = im_namespaces st @ nss" "nss = [] \<longrightarrow> traced windows fs (im_files st') imported"
      unfolding traces_def by blast
    with imp(2) show ?thesis
      by (auto intro!: traced_push traced_append intro: traced_more simp: comes_from_def)
  next
    case (Some ns)
    with assms(2) pa obtain imported st1 where
      imp: "resolve (path_join base p) (st\<lparr>im_namespaces := []\<rparr>) = Inr (imported, st1)"
      and st': "im_files st' = im_files st1" "im_namespaces st' = im_namespaces st @ [ns] @ im_namespaces st1"
      by (auto simp: import_line_def and_then_eq_Inr)
    from assms(1) imp have "wf_builder (im_files st1) \<and> more_files (im_files st) (im_files st1)"
      using assms(3) unfolding traces_def by fastforce
    with st' show ?thesis by auto
  qed
qed

lemma import_lines_traced:
  assumes "traces windows fs resolve" "fs_read fs c = Inr source"
  shows "each (import_line resolve base fid) ils (r, st) = Inr (r', st') \<Longrightarrow>
    \<forall>(i, line) \<in> set ils. i < length (text_lines source) \<and> text_lines source ! i = line \<Longrightarrow>
    wf_builder (im_files st) \<Longrightarrow> fid < length (smb_files (im_files st)) \<Longrightarrow>
    smb_files (im_files st) ! fid = debugger_path windows c \<Longrightarrow>
    wf_builder (im_files st') \<and> more_files (im_files st) (im_files st') \<and>
    (\<exists>nss. im_namespaces st' = im_namespaces st @ nss \<and>
      (nss = [] \<longrightarrow> traced windows fs (im_files st) r \<longrightarrow> traced windows fs (im_files st') r'))"
proof (induction ils arbitrary: r st)
  case (Cons il ils)
  obtain i line where il: "il = (i, line)" by (cases il)
  with Cons.prems(1) obtain r1 st1 where step: "import_line resolve base fid (i, line) (r, st) = Inr (r1, st1)"
    "each (import_line resolve base fid) ils (r1, st1) = Inr (r', st')"
    by (auto simp: and_then_eq_Inr)
  have "comes_from windows fs (im_files st) line (Some \<lparr>sl_file = fid, sl_line = i + 1\<rparr>)"
    using Cons.prems(2,4,5) assms(2) il by (auto simp: comes_from_def)
  from import_line_traced [OF assms(1) step(1) Cons.prems(3) this] obtain nss where one:
    "wf_builder (im_files st1)" "more_files (im_files st) (im_files st1)"
    "im_namespaces st1 = im_namespaces st @ nss"
    "nss = [] \<Longrightarrow> traced windows fs (im_files st) r \<Longrightarrow> traced windows fs (im_files st1) r1" by blast
  have "fid < length (smb_files (im_files st1))" "smb_files (im_files st1) ! fid = debugger_path windows c"
    using one(2) Cons.prems(4,5) by (auto simp: more_files_def nth_append)
  with Cons.IH [OF step(2) _ one(1)] Cons.prems(2) obtain nss' where
    "wf_builder (im_files st')" "more_files (im_files st1) (im_files st')"
    "im_namespaces st' = im_namespaces st1 @ nss'"
    "nss' = [] \<Longrightarrow> traced windows fs (im_files st1) r1 \<Longrightarrow> traced windows fs (im_files st') r'" by auto
  with one more_files_trans show ?case by (intro conjI exI [of _ "nss @ nss'"]) auto
qed simp

lemma resolve_traces: "traces windows fs (resolve_imports n windows fs)"
proof (induction n)
  case (Suc n)
  show ?case
    unfolding traces_def
  proof (intro allI impI)
    fix path st r st'
    assume res: "resolve_imports (Suc n) windows fs path st = Inr (r, st')" and wf: "wf_builder (im_files st)"
    show "wf_builder (im_files st') \<and> more_files (im_files st) (im_files st') \<and>
        (\<exists>nss. im_namespaces st' = im_namespaces st @ nss \<and> (nss = [] \<longrightarrow> traced windows fs (im_files st') r))"
    proof (cases "\<exists>c. fs_canonicalize fs path = Inr c \<and> c \<in> im_visited st")
      case True
      with res wf show ?thesis by (auto simp: resolve_with_def)
    next
      case False
      with res obtain c fid files source where
        intern: "intern_file windows c (im_files st) = Some (fid, files)" and read: "fs_read fs c = Inr source"
        and ls: "each (import_line (resolve_imports n windows fs) (path_parent c) fid)
          (List.enumerate 0 (text_lines source))
          (rs_empty, st\<lparr>im_visited := insert c (im_visited st), im_files := files\<rparr>) = Inr (r, st')"
        by (auto simp: resolve_with_def split: sum.splits option.splits if_splits)
      have "\<forall>(i, line) \<in> set (List.enumerate 0 (text_lines source)).
          i < length (text_lines source) \<and> text_lines source ! i = line"
        by (auto simp: in_set_enumerate_eq)
      from import_lines_traced [OF Suc read ls this] intern_file_wf [OF wf intern]
      show ?thesis by (auto simp: more_files_def)
    qed
  qed
qed (simp add: traces_def)

text \<open>
  C14. In a program that uses no namespaces the map tells the truth: the flattened text is a
  sequence of lines, and every line is either empty and stands for an import, or it is the
  line of the file that its entry of the map names.
\<close>

theorem origins_of_lines:
  "resolve_imports n windows fs path \<lparr>im_visited = {}, im_namespaces = [], im_files = builder_new\<rparr> = Inr (r, st) \<Longrightarrow>
   im_namespaces st = [] \<Longrightarrow>
     \<exists>ls. rs_text r = concat (map (\<lambda>l. l @ [10]) ls) \<and>
       list_all2 (comes_from windows fs (im_files st)) ls (rs_lines r)"
  using resolve_traces [of windows fs n] wf_builder_new
  unfolding traces_def traced_def by fastforce

section \<open>A program of two files\<close>

text \<open>
  \<open>/m.osc\<close> imports \<open>a.osc\<close>, which imports \<open>m.osc\<close> in turn.
\<close>

definition two_files :: file_system where
  "two_files =
     (let known = (\<lambda>p. if p = ustr ''/m.osc'' \<or> p = ustr ''/a.osc'' then Inr p else Inl (ustr ''no such file'')) in
      \<lparr>fs_canonicalize = known,
       fs_read = (\<lambda>p.
         if p = ustr ''/m.osc'' then Inr (ustr ''use '' @ [34] @ ustr ''a.osc'' @ [34, 10] @ ustr ''fn f() {}'' @ [10])
         else if p = ustr ''/a.osc'' then Inr (ustr ''fn g() {}'' @ [10] @ ustr ''use '' @ [34] @ ustr ''m.osc'' @ [34])
         else Inl (ustr ''no such file''))\<rparr>)"

definition two_files_text :: rstring where
  "two_files_text = ustr ''fn g() {}'' @ [10, 10, 10] @ ustr ''fn f() {}'' @ [10]"

definition two_files_lines :: "source_line option list" where
  "two_files_lines =
     [Some \<lparr>sl_file = 1, sl_line = 1\<rparr>, None, None, Some \<lparr>sl_file = 0, sl_line = 2\<rparr>]"

lemma two_files_lines_of:
  "text_lines (ustr ''use '' @ [34] @ ustr ''a.osc'' @ [34, 10] @ ustr ''fn f() {}'' @ [10]) =
     [ustr ''use '' @ [34] @ ustr ''a.osc'' @ [34], ustr ''fn f() {}'']"
  "text_lines (ustr ''fn g() {}'' @ [10] @ ustr ''use '' @ [34] @ ustr ''m.osc'' @ [34]) =
     [ustr ''fn g() {}'', ustr ''use '' @ [34] @ ustr ''m.osc'' @ [34]]"
  by code_simp+

lemma two_files_clauses:
  "import_clause (ustr ''use '' @ [34] @ ustr ''a.osc'' @ [34]) = Some (ustr ''a.osc'', [])"
  "import_clause (ustr ''use '' @ [34] @ ustr ''m.osc'' @ [34]) = Some (ustr ''m.osc'', [])"
  "import_clause (ustr ''fn f() {}'') = None" "import_clause (ustr ''fn g() {}'') = None"
  "parse_as_clause [] = None"
  "path_join (path_parent (ustr ''/m.osc'')) (ustr ''a.osc'') = ustr ''/a.osc''"
  "path_join (path_parent (ustr ''/a.osc'')) (ustr ''m.osc'') = ustr ''/m.osc''"
  "ustr ''/a.osc'' \<noteq> ustr ''/m.osc''"
  by (simp_all add: import_clause_def trim_def trim_end_def is_whitespace_def parse_as_clause_def
      path_join_def path_parent_def Let_def)

lemma two_files_resolve:
  "resolve_imports 3 False two_files (ustr ''/m.osc'')
     \<lparr>im_visited = {}, im_namespaces = [], im_files = builder_new\<rparr> =
   Inr (\<lparr>rs_text = two_files_text, rs_lines = two_files_lines\<rparr>,
     \<lparr>im_visited = {ustr ''/a.osc'', ustr ''/m.osc''}, im_namespaces = [],
      im_files = \<lparr>smb_files = map ustr [''/m.osc'', ''/a.osc''],
        smb_file_ids = [ustr ''/m.osc'' \<mapsto> 0, ustr ''/a.osc'' \<mapsto> 1]\<rparr>\<rparr>)"
proof -
  have intern: "intern_file False (ustr ''/m.osc'') builder_new =
      Some (0, \<lparr>smb_files = [ustr ''/m.osc''], smb_file_ids = [ustr ''/m.osc'' \<mapsto> 0]\<rparr>)"
    "intern_file False (ustr ''/a.osc'') \<lparr>smb_files = [ustr ''/m.osc''], smb_file_ids = [ustr ''/m.osc'' \<mapsto> 0]\<rparr> =
      Some (1, \<lparr>smb_files = map ustr [''/m.osc'', ''/a.osc''],
        smb_file_ids = [ustr ''/m.osc'' \<mapsto> 0, ustr ''/a.osc'' \<mapsto> 1]\<rparr>)"
    using two_files_clauses(8) by (simp_all add: intern_file_def builder_new_def debugger_path_def Let_def)
  note facts = two_files_lines_of two_files_clauses intern
  have known: "fs_canonicalize two_files (ustr ''/m.osc'') = Inr (ustr ''/m.osc'')"
    "fs_canonicalize two_files (ustr ''/a.osc'') = Inr (ustr ''/a.osc'')"
    "fs_read two_files (ustr ''/m.osc'') = Inr (ustr ''use '' @ [34] @ ustr ''a.osc'' @ [34, 10] @ ustr ''fn f() {}'' @ [10])"
    "fs_read two_files (ustr ''/a.osc'') = Inr (ustr ''fn g() {}'' @ [10] @ ustr ''use '' @ [34] @ ustr ''m.osc'' @ [34])"
    using two_files_clauses(8) by (simp_all only: two_files_def Let_def file_system.simps if_True if_False simp_thms)
  have small: "(u32_max < 0 + 1) = False" "(u32_max < Suc 0 + 1) = False" by simp_all
  have "resolve_imports 3 False two_files (ustr ''/m.osc'')
     \<lparr>im_visited = {}, im_namespaces = [], im_files = builder_new\<rparr> =
   Inr (push_line (ustr ''fn f() {}'') (Some \<lparr>sl_file = 0, sl_line = Suc 0 + 1\<rparr>)
          (push_line [] None (rs_append rs_empty
            (push_line [] None (rs_append
              (push_line (ustr ''fn g() {}'') (Some \<lparr>sl_file = 1, sl_line = 0 + 1\<rparr>) rs_empty) rs_empty)))),
     \<lparr>im_visited = {ustr ''/a.osc'', ustr ''/m.osc''}, im_namespaces = [],
      im_files = \<lparr>smb_files = map ustr [''/m.osc'', ''/a.osc''],
        smb_file_ids = [ustr ''/m.osc'' \<mapsto> 0, ustr ''/a.osc'' \<mapsto> 1]\<rparr>\<rparr>)"
    by (simp only: numeral_3_eq_3 resolve_imports.simps resolve_with_def known sum.case option.case prod.case
        import_state.simps facts insert_iff empty_iff if_False if_True each.simps enumerate_simps import_line_def
        Let_def and_then_simps small simp_thms)
  then show ?thesis
    by (simp add: push_line_def rs_append_def rs_empty_def two_files_text_def two_files_lines_def)
qed

lemma two_files_flat:
  "flatten 3 False two_files (ustr ''/m.osc'') =
     Inr (two_files_text, \<lparr>sm_files = map ustr [''/m.osc'', ''/a.osc''], sm_lines = two_files_lines\<rparr>)"
  by (simp only: flatten_def two_files_resolve and_then_simps prod.case) (simp add: builder_finish_def)

lemma flatten_in_step_witness: "length two_files_lines = count_list two_files_text 10"
  using flatten_in_step [OF two_files_flat] by simp

lemma origins_of_lines_witness:
  "\<exists>ls. two_files_text = concat (map (\<lambda>l. l @ [10]) ls) \<and>
     list_all2 (comes_from False two_files
       \<lparr>smb_files = map ustr [''/m.osc'', ''/a.osc''],
        smb_file_ids = [ustr ''/m.osc'' \<mapsto> 0, ustr ''/a.osc'' \<mapsto> 1]\<rparr>) ls two_files_lines"
  using origins_of_lines [OF two_files_resolve] by simp

text \<open>
  C13. Imports end: in a file system with finitely many files, flattening terminates for every
  start, also when files import themselves or one another, within as many nested calls as
  there are files and one more.
\<close>

theorem imports_terminate:
  "finite F \<Longrightarrow> (\<And>path c. fs_canonicalize fs path = Inr c \<Longrightarrow> c \<in> F) \<Longrightarrow> card F < n \<Longrightarrow>
     flatten n windows fs path \<noteq> Inl ImportOutOfFuel"
proof -
  assume F: "finite F" "\<And>path c. fs_canonicalize fs path = Inr c \<Longrightarrow> c \<in> F" "card F < n"
  let ?st = "\<lparr>im_visited = {}, im_namespaces = [], im_files = builder_new\<rparr>"
  have "unseen F ?st < n" using F(3) by (simp add: unseen_def)
  with resolve_imports_steady [OF F(1,2), where n = n and windows = windows] have
    "case resolve_imports n windows fs path ?st of Inl e \<Rightarrow> e \<noteq> ImportOutOfFuel | Inr _ \<Rightarrow> True"
    by (fastforce simp: steady_import_def split: sum.splits)
  then show ?thesis by (auto simp: flatten_def and_then_def split: sum.splits)
qed

lemma imports_terminate_witness: "flatten 3 False two_files (ustr ''/m.osc'') \<noteq> Inl ImportOutOfFuel"
proof -
  have "fs_canonicalize two_files path = Inr c \<Longrightarrow> c \<in> {ustr ''/m.osc'', ustr ''/a.osc''}" for path c
    by (auto simp: two_files_def Let_def split: if_splits)
  moreover have "card {ustr ''/m.osc'', ustr ''/a.osc''} < 3" by simp
  ultimately show ?thesis by (intro imports_terminate [of "{ustr ''/m.osc'', ustr ''/a.osc''}"]) simp_all
qed

end
