(* ===== verification/CSource.thy ===== *)
theory CSource
  imports ImportLines CFrame
begin

text \<open>
  The positions that the C code generator prints are those of the map of the flattened source; each
  of them lies in a file of the map, also in a program with namespaces.
\<close>

definition names_files :: "source_map_builder \<Rightarrow> resolved_source \<Rightarrow> bool" where
  "names_files b r \<longleftrightarrow> (\<forall>sl. Some sl \<in> set (rs_lines r) \<longrightarrow> sl_file sl < length (smb_files b))"

lemma names_files_simps [simp]:
  "names_files b rs_empty"
  "names_files b (rs_append r s) \<longleftrightarrow> names_files b r \<and> names_files b s"
  "names_files b (push_line t origin r) \<longleftrightarrow>
     names_files b r \<and> (\<forall>sl. origin = Some sl \<longrightarrow> sl_file sl < length (smb_files b))"
  "names_files b (r\<lparr>rs_text := t\<rparr>) \<longleftrightarrow> names_files b r"
  by (auto simp: names_files_def rs_empty_def rs_append_def push_line_def)

lemma names_files_more: "names_files b r \<Longrightarrow> more_files b b' \<Longrightarrow> names_files b' r"
  by (auto simp: names_files_def more_files_def)

definition keeps_files :: "(rstring \<Rightarrow> import_state \<Rightarrow> resolved_source importing) \<Rightarrow> bool" where
  "keeps_files importer \<longleftrightarrow>
     (\<forall>path st r st'. importer path st = Inr (r, st') \<longrightarrow> wf_builder (im_files st) \<longrightarrow>
        wf_builder (im_files st') \<and> more_files (im_files st) (im_files st') \<and> names_files (im_files st') r)"

lemma import_line_files:
  assumes "keeps_files importer" "import_line importer base fid (i, line) (r, st) = Inr (r', st')"
    and "wf_builder (im_files st)" "names_files (im_files st) r" "fid < length (smb_files (im_files st))"
  shows "wf_builder (im_files st') \<and> more_files (im_files st) (im_files st') \<and> names_files (im_files st') r'"
proof (cases "import_clause line")
  case None
  with assms show ?thesis by (auto simp: import_line_def split: if_splits)
next
  case (Some pa)
  then obtain p after where pa: "import_clause line = Some (p, after)" by (cases pa) auto
  show ?thesis
  proof (cases "parse_as_clause after")
    case None
    with assms(2) pa obtain imported where
      imp: "importer (path_join base p) st = Inr (imported, st')"
      and r': "r' = push_line [] None (rs_append r imported)"
      by (auto simp: import_line_def and_then_eq_Inr)
    from assms(1,3) imp have "wf_builder (im_files st')" "more_files (im_files st) (im_files st')"
      "names_files (im_files st') imported"
      unfolding keeps_files_def by blast+
    with r' names_files_more [OF assms(4)] show ?thesis by simp
  next
    case (Some ns)
    with assms(2) pa obtain imported st1 t where
      imp: "importer (path_join base p) (st\<lparr>im_namespaces := []\<rparr>) = Inr (imported, st1)"
      and r': "r' = push_line [] None (rs_append r (imported\<lparr>rs_text := t\<rparr>))"
      and st': "im_files st' = im_files st1"
      by (auto simp: import_line_def and_then_eq_Inr)
    have "wf_builder (im_files (st\<lparr>im_namespaces := []\<rparr>))" using assms(3) by simp
    with assms(1) imp have "wf_builder (im_files st1) \<and>
        more_files (im_files (st\<lparr>im_namespaces := []\<rparr>)) (im_files st1) \<and> names_files (im_files st1) imported"
      unfolding keeps_files_def by blast
    with r' st' names_files_more [OF assms(4)] show ?thesis by simp
  qed
qed

lemma import_lines_files:
  assumes "keeps_files importer"
  shows "each (import_line importer base fid) ils (r, st) = Inr (r', st') \<Longrightarrow> wf_builder (im_files st) \<Longrightarrow>
    names_files (im_files st) r \<Longrightarrow> fid < length (smb_files (im_files st)) \<Longrightarrow>
    wf_builder (im_files st') \<and> more_files (im_files st) (im_files st') \<and> names_files (im_files st') r'"
proof (induction ils arbitrary: r st)
  case (Cons il ils)
  then obtain r1 st1 where il: "import_line importer base fid il (r, st) = Inr (r1, st1)"
    "each (import_line importer base fid) ils (r1, st1) = Inr (r', st')"
    by (auto simp: and_then_eq_Inr)
  from import_line_files [OF assms, of base fid "fst il" "snd il" r st r1 st1] il(1) Cons.prems(2-4)
  have step: "wf_builder (im_files st1)" "more_files (im_files st) (im_files st1)" "names_files (im_files st1) r1"
    by simp_all
  have "fid < length (smb_files (im_files st1))"
    using step(2) Cons.prems(4) by (auto simp: more_files_def)
  from Cons.IH [OF il(2) step(1,3) this] step(2) show ?case by (blast intro: more_files_trans)
qed simp

lemma resolve_files: "keeps_files (resolve_imports n windows fs)"
proof (induction n)
  case (Suc n)
  show ?case
    unfolding keeps_files_def
  proof (intro allI impI)
    fix path st r st'
    assume res: "resolve_imports (Suc n) windows fs path st = Inr (r, st')" and wf: "wf_builder (im_files st)"
    show "wf_builder (im_files st') \<and> more_files (im_files st) (im_files st') \<and> names_files (im_files st') r"
    proof (cases "\<exists>c. fs_canonicalize fs path = Inr c \<and> c \<in> im_visited st")
      case True
      with res wf show ?thesis by (auto simp: resolve_with_def)
    next
      case False
      with res obtain c fid files source where
        intern: "intern_file windows c (im_files st) = Some (fid, files)"
        and ls: "each (import_line (resolve_imports n windows fs) (path_parent c) fid)
          (List.enumerate 0 (text_lines source))
          (rs_empty, st\<lparr>im_visited := insert c (im_visited st), im_files := files\<rparr>) = Inr (r, st')"
        by (auto simp: resolve_with_def split: sum.splits option.splits if_splits)
      have "wf_builder files" "fid < length (smb_files files)" "more_files (im_files st) files"
        using intern_file_wf [OF wf intern] by (auto simp: more_files_def)
      with import_lines_files [OF Suc ls] show ?thesis by (auto intro: more_files_trans)
    qed
  qed
qed (simp add: keeps_files_def)

lemma flatten_files_known:
  assumes "flatten n windows fs path = Inr (flat, m)"
  shows "files_known m"
proof -
  from assms obtain r st where r: "resolve_imports n windows fs path
      \<lparr>im_visited = {}, im_namespaces = [], im_files = builder_new\<rparr> = Inr (r, st)"
    and m: "m = builder_finish (im_files st) (rs_lines r)"
    by (auto simp: flatten_def and_then_eq_Inr)
  have names: "names_files (im_files st) r"
    using resolve_files [of n windows fs] r wf_builder_new unfolding keeps_files_def by fastforce
  show ?thesis
    unfolding files_known_def
  proof (intro allI impI)
    fix sp loc assume loc: "location m sp = Some loc"
    obtain line column where sp: "sp = Span line column" by (cases sp)
    with loc obtain origin where "line - 1 < length (sm_lines m)" "sm_lines m ! (line - 1) = Some origin"
      "loc_file loc = sl_file origin"
      by (auto simp: location_def split: if_splits option.splits)
    then have "Some origin \<in> set (rs_lines r)"
      using nth_mem [of "line - 1" "sm_lines m"] m by (simp add: builder_finish_def)
    with names \<open>loc_file loc = sl_file origin\<close> m show "loc_file loc < length (sm_files m)"
      by (simp add: names_files_def builder_finish_def)
  qed
qed

end
