(* ===== verification/CDecls.thy ===== *)
theory CDecls
  imports CCollect CLayout CRely CSource
begin

text \<open>
  The declarations of an accepted program are \<open>declarable\<close> in the sense of \<open>COrder\<close>: its types lead
  to structs and enums that are declared, and the collectors find all the others.
\<close>

section \<open>Types that are grounded\<close>

inductive_cases grounded_result: "grounded structs enums (BcResult a b)"
inductive_cases grounded_array: "grounded structs enums (BcArray e)"
inductive_cases grounded_fixed: "grounded structs enums (BcFixedArray e n)"
inductive_cases grounded_fn_ptr: "grounded structs enums (BcFnPtr ps r pr)"

lemma grounded_part: "b \<in> subtypes a \<Longrightarrow> grounded structs enums a \<Longrightarrow> grounded structs enums b"
proof (induction a)
  case (BcResult x y)
  then show ?case by (auto elim: grounded_result)
next
  case (BcArray e)
  then show ?case by (auto elim: grounded_array)
next
  case (BcFixedArray e n)
  then show ?case by (auto elim: grounded_fixed)
next
  case (BcFnPtr ps r pr)
  then show ?case by (auto elim: grounded_fn_ptr)
qed simp_all

lemma verified_grounded:
  assumes "\<And>n. ip_structs p n \<noteq> None \<Longrightarrow> grounded structs enums (BcStruct n)"
    and "\<And>n. ip_enums p n \<noteq> None \<Longrightarrow> grounded structs enums (BcEnum n)"
  shows "verify_type p ctx ty = [] \<Longrightarrow> grounded structs enums ty"
  by (induction ty)
    (auto intro: grounded.intros(1,4-) assms [simplified] split: if_splits)

lemma verified_lets:
  "verify_block p ctx d b = [] \<Longrightarrow> ty \<in> set (let_types b) \<Longrightarrow> verify_type p ctx ty = []"
  "verify_stmt p ctx d s = [] \<Longrightarrow> ty \<in> set (let_types_stmt s) \<Longrightarrow> verify_type p ctx ty = []"
  by (induction b and s arbitrary: d and d rule: let_types_let_types_stmt.induct) auto

lemma verified_types:
  assumes "verify p = Inr ()" "ty \<in> set (types_of [] p)"
  shows "\<exists>ctx. verify_type p ctx ty = []"
  using assms verified_lets(1)
  by (fastforce simp: verify_def verify_all_def types_of_def verify_fn_def verify_extern_fn_def Let_def
      split: if_splits)

section \<open>The tables and the declarations\<close>

lemma lower_early:
  assumes "AnalysisSound.more an1 an" "dom (an_structs an) \<inter> dom (an_enums an) = {}" "info = info_of an"
  shows "resolve_type an1 t = Inr ty \<Longrightarrow> lower_type info t = ty"
    "resolve_types an1 ts = Inr tys \<Longrightarrow> map (lower_type info) ts = tys"
  using assms
proof (induction an1 t and an1 ts arbitrary: ty and tys rule: resolve_type_resolve_types.induct)
  case (1 an1 p sp)
  then show ?case by (cases p) auto
next
  case (2 an1 name sp)
  then show ?case by (fastforce simp: AnalysisSound.more_def info_of_def disjoint_iff subset_iff dom_def split: if_splits)
qed (auto simp: and_then_eq_Inr split: if_splits)

lemma map_result_map: "map_result f xs = Inr ys \<Longrightarrow> (\<And>x y. f x = Inr y \<Longrightarrow> g x = y) \<Longrightarrow> map g xs = ys"
  by (induction xs arbitrary: ys) (auto simp: and_then_eq_Inr)

lemma stored_type: "resolve_stored_type an m t = Inr ty \<Longrightarrow> resolve_type an t = Inr ty"
  by (auto simp: resolve_stored_type_def and_then_eq_Inr split: if_splits)

text \<open>Each entry of a table comes from a declaration.\<close>

definition declares :: "semantic_info \<Rightarrow> top_decl list \<Rightarrow> analyzer \<Rightarrow> bool" where
  "declares info ds an \<longleftrightarrow>
     (\<forall>n si. an_structs an n = Some si \<longrightarrow>
        (\<exists>s. DStruct s \<in> set ds \<and> isd_name (lower_struct info s) = n \<and> isd_fields (lower_struct info s) = si_fields si)) \<and>
     (\<forall>n ei. an_enums an n = Some ei \<longrightarrow>
        (\<exists>e. DEnum e \<in> set ds \<and> ied_name (lower_enum info e) = n \<and> ied_variants (lower_enum info e) = ei_variants ei))"

lemma collect_signature_tables:
  "collect_signature n sp params ret pure ext dup an = Inr an' \<Longrightarrow>
     an_structs an' = an_structs an \<and> an_enums an' = an_enums an"
  by (auto simp: collect_signature_def and_then_eq_Inr split: if_splits)

lemma collect_other:
  assumes "collect_decl d an = Inr an'" "\<And>s. d \<noteq> DStruct s" "\<And>e. d \<noteq> DEnum e"
  shows "an_structs an' = an_structs an \<and> an_enums an' = an_enums an"
proof (cases d)
  case (DExtern eb)
  then have "each collect_extern_fn (eb_decls eb) an = Inr an'" using assms(1) by simp
  then show ?thesis
    by (rule each_invariant) (auto simp: collect_extern_fn_def dest: collect_signature_tables)
next
  case (DFn f)
  then show ?thesis using assms(1) by (auto simp: collect_fn_def dest: collect_signature_tables)
next
  case (DLet l)
  then show ?thesis using assms(1) by (auto simp: collect_let_def and_then_eq_Inr split: if_splits)
qed (use assms in auto)

lemma declares_other:
  assumes "collect_decl d an = Inr an'" "declares info ds an" "\<And>s. d \<noteq> DStruct s" "\<And>e. d \<noteq> DEnum e"
  shows "declares info (ds @ [d]) an'"
  using assms(2) collect_other [OF assms(1,3,4)] unfolding declares_def by simp blast

lemma collected_declares:
  assumes "AnalysisSound.more an' an" "dom (an_structs an) \<inter> dom (an_enums an) = {}" "info = info_of an"
    and "collect_decl d an0 = Inr an'" "declares info ds an0"
  shows "declares info (ds @ [d]) an'"
proof -
  have le: "AnalysisSound.more an0 an"
    using collect_types [OF assms(4)] assms(1) more_trans by blast
  note early = lower_early(1) [OF le assms(2,3)]
  show ?thesis
  proof (cases d)
    case (DStruct s)
    with assms(4) obtain fs where fs: "map_result (\<lambda>f.
          and_then (resolve_stored_type an0 (DeclMessage HandleInStructField) (f_ty f)) (\<lambda>ty.
          Inr (f_name f, ty))) (s_fields s) = Inr fs"
      and an': "an' = an0\<lparr>an_structs := (an_structs an0)(s_name s \<mapsto> \<lparr>si_fields = fs\<rparr>)\<rparr>"
      by (auto simp: collect_struct_def and_then_eq_Inr split: if_splits)
    have "map (\<lambda>f. (f_name f, lower_type info (f_ty f))) (s_fields s) = fs"
      by (rule map_result_map [OF fs]) (auto simp: and_then_eq_Inr dest: stored_type early)
    then have "isd_name (lower_struct info s) = s_name s" "isd_fields (lower_struct info s) = fs"
      by (simp_all add: lower_struct_def)
    with assms(5) DStruct an' show ?thesis by (fastforce simp: declares_def)
  next
    case (DEnum e)
    with assms(4) obtain vs where vs: "map_result (\<lambda>v.
          and_then (map_result (resolve_stored_type an0 (DeclMessage HandleInEnumPayload))
            (v_payload_types v)) (\<lambda>payload. Inr (v_name v, payload))) (e_variants e) = Inr vs"
      and an': "an' = an0\<lparr>an_enums := (an_enums an0)(e_name e \<mapsto> \<lparr>ei_variants = vs\<rparr>)\<rparr>"
      by (auto simp: collect_enum_def and_then_eq_Inr split: if_splits)
    have "map (\<lambda>v. (v_name v, map (lower_type info) (v_payload_types v))) (e_variants e) = vs"
      by (rule map_result_map [OF vs])
        (auto simp: and_then_eq_Inr dest!: map_result_map [where g = "lower_type info"] dest: stored_type early)
    then have "ied_name (lower_enum info e) = e_name e" "ied_variants (lower_enum info e) = vs"
      by (simp_all add: lower_enum_def)
    with assms(5) DEnum an' show ?thesis by (fastforce simp: declares_def)
  qed (use declares_other [OF assms(4,5)] in auto)
qed

lemma all_declares:
  assumes "dom (an_structs an) \<inter> dom (an_enums an) = {}" "info = info_of an"
  shows "each collect_decl ds an0 = Inr an \<Longrightarrow> declares info ds0 an0 \<Longrightarrow> declares info (ds0 @ ds) an"
proof (induction ds arbitrary: an0 ds0)
  case (Cons d ds)
  then obtain an1 where an1: "collect_decl d an0 = Inr an1" "each collect_decl ds an1 = Inr an"
    by (auto simp: and_then_eq_Inr)
  have "AnalysisSound.more an1 an" using collect_all_types [OF an1(2)] by blast
  from Cons.IH [OF an1(2) collected_declares [OF this assms an1(1) Cons.prems(2)]] show ?case by simp
qed simp

lemma lowered_defs:
  "each (lower_decl info) ds (p, lw) = Inr (p', lw') \<Longrightarrow>
     set (ip_struct_defs p') = set (ip_struct_defs p) \<union> {lower_struct info s | s. DStruct s \<in> set ds} \<and>
     set (ip_enum_defs p') = set (ip_enum_defs p) \<union> {lower_enum info e | e. DEnum e \<in> set ds} \<and>
     ip_functions p' = ip_functions p"
proof (induction ds arbitrary: p lw)
  case (Cons d ds)
  then obtain p1 lw1 where p1: "lower_decl info d (p, lw) = Inr (p1, lw1)"
    "each (lower_decl info) ds (p1, lw1) = Inr (p', lw')"
    by (auto simp: and_then_eq_Inr)
  from Cons.IH [OF p1(2)] p1(1) show ?case
    by (cases d) (auto simp: lower_decl_def and_then_eq_Inr)
qed simp

section \<open>Accepted programs\<close>

lemma accepted_collected:
  assumes "analyze prog = Inr info"
  obtains an where "each collect_decl (decls prog) (analyzer_new\<lparr>an_functions := register_builtins\<rparr>) = Inr an"
    "collected an" "info = info_of an"
proof -
  obtain an an' where an: "each collect_decl (decls prog) (analyzer_new\<lparr>an_functions := register_builtins\<rparr>) = Inr an"
    "each check_decl (decls prog) an = Inr an'" "info = info_of an'"
    using assms by (auto simp: analyze_def and_then_eq_Inr info_of_def)
  have coll: "collected an" using collect_all_yields [of "decls prog"] an(1) by simp
  moreover have "an' = an" using check_all_yields [OF coll, of "decls prog"] an(2) by simp
  ultimately show thesis using an(1,3) by (intro that) simp_all
qed

text \<open>The declarations of a program have the entries of its tables.\<close>

lemma accepted_entries:
  assumes "analyze prog = Inr info" "lower_program prog info = Inr p"
    and "dom (sem_structs info) \<inter> dom (sem_enums info) = {}"
  shows "sem_structs info n = Some si \<Longrightarrow> DeclStruct n (si_fields si) \<in> set (type_decls fns p)"
    and "sem_enums info n = Some ei \<Longrightarrow> DeclEnum n (ei_variants ei) \<in> set (type_decls fns p)"
proof -
  obtain an where an: "each collect_decl (decls prog) (analyzer_new\<lparr>an_functions := register_builtins\<rparr>) = Inr an"
    "info = info_of an" using accepted_collected [OF assms(1)] by blast
  have "declares info [] (analyzer_new\<lparr>an_functions := register_builtins\<rparr>)"
    by (simp add: declares_def analyzer_new_def)
  moreover have "dom (an_structs an) \<inter> dom (an_enums an) = {}"
    using assms(3) an(2) by (simp add: info_of_def)
  ultimately have declares: "declares info (decls prog) an"
    using all_declares [OF _ an(2,1)] by fastforce
  from assms(2) obtain p' lw' where "each (lower_decl info) (decls prog)
      (\<lparr>ip_structs = sem_structs info, ip_enums = sem_enums info, ip_functions = sem_functions info,
        ip_constants = sem_constants info, ip_struct_defs = [], ip_enum_defs = [], ip_extern_blocks = [],
        ip_const_defs = [], ip_fn_defs = []\<rparr>, lowering_start) = Inr (p', lw')" "p = p'"
    by (auto simp: lower_program_def and_then_eq_Inr)
  from lowered_defs [OF this(1)] this(2) have defs:
    "lower_struct info ` {s. DStruct s \<in> set (decls prog)} \<subseteq> set (ip_struct_defs p)"
    "lower_enum info ` {e. DEnum e \<in> set (decls prog)} \<subseteq> set (ip_enum_defs p)"
    by auto
  show "DeclStruct n (si_fields si) \<in> set (type_decls fns p)" if n: "sem_structs info n = Some si"
  proof -
    from declares n an(2) obtain s where s: "DStruct s \<in> set (decls prog)" "isd_name (lower_struct info s) = n"
      "isd_fields (lower_struct info s) = si_fields si"
      unfolding declares_def by (fastforce simp: info_of_def)
    with defs(1) have "lower_struct info s \<in> set (ip_struct_defs p)" by blast
    with s(2,3) show ?thesis unfolding type_decls_def by force
  qed
  show "DeclEnum n (ei_variants ei) \<in> set (type_decls fns p)" if n: "sem_enums info n = Some ei"
  proof -
    from declares n an(2) obtain e where e: "DEnum e \<in> set (decls prog)" "ied_name (lower_enum info e) = n"
      "ied_variants (lower_enum info e) = ei_variants ei"
      unfolding declares_def by (fastforce simp: info_of_def)
    with defs(2) have "lower_enum info e \<in> set (ip_enum_defs p)" by blast
    with e(2,3) show ?thesis unfolding type_decls_def by force
  qed
qed

text \<open>The types of a program lead to its tables.\<close>

lemma accepted_grounded:
  assumes "analyze prog = Inr info" "lower_program prog info = Inr p" "verify p = Inr ()"
    and "set fns \<subseteq> ran (sem_functions info)" "ty \<in> set (types_of fns p)"
  shows "grounded (sem_structs info) (sem_enums info) ty"
proof -
  note laid = accepted_laid [OF assms(1)]
  have names: "ip_structs p n \<noteq> None \<Longrightarrow> grounded (sem_structs info) (sem_enums info) (BcStruct n)"
    "ip_enums p n \<noteq> None \<Longrightarrow> grounded (sem_structs info) (sem_enums info) (BcEnum n)" for n
    using laid [of "BcStruct n"] laid [of "BcEnum n"] lower_program_tables [OF assms(2)]
    by (auto simp: info_analyzer_def)
  show ?thesis
  proof (cases "ty \<in> set (types_of [] p)")
    case True
    with verified_types [OF assms(3)] verified_grounded [OF names] show ?thesis by blast
  next
    case False
    with assms(5) obtain fi where fi: "fi \<in> set fns" "ty = fi_return_type fi \<or> ty \<in> snd ` set (fi_params fi)"
      by (auto simp: types_of_def)
    obtain an where an: "collected an" "info = info_of an" using accepted_collected [OF assms(1)] by blast
    from fi(1) assms(4) an have "wf_function an fi"
      by (auto simp: collected_def wf_tables_def info_of_def)
    with fi(2) have "declared an ty" by (auto simp: wf_function_def)
    then have "declared (info_analyzer info) ty"
      using declared_cong [of "info_analyzer info" an] an(2) by (simp add: info_analyzer_def info_of_def)
    then show ?thesis by (rule laid)
  qed
qed

section \<open>The declarations are found\<close>

text \<open>The callbacks have simple parameters.\<close>

fun simple_fn_ptr :: "bc_type \<Rightarrow> bool" where
  "simple_fn_ptr (BcFnPtr ps r _) = list_all basic_type (r # ps)"
| "simple_fn_ptr _ = False"

lemma callbacks_simple: "list_all simple_fn_ptr (case callback_types of Some cs \<Rightarrow> cs | None \<Rightarrow> [])"
  by code_simp

lemma basic_parts: "basic_type ty \<Longrightarrow> subtypes ty = {ty}"
  by (cases ty) auto

lemma simple_parts: "simple_fn_ptr c \<Longrightarrow> b \<in> subtypes c \<Longrightarrow> b = c \<or> basic_type b"
  by (cases c) (auto simp: list_all_iff basic_parts)

lemma simple_grounded: "simple_fn_ptr c \<Longrightarrow> b \<in> subtypes c \<Longrightarrow> grounded structs enums b"
  by (cases c) (auto simp: list_all_iff basic_parts intro!: grounded.fn_ptr intro: grounded.basic)

lemma basic_no_fn_ptr: "basic_type b \<Longrightarrow> \<not> is_fn_ptr b"
  by (cases b) auto

lemma result_decls_of:
  "DeclResult ok err \<in> set (result_decls tys seen) \<Longrightarrow> (ok, err) \<in> set tys"
  "d \<in> set (result_decls tys seen) \<Longrightarrow> \<exists>ok err. d = DeclResult ok err"
  by (induction tys seen rule: result_decls.induct) (auto simp: Let_def split: if_splits)

lemma result_decls_names:
  "(ok, err) \<in> set tys \<Longrightarrow> \<not> is_runtime_result_type (result_type_name ok err) \<Longrightarrow>
     result_type_name ok err \<notin> seen \<Longrightarrow>
     \<exists>ok' err'. DeclResult ok' err' \<in> set (result_decls tys seen) \<and> result_type_name ok' err' = result_type_name ok err"
proof (induction tys seen rule: result_decls.induct)
  case (2 ok0 err0 tys names)
  show ?case
  proof (cases "result_type_name ok0 err0 = result_type_name ok err")
    case True
    with 2(4,5) have "DeclResult ok0 err0 \<in> set (result_decls ((ok0, err0) # tys) names)" by (simp add: Let_def)
    with True show ?thesis by blast
  next
    case False
    with 2(3) have in_tys: "(ok, err) \<in> set tys" by auto
    show ?thesis
    proof (cases "\<not> is_runtime_result_type (result_type_name ok0 err0) \<and> result_type_name ok0 err0 \<notin> names")
      case True
      with 2(1) [OF refl _ in_tys 2(4)] 2(5) False show ?thesis by (auto simp: Let_def)
    next
      case stop: False
      with 2(2) [OF refl _ in_tys 2(4) 2(5)] show ?thesis by (auto simp: Let_def)
    qed
  qed
qed simp

lemma declarableI:
  assumes callbacks: "callback_types = Some cs"
    and "tys = parts_of (types_of fns p @ cs)"
    and apart: "\<And>a b. a \<in> tys \<Longrightarrow> b \<in> tys \<Longrightarrow> c_decl_name a \<noteq> None \<Longrightarrow> c_decl_name a = c_decl_name b \<Longrightarrow> erase a = erase b"
    and grounded: "\<And>ty. ty \<in> set (types_of fns p) \<Longrightarrow> grounded structs enums ty"
    and entries: "\<And>n si. structs n = Some si \<Longrightarrow> DeclStruct n (si_fields si) \<in> set (type_decls fns p)"
      "\<And>n ei. enums n = Some ei \<Longrightarrow> DeclEnum n (ei_variants ei) \<in> set (type_decls fns p)"
  shows "declarable structs enums tys (type_decls fns p)"
proof -
  have simple: "simple_fn_ptr c" if "c \<in> set cs" for c
    using callbacks_simple that by (simp add: callbacks list_all_iff)
  let ?fs = "the (collect_fn_ptr_types fns p)"
  have tys: "tys = parts_of (types_of fns p) \<union> parts_of cs" using assms(2) by simp
  have closed: "subtypes a \<subseteq> tys" if "a \<in> tys" for a
    using parts_of_closed that unfolding assms(2) .
  have ground: "grounded structs enums a" if "a \<in> tys" for a
    using that grounded simple grounded_part simple_grounded unfolding tys parts_of_def by blast
  have fs: "set ?fs \<subseteq> fn_ptrs_in tys"
    using fn_ptrs_collected(1) [OF callbacks] unfolding assms(2) .
  have results: "set (collect_result_types fns p) \<subseteq> results_in tys"
    unfolding results_collected tys by (auto simp: results_in_def)
  have roots: "set (types_of fns p) \<subseteq> tys" unfolding tys using parts_of_member by blast
  have decl: "proper_decl d \<and> set (decl_types_of d) \<subseteq> tys" if d: "d \<in> set (type_decls fns p)" for d
  proof (cases d)
    case (DeclResult ok err)
    with d have "(ok, err) \<in> set (collect_result_types fns p)"
      by (auto simp: type_decls_def dest: result_decls_of(1))
    then have "BcResult ok err \<in> tys" using results by (auto simp: results_in_def)
    from closed [OF this] DeclResult show ?thesis by auto
  next
    case (DeclStruct n fs)
    with d have "\<exists>s \<in> set (ip_struct_defs p). fs = isd_fields s"
      by (auto simp: type_decls_def dest: result_decls_of(2))
    then have "set (map snd fs) \<subseteq> set (types_of fns p)" by (auto simp: types_of_def)
    with roots DeclStruct show ?thesis by auto
  next
    case (DeclEnum n vs)
    with d have "\<exists>e \<in> set (ip_enum_defs p). vs = ied_variants e"
      by (auto simp: type_decls_def dest: result_decls_of(2))
    then have "set (concat (map snd vs)) \<subseteq> set (types_of fns p)" by (auto simp: types_of_def)
    with roots DeclEnum show ?thesis by auto
  next
    case (DeclFnPtr ty)
    with d have "ty \<in> set ?fs" by (auto simp: type_decls_def dest: result_decls_of(2))
    with fs have "ty \<in> tys" "is_fn_ptr ty" by (auto simp: fn_ptrs_in_def)
    moreover have "set (decl_types_of (DeclFnPtr ty)) \<subseteq> subtypes ty"
      by (cases ty) (auto intro: rev_bexI)
    ultimately show ?thesis using closed [of ty] DeclFnPtr by (cases ty) auto
  qed
  have result: "\<exists>ok' err'. DeclResult ok' err' \<in> set (type_decls fns p) \<and> erase (BcResult ok' err') = erase (BcResult ok err)"
    if r: "BcResult ok err \<in> tys" "\<not> is_runtime_result_type (result_type_name ok err)" for ok err
  proof -
    have "BcResult ok err \<notin> subtypes c" if "c \<in> set cs" for c
      using simple_parts [OF simple [OF that], of "BcResult ok err"] simple [OF that] by auto
    then have "BcResult ok err \<in> parts_of (types_of fns p)"
      using r(1) unfolding tys by (auto simp: parts_of_def)
    then have "(ok, err) \<in> set (collect_result_types fns p)"
      unfolding results_collected by (simp add: results_in_def)
    from result_decls_names [OF this r(2), of "{}"] obtain ok' err' where
      d: "DeclResult ok' err' \<in> set (result_decls (collect_result_types fns p) {})"
        "result_type_name ok' err' = result_type_name ok err" by auto
    from result_decls_of(1) [OF d(1)] results have "BcResult ok' err' \<in> tys" by (auto simp: results_in_def)
    with apart [OF this r(1)] d(2) have "erase (BcResult ok' err') = erase (BcResult ok err)" by simp
    with d(1) show ?thesis by (auto simp: type_decls_def)
  qed
  have fn_ptr: "\<exists>ty. DeclFnPtr ty \<in> set (type_decls fns p) \<and> erase ty = erase (BcFnPtr ps r pr)"
    if f: "BcFnPtr ps r pr \<in> tys" for ps r pr
  proof -
    have "c = BcFnPtr ps r pr" if "c \<in> set cs" "BcFnPtr ps r pr \<in> subtypes c" for c
      using simple_parts [OF simple [OF that(1)] that(2)] by simp
    then have "BcFnPtr ps r pr \<in> set cs" if "BcFnPtr ps r pr \<in> parts_of cs"
      using that unfolding parts_of_def by blast
    with f have "BcFnPtr ps r pr \<in> fn_ptrs_in (parts_of (types_of fns p)) \<union> {c \<in> set cs. is_fn_ptr c}"
      unfolding tys fn_ptrs_in_def Un_iff mem_Collect_eq by (simp only: is_fn_ptr.simps simp_thms) blast
    then have "type_tag (BcFnPtr ps r pr) \<in> type_tag ` set ?fs"
      by (rule subsetD [OF fn_ptrs_collected(2) [OF callbacks] imageI])
    then obtain ty where ty: "ty \<in> set ?fs" "type_tag ty = type_tag (BcFnPtr ps r pr)"
      by (elim imageE) (rule that, simp_all only:)
    from ty(1) fs have "ty \<in> tys" "is_fn_ptr ty" by (auto simp: fn_ptrs_in_def)
    then obtain ps' r' pr' where "ty = BcFnPtr ps' r' pr'" by (cases ty) auto
    with ty(2) have "c_decl_name ty = c_decl_name (BcFnPtr ps r pr)" "c_decl_name ty \<noteq> None"
      by (simp_all add: fn_ptr_typedef_name_def del: type_tag.simps)
    with apart [OF \<open>ty \<in> tys\<close> f] have "erase ty = erase (BcFnPtr ps r pr)" by blast
    with ty(1) show ?thesis by (auto simp: type_decls_def)
  qed
  show ?thesis
    unfolding declarable_def
    using closed ground decl entries result fn_ptr by blast
qed

text \<open>The parts of a type as a list.\<close>

fun parts_list :: "bc_type \<Rightarrow> bc_type list" where
  "parts_list (BcArray e) = BcArray e # parts_list e"
| "parts_list (BcFixedArray e n) = BcFixedArray e n # parts_list e"
| "parts_list (BcResult ok err) = BcResult ok err # parts_list ok @ parts_list err"
| "parts_list (BcFnPtr ps r pr) = BcFnPtr ps r pr # concat (map (\<lambda>p. parts_list p) ps) @ parts_list r"
| "parts_list ty = [ty]"

lemma set_parts_list: "set (parts_list ty) = subtypes ty"
  by (induction ty) auto

text \<open>
  All the types of a program with their parts, those of the callbacks too; and no two of the
  \<open>Result\<close> types and function pointers among them have one C name.
\<close>

definition mentioned :: "function_info list \<Rightarrow> ir_program \<Rightarrow> bc_type list" where
  "mentioned fns p =
     concat (map parts_list (types_of fns p @ (case callback_types of Some cs \<Rightarrow> cs | None \<Rightarrow> [])))"

definition c_names_apart :: "bc_type list \<Rightarrow> bool" where
  "c_names_apart tys \<longleftrightarrow>
     distinct (map c_decl_name (remdups (map erase (filter (\<lambda>ty. c_decl_name ty \<noteq> None) tys))))"

lemma c_decl_name_erase [simp]: "c_decl_name (erase ty) = c_decl_name ty"
  by (cases ty) (simp_all add: result_type_name_def fn_ptr_typedef_name_def comp_def)

lemma c_names_apartD:
  assumes "c_names_apart tys" "a \<in> set tys" "b \<in> set tys" "c_decl_name a \<noteq> None" "c_decl_name a = c_decl_name b"
  shows "erase a = erase b"
proof -
  let ?xs = "remdups (map erase (filter (\<lambda>ty. c_decl_name ty \<noteq> None) tys))"
  have inj: "inj_on c_decl_name (set ?xs)" using assms(1) unfolding c_names_apart_def distinct_map by blast
  have "erase a \<in> set ?xs" "erase b \<in> set ?xs" using assms by auto
  from inj_onD [OF inj _ this] assms(5) show ?thesis by simp
qed

lemma accepted_declarable:
  assumes "analyze prog = Inr info" "lower_program prog info = Inr p" "verify p = Inr ()"
    and "set fns \<subseteq> ran (sem_functions info)" "dom (sem_structs info) \<inter> dom (sem_enums info) = {}"
    and "c_names_apart (mentioned fns p)"
  shows "declarable (sem_structs info) (sem_enums info) (set (mentioned fns p)) (type_decls fns p)"
proof -
  obtain cs where cs: "callback_types = Some cs" using callback_types_Some by blast
  have tys: "set (mentioned fns p) = parts_of (types_of fns p @ cs)"
    by (simp add: mentioned_def cs set_parts_list parts_of_def)
  show ?thesis
    by (rule declarableI [OF cs tys c_names_apartD [OF assms(6)] accepted_grounded [OF assms(1-4)]
          accepted_entries [OF assms(1,2,5)]])
qed

text \<open>
  C39. The type declarations of an accepted program whose lowering the verifier accepts come out in
  an order that C accepts: the search for the next declaration never fails, each declaration is
  written once, and only after the declarations of the names that its members need: structs, enums,
  \<open>Result\<close> types that the runtime does not declare, and function pointers. This holds in whatever order the table of functions is
  iterated (\<open>fns\<close> lists functions of the table), provided that no name is both a struct and an
  enum and that the C names of the types that the program mentions are apart (\<open>c_names_apart\<close>:
  \<open>Result\<close> types and function pointer types that differ in more than purity have different names).
\<close>

theorem declarations_ordered:
  "analyze prog = Inr info \<Longrightarrow> lower_program prog info = Inr p \<Longrightarrow> verify p = Inr () \<Longrightarrow>
   set fns \<subseteq> ran (sem_functions info) \<Longrightarrow> dom (sem_structs info) \<inter> dom (sem_enums info) = {} \<Longrightarrow>
   c_names_apart (mentioned fns p) \<Longrightarrow> collect_types fns p (generator_new opts m p) = Inr cg \<Longrightarrow>
     \<exists>ds. mset ds = mset (pending_decls cg p) \<and> declared_first ds \<and>
       emit_type_declarations p cg = do_all (map emit_type_decl ds) cg"
proof -
  assume acc: "analyze prog = Inr info" "lower_program prog info = Inr p" "verify p = Inr ()"
    "set fns \<subseteq> ran (sem_functions info)" "dom (sem_structs info) \<inter> dom (sem_enums info) = {}"
    "c_names_apart (mentioned fns p)" and "collect_types fns p (generator_new opts m p) = Inr cg"
  then have "pending_decls cg p = type_decls fns p"
    by (cases "collect_fn_ptr_types fns p")
      (auto simp: collect_types_def unwrap_def pending_decls_def type_decls_def)
  with declarations_in_order [of _ _ _ cg p] accepted_declarable [OF acc] in_turn_declared_first
  show ?thesis by metis
qed

text \<open>
  C40. The C generator returns on an accepted program: none of its panics is reached (arguments
  that are missing in a call, a type of an interpolated value, an unknown enum, a callback, the
  indentation, a cycle of declarations, a file of the source map) and none of its loops runs
  forever. The conditions are those of \<open>accepted_reaches_backend\<close> (\<open>ok_decl\<close>, without \<open>pop\<close>, and
  \<open>names_apart\<close>) and of \<open>declarations_ordered\<close>; no function is called through a variable that has
  the name of a built-in function (\<open>plain_name\<close>); the constants fold without dividing the smallest
  \<open>i64\<close> by -1 (\<open>folds\<close>); and the positions of the source map lie in its files, as they do in the map
  that the resolution of imports makes (\<open>flatten_files_known\<close>).
\<close>

theorem generation_total:
  "analyze prog = Inr info \<Longrightarrow> list_all ok_decl (decls prog) \<Longrightarrow> names_apart info \<Longrightarrow>
   lower_program prog info = Inr p \<Longrightarrow> list_all plain_name (pointers_called p) \<Longrightarrow>
   set fns \<subseteq> ran (sem_functions info) \<Longrightarrow> dom (sem_structs info) \<inter> dom (sem_enums info) = {} \<Longrightarrow>
   c_names_apart (mentioned fns p) \<Longrightarrow> files_known m \<Longrightarrow>
   list_all (folds (co_debug_f64 opts) p) (ip_const_defs p) \<Longrightarrow>
     \<exists>out. generate_with_runtime fns opts m p = Inr out"
proof -
  assume acc: "analyze prog = Inr info" and ok: "list_all ok_decl (decls prog)" "names_apart info"
    and low: "lower_program prog info = Inr p" and plain: "list_all plain_name (pointers_called p)"
    and names: "set fns \<subseteq> ran (sem_functions info)" "dom (sem_structs info) \<inter> dom (sem_enums info) = {}"
      "c_names_apart (mentioned fns p)" and map: "files_known m"
    and folds: "list_all (folds (co_debug_f64 opts) p) (ip_const_defs p)"
  note tree = accepted_emittable [OF acc ok low plain]
  show ?thesis
    using folds by (intro generation_returns [OF map tree(2) _ accepted_declarable [OF acc low tree(1) names]])
      (auto simp: list_all_iff intro: tree(3))
qed

section \<open>A program\<close>

text \<open>
  \<open>struct Inner { x: i32 }\<close>, \<open>struct Outer { r: Result<Inner, str> }\<close> and
  \<open>fn get(v: Inner) -> i32 { v.x }\<close>.
\<close>

definition layered :: program where
  "layered =
     \<lparr>decls =
        [DStruct \<lparr>s_name = ''Inner'', s_fields = [\<lparr>f_name = ''x'', f_ty = TyPrimitive PrimI32 pos, f_span = pos\<rparr>],
           s_span = pos\<rparr>,
         DStruct \<lparr>s_name = ''Outer'', s_fields = [\<lparr>f_name = ''r'',
             f_ty = TyResult (TyNamed ''Inner'' pos) (TyPrimitive PrimStr pos) pos, f_span = pos\<rparr>], s_span = pos\<rparr>,
         DFn \<lparr>fn_name = ''get'', fn_params = [\<lparr>p_name = ''v'', p_ty = TyNamed ''Inner'' pos, p_span = pos\<rparr>],
           fn_return_type = Some (TyPrimitive PrimI32 pos),
           fn_body = Block [] (Some (EFieldAccess (EIdent ''v'' pos) ''x'' pos)) pos,
           fn_is_pure = True, fn_span = pos\<rparr>]\<rparr>"

definition get_info :: function_info where
  "get_info = \<lparr>fi_params = [(''v'', BcStruct ''Inner'')], fi_return_type = BcI32, fi_is_pure = True, fi_is_extern = False\<rparr>"

definition layered_info :: semantic_info where
  "layered_info =
     \<lparr>sem_structs =
        [''Inner'' \<mapsto> \<lparr>si_fields = [(''x'', BcI32)]\<rparr>,
         ''Outer'' \<mapsto> \<lparr>si_fields = [(''r'', BcResult (BcStruct ''Inner'') BcStr)]\<rparr>],
      sem_enums = Map.empty, sem_functions = register_builtins(''get'' \<mapsto> get_info), sem_constants = Map.empty\<rparr>"

definition layered_ir :: ir_program where
  "layered_ir =
     \<lparr>ip_structs = sem_structs layered_info, ip_enums = Map.empty, ip_functions = sem_functions layered_info,
      ip_constants = Map.empty,
      ip_struct_defs =
        [\<lparr>isd_name = ''Inner'', isd_fields = [(''x'', BcI32)], isd_span = pos\<rparr>,
         \<lparr>isd_name = ''Outer'', isd_fields = [(''r'', BcResult (BcStruct ''Inner'') BcStr)], isd_span = pos\<rparr>],
      ip_enum_defs = [], ip_extern_blocks = [], ip_const_defs = [],
      ip_fn_defs = [\<lparr>ifd_name = ''get'', ifd_params = [(''v'', BcStruct ''Inner'')], ifd_return_type = BcI32,
        ifd_body = IrBlock [] (Some (IrFieldAccess (IrIdent ''v'' IkValue (BcStruct ''Inner'') pos) ''x'' BcI32 pos)) pos,
        ifd_is_pure = True, ifd_span = pos\<rparr>]\<rparr>"

lemma layered_names [simp]:
  "register_builtins ''get'' = None" "resolve_with_alias ''get'' = None" "resolve_with_alias ''v'' = None"
  "register_builtins ''v'' = None"
  by code_simp+

lemma layered_accepted: "analyze layered = Inr layered_info"
  by (simp add: layered_def analyze_def analyzer_new_def collect_fn_def collect_signature_def collect_struct_def
      resolve_stored_type_def resolve_params_def resolve_return_def check_fn_def bind_param_def sample_checks
      field_type_def layered_info_def get_info_def)

lemma layered_lowered: "lower_program layered layered_info = Inr layered_ir"
  by (simp add: layered_def layered_info_def layered_ir_def lowering_steps lower_struct_def field_type_of_def info_field_def)

lemma layered_verified: "verify layered_ir = Inr ()"
  by (simp add: layered_ir_def layered_info_def verify_def verify_all_def verify_fn_def)

lemma layered_table: "set [get_info] \<subseteq> ran (sem_functions layered_info)"
  by (auto simp: layered_info_def ran_def)

lemma layered_apart: "c_names_apart (mentioned [get_info] layered_ir)"
  by code_simp

definition plain_options :: c_options where
  "plain_options =
     \<lparr>co_freestanding = False, co_embed_runtime = False, co_debug_info = DebugNone, co_windows = False,
      co_show_f64 = (\<lambda>_. ''0.0''), co_debug_f64 = (\<lambda>_. ''0.0'')\<rparr>"

definition no_map :: source_map where
  "no_map = \<lparr>sm_files = [], sm_lines = []\<rparr>"

lemma layered_kinds: "dom (sem_structs layered_info) \<inter> dom (sem_enums layered_info) = {}"
  by (simp add: layered_info_def)

lemma declarations_ordered_witness:
  "\<exists>cg ds. collect_types [get_info] layered_ir (generator_new plain_options no_map layered_ir) = Inr cg \<and>
     mset ds = mset (pending_decls cg layered_ir) \<and> declared_first ds \<and>
     emit_type_declarations layered_ir cg = do_all (map emit_type_decl ds) cg"
proof -
  obtain fs where "collect_fn_ptr_types [get_info] layered_ir = Some fs"
    using callback_types_Some by (auto simp: collect_fn_ptr_types_def Let_def)
  then obtain cg where cg: "collect_types [get_info] layered_ir (generator_new plain_options no_map layered_ir) = Inr cg"
    by (simp add: collect_types_def unwrap_def)
  from declarations_ordered [OF layered_accepted layered_lowered layered_verified layered_table layered_kinds
      layered_apart cg] cg
  show ?thesis by blast
qed

lemma layered_ok: "list_all ok_decl (decls layered)"
  by (simp add: layered_def)

lemma layered_names_apart: "names_apart layered_info"
  by (simp add: names_apart_def layered_info_def) code_simp

lemma generation_total_witness:
  "\<exists>out. generate_with_runtime [get_info] plain_options no_map layered_ir = Inr out"
proof -
  have "files_known no_map" by (simp add: files_known_def no_map_def location_def split: span.split)
  moreover have "list_all plain_name (pointers_called layered_ir)"
    "list_all (folds (co_debug_f64 plain_options) layered_ir) (ip_const_defs layered_ir)"
    by (simp_all add: layered_ir_def pointers_called_def)
  ultimately show ?thesis
    using generation_total [OF layered_accepted layered_ok layered_names_apart layered_lowered _
        layered_table layered_kinds layered_apart] by blast
qed

end
