(* ===== verification/LinkPlan.thy ===== *)
theory LinkPlan
  imports Backend
begin

text \<open>
  The rendering of a link as the arguments of the linker, \<open>src/src/backend/link/plan.rs\<close>.
  Paths and arguments are the scalars of their text. \<open>LinkerExecutable\<close> and the origin of the
  compiler driver do not take part in the rendering.
\<close>

datatype linker_flavor = MingwDirect | CompilerDriver | ElfDirect

record system_lib =
  lib_name :: string
  lib_archive_path :: "rstring option"

datatype extra_lib = LibPath rstring | LibSystemName rstring

fun extra_lib_arg :: "extra_lib \<Rightarrow> rstring" where
  "extra_lib_arg (LibPath path) = path"
| "extra_lib_arg (LibSystemName name) = ustr ''-l'' @ name"

record link_plan =
  lp_flavor :: linker_flavor
  lp_target :: native_target
  lp_runtime_mode :: runtime_mode
  lp_output :: rstring
  lp_objects :: "rstring list"
  lp_archives :: "rstring list"
  lp_system_libs :: "system_lib list"
  lp_builtins :: "rstring option"
  lp_search_paths :: "rstring list"
  lp_extra_objects :: "rstring list"
  lp_entry :: "rstring option"
  lp_gc_sections :: bool
  lp_strip :: bool
  lp_build_id_none :: bool
  lp_pie :: bool
  lp_emulation :: "string option"
  lp_use_lld_driver_flag :: bool
  lp_show_warnings :: bool
  lp_extra_c_sources :: "rstring list"
  lp_include_dirs :: "rstring list"
  lp_passthrough_cflags :: "rstring list"
  lp_static_link :: bool
  lp_extra_libs :: "extra_lib list"

definition flag :: "bool \<Rightarrow> string \<Rightarrow> rstring list" where
  "flag b s = (if b then [ustr s] else [])"

definition option_args :: "('x \<Rightarrow> rstring list) \<Rightarrow> 'x option \<Rightarrow> rstring list" where
  "option_args f v = (case v of None \<Rightarrow> [] | Some x \<Rightarrow> f x)"

text \<open>The inputs that both direct flavors pass after \<open>-o\<close>, in their order.\<close>

definition direct_inputs :: "link_plan \<Rightarrow> rstring list" where
  "direct_inputs p =
     [ustr ''-o'', lp_output p] @ lp_objects p @ lp_extra_objects p @ map extra_lib_arg (lp_extra_libs p) @
     lp_archives p @ List.map_filter lib_archive_path (lp_system_libs p) @
     option_args (\<lambda>b. [b]) (lp_builtins p)"

definition render_mingw_direct :: "link_plan \<Rightarrow> rstring list" where
  "render_mingw_direct p =
     flag (lp_strip p) ''-s'' @ option_args (\<lambda>e. [ustr ''-m'', ustr e]) (lp_emulation p) @ [ustr ''-Bdynamic''] @
     flag (lp_gc_sections p) ''--gc-sections'' @ flag (lp_build_id_none p) ''--build-id=none'' @
     option_args (\<lambda>e. [ustr ''--entry='' @ e]) (lp_entry p) @ direct_inputs p"

definition render_elf_direct :: "link_plan \<Rightarrow> rstring list" where
  "render_elf_direct p =
     flag (lp_strip p) ''-s'' @ option_args (\<lambda>e. [ustr ''-m'', ustr e]) (lp_emulation p) @ [ustr ''-static''] @
     flag (lp_gc_sections p) ''--gc-sections'' @ flag (lp_build_id_none p) ''--build-id=none'' @ direct_inputs p"

text \<open>The flags of the compiler driver, and the flags for the C files it compiles on the way.\<close>

definition driver_flags :: "link_plan \<Rightarrow> rstring list" where
  "driver_flags p =
     flag (lp_use_lld_driver_flag p) ''-fuse-ld=lld'' @
     flag (lp_runtime_mode p = Freestanding) ''-nostdlib'' @
     flag (lp_strip p) ''-s'' @
     (if lp_gc_sections p then
        [if lp_build_id_none p then ustr ''-Wl,--gc-sections,--build-id=none'' else ustr ''-Wl,--gc-sections'']
      else []) @
     flag (\<not> lp_pie p \<and> lp_target p \<noteq> WindowsX64) ''-no-pie'' @
     flag (lp_static_link p) ''-static''"

definition c_source_flags :: "link_plan \<Rightarrow> rstring list" where
  "c_source_flags p =
     (if lp_extra_c_sources p = [] then []
      else
        (case lp_runtime_mode p of
           Freestanding \<Rightarrow> map ustr [''-std=gnu11'', ''-ffreestanding'', ''-fno-builtin'']
         | Hosted \<Rightarrow> map ustr [''-std=c99'', ''-O2'']) @
        flag (\<not> lp_show_warnings p) ''-w'' @
        map (\<lambda>d. ustr ''-I'' @ d) (lp_include_dirs p))"

definition render_compiler_driver :: "link_plan \<Rightarrow> rstring list" where
  "render_compiler_driver p =
     driver_flags p @ c_source_flags p @
     lp_objects p @ lp_extra_objects p @ lp_extra_c_sources p @ map extra_lib_arg (lp_extra_libs p) @
     lp_archives p @ map (\<lambda>d. ustr ''-L'' @ d) (lp_search_paths p) @ [ustr ''-o'', lp_output p] @
     map (\<lambda>l. ustr (''-l'' @ lib_name l)) (lp_system_libs p) @ lp_passthrough_cflags p @
     (if lp_runtime_mode p = Freestanding \<and> lp_target p = WindowsX64 then option_args (\<lambda>b. [b]) (lp_builtins p)
      else [])"

definition render :: "link_plan \<Rightarrow> rstring list" where
  "render p =
     (case lp_flavor p of
        MingwDirect \<Rightarrow> render_mingw_direct p
      | CompilerDriver \<Rightarrow> render_compiler_driver p
      | ElfDirect \<Rightarrow> render_elf_direct p)"

end
