(* ===== verification/BackendProps.thy ===== *)
theory BackendProps
  imports LinkPlan
begin

text \<open>
  What the selection of a back end, the packaged builds, the names of targets and symbols and
  the arguments of the linker promise.
\<close>

section \<open>Selection\<close>

lemma first_available_has: "first_available a = Some b \<Longrightarrow> has_backend a b"
  by (auto simp: first_available_def available_list_def all_backends_def split: list.splits if_splits)

lemma first_available_None: "first_available a = None \<longleftrightarrow> available_list a = []"
  by (simp add: first_available_def split: list.splits)

text \<open>
  A build with a configured default selects the same back end on every machine: the result
  depends on the requested output only, not on the host, the loaded code generator or the set
  of compiled-in back ends.
\<close>

theorem configured_selection_deterministic:
  "resolve_backend_with explicit inputs (Some d) a =
   resolve_backend_with explicit
     (inputs\<lparr>in_native_target_requested := req, in_native_host_supported := host, in_llvm_available := llvm\<rparr>)
     (Some d) a'"
  by (simp add: resolve_backend_with_def split: option.split)

section \<open>Packaged builds\<close>

lemma backend_texts [simp]:
  "backend_names = [ustr ''llvm'', ustr ''cranelift'', ustr ''c'']"
  "profile_names = [ustr ''full'', ustr ''llvm'', ustr ''cranelift'', ustr ''c'']"
  by (simp_all add: backend_names_def profile_names_def)

lemma enabled_single:
  "enabled_names a = [ustr ''llvm''] \<longleftrightarrow> av_llvm a \<and> \<not> av_cranelift a \<and> \<not> av_c a"
  "enabled_names a = [ustr ''cranelift''] \<longleftrightarrow> \<not> av_llvm a \<and> av_cranelift a \<and> \<not> av_c a"
  "enabled_names a = [ustr ''c''] \<longleftrightarrow> \<not> av_llvm a \<and> \<not> av_cranelift a \<and> av_c a"
  "enabled_names a = [ustr ''llvm'', ustr ''cranelift'', ustr ''c''] \<longleftrightarrow> av_llvm a \<and> av_cranelift a \<and> av_c a"
  "enabled_names a = [] \<longleftrightarrow> \<not> av_llvm a \<and> \<not> av_cranelift a \<and> \<not> av_c a"
  by (auto simp: enabled_names_def available_list_def all_backends_def)

lemma enabled_members:
  "ustr ''llvm'' \<in> set (enabled_names a) \<longleftrightarrow> av_llvm a"
  "ustr ''cranelift'' \<in> set (enabled_names a) \<longleftrightarrow> av_cranelift a"
  "ustr ''c'' \<in> set (enabled_names a) \<longleftrightarrow> av_c a"
  by (auto simp: enabled_names_def available_list_def all_backends_def)

lemma enabled_count:
  "length (available_list a) = (if av_llvm a then 1 else 0) + (if av_cranelift a then 1 else 0) + (if av_c a then 1 else 0)"
  by (simp add: available_list_def all_backends_def)

lemma stamp_not_empty: "normalize_distribution_stamp raw = Some s \<Longrightarrow> s \<noteq> []"
  by (auto simp: normalize_distribution_stamp_def Let_def split: if_splits)

text \<open>What a validated configuration promises.\<close>

definition config_contract :: "distribution_config \<Rightarrow> rstring list \<Rightarrow> bool" where
  "config_contract c enabled \<longleftrightarrow>
     enabled \<noteq> [] \<and>
     (case dc_default_backend c of None \<Rightarrow> True | Some d \<Rightarrow> d \<in> set backend_names \<and> d \<in> set enabled) \<and>
     (case dc_profile c of
        None \<Rightarrow> True
      | Some p \<Rightarrow>
          p \<in> set profile_names \<and>
          (if p = ustr ''full'' then enabled = backend_names \<and> dc_default_backend c = Some (ustr ''llvm'')
           else enabled = [p] \<and> dc_default_backend c = Some p))"

lemma validated_config:
  assumes "validate_distribution_config pr dr lr enabled = Inr c"
  shows "config_contract c enabled"
proof -
  from assms obtain profile default_backend where ne: "enabled \<noteq> []"
    and merge: "merge_legacy (normalize_distribution_stamp pr) (normalize_distribution_stamp dr)
        (normalize_distribution_stamp lr) enabled = Inr (profile, default_backend)"
    and dflt: "case default_backend of None \<Rightarrow> True | Some d \<Rightarrow> d \<in> set backend_names \<and> d \<in> set enabled"
    and prof: "case profile of None \<Rightarrow> True | Some p \<Rightarrow> validate_profile p default_backend enabled = Inr ()"
    and c: "c = \<lparr>dc_profile = profile, dc_default_backend = default_backend\<rparr>"
    unfolding validate_distribution_config_def validate_backend_name_def
    by (auto simp: and_then_eq_Inr simp del: backend_texts split: if_splits option.splits)
  show ?thesis
  proof (cases profile)
    case None
    with ne dflt c show ?thesis by (simp add: config_contract_def del: backend_texts)
  next
    case (Some p)
    with prof have "validate_profile p default_backend enabled = Inr ()" by simp
    then have "p \<in> set profile_names \<and> (if p = ustr ''full'' then enabled = backend_names \<and>
        default_backend = Some (ustr ''llvm'') else enabled = [p] \<and> default_backend = Some p)"
      unfolding validate_profile_def by (simp only: split: if_splits option.splits) simp_all
    with Some ne dflt c show ?thesis by (simp add: config_contract_def del: backend_texts)
  qed
qed

text \<open>
  C16. The build script and the compiler agree about packaged builds: whenever the build script
  accepts the configuration of the environment, the stamps that it makes of it satisfy the
  assertion that the compiler evaluates at compile time over the same features.
\<close>

theorem stamps_satisfy_assertion:
  "stamp_distribution_config profile_raw default_raw legacy_raw a = Inr s \<Longrightarrow>
     distribution_config_matches_features s a"
proof -
  assume "stamp_distribution_config profile_raw default_raw legacy_raw a = Inr s"
  then obtain c where c: "validate_distribution_config profile_raw default_raw legacy_raw (enabled_names a) = Inr c"
    and s: "s = \<lparr>st_profile = (case dc_profile c of Some p \<Rightarrow> p | None \<Rightarrow> []),
        st_default = (case dc_default_backend c of Some d \<Rightarrow> d | None \<Rightarrow> []),
        st_backend = (if (case dc_profile c of Some p \<Rightarrow> p | None \<Rightarrow> []) \<in> set backend_names
          then (case dc_profile c of Some p \<Rightarrow> p | None \<Rightarrow> []) else [])\<rparr>"
    unfolding stamp_distribution_config_def Let_def by (auto simp: and_then_eq_Inr simp del: backend_texts)
  note contract = validated_config [OF c, unfolded config_contract_def]
  note enabled = enabled_single [simplified] enabled_members [simplified] enabled_count
  show ?thesis
  proof (cases "dc_profile c")
    case None
    show ?thesis
    proof (cases "dc_default_backend c")
      case (Some d)
      with contract have "d = ustr ''llvm'' \<or> d = ustr ''cranelift'' \<or> d = ustr ''c''" by simp
      with None Some contract s show ?thesis
        by (elim disjE; simp add: distribution_config_matches_features_def enabled)
    qed (use None contract s in \<open>auto simp: distribution_config_matches_features_def enabled\<close>)
  next
    case (Some p)
    with contract have "p = ustr ''full'' \<or> p = ustr ''llvm'' \<or> p = ustr ''cranelift'' \<or> p = ustr ''c''" by simp
    with Some contract s show ?thesis
      by (elim disjE; simp add: distribution_config_matches_features_def enabled)
  qed
qed

lemma stamps_satisfy_assertion_witness:
  "distribution_config_matches_features
     \<lparr>st_profile = ustr ''full'', st_default = ustr ''llvm'', st_backend = []\<rparr>
     \<lparr>av_llvm = True, av_cranelift = True, av_c = True\<rparr>"
  by (rule stamps_satisfy_assertion [of "ustr '' FULL''" "ustr ''llvm''" "[]"])
    (simp add: stamp_distribution_config_def validate_distribution_config_def normalize_distribution_stamp_def
      ascii_lowercase_def trim_def trim_end_def is_whitespace_def merge_legacy_def enabled_names_def
      available_list_def all_backends_def validate_backend_name_def validate_profile_def)

text \<open>
  C17. A compiler whose stamps and features pass its compile-time assertion (no other one is
  built) finds its configured default without reaching the \<open>unreachable!\<close>, and then selects a
  back end that is compiled into it, for every host, every requested native target and every
  loaded code generator, unless the user names the back end or the output dictates it (C source,
  LLVM text, or a cross compilation through C).
\<close>

theorem selection_available:
  "distribution_config_matches_features s a \<Longrightarrow>
     \<exists>configured. configured_default_backend s = Some configured \<and>
       (\<forall>inputs. \<not> in_c_source_output inputs \<and> \<not> in_c_cross_target inputs \<and> \<not> in_llvm_ir_output inputs \<longrightarrow>
          has_backend a (resolve_backend_with None inputs configured a))"
proof -
  assume "distribution_config_matches_features s a"
  then have "available_list a \<noteq> []"
    and dflt: "st_default s = [] \<or> (\<exists>b. st_default s = ustr (backend_str b) \<and> has_backend a b)"
    unfolding distribution_config_matches_features_def Let_def
    by (auto split: if_splits intro: exI [of _ Llvm] exI [of _ Cranelift] exI [of _ CBackend])
  note first = first_available_has [of a] first_available_None [of a] this(1)
  from dflt show ?thesis
  proof (elim disjE exE conjE)
    assume "st_default s = []"
    with first show ?thesis
      by (auto simp: configured_default_backend_def resolve_backend_with_def split: option.splits)
  next
    fix b assume "st_default s = ustr (backend_str b)" "has_backend a b"
    then show ?thesis
      by (cases b) (simp_all add: configured_default_backend_def resolve_backend_with_def
          backend_parse_def all_backends_def)
  qed
qed

lemma selection_available_witness:
  "\<exists>configured.
     configured_default_backend \<lparr>st_profile = [], st_default = ustr ''cranelift'', st_backend = []\<rparr> = Some configured \<and>
     has_backend \<lparr>av_llvm = True, av_cranelift = True, av_c = False\<rparr>
       (resolve_backend_with None
          \<lparr>in_c_source_output = False, in_llvm_ir_output = False, in_c_cross_target = False,
           in_native_target_requested = False, in_native_host_supported = False, in_llvm_available = True\<rparr>
          configured \<lparr>av_llvm = True, av_cranelift = True, av_c = False\<rparr>)"
  using selection_available [of "\<lparr>st_profile = [], st_default = ustr ''cranelift'', st_backend = []\<rparr>"
      "\<lparr>av_llvm = True, av_cranelift = True, av_c = False\<rparr>"]
  by (force simp: distribution_config_matches_features_def available_list_def all_backends_def)

section \<open>Names\<close>

text \<open>
  The printed names of back ends and targets are read back: a back end by its name, and a
  target by its archive tag on every host.
\<close>

theorem names_read_back:
  "parse_cli (ustr (backend_str b)) = Some (b, False) \<and> target_parse os arch (archive_tag t) = Some t"
  by (cases b; cases t) (simp_all add: parse_cli_def backend_parse_def all_backends_def target_parse_def)

text \<open>
  A mangled name is never a reserved word of C, and two names are mangled to the same one
  only if one of them is a reserved word and the other is that word with an underscore: the
  functions \<open>int\<close> and \<open>int_\<close> of a program get the same symbol.
\<close>

lemma reserved_underscore: "w \<in> set c_reserved \<Longrightarrow> w @ ''_'' \<notin> set c_reserved"
  by (auto simp: c_reserved_def)

theorem mangled_names:
  "mangle_c_name a \<notin> set c_reserved \<and>
   (mangle_c_name a = mangle_c_name b \<longleftrightarrow>
      a = b \<or> a \<in> set c_reserved \<and> b = a @ ''_'' \<or> b \<in> set c_reserved \<and> a = b @ ''_'')"
  using reserved_underscore by (auto simp: mangle_c_name_def)

section \<open>Runtime archives\<close>

lemma profile_from_spec:
  "profile_from profile names =
     (if list_ex (\<lambda>n. list_ex (starts_with n) [''osc_img_'', ''osc_svg_'', ''osc_tt_'']) names then FullProfile
      else if list_ex (\<lambda>n. list_ex (starts_with n) [''osc_gfx_'', ''osc_canvas_'', ''osc_clipboard_'']) names
      then GraphicsProfile
      else profile)"
  by (induction names arbitrary: profile) auto

text \<open>
  The runtime archive is the narrowest one that has the features of the symbols, in
  whatever order the symbols come: the full one if one of them is of images or fonts, the one
  with graphics if one of them draws, and else the core.
\<close>

theorem narrowest_profile:
  "profile_for_undefined_symbols names =
     (if list_ex (\<lambda>n. list_ex (starts_with n) [''osc_img_'', ''osc_svg_'', ''osc_tt_'']) names then FullProfile
      else if list_ex (\<lambda>n. list_ex (starts_with n) [''osc_gfx_'', ''osc_canvas_'', ''osc_clipboard_'']) names
      then GraphicsProfile
      else CoreProfile)"
  by (simp only: profile_for_undefined_symbols_def profile_from_spec)

section \<open>Arguments of the linker\<close>

text \<open>
  C38. In every flavor the objects of the program come first, then the libraries of the user and
  then the runtime archives, so that references from a library of the user are resolved by
  the archives that follow.
\<close>

theorem libraries_before_archives:
  "\<exists>before between after.
     render p = before @ lp_objects p @ lp_extra_objects p @ between @
       map extra_lib_arg (lp_extra_libs p) @ lp_archives p @ after"
proof -
  have place: "\<exists>before between after. l = before @ lp_objects p @ lp_extra_objects p @ between @
       map extra_lib_arg (lp_extra_libs p) @ lp_archives p @ after"
    if "l = b @ lp_objects p @ lp_extra_objects p @ m @ map extra_lib_arg (lp_extra_libs p) @ lp_archives p @ a"
    for l b m a
    using that by blast
  let ?after = "List.map_filter lib_archive_path (lp_system_libs p) @ option_args (\<lambda>b. [b]) (lp_builtins p)"
  show ?thesis
  proof (cases "lp_flavor p")
    case MingwDirect
    then have "render p =
        (flag (lp_strip p) ''-s'' @ option_args (\<lambda>e. [ustr ''-m'', ustr e]) (lp_emulation p) @ [ustr ''-Bdynamic''] @
         flag (lp_gc_sections p) ''--gc-sections'' @ flag (lp_build_id_none p) ''--build-id=none'' @
         option_args (\<lambda>e. [ustr ''--entry='' @ e]) (lp_entry p) @ [ustr ''-o'', lp_output p]) @
        lp_objects p @ lp_extra_objects p @ [] @ map extra_lib_arg (lp_extra_libs p) @ lp_archives p @ ?after"
      by (simp add: render_def render_mingw_direct_def direct_inputs_def)
    then show ?thesis by (rule place)
  next
    case ElfDirect
    then have "render p =
        (flag (lp_strip p) ''-s'' @ option_args (\<lambda>e. [ustr ''-m'', ustr e]) (lp_emulation p) @ [ustr ''-static''] @
         flag (lp_gc_sections p) ''--gc-sections'' @ flag (lp_build_id_none p) ''--build-id=none'' @
         [ustr ''-o'', lp_output p]) @
        lp_objects p @ lp_extra_objects p @ [] @ map extra_lib_arg (lp_extra_libs p) @ lp_archives p @ ?after"
      by (simp add: render_def render_elf_direct_def direct_inputs_def)
    then show ?thesis by (rule place)
  next
    case CompilerDriver
    then have "render p = (driver_flags p @ c_source_flags p) @ lp_objects p @ lp_extra_objects p @
        lp_extra_c_sources p @ map extra_lib_arg (lp_extra_libs p) @ lp_archives p @
        (map (\<lambda>d. ustr ''-L'' @ d) (lp_search_paths p) @ [ustr ''-o'', lp_output p] @
         map (\<lambda>l. ustr (''-l'' @ lib_name l)) (lp_system_libs p) @ lp_passthrough_cflags p @
         (if lp_runtime_mode p = Freestanding \<and> lp_target p = WindowsX64 then option_args (\<lambda>b. [b]) (lp_builtins p)
          else []))"
      by (simp add: render_def render_compiler_driver_def)
    then show ?thesis by (rule place)
  qed
qed

end
