(* ===== verification/Spec2Isabelle.thy ===== *)
theory Spec2Isabelle
  imports CDecls ImportLines BackendProps
begin

text \<open>
  The compiler of the Oscan language, from source text to the C text of its C code generator, as it
  is written in Rust under \<open>src/src\<close>.

  \<^bold>\<open>The parts and how they interact.\<close> \<open>main.rs\<close> flattens the imports of the program into one text
  with a map from its lines to the files; \<open>lexer.rs\<close> turns the text into tokens, \<open>parser.rs\<close> the
  tokens into a tree (\<open>ast.rs\<close>), \<open>semantic.rs\<close> checks the tree and fills the tables of types and
  functions that all later stages share (\<open>types.rs\<close>), \<open>lower.rs\<close> translates the tree to an
  intermediate representation in which each expression carries its type (\<open>ir.rs\<close>), and the
  verifier of \<open>ir.rs\<close> checks the result before it is given to a code generator. \<open>codegen.rs\<close> emits
  C text for an external compiler; the native code generators take the layout of types from \<open>backend/layout.rs\<close>. Which generator and which linker
  run is decided by \<open>backend/select.rs\<close>, \<open>backend/distribution_contract.rs\<close> and
  \<open>backend/link\<close>.

  \<^bold>\<open>The theories, in the order of the pipeline.\<close>
  \<^item> \<open>Prelude\<close>: the Rust types, the outcome of a fallible operation (\<open>Inl\<close> a failure, \<open>Inr\<close> a
    value), sequencing \<open>and_then\<close>, and lemmas on them. \<open>Errors\<close>: one constructor per message of
    the compiler. \<open>Syntax\<close>: \<open>token.rs\<close> and \<open>ast.rs\<close>.
  \<^item> \<open>SourceMap\<close> (\<open>debuginfo.rs\<close>) and \<open>Imports\<close> (\<open>resolve_imports\<close> and the renaming of
    namespaces in \<open>main.rs\<close>), with the lemmas in \<open>ImportProps\<close> and \<open>ImportLines\<close>. The file system is
    an argument, a record of \<open>canonicalize\<close> and \<open>read_to_string\<close>.
  \<^item> \<open>Lexer\<close> (\<open>lexer.rs\<close>): the cursor, the stack of modes of interpolated strings, and the literals.
    \<open>LexerProps\<close> and \<open>LexRoundtrip\<close> have its lemmas.
  \<^item> \<open>ParserBase\<close>, \<open>ParseTypes\<close>, \<open>ParseExpr\<close>, \<open>ParseDecl\<close> (\<open>parser.rs\<close>): one definition per
    production. \<open>ParseTotal\<close> shows that they are total.
  \<^item> \<open>Types\<close> (\<open>types.rs\<close>), \<open>Collection\<close> (\<open>collection.rs\<close>), \<open>Builtins\<close> (\<open>register_builtins\<close>).
  \<^item> \<open>Analyzer\<close>, \<open>Interpolation\<close>, \<open>Calls\<close>, \<open>Checker\<close>, \<open>Leaks\<close>, \<open>Analysis\<close> (\<open>semantic.rs\<close>): the
    record \<open>analyzer\<close> has the fields of \<open>SemanticAnalyzer\<close>; one definition per method, and one per
    arm of the long \<open>match\<close>es of \<open>check_expr\<close> and \<open>check_stmt\<close>. The innermost scope comes
    first in \<open>an_scopes\<close>. \<open>CheckerFrame\<close>, \<open>CheckerSafe\<close>, \<open>CheckerSound\<close> and \<open>AnalysisSound\<close> show
    its invariants, \<open>Visits\<close> and \<open>Rules\<close> the rules of the language.
  \<^item> \<open>IR\<close>, \<open>Verify\<close> (\<open>ir.rs\<close>) and \<open>Lower\<close> (\<open>lower.rs\<close>): the record \<open>lowering\<close> has the mutable fields
    of \<open>Lowering\<close>. \<open>Contexts\<close>, \<open>LowerParts\<close>, \<open>LowerNodes\<close>, \<open>LowerCalls\<close>, \<open>LowerAgree\<close>,
    \<open>LowerSound\<close> and \<open>LowerProgram\<close> relate it to the checker and the verifier. \<open>Reliance\<close> states
    what the program that lowering returns promises to a code generator beyond the verifier.
  \<^item> \<open>FrontEnd\<close> and \<open>Compile\<close>: the stages in the order of \<open>main\<close>.
  \<^item> \<open>Layout\<close> (\<open>backend/layout.rs\<close>, machine types of \<open>backend/lir.rs\<close>) on 32-bit words;
    \<open>LayoutFuel\<close> and \<open>CLayout\<close> compare it with the layout rules of C.
  \<^item> \<open>CText\<close>, \<open>CTypes\<close>, \<open>CCalls\<close>, \<open>CEmit\<close>, \<open>CGenerate\<close> (\<open>codegen.rs\<close>): the record \<open>code_generator\<close>
    has the fields of \<open>CodeGenerator\<close>. A method that emits lines is an \<open>action\<close>, one that also
    returns the text of an expression an \<open>emitter\<close>; the templates of \<open>format!\<close> are those of the code.
    The order in which the hash map of functions is iterated is the argument \<open>fns\<close>, the printing of
    64-bit floats a field of \<open>c_options\<close>. \<open>CFrame\<close> and \<open>CEmitProps\<close> show what emission leaves as it
    was and when it does not panic, \<open>COrder\<close> when the declarations can be ordered, \<open>CCollect\<close> what
    the collection of types finds. \<open>CBuiltins\<close> compares the table of C calls with the built-in
    functions, \<open>CRely\<close> derives from \<open>Reliance\<close> that the statements of an accepted program can be
    emitted, \<open>CSource\<close> that the positions that \<open>#line\<close> directives look up are in the table of files,
    and \<open>CSafe\<close> and \<open>CDecls\<close> put this together for accepted programs.
  \<^item> \<open>Backend\<close> (\<open>backend/select.rs\<close>, \<open>backend/distribution_contract.rs\<close>, the stamps of
    \<open>build.rs\<close>, \<open>backend/target.rs\<close>, \<open>backend/link/capability.rs\<close>, \<open>c_name.rs\<close>) and \<open>LinkPlan\<close>
    (\<open>backend/link/plan.rs\<close>), with their lemmas in \<open>BackendProps\<close>.

  \<^bold>\<open>What is shown.\<close>
  \<^item> Safety of the front end: for every text the driver ends with a program or with errors of the
    compiler, never with a panic. The parts are the totality of the lexer and the parser
    (\<open>tokenize_graceful\<close>, \<open>parse_program_total\<close>) and the contract \<open>safe\<close> of the checkers, with the
    invariant that types name declared structs and enums (\<open>analyze_total\<close>, \<open>check_expr_sound\<close>).
  \<^item> Frame and invariants of the analysis: expressions leave the state as it was, statements add
    bindings to the innermost scope (\<open>check_expr_frame\<close>, \<open>check_stmt_frame\<close>), the tables name
    declared types only (\<open>analyze_closed\<close>).
  \<^item> Rules of the language that every accepted program obeys, on its syntax (theory \<open>Rules\<close>).
  \<^item> Refinement between the stages: what the analysis accepts, lowering translates without a
    panic, with the types that the checker has computed, and the verifier accepts
    (\<open>accepted_reaches_backend\<close>, \<open>lowered_types\<close>), provided that array literals and \<open>Result\<close>
    constructors stand where both stages find the same expected type, and \<open>pop\<close> is not called
    (\<open>Contexts\<close>).
    \<open>nested_result_panics\<close> and \<open>popped_result_internal_error\<close> are programs outside of this condition
    for which the compiler fails.
  \<^item> Memory: the types of an accepted program have a layout; it is that of the rules of C as
    long as sizes fit into 32 bits, fields do not overlap; \<open>oversized_struct_wraps\<close> is
    a program that exceeds the bound.
  \<^item> The C code generator returns on accepted programs (\<open>generation_total\<close>), and declares every
    type after the types that it contains (\<open>declarations_ordered\<close>). Every built-in function has an
    entry in its table of calls that takes as many arguments (\<open>builtins_called\<close>).
  \<^item> Imports: termination, the map of lines, and the renaming of words against a reference.
  \<^item> Round trips and references: printing and lexing of tokens, names of collection intrinsics,
    the join of types as a least upper bound.
  \<^item> Selection and packaging: a selected back end is compiled in, stamps that the build script
    accepts satisfy the assertion in the compiler, the order of the arguments of a link.

  \<^bold>\<open>Recursion and bounds.\<close> The parser carries a fuel that is computed from the number of tokens
  left; \<open>ParseTotal\<close> shows that it never runs out. \<open>resolve_imports\<close> follows imports to a given depth;
  with more than the number of files it always ends. \<open>layout_fuel n\<close> follows
  structs into their fields; for an accepted program some \<open>n\<close> is enough for all types, and more
  changes nothing. \<open>replace_from\<close>, the search for a word, is a partial function, and
  \<open>mangle_total\<close> shows that it returns for the words that it is used with. All other
  recursion is over the syntax or with a measure. Fuel that is exhausted is an outcome of its
  own (\<open>OutOfFuel\<close>, \<open>ImportOutOfFuel\<close>), distinct from all outcomes of the code, and so is a panic
  (\<open>Panicked\<close>, \<open>ImportPanicked\<close>). The native call stack has no bound in the model.

  \<^bold>\<open>Numbers and text.\<close> \<open>i64\<close> literals are \<open>int\<close> with the range checks of the code, \<open>f64\<close> literals
  are the nearest binary float, exactly rounded, sizes in memory are words of 32 bits, positions
  are \<open>nat\<close>. The text of a program is a list of Unicode scalar values; names are ASCII. A hash map
  is a map; where the code iterates over one, the result of the model does not depend on the order.

  \<^bold>\<open>Not modelled.\<close> The native code generators (\<open>backend/func.rs\<close>, \<open>backend/llvm\<close>,
  \<open>backend/extern_shim.rs\<close>): what they emit is calls of the Cranelift and LLVM libraries, whose
  meaning is outside of the repository, and so is the meaning of C text. The discovery of tools and
  archives, the invocation of compilers and linkers, the packing of native assets and the command
  line are input and output. The runtime library is C. The wording of the messages is left out; the
  values that a message shows are kept.
\<close>

end
